(* ===== verification/Go_Prelude.thy ===== *)
theory Go_Prelude
  imports
    Main
    "HOL-Library.Char_ord"
    "HOL-Library.List_Lexorder"
    "HOL-Library.Product_Lexorder"
    "HOL-Library.Word"
    "HOL-Library.Multiset"
begin

text \<open>
  What every component uses of Go and of its standard library: error values and their
  text, the identifier regular expressions of the kernel, byte-wise string order and
  sorting, and fixed-width integers.

  A Go string is a list of bytes (\<open>string\<close>, one \<open>char\<close> per byte); Go compares strings byte
  by byte, which is the order of \<open>HOL-Library.List_Lexorder\<close> over
  \<open>HOL-Library.Char_ord\<close>. A pointer to an immutable value is an \<open>option\<close>. A function with
  results \<open>(T, error)\<close> returns \<open>gerror + T\<close>, a function with the single result \<open>error\<close>
  returns \<open>gerror option\<close>, where \<open>None\<close> is \<open>nil\<close>.
\<close>

section \<open>Collections of facts\<close>

named_theorems ident_simps \<open>facts about the identifier regular expressions\<close>
named_theorems canon \<open>facts about canonical (sorted, duplicate-free) lists\<close>

section \<open>Errors\<close>

text \<open>
  The text of an error or of a reason is kept as its fragments: literal text and the
  arguments of the format verbs \<open>%q\<close>, \<open>%v\<close> and \<open>%d\<close>. Only the rendering of those
  arguments is left out.
\<close>

datatype frag = Lit string | Quoted string | Listed "string list" | Number int

type_synonym message = "frag list"

text \<open>
  The class of an error is what \<open>errors.As\<close> finds in its chain: one of the two typed
  errors of the kernel, one of those of the software-delivery protocol and engine, or none.
  Wrapping with \<open>%w\<close> keeps the class.
\<close>

datatype error_class = Plain | Stale | Recovery_required | Missing_parameter | Decision_error
  | Stale_admission | Stale_prescription | Postcondition | Outcome_unknown | Replay_recovery

datatype gerror = Gerror (eclass: error_class) (etext: message)

abbreviation errorf :: "message \<Rightarrow> gerror" where
  "errorf m \<equiv> Gerror Plain m"

definition wrapf :: "message \<Rightarrow> gerror \<Rightarrow> gerror" where
  "wrapf prefix e = Gerror (eclass e) (prefix @ etext e)"

lemma eclass_wrapf [simp]: "eclass (wrapf m e) = eclass e"
  by (simp add: wrapf_def)

section \<open>Strings and identifiers\<close>

definition code :: "char \<Rightarrow> nat" where
  "code c = of_char c"

definition digit_char :: "char \<Rightarrow> bool" where
  "digit_char c = (48 \<le> code c \<and> code c \<le> 57)"

definition upper_char :: "char \<Rightarrow> bool" where
  "upper_char c = (65 \<le> code c \<and> code c \<le> 90)"

definition lower_char :: "char \<Rightarrow> bool" where
  "lower_char c = (97 \<le> code c \<and> code c \<le> 122)"

definition id_start :: "char \<Rightarrow> bool" where
  "id_start c = (upper_char c \<or> lower_char c \<or> digit_char c)"

definition id_part :: "char \<Rightarrow> bool" where
  "id_part c = (id_start c \<or> c \<in> {CHR ''.'', CHR ''_'', CHR ''-''})"

text \<open>\<open>^[A-Za-z0-9][A-Za-z0-9._-]*$\<close>\<close>

fun semantic_id :: "string \<Rightarrow> bool" where
  "semantic_id [] = False"
| "semantic_id (c # cs) = (id_start c \<and> list_all id_part cs)"

text \<open>Splitting at a separator, as many segments as separators plus one.\<close>

fun split_at :: "char \<Rightarrow> string \<Rightarrow> string list" where
  "split_at sep [] = [[]]"
| "split_at sep (c # cs) =
     (if c = sep then [] # split_at sep cs
      else (case split_at sep cs of [] \<Rightarrow> [[c]] | seg # segs \<Rightarrow> (c # seg) # segs))"

text \<open>\<open>^[A-Za-z0-9][A-Za-z0-9._-]*(?:/[A-Za-z0-9][A-Za-z0-9._-]*)*$\<close>\<close>

definition qualified_semantic_id :: "string \<Rightarrow> bool" where
  "qualified_semantic_id s = list_all semantic_id (split_at (CHR ''/'') s)"

lemma split_at_nonempty [simp]: "split_at sep s \<noteq> []"
  by (induction s) (auto split: list.splits)

lemma split_at_single: "sep \<notin> set s \<Longrightarrow> split_at sep s = [s]"
  by (induction s) auto

lemma slash_not_id [simp]: "\<not> id_start (CHR ''/'')" "\<not> id_part (CHR ''/'')"
  by (simp_all add: id_part_def id_start_def upper_char_def lower_char_def digit_char_def code_def)

lemma semantic_id_nonempty [ident_simps]: "semantic_id s \<Longrightarrow> s \<noteq> []"
  by auto

lemma semantic_id_no_slash: "semantic_id s \<Longrightarrow> CHR ''/'' \<notin> set s"
  by (cases s) (auto simp: list_all_iff)

lemma semantic_id_qualified: "semantic_id s \<Longrightarrow> qualified_semantic_id s"
  by (simp add: qualified_semantic_id_def split_at_single semantic_id_no_slash)

lemma qualified_nonempty [ident_simps]: "qualified_semantic_id s \<Longrightarrow> s \<noteq> []"
  by (auto simp: qualified_semantic_id_def)

lemmas ident_eval = qualified_semantic_id_def id_start_def id_part_def upper_char_def
  lower_char_def digit_char_def code_def

text \<open>The \<open>contains\<close> helpers of the kernel: a linear search.\<close>

definition contains :: "'a list \<Rightarrow> 'a \<Rightarrow> bool" where
  "contains values wanted = (wanted \<in> set values)"

lemma contains_iff [simp]: "contains xs x \<longleftrightarrow> x \<in> set xs"
  by (simp add: contains_def)

section \<open>Canonical lists\<close>

text \<open>
  Sorting a string slice with \<open>sort.Strings\<close> or with \<open>sort.Slice\<close> and \<open><\<close>: the result is
  determined by the elements, since equal strings cannot be told apart.
\<close>

lemma sort_strict: "distinct xs \<Longrightarrow> sorted_wrt (<) (sort (xs :: 'a::linorder list))"
  by (simp add: strict_sorted_iff)

lemma canonical_unique [canon]:
  "set xs = set ys \<Longrightarrow> sort (remdups xs) = sort (remdups (ys :: 'a::linorder list))"
  by (metis sorted_list_of_set_sort_remdups)

lemma sort_remdups_distinct [canon]: "distinct xs \<Longrightarrow> sort (remdups xs) = sort xs"
  by (simp add: distinct_remdups_id)

lemma sort_sort [simp]: "sort (sort (xs :: 'a::linorder list)) = sort xs"
  by (simp add: sorted_sort_id)

lemma distinct_set_sort_eq:
  "distinct xs \<Longrightarrow> distinct ys \<Longrightarrow> set xs = set ys \<Longrightarrow> sort xs = sort (ys :: 'a::linorder list)"
  using canonical_unique [of xs ys] by (simp add: sort_remdups_distinct)

lemma sort_key_unique:
  assumes "distinct (map f xs)" and "mset xs = mset ys"
  shows "sort_key f xs = sort_key f (ys :: 'a list)"
proof -
  have set: "set xs = set ys"
    using assms(2) by (metis set_mset_mset)
  have "mset (map f xs) = mset (map f ys)"
    using assms(2) by simp
  then have d: "distinct (map f ys)"
    using assms(1) by (metis distinct_count_atmost_1 set_mset_mset)
  have inj: "inj_on f (set xs)"
    using assms(1) by (simp add: distinct_map)
  have "distinct (map f (sort_key f zs))" if "distinct (map f zs)" for zs :: "'a list"
    using that by (simp add: distinct_map)
  then show ?thesis
    using map_sorted_distinct_set_unique [of f "sort_key f xs" "sort_key f ys"] inj set assms(1) d
    by simp
qed

section \<open>Association of results\<close>

text \<open>Applying a fallible operation to each element, stopping at the first error.\<close>

fun map_result :: "('a \<Rightarrow> 'e + 'b) \<Rightarrow> 'a list \<Rightarrow> 'e + 'b list" where
  "map_result f [] = Inr []"
| "map_result f (x # xs) =
     (case f x of Inl e \<Rightarrow> Inl e
      | Inr y \<Rightarrow> (case map_result f xs of Inl e \<Rightarrow> Inl e | Inr ys \<Rightarrow> Inr (y # ys)))"

text \<open>The first error of a list of checks.\<close>

fun first_error :: "('a \<Rightarrow> 'e option) \<Rightarrow> 'a list \<Rightarrow> 'e option" where
  "first_error f [] = None"
| "first_error f (x # xs) = (case f x of Some e \<Rightarrow> Some e | None \<Rightarrow> first_error f xs)"

lemma map_result_Inr_iff:
  "map_result f xs = Inr ys \<longleftrightarrow> list_all2 (\<lambda>x y. f x = Inr y) xs ys"
proof (induction xs arbitrary: ys)
  case Nil
  then show ?case by auto
next
  case (Cons x xs)
  have "map_result f (x # xs) = Inr ys
      \<longleftrightarrow> (\<exists>y zs. ys = y # zs \<and> f x = Inr y \<and> map_result f xs = Inr zs)"
    by (auto split: sum.splits)
  then show ?case
    by (simp add: Cons.IH list_all2_Cons1)
qed

lemma map_result_all_Inr: "(\<And>x. x \<in> set xs \<Longrightarrow> f x = Inr (g x)) \<Longrightarrow> map_result f xs = Inr (map g xs)"
  by (induction xs) auto

lemma first_error_None_iff [simp]: "first_error f xs = None \<longleftrightarrow> (\<forall>x\<in>set xs. f x = None)"
  by (induction xs) (auto split: option.splits)

section \<open>Unsigned 64-bit counters\<close>

type_synonym u64 = "64 word"

lemma u64_succ_neq [simp]: "(r :: u64) + 1 \<noteq> r"
  by simp

lemma u64_succ_succ_neq: "(r :: u64) + 2 \<noteq> r"
  by simp

lemma u64_add_small:
  assumes "uint (x :: u64) + 2 < 2 ^ 64"
  shows "uint (x + 1) = uint x + 1" "uint (x + 2) = uint x + 2"
  using assms by (simp_all add: uint_word_ariths mod_pos_pos_trivial)

lemma u64_nonzero: "uint (x :: u64) \<noteq> 0 \<longleftrightarrow> x \<noteq> 0"
  by (simp add: uint_0_iff)

end
