(* ===== verification/Go_Hash.thy ===== *)
theory Go_Hash
  imports Go_Prelude
begin

text \<open>
  \<open>crypto/sha256\<close> with \<open>encoding/hex\<close>, as \<open>sha256_hex\<close> on byte strings, and the decimal
  text of numbers (\<open>strconv\<close>). SHA-256 is FIPS 180-4 on 32-bit words; the only facts the
  components use of it are that it is a function and that its text has 64 bytes.
\<close>

unbundle bit_operations_syntax

section \<open>SHA-256\<close>

type_synonym u32 = "32 word"

definition sha_k :: "u32 list" where
  "sha_k =
    [1116352408, 1899447441, 3049323471, 3921009573, 961987163, 1508970993, 2453635748, 2870763221,
     3624381080, 310598401, 607225278, 1426881987, 1925078388, 2162078206, 2614888103, 3248222580,
     3835390401, 4022224774, 264347078, 604807628, 770255983, 1249150122, 1555081692, 1996064986,
     2554220882, 2821834349, 2952996808, 3210313671, 3336571891, 3584528711, 113926993, 338241895,
     666307205, 773529912, 1294757372, 1396182291, 1695183700, 1986661051, 2177026350, 2456956037,
     2730485921, 2820302411, 3259730800, 3345764771, 3516065817, 3600352804, 4094571909, 275423344,
     430227734, 506948616, 659060556, 883997877, 958139571, 1322822218, 1537002063, 1747873779,
     1955562222, 2024104815, 2227730452, 2361852424, 2428436474, 2756734187, 3204031479, 3329325298]"

definition rotr :: "nat \<Rightarrow> u32 \<Rightarrow> u32" where
  "rotr n x = drop_bit n x OR push_bit (32 - n) x"

definition big_sigma0 :: "u32 \<Rightarrow> u32" where
  "big_sigma0 x = rotr 2 x XOR rotr 13 x XOR rotr 22 x"

definition big_sigma1 :: "u32 \<Rightarrow> u32" where
  "big_sigma1 x = rotr 6 x XOR rotr 11 x XOR rotr 25 x"

definition small_sigma0 :: "u32 \<Rightarrow> u32" where
  "small_sigma0 x = rotr 7 x XOR rotr 18 x XOR drop_bit 3 x"

definition small_sigma1 :: "u32 \<Rightarrow> u32" where
  "small_sigma1 x = rotr 17 x XOR rotr 19 x XOR drop_bit 10 x"

text \<open>The message schedule, latest word first.\<close>

fun sha_extend :: "nat \<Rightarrow> u32 list \<Rightarrow> u32 list" where
  "sha_extend 0 ws = ws"
| "sha_extend (Suc n) ws =
     sha_extend n ((small_sigma1 (ws ! 1) + ws ! 6 + small_sigma0 (ws ! 14) + ws ! 15) # ws)"

fun be_word :: "string \<Rightarrow> u32" where
  "be_word bs = foldl (\<lambda>acc b. push_bit 8 acc OR of_nat (code b)) 0 bs"

fun be_words :: "nat \<Rightarrow> string \<Rightarrow> u32 list" where
  "be_words 0 bs = []"
| "be_words (Suc n) bs = be_word (take 4 bs) # be_words n (drop 4 bs)"

type_synonym sha_state = "u32 \<times> u32 \<times> u32 \<times> u32 \<times> u32 \<times> u32 \<times> u32 \<times> u32"

fun sha_round :: "sha_state \<Rightarrow> u32 \<times> u32 \<Rightarrow> sha_state" where
  "sha_round (a, b, c, d, e, f, g, h) (k, w) =
     (let t1 = h + big_sigma1 e + ((e AND f) XOR (NOT e AND g)) + k + w;
          t2 = big_sigma0 a + ((a AND b) XOR (a AND c) XOR (b AND c))
      in (t1 + t2, a, b, c, d + t1, e, f, g))"

fun sha_add :: "sha_state \<Rightarrow> sha_state \<Rightarrow> sha_state" where
  "sha_add (a, b, c, d, e, f, g, h) (a', b', c', d', e', f', g', h') =
     (a + a', b + b', c + c', d + d', e + e', f + f', g + g', h + h')"

definition sha_block :: "sha_state \<Rightarrow> string \<Rightarrow> sha_state" where
  "sha_block st bs =
     sha_add st (foldl sha_round st (zip sha_k (rev (sha_extend 48 (rev (be_words 16 bs))))))"

definition sha_init :: sha_state where
  "sha_init = (0x6a09e667, 0xbb67ae85, 0x3c6ef372, 0xa54ff53a,
               0x510e527f, 0x9b05688c, 0x1f83d9ab, 0x5be0cd19)"

fun be_bytes :: "nat \<Rightarrow> nat \<Rightarrow> string" where
  "be_bytes 0 n = []"
| "be_bytes (Suc k) n = be_bytes k (n div 256) @ [char_of (n mod 256)]"

definition sha_pad :: "string \<Rightarrow> string" where
  "sha_pad m = m @ [CHR 0x80] @ replicate ((119 - length m mod 64) mod 64) (CHR 0x00)
                 @ be_bytes 8 (8 * length m)"

fun sha_blocks :: "nat \<Rightarrow> sha_state \<Rightarrow> string \<Rightarrow> sha_state" where
  "sha_blocks 0 st bs = st"
| "sha_blocks (Suc n) st bs = sha_blocks n (sha_block st (take 64 bs)) (drop 64 bs)"

definition hex_digit :: "nat \<Rightarrow> char" where
  "hex_digit n = char_of (if n < 10 then 48 + n else 87 + n)"

fun hex_word :: "nat \<Rightarrow> u32 \<Rightarrow> string" where
  "hex_word 0 x = []"
| "hex_word (Suc n) x = hex_word n (drop_bit 4 x) @ [hex_digit (unat (x AND 15))]"

fun hex_state :: "sha_state \<Rightarrow> string" where
  "hex_state (a, b, c, d, e, f, g, h) =
     concat (map (hex_word 8) [a, b, c, d, e, f, g, h])"

definition sha256_hex :: "string \<Rightarrow> string" where
  "sha256_hex m =
     (let p = sha_pad m in hex_state (sha_blocks (length p div 64) sha_init p))"

lemma length_hex_word [simp]: "length (hex_word n x) = n"
  by (induction n arbitrary: x) auto

lemma length_hex_state [simp]: "length (hex_state st) = 64"
  by (induction st rule: hex_state.induct) simp

lemma length_sha256_hex [simp]: "length (sha256_hex m) = 64"
  by (simp add: sha256_hex_def Let_def)

lemma length_be_bytes [simp]: "length (be_bytes k n) = k"
  by (induction k arbitrary: n) auto

text \<open>The padding fills whole blocks, so the hash reads every byte of the message.\<close>

lemma sha_pad_blocks: "length (sha_pad m) mod 64 = 0"
proof -
  define r where "r = length m mod 64"
  have r: "r < 64" by (simp add: r_def)
  have "(119 - r) mod 64 = (if r < 56 then 55 - r else 119 - r)"
    using r by (auto simp: le_mod_geq)
  then have "(r + (119 - r) mod 64 + 9) mod 64 = 0"
    using r by auto
  then have "(length m + ((119 - r) mod 64 + 9)) mod 64 = 0"
    unfolding r_def by (metis add.assoc mod_add_left_eq)
  then show ?thesis by (simp add: sha_pad_def r_def ac_simps)
qed

section \<open>Decimal numbers\<close>

fun decimal_nat :: "nat \<Rightarrow> string" where
  "decimal_nat n =
     (if n < 10 then [char_of (48 + n)] else decimal_nat (n div 10) @ [char_of (48 + n mod 10)])"

declare decimal_nat.simps [simp del]

definition decimal_int :: "int \<Rightarrow> string" where
  "decimal_int i = (if i < 0 then CHR ''-'' # decimal_nat (nat (- i)) else decimal_nat (nat i))"

definition digits_value :: "string \<Rightarrow> nat" where
  "digits_value s = foldl (\<lambda>acc c. 10 * acc + (code c - 48)) 0 s"

lemma code_char_of [simp]: "n < 256 \<Longrightarrow> code (char_of n) = n"
  by (simp add: code_def)

lemma digits_value_append: "digits_value (xs @ [c]) = 10 * digits_value xs + (code c - 48)"
  by (simp add: digits_value_def)

lemma decimal_nat_value [simp]: "digits_value (decimal_nat n) = n"
proof (induction n rule: decimal_nat.induct)
  case (1 n)
  show ?case
  proof (cases "n < 10")
    case True
    then show ?thesis by (simp add: decimal_nat.simps [of n] digits_value_def)
  next
    case False
    then show ?thesis
      using 1 by (simp add: decimal_nat.simps [of n] digits_value_append)
  qed
qed

lemma decimal_nat_digits: "list_all digit_char (decimal_nat n)"
proof (induction n rule: decimal_nat.induct)
  case (1 n)
  show ?case
  proof (cases "n < 10")
    case True
    then show ?thesis by (simp add: decimal_nat.simps [of n] digit_char_def)
  next
    case False
    have "n mod 10 < 10" by simp
    then show ?thesis
      using False 1 by (simp add: decimal_nat.simps [of n] digit_char_def)
  qed
qed

lemma decimal_nat_nonempty [simp]: "decimal_nat n \<noteq> []"
  by (subst decimal_nat.simps) simp

end
