(* ===== verification/Go_Json.thy ===== *)
theory Go_Json
  imports Go_Hash
begin

text \<open>
  \<open>encoding/json\<close> as the program uses it: \<open>Marshal\<close> (\<open>encode\<close>), \<open>Valid\<close> (\<open>json_valid\<close>), the
  compaction of a \<open>RawMessage\<close> (\<open>json_compact\<close>) and decoding (\<open>json_parse\<close>); and the instants
  of \<open>time\<close> with their strict RFC 3339 text (\<open>time_text\<close>).

  A struct is encoded as the object of its fields in declaration order; the components
  build that tree (\<open>json\<close>) and \<open>encode\<close> produces the bytes \<open>json.Marshal\<close> writes, HTML
  escaping included. \<open>content_hash\<close> is the kernel's \<open>contentHash\<close>: the hexadecimal SHA-256
  of those bytes.
\<close>

section \<open>Strings\<close>

definition backslash :: char where
  "backslash = CHR 0x5C"

definition u_escape :: "char \<Rightarrow> string" where
  "u_escape c = [backslash] @ ''u00'' @ [hex_digit (code c div 16), hex_digit (code c mod 16)]"

text \<open>One byte below \<open>utf8.RuneSelf\<close>, with HTML escaping on.\<close>

definition escape_ascii :: "char \<Rightarrow> string" where
  "escape_ascii c =
     (if c = backslash \<or> c = CHR 0x22 then [backslash, c]
      else if code c = 8 then [backslash, CHR ''b'']
      else if code c = 12 then [backslash, CHR ''f'']
      else if code c = 10 then [backslash, CHR ''n'']
      else if code c = 13 then [backslash, CHR ''r'']
      else if code c = 9 then [backslash, CHR ''t'']
      else if code c < 32 \<or> c \<in> {CHR ''<'', CHR ''>'', CHR ''&''} then u_escape c
      else [c])"

definition byte_in :: "nat \<Rightarrow> nat \<Rightarrow> char \<Rightarrow> bool" where
  "byte_in lo hi c = (lo \<le> code c \<and> code c \<le> hi)"

text \<open>The length of the well-formed multi-byte sequence at the front, 0 where there is none.\<close>

fun utf8_len :: "string \<Rightarrow> nat" where
  "utf8_len (a # b # c # d # _) =
     (if byte_in 0xC2 0xDF a \<and> byte_in 0x80 0xBF b then 2
      else if (code a = 0xE0 \<and> byte_in 0xA0 0xBF b
               \<or> (byte_in 0xE1 0xEC a \<or> byte_in 0xEE 0xEF a) \<and> byte_in 0x80 0xBF b
               \<or> code a = 0xED \<and> byte_in 0x80 0x9F b) \<and> byte_in 0x80 0xBF c then 3
      else if (code a = 0xF0 \<and> byte_in 0x90 0xBF b \<or> byte_in 0xF1 0xF3 a \<and> byte_in 0x80 0xBF b
               \<or> code a = 0xF4 \<and> byte_in 0x80 0x8F b)
              \<and> byte_in 0x80 0xBF c \<and> byte_in 0x80 0xBF d then 4
      else 0)"
| "utf8_len [a, b, c] =
     (if byte_in 0xC2 0xDF a \<and> byte_in 0x80 0xBF b then 2
      else if (code a = 0xE0 \<and> byte_in 0xA0 0xBF b
               \<or> (byte_in 0xE1 0xEC a \<or> byte_in 0xEE 0xEF a) \<and> byte_in 0x80 0xBF b
               \<or> code a = 0xED \<and> byte_in 0x80 0x9F b) \<and> byte_in 0x80 0xBF c then 3
      else 0)"
| "utf8_len [a, b] = (if byte_in 0xC2 0xDF a \<and> byte_in 0x80 0xBF b then 2 else 0)"
| "utf8_len _ = 0"

text \<open>U+2028 and U+2029, which \<open>Marshal\<close> always escapes.\<close>

definition line_separator :: "string \<Rightarrow> bool" where
  "line_separator bs = (bs \<in> {[CHR 0xE2, CHR 0x80, CHR 0xA8], [CHR 0xE2, CHR 0x80, CHR 0xA9]})"

definition escape_separator :: "string \<Rightarrow> string" where
  "escape_separator bs = [backslash] @ ''u202'' @ [hex_digit (code (bs ! 2) mod 16)]"

function escape_string :: "string \<Rightarrow> string" where
  "escape_string [] = []"
| "escape_string (c # cs) =
     (if code c < 128 then escape_ascii c @ escape_string cs
      else (let n = utf8_len (c # cs); r = take n (c # cs) in
        if n = 0 then [backslash] @ ''ufffd'' @ escape_string cs
        else if line_separator r then escape_separator r @ escape_string (drop (n - 1) cs)
        else r @ escape_string (drop (n - 1) cs)))"
  by pat_completeness auto
termination
  by (relation "measure length") auto

definition encode_string :: "string \<Rightarrow> string" where
  "encode_string s = [CHR 0x22] @ escape_string s @ [CHR 0x22]"

section \<open>The scanner\<close>

text \<open>
  The scanner of \<open>encoding/json\<close>: a state per position of the grammar and the stack of
  open objects and arrays. \<open>In_literal rest\<close> stands for the states inside \<open>true\<close>, \<open>false\<close>
  and \<open>null\<close>, with the bytes still to come.
\<close>

datatype parse_ctx = Object_key | Object_value | Array_value

datatype scan_state =
    Begin_value | Begin_value_or_empty | Begin_string | Begin_string_or_empty
  | End_value | End_top | In_string | In_string_esc | In_string_u nat
  | Neg | Num1 | Num0 | Dot | Dot0 | Exp | Exp_sign | Exp0 | In_literal string | Scan_error

type_synonym scanner = "scan_state \<times> parse_ctx list"

text \<open>What the step says of the byte: part of the value, or one compaction drops.\<close>

datatype scan_op = Scan_continue | Scan_skip | Scan_fail

definition json_space :: "char \<Rightarrow> bool" where
  "json_space c = (code c \<in> {9, 10, 13, 32})"

definition nonzero_digit :: "char \<Rightarrow> bool" where
  "nonzero_digit c = (digit_char c \<and> c \<noteq> CHR ''0'')"

definition hex_char :: "char \<Rightarrow> bool" where
  "hex_char c = (digit_char c \<or> byte_in 97 102 c \<or> byte_in 65 70 c)"

definition max_nesting :: nat where
  "max_nesting = 10000"

definition scan_error :: "scan_op \<times> scanner" where
  "scan_error = (Scan_fail, Scan_error, [])"

definition push_ctx :: "parse_ctx \<Rightarrow> scan_state \<Rightarrow> parse_ctx list \<Rightarrow> scan_op \<times> scanner" where
  "push_ctx ctx next stack =
     (if Suc (length stack) \<le> max_nesting then (Scan_continue, next, ctx # stack) else scan_error)"

definition pop_ctx :: "parse_ctx list \<Rightarrow> scan_op \<times> scanner" where
  "pop_ctx stack = (Scan_continue, (if tl stack = [] then End_top else End_value), tl stack)"

definition step_end_value :: "parse_ctx list \<Rightarrow> char \<Rightarrow> scan_op \<times> scanner" where
  "step_end_value stack c =
     (case stack of
        [] \<Rightarrow> if json_space c then (Scan_skip, End_top, []) else scan_error
      | ctx # rest \<Rightarrow>
          if json_space c then (Scan_skip, End_value, stack)
          else (case ctx of
              Object_key \<Rightarrow>
                if c = CHR '':'' then (Scan_continue, Begin_value, Object_value # rest) else scan_error
            | Object_value \<Rightarrow>
                if c = CHR '','' then (Scan_continue, Begin_string, Object_key # rest)
                else if c = CHR ''}'' then pop_ctx stack else scan_error
            | Array_value \<Rightarrow>
                if c = CHR '','' then (Scan_continue, Begin_value, stack)
                else if c = CHR '']'' then pop_ctx stack else scan_error))"

definition step_begin_value :: "parse_ctx list \<Rightarrow> char \<Rightarrow> scan_op \<times> scanner" where
  "step_begin_value stack c =
     (if json_space c then (Scan_skip, Begin_value, stack)
      else if c = CHR ''{'' then push_ctx Object_key Begin_string_or_empty stack
      else if c = CHR ''['' then push_ctx Array_value Begin_value_or_empty stack
      else if c = CHR 0x22 then (Scan_continue, In_string, stack)
      else if c = CHR ''-'' then (Scan_continue, Neg, stack)
      else if c = CHR ''0'' then (Scan_continue, Num0, stack)
      else if nonzero_digit c then (Scan_continue, Num1, stack)
      else if c = CHR ''t'' then (Scan_continue, In_literal ''rue'', stack)
      else if c = CHR ''f'' then (Scan_continue, In_literal ''alse'', stack)
      else if c = CHR ''n'' then (Scan_continue, In_literal ''ull'', stack)
      else scan_error)"

definition step_begin_string :: "parse_ctx list \<Rightarrow> char \<Rightarrow> scan_op \<times> scanner" where
  "step_begin_string stack c =
     (if json_space c then (Scan_skip, Begin_string, stack)
      else if c = CHR 0x22 then (Scan_continue, In_string, stack) else scan_error)"

definition step_num0 :: "parse_ctx list \<Rightarrow> char \<Rightarrow> scan_op \<times> scanner" where
  "step_num0 stack c =
     (if c = CHR ''.'' then (Scan_continue, Dot, stack)
      else if c \<in> {CHR ''e'', CHR ''E''} then (Scan_continue, Exp, stack)
      else step_end_value stack c)"

definition step_exp_sign :: "parse_ctx list \<Rightarrow> char \<Rightarrow> scan_op \<times> scanner" where
  "step_exp_sign stack c = (if digit_char c then (Scan_continue, Exp0, stack) else scan_error)"

fun scan_step :: "scanner \<Rightarrow> char \<Rightarrow> scan_op \<times> scanner" where
  "scan_step (Begin_value, stack) c = step_begin_value stack c"
| "scan_step (Begin_value_or_empty, stack) c =
     (if json_space c then (Scan_skip, Begin_value_or_empty, stack)
      else if c = CHR '']'' then step_end_value stack c else step_begin_value stack c)"
| "scan_step (Begin_string, stack) c = step_begin_string stack c"
| "scan_step (Begin_string_or_empty, stack) c =
     (if json_space c then (Scan_skip, Begin_string_or_empty, stack)
      else if c = CHR ''}'' then step_end_value (Object_value # tl stack) c
      else step_begin_string stack c)"
| "scan_step (End_value, stack) c = step_end_value stack c"
| "scan_step (End_top, stack) c =
     (if json_space c then (Scan_skip, End_top, stack) else scan_error)"
| "scan_step (In_string, stack) c =
     (if c = CHR 0x22 then (Scan_continue, End_value, stack)
      else if c = backslash then (Scan_continue, In_string_esc, stack)
      else if code c < 32 then scan_error else (Scan_continue, In_string, stack))"
| "scan_step (In_string_esc, stack) c =
     (if c \<in> {CHR ''b'', CHR ''f'', CHR ''n'', CHR ''r'', CHR ''t'', backslash, CHR ''/'', CHR 0x22}
      then (Scan_continue, In_string, stack)
      else if c = CHR ''u'' then (Scan_continue, In_string_u 3, stack) else scan_error)"
| "scan_step (In_string_u n, stack) c =
     (if hex_char c
      then (Scan_continue, (case n of 0 \<Rightarrow> In_string | Suc m \<Rightarrow> In_string_u m), stack)
      else scan_error)"
| "scan_step (Neg, stack) c =
     (if c = CHR ''0'' then (Scan_continue, Num0, stack)
      else if nonzero_digit c then (Scan_continue, Num1, stack) else scan_error)"
| "scan_step (Num1, stack) c =
     (if digit_char c then (Scan_continue, Num1, stack) else step_num0 stack c)"
| "scan_step (Num0, stack) c = step_num0 stack c"
| "scan_step (Dot, stack) c = (if digit_char c then (Scan_continue, Dot0, stack) else scan_error)"
| "scan_step (Dot0, stack) c =
     (if digit_char c then (Scan_continue, Dot0, stack)
      else if c \<in> {CHR ''e'', CHR ''E''} then (Scan_continue, Exp, stack)
      else step_end_value stack c)"
| "scan_step (Exp, stack) c =
     (if c \<in> {CHR ''+'', CHR ''-''} then (Scan_continue, Exp_sign, stack) else step_exp_sign stack c)"
| "scan_step (Exp_sign, stack) c = step_exp_sign stack c"
| "scan_step (Exp0, stack) c =
     (if digit_char c then (Scan_continue, Exp0, stack) else step_end_value stack c)"
| "scan_step (In_literal rest, stack) c =
     (case rest of [] \<Rightarrow> scan_error
      | r # rs \<Rightarrow> if c = r
          then (Scan_continue, (if rs = [] then End_value else In_literal rs), stack)
          else scan_error)"
| "scan_step (Scan_error, stack) c = scan_error"

fun scan_run :: "scanner \<Rightarrow> string \<Rightarrow> scanner" where
  "scan_run s [] = s"
| "scan_run s (c # cs) = scan_run (snd (scan_step s c)) cs"

definition scan_eof :: "scanner \<Rightarrow> bool" where
  "scan_eof s = (fst (snd (scan_step s (CHR 0x20))) = End_top)"

definition scan_init :: scanner where
  "scan_init = (Begin_value, [])"

definition json_valid :: "string \<Rightarrow> bool" where
  "json_valid s = scan_eof (scan_run scan_init s)"

text \<open>
  \<open>appendCompact\<close> with HTML escaping: insignificant space goes, \<open><\<close>, \<open>>\<close>, \<open>&\<close> and the two line
  separators are escaped, and the scan must accept.
\<close>

function compact_run :: "scanner \<Rightarrow> string \<Rightarrow> string \<times> scanner" where
  "compact_run s [] = ([], s)"
| "compact_run s (c # cs) =
     (let (op, s') = scan_step s c; r = take 3 (c # cs) in
      if line_separator r then
        (let (out, s'') = compact_run (scan_run s r) (drop 2 cs) in (escape_separator r @ out, s''))
      else
        (let (out, s'') = compact_run s' cs in
          ((if op \<noteq> Scan_continue then []
            else if c \<in> {CHR ''<'', CHR ''>'', CHR ''&''} then u_escape c else [c]) @ out, s'')))"
  by pat_completeness auto
termination
  by (relation "measure (length \<circ> snd)") auto

definition json_compact :: "string \<Rightarrow> string option" where
  "json_compact s =
     (let (out, st) = compact_run scan_init s in if scan_eof st then Some out else None)"

section \<open>Marshal\<close>

datatype json = JNull | JBool bool | JInt int | JStr string | JRaw string
  | JArr "json list" | JObj "(string \<times> json) list"

text \<open>\<open>None\<close> is the error of \<open>Marshal\<close>: a \<open>RawMessage\<close> that is not valid JSON.\<close>

fun encode :: "json \<Rightarrow> string option"
  and encode_elems :: "bool \<Rightarrow> json list \<Rightarrow> string option"
  and encode_fields :: "bool \<Rightarrow> (string \<times> json) list \<Rightarrow> string option" where
  "encode JNull = Some ''null''"
| "encode (JBool b) = Some (if b then ''true'' else ''false'')"
| "encode (JInt i) = Some (decimal_int i)"
| "encode (JStr s) = Some (encode_string s)"
| "encode (JRaw s) = json_compact s"
| "encode (JArr js) = map_option (\<lambda>s. ''['' @ s @ '']'') (encode_elems True js)"
| "encode (JObj fs) = map_option (\<lambda>s. ''{'' @ s @ ''}'') (encode_fields True fs)"
| "encode_elems first [] = Some []"
| "encode_elems first (j # js) =
     (case (encode j, encode_elems False js) of
        (Some a, Some b) \<Rightarrow> Some ((if first then [] else '','') @ a @ b) | _ \<Rightarrow> None)"
| "encode_fields first [] = Some []"
| "encode_fields first ((k, j) # fs) =
     (case (encode j, encode_fields False fs) of
        (Some a, Some b) \<Rightarrow>
          Some ((if first then [] else '','') @ encode_string k @ '':'' @ a @ b)
      | _ \<Rightarrow> None)"

text \<open>Slices: a nil slice is \<open>null\<close>; \<open>omitempty\<close> leaves an empty string or slice out.\<close>

definition json_strings :: "string list \<Rightarrow> json" where
  "json_strings xs = JArr (map JStr xs)"

definition json_nil_strings :: "string list \<Rightarrow> json" where
  "json_nil_strings xs = (if xs = [] then JNull else json_strings xs)"

definition omit_empty :: "bool \<Rightarrow> string \<Rightarrow> json \<Rightarrow> (string \<times> json) list" where
  "omit_empty is_empty key value = (if is_empty then [] else [(key, value)])"

text \<open>Trees without raw messages always encode.\<close>

fun raw_free :: "json \<Rightarrow> bool" where
  "raw_free (JRaw s) = (json_compact s \<noteq> None)"
| "raw_free (JArr js) = list_all raw_free js"
| "raw_free (JObj fs) = list_all (\<lambda>f. raw_free (snd f)) fs"
| "raw_free _ = True"

lemma encode_total:
  shows "raw_free j \<Longrightarrow> encode j \<noteq> None"
    and "list_all raw_free js \<Longrightarrow> encode_elems b js \<noteq> None"
    and "list_all (\<lambda>f. raw_free (snd f)) fs \<Longrightarrow> encode_fields b' fs \<noteq> None"
  by (induction j and b js and b' fs rule: encode_encode_elems_encode_fields.induct)
     (auto split: option.splits)

lemma raw_free_strings [simp]: "raw_free (json_strings xs)" "raw_free (json_nil_strings xs)"
  by (simp_all add: json_strings_def json_nil_strings_def list_all_iff)

lemma raw_free_omit [simp]:
  "list_all (\<lambda>f. raw_free (snd f)) (omit_empty b k v) \<longleftrightarrow> (b \<or> raw_free v)"
  by (simp add: omit_empty_def)

section \<open>Content hashes\<close>

definition marshal_error :: gerror where
  "marshal_error = errorf [Lit ''json: error calling MarshalJSON'']"

definition hash_json :: "json \<Rightarrow> gerror + string" where
  "hash_json j = (case encode j of None \<Rightarrow> Inl marshal_error | Some bs \<Rightarrow> Inr (sha256_hex bs))"

lemma hash_json_length: "hash_json j = Inr h \<Longrightarrow> length h = 64"
  by (auto simp: hash_json_def split: option.splits)

lemma hash_json_total: "raw_free j \<Longrightarrow> \<exists>h. hash_json j = Inr h"
  using encode_total(1) [of j] by (auto simp: hash_json_def)

lemma hash_json_total': "raw_free j \<Longrightarrow> hash_json j \<noteq> Inl e"
  using hash_json_total [of j] by auto

end
