(* ===== verification/Go_Time.thy ===== *)
theory Go_Time
  imports Go_Json
begin

text \<open>
  \<open>time.Time\<close>: an instant, in nanoseconds since 1 January of the year 1 (the zero time),
  and the offset of its location in seconds east of UTC. \<open>time_text\<close> is \<open>MarshalJSON\<close>:
  strict RFC 3339 with the shortest fraction, an error outside the years 0 to 9999 or for
  an offset of a day or more.
\<close>

record gtime =
  t_nanos :: int
  t_offset :: int

definition time_is_zero :: "gtime \<Rightarrow> bool" where
  "time_is_zero t = (t_nanos t = 0)"

definition time_after :: "gtime \<Rightarrow> gtime \<Rightarrow> bool" where
  "time_after t u = (t_nanos t > t_nanos u)"

definition time_before :: "gtime \<Rightarrow> gtime \<Rightarrow> bool" where
  "time_before t u = (t_nanos t < t_nanos u)"

definition time_utc :: "gtime \<Rightarrow> gtime" where
  "time_utc t = t\<lparr>t_offset := 0\<rparr>"

definition time_add :: "gtime \<Rightarrow> int \<Rightarrow> gtime" where
  "time_add t d = t\<lparr>t_nanos := t_nanos t + d\<rparr>"

lemma time_utc_zero [simp]: "time_is_zero (time_utc t) = time_is_zero t"
  by (simp add: time_is_zero_def time_utc_def)

text \<open>The proleptic Gregorian date of a day number, day 0 being 1 January of the year 1.\<close>

definition civil :: "int \<Rightarrow> int \<times> int \<times> int" where
  "civil d =
     (let z = d + 306; era = z div 146097; doe = z mod 146097;
          yoe = (doe - doe div 1460 + doe div 36524 - doe div 146096) div 365;
          doy = doe - (365 * yoe + yoe div 4 - yoe div 100);
          mp = (5 * doy + 2) div 153;
          day = doy - (153 * mp + 2) div 5 + 1;
          month = (if mp < 10 then mp + 3 else mp - 9);
          year = yoe + 400 * era + (if month \<le> 2 then 1 else 0)
      in (year, month, day))"

lemma civil_first: "civil 0 = (1, 1, 1)"
  by code_simp

lemma civil_2026: "civil 739839 = (2026, 8, 12)"
  by code_simp

lemma civil_leap: "civil 730178 = (2000, 2, 29)"
  by code_simp

definition pad_left :: "nat \<Rightarrow> int \<Rightarrow> string" where
  "pad_left w i = (let s = decimal_int i in replicate (w - length s) (CHR ''0'') @ s)"

definition drop_trailing_zeros :: "string \<Rightarrow> string" where
  "drop_trailing_zeros s = rev (dropWhile (\<lambda>c. c = CHR ''0'') (rev s))"

definition zone_text :: "int \<Rightarrow> string" where
  "zone_text off =
     (if off = 0 then ''Z''
      else (let m = \<bar>off\<bar> div 60 in
        (if off < 0 then ''-'' else ''+'') @ pad_left 2 (m div 60) @ '':'' @ pad_left 2 (m mod 60)))"

definition time_text :: "gtime \<Rightarrow> string option" where
  "time_text t =
     (let local_ns = t_nanos t + 1000000000 * t_offset t;
          secs = local_ns div 1000000000; frac = local_ns mod 1000000000;
          (year, month, day) = civil (secs div 86400); s = secs mod 86400
      in if year < 0 \<or> 9999 < year \<or> 24 * 3600 \<le> \<bar>t_offset t\<bar> then None
         else Some (pad_left 4 year @ ''-'' @ pad_left 2 month @ ''-'' @ pad_left 2 day @ ''T''
           @ pad_left 2 (s div 3600) @ '':'' @ pad_left 2 (s mod 3600 div 60) @ '':''
           @ pad_left 2 (s mod 60)
           @ (if frac = 0 then [] else ''.'' @ drop_trailing_zeros (pad_left 9 frac))
           @ zone_text (t_offset t)))"

text \<open>As a field: \<open>Marshal\<close> fails on an instant that has no text.\<close>

definition time_json :: "gtime \<Rightarrow> json" where
  "time_json t = (case time_text t of None \<Rightarrow> JRaw [] | Some s \<Rightarrow> JStr s)"

lemma json_compact_empty [simp]: "json_compact [] = None"
  by (simp add: json_compact_def scan_init_def scan_eof_def step_begin_value_def json_space_def
      code_def)

lemma raw_free_time [simp]: "raw_free (time_json t) \<longleftrightarrow> time_text t \<noteq> None"
  by (simp add: time_json_def split: option.splits)

end
