(* ===== verification/Kernel_Types.thy ===== *)
theory Kernel_Types
  imports Go_Time
begin

text \<open>
  \<open>boatstack/kernel/types.go\<close> and \<open>freshness.go\<close>: objectives and their bindings, program
  identities, the durable control state with its recovery obligation, capabilities,
  authority receipts and their projection, effects, and the freshness identity of a
  prescription. Revisions are \<open>uint64\<close>.
\<close>

section \<open>Objectives\<close>

record objective =
  o_id :: string
  o_revision :: u64
  o_fingerprint :: string
  o_reference :: string

definition objective_json :: "string \<Rightarrow> u64 \<Rightarrow> string \<Rightarrow> json" where
  "objective_json oid revision ref =
     JObj [(''id'', JStr oid), (''revision'', JInt (uint revision)), (''reference'', JRaw ref)]"

definition objective_validate :: "objective \<Rightarrow> gerror option" where
  "objective_validate ob =
     (if \<not> semantic_id (o_id ob) \<or> o_revision ob = 0 \<or> length (o_fingerprint ob) \<noteq> 64
         \<or> length (o_reference ob) = 0 \<or> \<not> json_valid (o_reference ob)
      then Some (errorf [Lit ''objective requires semantic identity, positive revision, canonical reference, and fingerprint''])
      else (case hash_json (objective_json (o_id ob) (o_revision ob) (o_reference ob)) of
          Inl e \<Rightarrow> Some (errorf [Lit ''objective fingerprint does not identify its exact revision''])
        | Inr fingerprint \<Rightarrow>
            if fingerprint \<noteq> o_fingerprint ob
            then Some (errorf [Lit ''objective fingerprint does not identify its exact revision''])
            else None))"

text \<open>\<open>NewObjective\<close>; the reference value is the tree \<open>Marshal\<close> is given.\<close>

definition new_objective :: "string \<Rightarrow> u64 \<Rightarrow> json \<Rightarrow> gerror + objective" where
  "new_objective oid revision ref =
     (case encode ref of None \<Rightarrow> Inl marshal_error
      | Some encoded \<Rightarrow>
          (case hash_json (objective_json oid revision encoded) of Inl e \<Rightarrow> Inl e
           | Inr fingerprint \<Rightarrow>
               (let ob = \<lparr>o_id = oid, o_revision = revision, o_fingerprint = fingerprint,
                          o_reference = encoded\<rparr>
                in case objective_validate ob of Some e \<Rightarrow> Inl e | None \<Rightarrow> Inr ob)))"

record objective_binding =
  b_id :: string
  b_revision :: u64
  b_fingerprint :: string

definition bind_objective :: "objective \<Rightarrow> gerror + objective_binding" where
  "bind_objective ob =
     (case objective_validate ob of Some e \<Rightarrow> Inl e
      | None \<Rightarrow> Inr \<lparr>b_id = o_id ob, b_revision = o_revision ob, b_fingerprint = o_fingerprint ob\<rparr>)"

definition binding_validate :: "objective_binding \<Rightarrow> gerror option" where
  "binding_validate b =
     (if \<not> semantic_id (b_id b) \<or> b_revision b = 0 \<or> length (b_fingerprint b) \<noteq> 64
      then Some (errorf [Lit ''objective binding requires exact identity, revision, and fingerprint''])
      else None)"

definition binding_matches :: "objective_binding \<Rightarrow> objective \<Rightarrow> bool" where
  "binding_matches b ob =
     (objective_validate ob = None \<and> b_id b = o_id ob \<and> b_revision b = o_revision ob
      \<and> b_fingerprint b = o_fingerprint ob)"

definition clone_binding :: "objective_binding option \<Rightarrow> objective_binding option" where
  "clone_binding b = (case b of None \<Rightarrow> None | Some v \<Rightarrow> Some v)"

fun equal_binding :: "objective_binding option \<Rightarrow> objective_binding option \<Rightarrow> bool" where
  "equal_binding None None = True"
| "equal_binding None (Some _) = False"
| "equal_binding (Some _) None = False"
| "equal_binding (Some l) (Some r) = (l = r)"

lemma clone_binding_id [simp]: "clone_binding b = b"
  by (simp add: clone_binding_def split: option.splits)

lemma equal_binding_iff [simp]: "equal_binding x y \<longleftrightarrow> x = y"
  by (cases x; cases y) auto

section \<open>Program identity and control state\<close>

record program_identity =
  pi_id :: string
  pi_version :: string
  pi_fingerprint :: string

definition program_identity_validate :: "program_identity \<Rightarrow> gerror option" where
  "program_identity_validate p =
     (if \<not> semantic_id (pi_id p) \<or> pi_version p = [] \<or> length (pi_fingerprint p) \<noteq> 64
      then Some (errorf [Lit ''program identity requires id, version, and fingerprint''])
      else None)"

record recovery_state =
  r_prescription :: string
  r_transition :: string
  r_reason :: string

record control_state =
  s_instance :: string
  s_program :: program_identity
  s_binding :: "objective_binding option"
  s_mode :: string
  s_revision :: u64
  s_recovery :: "recovery_state option"

definition recovery_complete :: "recovery_state \<Rightarrow> bool" where
  "recovery_complete r =
     (r_prescription r \<noteq> [] \<and> qualified_semantic_id (r_transition r) \<and> r_reason r \<noteq> [])"

definition state_validate :: "control_state \<Rightarrow> gerror option" where
  "state_validate s =
     (if \<not> semantic_id (s_instance s) \<or> s_mode s = [] \<or> s_revision s = 0
      then Some (errorf [Lit ''control state requires instance, mode, and positive revision''])
      else case program_identity_validate (s_program s) of Some e \<Rightarrow> Some e
      | None \<Rightarrow>
        (case (case s_binding s of None \<Rightarrow> None | Some b \<Rightarrow> binding_validate b) of Some e \<Rightarrow> Some e
         | None \<Rightarrow>
           (case s_recovery s of None \<Rightarrow> None
            | Some r \<Rightarrow>
                if \<not> recovery_complete r then Some (errorf [Lit ''recovery state is incomplete''])
                else None)))"

section \<open>Objective scope and capabilities\<close>

text \<open>\<open>ObjectiveScope\<close> and \<open>Capability\<close> are string types: any string can occur.\<close>

type_synonym objective_scope = string
type_synonym capability = string

abbreviation Objective_none :: objective_scope where
  "Objective_none \<equiv> ''none''"

abbreviation Objective_optional_preserve :: objective_scope where
  "Objective_optional_preserve \<equiv> ''optional-preserve''"

abbreviation Objective_bound_exact :: objective_scope where
  "Objective_bound_exact \<equiv> ''bound-exact''"

definition scope_valid :: "objective_scope \<Rightarrow> bool" where
  "scope_valid s = (s = Objective_none \<or> s = Objective_optional_preserve \<or> s = Objective_bound_exact)"

definition capability_validate :: "capability \<Rightarrow> gerror option" where
  "capability_validate c =
     (if \<not> semantic_id c
      then Some (errorf [Lit ''capability '', Quoted c, Lit '' is not a semantic identifier''])
      else None)"

text \<open>
  \<open>normalizeCapabilities\<close>: the first invalid value is the error; otherwise the set of the
  values, sorted.
\<close>

definition normalize_capabilities :: "capability list \<Rightarrow> gerror + capability list" where
  "normalize_capabilities values =
     (case first_error capability_validate values of Some e \<Rightarrow> Inl e
      | None \<Rightarrow> Inr (sort (remdups values)))"

section \<open>Authority\<close>

record authority_receipt =
  a_id :: string
  a_subject :: string
  a_fingerprint :: string
  a_capabilities :: "capability list"
  a_issued :: gtime
  a_expires :: gtime

definition receipt_invalid :: "authority_receipt \<Rightarrow> gtime \<Rightarrow> bool" where
  "receipt_invalid r now =
     (\<not> semantic_id (a_id r) \<or> a_subject r = [] \<or> a_fingerprint r = [] \<or> time_is_zero (a_issued r)
      \<or> time_after (a_issued r) now
      \<or> (\<not> time_is_zero (a_expires r) \<and> \<not> time_before now (a_expires r)))"

definition authority_receipt_validate :: "authority_receipt \<Rightarrow> gtime \<Rightarrow> gerror option" where
  "authority_receipt_validate r now =
     (if receipt_invalid r now
      then Some (errorf [Lit ''authority receipt '', Quoted (a_id r), Lit '' is invalid or expired''])
      else if a_capabilities r = []
      then Some (errorf [Lit ''authority receipt '', Quoted (a_id r), Lit '' grants no capabilities''])
      else case normalize_capabilities (a_capabilities r) of Inl e \<Rightarrow> Some e | Inr _ \<Rightarrow> None)"

type_synonym authority = "authority_receipt list"

definition authority_receipt_json :: "authority_receipt \<Rightarrow> json" where
  "authority_receipt_json r =
     JObj [(''id'', JStr (a_id r)), (''subject'', JStr (a_subject r)),
           (''fingerprint'', JStr (a_fingerprint r)),
           (''capabilities'', json_strings (a_capabilities r)),
           (''issued_at'', time_json (a_issued r)), (''expires_at'', time_json (a_expires r))]"

definition receipts_json :: "authority_receipt list \<Rightarrow> json" where
  "receipts_json rs = (if rs = [] then JNull else JArr (map authority_receipt_json rs))"

record authority_projection =
  ap_fingerprint :: string
  ap_capabilities :: "capability list"

text \<open>The loop of \<open>projection\<close> over the sorted receipts: what it has seen and collected.\<close>

fun project_receipts ::
    "gtime \<Rightarrow> string list \<Rightarrow> capability list \<Rightarrow> authority_receipt list \<Rightarrow> gerror + capability list" where
  "project_receipts now seen caps [] = Inr caps"
| "project_receipts now seen caps (r # rs) =
     (case authority_receipt_validate r now of Some e \<Rightarrow> Inl e
      | None \<Rightarrow>
          if contains seen (a_id r)
          then Inl (errorf [Lit ''authority receipt '', Quoted (a_id r), Lit '' is duplicated''])
          else project_receipts now (a_id r # seen) (caps @ a_capabilities r) rs)"

definition authority_project :: "authority \<Rightarrow> gtime \<Rightarrow> gerror + authority_projection" where
  "authority_project a now =
     (let receipts = sort_key a_id a in
      case project_receipts now [] [] receipts of Inl e \<Rightarrow> Inl e
      | Inr caps \<Rightarrow>
          (case normalize_capabilities caps of Inl e \<Rightarrow> Inl e
           | Inr capabilities \<Rightarrow>
               (case hash_json (receipts_json receipts) of Inl e \<Rightarrow> Inl e
                | Inr fingerprint \<Rightarrow>
                    Inr \<lparr>ap_fingerprint = fingerprint, ap_capabilities = capabilities\<rparr>)))"

section \<open>Effects\<close>

record effect_fact =
  f_facet :: string
  f_operation :: string
  f_fingerprint :: string

type_synonym effect = "effect_fact list"

section \<open>Freshness\<close>

record freshness =
  fr_instance :: string
  fr_revision :: u64
  fr_program :: string
  fr_snapshot :: string
  fr_binding :: string
  fr_authority :: string

definition freshness_validate :: "freshness \<Rightarrow> gerror option" where
  "freshness_validate f =
     (if fr_instance f = [] \<or> fr_revision f = 0 \<or> length (fr_program f) \<noteq> 64
         \<or> length (fr_snapshot f) \<noteq> 64 \<or> length (fr_binding f) \<noteq> 64 \<or> fr_authority f = []
      then Some (errorf [Lit ''freshness requires exact instance, state, program, snapshot, objective binding, and authority identities''])
      else None)"

definition new_freshness ::
    "string \<Rightarrow> u64 \<Rightarrow> string \<Rightarrow> string \<Rightarrow> string \<Rightarrow> string \<Rightarrow> gerror + freshness" where
  "new_freshness inst revision prog snap bind auth =
     (let value = \<lparr>fr_instance = inst, fr_revision = revision, fr_program = prog, fr_snapshot = snap,
                   fr_binding = bind, fr_authority = auth\<rparr>
      in case freshness_validate value of Some e \<Rightarrow> Inl e | None \<Rightarrow> Inr value)"

definition freshness_check :: "freshness \<Rightarrow> freshness \<Rightarrow> gerror option" where
  "freshness_check f current =
     (case freshness_validate f of Some e \<Rightarrow> Some e
      | None \<Rightarrow>
        (case freshness_validate current of Some e \<Rightarrow> Some e
         | None \<Rightarrow>
           if f \<noteq> current
           then Some (errorf [Lit ''instance, state, program, snapshot, objective binding, or authority changed''])
           else None))"

section \<open>Laws of objectives\<close>

lemma objective_validate_None_iff:
  "objective_validate ob = None \<longleftrightarrow>
     semantic_id (o_id ob) \<and> o_revision ob \<noteq> 0 \<and> length (o_fingerprint ob) = 64
     \<and> o_reference ob \<noteq> [] \<and> json_valid (o_reference ob)
     \<and> hash_json (objective_json (o_id ob) (o_revision ob) (o_reference ob)) = Inr (o_fingerprint ob)"
  by (auto simp: objective_validate_def split: sum.splits if_splits)

lemma bind_objective_Inr:
  "bind_objective ob = Inr b \<longleftrightarrow>
     objective_validate ob = None
     \<and> b = \<lparr>b_id = o_id ob, b_revision = o_revision ob, b_fingerprint = o_fingerprint ob\<rparr>"
  by (auto simp: bind_objective_def split: option.splits)

lemma bind_objective_valid: "bind_objective ob = Inr b \<Longrightarrow> binding_validate b = None"
  by (auto simp: bind_objective_Inr objective_validate_None_iff binding_validate_def)

lemma bind_objective_matches: "bind_objective ob = Inr b \<Longrightarrow> binding_matches b ob"
  by (auto simp: bind_objective_Inr binding_matches_def)

lemma bind_objective_total: "objective_validate ob = None \<Longrightarrow> \<exists>b. bind_objective ob = Inr b"
  by (simp add: bind_objective_def)

text \<open>A binding matches one exact objective: what it matches binds to itself.\<close>

lemma binding_matches_bind: "binding_matches b ob \<longleftrightarrow> bind_objective ob = Inr b"
  by (auto simp: binding_matches_def bind_objective_Inr)

text \<open>
  C37. \<open>NewObjective\<close> returns only objectives that validate and that can be bound: the
  binding is well-formed and matches the objective it came from.
\<close>

theorem new_objective_binds:
  assumes "new_objective oid revision ref = Inr ob"
  shows "objective_validate ob = None
    \<and> (\<exists>b. bind_objective ob = Inr b \<and> binding_validate b = None \<and> binding_matches b ob)"
proof -
  have v: "objective_validate ob = None"
    using assms by (auto simp: new_objective_def Let_def split: option.splits sum.splits)
  then show ?thesis
    using bind_objective_total [OF v] bind_objective_valid bind_objective_matches by blast
qed

section \<open>Laws of the control state\<close>

lemma state_validate_None_iff:
  "state_validate s = None \<longleftrightarrow>
     semantic_id (s_instance s) \<and> s_mode s \<noteq> [] \<and> s_revision s \<noteq> 0
     \<and> program_identity_validate (s_program s) = None
     \<and> (\<forall>b. s_binding s = Some b \<longrightarrow> binding_validate b = None)
     \<and> (\<forall>r. s_recovery s = Some r \<longrightarrow> recovery_complete r)"
  by (auto simp: state_validate_def split: option.splits)

section \<open>Laws of capabilities\<close>

lemma capability_validate_None [simp]: "capability_validate c = None \<longleftrightarrow> semantic_id c"
  by (simp add: capability_validate_def)

lemma normalize_Inr_iff:
  "normalize_capabilities cs = Inr ds \<longleftrightarrow> (\<forall>c\<in>set cs. semantic_id c) \<and> ds = sort (remdups cs)"
  by (auto simp: normalize_capabilities_def split: option.splits)
     (metis capability_validate_None first_error_None_iff option.distinct(1))+

lemma normalize_set: "normalize_capabilities cs = Inr ds \<Longrightarrow> set ds = set cs"
  by (simp add: normalize_Inr_iff)

lemma normalize_total: "(\<forall>c\<in>set cs. semantic_id c) \<Longrightarrow> normalize_capabilities cs = Inr (sort (remdups cs))"
  by (simp add: normalize_Inr_iff)

lemma normalize_canonical:
  "normalize_capabilities cs = Inr ds \<Longrightarrow> sorted ds \<and> distinct ds \<and> (\<forall>c\<in>set ds. semantic_id c)"
  by (simp add: normalize_Inr_iff)

text \<open>
  C36. \<open>normalizeCapabilities\<close> produces one canonical list per set of capabilities: it is
  strictly sorted, has the same elements, is a fixed point, and two lists with the same
  elements normalise to the same list.
\<close>

theorem normalize_capabilities_canonical:
  assumes "normalize_capabilities cs = Inr ds"
  shows "sorted_wrt (<) ds \<and> set ds = set cs \<and> normalize_capabilities ds = Inr ds
    \<and> (\<forall>es. set es = set cs \<longrightarrow> normalize_capabilities es = Inr ds)"
proof -
  from assms have ok: "\<forall>c\<in>set cs. semantic_id c" and ds: "ds = sort (remdups cs)"
    by (simp_all add: normalize_Inr_iff)
  have "sorted_wrt (<) ds"
    unfolding ds by (rule sort_strict) simp
  moreover have "normalize_capabilities es = Inr ds" if "set es = set cs" for es
    using ok that canonical_unique [OF that] by (simp add: normalize_Inr_iff ds)
  moreover have "set ds = set cs" by (simp add: ds)
  ultimately show ?thesis by blast
qed

section \<open>Laws of authority\<close>

lemma project_receipts_Inr:
  "project_receipts now seen caps rs = Inr out \<longleftrightarrow>
     (\<forall>r\<in>set rs. authority_receipt_validate r now = None) \<and> distinct (map a_id rs)
     \<and> set (map a_id rs) \<inter> set seen = {} \<and> out = caps @ concat (map a_capabilities rs)"
  by (induction rs arbitrary: seen caps) (auto split: option.splits)

lemma authority_receipt_validate_None:
  "authority_receipt_validate r now = None \<longleftrightarrow>
     \<not> receipt_invalid r now \<and> a_capabilities r \<noteq> [] \<and> (\<forall>c\<in>set (a_capabilities r). semantic_id c)"
  by (auto simp: authority_receipt_validate_def normalize_capabilities_def split: option.splits)
     (metis capability_validate_None first_error_None_iff option.distinct(1))+

lemma distinct_map_sort_key: "distinct (map f (sort_key g xs)) \<longleftrightarrow> distinct (map f xs)"
  by (simp add: distinct_map)

lemma authority_project_Inr:
  "authority_project a now = Inr p \<longleftrightarrow>
     (\<forall>r\<in>set a. authority_receipt_validate r now = None) \<and> distinct (map a_id a)
     \<and> hash_json (receipts_json (sort_key a_id a)) = Inr (ap_fingerprint p)
     \<and> ap_capabilities p = sort (remdups (concat (map a_capabilities (sort_key a_id a))))"
  (is "?lhs \<longleftrightarrow> ?valid \<and> ?distinct \<and> ?hash \<and> ?caps")
proof
  assume ?lhs
  then obtain caps ds where run: "project_receipts now [] [] (sort_key a_id a) = Inr caps"
    and norm: "normalize_capabilities caps = Inr ds"
    and p: "hash_json (receipts_json (sort_key a_id a)) = Inr (ap_fingerprint p)" "ap_capabilities p = ds"
    by (auto simp: authority_project_def Let_def split: sum.splits)
  from run show "?valid \<and> ?distinct \<and> ?hash \<and> ?caps"
    using norm p by (simp add: project_receipts_Inr distinct_map_sort_key normalize_Inr_iff)
next
  assume rhs: "?valid \<and> ?distinct \<and> ?hash \<and> ?caps"
  then have run: "project_receipts now [] [] (sort_key a_id a)
      = Inr (concat (map a_capabilities (sort_key a_id a)))"
    by (simp add: project_receipts_Inr distinct_map_sort_key)
  have "normalize_capabilities (concat (map a_capabilities (sort_key a_id a))) = Inr (ap_capabilities p)"
    using rhs by (auto simp: normalize_Inr_iff authority_receipt_validate_None)
  then show ?lhs
    using rhs run by (simp add: authority_project_def)
qed

lemma authority_project_fingerprint: "authority_project a now = Inr p \<Longrightarrow> length (ap_fingerprint p) = 64"
  by (auto simp: authority_project_Inr intro: hash_json_length)

lemma authority_project_capabilities:
  "authority_project a now = Inr p \<Longrightarrow> set (ap_capabilities p) = (\<Union>r\<in>set a. set (a_capabilities r))"
  by (auto simp: authority_project_Inr)

text \<open>
  C39. The authority projection is exact and order-free: every receipt it accepts is
  current (issued, not in the future, not expired) and identified once, the projected
  capabilities are exactly those the receipts grant, and presenting the same receipts in
  another order yields the same projection, fingerprint included.
\<close>

theorem authority_project_exact:
  assumes "authority_project a now = Inr p"
  shows "(\<forall>r\<in>set a. \<not> receipt_invalid r now) \<and> distinct (map a_id a)
    \<and> set (ap_capabilities p) = (\<Union>r\<in>set a. set (a_capabilities r))
    \<and> (\<forall>b. mset b = mset a \<longrightarrow> authority_project b now = Inr p)"
proof -
  have props: "\<forall>r\<in>set a. authority_receipt_validate r now = None" "distinct (map a_id a)"
    using assms by (simp_all add: authority_project_Inr)
  have "authority_project b now = Inr p" if eq: "mset b = mset a" for b
  proof -
    have "sort_key a_id a = sort_key a_id b"
      using props(2) eq by (intro sort_key_unique) simp_all
    moreover have "set b = set a" "distinct (map a_id b)"
      using eq props(2) by (metis set_mset_mset, metis distinct_count_atmost_1 mset_map set_mset_mset)
    ultimately show ?thesis
      using assms by (simp add: authority_project_Inr)
  qed
  then show ?thesis
    using props authority_project_capabilities [OF assms]
    by (simp add: authority_receipt_validate_None)
qed

section \<open>Laws of freshness\<close>

lemma new_freshness_Inr:
  "new_freshness inst revision prog snap bind auth = Inr f \<longleftrightarrow>
     freshness_validate f = None
     \<and> f = \<lparr>fr_instance = inst, fr_revision = revision, fr_program = prog, fr_snapshot = snap,
            fr_binding = bind, fr_authority = auth\<rparr>"
  by (auto simp: new_freshness_def Let_def split: option.splits)

lemma freshness_check_None_iff:
  "freshness_check f current = None \<longleftrightarrow> freshness_validate f = None \<and> f = current"
  by (auto simp: freshness_check_def split: option.splits)

end
