(* ===== verification/Kernel_Program.thy ===== *)
theory Kernel_Program
  imports Kernel_Types
begin

text \<open>
  \<open>boatstack/kernel/program.go\<close>: transitions, programs, compilation and validation. A
  program is compiled by putting it in canonical form (\<open>prepare\<close>) and hashing that form;
  \<open>prepare\<close> also builds the index \<open>byID\<close>, which the encoding does not show, and checks that
  every ordinary transition can be recovered from each of its source modes.
\<close>

section \<open>Transitions\<close>

type_synonym objective_mutation = string

abbreviation Preserve_objective :: objective_mutation where
  "Preserve_objective \<equiv> ''preserve''"

abbreviation Bind_objective :: objective_mutation where
  "Bind_objective \<equiv> ''bind''"

abbreviation Clear_objective :: objective_mutation where
  "Clear_objective \<equiv> ''clear''"

definition mutation_valid :: "objective_mutation \<Rightarrow> bool" where
  "mutation_valid m = (m = Preserve_objective \<or> m = Bind_objective \<or> m = Clear_objective)"

record transition =
  t_id :: string
  t_sources :: "string list"
  t_target :: string
  t_scope :: objective_scope
  t_mutation :: objective_mutation
  t_required :: "capability list"
  t_owned :: "string list"
  t_operation :: string
  t_priority :: int
  t_recovers :: "string list"

definition transition_prefix :: "transition \<Rightarrow> message" where
  "transition_prefix t = [Lit ''transition '', Quoted (t_id t)]"

text \<open>The loop over the owned facets: each is an identifier and occurs once.\<close>

fun facet_error :: "transition \<Rightarrow> string list \<Rightarrow> string list \<Rightarrow> gerror option" where
  "facet_error t seen [] = None"
| "facet_error t seen (facet # facets) =
     (if \<not> semantic_id facet \<or> contains seen facet
      then Some (errorf (transition_prefix t @ [Lit '' has invalid or duplicate owned facet '', Quoted facet]))
      else facet_error t (facet # seen) facets)"

definition transition_incomplete :: "transition \<Rightarrow> bool" where
  "transition_incomplete t =
     (\<not> qualified_semantic_id (t_id t) \<or> t_sources t = [] \<or> t_target t = [] \<or> \<not> scope_valid (t_scope t)
      \<or> \<not> mutation_valid (t_mutation t) \<or> \<not> qualified_semantic_id (t_operation t) \<or> t_priority t < 1)"

definition mutation_unauthorized :: "transition \<Rightarrow> bool" where
  "mutation_unauthorized t =
     (t_mutation t \<noteq> Preserve_objective
      \<and> (t_scope t \<noteq> Objective_none \<or> \<not> contains (t_owned t) ''supervisor.objective''
         \<or> \<not> contains (t_required t) ''objective.bind''))"

definition transition_validate :: "transition \<Rightarrow> gerror option" where
  "transition_validate t =
     (if transition_incomplete t
      then Some (errorf (transition_prefix t @ [Lit '' has incomplete identity, modes, objective scope, operation, or priority'']))
      else if t_required t = [] \<or> t_owned t = []
      then Some (errorf (transition_prefix t @ [Lit '' requires explicit capabilities and owned facets'']))
      else case normalize_capabilities (t_required t) of
        Inl e \<Rightarrow> Some (wrapf (transition_prefix t @ [Lit '': '']) e)
      | Inr _ \<Rightarrow>
        (case facet_error t [] (t_owned t) of Some e \<Rightarrow> Some e
         | None \<Rightarrow>
          if mutation_unauthorized t
          then Some (errorf (transition_prefix t @ [Lit '' objective mutation requires NONE scope, supervisor.objective ownership, and objective.bind capability'']))
          else first_error (\<lambda>recovered.
            if \<not> qualified_semantic_id recovered
            then Some (errorf (transition_prefix t @ [Lit '' has invalid recovery target '', Quoted recovered]))
            else None) (t_recovers t)))"

section \<open>Canonical identifier lists\<close>

text \<open>
  The scan of \<open>canonicalIDs\<close> and \<open>canonicalQualifiedIDs\<close> over the sorted copy: each value
  matches the identifier pattern and differs from its predecessor.
\<close>

fun id_scan :: "(string \<Rightarrow> bool) \<Rightarrow> message \<Rightarrow> string \<Rightarrow> string option \<Rightarrow> string list \<Rightarrow> gerror option" where
  "id_scan ok what label prev [] = None"
| "id_scan ok what label prev (v # vs) =
     (if \<not> ok v then Some (errorf ([Lit label, Lit '' '', Quoted v] @ what))
      else if prev = Some v then Some (errorf [Lit label, Lit '' '', Quoted v, Lit '' is duplicated''])
      else id_scan ok what label (Some v) vs)"

definition canonical_ids :: "string list \<Rightarrow> string \<Rightarrow> gerror + string list" where
  "canonical_ids values label =
     (let result = sort values in
      case id_scan semantic_id [Lit '' is not a semantic identifier''] label None result of
        Some e \<Rightarrow> Inl e | None \<Rightarrow> Inr result)"

definition canonical_qualified_ids :: "string list \<Rightarrow> string \<Rightarrow> gerror + string list" where
  "canonical_qualified_ids values label =
     (let result = sort values in
      case id_scan qualified_semantic_id [Lit '' is not a qualified semantic identifier''] label None result of
        Some e \<Rightarrow> Inl e | None \<Rightarrow> Inr result)"

definition transition_canonical :: "transition \<Rightarrow> gerror + transition" where
  "transition_canonical t =
     (let wrap = wrapf (transition_prefix t @ [Lit '': '']) in
      case canonical_ids (t_sources t) ''source mode'' of Inl e \<Rightarrow> Inl (wrap e)
      | Inr sources \<Rightarrow>
        (case normalize_capabilities (t_required t) of Inl e \<Rightarrow> Inl (wrap e)
         | Inr required \<Rightarrow>
           (case canonical_ids (t_owned t) ''owned facet'' of Inl e \<Rightarrow> Inl (wrap e)
            | Inr owned \<Rightarrow>
              (case canonical_qualified_ids (t_recovers t) ''recovery target'' of Inl e \<Rightarrow> Inl (wrap e)
               | Inr recovers \<Rightarrow>
                   Inr (t\<lparr>t_sources := sources, t_required := required, t_owned := owned,
                          t_recovers := recovers\<rparr>)))))"

section \<open>Programs\<close>

record program =
  p_schema :: int
  p_id :: string
  p_version :: string
  p_runtime :: string
  p_contract :: string
  p_initial :: string
  p_marked :: "string list"
  p_transitions :: "transition list"
  p_fingerprint :: string
  p_by_id :: "(string \<rightharpoonup> transition) option"

definition program_schema_version :: int where
  "program_schema_version = 1"

definition transition_json :: "transition \<Rightarrow> json" where
  "transition_json t =
     JObj ([(''id'', JStr (t_id t)), (''source_modes'', json_nil_strings (t_sources t)),
            (''target_mode'', JStr (t_target t)), (''objective_scope'', JStr (t_scope t)),
            (''objective_mutation'', JStr (t_mutation t)),
            (''required_capabilities'', json_strings (t_required t)),
            (''owned_facets'', json_nil_strings (t_owned t)), (''operation'', JStr (t_operation t)),
            (''priority'', JInt (t_priority t))]
           @ omit_empty (t_recovers t = []) ''recovers'' (json_strings (t_recovers t)))"

definition program_json :: "program \<Rightarrow> json" where
  "program_json p =
     JObj ([(''schema_version'', JInt (p_schema p)), (''id'', JStr (p_id p)),
            (''version'', JStr (p_version p)), (''runtime_compatibility'', JStr (p_runtime p))]
           @ omit_empty (p_contract p = []) ''domain_contract_fingerprint'' (JStr (p_contract p))
           @ [(''initial_mode'', JStr (p_initial p)), (''marked_modes'', json_nil_strings (p_marked p)),
              (''transitions'', JArr (map transition_json (p_transitions p))),
              (''fingerprint'', JStr (p_fingerprint p))])"

text \<open>The loop that validates the sorted transitions and fills \<open>byID\<close>.\<close>

fun index_transitions ::
    "(string \<rightharpoonup> transition) \<Rightarrow> transition list \<Rightarrow> gerror + (string \<rightharpoonup> transition)" where
  "index_transitions m [] = Inr m"
| "index_transitions m (t # ts) =
     (case transition_validate t of Some e \<Rightarrow> Inl e
      | None \<Rightarrow>
          if m (t_id t) \<noteq> None then Inl (errorf [Lit ''program duplicates transition '', Quoted (t_id t)])
          else index_transitions (m(t_id t \<mapsto> t)) ts)"

definition recovery_target_error ::
    "(string \<rightharpoonup> transition) \<Rightarrow> transition \<Rightarrow> string \<Rightarrow> gerror option" where
  "recovery_target_error m t recovered =
     (case m recovered of
        None \<Rightarrow> Some (errorf (transition_prefix t @ [Lit '' recovers unknown transition '', Quoted recovered]))
      | Some rt \<Rightarrow>
          first_error (\<lambda>mode.
            if \<not> contains (t_sources t) mode
            then Some (errorf (transition_prefix t @ [Lit '' cannot recover '', Quoted recovered, Lit '' from source mode '', Quoted mode]))
            else None) (t_sources rt))"

definition recovery_error :: "(string \<rightharpoonup> transition) \<Rightarrow> transition \<Rightarrow> gerror option" where
  "recovery_error m t =
     (if t_recovers t \<noteq> [] \<and> (t_scope t = Objective_bound_exact \<or> t_mutation t \<noteq> Preserve_objective)
      then Some (errorf [Lit ''recovery transition '', Quoted (t_id t), Lit '' must preserve objective state without requiring an exact objective''])
      else first_error (recovery_target_error m t) (t_recovers t))"

definition unrecovered_error :: "string list \<Rightarrow> transition \<Rightarrow> gerror option" where
  "unrecovered_error recovered t =
     (if t_recovers t = [] \<and> \<not> contains recovered (t_id t)
      then Some (errorf (transition_prefix t @ [Lit '' has no declared recovery'']))
      else None)"

definition program_incomplete :: "program \<Rightarrow> bool" where
  "program_incomplete p =
     (p_schema p \<noteq> program_schema_version \<or> \<not> semantic_id (p_id p) \<or> p_version p = [] \<or> p_runtime p = []
      \<or> p_initial p = [] \<or> p_marked p = [] \<or> p_transitions p = [])"

definition transition_order :: "transition \<Rightarrow> int \<times> string" where
  "transition_order t = (t_priority t, t_id t)"

definition prepare :: "program \<Rightarrow> gerror + program" where
  "prepare p =
     (if program_incomplete p
      then Inl (errorf [Lit ''program requires schema, identity, compatibility, initial mode, marked modes, and transitions''])
      else if p_contract p \<noteq> [] \<and> length (p_contract p) \<noteq> 64
      then Inl (errorf [Lit ''program domain contract fingerprint must be an exact sha256 identity''])
      else case canonical_ids (p_marked p) ''marked mode'' of Inl e \<Rightarrow> Inl e
      | Inr marked \<Rightarrow>
        (case map_result transition_canonical (p_transitions p) of Inl e \<Rightarrow> Inl e
         | Inr canonical \<Rightarrow>
          (let ts = sort_key transition_order canonical in
           case index_transitions Map.empty ts of Inl e \<Rightarrow> Inl e
           | Inr by_id \<Rightarrow>
            (case first_error (recovery_error by_id) ts of Some e \<Rightarrow> Inl e
             | None \<Rightarrow>
              (case first_error (unrecovered_error (concat (map t_recovers ts))) ts of Some e \<Rightarrow> Inl e
               | None \<Rightarrow>
                  Inr (p\<lparr>p_marked := marked, p_transitions := ts, p_by_id := Some by_id\<rparr>))))))"

definition program_hash :: "program \<Rightarrow> gerror + string" where
  "program_hash p = hash_json (program_json (p\<lparr>p_fingerprint := [], p_by_id := None\<rparr>))"

definition compile_domain_program ::
    "string \<Rightarrow> string \<Rightarrow> string \<Rightarrow> string \<Rightarrow> string \<Rightarrow> string list \<Rightarrow> transition list \<Rightarrow> gerror + program" where
  "compile_domain_program pid version runtime contract initial marked transitions =
     (let p = \<lparr>p_schema = program_schema_version, p_id = pid, p_version = version, p_runtime = runtime,
               p_contract = contract, p_initial = initial, p_marked = marked,
               p_transitions = transitions, p_fingerprint = [], p_by_id = None\<rparr>
      in case prepare p of Inl e \<Rightarrow> Inl e
         | Inr q \<Rightarrow>
             (case program_hash q of Inl e \<Rightarrow> Inl e
              | Inr fingerprint \<Rightarrow> Inr (q\<lparr>p_fingerprint := fingerprint\<rparr>)))"

definition compile_program ::
    "string \<Rightarrow> string \<Rightarrow> string \<Rightarrow> string \<Rightarrow> string list \<Rightarrow> transition list \<Rightarrow> gerror + program" where
  "compile_program pid version runtime initial marked transitions =
     compile_domain_program pid version runtime [] initial marked transitions"

definition program_validate :: "program \<Rightarrow> gerror option" where
  "program_validate p =
     (let want = p_fingerprint p in
      case prepare (p\<lparr>p_fingerprint := [], p_by_id := None\<rparr>) of Inl e \<Rightarrow> Some e
      | Inr copy \<Rightarrow>
          (case program_hash copy of
             Inl e \<Rightarrow> Some (errorf [Lit ''program fingerprint does not identify its canonical executable representation''])
           | Inr got \<Rightarrow>
               if want = [] \<or> got \<noteq> want
               then Some (errorf [Lit ''program fingerprint does not identify its canonical executable representation''])
               else None))"

definition program_identity_of :: "program \<Rightarrow> program_identity" where
  "program_identity_of p = \<lparr>pi_id = p_id p, pi_version = p_version p, pi_fingerprint = p_fingerprint p\<rparr>"

definition program_transition :: "program \<Rightarrow> string \<Rightarrow> transition option" where
  "program_transition p tid =
     (case p_by_id p of
        Some m \<Rightarrow> m tid
      | None \<Rightarrow>
          (case prepare p of Inl _ \<Rightarrow> None
           | Inr copy \<Rightarrow> (case p_by_id copy of Some m \<Rightarrow> m tid | None \<Rightarrow> None)))"

definition program_marked :: "program \<Rightarrow> string \<Rightarrow> bool" where
  "program_marked p mode = contains (p_marked p) mode"

definition program_clone :: "program \<Rightarrow> program" where
  "program_clone p =
     p\<lparr>p_by_id := Some (foldl (\<lambda>m t. m(t_id t \<mapsto> t)) Map.empty (p_transitions p))\<rparr>"

section \<open>Laws of canonical lists\<close>

definition prev_list :: "'a option \<Rightarrow> 'a list" where
  "prev_list prev = (case prev of None \<Rightarrow> [] | Some p \<Rightarrow> [p])"

lemma prev_list_simps [simp]: "prev_list None = []" "prev_list (Some p) = [p]"
  by (simp_all add: prev_list_def)

lemma id_scan_None:
  "sorted (prev_list prev @ vs) \<Longrightarrow>
     id_scan ok what label prev vs = None \<longleftrightarrow> (\<forall>v\<in>set vs. ok v) \<and> distinct (prev_list prev @ vs)"
proof (induction vs arbitrary: prev)
  case Nil
  then show ?case by (cases prev) auto
next
  case (Cons v vs)
  have IH: "id_scan ok what label (Some v) vs = None
      \<longleftrightarrow> (\<forall>v\<in>set vs. ok v) \<and> distinct (v # vs)"
    using Cons.IH [of "Some v"] Cons.prems by (simp add: sorted_append)
  show ?case
  proof (cases prev)
    case None
    then show ?thesis using IH by auto
  next
    case (Some p)
    then have "p \<le> v" "\<forall>w\<in>set vs. v \<le> w"
      using Cons.prems by auto
    then have "distinct (p # v # vs) \<longleftrightarrow> p \<noteq> v \<and> distinct (v # vs)"
      by auto
    then show ?thesis using IH Some by auto
  qed
qed

lemma canonical_ids_Inr [canon]:
  "canonical_ids vs label = Inr r \<longleftrightarrow> (\<forall>v\<in>set vs. semantic_id v) \<and> distinct vs \<and> r = sort vs"
  using id_scan_None [of None "sort vs" semantic_id "[Lit '' is not a semantic identifier'']" label]
  by (auto simp: canonical_ids_def Let_def split: option.splits)

lemma canonical_qualified_ids_Inr [canon]:
  "canonical_qualified_ids vs label = Inr r
     \<longleftrightarrow> (\<forall>v\<in>set vs. qualified_semantic_id v) \<and> distinct vs \<and> r = sort vs"
  using id_scan_None [of None "sort vs" qualified_semantic_id
      "[Lit '' is not a qualified semantic identifier'']" label]
  by (auto simp: canonical_qualified_ids_def Let_def split: option.splits)

section \<open>Laws of transitions\<close>

definition canon_t :: "transition \<Rightarrow> transition" where
  "canon_t t = t\<lparr>t_sources := sort (t_sources t), t_required := sort (remdups (t_required t)),
                 t_owned := sort (t_owned t), t_recovers := sort (t_recovers t)\<rparr>"

definition canonicalizable :: "transition \<Rightarrow> bool" where
  "canonicalizable t =
     ((\<forall>v\<in>set (t_sources t). semantic_id v) \<and> distinct (t_sources t)
      \<and> (\<forall>c\<in>set (t_required t). semantic_id c)
      \<and> (\<forall>v\<in>set (t_owned t). semantic_id v) \<and> distinct (t_owned t)
      \<and> (\<forall>v\<in>set (t_recovers t). qualified_semantic_id v) \<and> distinct (t_recovers t))"

lemma transition_canonical_Inr:
  "transition_canonical t = Inr u \<longleftrightarrow> canonicalizable t \<and> u = canon_t t"
proof
  assume "transition_canonical t = Inr u"
  then show "canonicalizable t \<and> u = canon_t t"
    by (auto simp: transition_canonical_def Let_def canonicalizable_def canon_t_def canonical_ids_Inr
          canonical_qualified_ids_Inr normalize_Inr_iff split: sum.splits)
next
  assume a: "canonicalizable t \<and> u = canon_t t"
  then have "canonical_ids (t_sources t) l = Inr (sort (t_sources t))"
    "normalize_capabilities (t_required t) = Inr (sort (remdups (t_required t)))"
    "canonical_ids (t_owned t) l = Inr (sort (t_owned t))"
    "canonical_qualified_ids (t_recovers t) l = Inr (sort (t_recovers t))" for l
    by (simp_all add: canonicalizable_def canonical_ids_Inr canonical_qualified_ids_Inr normalize_Inr_iff)
  then show "transition_canonical t = Inr u"
    using a by (simp add: transition_canonical_def canon_t_def Let_def)
qed

lemma canon_t_simps [simp]:
  "t_id (canon_t t) = t_id t" "t_target (canon_t t) = t_target t" "t_scope (canon_t t) = t_scope t"
  "t_mutation (canon_t t) = t_mutation t" "t_operation (canon_t t) = t_operation t"
  "t_priority (canon_t t) = t_priority t" "set (t_sources (canon_t t)) = set (t_sources t)"
  "set (t_required (canon_t t)) = set (t_required t)" "set (t_owned (canon_t t)) = set (t_owned t)"
  "set (t_recovers (canon_t t)) = set (t_recovers t)"
  "t_recovers (canon_t t) = [] \<longleftrightarrow> t_recovers t = []"
  "transition_order (canon_t t) = transition_order t"
  by (simp_all add: canon_t_def transition_order_def flip: set_empty)

lemma canon_t_idem [simp]: "canon_t (canon_t t) = canon_t t"
  by (simp add: canon_t_def sorted_sort_id distinct_remdups_id)

lemma canonicalizable_canon: "canonicalizable t \<Longrightarrow> canonicalizable (canon_t t)"
  by (simp add: canonicalizable_def canon_t_def)

lemma facet_error_None:
  "facet_error t seen fs = None
     \<longleftrightarrow> (\<forall>f\<in>set fs. semantic_id f) \<and> distinct fs \<and> set fs \<inter> set seen = {}"
  by (induction fs arbitrary: seen) auto

lemma transition_validate_None_iff:
  "transition_validate t = None \<longleftrightarrow>
     \<not> transition_incomplete t \<and> t_required t \<noteq> [] \<and> t_owned t \<noteq> []
     \<and> (\<forall>c\<in>set (t_required t). semantic_id c)
     \<and> (\<forall>f\<in>set (t_owned t). semantic_id f) \<and> distinct (t_owned t)
     \<and> \<not> mutation_unauthorized t \<and> (\<forall>r\<in>set (t_recovers t). qualified_semantic_id r)"
proof -
  have n: "(\<exists>e. normalize_capabilities cs = Inl e) \<longleftrightarrow> \<not> (\<forall>c\<in>set cs. semantic_id c)" for cs
    by (metis normalize_Inr_iff old.sum.exhaust sum.distinct(1))
  show ?thesis
  proof (cases "normalize_capabilities (t_required t)")
    case (Inl e)
    then have "\<not> (\<forall>c\<in>set (t_required t). semantic_id c)"
      using n [of "t_required t"] by blast
    then show ?thesis using Inl by (auto simp: transition_validate_def)
  next
    case (Inr cs)
    have f: "facet_error t [] (t_owned t) = None
        \<longleftrightarrow> (\<forall>f\<in>set (t_owned t). semantic_id f) \<and> distinct (t_owned t)"
      by (simp add: facet_error_None)
    have c: "\<forall>c\<in>set (t_required t). semantic_id c"
      using Inr by (simp add: normalize_Inr_iff)
    have v: "transition_validate t =
        (if transition_incomplete t
         then Some (errorf (transition_prefix t @ [Lit '' has incomplete identity, modes, objective scope, operation, or priority'']))
         else if t_required t = [] \<or> t_owned t = []
         then Some (errorf (transition_prefix t @ [Lit '' requires explicit capabilities and owned facets'']))
         else case facet_error t [] (t_owned t) of Some e \<Rightarrow> Some e
         | None \<Rightarrow>
            if mutation_unauthorized t
            then Some (errorf (transition_prefix t @ [Lit '' objective mutation requires NONE scope, supervisor.objective ownership, and objective.bind capability'']))
            else first_error (\<lambda>recovered.
              if \<not> qualified_semantic_id recovered
              then Some (errorf (transition_prefix t @ [Lit '' has invalid recovery target '', Quoted recovered]))
              else None) (t_recovers t))"
      by (simp add: transition_validate_def Inr)
    show ?thesis
      unfolding v using c f by (cases "facet_error t [] (t_owned t)") auto
  qed
qed

section \<open>Laws of programs\<close>

definition index_of :: "transition list \<Rightarrow> (string \<rightharpoonup> transition)" where
  "index_of ts = map_of (map (\<lambda>t. (t_id t, t)) ts)"

lemma index_of_Cons: "index_of (t # ts) = (index_of ts)(t_id t \<mapsto> t)"
  by (simp add: index_of_def)

lemma dom_index_of: "dom (index_of ts) = t_id ` set ts"
  by (simp add: index_of_def dom_map_of_conv_image_fst image_image)

lemma index_of_Some:
  "distinct (map t_id ts) \<Longrightarrow> index_of ts i = Some t \<longleftrightarrow> t \<in> set ts \<and> t_id t = i"
  by (auto simp: index_of_def comp_def image_iff map_of_eq_Some_iff)

lemma index_of_None: "index_of ts i = None \<longleftrightarrow> i \<notin> t_id ` set ts"
  using dom_index_of [of ts] by (metis domIff)

lemma index_transitions_Inr:
  "index_transitions m ts = Inr m' \<longleftrightarrow>
     (\<forall>t\<in>set ts. transition_validate t = None) \<and> distinct (map t_id ts)
     \<and> t_id ` set ts \<inter> dom m = {} \<and> m' = m ++ index_of ts"
proof (induction ts arbitrary: m)
  case Nil
  then show ?case by (auto simp: index_of_def)
next
  case (Cons t ts)
  have step: "index_transitions m (t # ts) = Inr m' \<longleftrightarrow>
      transition_validate t = None \<and> m (t_id t) = None
      \<and> index_transitions (m(t_id t \<mapsto> t)) ts = Inr m'"
    by (cases "transition_validate t"; cases "m (t_id t)") simp_all
  have add: "t_id t \<notin> t_id ` set ts \<Longrightarrow> m(t_id t \<mapsto> t) ++ index_of ts = m ++ index_of (t # ts)"
    by (simp add: index_of_Cons map_add_upd_left dom_index_of del: fun_upd_apply)
  have dom: "t_id ` set ts \<inter> dom (m(t_id t \<mapsto> t)) = {}
      \<longleftrightarrow> t_id t \<notin> t_id ` set ts \<and> t_id ` set ts \<inter> dom m = {}"
    by auto
  have fresh: "t_id ` set (t # ts) \<inter> dom m = {} \<longleftrightarrow> m (t_id t) = None \<and> t_id ` set ts \<inter> dom m = {}"
    by (auto simp: domIff)
  have "distinct (map t_id (t # ts)) \<longleftrightarrow> t_id t \<notin> t_id ` set ts \<and> distinct (map t_id ts)"
    by simp
  then show ?case
    unfolding step Cons.IH dom fresh using add by auto
qed

definition prepared_transitions :: "program \<Rightarrow> transition list" where
  "prepared_transitions p = sort_key transition_order (map canon_t (p_transitions p))"

definition prepare_ok :: "program \<Rightarrow> bool" where
  "prepare_ok p =
     (let ts = prepared_transitions p in
      \<not> program_incomplete p \<and> (p_contract p = [] \<or> length (p_contract p) = 64)
      \<and> (\<forall>m\<in>set (p_marked p). semantic_id m) \<and> distinct (p_marked p)
      \<and> (\<forall>t\<in>set (p_transitions p). canonicalizable t)
      \<and> (\<forall>t\<in>set ts. transition_validate t = None) \<and> distinct (map t_id ts)
      \<and> (\<forall>t\<in>set ts. recovery_error (index_of ts) t = None)
      \<and> (\<forall>t\<in>set ts. unrecovered_error (concat (map t_recovers ts)) t = None))"

definition prepared :: "program \<Rightarrow> program" where
  "prepared p = p\<lparr>p_marked := sort (p_marked p), p_transitions := prepared_transitions p,
                  p_by_id := Some (index_of (prepared_transitions p))\<rparr>"

lemma map_result_canonical:
  "map_result transition_canonical ts = Inr us
     \<longleftrightarrow> (\<forall>t\<in>set ts. canonicalizable t) \<and> us = map canon_t ts"
  unfolding map_result_Inr_iff transition_canonical_Inr
  by (induction ts arbitrary: us) (auto simp: list_all2_Cons1)

lemma prepare_Inr_iff: "prepare p = Inr q \<longleftrightarrow> prepare_ok p \<and> q = prepared p"
proof
  assume "prepare p = Inr q"
  then show "prepare_ok p \<and> q = prepared p"
    by (auto simp: prepare_def prepare_ok_def prepared_def prepared_transitions_def Let_def
          canonical_ids_Inr map_result_canonical index_transitions_Inr
          split: if_splits sum.splits option.splits)
next
  assume a: "prepare_ok p \<and> q = prepared p"
  then have "canonical_ids (p_marked p) ''marked mode'' = Inr (sort (p_marked p))"
    "map_result transition_canonical (p_transitions p) = Inr (map canon_t (p_transitions p))"
    "index_transitions Map.empty (prepared_transitions p) = Inr (index_of (prepared_transitions p))"
    by (simp_all add: prepare_ok_def Let_def canonical_ids_Inr map_result_canonical
          index_transitions_Inr)
  moreover have "sort_key transition_order (map canon_t (p_transitions p)) = prepared_transitions p"
    by (simp add: prepared_transitions_def)
  moreover have
    "first_error (recovery_error (index_of (prepared_transitions p))) (prepared_transitions p) = None"
    "first_error (unrecovered_error (concat (map t_recovers (prepared_transitions p))))
       (prepared_transitions p) = None"
    using a by (simp_all add: prepare_ok_def Let_def)
  moreover have "\<not> program_incomplete p" "p_contract p = [] \<or> length (p_contract p) = 64"
    using a by (simp_all add: prepare_ok_def Let_def)
  ultimately show "prepare p = Inr q"
    using a by (auto simp: prepare_def prepared_def Let_def simp del: first_error_None_iff)
qed

lemma prepared_fields [simp]:
  "p_schema (prepared p) = p_schema p" "p_id (prepared p) = p_id p"
  "p_version (prepared p) = p_version p" "p_runtime (prepared p) = p_runtime p"
  "p_contract (prepared p) = p_contract p" "p_initial (prepared p) = p_initial p"
  "p_marked (prepared p) = sort (p_marked p)"
  "p_transitions (prepared p) = prepared_transitions p"
  "p_fingerprint (prepared p) = p_fingerprint p"
  "p_by_id (prepared p) = Some (index_of (prepared_transitions p))"
  by (simp_all add: prepared_def)

lemma set_prepared_transitions: "set (prepared_transitions p) = canon_t ` set (p_transitions p)"
  by (simp add: prepared_transitions_def)

lemma sort_key_fixed: "sorted (map f xs) \<Longrightarrow> sort_key f xs = xs"
  by (simp add: sorted_sort_id sort_key_id_if_sorted)

lemma prepared_transitions_idem:
  "p_transitions q = prepared_transitions p \<Longrightarrow> prepared_transitions q = prepared_transitions p"
proof -
  assume q: "p_transitions q = prepared_transitions p"
  have "map canon_t (prepared_transitions p) = prepared_transitions p"
    by (rule map_idI) (auto simp: set_prepared_transitions)
  moreover have "sorted (map transition_order (prepared_transitions p))"
    by (simp add: prepared_transitions_def)
  ultimately show ?thesis
    by (simp add: prepared_transitions_def [of q] q sort_key_fixed)
qed

lemma prepare_ok_prepared: "prepare_ok p \<Longrightarrow> prepare_ok (prepared p)"
proof -
  assume a: "prepare_ok p"
  have "prepared_transitions (prepared p) = prepared_transitions p"
    by (rule prepared_transitions_idem) simp
  moreover have "\<forall>t\<in>set (prepared_transitions p). canonicalizable t"
    using a by (auto simp: prepare_ok_def Let_def set_prepared_transitions intro: canonicalizable_canon)
  moreover have "prepared_transitions p \<noteq> []"
    using a by (auto simp: prepare_ok_def Let_def prepared_transitions_def program_incomplete_def
        simp flip: set_empty)
  moreover have "sort (p_marked p) \<noteq> []"
    using a by (auto simp: prepare_ok_def Let_def program_incomplete_def simp flip: set_empty)
  ultimately show ?thesis
    using a by (simp add: prepare_ok_def Let_def program_incomplete_def)
qed

lemma prepared_idem: "prepared (prepared p) = prepared p"
  using prepared_transitions_idem [of "prepared p" p]
  by (cases p) (simp add: prepared_def)

lemma prepare_idem: "prepare p = Inr q \<Longrightarrow> prepare q = Inr q"
  by (simp add: prepare_Inr_iff prepare_ok_prepared prepared_idem)

text \<open>The identity fields \<open>prepare\<close> does not look at.\<close>

lemma prepared_transitions_ignores [simp]:
  "prepared_transitions (p\<lparr>p_fingerprint := f\<rparr>) = prepared_transitions p"
  "prepared_transitions (p\<lparr>p_by_id := b\<rparr>) = prepared_transitions p"
  by (simp_all add: prepared_transitions_def)

lemma prepare_ok_ignores [simp]:
  "prepare_ok (p\<lparr>p_fingerprint := f\<rparr>) = prepare_ok p"
  "prepare_ok (p\<lparr>p_by_id := b\<rparr>) = prepare_ok p"
  by (simp_all add: prepare_ok_def program_incomplete_def Let_def)

lemma prepared_ignores [simp]:
  "prepared (p\<lparr>p_fingerprint := f\<rparr>) = (prepared p)\<lparr>p_fingerprint := f\<rparr>"
  "prepared (p\<lparr>p_by_id := b\<rparr>) = prepared p"
  by (simp_all add: prepared_def)

lemma raw_free_transition [simp]: "raw_free (transition_json t)"
  by (simp add: transition_json_def)

lemma program_hash_total: "\<exists>h. program_hash p = Inr h \<and> length h = 64"
proof -
  have "raw_free (program_json (p\<lparr>p_fingerprint := [], p_by_id := None\<rparr>))"
    by (simp add: program_json_def list_all_iff omit_empty_def)
  then show ?thesis
    using hash_json_total hash_json_length unfolding program_hash_def by blast
qed

lemma program_hash_ignores [simp]:
  "program_hash (p\<lparr>p_fingerprint := f\<rparr>) = program_hash p"
  "program_hash (p\<lparr>p_by_id := b\<rparr>) = program_hash p"
  by (simp_all add: program_hash_def)

lemma program_validate_None_iff:
  "program_validate p = None \<longleftrightarrow> prepare_ok p \<and> program_hash (prepared p) = Inr (p_fingerprint p)"
proof -
  let ?p = "p\<lparr>p_fingerprint := [], p_by_id := None\<rparr>"
  obtain h where h: "program_hash (prepared p) = Inr h" "length h = 64"
    using program_hash_total by blast
  then have ne: "h \<noteq> []" by auto
  show ?thesis
  proof (cases "prepare ?p")
    case (Inl e)
    then have "\<not> prepare_ok p"
      using prepare_Inr_iff [of ?p "prepared ?p"] by auto
    then show ?thesis using Inl by (simp add: program_validate_def)
  next
    case (Inr c)
    then have "prepare_ok p" "c = prepared ?p"
      by (simp_all add: prepare_Inr_iff)
    then show ?thesis
      using Inr h ne by (auto simp: program_validate_def Let_def split: if_splits)
  qed
qed

lemma program_validate_fingerprint: "program_validate p = None \<Longrightarrow> length (p_fingerprint p) = 64"
  using program_hash_total [of "prepared p"] by (auto simp: program_validate_None_iff)

lemma compile_Inr_iff:
  "compile_domain_program pid version runtime contract initial marked ts = Inr p \<longleftrightarrow>
     (let p0 = \<lparr>p_schema = program_schema_version, p_id = pid, p_version = version, p_runtime = runtime,
                p_contract = contract, p_initial = initial, p_marked = marked, p_transitions = ts,
                p_fingerprint = [], p_by_id = None\<rparr>
      in prepare_ok p0 \<and> p = (prepared p0)\<lparr>p_fingerprint := projr (program_hash (prepared p0))\<rparr>)"
proof -
  define p0 where "p0 = \<lparr>p_schema = program_schema_version, p_id = pid, p_version = version,
    p_runtime = runtime, p_contract = contract, p_initial = initial, p_marked = marked,
    p_transitions = ts, p_fingerprint = [], p_by_id = None\<rparr>"
  obtain h where h: "program_hash (prepared p0) = Inr h" "length h = 64"
    using program_hash_total by blast
  have "compile_domain_program pid version runtime contract initial marked ts = Inr p
      \<longleftrightarrow> (\<exists>q. prepare p0 = Inr q \<and> (\<exists>h. program_hash q = Inr h \<and> p = q\<lparr>p_fingerprint := h\<rparr>))"
    by (auto simp: compile_domain_program_def p0_def Let_def split: sum.splits)
  also have "\<dots> \<longleftrightarrow> prepare_ok p0 \<and> p = (prepared p0)\<lparr>p_fingerprint := h\<rparr>"
    using h(1) by (auto simp: prepare_Inr_iff)
  finally show ?thesis
    using h(1) by (simp add: p0_def Let_def)
qed

lemmas compile_defs = compile_Inr_iff Let_def program_schema_version_def

lemma canonicalizable_canon_iff [simp]: "canonicalizable (canon_t t) = canonicalizable t"
  by (simp add: canonicalizable_def canon_t_def)

lemma compile_prepare_ok:
  "compile_domain_program pid version runtime contract initial marked ts = Inr p \<Longrightarrow> prepare_ok p \<and> prepared p = p"
  by (auto simp: compile_Inr_iff Let_def prepare_ok_prepared prepared_idem)

lemma compile_fingerprint:
  "compile_domain_program pid version runtime contract initial marked ts = Inr p
     \<Longrightarrow> program_hash p = Inr (p_fingerprint p)"
  using program_hash_total by (auto simp: compile_Inr_iff Let_def) (metis sum.sel(2))

lemma compile_validates:
  "compile_domain_program pid version runtime contract initial marked ts = Inr p \<Longrightarrow> program_validate p = None"
  using compile_prepare_ok compile_fingerprint by (simp add: program_validate_None_iff)

lemma program_validate_prepare_ok: "program_validate p = None \<Longrightarrow> prepare_ok p"
  by (simp add: program_validate_None_iff)

text \<open>What the two checks over \<open>recovers\<close> establish, on the transitions themselves.\<close>

lemma recovery_error_None:
  assumes "distinct (map t_id ts)"
  shows "recovery_error (index_of ts) r = None \<longleftrightarrow>
    (t_recovers r = [] \<or> t_scope r \<noteq> Objective_bound_exact \<and> t_mutation r = Preserve_objective)
    \<and> (\<forall>i\<in>set (t_recovers r). \<exists>t\<in>set ts. t_id t = i \<and> set (t_sources t) \<subseteq> set (t_sources r))"
proof -
  have target: "recovery_target_error (index_of ts) r i = None
      \<longleftrightarrow> (\<exists>t\<in>set ts. t_id t = i \<and> set (t_sources t) \<subseteq> set (t_sources r))" for i
  proof (cases "index_of ts i")
    case None
    then have "recovery_target_error (index_of ts) r i \<noteq> None"
      by (simp add: recovery_target_error_def)
    moreover have "i \<notin> t_id ` set ts"
      using None by (simp add: index_of_None)
    ultimately show ?thesis by auto
  next
    case (Some t)
    then have t: "t \<in> set ts" "t_id t = i"
      using index_of_Some [OF assms] by auto
    have only: "u = t" if "u \<in> set ts" "t_id u = i" for u
      using Some index_of_Some [OF assms, of i u] that by simp
    have "recovery_target_error (index_of ts) r i = None
        \<longleftrightarrow> set (t_sources t) \<subseteq> set (t_sources r)"
      by (simp add: recovery_target_error_def Some subset_eq)
    moreover have "(\<exists>t\<in>set ts. t_id t = i \<and> set (t_sources t) \<subseteq> set (t_sources r))
        \<longleftrightarrow> set (t_sources t) \<subseteq> set (t_sources r)"
      using t only by metis
    ultimately show ?thesis by simp
  qed
  show ?thesis
    by (auto simp: recovery_error_def target)
qed

lemma prepare_ok_recoverable:
  assumes "prepare_ok p" and t: "t \<in> set (p_transitions p)" "t_recovers t = []"
  shows "\<exists>r\<in>set (p_transitions p). t_id t \<in> set (t_recovers r)
    \<and> set (t_sources t) \<subseteq> set (t_sources r)
    \<and> t_scope r \<noteq> Objective_bound_exact \<and> t_mutation r = Preserve_objective"
proof -
  let ?ts = "prepared_transitions p"
  have d: "distinct (map t_id ?ts)" and
    rec: "\<forall>r\<in>set ?ts. recovery_error (index_of ?ts) r = None" and
    unrec: "\<forall>t\<in>set ?ts. unrecovered_error (concat (map t_recovers ?ts)) t = None"
    using assms(1) by (simp_all add: prepare_ok_def Let_def)
  have ct: "canon_t t \<in> set ?ts" "t_recovers (canon_t t) = []"
    using t by (simp_all add: set_prepared_transitions)
  then obtain r where r: "r \<in> set ?ts" "t_id t \<in> set (t_recovers r)"
    using unrec by (fastforce simp: unrecovered_error_def split: if_splits)
  then obtain u where u: "u \<in> set ?ts" "t_id u = t_id t" "set (t_sources u) \<subseteq> set (t_sources r)"
    and safe: "t_scope r \<noteq> Objective_bound_exact" "t_mutation r = Preserve_objective"
    using rec recovery_error_None [OF d] by fastforce
  have "u = canon_t t"
    using d u(1,2) ct(1) by (metis canon_t_simps(1) index_of_Some option.inject)
  moreover obtain r' where "r' \<in> set (p_transitions p)" "r = canon_t r'"
    using r(1) by (auto simp: set_prepared_transitions)
  ultimately show ?thesis
    using r(2) u(3) safe by auto
qed

lemma prepare_ok_distinct: "prepare_ok p \<Longrightarrow> distinct (map t_id (p_transitions p))"
proof -
  assume "prepare_ok p"
  then have d: "distinct (map t_id (prepared_transitions p))"
    by (simp add: prepare_ok_def Let_def)
  have "mset (map t_id (prepared_transitions p)) = mset (map t_id (p_transitions p))"
    by (simp add: prepared_transitions_def image_mset.compositionality comp_def)
  then show ?thesis
    using d by (metis distinct_count_atmost_1 set_mset_mset)
qed

lemma clone_index: "foldl (\<lambda>m t. m(t_id t \<mapsto> t)) m ts = m ++ index_of (rev ts)"
proof (induction ts arbitrary: m)
  case Nil
  then show ?case by (simp add: index_of_def)
next
  case (Cons t ts)
  have "index_of (rev (t # ts)) = [t_id t \<mapsto> t] ++ index_of (rev ts)"
    by (simp add: index_of_def)
  then show ?case
    using map_add_upd [of m Map.empty "t_id t" t]
    by (simp add: Cons.IH del: fun_upd_apply)
qed

lemma clone_lookup:
  "distinct (map t_id (p_transitions p)) \<Longrightarrow>
     program_transition (program_clone p) i = Some t \<longleftrightarrow> t \<in> set (p_transitions p) \<and> t_id t = i"
  using index_of_Some [of "rev (p_transitions p)" i t]
  by (simp add: program_transition_def program_clone_def clone_index rev_map [symmetric])

text \<open>
  C37. Compilation produces valid programs: a program \<open>CompileDomainProgram\<close> returns passes
  \<open>Validate\<close>, every one of its transitions passes its own validation, and compiling its
  parts once more returns the same program, fingerprint and index included.
\<close>

theorem compile_roundtrip:
  assumes "compile_domain_program pid version runtime contract initial marked ts = Inr p"
  shows "program_validate p = None
    \<and> (\<forall>t\<in>set (p_transitions p). transition_validate t = None)
    \<and> compile_domain_program (p_id p) (p_version p) (p_runtime p) (p_contract p) (p_initial p)
        (p_marked p) (p_transitions p) = Inr p"
proof (intro conjI)
  have ok: "prepare_ok p" "prepared p = p" and hash: "program_hash p = Inr (p_fingerprint p)"
    using compile_prepare_ok [OF assms] compile_fingerprint [OF assms] by simp_all
  show "program_validate p = None"
    by (rule compile_validates [OF assms])
  have ts: "prepared_transitions p = p_transitions p"
    using arg_cong [OF ok(2), of p_transitions] by simp
  then show "\<forall>t\<in>set (p_transitions p). transition_validate t = None"
    using ok(1) by (simp add: prepare_ok_def Let_def)
  define p0 where "p0 = \<lparr>p_schema = program_schema_version, p_id = p_id p, p_version = p_version p,
    p_runtime = p_runtime p, p_contract = p_contract p, p_initial = p_initial p,
    p_marked = p_marked p, p_transitions = p_transitions p, p_fingerprint = [], p_by_id = None\<rparr>"
  have "p_schema p = program_schema_version"
    using ok(1) by (simp add: prepare_ok_def Let_def program_incomplete_def)
  then have p0: "p0 = p\<lparr>p_fingerprint := [], p_by_id := None\<rparr>"
    by (simp add: p0_def)
  have "prepare_ok p0" "prepared p0 = p\<lparr>p_fingerprint := []\<rparr>"
    using ok by (simp_all add: p0)
  moreover have "program_hash (p\<lparr>p_fingerprint := []\<rparr>) = Inr (p_fingerprint p)"
    using hash by simp
  ultimately have "prepare_ok p0 \<and> p = (prepared p0)\<lparr>p_fingerprint := projr (program_hash (prepared p0))\<rparr>"
    by simp
  then show "compile_domain_program (p_id p) (p_version p) (p_runtime p) (p_contract p) (p_initial p)
      (p_marked p) (p_transitions p) = Inr p"
    unfolding compile_Inr_iff p0_def [symmetric] Let_def .
qed

text \<open>
  A compiled program does not depend on the order in which its marked modes and its
  transitions are declared, nor on the order inside each transition of its source modes,
  capabilities, owned facets and recovery targets: the compiled program is the same, and so
  is its fingerprint.
\<close>

theorem compile_order_free:
  assumes "compile_domain_program pid version runtime contract initial marked ts = Inr p"
    and marked: "mset marked' = mset marked"
    and ts: "mset (map canon_t ts') = mset (map canon_t ts)"
  shows "compile_domain_program pid version runtime contract initial marked' ts' = Inr p"
proof -
  define q where "q m us = \<lparr>p_schema = program_schema_version, p_id = pid, p_version = version,
    p_runtime = runtime, p_contract = contract, p_initial = initial, p_marked = m,
    p_transitions = us, p_fingerprint = [], p_by_id = None\<rparr>" for m us
  have ok: "prepare_ok (q marked ts)"
    and p: "p = (prepared (q marked ts))\<lparr>p_fingerprint := projr (program_hash (prepared (q marked ts)))\<rparr>"
    using assms(1) by (simp_all add: compile_Inr_iff q_def Let_def)
  have "distinct (map t_id (prepared_transitions (q marked ts)))"
    using ok by (simp add: prepare_ok_def Let_def)
  then have "distinct (map t_id (map canon_t ts))"
    unfolding prepared_transitions_def distinct_map_sort_key by (simp add: q_def)
  moreover have "map t_id us = map snd (map transition_order us)" for us
    by (simp add: transition_order_def)
  ultimately have d: "distinct (map transition_order (map canon_t ts))"
    by (metis distinct_map)
  have same: "prepared_transitions (q marked' ts') = prepared_transitions (q marked ts)"
    using sort_key_unique [OF d ts [symmetric]] by (simp add: prepared_transitions_def q_def)
  have sm: "sort marked' = sort marked"
    using marked by (metis mset_sort sorted_sort properties_for_sort)
  have sets: "set marked' = set marked" "distinct marked' = distinct marked"
    "canon_t ` set ts' = canon_t ` set ts" "(marked' = []) = (marked = [])" "(ts' = []) = (ts = [])"
    subgoal using mset_eq_setD [OF marked] .
    subgoal using mset_eq_imp_distinct_iff [OF marked] .
    subgoal using mset_eq_setD [OF ts] by simp
    subgoal using mset_eq_length [OF marked] by (metis length_0_conv)
    subgoal using mset_eq_length [OF ts] by (metis length_map length_0_conv)
    done
  have "(\<forall>t\<in>set us. canonicalizable t) \<longleftrightarrow> (\<forall>t\<in>canon_t ` set us. canonicalizable t)" for us
    by simp
  then have "(\<forall>t\<in>set ts'. canonicalizable t) \<longleftrightarrow> (\<forall>t\<in>set ts. canonicalizable t)"
    using sets(3) by metis
  then have "prepare_ok (q marked' ts')"
    using ok unfolding prepare_ok_def same by (simp add: Let_def q_def program_incomplete_def sets)
  moreover have "prepared (q marked' ts') = prepared (q marked ts)"
    using same sm by (simp add: prepared_def) (simp add: q_def)
  ultimately show ?thesis
    using p by (simp add: compile_Inr_iff q_def Let_def)
qed

text \<open>
  C38. Every ordinary transition of a valid program can be recovered wherever it can be
  applied: some transition of the program recovers it, is applicable in each of its source
  modes, preserves the objective and does not require an exact objective. Recovery is
  therefore never blocked by the objective.
\<close>

theorem valid_program_recoverable:
  assumes "program_validate p = None" and "t \<in> set (p_transitions p)" and "t_recovers t = []"
  shows "\<exists>r\<in>set (p_transitions p). t_id t \<in> set (t_recovers r)
    \<and> set (t_sources t) \<subseteq> set (t_sources r)
    \<and> t_scope r \<noteq> Objective_bound_exact \<and> t_mutation r = Preserve_objective"
  using prepare_ok_recoverable program_validate_prepare_ok assms by blast

text \<open>
  C33. Lookup by identity is exact. In the clone of a valid program, whatever index the
  program came with, \<open>Transition\<close> finds a transition for an identity exactly when it is the
  program's one transition of that identity; in a valid program without an index (as one
  decoded from JSON) it finds that transition in canonical form.
\<close>

theorem lookup_exact:
  assumes "program_validate p = None"
  shows "(program_transition (program_clone p) i = Some t \<longleftrightarrow> t \<in> set (p_transitions p) \<and> t_id t = i)
    \<and> (p_by_id p = None \<longrightarrow>
        (program_transition p i = Some t
          \<longleftrightarrow> (\<exists>u\<in>set (p_transitions p). t_id u = i \<and> t = canon_t u)))"
proof -
  have ok: "prepare_ok p"
    by (rule program_validate_prepare_ok [OF assms])
  then have "distinct (map t_id (prepared_transitions p))"
    by (simp add: prepare_ok_def Let_def)
  then have "index_of (prepared_transitions p) i = Some t
      \<longleftrightarrow> (\<exists>u\<in>set (p_transitions p). t_id u = i \<and> t = canon_t u)"
    by (auto simp: index_of_Some set_prepared_transitions)
  moreover have "prepare p = Inr (prepared p)"
    using ok by (simp add: prepare_Inr_iff)
  ultimately show ?thesis
    using clone_lookup [OF prepare_ok_distinct [OF ok]] by (simp add: program_transition_def)
qed

text \<open>
  \<open>Validate\<close> does not look at the index, and lookup looks at nothing else once there is one:
  a program whose exported fields were replaced after it was compiled validates, and looks
  transitions up in the program it was compiled from.
\<close>

lemma validate_ignores_index:
  "program_validate (p\<lparr>p_by_id := Some m\<rparr>) = program_validate p
    \<and> program_transition (p\<lparr>p_by_id := Some m\<rparr>) i = m i"
  by (simp add: program_validate_def program_transition_def)

text \<open>
  What the runtime theorems assume of its program: it validates, is in canonical form and
  carries the index of its own transitions, as every compiled program does.
\<close>

definition compiled :: "program \<Rightarrow> bool" where
  "compiled p \<longleftrightarrow> program_validate p = None \<and> prepared p = p"

lemma compile_compiled:
  "compile_domain_program pid version runtime contract initial marked ts = Inr p \<Longrightarrow> compiled p"
  using compile_validates compile_prepare_ok by (simp add: compiled_def)

lemma compiled_lookup:
  assumes "compiled p"
  shows "program_transition p i = Some t \<longleftrightarrow> t \<in> set (p_transitions p) \<and> t_id t = i"
proof -
  have ok: "prepare_ok p" and idem: "prepared p = p"
    using assms program_validate_prepare_ok by (simp_all add: compiled_def)
  then have "p_by_id p = Some (index_of (p_transitions p))"
    by (metis prepared_fields(8,10))
  then show ?thesis
    using index_of_Some [OF prepare_ok_distinct [OF ok]] by (simp add: program_transition_def)
qed

lemma compiled_transition_valid:
  assumes "compiled p" "t \<in> set (p_transitions p)"
  shows "transition_validate t = None" "canon_t t = t" "canonicalizable t"
proof -
  have ok: "prepare_ok p" and ts: "prepared_transitions p = p_transitions p"
    using assms(1) program_validate_prepare_ok prepared_fields(8) [of p] by (auto simp: compiled_def)
  show "transition_validate t = None" "canonicalizable t"
    using ok ts assms(2) by (simp_all add: prepare_ok_def Let_def)
  have "t \<in> canon_t ` set (p_transitions p)"
    using assms(2) ts by (metis set_prepared_transitions)
  then show "canon_t t = t" by auto
qed

lemma compiled_identity: "compiled p \<Longrightarrow> program_identity_validate (program_identity_of p) = None"
  using program_validate_fingerprint [of p] program_validate_prepare_ok [of p]
  by (auto simp: compiled_def program_identity_validate_def program_identity_of_def prepare_ok_def
      Let_def program_incomplete_def)

end
