(* ===== verification/Kernel_Relation.thy ===== *)
theory Kernel_Relation
  imports Kernel_Program
begin

text \<open>
  \<open>boatstack/kernel/relation.go\<close> and the records of \<open>trace.go\<close>: the relation that selects a
  transition from the candidates the program and the domain admit, and the trace it gives of
  each candidate.
\<close>

section \<open>Decisions\<close>

datatype decision_kind = Prescribed | Marked | Frontier | Blocked | Refused | Unresolved

record decision =
  d_kind :: decision_kind
  d_transition :: string
  d_candidates :: "string list"
  d_reason :: message

definition plain_decision :: "decision_kind \<Rightarrow> message \<Rightarrow> decision" where
  "plain_decision k reason = \<lparr>d_kind = k, d_transition = [], d_candidates = [], d_reason = reason\<rparr>"

text \<open>\<open>No_disposition\<close> is the zero value of the string type.\<close>

datatype candidate_disposition = No_disposition | Disposition_selected
  | Disposition_source_mode_rejected | Disposition_recovery_rejected
  | Disposition_objective_rejected | Disposition_domain_rejected
  | Disposition_authority_frontier | Disposition_shadowed | Disposition_ambiguous
  | Disposition_explicitly_refused | Disposition_irrelevant_to_request

record authority_trace =
  at_available :: "capability list"
  at_required_all :: "capability list"
  at_required_any :: "capability list"
  at_missing_all :: "capability list"
  at_missing_any :: "capability list"
  at_all_satisfied :: bool
  at_any_satisfied :: bool
  at_satisfied :: bool

definition no_authority_trace :: authority_trace where
  "no_authority_trace =
     \<lparr>at_available = [], at_required_all = [], at_required_any = [], at_missing_all = [],
      at_missing_any = [], at_all_satisfied = False, at_any_satisfied = False, at_satisfied = False\<rparr>"

record evaluation_trace =
  e_evaluated :: bool
  e_satisfied :: bool
  e_reason :: message

definition no_evaluation :: evaluation_trace where
  "no_evaluation = \<lparr>e_evaluated = False, e_satisfied = False, e_reason = []\<rparr>"

record candidate_trace =
  c_transition :: string
  c_source_mode :: evaluation_trace
  c_recovery :: evaluation_trace
  c_scope :: evaluation_trace
  c_mutation :: evaluation_trace
  c_domain :: evaluation_trace
  c_selection :: evaluation_trace
  c_selectable :: bool
  c_class :: string
  c_rank :: int
  c_priority :: int
  c_authority :: authority_trace
  c_survived :: bool
  c_disposition :: candidate_disposition

definition new_candidate_trace :: "string \<Rightarrow> int \<Rightarrow> candidate_trace" where
  "new_candidate_trace i priority =
     \<lparr>c_transition = i, c_source_mode = no_evaluation, c_recovery = no_evaluation,
      c_scope = no_evaluation, c_mutation = no_evaluation, c_domain = no_evaluation,
      c_selection = no_evaluation, c_selectable = False, c_class = [], c_rank = 0,
      c_priority = priority, c_authority = no_authority_trace, c_survived = False,
      c_disposition = No_disposition\<rparr>"

section \<open>Candidates\<close>

record relation_candidate =
  rc_id :: string
  rc_rank :: int
  rc_priority :: int
  rc_selectable :: bool
  rc_required_all :: "capability list"
  rc_required_any :: "capability list"

text \<open>\<open>NoCandidate\<close> is \<open>None\<close> when it is the empty string.\<close>

record relation_input =
  ri_requested :: string
  ri_marked :: bool
  ri_no_candidate :: "decision_kind option"
  ri_candidates :: "relation_candidate list"
  ri_available :: "capability list"

section \<open>Authority\<close>

definition authority_trace_of :: "relation_candidate \<Rightarrow> capability list \<Rightarrow> authority_trace" where
  "authority_trace_of c available =
     (let missing_all = filter (\<lambda>v. \<not> contains available v) (rc_required_all c);
          any_ok = (rc_required_any c = [] \<or> list_ex (contains available) (rc_required_any c))
      in \<lparr>at_available = sort available, at_required_all = sort (rc_required_all c),
          at_required_any = sort (rc_required_any c), at_missing_all = sort missing_all,
          at_missing_any = sort (if any_ok then [] else rc_required_any c),
          at_all_satisfied = (missing_all = []), at_any_satisfied = any_ok,
          at_satisfied = (missing_all = [] \<and> any_ok)\<rparr>)"

definition missing_authority :: "relation_candidate \<Rightarrow> capability list \<Rightarrow> capability list" where
  "missing_authority c available =
     sort (filter (\<lambda>v. \<not> contains available v) (rc_required_all c)
       @ (if rc_required_any c \<noteq> [] \<and> \<not> list_ex (contains available) (rc_required_any c)
          then rc_required_any c else []))"

section \<open>The relation\<close>

text \<open>The order of \<open>sort.Slice\<close>: rank, then priority, then identity.\<close>

definition candidate_order :: "relation_candidate \<Rightarrow> int \<times> int \<times> string" where
  "candidate_order c = (rc_rank c, rc_priority c, rc_id c)"

definition no_candidate :: "relation_input \<Rightarrow> decision_kind" where
  "no_candidate inp = (case ri_no_candidate inp of None \<Rightarrow> Unresolved | Some k \<Rightarrow> k)"

text \<open>The part after the candidates are filtered: sorting, ambiguity, and authority.\<close>

definition select_candidate :: "relation_candidate list \<Rightarrow> capability list \<Rightarrow> decision" where
  "select_candidate cs available =
     (let candidates = sort_key candidate_order cs; top = hd candidates;
          equal = map rc_id (filter (\<lambda>c. rc_rank c = rc_rank top \<and> rc_priority c = rc_priority top) candidates)
      in if 1 < length equal
         then \<lparr>d_kind = Frontier, d_transition = [], d_candidates = equal,
               d_reason = [Lit ''equally preferred admissible transitions require selection'']\<rparr>
         else if missing_authority top available \<noteq> []
         then \<lparr>d_kind = Frontier, d_transition = rc_id top, d_candidates = [rc_id top],
               d_reason = [Lit ''transition requires unavailable capabilities: '',
                           Listed (missing_authority top available)]\<rparr>
         else \<lparr>d_kind = Prescribed, d_transition = rc_id top, d_candidates = [],
               d_reason = [Lit ''canonical relation admitted one highest-priority transition'']\<rparr>)"

text \<open>\<open>Relate\<close>.\<close>

definition relate :: "relation_input \<Rightarrow> decision" where
  "relate inp =
     (if ri_marked inp \<and> ri_requested inp = []
      then plain_decision Marked [Lit ''program-defined marked state is established'']
      else if ri_requested inp \<noteq> []
      then (let candidates = filter (\<lambda>c. rc_id c = ri_requested inp) (ri_candidates inp) in
        if candidates = []
        then \<lparr>d_kind = Refused, d_transition = ri_requested inp, d_candidates = [],
              d_reason = [Lit ''requested transition is not admissible under the canonical relation'']\<rparr>
        else select_candidate candidates (ri_available inp))
      else if ri_candidates inp = []
      then plain_decision (no_candidate inp) [Lit ''no transition is admissible under the canonical relation'']
      else (let candidates = filter rc_selectable (ri_candidates inp) in
        if candidates = []
        then plain_decision (no_candidate inp) [Lit ''no transition is selectable under the canonical relation'']
        else select_candidate candidates (ri_available inp)))"

text \<open>The trace of one candidate under the final decision: the switch of \<open>finish\<close>.\<close>

definition finish_trace :: "relation_input \<Rightarrow> decision \<Rightarrow> relation_candidate \<Rightarrow> candidate_trace" where
  "finish_trace inp d c =
     (let requested = ri_requested inp;
          survived = (if requested = [] \<and> \<not> rc_selectable c then False else True);
          trace = (new_candidate_trace (rc_id c) (rc_priority c))
            \<lparr>c_selectable := rc_selectable c, c_rank := rc_rank c, c_survived := survived,
             c_disposition := Disposition_shadowed, c_authority := authority_trace_of c (ri_available inp)\<rparr>
      in if requested \<noteq> [] \<and> rc_id c \<noteq> requested
         then trace\<lparr>c_disposition := Disposition_irrelevant_to_request, c_survived := False\<rparr>
         else if d_kind d = Prescribed \<and> rc_id c = d_transition d
         then trace\<lparr>c_disposition := Disposition_selected\<rparr>
         else if d_kind d = Frontier \<and> d_transition d = rc_id c
         then trace\<lparr>c_disposition := Disposition_authority_frontier\<rparr>
         else if d_kind d = Frontier \<and> contains (d_candidates d) (rc_id c)
         then trace\<lparr>c_disposition := Disposition_ambiguous\<rparr>
         else if d_kind d = Refused \<and> requested = rc_id c
         then trace\<lparr>c_disposition := Disposition_explicitly_refused\<rparr>
         else trace)"

text \<open>\<open>RelateWithTrace\<close>.\<close>

definition relate_with_trace :: "relation_input \<Rightarrow> decision \<times> candidate_trace list" where
  "relate_with_trace inp =
     (let d = relate inp in (d, map (finish_trace inp d) (ri_candidates inp)))"

section \<open>Laws of authority\<close>

text \<open>What the relation requires of a candidate before it prescribes it.\<close>

definition authorized :: "relation_candidate \<Rightarrow> capability set \<Rightarrow> bool" where
  "authorized c avail \<longleftrightarrow> set (rc_required_all c) \<subseteq> avail
     \<and> (rc_required_any c \<noteq> [] \<longrightarrow> set (rc_required_any c) \<inter> avail \<noteq> {})"

lemma sort_Nil_iff [simp]: "sort xs = [] \<longleftrightarrow> xs = ([] :: 'a::linorder list)"
  by (simp flip: set_empty)

lemma list_ex_contains [simp]: "list_ex (contains xs) ys \<longleftrightarrow> set ys \<inter> set xs \<noteq> {}"
  by (auto simp: list_ex_iff)

lemma missing_authority_Nil [simp]: "missing_authority c available = [] \<longleftrightarrow> authorized c (set available)"
  by (auto simp: missing_authority_def authorized_def filter_empty_conv)

lemma missing_authority_cong:
  assumes "set a = set b"
  shows "missing_authority c a = missing_authority c b"
  by (simp add: missing_authority_def assms)

lemma authority_trace_satisfied: "at_satisfied (authority_trace_of c a) \<longleftrightarrow> missing_authority c a = []"
  by (auto simp: authority_trace_of_def Let_def authorized_def filter_empty_conv)

section \<open>Laws of the selection\<close>

definition preference :: "relation_candidate \<Rightarrow> int \<times> int" where
  "preference c = (rc_rank c, rc_priority c)"

text \<open>One candidate strictly preferred to all others.\<close>

definition strictly_preferred :: "relation_candidate list \<Rightarrow> relation_candidate \<Rightarrow> bool" where
  "strictly_preferred cs c \<longleftrightarrow>
     (\<exists>pre post. cs = pre @ c # post \<and> (\<forall>c'\<in>set (pre @ post). preference c < preference c'))"

definition top_of :: "relation_candidate list \<Rightarrow> relation_candidate" where
  "top_of cs = hd (sort_key candidate_order cs)"

definition best_of :: "relation_candidate list \<Rightarrow> relation_candidate list" where
  "best_of cs = filter (\<lambda>c. preference c = preference (top_of cs)) (sort_key candidate_order cs)"

lemma select_candidate_alt:
  "select_candidate cs available =
     (if 1 < length (best_of cs)
      then \<lparr>d_kind = Frontier, d_transition = [], d_candidates = map rc_id (best_of cs),
            d_reason = [Lit ''equally preferred admissible transitions require selection'']\<rparr>
      else if missing_authority (top_of cs) available \<noteq> []
      then \<lparr>d_kind = Frontier, d_transition = rc_id (top_of cs), d_candidates = [rc_id (top_of cs)],
            d_reason = [Lit ''transition requires unavailable capabilities: '',
                        Listed (missing_authority (top_of cs) available)]\<rparr>
      else \<lparr>d_kind = Prescribed, d_transition = rc_id (top_of cs), d_candidates = [],
            d_reason = [Lit ''canonical relation admitted one highest-priority transition'']\<rparr>)"
  by (simp add: select_candidate_def best_of_def top_of_def preference_def Let_def)

lemma top_in: "cs \<noteq> [] \<Longrightarrow> top_of cs \<in> set cs"
  unfolding top_of_def by (metis hd_in_set set_empty set_sort)

lemma top_minimal: "c \<in> set cs \<Longrightarrow> candidate_order (top_of cs) \<le> candidate_order c"
proof -
  assume c: "c \<in> set cs"
  have "sorted (map candidate_order (sort_key candidate_order cs))"
    by simp
  moreover obtain x xs where "sort_key candidate_order cs = x # xs"
    using c by (metis list.exhaust list.set_sel(1) neq_Nil_conv set_empty set_sort length_pos_if_in_set length_greater_0_conv)
  ultimately show ?thesis
    using c by (metis (mono_tags, lifting) list.map(2) list.sel(1) set_ConsD set_sort sorted_simps(2)
        image_eqI list.set_map order.refl top_of_def)
qed

lemma top_preferred: "c \<in> set cs \<Longrightarrow> preference (top_of cs) \<le> preference c"
  using top_minimal [of c cs] by (auto simp: candidate_order_def preference_def less_eq_prod_def less_prod_def)

lemma length_best: "length (best_of cs) = length (filter (\<lambda>c. preference c = preference (top_of cs)) cs)"
  unfolding best_of_def by (metis mset_filter mset_sort size_mset)

lemma strictly_preferred_top:
  assumes "strictly_preferred cs c"
  shows "c = top_of cs" "length (best_of cs) = 1"
proof -
  obtain pre post where cs: "cs = pre @ c # post"
    and pref: "\<forall>c'\<in>set (pre @ post). preference c < preference c'"
    using assms by (auto simp: strictly_preferred_def)
  have "top_of cs \<in> set cs" "preference (top_of cs) \<le> preference c"
    using cs top_in [of cs] top_preferred [of c cs] by auto
  then show top: "c = top_of cs"
    using pref cs by (metis Un_iff leD set_ConsD set_append)
  have "preference c' \<noteq> preference c" if "c' \<in> set (pre @ post)" for c'
    using bspec [OF pref that] by auto
  then have "filter (\<lambda>c'. preference c' = preference c) pre = []"
    "filter (\<lambda>c'. preference c' = preference c) post = []"
    by (simp_all add: filter_empty_conv)
  then have "filter (\<lambda>c'. preference c' = preference c) cs = [c]"
    by (simp add: cs)
  then show "length (best_of cs) = 1"
    by (simp add: length_best flip: top)
qed

lemma best_single_strictly_preferred:
  assumes "cs \<noteq> []" "\<not> 1 < length (best_of cs)"
  shows "strictly_preferred cs (top_of cs)"
proof -
  define t where "t = top_of cs"
  let ?P = "\<lambda>c. preference c = preference t"
  have le: "\<forall>c'\<in>set cs. preference t \<le> preference c'"
    using top_preferred by (simp add: t_def)
  have len: "length (filter ?P cs) \<le> 1"
    using assms(2) by (simp add: length_best t_def)
  obtain pre post where cs: "cs = pre @ t # post"
    using top_in [OF assms(1)] by (metis split_list t_def)
  then have "filter ?P pre = []" "filter ?P post = []"
    using len by simp_all
  then have "preference t < preference c'" if "c' \<in> set (pre @ post)" for c'
    using le that by (force simp: cs filter_empty_conv order.strict_iff_order)
  then show ?thesis
    using cs unfolding strictly_preferred_def t_def [symmetric] by blast
qed

lemma select_prescribed_iff:
  assumes "cs \<noteq> []"
  shows "d_kind (select_candidate cs available) = Prescribed \<and> d_transition (select_candidate cs available) = i
    \<longleftrightarrow> (\<exists>c. strictly_preferred cs c \<and> rc_id c = i \<and> authorized c (set available))"
  using strictly_preferred_top best_single_strictly_preferred [OF assms]
  by (auto simp: select_candidate_alt)

lemma strictly_preferred_in: "strictly_preferred cs c \<Longrightarrow> c \<in> set cs"
  by (auto simp: strictly_preferred_def)

section \<open>Laws of the relation\<close>

definition eligible :: "relation_input \<Rightarrow> relation_candidate list" where
  "eligible inp =
     (if ri_requested inp \<noteq> [] then filter (\<lambda>c. rc_id c = ri_requested inp) (ri_candidates inp)
      else filter rc_selectable (ri_candidates inp))"

lemma relate_eligible:
  "eligible inp \<noteq> [] \<Longrightarrow> \<not> (ri_marked inp \<and> ri_requested inp = []) \<Longrightarrow>
     relate inp = select_candidate (eligible inp) (ri_available inp)"
  by (auto simp: relate_def eligible_def Let_def)

lemma relate_not_prescribed:
  "eligible inp = [] \<or> ri_marked inp \<and> ri_requested inp = [] \<Longrightarrow> ri_no_candidate inp \<noteq> Some Prescribed
     \<Longrightarrow> d_kind (relate inp) \<noteq> Prescribed"
  by (auto simp: relate_def eligible_def Let_def plain_decision_def no_candidate_def split: option.splits)

lemma select_kind: "d_kind (select_candidate cs available) = Prescribed \<or> d_kind (select_candidate cs available) = Frontier"
  by (simp add: select_candidate_alt)

lemma relate_prescribed_iff:
  assumes "ri_no_candidate inp \<noteq> Some Prescribed"
  shows "d_kind (relate inp) = Prescribed \<and> d_transition (relate inp) = i \<longleftrightarrow>
    \<not> (ri_marked inp \<and> ri_requested inp = [])
    \<and> (\<exists>c. strictly_preferred (eligible inp) c \<and> rc_id c = i \<and> authorized c (set (ri_available inp)))"
proof (cases "eligible inp = [] \<or> ri_marked inp \<and> ri_requested inp = []")
  case True
  then show ?thesis
    using relate_not_prescribed [OF True assms] by (auto simp: strictly_preferred_def)
next
  case False
  then have "relate inp = select_candidate (eligible inp) (ri_available inp)"
    by (intro relate_eligible) auto
  then show ?thesis
    using select_prescribed_iff [of "eligible inp"] False by simp
qed

text \<open>The decision depends on the candidates as a multiset only.\<close>

lemma sorted_order_unique:
  assumes "mset cs = mset cs'"
  shows "map candidate_order (sort_key candidate_order cs) = map candidate_order (sort_key candidate_order cs')"
proof -
  have sort: "map candidate_order (sort_key candidate_order xs) = sort (map candidate_order xs)" for xs
    by (rule properties_for_sort [symmetric]) simp_all
  have "mset (map candidate_order cs) = mset (map candidate_order cs')"
    using assms by simp
  then show ?thesis
    unfolding sort by (metis properties_for_sort mset_sort sorted_sort)
qed

lemma top_order_unique:
  assumes "mset cs = mset cs'"
  shows "candidate_order (top_of cs) = candidate_order (top_of cs')"
proof (cases "cs = []")
  case True
  then show ?thesis using assms by simp
next
  case False
  then have "cs' \<noteq> []" using assms by auto
  then show ?thesis
    using False sorted_order_unique [OF assms] unfolding top_of_def
    by (metis hd_map set_empty set_sort)
qed

lemma best_ids_unique:
  assumes "mset cs = mset cs'"
  shows "map rc_id (best_of cs) = map rc_id (best_of cs')"
proof -
  have proj: "map rc_id (filter (\<lambda>c. preference c = p) xs)
      = map (snd \<circ> snd) (filter (\<lambda>k. (fst k, fst (snd k)) = p) (map candidate_order xs))" for p xs
    by (induction xs) (auto simp: candidate_order_def preference_def)
  have "preference (top_of cs) = preference (top_of cs')"
    using top_order_unique [OF assms] by (simp add: candidate_order_def preference_def)
  then show ?thesis
    unfolding best_of_def proj using sorted_order_unique [OF assms] by simp
qed

lemma strictly_preferred_mset:
  assumes "mset cs = mset cs'" "strictly_preferred cs c"
  shows "strictly_preferred cs' c"
proof -
  obtain pre post where cs: "cs = pre @ c # post"
    and pref: "\<forall>c'\<in>set (pre @ post). preference c < preference c'"
    using assms(2) by (auto simp: strictly_preferred_def)
  have "c \<in> set cs'"
    using assms strictly_preferred_in mset_eq_setD by metis
  then obtain pre' post' where cs': "cs' = pre' @ c # post'"
    by (meson split_list)
  then have "mset (pre' @ post') = mset (pre @ post)"
    using assms(1) cs by simp
  then have "set (pre' @ post') = set (pre @ post)"
    by (metis set_mset_mset)
  then show ?thesis
    using cs' pref unfolding strictly_preferred_def by metis
qed

lemma select_candidate_cong:
  assumes "mset cs = mset cs'" "set a = set a'"
  shows "select_candidate cs a = select_candidate cs' a'"
proof (cases "cs = [] \<or> 1 < length (best_of cs)")
  case True
  show ?thesis
  proof (cases "cs = []")
    case True
    then have "cs' = []" using assms(1) by simp
    then show ?thesis
      using True assms(2) by (simp add: select_candidate_alt missing_authority_cong [OF assms(2)])
  next
    case False
    have ids: "map rc_id (best_of cs) = map rc_id (best_of cs')"
      by (rule best_ids_unique [OF assms(1)])
    then have "1 < length (best_of cs')"
      using True False by (metis length_map)
    then show ?thesis
      using True False ids by (simp add: select_candidate_alt)
  qed
next
  case False
  then have c: "strictly_preferred cs (top_of cs)"
    using best_single_strictly_preferred by blast
  then have c': "strictly_preferred cs' (top_of cs)"
    using strictly_preferred_mset [OF assms(1)] by blast
  have "top_of cs = top_of cs'"
    by (rule strictly_preferred_top(1) [OF c'])
  then show ?thesis
    using False strictly_preferred_top(2) [OF c'] assms(2)
    by (simp add: select_candidate_alt missing_authority_cong [OF assms(2)])
qed

text \<open>
  C33. The relation prescribes a transition exactly when the instance is not already marked
  (or a transition was requested), that transition is a candidate, eligible by request or by
  being selectable, strictly preferred by rank and then priority to every other eligible
  candidate, and the available capabilities hold all it requires and one of its
  alternatives. It never prescribes an ambiguous or an unauthorized candidate.
\<close>

theorem relate_prescribes_exactly:
  assumes "ri_no_candidate inp \<noteq> Some Prescribed"
  shows "(d_kind (relate inp) = Prescribed \<and> d_transition (relate inp) = i) \<longleftrightarrow>
    \<not> (ri_marked inp \<and> ri_requested inp = [])
    \<and> (\<exists>c\<in>set (ri_candidates inp). rc_id c = i
        \<and> (if ri_requested inp = [] then rc_selectable c else i = ri_requested inp)
        \<and> strictly_preferred (eligible inp) c \<and> authorized c (set (ri_available inp)))"
proof -
  have "c \<in> set (ri_candidates inp) \<and> (if ri_requested inp = [] then rc_selectable c else rc_id c = ri_requested inp)"
    if "strictly_preferred (eligible inp) c" for c
    using strictly_preferred_in [OF that] by (auto simp: eligible_def split: if_splits)
  then show ?thesis
    unfolding relate_prescribed_iff [OF assms] by (auto split: if_splits)
qed

text \<open>
  C34. Selection does not depend on the order in which candidates and capabilities are
  presented: two inputs with the same request, marking, fallback, multiset of candidates and
  set of capabilities are related to the same decision, its candidates and reason included.
\<close>

theorem relate_order_free:
  assumes "mset (ri_candidates inp') = mset (ri_candidates inp)"
    and "set (ri_available inp') = set (ri_available inp)"
    and "ri_requested inp' = ri_requested inp" "ri_marked inp' = ri_marked inp"
      "ri_no_candidate inp' = ri_no_candidate inp"
  shows "relate inp' = relate inp"
proof -
  have m: "mset (filter P (ri_candidates inp')) = mset (filter P (ri_candidates inp))" for P
    using assms(1) by simp
  then have empty: "filter P (ri_candidates inp') = [] \<longleftrightarrow> filter P (ri_candidates inp) = []" for P
    by (metis mset_zero_iff)
  have "ri_candidates inp' = [] \<longleftrightarrow> ri_candidates inp = []"
    using assms(1) by (metis mset_zero_iff)
  then show ?thesis
    using select_candidate_cong [OF m assms(2)] assms(3-5) empty
    by (simp add: relate_def no_candidate_def Let_def)
qed

text \<open>
  Requesting a transition by name cannot obtain more than its own authority, and agrees
  with the untargeted relation: when identities are unique and the untargeted relation
  prescribes a transition, requesting that transition prescribes it too.
\<close>

theorem relate_requested_agrees:
  assumes "ri_no_candidate inp \<noteq> Some Prescribed"
    and "distinct (map rc_id (ri_candidates inp))" and "ri_requested inp = []" "i \<noteq> []"
    and "d_kind (relate inp) = Prescribed" "d_transition (relate inp) = i"
  shows "d_kind (relate (inp\<lparr>ri_requested := i\<rparr>)) = Prescribed
    \<and> d_transition (relate (inp\<lparr>ri_requested := i\<rparr>)) = i"
proof -
  let ?inp = "inp\<lparr>ri_requested := i\<rparr>"
  obtain c where c: "strictly_preferred (eligible inp) c" "rc_id c = i"
    "authorized c (set (ri_available inp))"
    using relate_prescribed_iff [OF assms(1), of i] assms(5,6) by auto
  then have cin: "c \<in> set (ri_candidates inp)"
    using strictly_preferred_in [OF c(1)] by (auto simp: eligible_def split: if_splits)
  then have "\<forall>c'\<in>set (eligible ?inp). c' = c"
    using assms(2) c(2) by (auto simp: eligible_def assms(4) distinct_map inj_on_def)
  moreover have "distinct (eligible ?inp)" "c \<in> set (eligible ?inp)"
    using assms(2,4) c(2) cin by (auto simp: eligible_def distinct_map intro: distinct_filter)
  ultimately have "eligible ?inp = [c]"
    by (cases "eligible ?inp"; cases "tl (eligible ?inp)") auto
  then have "strictly_preferred (eligible ?inp) c"
    by (simp add: strictly_preferred_def exI [of _ "[]"])
  moreover have "ri_no_candidate ?inp \<noteq> Some Prescribed" "ri_available ?inp = ri_available inp"
    "\<not> (ri_marked ?inp \<and> ri_requested ?inp = [])"
    using assms(1,4) by simp_all
  ultimately show ?thesis
    using relate_prescribed_iff [of ?inp i] c(2,3) by auto
qed

text \<open>
  C30. The trace is an output of the selector only: \<open>RelateWithTrace\<close> decides as \<open>Relate\<close>
  does, it traces every candidate in order, and it marks a candidate as selected exactly
  when the decision prescribes it; a selected candidate's authority is shown as satisfied.
\<close>

theorem relate_trace_faithful:
  assumes "ri_no_candidate inp \<noteq> Some Prescribed" "distinct (map rc_id (ri_candidates inp))"
  shows "fst (relate_with_trace inp) = relate inp
    \<and> map c_transition (snd (relate_with_trace inp)) = map rc_id (ri_candidates inp)
    \<and> (\<forall>t\<in>set (snd (relate_with_trace inp)).
        (c_disposition t = Disposition_selected
          \<longleftrightarrow> d_kind (relate inp) = Prescribed \<and> c_transition t = d_transition (relate inp))
        \<and> (c_disposition t = Disposition_selected \<longrightarrow> at_satisfied (c_authority t) \<and> c_survived t))"
proof (intro conjI ballI impI)
  let ?d = "relate inp"
  show "fst (relate_with_trace inp) = ?d"
    by (simp add: relate_with_trace_def Let_def)
  have id: "c_transition (finish_trace inp ?d c) = rc_id c" for c
    by (simp add: finish_trace_def Let_def new_candidate_trace_def)
  then show "map c_transition (snd (relate_with_trace inp)) = map rc_id (ri_candidates inp)"
    by (simp add: relate_with_trace_def Let_def)
  fix t assume "t \<in> set (snd (relate_with_trace inp))"
  then obtain c where c: "c \<in> set (ri_candidates inp)" and t: "t = finish_trace inp ?d c"
    by (auto simp: relate_with_trace_def Let_def)
  have chosen: "\<exists>c'\<in>set (ri_candidates inp). rc_id c' = d_transition ?d
      \<and> (if ri_requested inp = [] then rc_selectable c' else d_transition ?d = ri_requested inp)
      \<and> strictly_preferred (eligible inp) c' \<and> authorized c' (set (ri_available inp))"
    if "d_kind ?d = Prescribed"
  proof -
    have "\<exists>c'. strictly_preferred (eligible inp) c' \<and> rc_id c' = d_transition ?d
        \<and> authorized c' (set (ri_available inp))"
      using that relate_prescribed_iff [OF assms(1), of "d_transition ?d"] by simp
    then obtain c' where c': "strictly_preferred (eligible inp) c'" "rc_id c' = d_transition ?d"
      "authorized c' (set (ri_available inp))"
      by blast
    then show ?thesis
      using strictly_preferred_in [OF c'(1)] by (intro bexI [of _ c']) (auto simp: eligible_def split: if_splits)
  qed
  show sel: "c_disposition t = Disposition_selected
      \<longleftrightarrow> d_kind ?d = Prescribed \<and> c_transition t = d_transition ?d"
    using chosen unfolding t id by (auto simp: finish_trace_def Let_def split: if_splits)
  assume "c_disposition t = Disposition_selected"
  then have k: "d_kind ?d = Prescribed" "rc_id c = d_transition ?d"
    using sel t id by simp_all
  obtain c' where c': "c' \<in> set (ri_candidates inp)" "rc_id c' = d_transition ?d"
    "if ri_requested inp = [] then rc_selectable c' else d_transition ?d = ri_requested inp"
    "authorized c' (set (ri_available inp))"
    using chosen [OF k(1)] by blast
  then have "c' = c"
    using assms(2) c k(2) by (auto simp: distinct_map inj_on_def)
  then show "at_satisfied (c_authority t)" "c_survived t"
    using c' k t by (auto simp: finish_trace_def Let_def authority_trace_satisfied split: if_splits)
qed

end
