(* ===== verification/Go_Effect.thy ===== *)
theory Go_Effect
  imports Go_Prelude
begin

text \<open>
  Effectful Go code over a world \<open>'w\<close> that its ports read and write. A call returns, returns
  an error, panics, or never hands control back (the process is killed or the call blocks for
  ever). A deferred call runs after a return, an error and a panic, and not after the last.
\<close>

section \<open>Outcomes and actions\<close>

datatype 'a outcome = Returned 'a | Failed gerror | Panicked | Halted

type_synonym ('w, 'a) act = "'w \<Rightarrow> 'a outcome \<times> 'w"

definition act_return :: "'a \<Rightarrow> ('w, 'a) act" where
  "act_return x w = (Returned x, w)"

definition act_fail :: "gerror \<Rightarrow> ('w, 'a) act" where
  "act_fail e w = (Failed e, w)"

definition act_panic :: "('w, 'a) act" where
  "act_panic w = (Panicked, w)"

definition act_bind :: "('w, 'a) act \<Rightarrow> ('a \<Rightarrow> ('w, 'b) act) \<Rightarrow> ('w, 'b) act" where
  "act_bind m f w =
     (case m w of (Returned x, w') \<Rightarrow> f x w' | (Failed e, w') \<Rightarrow> (Failed e, w')
      | (Panicked, w') \<Rightarrow> (Panicked, w') | (Halted, w') \<Rightarrow> (Halted, w'))"

text \<open>\<open>if err != nil { return g(err) }\<close>\<close>

definition act_wrap :: "(gerror \<Rightarrow> gerror) \<Rightarrow> ('w, 'a) act \<Rightarrow> ('w, 'a) act" where
  "act_wrap g m w = (case m w of (Failed e, w') \<Rightarrow> (Failed (g e), w') | (r, w') \<Rightarrow> (r, w'))"

definition act_sum :: "gerror + 'a \<Rightarrow> ('w, 'a) act" where
  "act_sum r = (case r of Inl e \<Rightarrow> act_fail e | Inr x \<Rightarrow> act_return x)"

definition act_check :: "gerror option \<Rightarrow> ('w, unit) act" where
  "act_check e = (case e of None \<Rightarrow> act_return () | Some e \<Rightarrow> act_fail e)"

definition act_get :: "('w \<Rightarrow> 'a \<times> 'w) \<Rightarrow> ('w, 'a) act" where
  "act_get f w = (let (x, w') = f w in (Returned x, w'))"

text \<open>\<open>defer cleanup()\<close>: the error of the deferred call is dropped.\<close>

definition act_defer :: "('w, unit) act \<Rightarrow> ('w, 'a) act \<Rightarrow> ('w, 'a) act" where
  "act_defer cleanup m w =
     (case m w of (Halted, w') \<Rightarrow> (Halted, w')
      | (r, w') \<Rightarrow>
          (case cleanup w' of (Panicked, w'') \<Rightarrow> (Panicked, w'') | (Halted, w'') \<Rightarrow> (Halted, w'')
           | (_, w'') \<Rightarrow> (r, w'')))"

section \<open>What holds after an action\<close>

text \<open>
  \<open>after m w Q\<close>: \<open>Q\<close> holds of the outcome of \<open>m\<close> in \<open>w\<close> and of the world it leaves. The rules
  of \<open>after_simps\<close> reduce a composed action to its port calls.
\<close>

definition after :: "('w, 'a) act \<Rightarrow> 'w \<Rightarrow> ('a outcome \<Rightarrow> 'w \<Rightarrow> bool) \<Rightarrow> bool" where
  "after m w Q = (let (r, w') = m w in Q r w')"

named_theorems after_simps \<open>weakest preconditions of composed actions\<close>

lemma after_return [after_simps]: "after (act_return x) w Q = Q (Returned x) w"
  by (simp add: after_def act_return_def)

lemma after_fail [after_simps]: "after (act_fail e) w Q = Q (Failed e) w"
  by (simp add: after_def act_fail_def)

lemma after_panic [after_simps]: "after act_panic w Q = Q Panicked w"
  by (simp add: after_def act_panic_def)

text \<open>The outcomes of a first action that end the composition.\<close>

definition passing :: "('a \<Rightarrow> 'w \<Rightarrow> bool) \<Rightarrow> ('b outcome \<Rightarrow> 'w \<Rightarrow> bool) \<Rightarrow> 'a outcome \<Rightarrow> 'w \<Rightarrow> bool" where
  "passing P Q r w = (case r of Returned x \<Rightarrow> P x w | Failed e \<Rightarrow> Q (Failed e) w
     | Panicked \<Rightarrow> Q Panicked w | Halted \<Rightarrow> Q Halted w)"

lemma passing_simps [simp]:
  "passing P Q (Returned x) w = P x w" "passing P Q (Failed e) w = Q (Failed e) w"
  "passing P Q Panicked w = Q Panicked w" "passing P Q Halted w = Q Halted w"
  by (simp_all add: passing_def)

lemma after_bind [after_simps]:
  "after (act_bind m f) w Q = after m w (passing (\<lambda>x w'. after (f x) w' Q) Q)"
  by (auto simp: after_def act_bind_def split: prod.splits outcome.splits)

lemma after_wrap [after_simps]:
  "after (act_wrap g m) w Q = after m w (\<lambda>r w'. Q (case r of Failed e \<Rightarrow> Failed (g e) | _ \<Rightarrow> r) w')"
  by (auto simp: after_def act_wrap_def split: prod.splits outcome.splits)

lemma after_sum [after_simps]:
  "after (act_sum r) w Q = (case r of Inl e \<Rightarrow> Q (Failed e) w | Inr x \<Rightarrow> Q (Returned x) w)"
  by (simp add: act_sum_def after_return after_fail split: sum.splits)

lemma after_check [after_simps]:
  "after (act_check e) w Q = (case e of None \<Rightarrow> Q (Returned ()) w | Some e \<Rightarrow> Q (Failed e) w)"
  by (simp add: act_check_def after_return after_fail split: option.splits)

lemma after_get [after_simps]: "after (act_get f) w Q = Q (Returned (fst (f w))) (snd (f w))"
  by (simp add: after_def act_get_def split: prod.splits)

lemma after_defer [after_simps]:
  "after (act_defer c m) w Q = after m w (\<lambda>r w'. if r = Halted then Q Halted w'
     else after c w' (\<lambda>r' w''. Q (case r' of Panicked \<Rightarrow> Panicked | Halted \<Rightarrow> Halted | _ \<Rightarrow> r) w''))"
  by (auto simp: after_def act_defer_def split: prod.splits outcome.splits)

lemma afterI: "(\<And>r w'. m w = (r, w') \<Longrightarrow> Q r w') \<Longrightarrow> after m w Q"
  by (simp add: after_def split: prod.splits)

lemma afterD: "after m w Q \<Longrightarrow> m w = (r, w') \<Longrightarrow> Q r w'"
  by (simp add: after_def)

lemma after_mono: "after m w Q \<Longrightarrow> (\<And>r w'. m w = (r, w') \<Longrightarrow> Q r w' \<Longrightarrow> R r w') \<Longrightarrow> after m w R"
  by (auto simp: after_def split: prod.splits)

lemma after_conj: "after m w P \<Longrightarrow> after m w Q \<Longrightarrow> after m w (\<lambda>r w'. P r w' \<and> Q r w')"
  by (simp add: after_def split: prod.splits)

section \<open>Actions that leave a view of the world alone\<close>

definition keeps :: "('w \<Rightarrow> 'v) \<Rightarrow> ('w, 'a) act \<Rightarrow> bool" where
  "keeps view m \<longleftrightarrow> (\<forall>w. view (snd (m w)) = view w)"

named_theorems keeps_intros \<open>composed actions that leave a view alone\<close>

lemma keeps_after: "keeps view m \<Longrightarrow> after m w (\<lambda>r w'. view w' = view w)"
  by (auto simp: keeps_def after_def split: prod.splits) (metis snd_conv)

lemma keepsD: "keeps view m \<Longrightarrow> m w = (r, w') \<Longrightarrow> view w' = view w"
  unfolding keeps_def by (metis snd_conv)

lemma keeps_return [keeps_intros]: "keeps view (act_return x)"
  by (simp add: keeps_def act_return_def)

lemma keeps_fail [keeps_intros]: "keeps view (act_fail e)"
  by (simp add: keeps_def act_fail_def)

lemma keeps_panic [keeps_intros]: "keeps view act_panic"
  by (simp add: keeps_def act_panic_def)

lemma keeps_sum [keeps_intros]: "keeps view (act_sum r)"
  by (simp add: act_sum_def keeps_return keeps_fail split: sum.splits)

lemma keeps_check [keeps_intros]: "keeps view (act_check r)"
  by (simp add: act_check_def keeps_return keeps_fail split: option.splits)

lemma keeps_get [keeps_intros]: "(\<And>w. view (snd (f w)) = view w) \<Longrightarrow> keeps view (act_get f)"
  by (simp add: keeps_def act_get_def split: prod.splits) (metis snd_conv)

lemma keeps_bind [keeps_intros]:
  "keeps view m \<Longrightarrow> (\<And>x. keeps view (f x)) \<Longrightarrow> keeps view (act_bind m f)"
  unfolding keeps_def act_bind_def by (auto split: prod.splits outcome.splits) (metis snd_conv)+

lemma keeps_wrap [keeps_intros]: "keeps view m \<Longrightarrow> keeps view (act_wrap g m)"
  unfolding keeps_def act_wrap_def by (auto split: prod.splits outcome.splits) (metis snd_conv)+

lemma keeps_defer [keeps_intros]: "keeps view c \<Longrightarrow> keeps view m \<Longrightarrow> keeps view (act_defer c m)"
  unfolding keeps_def act_defer_def by (auto split: prod.splits outcome.splits) (metis snd_conv)+

lemma keeps_if [keeps_intros]:
  "(b \<Longrightarrow> keeps view m) \<Longrightarrow> (\<not> b \<Longrightarrow> keeps view n) \<Longrightarrow> keeps view (if b then m else n)"
  by simp

lemma keeps_option [keeps_intros]:
  "(x = None \<Longrightarrow> keeps view m) \<Longrightarrow> (\<And>y. x = Some y \<Longrightarrow> keeps view (f y))
     \<Longrightarrow> keeps view (case x of None \<Rightarrow> m | Some y \<Rightarrow> f y)"
  by (cases x) simp_all

lemma keeps_sum_case [keeps_intros]:
  "(\<And>e. x = Inl e \<Longrightarrow> keeps view (m e)) \<Longrightarrow> (\<And>y. x = Inr y \<Longrightarrow> keeps view (f y))
     \<Longrightarrow> keeps view (case x of Inl e \<Rightarrow> m e | Inr y \<Rightarrow> f y)"
  by (cases x) simp_all

lemma keepsI: "(\<And>w. after m w (\<lambda>r w'. view w' = view w)) \<Longrightarrow> keeps view m"
  by (simp add: keeps_def after_def case_prod_unfold)

end
