(* ===== verification/Kernel_Runtime.thy ===== *)
theory Kernel_Runtime
  imports Kernel_Relation Go_Effect
begin

text \<open>
  \<open>boatstack/kernel/runtime.go\<close>: the runtime that resolves one transition and applies it. Its
  ports (domain, operator, classifier, store, locker, clock) are fields of a record; they act
  on a world \<open>'w\<close>, and \<open>'l\<close> is the type of the lock \<open>Acquire\<close> returns. The context is
  forwarded to the ports only and is part of them here. The classifier is mechanism
  configuration without a context: a function of the transition.
\<close>

section \<open>Observations, operations and requests\<close>

record observation =
  ob_fingerprint :: string
  ob_value :: string

definition new_observation :: "json \<Rightarrow> gerror + observation" where
  "new_observation v =
     (case encode v of None \<Rightarrow> Inl marshal_error
      | Some encoded \<Rightarrow>
          (case hash_json (JRaw encoded) of Inl e \<Rightarrow> Inl e
           | Inr fingerprint \<Rightarrow> Inr \<lparr>ob_fingerprint = fingerprint, ob_value = encoded\<rparr>))"

definition observation_validate :: "observation \<Rightarrow> gerror option" where
  "observation_validate ob =
     (if length (ob_fingerprint ob) \<noteq> 64 \<or> length (ob_value ob) = 0 \<or> \<not> json_valid (ob_value ob)
      then Some (errorf [Lit ''domain observation requires canonical value and fingerprint''])
      else case hash_json (JRaw (ob_value ob)) of
        Inl e \<Rightarrow> Some (errorf [Lit ''domain observation fingerprint mismatch''])
      | Inr fingerprint \<Rightarrow>
          if fingerprint \<noteq> ob_fingerprint ob
          then Some (errorf [Lit ''domain observation fingerprint mismatch'']) else None)"

record evaluation =
  ev_state :: control_state
  ev_observation :: observation
  ev_objective :: "objective option"
  ev_transition :: transition

record operation =
  op_instance :: string
  op_transition :: transition
  op_observation :: observation
  op_objective :: "objective option"
  op_capabilities :: "capability list"

record prescription =
  px_schema :: int
  px_id :: string
  px_transition :: string
  px_freshness :: freshness
  px_expected :: "objective_binding option"
  px_requested :: "objective_binding option"
  px_required :: "capability list"

record objective_identity =
  oi_id :: string
  oi_revision :: u64
  oi_fingerprint :: string

record recovery_trace =
  rt_active :: bool
  rt_prescription :: string
  rt_transition :: string
  rt_reason :: string

record decision_trace =
  dt_schema :: int
  dt_instance :: string
  dt_revision :: u64
  dt_mode :: string
  dt_program :: program_identity
  dt_state_program :: "program_identity option"
  dt_observation :: string
  dt_binding :: "objective_identity option"
  dt_requested_objective :: "objective_identity option"
  dt_authority :: string
  dt_requested :: string
  dt_marked :: bool
  dt_recovery :: "recovery_trace option"
  dt_decision :: decision
  dt_candidates :: "candidate_trace list"

record resolution =
  rs_state :: control_state
  rs_observation :: observation
  rs_decision :: decision
  rs_prescription :: "prescription option"
  rs_trace :: "decision_trace option"

record resolve_request =
  rq_instance :: string
  rq_objective :: "objective option"
  rq_authority :: authority
  rq_requested :: string
  rq_trace :: bool

record apply_request =
  aq_resolve :: resolve_request
  aq_prescription :: prescription

record receipt =
  rcp_schema :: int
  rcp_id :: string
  rcp_instance :: string
  rcp_prescription :: string
  rcp_program :: program_identity
  rcp_transition :: string
  rcp_prior_revision :: u64
  rcp_attempt_revision :: u64
  rcp_result_revision :: u64
  rcp_binding :: "objective_binding option"
  rcp_authority :: string
  rcp_capabilities :: "capability list"
  rcp_effects :: "effect_fact list"
  rcp_prior_observation :: string
  rcp_result_observation :: string
  rcp_verification :: string
  rcp_committed :: gtime

section \<open>Ports\<close>

record ('w, 'l) ports =
  port_observe :: "string \<Rightarrow> ('w, observation) act"
  port_admissible :: "evaluation \<Rightarrow> ('w, bool \<times> string) act"
  port_verify :: "evaluation \<Rightarrow> effect \<Rightarrow> observation \<Rightarrow> ('w, unit) act"
  port_execute :: "operation \<Rightarrow> ('w, effect) act"
  port_classify :: "transition \<Rightarrow> gerror + capability list"
  port_load :: "string \<Rightarrow> ('w, control_state) act"
  port_begin :: "u64 \<Rightarrow> control_state \<Rightarrow> ('w, unit) act"
  port_commit :: "u64 \<Rightarrow> control_state \<Rightarrow> receipt \<Rightarrow> ('w, unit) act"
  port_acquire :: "string \<Rightarrow> ('w, 'l) act"
  port_unlock :: "'l \<Rightarrow> ('w, unit) act"
  port_now :: "'w \<Rightarrow> gtime \<times> 'w"

record ('w, 'l) runtime =
  run_program :: program
  run_ports :: "('w, 'l) ports"

definition required_capabilities ::
    "(transition \<Rightarrow> gerror + capability list) \<Rightarrow> transition \<Rightarrow> gerror + capability list" where
  "required_capabilities classify t =
     (case classify t of Inl e \<Rightarrow> Inl e | Inr minimum \<Rightarrow> normalize_capabilities (t_required t @ minimum))"

definition required_error :: "(transition \<Rightarrow> gerror + capability list) \<Rightarrow> transition \<Rightarrow> gerror option" where
  "required_error classify t = (case required_capabilities classify t of Inl e \<Rightarrow> Some e | Inr _ \<Rightarrow> None)"

text \<open>\<open>NewRuntime\<close>; no ports stands for one of them being nil.\<close>

definition new_runtime :: "program \<Rightarrow> ('w, 'l) ports option \<Rightarrow> gerror + ('w, 'l) runtime" where
  "new_runtime p ports =
     (case program_validate p of Some e \<Rightarrow> Inl e
      | None \<Rightarrow>
        (case ports of
           None \<Rightarrow> Inl (errorf [Lit ''kernel runtime requires domain, operator, capability classifier, transactional store, lock, and clock ports''])
         | Some ps \<Rightarrow>
             (case first_error (required_error (port_classify ps)) (p_transitions p) of Some e \<Rightarrow> Inl e
              | None \<Rightarrow> Inr \<lparr>run_program = p, run_ports = ps\<rparr>)))"

section \<open>Objectives and effects\<close>

text \<open>\<open>objectiveFor\<close>: the objective of the evaluation, and the reason there is none.\<close>

definition binding_matches_supplied :: "control_state \<Rightarrow> objective option \<Rightarrow> bool" where
  "binding_matches_supplied s supplied =
     (case (s_binding s, supplied) of (Some b, Some ob) \<Rightarrow> binding_matches b ob | _ \<Rightarrow> False)"

definition objective_for ::
    "control_state \<Rightarrow> objective option \<Rightarrow> transition \<Rightarrow> objective option \<times> string" where
  "objective_for s supplied t =
     (if t_mutation t = Bind_objective
      then (case supplied of
          None \<Rightarrow> (None, ''objective binding requires one exact objective revision'')
        | Some ob \<Rightarrow>
            if objective_validate ob \<noteq> None
            then (None, ''objective binding requires one exact objective revision'')
            else if binding_matches_supplied s supplied
            then (None, ''objective revision is already bound'')
            else (Some ob, []))
      else if t_mutation t = Clear_objective \<and> s_binding s = None
      then (None, ''objective binding is already absent'')
      else if t_scope t = Objective_none then (None, [])
      else if t_scope t = Objective_optional_preserve
      then (if binding_matches_supplied s supplied then (supplied, []) else (None, []))
      else if t_scope t = Objective_bound_exact
      then (if binding_matches_supplied s supplied then (supplied, [])
            else (None, ''transition requires the exact bound objective revision''))
      else (None, ''invalid objective scope''))"

definition fact_escapes :: "transition \<Rightarrow> effect_fact \<Rightarrow> bool" where
  "fact_escapes t f =
     (\<not> contains (t_owned t) (f_facet f) \<or> \<not> qualified_semantic_id (f_operation f) \<or> f_fingerprint f = [])"

definition validate_effects :: "transition \<Rightarrow> effect \<Rightarrow> gerror option" where
  "validate_effects t effect =
     (if effect = [] then Some (errorf [Lit ''operator returned no committed effect facts''])
      else first_error (\<lambda>f. if fact_escapes t f
        then Some (errorf [Lit ''effect fact escapes transition-owned facets or is incomplete''])
        else None) effect)"

definition effect_order :: "effect_fact \<Rightarrow> string \<times> string \<times> string" where
  "effect_order f = (f_facet f, f_operation f, f_fingerprint f)"

definition sort_effects :: "effect \<Rightarrow> effect" where
  "sort_effects effect = sort_key effect_order effect"

section \<open>Prescriptions\<close>

definition prescription_schema_version :: int where
  "prescription_schema_version = 2"

definition binding_json :: "objective_binding \<Rightarrow> json" where
  "binding_json b =
     JObj [(''objective_id'', JStr (b_id b)), (''objective_revision'', JInt (uint (b_revision b))),
           (''objective_fingerprint'', JStr (b_fingerprint b))]"

definition binding_pointer_json :: "objective_binding option \<Rightarrow> json" where
  "binding_pointer_json b = (case b of None \<Rightarrow> JNull | Some b \<Rightarrow> binding_json b)"

definition freshness_fields :: "freshness \<Rightarrow> (string \<times> json) list" where
  "freshness_fields f =
     [(''expected_instance_id'', JStr (fr_instance f)),
      (''expected_state_revision'', JInt (uint (fr_revision f))),
      (''expected_program_fingerprint'', JStr (fr_program f)),
      (''expected_snapshot_fingerprint'', JStr (fr_snapshot f)),
      (''expected_objective_binding_fingerprint'', JStr (fr_binding f)),
      (''authority_fingerprint'', JStr (fr_authority f))]"

definition prescription_json :: "prescription \<Rightarrow> json" where
  "prescription_json p =
     JObj ([(''schema_version'', JInt (px_schema p)), (''id'', JStr (px_id p)),
            (''transition_id'', JStr (px_transition p))]
           @ freshness_fields (px_freshness p)
           @ omit_empty (px_expected p = None) ''expected_objective_binding'' (binding_pointer_json (px_expected p))
           @ omit_empty (px_requested p = None) ''requested_objective_binding'' (binding_pointer_json (px_requested p))
           @ [(''required_capabilities'', json_nil_strings (px_required p))])"

text \<open>The content identity of a prescription: the hash of the prescription without its id.\<close>

definition prescription_identity :: "prescription \<Rightarrow> gerror + string" where
  "prescription_identity p = hash_json (prescription_json (p\<lparr>px_id := []\<rparr>))"

definition binding_fingerprint :: "objective_binding option \<Rightarrow> gerror + string" where
  "binding_fingerprint b = hash_json (binding_pointer_json b)"

text \<open>\<open>*objective\<close> panics when there is none.\<close>

definition bind_requested :: "transition \<Rightarrow> objective option \<Rightarrow> ('w, objective_binding option) act" where
  "bind_requested t ob =
     (if t_mutation t = Bind_objective
      then (case ob of None \<Rightarrow> act_panic
            | Some ob \<Rightarrow> act_bind (act_sum (bind_objective ob)) (\<lambda>b. act_return (Some b)))
      else act_return None)"

definition new_prescription ::
    "control_state \<Rightarrow> observation \<Rightarrow> transition \<Rightarrow> objective option \<Rightarrow> authority_projection
       \<Rightarrow> capability list \<Rightarrow> ('w, prescription) act" where
  "new_prescription s ob t obj auth required =
     act_bind (act_sum (binding_fingerprint (s_binding s))) (\<lambda>bf.
     act_bind (act_sum (new_freshness (s_instance s) (s_revision s) (pi_fingerprint (s_program s))
                          (ob_fingerprint ob) bf (ap_fingerprint auth))) (\<lambda>fresh.
     act_bind (bind_requested t obj) (\<lambda>requested.
       (let p = \<lparr>px_schema = prescription_schema_version, px_id = [], px_transition = t_id t,
                 px_freshness = fresh, px_expected = clone_binding (s_binding s),
                 px_requested = requested, px_required = required\<rparr>
        in act_bind (act_sum (prescription_identity p)) (\<lambda>h. act_return (p\<lparr>px_id := ''prx-'' @ h\<rparr>))))))"

definition stale :: "message \<Rightarrow> gerror" where
  "stale m = Gerror Stale ([Lit ''stale prescription: ''] @ m)"

definition current_freshness ::
    "control_state \<Rightarrow> observation \<Rightarrow> authority_projection \<Rightarrow> gerror + freshness" where
  "current_freshness s ob auth =
     (case binding_fingerprint (s_binding s) of Inl e \<Rightarrow> Inl e
      | Inr bf \<Rightarrow> new_freshness (s_instance s) (s_revision s) (pi_fingerprint (s_program s))
                    (ob_fingerprint ob) bf (ap_fingerprint auth))"

definition validate_current ::
    "prescription \<Rightarrow> control_state \<Rightarrow> observation \<Rightarrow> authority_projection \<Rightarrow> gerror option" where
  "validate_current p s ob auth =
     (if (case prescription_identity p of Inl _ \<Rightarrow> True | Inr got \<Rightarrow> px_id p \<noteq> ''prx-'' @ got)
      then Some (stale [Lit ''prescription content identity is invalid''])
      else if px_schema p \<noteq> prescription_schema_version
         \<or> (case current_freshness s ob auth of Inl _ \<Rightarrow> True
             | Inr current \<Rightarrow> freshness_check (px_freshness p) current \<noteq> None)
         \<or> \<not> equal_binding (px_expected p) (s_binding s)
      then Some (stale [Lit ''instance, state, program, objective binding, observation, or authority changed''])
      else None)"

section \<open>Receipts\<close>

definition receipt_schema_version :: int where
  "receipt_schema_version = 3"

definition identity_json :: "program_identity \<Rightarrow> json" where
  "identity_json p =
     JObj [(''id'', JStr (pi_id p)), (''version'', JStr (pi_version p)),
           (''fingerprint'', JStr (pi_fingerprint p))]"

definition fact_json :: "effect_fact \<Rightarrow> json" where
  "fact_json f =
     JObj [(''facet'', JStr (f_facet f)), (''operation'', JStr (f_operation f)),
           (''fingerprint'', JStr (f_fingerprint f))]"

definition facts_json :: "effect_fact list \<Rightarrow> json" where
  "facts_json fs = (if fs = [] then JNull else JArr (map fact_json fs))"

definition receipt_json :: "receipt \<Rightarrow> json" where
  "receipt_json r =
     JObj ([(''schema_version'', JInt (rcp_schema r)), (''id'', JStr (rcp_id r)),
            (''instance_id'', JStr (rcp_instance r)), (''prescription_id'', JStr (rcp_prescription r)),
            (''program'', identity_json (rcp_program r)), (''transition_id'', JStr (rcp_transition r)),
            (''prior_state_revision'', JInt (uint (rcp_prior_revision r))),
            (''attempt_state_revision'', JInt (uint (rcp_attempt_revision r))),
            (''result_state_revision'', JInt (uint (rcp_result_revision r)))]
           @ omit_empty (rcp_binding r = None) ''objective_binding'' (binding_pointer_json (rcp_binding r))
           @ [(''authority_fingerprint'', JStr (rcp_authority r)),
              (''capabilities'', json_strings (rcp_capabilities r)),
              (''effects'', facts_json (rcp_effects r)),
              (''prior_observation'', JStr (rcp_prior_observation r)),
              (''result_observation'', JStr (rcp_result_observation r)),
              (''verification'', JStr (rcp_verification r)),
              (''committed_at'', time_json (rcp_committed r))])"

definition receipt_identity :: "receipt \<Rightarrow> gerror + string" where
  "receipt_identity r = hash_json (receipt_json (r\<lparr>rcp_id := []\<rparr>))"

definition receipt_incomplete :: "receipt \<Rightarrow> bool" where
  "receipt_incomplete r =
     (rcp_schema r \<noteq> receipt_schema_version \<or> \<not> semantic_id (rcp_instance r) \<or> rcp_prescription r = []
      \<or> \<not> qualified_semantic_id (rcp_transition r) \<or> rcp_prior_revision r = 0
      \<or> rcp_attempt_revision r \<noteq> rcp_prior_revision r + 1
      \<or> rcp_result_revision r \<noteq> rcp_attempt_revision r + 1
      \<or> rcp_authority r = [] \<or> length (rcp_prior_observation r) \<noteq> 64
      \<or> length (rcp_result_observation r) \<noteq> 64 \<or> rcp_verification r \<noteq> ''satisfied''
      \<or> time_is_zero (rcp_committed r))"

definition receipt_validate :: "receipt \<Rightarrow> gerror option" where
  "receipt_validate r =
     (if (case receipt_identity r of Inl _ \<Rightarrow> True | Inr got \<Rightarrow> rcp_id r \<noteq> ''rcp-'' @ got)
      then Some (errorf [Lit ''receipt content identity is invalid''])
      else if receipt_incomplete r
      then Some (errorf [Lit ''receipt is missing exact instance, transition, revision, observation, authority, or verification facts''])
      else case program_identity_validate (rcp_program r) of Some e \<Rightarrow> Some e
      | None \<Rightarrow>
        (case (case rcp_binding r of None \<Rightarrow> None | Some b \<Rightarrow> binding_validate b) of Some e \<Rightarrow> Some e
         | None \<Rightarrow>
           (case normalize_capabilities (rcp_capabilities r) of Inl e \<Rightarrow> Some e
            | Inr _ \<Rightarrow>
                if rcp_effects r = [] then Some (errorf [Lit ''receipt contains no committed effect facts''])
                else None)))"

section \<open>Resolve\<close>

definition decision_trace_schema_version :: int where
  "decision_trace_schema_version = 1"

definition objective_identity_of :: "objective \<Rightarrow> objective_identity" where
  "objective_identity_of ob =
     \<lparr>oi_id = o_id ob, oi_revision = o_revision ob, oi_fingerprint = o_fingerprint ob\<rparr>"

definition binding_identity_of :: "objective_binding \<Rightarrow> objective_identity" where
  "binding_identity_of b =
     \<lparr>oi_id = b_id b, oi_revision = b_revision b, oi_fingerprint = b_fingerprint b\<rparr>"

definition recovery_trace_of :: "recovery_state \<Rightarrow> recovery_trace" where
  "recovery_trace_of r =
     \<lparr>rt_active = True, rt_prescription = r_prescription r, rt_transition = r_transition r,
      rt_reason = r_reason r\<rparr>"

definition new_decision_trace ::
    "control_state \<Rightarrow> observation \<Rightarrow> resolve_request \<Rightarrow> program \<Rightarrow> decision_trace" where
  "new_decision_trace s ob rq p =
     \<lparr>dt_schema = decision_trace_schema_version, dt_instance = s_instance s, dt_revision = s_revision s,
      dt_mode = s_mode s, dt_program = program_identity_of p, dt_state_program = Some (s_program s),
      dt_observation = ob_fingerprint ob, dt_binding = map_option binding_identity_of (s_binding s),
      dt_requested_objective = map_option objective_identity_of (rq_objective rq), dt_authority = [],
      dt_requested = rq_requested rq, dt_marked = program_marked p (s_mode s),
      dt_recovery = map_option recovery_trace_of (s_recovery s),
      dt_decision = plain_decision Unresolved [], dt_candidates = []\<rparr>"

text \<open>The two results of \<open>resolve\<close> that carry a decision: with the trace when it was asked for.\<close>

definition resolution_of ::
    "control_state \<Rightarrow> observation \<Rightarrow> resolve_request \<Rightarrow> decision_trace \<Rightarrow> decision \<Rightarrow> prescription option
       \<Rightarrow> resolution" where
  "resolution_of s ob rq trace d p =
     \<lparr>rs_state = s, rs_observation = ob, rs_decision = d, rs_prescription = p,
      rs_trace = (if rq_trace rq then Some (trace\<lparr>dt_decision := d\<rparr>) else None)\<rparr>"

definition evaluated :: "bool \<Rightarrow> message \<Rightarrow> evaluation_trace" where
  "evaluated ok reason = \<lparr>e_evaluated = True, e_satisfied = ok, e_reason = reason\<rparr>"

definition bounded_trace_reason :: "string \<Rightarrow> string" where
  "bounded_trace_reason reason = (if length reason \<le> 1024 then reason else take 1024 reason)"

text \<open>
  The checks of the candidate loop before the domain is asked: request, source mode, recovery,
  objective. \<open>Inl\<close> is a rejected candidate's trace.
\<close>

definition screen_candidate ::
    "control_state \<Rightarrow> resolve_request \<Rightarrow> transition \<Rightarrow> candidate_trace + candidate_trace \<times> objective option" where
  "screen_candidate s rq t =
     (let ct = new_candidate_trace (t_id t) (t_priority t) in
      if rq_requested rq \<noteq> [] \<and> t_id t \<noteq> rq_requested rq
      then Inl (ct\<lparr>c_disposition := Disposition_irrelevant_to_request\<rparr>)
      else if \<not> contains (t_sources t) (s_mode s)
      then Inl (ct\<lparr>c_source_mode := evaluated False [Lit ''current mode '', Quoted (s_mode s), Lit '' is not a declared source mode''],
                   c_disposition := Disposition_source_mode_rejected\<rparr>)
      else let ct = ct\<lparr>c_source_mode := evaluated True [Lit ''current mode is a declared source mode'']\<rparr> in
      (case (case s_recovery s of
               Some r \<Rightarrow> if \<not> contains (t_recovers t) (r_transition r)
                         then Some [Lit ''transition does not recover '', Quoted (r_transition r)] else None
             | None \<Rightarrow> if t_recovers t \<noteq> []
                       then Some [Lit ''recovery transition requires an active recovery state''] else None) of
         Some reason \<Rightarrow>
           Inl (ct\<lparr>c_recovery := evaluated False reason, c_disposition := Disposition_recovery_rejected\<rparr>)
       | None \<Rightarrow>
          (let ct = ct\<lparr>c_recovery := evaluated True [Lit ''recovery state is compatible'']\<rparr>;
               (obj, reason) = objective_for s (rq_objective rq) t
           in if reason \<noteq> []
              then Inl (ct\<lparr>c_scope := evaluated False [Lit reason], c_mutation := evaluated False [Lit reason],
                           c_disposition := Disposition_objective_rejected\<rparr>)
              else Inr (ct\<lparr>c_scope := evaluated True [Lit ''objective scope is satisfied''],
                           c_mutation := evaluated True [Lit ''objective mutation is admissible'']\<rparr>, obj))))"

definition relation_candidate_of :: "transition \<Rightarrow> capability list \<Rightarrow> relation_candidate" where
  "relation_candidate_of t required =
     \<lparr>rc_id = t_id t, rc_rank = 0, rc_priority = t_priority t, rc_selectable = True,
      rc_required_all = required, rc_required_any = []\<rparr>"

text \<open>One iteration of the loop: the candidate's trace, and the candidate if it survived.\<close>

definition consider_transition ::
    "('w, 'l) ports \<Rightarrow> control_state \<Rightarrow> observation \<Rightarrow> resolve_request \<Rightarrow> transition
       \<Rightarrow> ('w, candidate_trace \<times> relation_candidate option) act" where
  "consider_transition ps s ob rq t =
     (case screen_candidate s rq t of
        Inl ct \<Rightarrow> act_return (ct, None)
      | Inr (ct, obj) \<Rightarrow>
          act_bind (port_admissible ps \<lparr>ev_state = s, ev_observation = ob, ev_objective = obj, ev_transition = t\<rparr>)
            (\<lambda>(allowed, domain_reason).
              let ct = ct\<lparr>c_domain := evaluated allowed [Lit (bounded_trace_reason domain_reason)]\<rparr> in
              if \<not> allowed then act_return (ct\<lparr>c_disposition := Disposition_domain_rejected\<rparr>, None)
              else act_bind (act_sum (required_capabilities (port_classify ps) t)) (\<lambda>required.
                act_return (ct\<lparr>c_selectable := True, c_survived := True\<rparr>,
                            Some (relation_candidate_of t required)))))"

record candidate_scan =
  sc_traces :: "candidate_trace list"
  sc_candidates :: "relation_candidate list"
  sc_transitions :: "string \<rightharpoonup> transition"

definition scan_init_state :: candidate_scan where
  "scan_init_state = \<lparr>sc_traces = [], sc_candidates = [], sc_transitions = Map.empty\<rparr>"

definition scan_add ::
    "transition \<Rightarrow> candidate_trace \<times> relation_candidate option \<Rightarrow> candidate_scan \<Rightarrow> candidate_scan" where
  "scan_add t step sc =
     (case step of
        (ct, None) \<Rightarrow> sc\<lparr>sc_traces := sc_traces sc @ [ct]\<rparr>
      | (ct, Some c) \<Rightarrow>
          \<lparr>sc_traces = sc_traces sc @ [ct], sc_candidates = sc_candidates sc @ [c],
           sc_transitions = (sc_transitions sc)(t_id t \<mapsto> t)\<rparr>)"

fun scan_candidates ::
    "('w, 'l) ports \<Rightarrow> control_state \<Rightarrow> observation \<Rightarrow> resolve_request \<Rightarrow> candidate_scan \<Rightarrow> transition list
       \<Rightarrow> ('w, candidate_scan) act" where
  "scan_candidates ps s ob rq sc [] = act_return sc"
| "scan_candidates ps s ob rq sc (t # ts) =
     act_bind (consider_transition ps s ob rq t) (\<lambda>step. scan_candidates ps s ob rq (scan_add t step sc) ts)"

definition merge_relation_trace :: "candidate_trace list \<Rightarrow> candidate_trace \<Rightarrow> candidate_trace" where
  "merge_relation_trace relation ct =
     (case map_of (rev (map (\<lambda>r. (c_transition r, r)) relation)) (c_transition ct) of
        None \<Rightarrow> ct
      | Some r \<Rightarrow> ct\<lparr>c_selectable := c_selectable r, c_rank := c_rank r, c_priority := c_priority r,
                     c_authority := c_authority r, c_survived := c_survived r,
                     c_disposition := c_disposition r\<rparr>)"

text \<open>What a lookup in a map of transitions yields for an absent key.\<close>

definition zero_transition :: transition where
  "zero_transition =
     \<lparr>t_id = [], t_sources = [], t_target = [], t_scope = [], t_mutation = [], t_required = [],
      t_owned = [], t_operation = [], t_priority = 0, t_recovers = []\<rparr>"

text \<open>After the loop: the relation, and the prescription of what it selected.\<close>

definition resolve_selected ::
    "('w, 'l) ports \<Rightarrow> control_state \<Rightarrow> observation \<Rightarrow> resolve_request \<Rightarrow> authority_projection
       \<Rightarrow> decision_trace \<Rightarrow> candidate_scan \<Rightarrow> ('w, resolution) act" where
  "resolve_selected ps s ob rq auth trace sc =
     (let (d, relation) = relate_with_trace
            \<lparr>ri_requested = rq_requested rq, ri_marked = False, ri_no_candidate = None,
             ri_candidates = sc_candidates sc, ri_available = ap_capabilities auth\<rparr>;
          trace = trace\<lparr>dt_candidates := map (merge_relation_trace relation) (sc_traces sc)\<rparr>
      in if d_kind d \<noteq> Prescribed then act_return (resolution_of s ob rq trace d None)
         else let top = (case sc_transitions sc (d_transition d) of None \<Rightarrow> zero_transition | Some t \<Rightarrow> t) in
           act_bind (act_sum (required_capabilities (port_classify ps) top)) (\<lambda>required.
           act_bind (new_prescription s ob top (fst (objective_for s (rq_objective rq) top)) auth required)
             (\<lambda>p. act_return (resolution_of s ob rq trace d (Some p)))))"

text \<open>The checks that end \<open>resolve\<close> with a decision before the authority is read.\<close>

definition early_decision ::
    "program \<Rightarrow> control_state \<Rightarrow> observation \<Rightarrow> resolve_request \<Rightarrow> decision option" where
  "early_decision p s ob rq =
     (case state_validate s of
        Some e \<Rightarrow> Some (plain_decision Unresolved (Lit ''control state is invalid: '' # etext e))
      | None \<Rightarrow>
        (case observation_validate ob of
           Some e \<Rightarrow> Some (plain_decision Unresolved (Lit ''domain observation is invalid: '' # etext e))
         | None \<Rightarrow>
            if s_instance s \<noteq> rq_instance rq
            then Some (plain_decision Unresolved [Lit ''control state instance identity does not match the request''])
            else if s_program s \<noteq> program_identity_of p
            then Some (plain_decision Unresolved [Lit ''control state program identity is stale for the active program''])
            else if program_marked p (s_mode s) \<and> s_recovery s = None \<and> rq_requested rq = []
            then Some (plain_decision Marked [Lit ''program-defined marked state is established''])
            else None))"

definition resolve_state ::
    "('w, 'l) runtime \<Rightarrow> control_state \<Rightarrow> observation \<Rightarrow> resolve_request \<Rightarrow> ('w, resolution) act" where
  "resolve_state r s ob rq =
     (let trace = new_decision_trace s ob rq (run_program r); ps = run_ports r in
      case early_decision (run_program r) s ob rq of
        Some d \<Rightarrow> act_return (resolution_of s ob rq trace d None)
      | None \<Rightarrow>
          act_bind (act_get (port_now ps)) (\<lambda>now.
            case authority_project (rq_authority rq) now of
              Inl e \<Rightarrow> act_return (resolution_of s ob rq trace (plain_decision Refused (etext e)) None)
            | Inr auth \<Rightarrow>
                act_bind (scan_candidates ps s ob rq scan_init_state (p_transitions (run_program r)))
                  (resolve_selected ps s ob rq auth (trace\<lparr>dt_authority := ap_fingerprint auth\<rparr>))))"

definition resolve :: "('w, 'l) runtime \<Rightarrow> resolve_request \<Rightarrow> ('w, resolution) act" where
  "resolve r rq =
     act_bind (port_load (run_ports r) (rq_instance rq)) (\<lambda>s.
     act_bind (port_observe (run_ports r) (rq_instance rq)) (\<lambda>ob. resolve_state r s ob rq))"

section \<open>Apply\<close>

definition recovery_required :: "message \<Rightarrow> gerror" where
  "recovery_required m = Gerror Recovery_required ([Lit ''recovery required: ''] @ m)"

definition is_stale :: "gerror \<Rightarrow> bool" where
  "is_stale e = (eclass e = Stale)"

definition is_recovery_required :: "gerror \<Rightarrow> bool" where
  "is_recovery_required e = (eclass e = Recovery_required)"

text \<open>What the phases of one \<open>Apply\<close> share once the prescription is known to be current.\<close>

record attempt =
  at_state :: control_state
  at_observation :: observation
  at_transition :: transition
  at_objective :: "objective option"
  at_authority :: authority_projection
  at_required :: "capability list"

definition attempt_evaluation :: "attempt \<Rightarrow> evaluation" where
  "attempt_evaluation a =
     \<lparr>ev_state = at_state a, ev_observation = at_observation a, ev_objective = at_objective a,
      ev_transition = at_transition a\<rparr>"

text \<open>The state \<open>BeginEffect\<close> persists: one revision on, under a recovery obligation.\<close>

definition attempt_state :: "prescription \<Rightarrow> control_state \<Rightarrow> control_state" where
  "attempt_state p s =
     s\<lparr>s_revision := s_revision s + 1,
       s_recovery := (case s_recovery s of
           None \<Rightarrow> Some \<lparr>r_prescription = px_id p, r_transition = px_transition p,
                         r_reason = ''effect attempt began; outcome is unresolved''\<rparr>
         | Some r \<Rightarrow> Some r)\<rparr>"

text \<open>The state \<open>CommitTransition\<close> puts in its place.\<close>

definition target_state ::
    "transition \<Rightarrow> objective_binding option \<Rightarrow> control_state \<Rightarrow> control_state" where
  "target_state t requested a =
     a\<lparr>s_mode := t_target t, s_revision := s_revision a + 1,
       s_binding := (if t_mutation t = Bind_objective then requested
                     else if t_mutation t = Clear_objective then None else s_binding a),
       s_recovery := None\<rparr>"

definition new_receipt ::
    "prescription \<Rightarrow> attempt \<Rightarrow> control_state \<Rightarrow> control_state \<Rightarrow> effect \<Rightarrow> observation \<Rightarrow> gtime
       \<Rightarrow> gerror + receipt" where
  "new_receipt p a begun target effect result now =
     (let s = at_state a;
          r = \<lparr>rcp_schema = receipt_schema_version, rcp_id = [], rcp_instance = s_instance s,
               rcp_prescription = px_id p, rcp_program = s_program s, rcp_transition = t_id (at_transition a),
               rcp_prior_revision = s_revision s, rcp_attempt_revision = s_revision begun,
               rcp_result_revision = s_revision target, rcp_binding = clone_binding (s_binding target),
               rcp_authority = ap_fingerprint (at_authority a), rcp_capabilities = at_required a,
               rcp_effects = effect, rcp_prior_observation = ob_fingerprint (at_observation a),
               rcp_result_observation = ob_fingerprint result, rcp_verification = ''satisfied'',
               rcp_committed = time_utc now\<rparr>
      in case receipt_identity r of Inl e \<Rightarrow> Inl e | Inr h \<Rightarrow> Inr (r\<lparr>rcp_id := ''rcp-'' @ h\<rparr>))"

text \<open>From the verified effect to the committed receipt.\<close>

definition apply_commit ::
    "('w, 'l) ports \<Rightarrow> prescription \<Rightarrow> attempt \<Rightarrow> control_state \<Rightarrow> effect \<Rightarrow> observation \<Rightarrow> ('w, receipt) act" where
  "apply_commit ps p a begun effect result =
     act_bind (bind_requested (at_transition a) (at_objective a)) (\<lambda>requested.
     act_bind (act_get (port_now ps)) (\<lambda>now.
       (let target = target_state (at_transition a) requested begun in
        act_bind (act_sum (new_receipt p a begun target effect result now)) (\<lambda>receipt.
        act_bind (act_wrap (\<lambda>e. recovery_required (Lit ''transition receipt is invalid: '' # etext e))
                    (act_check (receipt_validate receipt))) (\<lambda>_.
        act_bind (act_wrap (\<lambda>e. recovery_required (Lit ''state and receipt transaction did not commit: '' # etext e))
                    (port_commit ps (s_revision begun) target receipt)) (\<lambda>_.
          act_return receipt))))))"

text \<open>From the persisted attempt to the verified effect.\<close>

definition apply_effect ::
    "('w, 'l) ports \<Rightarrow> prescription \<Rightarrow> attempt \<Rightarrow> string \<Rightarrow> control_state \<Rightarrow> ('w, receipt) act" where
  "apply_effect ps p a inst begun =
     act_bind (act_wrap (\<lambda>e. recovery_required (Lit ''operator outcome is unknown: '' # etext e))
       (port_execute ps \<lparr>op_instance = inst, op_transition = at_transition a,
          op_observation = at_observation a, op_objective = at_objective a,
          op_capabilities = at_required a\<rparr>)) (\<lambda>effect.
     act_bind (act_wrap (\<lambda>e. recovery_required (etext e))
       (act_check (validate_effects (at_transition a) effect))) (\<lambda>_.
     (let effect = sort_effects effect in
      act_bind (act_wrap (\<lambda>e. recovery_required (Lit ''target observation failed: '' # etext e))
        (port_observe ps inst)) (\<lambda>result.
      act_bind (act_wrap (\<lambda>e. recovery_required (Lit ''verification failed: '' # etext e))
        (port_verify ps (attempt_evaluation a) effect result)) (\<lambda>_.
        apply_commit ps p a begun effect result)))))"

text \<open>From the current prescription to the persisted attempt.\<close>

definition apply_begin ::
    "('w, 'l) ports \<Rightarrow> prescription \<Rightarrow> attempt \<Rightarrow> string \<Rightarrow> ('w, receipt) act" where
  "apply_begin ps p a inst =
     (let begun = attempt_state p (at_state a) in
      act_bind (act_wrap (wrapf [Lit ''effect attempt state is invalid: '']) (act_check (state_validate begun))) (\<lambda>_.
      act_bind (act_wrap (wrapf [Lit ''effect attempt did not begin: ''])
        (port_begin ps (s_revision (at_state a)) begun)) (\<lambda>_.
        apply_effect ps p a inst begun)))"

text \<open>From the resolution to the attempt.\<close>

definition apply_resolved ::
    "('w, 'l) runtime \<Rightarrow> apply_request \<Rightarrow> control_state \<Rightarrow> observation \<Rightarrow> authority_projection
       \<Rightarrow> resolution \<Rightarrow> ('w, receipt) act" where
  "apply_resolved r rq s ob auth res =
     (let p = aq_prescription rq; ps = run_ports r in
      case rs_prescription res of
        None \<Rightarrow> act_fail (errorf (Lit ''apply refused: '' # d_reason (rs_decision res)))
      | Some resolved \<Rightarrow>
          if d_kind (rs_decision res) \<noteq> Prescribed
          then act_fail (errorf (Lit ''apply refused: '' # d_reason (rs_decision res)))
          else if px_id p \<noteq> px_id resolved
          then act_fail (stale [Lit ''state, program, objective binding, observation, authority, or transition changed''])
          else (case program_transition (run_program r) (px_transition p) of
              None \<Rightarrow> act_fail (stale [Lit ''transition no longer belongs to the program''])
            | Some t \<Rightarrow>
                act_bind (act_sum (required_capabilities (port_classify ps) t)) (\<lambda>required.
                  apply_begin ps p
                    \<lparr>at_state = s, at_observation = ob, at_transition = t,
                     at_objective = fst (objective_for s (rq_objective (aq_resolve rq)) t),
                     at_authority = auth, at_required = required\<rparr>
                    (rq_instance (aq_resolve rq)))))"

definition apply_locked :: "('w, 'l) runtime \<Rightarrow> apply_request \<Rightarrow> ('w, receipt) act" where
  "apply_locked r rq =
     (let ps = run_ports r; inst = rq_instance (aq_resolve rq) in
      act_bind (port_load ps inst) (\<lambda>s.
      act_bind (port_observe ps inst) (\<lambda>ob.
      act_bind (act_get (port_now ps)) (\<lambda>now.
      act_bind (act_sum (authority_project (rq_authority (aq_resolve rq)) now)) (\<lambda>auth.
      act_bind (act_check (validate_current (aq_prescription rq) s ob auth)) (\<lambda>_.
      act_bind (resolve_state r s ob (aq_resolve rq)) (\<lambda>res.
        apply_resolved r rq s ob auth res)))))))"

definition apply_transition :: "('w, 'l) runtime \<Rightarrow> apply_request \<Rightarrow> ('w, receipt) act" where
  "apply_transition r rq =
     act_bind (port_acquire (run_ports r) (rq_instance (aq_resolve rq))) (\<lambda>lock.
       act_defer (port_unlock (run_ports r) lock) (apply_locked r rq))"

end
