(* ===== verification/Kernel_Laws.thy ===== *)
theory Kernel_Laws
  imports Kernel_Runtime
begin

text \<open>
  The pure laws of the runtime: observations, required capabilities, objectives, prescriptions
  and their freshness, receipts, and the states an attempt passes through.
\<close>

section \<open>Observations and capabilities\<close>

lemma observation_validate_None:
  "observation_validate ob = None \<longleftrightarrow>
     length (ob_fingerprint ob) = 64 \<and> ob_value ob \<noteq> [] \<and> json_valid (ob_value ob)
     \<and> hash_json (JRaw (ob_value ob)) = Inr (ob_fingerprint ob)"
  by (auto simp: observation_validate_def split: sum.splits if_splits)

lemma required_capabilities_Inr:
  "required_capabilities classify t = Inr req \<longleftrightarrow>
     (\<exists>minimum. classify t = Inr minimum \<and> (\<forall>c\<in>set (t_required t) \<union> set minimum. semantic_id c)
       \<and> req = sort (remdups (t_required t @ minimum)))"
  by (auto simp: required_capabilities_def normalize_Inr_iff split: sum.splits)

lemma required_capabilities_set:
  "required_capabilities classify t = Inr req \<Longrightarrow> classify t = Inr minimum
     \<Longrightarrow> set req = set (t_required t) \<union> set minimum"
  by (auto simp: required_capabilities_Inr)

lemma required_capabilities_normal:
  "required_capabilities classify t = Inr req \<Longrightarrow> normalize_capabilities req = Inr req"
  by (auto simp: required_capabilities_Inr normalize_Inr_iff distinct_remdups_id)

text \<open>
  Capabilities can be strengthened and never weakened: what the runtime requires of a
  transition contains all the program declares and all the classifier demands, and nothing
  else, in canonical form; so a program that declares fewer capabilities still needs the
  classifier's, and one that declares more needs them all.
\<close>

theorem capabilities_never_weakened:
  assumes "required_capabilities classify t = Inr req" and "classify t = Inr minimum"
  shows "set req = set (t_required t) \<union> set minimum \<and> sorted_wrt (<) req
    \<and> (\<forall>declared req'. required_capabilities classify (t\<lparr>t_required := declared\<rparr>) = Inr req'
         \<longrightarrow> classify (t\<lparr>t_required := declared\<rparr>) = Inr minimum \<longrightarrow> set minimum \<subseteq> set req')"
proof -
  have "req = sort (remdups (t_required t @ minimum))"
    using assms by (auto simp: required_capabilities_Inr)
  then have "sorted_wrt (<) req"
    using sort_strict by (metis distinct_remdups)
  then show ?thesis
    using required_capabilities_set [OF assms]
      required_capabilities_set [where t = "t\<lparr>t_required := d\<rparr>" for d] by auto
qed

section \<open>Objectives\<close>

lemma objective_for_bind:
  "t_mutation t = Bind_objective \<Longrightarrow> objective_for s supplied t = (obj, []) \<Longrightarrow>
     \<exists>ob. obj = Some ob \<and> supplied = Some ob \<and> objective_validate ob = None"
  by (auto simp: objective_for_def split: option.splits if_splits)

text \<open>The objective of a maintenance or recovery transition never stands in its way.\<close>

lemma objective_for_preserving:
  "t_mutation t = Preserve_objective \<Longrightarrow> scope_valid (t_scope t) \<Longrightarrow> t_scope t \<noteq> Objective_bound_exact
     \<Longrightarrow> snd (objective_for s supplied t) = []"
  by (auto simp: objective_for_def scope_valid_def split: if_splits)

text \<open>
  An objective reaches the domain and the operator only as the exact bound revision, or
  as the valid revision a bind transition is about to bind: it is then the one supplied, it
  validates, and a bind never binds what is bound already. A transition of exact scope runs
  only with the objective its state is bound to.
\<close>

theorem objective_for_exact:
  assumes "objective_for s supplied t = (obj, [])"
  shows "(\<forall>ob. obj = Some ob \<longrightarrow> supplied = Some ob \<and> objective_validate ob = None
        \<and> (if t_mutation t = Bind_objective then \<forall>b. s_binding s = Some b \<longrightarrow> \<not> binding_matches b ob
           else \<exists>b. s_binding s = Some b \<and> binding_matches b ob))
    \<and> (t_mutation t = Bind_objective \<or> t_scope t = Objective_bound_exact \<longrightarrow> obj \<noteq> None)
    \<and> (t_mutation t = Clear_objective \<longrightarrow> s_binding s \<noteq> None)"
  using assms
  by (auto simp: objective_for_def binding_matches_supplied_def binding_matches_def
      split: option.splits if_splits)

section \<open>Prescriptions\<close>

lemma raw_free_binding [simp]: "raw_free (binding_json b)" "raw_free (binding_pointer_json ob)"
  by (simp_all add: binding_json_def binding_pointer_json_def split: option.splits)

lemma raw_free_prescription [simp]: "raw_free (prescription_json p)"
  by (simp add: prescription_json_def freshness_fields_def)

lemma prescription_identity_total: "\<exists>h. prescription_identity p = Inr h \<and> length h = 64"
  unfolding prescription_identity_def using hash_json_total hash_json_length raw_free_prescription by blast

lemma binding_fingerprint_total: "\<exists>h. binding_fingerprint b = Inr h \<and> length h = 64"
  unfolding binding_fingerprint_def using hash_json_total hash_json_length raw_free_binding by blast

lemma prescription_identity_ignores [simp]:
  "prescription_identity (p\<lparr>px_id := i\<rparr>) = prescription_identity p"
  by (simp add: prescription_identity_def)

lemma current_freshness_Inr:
  "current_freshness s ob auth = Inr f \<longleftrightarrow>
     freshness_validate f = None \<and> fr_instance f = s_instance s \<and> fr_revision f = s_revision s
     \<and> fr_program f = pi_fingerprint (s_program s) \<and> fr_snapshot f = ob_fingerprint ob
     \<and> binding_fingerprint (s_binding s) = Inr (fr_binding f) \<and> fr_authority f = ap_fingerprint auth"
  by (cases f) (auto simp: current_freshness_def new_freshness_Inr split: sum.splits)

lemma validate_current_None:
  "validate_current p s ob auth = None \<longleftrightarrow>
     (\<exists>h. prescription_identity p = Inr h \<and> px_id p = ''prx-'' @ h)
     \<and> px_schema p = prescription_schema_version
     \<and> current_freshness s ob auth = Inr (px_freshness p) \<and> px_expected p = s_binding s"
proof -
  obtain h where h: "prescription_identity p = Inr h"
    using prescription_identity_total by blast
  have "(\<exists>current. current_freshness s ob auth = Inr current \<and> freshness_check (px_freshness p) current = None)
      \<longleftrightarrow> current_freshness s ob auth = Inr (px_freshness p)"
    by (auto simp: freshness_check_None_iff current_freshness_Inr)
  then show ?thesis
    by (cases "current_freshness s ob auth") (auto simp: validate_current_def h)
qed

lemma validate_current_stale: "validate_current p s ob auth = Some e \<Longrightarrow> is_stale e"
  by (auto simp: validate_current_def stale_def is_stale_def split: if_splits)

text \<open>What a new prescription is; it reads and writes no world.\<close>

definition issued ::
    "control_state \<Rightarrow> observation \<Rightarrow> transition \<Rightarrow> objective option \<Rightarrow> authority_projection
       \<Rightarrow> capability list \<Rightarrow> prescription \<Rightarrow> bool" where
  "issued s ob t obj auth req p \<longleftrightarrow>
     px_schema p = prescription_schema_version \<and> px_transition p = t_id t
     \<and> current_freshness s ob auth = Inr (px_freshness p) \<and> px_expected p = s_binding s
     \<and> (if t_mutation t = Bind_objective
        then \<exists>v b. obj = Some v \<and> bind_objective v = Inr b \<and> px_requested p = Some b
        else px_requested p = None)
     \<and> px_required p = req \<and> (\<exists>h. prescription_identity p = Inr h \<and> px_id p = ''prx-'' @ h)"

lemma bind_requested_cases:
  "bind_requested t obj w =
     (if t_mutation t \<noteq> Bind_objective then (Returned None, w)
      else case obj of None \<Rightarrow> (Panicked, w)
        | Some v \<Rightarrow> (case bind_objective v of Inl e \<Rightarrow> (Failed e, w) | Inr b \<Rightarrow> (Returned (Some b), w)))"
  by (auto simp: bind_requested_def act_return_def act_panic_def act_bind_def act_sum_def act_fail_def
      split: option.splits sum.splits)

lemma keeps_bind_requested [keeps_intros]: "keeps view (bind_requested t obj)"
  by (simp add: keeps_def bind_requested_cases split: option.splits sum.splits)

lemma keeps_new_prescription [keeps_intros]: "keeps view (new_prescription s ob t obj auth req)"
  unfolding new_prescription_def Let_def by (intro keeps_intros)

lemma after_new_prescription:
  "after (new_prescription s ob t obj auth req) w
     (\<lambda>r w'. w' = w \<and> (\<forall>p. r = Returned p \<longrightarrow> issued s ob t obj auth req p))"
proof -
  obtain bf where bf: "binding_fingerprint (s_binding s) = Inr bf"
    using binding_fingerprint_total by blast
  show ?thesis
  proof (cases "new_freshness (s_instance s) (s_revision s) (pi_fingerprint (s_program s))
      (ob_fingerprint ob) bf (ap_fingerprint auth)")
    case (Inl e)
    then show ?thesis
      by (simp add: new_prescription_def bf after_simps)
  next
    case (Inr f)
    then have cf: "current_freshness s ob auth = Inr f"
      by (simp add: current_freshness_def bf)
    define p where "p b h = \<lparr>px_schema = prescription_schema_version, px_id = ''prx-'' @ h,
      px_transition = t_id t, px_freshness = f, px_expected = s_binding s, px_requested = b,
      px_required = req\<rparr>" for b h
    have id: "prescription_identity (p b h) = prescription_identity (p b [])" for b h
      by (simp add: prescription_identity_def p_def)
    define h where "h b = projr (prescription_identity (p b []))" for b
    have h: "prescription_identity (p b []) = Inr (h b)" for b
      using prescription_identity_total [of "p b []"] by (auto simp: h_def)
    have run: "new_prescription s ob t obj auth req w =
        (case bind_requested t obj w of (Returned b, w') \<Rightarrow> (Returned (p b (h b)), w')
         | (Failed e, w') \<Rightarrow> (Failed e, w') | (Panicked, w') \<Rightarrow> (Panicked, w') | (Halted, w') \<Rightarrow> (Halted, w'))"
      using h by (auto simp: new_prescription_def bf Inr act_bind_def act_sum_def act_return_def Let_def
          p_def prescription_identity_def split: outcome.splits prod.splits)
    have ok: "issued s ob t obj auth req (p b (h b))"
      if "bind_requested t obj w = (Returned b, w')" for b w'
      using that cf h [of b] id [of b "h b"]
      by (auto simp: issued_def bind_requested_cases p_def split: if_splits option.splits sum.splits)
    have same: "bind_requested t obj w = (r, w') \<Longrightarrow> w' = w" for r w'
      by (auto simp: bind_requested_cases split: if_splits option.splits sum.splits)
    show ?thesis
      unfolding after_def run using ok same by (auto split: outcome.splits prod.splits)
  qed
qed

lemma issued_current: "issued s ob t obj auth req p \<Longrightarrow> validate_current p s ob auth = None"
  by (auto simp: issued_def validate_current_None)

text \<open>
  A prescription is an exact compare-and-swap identity: one that is current for a state,
  an observation and an authority is current for no state of another instance, revision,
  program or objective binding, for no other observation and for no other authority; the
  refusal is a stale-prescription error.
\<close>

theorem prescription_identity_exact:
  assumes "validate_current p s ob auth = None"
  shows "(validate_current p s' ob' auth' = None \<longleftrightarrow>
      s_instance s' = s_instance s \<and> s_revision s' = s_revision s
      \<and> pi_fingerprint (s_program s') = pi_fingerprint (s_program s) \<and> s_binding s' = s_binding s
      \<and> ob_fingerprint ob' = ob_fingerprint ob \<and> ap_fingerprint auth' = ap_fingerprint auth)
    \<and> (\<forall>e. validate_current p s' ob' auth' = Some e \<longrightarrow> is_stale e)"
  using assms validate_current_stale by (auto simp: validate_current_None current_freshness_Inr)

section \<open>The states of an attempt\<close>

lemma attempt_state_simps [simp]:
  "s_instance (attempt_state p s) = s_instance s" "s_program (attempt_state p s) = s_program s"
  "s_binding (attempt_state p s) = s_binding s" "s_mode (attempt_state p s) = s_mode s"
  "s_revision (attempt_state p s) = s_revision s + 1"
  "s_recovery (attempt_state p s) \<noteq> None"
  "s_recovery s = Some r \<Longrightarrow> s_recovery (attempt_state p s) = Some r"
  "s_recovery s = None \<Longrightarrow> s_recovery (attempt_state p s) = Some \<lparr>r_prescription = px_id p,
     r_transition = px_transition p, r_reason = ''effect attempt began; outcome is unresolved''\<rparr>"
  by (simp_all add: attempt_state_def split: option.splits)

lemma target_state_simps [simp]:
  "s_instance (target_state t b s) = s_instance s" "s_program (target_state t b s) = s_program s"
  "s_mode (target_state t b s) = t_target t" "s_revision (target_state t b s) = s_revision s + 1"
  "s_recovery (target_state t b s) = None"
  "s_binding (target_state t b s) = (if t_mutation t = Bind_objective then b
     else if t_mutation t = Clear_objective then None else s_binding s)"
  by (simp_all add: target_state_def)

lemma target_state_valid:
  assumes "state_validate s = None" "t_target t \<noteq> []" "s_revision s + 1 \<noteq> 0"
    and "t_mutation t = Bind_objective \<Longrightarrow> \<exists>b. requested = Some b \<and> binding_validate b = None"
  shows "state_validate (target_state t requested s) = None"
  using assms by (auto simp: state_validate_None_iff)

section \<open>Receipts\<close>

lemma new_receipt_Inr:
  "new_receipt p a begun target effect result now = Inr r \<longleftrightarrow>
     (\<exists>h. receipt_identity r = Inr h \<and> rcp_id r = ''rcp-'' @ h)
     \<and> rcp_schema r = receipt_schema_version \<and> rcp_instance r = s_instance (at_state a)
     \<and> rcp_prescription r = px_id p \<and> rcp_program r = s_program (at_state a)
     \<and> rcp_transition r = t_id (at_transition a) \<and> rcp_prior_revision r = s_revision (at_state a)
     \<and> rcp_attempt_revision r = s_revision begun \<and> rcp_result_revision r = s_revision target
     \<and> rcp_binding r = s_binding target \<and> rcp_authority r = ap_fingerprint (at_authority a)
     \<and> rcp_capabilities r = at_required a \<and> rcp_effects r = effect
     \<and> rcp_prior_observation r = ob_fingerprint (at_observation a)
     \<and> rcp_result_observation r = ob_fingerprint result \<and> rcp_verification r = ''satisfied''
     \<and> rcp_committed r = time_utc now"
  by (cases r) (auto simp: new_receipt_def receipt_identity_def Let_def split: sum.splits)

lemma raw_free_receipt [simp]: "raw_free (receipt_json r) \<longleftrightarrow> time_text (rcp_committed r) \<noteq> None"
  by (simp add: receipt_json_def identity_json_def facts_json_def fact_json_def list_all_iff
      omit_empty_def)

lemma new_receipt_total:
  assumes "time_text (time_utc now) \<noteq> None"
  shows "\<exists>r. new_receipt p a begun target effect result now = Inr r"
proof -
  define r where "r = \<lparr>rcp_schema = receipt_schema_version, rcp_id = [],
    rcp_instance = s_instance (at_state a), rcp_prescription = px_id p, rcp_program = s_program (at_state a),
    rcp_transition = t_id (at_transition a), rcp_prior_revision = s_revision (at_state a),
    rcp_attempt_revision = s_revision begun, rcp_result_revision = s_revision target,
    rcp_binding = clone_binding (s_binding target), rcp_authority = ap_fingerprint (at_authority a),
    rcp_capabilities = at_required a, rcp_effects = effect,
    rcp_prior_observation = ob_fingerprint (at_observation a),
    rcp_result_observation = ob_fingerprint result, rcp_verification = ''satisfied'',
    rcp_committed = time_utc now\<rparr>"
  have "raw_free (receipt_json (r\<lparr>rcp_id := []\<rparr>))"
    using assms by (simp add: r_def)
  then obtain h where "receipt_identity r = Inr h"
    using hash_json_total unfolding receipt_identity_def by blast
  then show ?thesis
    by (simp add: new_receipt_def r_def Let_def)
qed

lemma receipt_validate_None:
  "receipt_validate r = None \<longleftrightarrow>
     (\<exists>h. receipt_identity r = Inr h \<and> rcp_id r = ''rcp-'' @ h) \<and> \<not> receipt_incomplete r
     \<and> program_identity_validate (rcp_program r) = None
     \<and> (\<forall>b. rcp_binding r = Some b \<longrightarrow> binding_validate b = None)
     \<and> (\<forall>c\<in>set (rcp_capabilities r). semantic_id c) \<and> rcp_effects r \<noteq> []"
proof -
  have n: "(\<exists>cs. normalize_capabilities (rcp_capabilities r) = Inr cs)
      \<longleftrightarrow> (\<forall>c\<in>set (rcp_capabilities r). semantic_id c)"
    by (simp add: normalize_Inr_iff)
  show ?thesis
    by (cases "normalize_capabilities (rcp_capabilities r)"; cases "receipt_identity r")
       (use n in \<open>auto simp: receipt_validate_def split: option.splits if_splits\<close>)
qed

lemma sort_effects_set [simp]: "set (sort_effects e) = set e" "sort_effects e = [] \<longleftrightarrow> e = []"
  by (simp_all add: sort_effects_def flip: set_empty)

lemma validate_effects_None:
  "validate_effects t e = None \<longleftrightarrow> e \<noteq> [] \<and> (\<forall>f\<in>set e. \<not> fact_escapes t f)"
  by (auto simp: validate_effects_def)

lemma is_recovery_required [simp]: "is_recovery_required (recovery_required m)"
  by (simp add: is_recovery_required_def recovery_required_def)

end
