(* ===== verification/Kernel_Resolve.thy ===== *)
theory Kernel_Resolve
  imports Kernel_Laws
begin

text \<open>
  What \<open>Resolve\<close> establishes of the transition it prescribes: the invariant of the candidate
  loop, and the facts \<open>Apply\<close> relies on.
\<close>

section \<open>The candidate loop\<close>

definition recovery_compatible :: "control_state \<Rightarrow> transition \<Rightarrow> bool" where
  "recovery_compatible s t =
     (case s_recovery s of None \<Rightarrow> t_recovers t = [] | Some r \<Rightarrow> r_transition r \<in> set (t_recovers t))"

lemma screen_candidate_Inr:
  "(\<exists>ct. screen_candidate s rq t = Inr (ct, obj)) \<longleftrightarrow>
     (rq_requested rq = [] \<or> t_id t = rq_requested rq) \<and> s_mode s \<in> set (t_sources t)
     \<and> recovery_compatible s t \<and> objective_for s (rq_objective rq) t = (obj, [])"
  by (cases "objective_for s (rq_objective rq) t")
     (auto simp: screen_candidate_def recovery_compatible_def Let_def split: option.splits if_splits)

text \<open>
  A candidate: a transition that passed the screen, that the domain admitted, and whose
  required capabilities are known.
\<close>

definition candidate_of ::
    "('w, 'l) ports \<Rightarrow> control_state \<Rightarrow> observation \<Rightarrow> resolve_request \<Rightarrow> transition \<Rightarrow> relation_candidate \<Rightarrow> bool" where
  "candidate_of ps s ob rq t c \<longleftrightarrow>
     (rq_requested rq = [] \<or> t_id t = rq_requested rq) \<and> s_mode s \<in> set (t_sources t)
     \<and> recovery_compatible s t
     \<and> (\<exists>obj req reason w w'. objective_for s (rq_objective rq) t = (obj, [])
         \<and> port_admissible ps \<lparr>ev_state = s, ev_observation = ob, ev_objective = obj, ev_transition = t\<rparr> w
             = (Returned (True, reason), w')
         \<and> required_capabilities (port_classify ps) t = Inr req \<and> c = relation_candidate_of t req)"

lemma consider_transition_after:
  "after (consider_transition ps s ob rq t) w
     (\<lambda>r w'. \<forall>ct c. r = Returned (ct, Some c) \<longrightarrow> candidate_of ps s ob rq t c)"
proof (cases "screen_candidate s rq t")
  case (Inl ct)
  then show ?thesis
    by (simp add: consider_transition_def after_simps)
next
  case (Inr step)
  then obtain ct obj where step: "screen_candidate s rq t = Inr (ct, obj)"
    by (cases step) auto
  then have pre: "rq_requested rq = [] \<or> t_id t = rq_requested rq" "s_mode s \<in> set (t_sources t)"
    "recovery_compatible s t" "objective_for s (rq_objective rq) t = (obj, [])"
    using screen_candidate_Inr by metis+
  show ?thesis
    unfolding consider_transition_def step
    using pre
    by (auto simp: after_simps candidate_of_def passing_def Let_def split: outcome.splits sum.splits prod.splits
        intro!: afterI; blast)
qed

definition scan_invariant ::
    "('w, 'l) ports \<Rightarrow> control_state \<Rightarrow> observation \<Rightarrow> resolve_request \<Rightarrow> transition set \<Rightarrow> candidate_scan \<Rightarrow> bool" where
  "scan_invariant ps s ob rq seen sc \<longleftrightarrow>
     (\<forall>c\<in>set (sc_candidates sc). \<exists>t\<in>seen. candidate_of ps s ob rq t c)
     \<and> (\<forall>c\<in>set (sc_candidates sc). \<exists>t. sc_transitions sc (rc_id c) = Some t)
     \<and> (\<forall>i t. sc_transitions sc i = Some t \<longrightarrow> t \<in> seen \<and> t_id t = i)"

lemma candidate_of_id: "candidate_of ps s ob rq t c \<Longrightarrow> rc_id c = t_id t"
  by (auto simp: candidate_of_def relation_candidate_of_def)

lemma scan_invariant_add:
  assumes "scan_invariant ps s ob rq seen sc" and "t \<in> seen"
    and "\<And>c. snd step = Some c \<Longrightarrow> candidate_of ps s ob rq t c"
  shows "scan_invariant ps s ob rq seen (scan_add t step sc)"
proof (cases step)
  case (Pair ct oc)
  show ?thesis
  proof (cases oc)
    case None
    then show ?thesis
      using assms(1) Pair by (simp add: scan_invariant_def scan_add_def)
  next
    case (Some c)
    then have "candidate_of ps s ob rq t c"
      using assms(3) Pair by simp
    then show ?thesis
      using assms(1,2) Pair Some candidate_of_id [of ps s ob rq t c]
      by (auto simp: scan_invariant_def scan_add_def)
  qed
qed

lemma scan_candidates_after:
  "scan_invariant ps s ob rq seen sc \<Longrightarrow> set ts \<subseteq> seen \<Longrightarrow>
     after (scan_candidates ps s ob rq sc ts) w (\<lambda>r w'. \<forall>sc'. r = Returned sc' \<longrightarrow> scan_invariant ps s ob rq seen sc')"
proof (induction ts arbitrary: sc w)
  case Nil
  then show ?case by (simp add: after_simps)
next
  case (Cons t ts)
  show ?case
    unfolding scan_candidates.simps after_bind
  proof (rule after_mono [OF consider_transition_after])
    fix r :: "(candidate_trace \<times> relation_candidate option) outcome" and w'
    assume r: "\<forall>ct c. r = Returned (ct, Some c) \<longrightarrow> candidate_of ps s ob rq t c"
    show "passing (\<lambda>x w'. after (scan_candidates ps s ob rq (scan_add t x sc) ts) w'
           (\<lambda>r w'. \<forall>sc'. r = Returned sc' \<longrightarrow> scan_invariant ps s ob rq seen sc'))
         (\<lambda>r w'. \<forall>sc'. r = Returned sc' \<longrightarrow> scan_invariant ps s ob rq seen sc') r w'"
    proof (cases r)
      case (Returned step)
      have "scan_invariant ps s ob rq seen (scan_add t step sc)"
        using Cons.prems r Returned by (intro scan_invariant_add) (auto, metis prod.collapse)
      then show ?thesis
        using Cons.IH Cons.prems(2) Returned by simp
    qed simp_all
  qed
qed

lemma scan_invariant_init [simp]: "scan_invariant ps s ob rq seen scan_init_state"
  by (simp add: scan_invariant_def scan_init_state_def)

section \<open>The resolution\<close>

lemma authority_project_unique:
  "authority_project a now = Inr p \<Longrightarrow> authority_project a now' = Inr p' \<Longrightarrow> p = p'"
  by (cases p; cases p') (auto simp: authority_project_Inr)

definition prescribable ::
    "('w, 'l) runtime \<Rightarrow> control_state \<Rightarrow> observation \<Rightarrow> resolve_request \<Rightarrow> authority_projection
       \<Rightarrow> transition \<Rightarrow> capability list \<Rightarrow> prescription \<Rightarrow> bool" where
  "prescribable r s ob rq auth t req q \<longleftrightarrow>
     t \<in> set (p_transitions (run_program r)) \<and> s_mode s \<in> set (t_sources t) \<and> recovery_compatible s t
     \<and> (rq_requested rq = [] \<or> t_id t = rq_requested rq)
     \<and> required_capabilities (port_classify (run_ports r)) t = Inr req
     \<and> set req \<subseteq> set (ap_capabilities auth)
     \<and> (\<exists>obj reason w w'. objective_for s (rq_objective rq) t = (obj, [])
         \<and> port_admissible (run_ports r)
             \<lparr>ev_state = s, ev_observation = ob, ev_objective = obj, ev_transition = t\<rparr> w
             = (Returned (True, reason), w')
         \<and> issued s ob t obj auth req q)"

lemma relation_prescribed:
  assumes "d_kind (relate \<lparr>ri_requested = q, ri_marked = False, ri_no_candidate = None,
      ri_candidates = cs, ri_available = av\<rparr>) = Prescribed"
  shows "\<exists>c\<in>set cs. rc_id c = d_transition (relate \<lparr>ri_requested = q, ri_marked = False,
      ri_no_candidate = None, ri_candidates = cs, ri_available = av\<rparr>)
    \<and> set (rc_required_all c) \<subseteq> set av"
proof -
  let ?inp = "\<lparr>ri_requested = q, ri_marked = False, ri_no_candidate = None, ri_candidates = cs, ri_available = av\<rparr>"
  obtain c where c: "strictly_preferred (eligible ?inp) c" "rc_id c = d_transition (relate ?inp)"
    "authorized c (set av)"
    using relate_prescribed_iff [of ?inp "d_transition (relate ?inp)"] assms by auto
  have "c \<in> set cs"
    using strictly_preferred_in [OF c(1)] by (auto simp: eligible_def split: if_splits)
  then show ?thesis
    using c by (auto simp: authorized_def)
qed

lemma resolve_selected_after:
  assumes "compiled (run_program r)"
    and inv: "scan_invariant (run_ports r) s ob rq (set (p_transitions (run_program r))) sc"
  shows "after (resolve_selected (run_ports r) s ob rq auth trace sc) w
     (\<lambda>res w'. \<forall>rs. res = Returned rs \<longrightarrow> rs_state rs = s \<and> rs_observation rs = ob
        \<and> (\<forall>q. rs_prescription rs = Some q \<longrightarrow> d_kind (rs_decision rs) = Prescribed
            \<and> (\<exists>t req. d_transition (rs_decision rs) = t_id t \<and> prescribable r s ob rq auth t req q)))"
proof -
  let ?inp = "\<lparr>ri_requested = rq_requested rq, ri_marked = False, ri_no_candidate = None,
             ri_candidates = sc_candidates sc, ri_available = ap_capabilities auth\<rparr>"
  let ?d = "relate ?inp"
  show ?thesis
  proof (cases "d_kind ?d = Prescribed")
    case False
    then show ?thesis
      by (simp add: resolve_selected_def relate_with_trace_def Let_def after_simps resolution_of_def)
  next
    case True
    obtain c where c: "c \<in> set (sc_candidates sc)" "rc_id c = d_transition ?d"
      "set (rc_required_all c) \<subseteq> set (ap_capabilities auth)"
      using relation_prescribed [OF True] by blast
    obtain t where t: "t \<in> set (p_transitions (run_program r))" "candidate_of (run_ports r) s ob rq t c"
      using inv c(1) by (auto simp: scan_invariant_def)
    obtain top where top: "sc_transitions sc (d_transition ?d) = Some top"
      "top \<in> set (p_transitions (run_program r))" "t_id top = d_transition ?d"
      using inv c(1,2) unfolding scan_invariant_def by metis
    have "distinct (map t_id (p_transitions (run_program r)))"
      using assms(1) program_validate_prepare_ok prepare_ok_distinct by (auto simp: compiled_def)
    then have "t = top"
      using t top candidate_of_id [OF t(2)] c(2) by (auto simp: distinct_map inj_on_def)
    with t(2) obtain obj req reason w1 w1' where pre: "rq_requested rq = [] \<or> t_id top = rq_requested rq"
      "s_mode s \<in> set (t_sources top)" "recovery_compatible s top"
      "objective_for s (rq_objective rq) top = (obj, [])"
      "port_admissible (run_ports r) \<lparr>ev_state = s, ev_observation = ob, ev_objective = obj,
         ev_transition = top\<rparr> w1 = (Returned (True, reason), w1')"
      "required_capabilities (port_classify (run_ports r)) top = Inr req" "c = relation_candidate_of top req"
      unfolding candidate_of_def by blast
    have caps: "set req \<subseteq> set (ap_capabilities auth)"
      using c(3) pre(7) by (simp add: relation_candidate_of_def)
    have run: "resolve_selected (run_ports r) s ob rq auth trace sc =
        act_bind (new_prescription s ob top obj auth req) (\<lambda>p. act_return (resolution_of s ob rq
          (trace\<lparr>dt_candidates := map (merge_relation_trace (snd (relate_with_trace ?inp))) (sc_traces sc)\<rparr>) ?d (Some p)))"
      using True pre(4,6) top(1)
      by (intro ext) (simp add: resolve_selected_def relate_with_trace_def Let_def act_bind_def act_sum_def act_return_def)
    have good: "prescribable r s ob rq auth top req q" if "issued s ob top obj auth req q" for q
      unfolding prescribable_def using top(2) pre caps that by blast
    show ?thesis
      unfolding run after_bind
      by (rule after_mono [OF after_new_prescription])
         (use True top(3) [symmetric] good in
           \<open>auto simp: passing_def after_simps resolution_of_def split: outcome.splits intro!: exI [of _ top]\<close>)
  qed
qed

lemma resolve_state_after:
  assumes "compiled (run_program r)"
  shows "after (resolve_state r s ob rq) w
     (\<lambda>res w'. \<forall>rs. res = Returned rs \<longrightarrow> rs_state rs = s \<and> rs_observation rs = ob
        \<and> (\<forall>q. rs_prescription rs = Some q \<longrightarrow> d_kind (rs_decision rs) = Prescribed
            \<and> early_decision (run_program r) s ob rq = None
            \<and> (\<exists>auth now t req. authority_project (rq_authority rq) now = Inr auth
                 \<and> d_transition (rs_decision rs) = t_id t \<and> prescribable r s ob rq auth t req q)))"
    (is "after _ _ ?Q")
proof (cases "early_decision (run_program r) s ob rq")
  case (Some d)
  then show ?thesis
    by (simp add: resolve_state_def Let_def after_simps resolution_of_def)
next
  case None
  obtain now w1 where now: "port_now (run_ports r) w = (now, w1)"
    by fastforce
  show ?thesis
  proof (cases "authority_project (rq_authority rq) now")
    case (Inl e)
    then show ?thesis
      by (simp add: resolve_state_def Let_def after_simps resolution_of_def None now)
  next
    case (Inr auth)
    define trace where "trace = (new_decision_trace s ob rq (run_program r))\<lparr>dt_authority := ap_fingerprint auth\<rparr>"
    have run: "after (resolve_state r s ob rq) w ?Q =
        after (scan_candidates (run_ports r) s ob rq scan_init_state (p_transitions (run_program r))) w1
          (passing (\<lambda>sc w'. after (resolve_selected (run_ports r) s ob rq auth trace sc) w' ?Q) ?Q)"
      by (simp add: resolve_state_def Let_def after_simps None now Inr trace_def)
    show ?thesis
      unfolding run
    proof (rule after_mono [OF scan_candidates_after [OF scan_invariant_init subset_refl]])
      fix x :: "candidate_scan outcome" and w'
      assume inv: "\<forall>sc. x = Returned sc \<longrightarrow> scan_invariant (run_ports r) s ob rq (set (p_transitions (run_program r))) sc"
      show "passing (\<lambda>sc w'. after (resolve_selected (run_ports r) s ob rq auth trace sc) w' ?Q) ?Q x w'"
      proof (cases x)
        case (Returned sc)
        then have sc: "scan_invariant (run_ports r) s ob rq (set (p_transitions (run_program r))) sc"
          using inv by blast
        have "after (resolve_selected (run_ports r) s ob rq auth trace sc) w' ?Q"
          by (rule after_mono [OF resolve_selected_after [OF assms sc]]) (use None Inr in blast)
        then show ?thesis using Returned by simp
      qed simp_all
    qed
  qed
qed

lemma early_decision_None:
  "early_decision p s ob rq = None \<Longrightarrow>
     state_validate s = None \<and> observation_validate ob = None \<and> s_instance s = rq_instance rq
     \<and> s_program s = program_identity_of p"
  by (auto simp: early_decision_def split: option.splits if_splits)

end
