(* ===== verification/Kernel_Contract.thy ===== *)
theory Kernel_Contract
  imports Kernel_Resolve
begin

text \<open>
  The interfaces the runtime relies on, as locales: the transactional store with its revision
  compare-and-swap, ports that leave a view of the world alone, and both together. What
  \<open>Apply\<close> can leave behind is proved once in the last one.
\<close>

section \<open>The interfaces\<close>

text \<open>
  \<open>durable\<close> is the control state the store holds and \<open>receipts\<close> its committed receipts.
  \<open>BeginEffect\<close> and \<open>CommitTransition\<close> are atomic: whatever their outcome, either nothing
  changed or the whole write is visible; they report success only in the second case, and they
  write only over the revision they expect.
\<close>

locale store_port =
  fixes ld :: "string \<Rightarrow> ('w, control_state) act"
    and bg :: "u64 \<Rightarrow> control_state \<Rightarrow> ('w, unit) act"
    and cm :: "u64 \<Rightarrow> control_state \<Rightarrow> receipt \<Rightarrow> ('w, unit) act"
    and durable :: "'w \<Rightarrow> control_state"
    and receipts :: "'w \<Rightarrow> receipt list"
  assumes load_law: "after (ld i) w (\<lambda>r w'. durable w' = durable w \<and> receipts w' = receipts w
      \<and> (\<forall>s. r = Returned s \<longrightarrow> s = durable w))"
    and begin_law: "after (bg n s) w (\<lambda>r w'. receipts w' = receipts w
      \<and> (r \<noteq> Returned () \<and> durable w' = durable w \<or> s_revision (durable w) = n \<and> durable w' = s))"
    and commit_law: "after (cm n s rcp) w (\<lambda>r w'.
        r \<noteq> Returned () \<and> durable w' = durable w \<and> receipts w' = receipts w
        \<or> s_revision (durable w) = n \<and> durable w' = s \<and> receipts w' = receipts w @ [rcp])"
begin

lemma load_keeps: "keeps (\<lambda>w. (durable w, receipts w)) (ld i)"
  by (rule keepsI, rule after_mono [OF load_law]) simp

lemma load_returns: "ld i w = (Returned s, w') \<Longrightarrow> s = durable w"
  using afterD [OF load_law] by blast

text \<open>The compare-and-swap: a write at another revision changes nothing.\<close>

lemma begin_cas: "s_revision (durable w) \<noteq> n \<Longrightarrow> bg n s w = (r, w') \<Longrightarrow>
    durable w' = durable w \<and> receipts w' = receipts w \<and> r \<noteq> Returned ()"
  using afterD [OF begin_law] by blast

lemma commit_cas: "s_revision (durable w) \<noteq> n \<Longrightarrow> cm n s rcp w = (r, w') \<Longrightarrow>
    durable w' = durable w \<and> receipts w' = receipts w \<and> r \<noteq> Returned ()"
  using afterD [OF commit_law] by blast

text \<open>History only grows.\<close>

lemma commit_history: "cm n s rcp w = (r, w') \<Longrightarrow> \<exists>new. receipts w' = receipts w @ new"
  using afterD [OF commit_law] by (metis append_Nil2)

end

text \<open>Ports that leave a view of the world alone: all but the store and the operator.\<close>

locale quiet_ports =
  fixes ps :: "('w, 'l) ports" and view :: "'w \<Rightarrow> 'v"
  assumes observe_quiet [keeps_intros]: "keeps view (port_observe ps i)"
    and admissible_quiet [keeps_intros]: "keeps view (port_admissible ps ev)"
    and verify_quiet [keeps_intros]: "keeps view (port_verify ps ev effect ob)"
    and acquire_quiet [keeps_intros]: "keeps view (port_acquire ps i)"
    and unlock_quiet [keeps_intros]: "keeps view (port_unlock ps l)"
    and now_quiet: "view (snd (port_now ps w)) = view w"
begin

lemma get_now_quiet [keeps_intros]: "keeps view (act_get (port_now ps))"
  by (rule keeps_get) (rule now_quiet)

lemma consider_quiet [keeps_intros]: "keeps view (consider_transition ps s ob rq t)"
proof (cases "screen_candidate s rq t")
  case (Inr step)
  then show ?thesis
    by (cases step) (auto simp: consider_transition_def Let_def intro!: keeps_intros)
qed (simp add: consider_transition_def keeps_return)

lemma scan_quiet [keeps_intros]: "keeps view (scan_candidates ps s ob rq sc ts)"
  by (induction ts arbitrary: sc) (auto intro!: keeps_intros)

lemma resolve_selected_quiet [keeps_intros]: "keeps view (resolve_selected ps s ob rq auth trace sc)"
  unfolding resolve_selected_def Let_def by (auto intro!: keeps_intros split: prod.splits)

lemma resolve_state_quiet [keeps_intros]:
  assumes "run_ports r = ps"
  shows "keeps view (resolve_state r s ob rq)"
  unfolding resolve_state_def Let_def assms by (intro keeps_intros)

end

text \<open>
  The ports of a kernel: the store, the others quiet about the store and about \<open>effects\<close>, the
  part of the world the operator acts on. Only the operator changes \<open>effects\<close>, and it does not
  change the store.
\<close>

locale kernel_ports =
  store_port "port_load ps" "port_begin ps" "port_commit ps" durable receipts
  + quiet_ports ps "\<lambda>w. (durable w, receipts w, effects w)"
  for ps :: "('w, 'l) ports" and durable :: "'w \<Rightarrow> control_state" and receipts :: "'w \<Rightarrow> receipt list"
    and effects :: "'w \<Rightarrow> 'e" +
  assumes execute_store: "keeps (\<lambda>w. (durable w, receipts w)) (port_execute ps op)"
    and load_effects: "keeps effects (port_load ps i)"
    and begin_effects: "keeps effects (port_begin ps n s)"
    and commit_effects: "keeps effects (port_commit ps n s rcp)"

section \<open>What an attempt can leave behind\<close>

text \<open>
  The presented prescription shares its content identity with no prescription of another
  transition that the same request could resolve to; when the request names the transition,
  this holds whatever SHA-256 does.
\<close>

definition separated :: "('w, 'l) runtime \<Rightarrow> apply_request \<Rightarrow> bool" where
  "separated r rq \<longleftrightarrow>
     (\<forall>s ob auth t req q. prescribable r s ob (aq_resolve rq) auth t req q
        \<longrightarrow> px_id q = px_id (aq_prescription rq) \<longrightarrow> t_id t = px_transition (aq_prescription rq))"

lemma separated_requested:
  "rq_requested (aq_resolve rq) = px_transition (aq_prescription rq) \<Longrightarrow> rq_requested (aq_resolve rq) \<noteq> []
     \<Longrightarrow> separated r rq"
  by (auto simp: separated_def prescribable_def)

text \<open>Every clock reading has an RFC 3339 text: a year from 0 to 9999.\<close>

definition clock_representable :: "('w, 'l) ports \<Rightarrow> bool" where
  "clock_representable ps \<longleftrightarrow> (\<forall>w. time_text (time_utc (fst (port_now ps w))) \<noteq> None)"

text \<open>What is established before anything is written.\<close>

definition admitted :: "('w, 'l) runtime \<Rightarrow> apply_request \<Rightarrow> control_state \<Rightarrow> attempt \<Rightarrow> bool" where
  "admitted r rq s a \<longleftrightarrow>
     at_state a = s \<and> state_validate s = None \<and> observation_validate (at_observation a) = None
     \<and> s_instance s = rq_instance (aq_resolve rq) \<and> s_program s = program_identity_of (run_program r)
     \<and> (\<exists>now. authority_project (rq_authority (aq_resolve rq)) now = Inr (at_authority a))
     \<and> validate_current (aq_prescription rq) s (at_observation a) (at_authority a) = None
     \<and> (\<exists>q. prescribable r s (at_observation a) (aq_resolve rq) (at_authority a) (at_transition a) (at_required a) q
          \<and> px_id q = px_id (aq_prescription rq))
     \<and> px_transition (aq_prescription rq) = t_id (at_transition a)
     \<and> objective_for s (rq_objective (aq_resolve rq)) (at_transition a) = (at_objective a, [])"

definition attempt_operation :: "string \<Rightarrow> attempt \<Rightarrow> operation" where
  "attempt_operation inst a =
     \<lparr>op_instance = inst, op_transition = at_transition a, op_observation = at_observation a,
      op_objective = at_objective a, op_capabilities = at_required a\<rparr>"

text \<open>What holds of a target state and its receipt when they are committed.\<close>

definition commits :: "prescription \<Rightarrow> attempt \<Rightarrow> effect \<Rightarrow> control_state \<Rightarrow> receipt \<Rightarrow> bool" where
  "commits p a effect target rcp \<longleftrightarrow>
     validate_effects (at_transition a) effect = None \<and> receipt_validate rcp = None
     \<and> (\<exists>requested result now.
          (t_mutation (at_transition a) = Bind_objective \<longrightarrow>
             (\<exists>ob b. at_objective a = Some ob \<and> bind_objective ob = Inr b \<and> requested = Some b))
          \<and> target = target_state (at_transition a) requested (attempt_state p (at_state a))
          \<and> new_receipt p a (attempt_state p (at_state a)) target (sort_effects effect) result now = Inr rcp)"

text \<open>An outcome that reports no success: an error then demands recovery.\<close>

definition interrupted :: "('w, 'l) ports \<Rightarrow> 'a outcome \<Rightarrow> bool" where
  "interrupted ps res =
     (case res of Returned _ \<Rightarrow> False
      | Failed e \<Rightarrow> is_recovery_required e \<or> \<not> clock_representable ps
      | _ \<Rightarrow> True)"

lemma interrupted_simps [simp]:
  "\<not> interrupted ps (Returned x)"
  "interrupted ps (Failed e) \<longleftrightarrow> is_recovery_required e \<or> \<not> clock_representable ps"
  "interrupted ps Panicked" "interrupted ps Halted"
  by (simp_all add: interrupted_def)

text \<open>
  All that one \<open>Apply\<close> can leave behind of an admitted attempt: a refusal that changed nothing;
  the persisted attempt without an execution; one execution, run when the attempt was persisted,
  followed by nothing (the attempt stays persisted) or by one commit of the target state and its
  receipt.
\<close>

definition refused_cleanly ::
    "('w \<Rightarrow> control_state) \<Rightarrow> ('w \<Rightarrow> receipt list) \<Rightarrow> ('w \<Rightarrow> 'e) \<Rightarrow> 'w \<Rightarrow> receipt outcome \<Rightarrow> 'w \<Rightarrow> bool" where
  "refused_cleanly durable receipts effects w res w' \<longleftrightarrow>
     (\<forall>rcp. res \<noteq> Returned rcp)
     \<and> durable w' = durable w \<and> receipts w' = receipts w \<and> effects w' = effects w"

definition left_behind ::
    "('w, 'l) ports \<Rightarrow> ('w \<Rightarrow> control_state) \<Rightarrow> ('w \<Rightarrow> receipt list) \<Rightarrow> ('w \<Rightarrow> 'e) \<Rightarrow> prescription
       \<Rightarrow> attempt \<Rightarrow> string \<Rightarrow> 'w \<Rightarrow> receipt outcome \<Rightarrow> 'w \<Rightarrow> bool" where
  "left_behind ps durable receipts effects p a inst w res w' \<longleftrightarrow>
     state_validate (attempt_state p (at_state a)) = None
     \<and> ((\<forall>rcp. res \<noteq> Returned rcp) \<and> durable w' = attempt_state p (at_state a)
          \<and> receipts w' = receipts w \<and> effects w' = effects w
        \<or> (\<exists>w1 r1 w2. durable w1 = attempt_state p (at_state a) \<and> receipts w1 = receipts w \<and> effects w1 = effects w
             \<and> port_execute ps (attempt_operation inst a) w1 = (r1, w2) \<and> effects w' = effects w2
             \<and> (interrupted ps res \<and> durable w' = attempt_state p (at_state a) \<and> receipts w' = receipts w
                \<or> (\<exists>effect rcp. r1 = Returned effect \<and> (res = Returned rcp \<or> interrupted ps res)
                     \<and> commits p a effect (durable w') rcp \<and> receipts w' = receipts w @ [rcp]))))"

lemma refused_cleanly_cong:
  assumes "refused_cleanly durable receipts effects w res w'"
    and "durable v = durable w" "receipts v = receipts w" "effects v = effects w"
    and "durable v' = durable w'" "receipts v' = receipts w'" "effects v' = effects w'"
    and "res' = res \<or> res' = Panicked \<or> res' = Halted"
  shows "refused_cleanly durable receipts effects v res' v'"
  using assms by (auto simp: refused_cleanly_def)

lemma left_behind_cong:
  assumes "left_behind ps durable receipts effects p a inst w res w'"
    and "receipts v = receipts w" "effects v = effects w"
    and "durable v' = durable w'" "receipts v' = receipts w'" "effects v' = effects w'"
    and "res' = res \<or> res' = Panicked \<or> res' = Halted"
  shows "left_behind ps durable receipts effects p a inst v res' v'"
  using assms unfolding left_behind_def interrupted_def by (auto; metis outcome.simps)

context kernel_ports
begin

lemmas port_effects = observe_quiet admissible_quiet verify_quiet acquire_quiet unlock_quiet

lemma apply_commit_after:
  assumes begun: "durable w = attempt_state p (at_state a)"
    and effect: "validate_effects (at_transition a) effect = None"
    and obj: "t_mutation (at_transition a) = Bind_objective \<Longrightarrow>
      \<exists>ob. at_objective a = Some ob \<and> objective_validate ob = None"
  shows "after (apply_commit ps p a (attempt_state p (at_state a)) (sort_effects effect) result) w
    (\<lambda>res w'. effects w' = effects w
      \<and> (interrupted ps res \<and> durable w' = durable w \<and> receipts w' = receipts w
         \<or> (\<exists>rcp. (res = Returned rcp \<or> interrupted ps res) \<and> commits p a effect (durable w') rcp
              \<and> receipts w' = receipts w @ [rcp])))"
proof -
  let ?begun = "attempt_state p (at_state a)"
  obtain requested where req: "bind_requested (at_transition a) (at_objective a) w = (Returned requested, w)"
    and reqb: "t_mutation (at_transition a) = Bind_objective \<longrightarrow>
      (\<exists>ob b. at_objective a = Some ob \<and> bind_objective ob = Inr b \<and> requested = Some b)"
  proof (cases "t_mutation (at_transition a) = Bind_objective")
    case True
    then obtain ob b where "at_objective a = Some ob" "bind_objective ob = Inr b"
      using obj bind_objective_total by blast
    then show ?thesis
      using that [of "Some b"] True by (simp add: bind_requested_cases)
  next
    case False
    then show ?thesis
      using that [of None] by (simp add: bind_requested_cases)
  qed
  obtain now w1 where now: "port_now ps w = (now, w1)"
    by fastforce
  have w1: "durable w1 = durable w" "receipts w1 = receipts w" "effects w1 = effects w"
    using now_quiet [of w] now by simp_all
  define target where "target = target_state (at_transition a) requested ?begun"
  have run: "after (apply_commit ps p a ?begun (sort_effects effect) result) w Q =
      (case new_receipt p a ?begun target (sort_effects effect) result now of
         Inl e \<Rightarrow> Q (Failed e) w1
       | Inr rcp \<Rightarrow>
          (case receipt_validate rcp of
             Some e \<Rightarrow> Q (Failed (recovery_required (Lit ''transition receipt is invalid: '' # etext e))) w1
           | None \<Rightarrow> after (port_commit ps (s_revision ?begun) target rcp) w1
               (\<lambda>r w'. Q (case r of Returned _ \<Rightarrow> Returned rcp
                  | Failed e \<Rightarrow> Failed (recovery_required (Lit ''state and receipt transaction did not commit: '' # etext e))
                  | Panicked \<Rightarrow> Panicked | Halted \<Rightarrow> Halted) w')))" for Q
    unfolding apply_commit_def
    by (simp add: after_simps after_def [of "bind_requested _ _"] req now target_def Let_def
        split: sum.splits option.splits)
       (auto simp: after_def passing_def split: prod.splits outcome.splits)
  show ?thesis
  proof (cases "new_receipt p a ?begun target (sort_effects effect) result now")
    case (Inl e)
    have "time_text (time_utc (fst (port_now ps w))) = None"
      using new_receipt_total [of now p a ?begun target "sort_effects effect" result] Inl now
      by (cases "time_text (time_utc now)") auto
    then have "\<not> clock_representable ps"
      unfolding clock_representable_def by blast
    then show ?thesis
      unfolding run Inl using w1 by simp
  next
    case (Inr rcp)
    show ?thesis
    proof (cases "receipt_validate rcp")
      case (Some e)
      then show ?thesis unfolding run using Inr w1 by simp
    next
      case None
      have c: "commits p a effect target rcp"
        unfolding commits_def using effect None reqb Inr target_def by blast
      have "keeps effects (port_commit ps n s rcp)" for n s
        by (rule commit_effects)
      then have e: "after (port_commit ps (s_revision ?begun) target rcp) w1 (\<lambda>r w'. effects w' = effects w1)"
        by (rule keeps_after)
      show ?thesis
        unfolding run Inr sum.case None option.case
        by (rule after_mono [OF after_conj [OF e commit_law]])
           (use c w1 in \<open>auto split: outcome.splits\<close>)
    qed
  qed
qed

lemma apply_effect_after:
  assumes begun: "durable w = attempt_state p (at_state a)"
    and obj: "t_mutation (at_transition a) = Bind_objective \<Longrightarrow>
      \<exists>ob. at_objective a = Some ob \<and> objective_validate ob = None"
    and ex: "port_execute ps (attempt_operation inst a) w = (r1, w1)"
  shows "after (apply_effect ps p a inst (attempt_state p (at_state a))) w
    (\<lambda>res w'. effects w' = effects w1
      \<and> (interrupted ps res \<and> durable w' = durable w \<and> receipts w' = receipts w
         \<or> (\<exists>effect rcp. r1 = Returned effect \<and> (res = Returned rcp \<or> interrupted ps res)
              \<and> commits p a effect (durable w') rcp \<and> receipts w' = receipts w @ [rcp])))"
    (is "after _ _ ?Q")
proof -
  have w1: "durable w1 = durable w" "receipts w1 = receipts w"
    using keepsD [OF execute_store ex] by simp_all
  show ?thesis
  proof (cases r1)
    case (Returned effect)
    show ?thesis
    proof (cases "validate_effects (at_transition a) effect")
      case (Some e)
      then show ?thesis
        unfolding apply_effect_def using w1 ex Returned
        by (simp add: after_simps after_def [of "port_execute _ _"] flip: attempt_operation_def)
    next
      case None
      obtain r2 w2 where obs: "port_observe ps inst w1 = (r2, w2)"
        by fastforce
      have w2: "(durable w2, receipts w2, effects w2) = (durable w1, receipts w1, effects w1)"
        using keepsD [OF observe_quiet obs] .
      show ?thesis
      proof (cases r2)
        case (Returned result)
        obtain r3 w3 where ver: "port_verify ps (attempt_evaluation a) (sort_effects effect) result w2 = (r3, w3)"
          by fastforce
        have w3: "(durable w3, receipts w3, effects w3) = (durable w1, receipts w1, effects w1)"
          using keepsD [OF verify_quiet ver] w2 by simp
        have run: "after (apply_effect ps p a inst (attempt_state p (at_state a))) w ?Q =
            (case r3 of Returned _ \<Rightarrow> after (apply_commit ps p a (attempt_state p (at_state a)) (sort_effects effect) result) w3 ?Q
             | Failed e \<Rightarrow> ?Q (Failed (recovery_required (Lit ''verification failed: '' # etext e))) w3
             | Panicked \<Rightarrow> ?Q Panicked w3 | Halted \<Rightarrow> ?Q Halted w3)"
          unfolding apply_effect_def using ex \<open>r1 = Returned effect\<close> None obs Returned ver
          by (simp add: after_simps after_def [of "port_execute _ _"] after_def [of "port_observe _ _"]
              after_def [of "port_verify _ _ _ _"] Let_def passing_def flip: attempt_operation_def split: outcome.splits)
        have "after (apply_commit ps p a (attempt_state p (at_state a)) (sort_effects effect) result) w3 ?Q"
          by (rule after_mono [OF apply_commit_after [OF _ None obj]])
             (use w1 w3 begun \<open>r1 = Returned effect\<close> in auto)
        then show ?thesis
          unfolding run using w1 w3 by (simp split: outcome.splits)
      qed (use ex \<open>r1 = Returned effect\<close> None obs w1 w2 in
          \<open>simp_all add: apply_effect_def after_simps after_def [of "port_execute _ _"]
             after_def [of "port_observe _ _"] Let_def flip: attempt_operation_def\<close>)
    qed
  qed (use ex w1 in \<open>simp_all add: apply_effect_def after_simps after_def [of "port_execute _ _"]
         flip: attempt_operation_def\<close>)
qed

lemma apply_begin_after:
  assumes s: "durable w = at_state a"
    and obj: "t_mutation (at_transition a) = Bind_objective \<Longrightarrow>
      \<exists>ob. at_objective a = Some ob \<and> objective_validate ob = None"
  shows "after (apply_begin ps p a inst) w (\<lambda>res w'.
    refused_cleanly durable receipts effects w res w' \<or> left_behind ps durable receipts effects p a inst w res w')"
    (is "after _ _ ?Q")
proof (cases "state_validate (attempt_state p (at_state a))")
  case (Some e)
  then show ?thesis
    by (simp add: apply_begin_def Let_def after_simps refused_cleanly_def)
next
  case valid: None
  obtain rb wb where bg: "port_begin ps (s_revision (at_state a)) (attempt_state p (at_state a)) w = (rb, wb)"
    by fastforce
  have wb: "receipts wb = receipts w" "effects wb = effects w"
    "rb \<noteq> Returned () \<and> durable wb = durable w \<or> durable wb = attempt_state p (at_state a)"
    using afterD [OF begin_law bg] keepsD [OF begin_effects bg] by auto
  have run: "after (apply_begin ps p a inst) w ?Q =
      (case rb of Returned _ \<Rightarrow> after (apply_effect ps p a inst (attempt_state p (at_state a))) wb ?Q
       | Failed e \<Rightarrow> ?Q (Failed (wrapf [Lit ''effect attempt did not begin: ''] e)) wb
       | Panicked \<Rightarrow> ?Q Panicked wb | Halted \<Rightarrow> ?Q Halted wb)"
    unfolding apply_begin_def Let_def
    by (simp add: after_simps valid after_def [of "port_begin _ _ _"] bg passing_def split: outcome.splits)
  show ?thesis
  proof (cases "rb = Returned ()")
    case True
    then have d: "durable wb = attempt_state p (at_state a)"
      using wb(3) by simp
    obtain r1 w1 where ex: "port_execute ps (attempt_operation inst a) wb = (r1, w1)"
      by fastforce
    have "after (apply_effect ps p a inst (attempt_state p (at_state a))) wb ?Q"
      by (rule after_mono [OF apply_effect_after [OF d obj ex]], assumption, rule disjI2,
          unfold left_behind_def) (use valid d wb(1,2) ex in metis)
    then show ?thesis unfolding run using True by simp
  next
    case False
    then show ?thesis
      unfolding run using wb s valid by (cases rb) (auto simp: refused_cleanly_def left_behind_def)
  qed
qed

lemma apply_resolved_after:
  assumes r: "run_ports r = ps" "compiled (run_program r)" "separated r rq"
    and s: "durable w = s" and early: "early_decision (run_program r) s ob (aq_resolve rq) = None"
    and auth: "authority_project (rq_authority (aq_resolve rq)) now = Inr auth"
    and current: "validate_current (aq_prescription rq) s ob auth = None"
    and res: "\<forall>q. rs_prescription rs = Some q \<longrightarrow> d_kind (rs_decision rs) = Prescribed
       \<and> (\<exists>t req. prescribable r s ob (aq_resolve rq) auth t req q)"
  shows "after (apply_resolved r rq s ob auth rs) w (\<lambda>res w'.
     refused_cleanly durable receipts effects w res w'
     \<or> (\<exists>a. admitted r rq s a \<and> left_behind ps durable receipts effects (aq_prescription rq) a
           (rq_instance (aq_resolve rq)) w res w'))"
proof -
  have fail: "after (act_fail e) w (\<lambda>res w'. refused_cleanly durable receipts effects w res w' \<or> P res w')" for e P
    by (simp add: after_simps refused_cleanly_def)
  show ?thesis
  proof (cases "rs_prescription rs")
    case None
    then show ?thesis
      by (simp add: apply_resolved_def Let_def fail)
  next
    case (Some q)
    then obtain t req where kind: "d_kind (rs_decision rs) = Prescribed"
      and pres: "prescribable r s ob (aq_resolve rq) auth t req q"
      using res by blast
    show ?thesis
    proof (cases "px_id (aq_prescription rq) = px_id q")
      case False
      then show ?thesis
        using Some kind by (simp add: apply_resolved_def Let_def fail)
    next
      case True
      have id: "t_id t = px_transition (aq_prescription rq)"
        using r(3) pres True unfolding separated_def by metis
      obtain obj where t: "t \<in> set (p_transitions (run_program r))"
        and obj: "objective_for s (rq_objective (aq_resolve rq)) t = (obj, [])"
        and req: "required_capabilities (port_classify ps) t = Inr req"
        using pres r(1) unfolding prescribable_def by blast
      have lookup: "program_transition (run_program r) (px_transition (aq_prescription rq)) = Some t"
        using compiled_lookup [OF r(2)] t id by simp
      define a where "a = \<lparr>at_state = s, at_observation = ob, at_transition = t, at_objective = obj,
        at_authority = auth, at_required = req\<rparr>"
      have adm: "admitted r rq s a"
        using early_decision_None [OF early] auth current pres id obj True
        unfolding admitted_def by (auto simp: a_def)
      have run: "apply_resolved r rq s ob auth rs =
          apply_begin ps (aq_prescription rq) a (rq_instance (aq_resolve rq))"
        using Some kind True lookup req obj r(1)
        by (intro ext) (simp add: apply_resolved_def Let_def a_def act_bind_def act_sum_def act_return_def)
      have "after (apply_begin ps (aq_prescription rq) a (rq_instance (aq_resolve rq))) w (\<lambda>res w'.
          refused_cleanly durable receipts effects w res w' \<or>
          left_behind ps durable receipts effects (aq_prescription rq) a (rq_instance (aq_resolve rq)) w res w')"
        using s objective_for_bind [OF _ obj] by (intro apply_begin_after) (auto simp: a_def)
      then show ?thesis
        unfolding run by (rule after_mono) (use adm in blast)
    qed
  qed
qed

text \<open>The characterization of \<open>Apply\<close>.\<close>

definition applied :: "('w, 'l) runtime \<Rightarrow> apply_request \<Rightarrow> 'w \<Rightarrow> receipt outcome \<Rightarrow> 'w \<Rightarrow> bool" where
  "applied r rq w res w' \<longleftrightarrow>
     refused_cleanly durable receipts effects w res w'
     \<or> (\<exists>a. admitted r rq (durable w) a \<and> left_behind ps durable receipts effects (aq_prescription rq) a
           (rq_instance (aq_resolve rq)) w res w')"

lemma applied_cong:
  assumes "applied r rq w res w'"
    and "(durable v, receipts v, effects v) = (durable w, receipts w, effects w)"
    and "(durable v', receipts v', effects v') = (durable w', receipts w', effects w')"
    and "res' = res \<or> res' = Panicked \<or> res' = Halted"
  shows "applied r rq v res' v'"
  using assms refused_cleanly_cong [of durable receipts effects w res w' v v' res']
    left_behind_cong [of ps durable receipts effects "aq_prescription rq" _ "rq_instance (aq_resolve rq)" w res w' v v' res']
  unfolding applied_def by auto

lemma apply_locked_after:
  assumes r: "run_ports r = ps" "compiled (run_program r)" "separated r rq"
  shows "after (apply_locked r rq) w (applied r rq w)"
proof -
  let ?inst = "rq_instance (aq_resolve rq)" and ?p = "aq_prescription rq"
  let ?same = "\<lambda>v. (durable v, receipts v, effects v) = (durable w, receipts w, effects w)"
  have refuse: "applied r rq w res v" if "\<forall>rcp. res \<noteq> Returned rcp" "?same v" for res v
    using that by (simp add: applied_def refused_cleanly_def)
  obtain r1 w1 where ld: "port_load ps ?inst w = (r1, w1)" by fastforce
  have w1: "?same w1" "\<And>s. r1 = Returned s \<Longrightarrow> s = durable w"
    using afterD [OF load_law ld] keepsD [OF load_effects ld] by auto
  obtain r2 w2 where ob: "port_observe ps ?inst w1 = (r2, w2)" by fastforce
  have w2: "?same w2" using keepsD [OF observe_quiet ob] w1(1) by simp
  obtain now w3 where now: "port_now ps w2 = (now, w3)" by fastforce
  have w3: "?same w3" using now_quiet [of w2] now w2 by simp
  show ?thesis
  proof (cases "\<exists>s ob auth. r1 = Returned s \<and> r2 = Returned ob
      \<and> authority_project (rq_authority (aq_resolve rq)) now = Inr auth \<and> validate_current ?p s ob auth = None")
    case False
    have "after (apply_locked r rq) w (\<lambda>res w'. (\<forall>rcp. res \<noteq> Returned rcp) \<and> ?same w')"
      unfolding apply_locked_def Let_def r(1)
      using False w1 w2 w3
      by (cases r1; cases r2; cases "authority_project (rq_authority (aq_resolve rq)) now")
         (auto simp: after_simps after_def [of "port_load _ _"] after_def [of "port_observe _ _"] ld ob now
           split: option.splits)
    then show ?thesis
      by (rule after_mono) (use refuse in blast)
  next
    case True
    then obtain s obs auth where ok: "r1 = Returned s" "r2 = Returned obs"
      "authority_project (rq_authority (aq_resolve rq)) now = Inr auth" "validate_current ?p s obs auth = None"
      by blast
    have s: "s = durable w" using w1(2) ok(1) by simp
    have run: "after (apply_locked r rq) w (applied r rq w) =
        after (resolve_state r s obs (aq_resolve rq)) w3
          (passing (\<lambda>rs w'. after (apply_resolved r rq s obs auth rs) w' (applied r rq w)) (applied r rq w))"
      unfolding apply_locked_def Let_def r(1)
      using ok by (simp add: after_simps after_def [of "port_load _ _"] after_def [of "port_observe _ _"] ld ob now)
    have quiet: "after (resolve_state r s obs (aq_resolve rq)) w3 (\<lambda>x v.
        (durable v, receipts v, effects v) = (durable w3, receipts w3, effects w3))"
      by (rule keeps_after [OF resolve_state_quiet [OF r(1)]])
    show ?thesis
      unfolding run
    proof (rule after_mono [OF after_conj [OF quiet resolve_state_after [OF r(2)]]])
      fix x :: "resolution outcome" and v
      assume run: "resolve_state r s obs (aq_resolve rq) w3 = (x, v)"
        and x: "(durable v, receipts v, effects v) = (durable w3, receipts w3, effects w3)
        \<and> (\<forall>rs. x = Returned rs \<longrightarrow> rs_state rs = s \<and> rs_observation rs = obs
        \<and> (\<forall>q. rs_prescription rs = Some q \<longrightarrow> d_kind (rs_decision rs) = Prescribed
            \<and> early_decision (run_program r) s obs (aq_resolve rq) = None
            \<and> (\<exists>auth now t req. authority_project (rq_authority (aq_resolve rq)) now = Inr auth
                 \<and> d_transition (rs_decision rs) = t_id t \<and> prescribable r s obs (aq_resolve rq) auth t req q)))"
      then have v: "?same v" using w3 by simp
      show "passing (\<lambda>rs w'. after (apply_resolved r rq s obs auth rs) w' (applied r rq w)) (applied r rq w) x v"
      proof (cases x)
        case (Returned rs)
        have rs: "\<forall>q. rs_prescription rs = Some q \<longrightarrow> d_kind (rs_decision rs) = Prescribed
            \<and> (\<exists>t req. prescribable r s obs (aq_resolve rq) auth t req q)"
          using x Returned authority_project_unique [OF ok(3)] by metis
        have "after (apply_resolved r rq s obs auth rs) v (applied r rq v)"
        proof (cases "rs_prescription rs")
          case None
          then show ?thesis
            by (simp add: apply_resolved_def Let_def after_simps applied_def refused_cleanly_def)
        next
          case (Some q)
          then have "early_decision (run_program r) s obs (aq_resolve rq) = None"
            using conjunct2 [OF x] Returned by simp
          then show ?thesis
            using apply_resolved_after [OF r _ _ ok(3,4) rs, of v] v s
            by (simp add: applied_def [abs_def])
        qed
        then have "after (apply_resolved r rq s obs auth rs) v (applied r rq w)"
          by (rule after_mono, elim applied_cong) (use v in simp_all)
        then show ?thesis using Returned by simp
      qed (use refuse v in simp_all)
    qed
  qed
qed

lemma apply_transition_after:
  assumes r: "run_ports r = ps" "compiled (run_program r)" "separated r rq"
  shows "after (apply_transition r rq) w (applied r rq w)"
proof -
  let ?same = "\<lambda>v w. (durable v, receipts v, effects v) = (durable w, receipts w, effects w)"
  obtain r1 w1 where acq: "port_acquire ps (rq_instance (aq_resolve rq)) w = (r1, w1)" by fastforce
  have w1: "?same w1 w" using keepsD [OF acquire_quiet acq] .
  show ?thesis
  proof (cases r1)
    case (Returned lock)
    have unlock: "after (port_unlock ps lock) v (\<lambda>x v'. applied r rq w
        (case x of Panicked \<Rightarrow> Panicked | Halted \<Rightarrow> Halted | _ \<Rightarrow> res) v')"
      if "applied r rq w1 res v" for res v
      by (rule after_mono [OF keeps_after [OF unlock_quiet]], rule applied_cong [OF that])
         (use w1 in \<open>auto split: outcome.splits\<close>)
    have halted: "applied r rq w Halted v" if "applied r rq w1 Halted v" for v
      by (rule applied_cong [OF that]) (use w1 in auto)
    have "after (apply_locked r rq) w1 (\<lambda>res v. if res = Halted then applied r rq w Halted v
        else after (port_unlock ps lock) v (\<lambda>x v'. applied r rq w
          (case x of Panicked \<Rightarrow> Panicked | Halted \<Rightarrow> Halted | _ \<Rightarrow> res) v'))"
      by (rule after_mono [OF apply_locked_after [OF r]]) (use unlock halted in auto)
    then show ?thesis
      by (simp add: apply_transition_def after_bind r(1) after_def [of "port_acquire _ _"] acq Returned after_defer)
  qed (use w1 in \<open>simp_all add: apply_transition_def after_bind r(1) after_def [of "port_acquire _ _"] acq
      applied_def refused_cleanly_def\<close>)
qed

end

end
