(* ===== verification/Kernel_Safety.thy ===== *)
theory Kernel_Safety
  imports Kernel_Contract
begin

text \<open>
  The guarantees of the runtime over any ports that satisfy the contract \<open>kernel_ports\<close>:
  atomicity, recovery obligations, single execution, refusal of stale and replayed
  prescriptions, the invariant of state and receipt history, and recoverability.
\<close>

section \<open>The characterization outside the locale\<close>

lemma apply_cases:
  assumes "kernel_ports (run_ports r) durable receipts effects" "compiled (run_program r)" "separated r rq"
    and "apply_transition r rq w = (res, w')"
  shows "refused_cleanly durable receipts effects w res w'
    \<or> (\<exists>a. admitted r rq (durable w) a \<and> left_behind (run_ports r) durable receipts effects
          (aq_prescription rq) a (rq_instance (aq_resolve rq)) w res w')"
  using afterD [OF kernel_ports.apply_transition_after [OF assms(1) refl assms(2,3)] assms(4)]
  by (simp add: kernel_ports.applied_def [OF assms(1)])

lemma admitted_transition:
  assumes "compiled (run_program r)" "admitted r rq s a"
  shows "at_transition a \<in> set (p_transitions (run_program r))"
    "t_id (at_transition a) = px_transition (aq_prescription rq)"
    "s_mode s \<in> set (t_sources (at_transition a))" "recovery_compatible s (at_transition a)"
    "at_state a = s" "state_validate s = None"
    "required_capabilities (port_classify (run_ports r)) (at_transition a) = Inr (at_required a)"
    "set (at_required a) \<subseteq> set (ap_capabilities (at_authority a))"
    "\<exists>now. authority_project (rq_authority (aq_resolve rq)) now = Inr (at_authority a)"
    "transition_validate (at_transition a) = None"
  using assms compiled_transition_valid(1) unfolding admitted_def prescribable_def by auto

lemma admitted_freshness:
  "admitted r rq s a \<Longrightarrow> fr_revision (px_freshness (aq_prescription rq)) = s_revision s
     \<and> fr_instance (px_freshness (aq_prescription rq)) = s_instance s
     \<and> fr_program (px_freshness (aq_prescription rq)) = pi_fingerprint (s_program s)
     \<and> px_expected (aq_prescription rq) = s_binding s"
  by (auto simp: admitted_def validate_current_None current_freshness_Inr)

lemma transition_valid_target: "transition_validate t = None \<Longrightarrow> t_target t \<noteq> []"
  by (auto simp: transition_validate_None_iff transition_incomplete_def)

lemma commits_target:
  assumes "commits p a effect target rcp"
  shows "s_mode target = t_target (at_transition a)" "s_recovery target = None"
    "s_revision target = s_revision (at_state a) + 2"
    "s_instance target = s_instance (at_state a)" "s_program target = s_program (at_state a)"
    "rcp_prior_revision rcp = s_revision (at_state a)"
    "rcp_attempt_revision rcp = s_revision (at_state a) + 1"
    "rcp_result_revision rcp = s_revision target" "rcp_binding rcp = s_binding target"
    "rcp_instance rcp = s_instance (at_state a)" "rcp_program rcp = s_program (at_state a)"
    "rcp_transition rcp = t_id (at_transition a)" "rcp_prescription rcp = px_id p"
    "rcp_capabilities rcp = at_required a" "rcp_authority rcp = ap_fingerprint (at_authority a)"
    "rcp_effects rcp = sort_effects effect" "receipt_validate rcp = None"
    "\<forall>f\<in>set effect. f_facet f \<in> set (t_owned (at_transition a))" "effect \<noteq> []"
  using assms
  by (auto simp: commits_def new_receipt_Inr validate_effects_None fact_escapes_def)

section \<open>Atomicity\<close>

text \<open>
  C4. \<open>Apply\<close> is atomic on the durable record, whatever its outcome (return, error, panic or
  crash): it leaves the state and the receipts as they were, or it leaves the unresolved
  attempt and no receipt, or it leaves the target state of a transition of the program
  together with one valid receipt of it. If the operator's part of the world changed, the
  first case is excluded.
\<close>

theorem apply_atomic:
  assumes "kernel_ports (run_ports r) durable receipts effects" "compiled (run_program r)" "separated r rq"
    and "apply_transition r rq w = (res, w')"
  shows "durable w' = durable w \<and> receipts w' = receipts w \<and> effects w' = effects w
    \<or> durable w' = attempt_state (aq_prescription rq) (durable w) \<and> receipts w' = receipts w
    \<or> (\<exists>t\<in>set (p_transitions (run_program r)). \<exists>requested rcp.
         durable w' = target_state t requested (attempt_state (aq_prescription rq) (durable w))
         \<and> receipts w' = receipts w @ [rcp] \<and> receipt_validate rcp = None
         \<and> rcp_transition rcp = t_id t)"
  using apply_cases [OF assms]
proof
  assume "\<exists>a. admitted r rq (durable w) a \<and> left_behind (run_ports r) durable receipts effects
      (aq_prescription rq) a (rq_instance (aq_resolve rq)) w res w'"
  then obtain a where a: "admitted r rq (durable w) a"
    and l: "left_behind (run_ports r) durable receipts effects (aq_prescription rq) a
      (rq_instance (aq_resolve rq)) w res w'" by blast
  note t = admitted_transition [OF assms(2) a]
  from l consider "durable w' = attempt_state (aq_prescription rq) (durable w)" "receipts w' = receipts w"
    | effect rcp where "commits (aq_prescription rq) a effect (durable w') rcp" "receipts w' = receipts w @ [rcp]"
    unfolding left_behind_def t(5) by blast
  then show ?thesis
  proof cases
    case 2
    then obtain requested where
      "durable w' = target_state (at_transition a) requested (attempt_state (aq_prescription rq) (durable w))"
      unfolding commits_def t(5) by blast
    then show ?thesis
      using t(1) 2(2) commits_target(12,17) [OF 2(1)] by blast
  qed blast
qed (simp add: refused_cleanly_def)

text \<open>
  C3. A returned receipt is the whole truth about the transition: the operator was executed
  once, while the attempt was persisted under the obligation to recover; the durable state is
  at the target mode, two revisions on and free of obligations; and the receipt, appended to
  the history, is valid and names the presented prescription, the revisions, effects owned by
  the transition, and capabilities that contain the program's and the classifier's and that
  the presented authority grants.
\<close>

theorem apply_success:
  assumes "kernel_ports (run_ports r) durable receipts effects" "compiled (run_program r)" "separated r rq"
    and "apply_transition r rq w = (Returned rcp, w')"
  shows "\<exists>t\<in>set (p_transitions (run_program r)).
    t_id t = px_transition (aq_prescription rq) \<and> rcp_transition rcp = t_id t
    \<and> s_mode (durable w) \<in> set (t_sources t) \<and> recovery_compatible (durable w) t
    \<and> s_mode (durable w') = t_target t \<and> s_recovery (durable w') = None
    \<and> s_revision (durable w') = s_revision (durable w) + 2
    \<and> receipts w' = receipts w @ [rcp] \<and> receipt_validate rcp = None
    \<and> rcp_prescription rcp = px_id (aq_prescription rq)
    \<and> rcp_prior_revision rcp = s_revision (durable w) \<and> rcp_result_revision rcp = s_revision (durable w')
    \<and> (\<forall>f\<in>set (rcp_effects rcp). f_facet f \<in> set (t_owned t))
    \<and> required_capabilities (port_classify (run_ports r)) t = Inr (rcp_capabilities rcp)
    \<and> (\<exists>auth now. authority_project (rq_authority (aq_resolve rq)) now = Inr auth
         \<and> rcp_authority rcp = ap_fingerprint auth \<and> set (rcp_capabilities rcp) \<subseteq> set (ap_capabilities auth))
    \<and> (\<exists>op w1 effect w2. op_transition op = t
         \<and> port_execute (run_ports r) op w1 = (Returned effect, w2)
         \<and> durable w1 = attempt_state (aq_prescription rq) (durable w)
         \<and> effects w1 = effects w \<and> effects w' = effects w2 \<and> set effect = set (rcp_effects rcp))"
proof -
  obtain a where a: "admitted r rq (durable w) a"
    and l: "left_behind (run_ports r) durable receipts effects (aq_prescription rq) a
      (rq_instance (aq_resolve rq)) w (Returned rcp) w'"
    using apply_cases [OF assms] by (auto simp: refused_cleanly_def)
  note t = admitted_transition [OF assms(2) a]
  obtain w1 effect w2 where ex: "durable w1 = attempt_state (aq_prescription rq) (durable w)"
    "effects w1 = effects w"
    "port_execute (run_ports r) (attempt_operation (rq_instance (aq_resolve rq)) a) w1 = (Returned effect, w2)"
    "effects w' = effects w2"
    and c: "commits (aq_prescription rq) a effect (durable w') rcp" and h: "receipts w' = receipts w @ [rcp]"
    using l unfolding left_behind_def t(5) by auto
  note f = commits_target [OF c]
  have op: "op_transition (attempt_operation (rq_instance (aq_resolve rq)) a) = at_transition a"
    by (simp add: attempt_operation_def)
  have eff: "set effect = set (rcp_effects rcp)"
    using f(16) by simp
  have auth: "\<exists>auth now. authority_project (rq_authority (aq_resolve rq)) now = Inr auth
      \<and> rcp_authority rcp = ap_fingerprint auth \<and> set (rcp_capabilities rcp) \<subseteq> set (ap_capabilities auth)"
    using t(8,9) f(14,15) by metis
  have run: "\<exists>op w1 effect w2. op_transition op = at_transition a
      \<and> port_execute (run_ports r) op w1 = (Returned effect, w2)
      \<and> durable w1 = attempt_state (aq_prescription rq) (durable w)
      \<and> effects w1 = effects w \<and> effects w' = effects w2 \<and> set effect = set (rcp_effects rcp)"
    using op ex eff by blast
  have owned: "\<forall>x\<in>set (rcp_effects rcp). f_facet x \<in> set (t_owned (at_transition a))"
    using f(18) eff by simp
  show ?thesis
    by (rule bexI [OF _ t(1)], intro conjI; (rule auth | rule run | rule owned | simp add: t f h))
qed

section \<open>Recovery obligations\<close>

text \<open>
  C12. No effect without a durable obligation: if the operator's part of the world changed and
  no receipt was committed, the durable state carries a recovery obligation. It is the one that
  was active before, or it names the presented prescription and its transition. An error then
  demands recovery, as long as the clock reads years that RFC 3339 can write.
\<close>

theorem effect_leaves_obligation:
  assumes "kernel_ports (run_ports r) durable receipts effects" "compiled (run_program r)" "separated r rq"
    and "apply_transition r rq w = (res, w')"
    and "effects w' \<noteq> effects w" and "receipts w' = receipts w"
  shows "(\<exists>o'. s_recovery (durable w') = Some o' \<and>
        (case s_recovery (durable w) of
           Some old \<Rightarrow> o' = old
         | None \<Rightarrow> r_prescription o' = px_id (aq_prescription rq)
                 \<and> r_transition o' = px_transition (aq_prescription rq)))
    \<and> (\<forall>e. res = Failed e \<longrightarrow> clock_representable (run_ports r) \<longrightarrow> is_recovery_required e)
    \<and> (\<forall>rcp. res \<noteq> Returned rcp)"
proof -
  obtain a where a: "admitted r rq (durable w) a"
    and l: "left_behind (run_ports r) durable receipts effects (aq_prescription rq) a
      (rq_instance (aq_resolve rq)) w res w'"
    using apply_cases [OF assms(1-4)] assms(5) by (auto simp: refused_cleanly_def)
  have st: "at_state a = durable w"
    by (rule admitted_transition(5) [OF assms(2) a])
  have "durable w' = attempt_state (aq_prescription rq) (durable w)" and i: "interrupted (run_ports r) res"
    using l assms(5,6) unfolding left_behind_def st by auto
  then have "\<exists>o'. s_recovery (durable w') = Some o' \<and>
        (case s_recovery (durable w) of
           Some old \<Rightarrow> o' = old
         | None \<Rightarrow> r_prescription o' = px_id (aq_prescription rq)
                 \<and> r_transition o' = px_transition (aq_prescription rq))"
    by (cases "s_recovery (durable w)") simp_all
  moreover have "\<forall>rcp. res \<noteq> Returned rcp" "\<forall>e. res = Failed e \<longrightarrow> clock_representable (run_ports r) \<longrightarrow> is_recovery_required e"
    using i by (auto simp: interrupted_def)
  ultimately show ?thesis by blast
qed

text \<open>
  The one error after an execution that does not demand recovery: with a clock that reads a
  year RFC 3339 cannot write, the receipt cannot be encoded, and \<open>Apply\<close> returns the encoding
  error itself.
\<close>

lemma unrepresentable_clock_plain:
  assumes "time_text (time_utc (fst (port_now ps w))) = None" and "t_mutation (at_transition a) \<noteq> Bind_objective"
  shows "\<exists>e w'. apply_commit ps p a begun effect result w = (Failed e, w') \<and> \<not> is_recovery_required e"
proof -
  obtain now w1 where now: "port_now ps w = (now, w1)" by fastforce
  have plain: "eclass e = Plain" if "hash_json j = Inl e" for j e
    using that by (auto simp: hash_json_def marshal_error_def split: option.splits)
  have enc: "encode_fields b (fs @ [(k, JRaw [])]) = None" for b fs k
    by (induction fs arbitrary: b) (auto split: option.splits)
  define target where "target = target_state (at_transition a) None begun"
  have "\<exists>e. receipt_identity rc = Inl e" if "rcp_committed rc = time_utc now" for rc
  proof -
    have t: "time_json (rcp_committed rc) = JRaw []"
      using assms(1) now that by (simp add: time_json_def)
    obtain fs where "receipt_json (rc\<lparr>rcp_id := []\<rparr>) = JObj (fs @ [(''committed_at'', JRaw [])])"
      using t by (simp add: receipt_json_def)
    then show ?thesis
      by (simp add: receipt_identity_def hash_json_def enc)
  qed
  then obtain e where e: "new_receipt p a begun target effect result now = Inl e"
    by (cases "new_receipt p a begun target effect result now") (fastforce simp: new_receipt_Inr)+
  then have "eclass e = Plain"
    using plain by (auto simp: new_receipt_def receipt_identity_def Let_def split: sum.splits)
  moreover have "apply_commit ps p a begun effect result w = (Failed e, w1)"
    using assms(2) now e
    by (simp add: apply_commit_def act_bind_def bind_requested_cases act_get_def act_sum_def act_fail_def
        target_def Let_def)
  ultimately show ?thesis by (auto simp: is_recovery_required_def)
qed

section \<open>The operator runs only under an obligation\<close>

text \<open>An operator that panics when the durable state carries no recovery obligation.\<close>

definition guarded :: "('w \<Rightarrow> control_state) \<Rightarrow> ('w, 'l) ports \<Rightarrow> ('w, 'l) ports" where
  "guarded durable ps =
     ps\<lparr>port_execute := \<lambda>op w. if s_recovery (durable w) = None then (Panicked, w) else port_execute ps op w\<rparr>"

lemma guarded_fields [simp]:
  "port_observe (guarded d ps) = port_observe ps" "port_admissible (guarded d ps) = port_admissible ps"
  "port_verify (guarded d ps) = port_verify ps" "port_classify (guarded d ps) = port_classify ps"
  "port_load (guarded d ps) = port_load ps" "port_begin (guarded d ps) = port_begin ps"
  "port_commit (guarded d ps) = port_commit ps" "port_acquire (guarded d ps) = port_acquire ps"
  "port_unlock (guarded d ps) = port_unlock ps" "port_now (guarded d ps) = port_now ps"
  by (simp_all add: guarded_def)

lemma guarded_consider [simp]: "consider_transition (guarded d ps) = consider_transition ps"
  unfolding consider_transition_def [abs_def] guarded_fields ..

lemma guarded_scan [simp]: "scan_candidates (guarded d ps) s ob rq sc ts = scan_candidates ps s ob rq sc ts"
  by (induction ts arbitrary: sc) simp_all

lemma guarded_selected [simp]: "resolve_selected (guarded d ps) = resolve_selected ps"
  unfolding resolve_selected_def [abs_def] guarded_fields ..

lemma guarded_resolve_state:
  "resolve_state (r\<lparr>run_ports := guarded d (run_ports r)\<rparr>) = resolve_state r"
proof -
  have f: "run_program (r\<lparr>run_ports := q\<rparr>) = run_program r" "run_ports (r\<lparr>run_ports := q\<rparr>) = q" for q
    by simp_all
  show ?thesis
    unfolding resolve_state_def [abs_def] Let_def f guarded_fields guarded_scan guarded_selected ..
qed

lemma guarded_commit [simp]: "apply_commit (guarded d ps) = apply_commit ps"
  by (intro ext) (simp add: apply_commit_def)

lemma guarded_effect:
  "s_recovery (d w) \<noteq> None \<Longrightarrow> apply_effect (guarded d ps) p a inst begun w = apply_effect ps p a inst begun w"
proof -
  assume "s_recovery (d w) \<noteq> None"
  then have ex: "port_execute (guarded d ps) op w = port_execute ps op w" for op
    by (auto simp: guarded_def)
  show ?thesis
    unfolding apply_effect_def act_bind_def act_wrap_def guarded_fields guarded_commit ex ..
qed

lemma guarded_begin:
  assumes "kernel_ports ps durable receipts effects"
  shows "apply_begin (guarded durable ps) p a inst w = apply_begin ps p a inst w"
proof (cases "state_validate (attempt_state p (at_state a))")
  case (Some e)
  then show ?thesis
    by (simp add: apply_begin_def Let_def act_bind_def act_wrap_def act_check_def act_fail_def)
next
  case None
  obtain x v where bg: "port_begin ps (s_revision (at_state a)) (attempt_state p (at_state a)) w = (x, v)"
    by fastforce
  have "store_port (port_load ps) (port_begin ps) (port_commit ps) durable receipts"
    using assms kernel_ports.axioms(1) by blast
  from afterD [OF store_port.begin_law [OF this] bg]
  have "x = Returned () \<Longrightarrow> durable v = attempt_state p (at_state a)"
    by blast
  then show ?thesis
    using None bg guarded_effect [of durable v ps p a inst]
    by (cases x) (simp_all add: apply_begin_def Let_def act_bind_def act_wrap_def act_check_def act_return_def)
qed

text \<open>
  C13. The operator never runs without a durable obligation: replacing the operator by one that
  panics whenever the durable state carries no recovery obligation changes nothing, whatever
  the request, the world and the other ports do. An effect is thus always preceded by the
  write that makes its interruption recoverable.
\<close>

theorem operator_runs_under_obligation:
  assumes "kernel_ports (run_ports r) durable receipts effects"
  shows "apply_transition (r\<lparr>run_ports := guarded durable (run_ports r)\<rparr>) rq w = apply_transition r rq w"
proof -
  have f: "run_program (r\<lparr>run_ports := q\<rparr>) = run_program r" "run_ports (r\<lparr>run_ports := q\<rparr>) = q" for q
    by simp_all
  have b: "apply_begin (guarded durable (run_ports r)) = apply_begin (run_ports r)"
    by (intro ext) (rule guarded_begin [OF assms])
  have l: "apply_locked (r\<lparr>run_ports := guarded durable (run_ports r)\<rparr>) rq = apply_locked r rq"
    unfolding apply_locked_def apply_resolved_def [abs_def] Let_def f guarded_fields guarded_resolve_state b ..
  show ?thesis
    unfolding apply_transition_def f guarded_fields l ..
qed

section \<open>Stale and replayed prescriptions\<close>

lemma stale_refused:
  assumes "kernel_ports (run_ports r) durable receipts effects" "compiled (run_program r)" "separated r rq"
    and "apply_transition r rq w = (res, w')"
    and "fr_revision (px_freshness (aq_prescription rq)) \<noteq> s_revision (durable w)
      \<or> fr_instance (px_freshness (aq_prescription rq)) \<noteq> s_instance (durable w)
      \<or> fr_program (px_freshness (aq_prescription rq)) \<noteq> pi_fingerprint (s_program (durable w))
      \<or> px_expected (aq_prescription rq) \<noteq> s_binding (durable w)"
  shows "refused_cleanly durable receipts effects w res w'"
  using apply_cases [OF assms(1-4)] assms(5) admitted_freshness by auto

text \<open>
  C15. A prescription is good for one revision only: if the durable state is not at the revision
  the prescription expects, or is of another instance, program or objective binding, \<open>Apply\<close>
  returns no receipt and changes neither the durable record nor the operator's part of the
  world.
\<close>

theorem stale_prescription_refused:
  assumes "kernel_ports (run_ports r) durable receipts effects" "compiled (run_program r)" "separated r rq"
    and "apply_transition r rq w = (res, w')"
    and "fr_revision (px_freshness (aq_prescription rq)) \<noteq> s_revision (durable w)
      \<or> fr_instance (px_freshness (aq_prescription rq)) \<noteq> s_instance (durable w)
      \<or> fr_program (px_freshness (aq_prescription rq)) \<noteq> pi_fingerprint (s_program (durable w))
      \<or> px_expected (aq_prescription rq) \<noteq> s_binding (durable w)"
  shows "(\<forall>rcp. res \<noteq> Returned rcp) \<and> durable w' = durable w \<and> receipts w' = receipts w \<and> effects w' = effects w"
  using stale_refused [OF assms] by (simp add: refused_cleanly_def)

text \<open>
  C14. One prescription, one effect: once an application of a prescription has changed the
  operator's part of the world or returned a receipt, applying the same prescription again,
  from any later world with that durable state, whatever the domain has become and whatever
  authority is presented, is refused without an effect.
\<close>

theorem replay_refused:
  assumes K: "kernel_ports (run_ports r) durable receipts effects" "compiled (run_program r)"
    and "separated r rq" "separated r rq'"
    and "apply_transition r rq w = (res, w')"
    and "effects w' \<noteq> effects w \<or> (\<exists>rcp. res = Returned rcp)"
    and "durable v = durable w'" "aq_prescription rq' = aq_prescription rq"
    and "apply_transition r rq' v = (res', v')"
  shows "(\<forall>rcp. res' \<noteq> Returned rcp) \<and> durable v' = durable v \<and> receipts v' = receipts v \<and> effects v' = effects v"
proof -
  obtain a where a: "admitted r rq (durable w) a"
    and l: "left_behind (run_ports r) durable receipts effects (aq_prescription rq) a
      (rq_instance (aq_resolve rq)) w res w'"
    using apply_cases [OF K assms(3,5)] assms(6) by (auto simp: refused_cleanly_def)
  have st: "at_state a = durable w"
    by (rule admitted_transition(5) [OF K(2) a])
  from l consider "durable w' = attempt_state (aq_prescription rq) (durable w)"
    | effect rcp where "commits (aq_prescription rq) a effect (durable w') rcp"
    unfolding left_behind_def st by blast
  then have "s_revision (durable w') = s_revision (durable w) + 1 \<or> s_revision (durable w') = s_revision (durable w) + 2"
  proof cases
    case 2
    then show ?thesis using commits_target(3) [OF 2] st by simp
  qed simp
  then have "s_revision (durable w) \<noteq> s_revision (durable v)"
    using u64_succ_neq [of "s_revision (durable w)"] u64_succ_succ_neq [of "s_revision (durable w)"]
    by (auto simp: assms(7))
  then have "fr_revision (px_freshness (aq_prescription rq')) \<noteq> s_revision (durable v)"
    using admitted_freshness [OF a] assms(8) by simp
  then show ?thesis
    using stale_refused [OF K assms(4,9)] by (simp add: refused_cleanly_def)
qed

section \<open>Resolve\<close>

lemma kernel_quiet:
  assumes "kernel_ports ps durable receipts effects"
  shows "quiet_ports ps (\<lambda>w. (durable w, receipts w, effects w))"
    and "store_port (port_load ps) (port_begin ps) (port_commit ps) durable receipts"
  using assms kernel_ports.axioms(1,2) by blast+

lemma resolve_keeps:
  assumes "kernel_ports (run_ports r) durable receipts effects"
  shows "keeps (\<lambda>w. (durable w, receipts w, effects w)) (resolve r rq)"
proof -
  note q = kernel_quiet(1) [OF assms]
  have l: "keeps (\<lambda>w. (durable w, receipts w)) (port_load (run_ports r) i)" for i
    by (rule store_port.load_keeps [OF kernel_quiet(2) [OF assms]])
  have "keeps effects (port_load (run_ports r) i)" for i
    by (rule kernel_ports.load_effects [OF assms])
  with l have "keeps (\<lambda>w. (durable w, receipts w, effects w)) (port_load (run_ports r) i)" for i
    by (simp add: keeps_def)
  then show ?thesis
    unfolding resolve_def
    by (intro keeps_bind quiet_ports.observe_quiet [OF q] quiet_ports.resolve_state_quiet [OF q refl])
qed

lemma resolve_prescribes:
  assumes K: "kernel_ports (run_ports r) durable receipts effects" and C: "compiled (run_program r)"
    and run: "resolve r rq w = (Returned rs, w')" and q: "rs_prescription rs = Some q"
  shows "rs_state rs = durable w \<and> d_kind (rs_decision rs) = Prescribed
    \<and> (\<exists>t\<in>set (p_transitions (run_program r)). t_id t = px_transition q \<and> t_id t = d_transition (rs_decision rs)
         \<and> s_mode (durable w) \<in> set (t_sources t) \<and> recovery_compatible (durable w) t
         \<and> (rq_requested rq = [] \<or> rq_requested rq = t_id t)
         \<and> required_capabilities (port_classify (run_ports r)) t = Inr (px_required q)
         \<and> (\<exists>obj reason v v'. port_admissible (run_ports r)
               \<lparr>ev_state = durable w, ev_observation = rs_observation rs, ev_objective = obj, ev_transition = t\<rparr> v
               = (Returned (True, reason), v')))
    \<and> (\<exists>auth now. authority_project (rq_authority rq) now = Inr auth
         \<and> set (px_required q) \<subseteq> set (ap_capabilities auth)
         \<and> validate_current q (durable w) (rs_observation rs) auth = None)"
proof -
  obtain s w1 ob w2 where ld: "port_load (run_ports r) (rq_instance rq) w = (Returned s, w1)"
    and st: "resolve_state r s ob rq w2 = (Returned rs, w')"
    using run by (auto simp: resolve_def act_bind_def split: prod.splits outcome.splits)
  have s: "s = durable w"
    by (rule store_port.load_returns [OF kernel_quiet(2) [OF K] ld])
  have "\<forall>rs'. Returned rs = Returned rs' \<longrightarrow> rs_state rs' = s \<and> rs_observation rs' = ob
        \<and> (\<forall>q. rs_prescription rs' = Some q \<longrightarrow> d_kind (rs_decision rs') = Prescribed
            \<and> early_decision (run_program r) s ob rq = None
            \<and> (\<exists>auth now t req. authority_project (rq_authority rq) now = Inr auth
                 \<and> d_transition (rs_decision rs') = t_id t \<and> prescribable r s ob rq auth t req q))"
    by (rule afterD [OF resolve_state_after [OF C] st])
  then obtain auth now t req where rs: "rs_state rs = s" "rs_observation rs = ob"
    "d_kind (rs_decision rs) = Prescribed"
    "authority_project (rq_authority rq) now = Inr auth" "d_transition (rs_decision rs) = t_id t"
    and pres: "prescribable r s ob rq auth t req q"
    using q by blast
  obtain obj reason v v' where p: "t \<in> set (p_transitions (run_program r))" "s_mode s \<in> set (t_sources t)"
    "recovery_compatible s t" "rq_requested rq = [] \<or> t_id t = rq_requested rq"
    "required_capabilities (port_classify (run_ports r)) t = Inr req" "set req \<subseteq> set (ap_capabilities auth)"
    "port_admissible (run_ports r) \<lparr>ev_state = s, ev_observation = ob, ev_objective = obj, ev_transition = t\<rparr> v
       = (Returned (True, reason), v')"
    and i: "issued s ob t obj auth req q"
    using pres unfolding prescribable_def by blast
  have px: "px_transition q = t_id t" "px_required q = req" "validate_current q s ob auth = None"
    using i issued_current by (auto simp: issued_def)
  show ?thesis
    using rs p px unfolding s by (metis (no_types, lifting))
qed

text \<open>
  C25. \<open>Resolve\<close> is a pure reading: whatever it ends with (a resolution of any decision, an
  error, a panic or a halt of a port), it has changed neither the durable state nor the
  receipts nor the operator's part of the world. When it returns a resolution that carries a
  prescription, the prescription is current for the state and the observation it reports and
  for the authority it was shown; its transition is in the program, applicable in the current
  mode, compatible with the recovery obligation, admitted by the domain, as requested when a
  transition was requested, and covered by the authority.
\<close>

theorem resolve_reads_only_and_soundly:
  assumes K: "kernel_ports (run_ports r) durable receipts effects" and C: "compiled (run_program r)"
    and run: "resolve r rq w = (res, w')"
  shows "durable w' = durable w \<and> receipts w' = receipts w \<and> effects w' = effects w
    \<and> (\<forall>rs q. res = Returned rs \<longrightarrow> rs_prescription rs = Some q \<longrightarrow>
         rs_state rs = durable w \<and> d_kind (rs_decision rs) = Prescribed
         \<and> (\<exists>t\<in>set (p_transitions (run_program r)). t_id t = px_transition q \<and> t_id t = d_transition (rs_decision rs)
              \<and> s_mode (durable w) \<in> set (t_sources t) \<and> recovery_compatible (durable w) t
              \<and> (rq_requested rq = [] \<or> rq_requested rq = t_id t)
              \<and> required_capabilities (port_classify (run_ports r)) t = Inr (px_required q)
              \<and> (\<exists>obj reason v v'. port_admissible (run_ports r)
                    \<lparr>ev_state = durable w, ev_observation = rs_observation rs, ev_objective = obj, ev_transition = t\<rparr> v
                    = (Returned (True, reason), v')))
         \<and> (\<exists>auth now. authority_project (rq_authority rq) now = Inr auth
              \<and> set (px_required q) \<subseteq> set (ap_capabilities auth)
              \<and> validate_current q (durable w) (rs_observation rs) auth = None))"
proof (intro conjI allI impI)
  show "durable w' = durable w" "receipts w' = receipts w" "effects w' = effects w"
    using keepsD [OF resolve_keeps [OF K] run] by simp_all
qed (use resolve_prescribes [OF K C] run in blast)+

text \<open>The trace is not an input of the resolution.\<close>

definition without_trace :: "resolution \<Rightarrow> resolution" where
  "without_trace rs = rs\<lparr>rs_trace := None\<rparr>"

lemma request_trace_fields:
  "rq_instance (rq\<lparr>rq_trace := b\<rparr>) = rq_instance rq" "rq_objective (rq\<lparr>rq_trace := b\<rparr>) = rq_objective rq"
  "rq_authority (rq\<lparr>rq_trace := b\<rparr>) = rq_authority rq" "rq_requested (rq\<lparr>rq_trace := b\<rparr>) = rq_requested rq"
  by simp_all

lemma screen_trace [simp]: "screen_candidate s (rq\<lparr>rq_trace := b\<rparr>) t = screen_candidate s rq t"
  unfolding screen_candidate_def request_trace_fields ..

lemma consider_trace [simp]: "consider_transition ps s ob (rq\<lparr>rq_trace := b\<rparr>) t = consider_transition ps s ob rq t"
  unfolding consider_transition_def screen_trace ..

lemma scan_trace [simp]: "scan_candidates ps s ob (rq\<lparr>rq_trace := b\<rparr>) sc ts = scan_candidates ps s ob rq sc ts"
  by (induction ts arbitrary: sc) simp_all

lemma early_trace [simp]: "early_decision p s ob (rq\<lparr>rq_trace := b\<rparr>) = early_decision p s ob rq"
  unfolding early_decision_def request_trace_fields ..

lemma resolution_trace: "without_trace (resolution_of s ob rq trace d p) = without_trace (resolution_of s ob rq' trace' d p)"
  by (simp add: without_trace_def resolution_of_def)

definition map_act :: "('a \<Rightarrow> 'b) \<Rightarrow> ('w, 'a) act \<Rightarrow> ('w, 'b) act" where
  "map_act f m = act_bind m (\<lambda>x. act_return (f x))"

lemma map_act_simps:
  "map_act f (act_return x) = act_return (f x)" "map_act f (act_fail e) = act_fail e"
  "map_act f (act_bind m k) = act_bind m (\<lambda>x. map_act f (k x))"
  by (auto simp: map_act_def act_bind_def act_return_def act_fail_def fun_eq_iff split: outcome.splits prod.splits)

lemma selected_trace:
  "map_act without_trace (resolve_selected ps s ob (rq\<lparr>rq_trace := b\<rparr>) auth trace sc)
     = map_act without_trace (resolve_selected ps s ob rq auth trace' sc)"
  by (simp add: resolve_selected_def Let_def map_act_simps split_beta)
     (simp add: without_trace_def resolution_of_def)

lemma resolve_state_trace:
  "map_act without_trace (resolve_state r s ob (rq\<lparr>rq_trace := b\<rparr>)) = map_act without_trace (resolve_state r s ob rq)"
proof (cases "early_decision (run_program r) s ob rq")
  case (Some d)
  then show ?thesis
    by (simp add: resolve_state_def Let_def map_act_simps) (simp add: without_trace_def resolution_of_def)
next
  case None
  have step: "map_act without_trace (case x of Inl e \<Rightarrow> act_return (resolution_of s ob (rq\<lparr>rq_trace := b\<rparr>) t (d e) None)
          | Inr a \<Rightarrow> act_bind m (resolve_selected ps s ob (rq\<lparr>rq_trace := b\<rparr>) a (t1 a)))
      = map_act without_trace (case x of Inl e \<Rightarrow> act_return (resolution_of s ob rq t' (d e) None)
          | Inr a \<Rightarrow> act_bind m (resolve_selected ps s ob rq a (t2 a)))"
    for x :: "gerror + authority_projection" and t t' d m t1 t2 and ps :: "('a, 'b) ports"
  proof -
    have "map_act without_trace (resolve_selected ps s ob (rq\<lparr>rq_trace := b\<rparr>) a (t1 a) sc)
        = map_act without_trace (resolve_selected ps s ob rq a (t2 a) sc)" for a sc
      by (rule selected_trace)
    then show ?thesis
      by (cases x) (simp_all add: map_act_simps without_trace_def resolution_of_def)
  qed
  show ?thesis
    unfolding resolve_state_def Let_def request_trace_fields early_trace None option.case map_act_simps scan_trace
    by (intro arg_cong2 [where f = act_bind] refl ext) (rule fun_cong [OF step])
qed

text \<open>
  C33. Asking for a trace does not steer the resolution: with and without the trace, \<open>Resolve\<close>
  calls the same ports with the same results, leaves the same world, and returns the same
  state, observation, decision and prescription, or the same error.
\<close>

theorem trace_never_steers:
  "map_act without_trace (resolve r (rq\<lparr>rq_trace := b\<rparr>)) w = map_act without_trace (resolve r rq) w"
  by (simp add: resolve_def map_act_simps resolve_state_trace)

end
