(* ===== verification/Kernel_History.thy ===== *)
theory Kernel_History
  imports Kernel_Safety
begin

text \<open>
  Histories of a control instance: any sequence of applications, each with its own request and
  outcome (crashes included), interleaved with changes outside the durable record. The
  invariant of the state and its receipts, the recoverability of interrupted attempts, and what
  happens where the 64-bit revision ends.
\<close>

section \<open>Histories\<close>

text \<open>
  \<open>separated\<close> excludes SHA-256 collisions between prescriptions, and the bound leaves room for the
  two revisions of one application.
\<close>

inductive history ::
    "('w, 'l) runtime \<Rightarrow> ('w \<Rightarrow> control_state) \<Rightarrow> ('w \<Rightarrow> receipt list) \<Rightarrow> 'w \<Rightarrow> 'w \<Rightarrow> bool"
  for r durable receipts where
  start: "history r durable receipts w w"
| elsewhere: "history r durable receipts w v \<Longrightarrow> durable v' = durable v \<Longrightarrow> receipts v' = receipts v
     \<Longrightarrow> history r durable receipts w v'"
| application: "history r durable receipts w v \<Longrightarrow> separated r rq
     \<Longrightarrow> uint (s_revision (durable v)) + 2 < 2 ^ 64 \<Longrightarrow> apply_transition r rq v = (res, v')
     \<Longrightarrow> history r durable receipts w v'"

text \<open>
  The invariant: the state validates, every receipt validates, is of this instance and program
  and spans two revisions, and the receipts cover disjoint spans of revisions in order, up to the
  current one. So no two receipts were committed from the same state.
\<close>

definition ledger_ok :: "control_state \<Rightarrow> receipt list \<Rightarrow> bool" where
  "ledger_ok s rs \<longleftrightarrow>
     state_validate s = None
     \<and> (\<forall>rcp\<in>set rs. receipt_validate rcp = None \<and> rcp_instance rcp = s_instance s
          \<and> rcp_program rcp = s_program s
          \<and> uint (rcp_result_revision rcp) = uint (rcp_prior_revision rcp) + 2
          \<and> uint (rcp_result_revision rcp) \<le> uint (s_revision s))
     \<and> sorted_wrt (\<lambda>x y. uint (rcp_result_revision x) \<le> uint (rcp_prior_revision y)) rs"

lemma ledger_attempt:
  assumes "ledger_ok s rs" "uint (s_revision s) + 2 < 2 ^ 64" "state_validate (attempt_state p s) = None"
  shows "ledger_ok (attempt_state p s) rs"
  using assms u64_add_small(1) [OF assms(2)] by (fastforce simp: ledger_ok_def)

lemma commits_valid:
  assumes "commits p a effect target rcp" "state_validate (attempt_state p (at_state a)) = None"
    and "transition_validate (at_transition a) = None" "s_revision (at_state a) + 2 \<noteq> 0"
  shows "state_validate target = None"
proof -
  obtain requested where b: "t_mutation (at_transition a) = Bind_objective \<longrightarrow>
      (\<exists>ob b. at_objective a = Some ob \<and> bind_objective ob = Inr b \<and> requested = Some b)"
    and t: "target = target_state (at_transition a) requested (attempt_state p (at_state a))"
    using assms(1) unfolding commits_def by blast
  show ?thesis
    unfolding t by (rule target_state_valid [OF assms(2) transition_valid_target [OF assms(3)]])
      (use assms(4) b bind_objective_valid in \<open>auto simp: add.commute\<close>)
qed

lemma ledger_commit:
  assumes l: "ledger_ok s rs" and room: "uint (s_revision s) + 2 < 2 ^ 64"
    and v: "state_validate target = None" and c: "commits p a effect target rcp" and s: "at_state a = s"
  shows "ledger_ok target (rs @ [rcp])"
proof -
  note f = commits_target [OF c]
  have r: "uint (s_revision target) = uint (s_revision s) + 2"
    using u64_add_small(2) [OF room] f(3) s by simp
  have "receipt_validate rcp = None" "rcp_instance rcp = s_instance target" "rcp_program rcp = s_program target"
    "uint (rcp_result_revision rcp) = uint (s_revision target)"
    "uint (rcp_prior_revision rcp) = uint (s_revision s)"
    using f(4-17) s by simp_all
  moreover have "s_instance target = s_instance s" "s_program target = s_program s"
    using f(4,5) s by simp_all
  ultimately show ?thesis
    using l v r unfolding ledger_ok_def by (auto simp: sorted_wrt_append)
qed

lemma apply_ledger:
  assumes K: "kernel_ports (run_ports r) durable receipts effects" "compiled (run_program r)"
    and "separated r rq" "uint (s_revision (durable w)) + 2 < 2 ^ 64"
    and "apply_transition r rq w = (res, w')" and l: "ledger_ok (durable w) (receipts w)"
  shows "ledger_ok (durable w') (receipts w') \<and> (\<exists>new. receipts w' = receipts w @ new)
    \<and> s_instance (durable w') = s_instance (durable w) \<and> s_program (durable w') = s_program (durable w)"
  using apply_cases [OF K assms(3,5)]
proof
  assume "\<exists>a. admitted r rq (durable w) a \<and> left_behind (run_ports r) durable receipts effects
      (aq_prescription rq) a (rq_instance (aq_resolve rq)) w res w'"
  then obtain a where a: "admitted r rq (durable w) a"
    and b: "left_behind (run_ports r) durable receipts effects (aq_prescription rq) a
      (rq_instance (aq_resolve rq)) w res w'" by blast
  have st: "at_state a = durable w" and tv: "transition_validate (at_transition a) = None"
    using admitted_transition(5,10) [OF K(2) a] by blast+
  have av: "state_validate (attempt_state (aq_prescription rq) (durable w)) = None"
    using b st by (simp add: left_behind_def)
  from b consider "durable w' = attempt_state (aq_prescription rq) (durable w)" "receipts w' = receipts w"
    | effect rcp where "commits (aq_prescription rq) a effect (durable w') rcp" "receipts w' = receipts w @ [rcp]"
    unfolding left_behind_def st by blast
  then show ?thesis
  proof cases
    case 1
    then show ?thesis using ledger_attempt [OF l assms(4) av] by simp
  next
    case 2
    have "uint (s_revision (durable w) + 2) \<noteq> 0"
      using u64_add_small(2) [OF assms(4)] uint_ge_0 [of "s_revision (durable w)"] by linarith
    then have "state_validate (durable w') = None"
      using commits_valid [OF 2(1)] av tv st by (simp add: u64_nonzero)
    then show ?thesis
      using ledger_commit [OF l assms(4) _ 2(1) st] commits_target(4,5) [OF 2(1)] 2(2) st by simp
  qed
qed (use l in \<open>auto simp: refused_cleanly_def\<close>)

text \<open>
  C26. The record of an instance stays exact over every history, whatever fails or crashes in
  it: the state stays valid, of the same instance and program; receipts are only appended; all
  of them are valid; and they cover disjoint spans of two revisions each, in order, so that no
  state was left twice by a committed transition.
\<close>

theorem history_ledger:
  assumes "kernel_ports (run_ports r) durable receipts effects" "compiled (run_program r)"
    and "history r durable receipts w v" and "ledger_ok (durable w) (receipts w)"
  shows "ledger_ok (durable v) (receipts v) \<and> (\<exists>new. receipts v = receipts w @ new)
    \<and> s_instance (durable v) = s_instance (durable w) \<and> s_program (durable v) = s_program (durable w)"
  using assms(3,4)
proof (induction rule: history.induct)
  case (application w v rq res v')
  then show ?case
    using apply_ledger [OF assms(1,2) application.hyps(2,3,4)] by auto
qed simp_all

section \<open>Interrupted attempts are recoverable\<close>

lemma compiled_recovery_preserves:
  assumes "compiled p" "x \<in> set (p_transitions p)" "t_recovers x \<noteq> []"
  shows "t_scope x \<noteq> Objective_bound_exact" "t_mutation x = Preserve_objective"
proof -
  have ok: "prepare_ok p" and idem: "prepared p = p"
    using assms(1) program_validate_prepare_ok by (simp_all add: compiled_def)
  then have ts: "prepared_transitions p = p_transitions p"
    by (metis prepared_fields(8))
  have "recovery_error (index_of (p_transitions p)) x = None"
    using ok assms(2) by (simp add: prepare_ok_def Let_def ts)
  then show "t_scope x \<noteq> Objective_bound_exact" "t_mutation x = Preserve_objective"
    using recovery_error_None [OF prepare_ok_distinct [OF ok]] assms(3) by blast+
qed

lemma transition_valid_scope: "transition_validate t = None \<Longrightarrow> scope_valid (t_scope t)"
  by (auto simp: transition_validate_None_iff transition_incomplete_def)

text \<open>
  C27. An interrupted attempt can always be recovered from: once an admissible transition was
  begun, some recovery transition of the program passes every check of the resolution that does
  not belong to the domain or to authority, for any request that does not name another
  transition and whatever objective it carries; and under the obligation only recovery
  transitions pass.
\<close>

theorem interrupted_attempt_recoverable:
  assumes C: "compiled p" and t: "t \<in> set (p_transitions p)" "s_mode s \<in> set (t_sources t)"
    "recovery_compatible s t" and q: "px_transition q = t_id t"
  shows "(\<exists>x\<in>set (p_transitions p). t_recovers x \<noteq> [] \<and>
        (\<forall>rq. rq_requested rq = [] \<or> rq_requested rq = t_id x \<longrightarrow>
          (\<exists>ct obj. screen_candidate (attempt_state q s) rq x = Inr (ct, obj))))
    \<and> (\<forall>x rq ct obj. screen_candidate (attempt_state q s) rq x = Inr (ct, obj) \<longrightarrow> t_recovers x \<noteq> [])"
proof -
  have ok: "prepare_ok p"
    using C program_validate_prepare_ok by (simp add: compiled_def)
  have pass: "\<exists>ct obj. screen_candidate (attempt_state q s) rq x = Inr (ct, obj)"
    if x: "x \<in> set (p_transitions p)" "t_recovers x \<noteq> []" "s_mode s \<in> set (t_sources x)"
      "recovery_compatible (attempt_state q s) x" and rq: "rq_requested rq = [] \<or> rq_requested rq = t_id x" for x rq
  proof -
    have "snd (objective_for (attempt_state q s) (rq_objective rq) x) = []"
      using compiled_recovery_preserves [OF C x(1,2)] compiled_transition_valid(1) [OF C x(1)]
      by (intro objective_for_preserving) (auto intro: transition_valid_scope)
    then obtain obj where "objective_for (attempt_state q s) (rq_objective rq) x = (obj, [])"
      by (metis prod.collapse)
    then show ?thesis
      using screen_candidate_Inr [of "attempt_state q s" rq x obj] x rq by auto
  qed
  have "\<exists>x\<in>set (p_transitions p). t_recovers x \<noteq> [] \<and> s_mode s \<in> set (t_sources x)
      \<and> recovery_compatible (attempt_state q s) x"
  proof (cases "s_recovery s")
    case None
    then have "t_recovers t = []"
      using t(3) by (simp add: recovery_compatible_def)
    then obtain x where "x \<in> set (p_transitions p)" "t_id t \<in> set (t_recovers x)"
      "set (t_sources t) \<subseteq> set (t_sources x)"
      using prepare_ok_recoverable [OF ok t(1)] by blast
    then show ?thesis
      using None t(2) q by (intro bexI [of _ x]) (auto simp: recovery_compatible_def)
  next
    case (Some old)
    then show ?thesis
      using t by (intro bexI [of _ t]) (auto simp: recovery_compatible_def)
  qed
  moreover have "t_recovers x \<noteq> []" if "screen_candidate (attempt_state q s) rq x = Inr (ct, obj)" for x rq ct obj
  proof -
    have "recovery_compatible (attempt_state q s) x"
      using screen_candidate_Inr that by metis
    moreover obtain o' where "s_recovery (attempt_state q s) = Some o'"
      using attempt_state_simps(6) by blast
    ultimately show ?thesis by (auto simp: recovery_compatible_def)
  qed
  ultimately show ?thesis using pass by blast
qed

section \<open>The end of the revisions\<close>

text \<open>
  At the last revision an attempt is refused: its state would have revision 0. One revision
  earlier the attempt is still valid, and the commit writes a state of revision 0, which no
  longer validates.
\<close>

lemma last_revision_refused:
  assumes "kernel_ports (run_ports r) durable receipts effects" "compiled (run_program r)" "separated r rq"
    and "apply_transition r rq w = (res, w')" and "s_revision (durable w) = - 1"
  shows "refused_cleanly durable receipts effects w res w'"
proof -
  have "state_validate (attempt_state (aq_prescription rq) (durable w)) \<noteq> None"
    using assms(5) by (simp add: state_validate_None_iff)
  then show ?thesis
    using apply_cases [OF assms(1-4)] admitted_transition(5) [OF assms(2)]
    by (auto simp: left_behind_def)
qed

text \<open>
  C40. The revision counter bounds the life of an instance. From the last revision, 2^64 - 1,
  nothing can be applied: whatever is presented, no receipt is returned and durable state,
  receipts and the operator's part of the world stay as they are. A transition committed from
  revision 2^64 - 2 leaves a state of revision 0, which does not validate, so that every later
  resolution is Unresolved.
\<close>

theorem revision_exhaustion:
  assumes K: "kernel_ports (run_ports r) durable receipts effects" and C: "compiled (run_program r)"
    and S: "separated r rq" and run: "apply_transition r rq w = (res, w')"
  shows "(s_revision (durable w) = - 1 \<longrightarrow>
           (\<forall>rcp. res \<noteq> Returned rcp) \<and> durable w' = durable w \<and> receipts w' = receipts w \<and> effects w' = effects w)
    \<and> (s_revision (durable w) = - 2 \<longrightarrow> (\<forall>rcp. res = Returned rcp \<longrightarrow>
           s_revision (durable w') = 0 \<and> state_validate (durable w') \<noteq> None
           \<and> (\<forall>ob rq'. \<exists>reason. early_decision (run_program r) (durable w') ob rq'
                = Some (plain_decision Unresolved reason))))"
proof -
  have "s_revision (durable w') = s_revision (durable w) + 2" if ret: "res = Returned rcp" for rcp
  proof -
    have "apply_transition r rq w = (Returned rcp, w')"
      using run ret by simp
    then obtain a where a: "admitted r rq (durable w) a"
      and l: "left_behind (run_ports r) durable receipts effects (aq_prescription rq) a
        (rq_instance (aq_resolve rq)) w (Returned rcp) w'"
      using apply_cases [OF K C S] by (fastforce simp: refused_cleanly_def)
    obtain effect where c: "commits (aq_prescription rq) a effect (durable w') rcp"
      using l by (auto simp: left_behind_def)
    show ?thesis
      using commits_target(3) [OF c] admitted_transition(5) [OF C a] by simp
  qed
  moreover have "\<exists>reason. early_decision (run_program r) s ob rq' = Some (plain_decision Unresolved reason)"
    if "state_validate s \<noteq> None" for s ob rq'
    using that by (auto simp: early_decision_def split: option.splits)
  ultimately show ?thesis
    using last_revision_refused [OF K C S run] by (auto simp: state_validate_None_iff refused_cleanly_def)
qed

end
