(* ===== verification/Go_Decode.thy ===== *)
theory Go_Decode
  imports Go_Json
begin

text \<open>
  \<open>json.Unmarshal\<close> into a struct with one field of type \<open>int\<close>, as the reference domain uses it:
  the text must be valid; the tree is then read from it; members whose key equals the field name
  up to letter case are decoded in order, \<open>null\<close> leaves the field, an integer literal of 64 bits
  sets it, and the first type error is returned at the end.
\<close>

section \<open>Reading a tree\<close>

datatype jtree = TNull | TBool bool | TNumber string | TString string
  | TArray "jtree list" | TObject "(string \<times> jtree) list"

fun skip_space :: "string \<Rightarrow> string" where
  "skip_space [] = []"
| "skip_space (c # cs) = (if json_space c then skip_space cs else c # cs)"

text \<open>The raw contents of a string literal, from after its opening quote, and what follows it.\<close>

fun take_literal :: "string \<Rightarrow> string \<times> string" where
  "take_literal [] = ([], [])"
| "take_literal (c # cs) =
     (if c = CHR 0x22 then ([], cs)
      else if c = backslash then
        (case cs of [] \<Rightarrow> ([c], [])
         | d # ds \<Rightarrow> (let (raw, rest) = take_literal ds in (c # d # raw, rest)))
      else (let (raw, rest) = take_literal cs in (c # raw, rest)))"

definition hex_value :: "char \<Rightarrow> nat" where
  "hex_value c = (if digit_char c then code c - 48 else if upper_char c then code c - 55 else code c - 87)"

definition utf8_encode :: "nat \<Rightarrow> string" where
  "utf8_encode n =
     (if n < 128 then [char_of n]
      else if n < 2048 then [char_of (192 + n div 64), char_of (128 + n mod 64)]
      else if n < 65536 then [char_of (224 + n div 4096), char_of (128 + n div 64 mod 64), char_of (128 + n mod 64)]
      else [char_of (240 + n div 262144), char_of (128 + n div 4096 mod 64),
            char_of (128 + n div 64 mod 64), char_of (128 + n mod 64)])"

definition hex4 :: "string \<Rightarrow> nat option" where
  "hex4 s = (if 4 \<le> length s \<and> list_all hex_char (take 4 s)
     then Some (foldl (\<lambda>acc c. 16 * acc + hex_value c) 0 (take 4 s)) else None)"

definition simple_escape :: "char \<Rightarrow> string" where
  "simple_escape c =
     (if c = CHR ''b'' then [char_of (8 :: nat)] else if c = CHR ''f'' then [char_of (12 :: nat)]
      else if c = CHR ''n'' then [char_of (10 :: nat)] else if c = CHR ''r'' then [char_of (13 :: nat)]
      else if c = CHR ''t'' then [char_of (9 :: nat)] else [c])"

text \<open>
  \<open>unquote\<close>: escapes are resolved, surrogate pairs joined, lone surrogates replaced. Bytes that
  are not UTF-8 are kept; no comparison of the program can tell.
\<close>

function unquote :: "string \<Rightarrow> string" where
  "unquote [] = []"
| "unquote (c # cs) =
     (if c \<noteq> backslash then c # unquote cs
      else case cs of [] \<Rightarrow> []
      | d # ds \<Rightarrow>
          if d \<noteq> CHR ''u'' then simple_escape d @ unquote ds
          else case hex4 ds of None \<Rightarrow> unquote ds
          | Some hi \<Rightarrow>
              (let rest = drop 4 ds;
                   lo = (if take 2 rest = [backslash, CHR ''u''] then hex4 (drop 2 rest) else None)
               in if 55296 \<le> hi \<and> hi < 57344
                  then (case lo of
                      Some l \<Rightarrow>
                        if hi < 56320 \<and> 56320 \<le> l \<and> l < 57344
                        then utf8_encode (65536 + (hi - 55296) * 1024 + (l - 56320)) @ unquote (drop 6 rest)
                        else utf8_encode 65533 @ unquote rest
                    | None \<Rightarrow> utf8_encode 65533 @ unquote rest)
                  else utf8_encode hi @ unquote rest))"
  by pat_completeness auto
termination
  by (relation "measure length") auto

definition number_char :: "char \<Rightarrow> bool" where
  "number_char c = (digit_char c \<or> c \<in> {CHR ''-'', CHR ''+'', CHR ''.'', CHR ''e'', CHR ''E''})"

text \<open>
  The readers recurse on text their callers consume; the fuel bounds the depth, and a text that
  is valid JSON is never deeper than it is long.
\<close>

fun parse_value :: "nat \<Rightarrow> string \<Rightarrow> (jtree \<times> string) option"
  and parse_elems :: "nat \<Rightarrow> string \<Rightarrow> (jtree list \<times> string) option"
  and parse_members :: "nat \<Rightarrow> string \<Rightarrow> ((string \<times> jtree) list \<times> string) option" where
  "parse_value 0 s = None"
| "parse_value (Suc n) s =
     (case skip_space s of [] \<Rightarrow> None
      | c # cs \<Rightarrow>
          if c = CHR 0x22 then (let (raw, rest) = take_literal cs in Some (TString (unquote raw), rest))
          else if c = CHR ''{'' then
            (if take 1 (skip_space cs) = ''}'' then Some (TObject [], drop 1 (skip_space cs))
             else map_option (\<lambda>(ms, rest). (TObject ms, rest)) (parse_members n cs))
          else if c = CHR ''['' then
            (if take 1 (skip_space cs) = '']'' then Some (TArray [], drop 1 (skip_space cs))
             else map_option (\<lambda>(es, rest). (TArray es, rest)) (parse_elems n cs))
          else if c = CHR ''t'' then Some (TBool True, drop 3 cs)
          else if c = CHR ''f'' then Some (TBool False, drop 4 cs)
          else if c = CHR ''n'' then Some (TNull, drop 3 cs)
          else Some (TNumber (takeWhile number_char (c # cs)), dropWhile number_char (c # cs)))"
| "parse_elems 0 s = None"
| "parse_elems (Suc n) s =
     (case parse_value n s of None \<Rightarrow> None
      | Some (v, rest) \<Rightarrow>
          (case skip_space rest of [] \<Rightarrow> None
           | c # cs \<Rightarrow>
               if c = CHR '']'' then Some ([v], cs)
               else map_option (\<lambda>(vs, r). (v # vs, r)) (parse_elems n cs)))"
| "parse_members 0 s = None"
| "parse_members (Suc n) s =
     (let (key, rest) = take_literal (drop 1 (skip_space s)) in
      case parse_value n (drop 1 (skip_space rest)) of None \<Rightarrow> None
      | Some (v, rest) \<Rightarrow>
          (case skip_space rest of [] \<Rightarrow> None
           | c # cs \<Rightarrow>
               if c = CHR ''}'' then Some ([(unquote key, v)], cs)
               else map_option (\<lambda>(ms, r). ((unquote key, v) # ms, r)) (parse_members n cs)))"

definition json_tree :: "string \<Rightarrow> jtree option" where
  "json_tree s = (if json_valid s then map_option fst (parse_value (2 * length s + 2) s) else None)"

section \<open>Decoding one integer field\<close>

definition lower :: "char \<Rightarrow> char" where
  "lower c = (if upper_char c then char_of (code c + 32) else c)"

text \<open>\<open>strconv.ParseInt\<close> in base 10 and 64 bits.\<close>

definition parse_int64 :: "string \<Rightarrow> 64 word option" where
  "parse_int64 s =
     (let negative = (take 1 s = ''-''); ds = (if negative then drop 1 s else s);
          v = (if negative then - int (digits_value ds) else int (digits_value ds))
      in if ds = [] \<or> \<not> list_all digit_char ds \<or> v < - (2 ^ 63) \<or> 2 ^ 63 \<le> v then None
         else Some (word_of_int v))"

definition type_error :: gerror where
  "type_error = errorf [Lit ''json: cannot unmarshal into Go struct field of type int'']"

definition decode_member ::
    "string \<Rightarrow> string \<times> jtree \<Rightarrow> 64 word \<times> gerror option \<Rightarrow> 64 word \<times> gerror option" where
  "decode_member name m acc =
     (let (key, t) = m; (v, err) = acc; failed = (v, if err = None then Some type_error else err) in
      if map lower key \<noteq> map lower name then acc
      else case t of TNull \<Rightarrow> acc
      | TNumber s \<Rightarrow> (case parse_int64 s of Some x \<Rightarrow> (x, err) | None \<Rightarrow> failed)
      | _ \<Rightarrow> failed)"

definition unmarshal_int_field :: "string \<Rightarrow> string \<Rightarrow> gerror + 64 word" where
  "unmarshal_int_field name text =
     (case json_tree text of
        None \<Rightarrow> Inl (errorf [Lit ''invalid JSON''])
      | Some TNull \<Rightarrow> Inr 0
      | Some (TObject ms) \<Rightarrow>
          (let (v, err) = fold (decode_member name) ms (0, None) in
           case err of Some e \<Rightarrow> Inl e | None \<Rightarrow> Inr v)
      | Some _ \<Rightarrow> Inl type_error)"

section \<open>Integer documents\<close>

text \<open>The text of an object with one integer field: it is valid, compact, and reads back.\<close>

definition int_field_text :: "string \<Rightarrow> int \<Rightarrow> string" where
  "int_field_text name v = ''{'' @ [CHR 0x22] @ name @ [CHR 0x22] @ '':'' @ decimal_int v @ ''}''"

lemma code_inject: "code c = code d \<longleftrightarrow> c = d"
  by (simp add: code_def)

lemma nonzero_digit_code: "nonzero_digit c \<longleftrightarrow> 49 \<le> code c \<and> code c \<le> 57"
proof -
  have "c = CHR ''0'' \<longleftrightarrow> code c = 48"
    using code_inject [of c "CHR ''0''"] by (simp add: code_def)
  then show ?thesis
    by (auto simp: nonzero_digit_def digit_char_def)
qed

lemma decimal_nat_head: "0 < n \<Longrightarrow> nonzero_digit (hd (decimal_nat n))"
proof (induction n rule: decimal_nat.induct)
  case (1 n)
  show ?case
  proof (cases "n < 10")
    case True
    then show ?thesis
      using 1 by (simp add: decimal_nat.simps [of n] nonzero_digit_code code_def)
  next
    case False
    then show ?thesis
      using 1 by (subst decimal_nat.simps) simp
  qed
qed

lemma digit_not_separator: "digit_char c \<Longrightarrow> \<not> line_separator (take 3 (c # cs))"
  by (auto simp: line_separator_def digit_char_def code_def)

lemma digit_plain: "digit_char c \<Longrightarrow> c \<notin> {CHR ''<'', CHR ''>'', CHR ''&''}"
  by (auto simp: digit_char_def code_def)

lemma compact_step:
  assumes "scan_step s c = (Scan_continue, s')" "code c < 128" "c \<notin> {CHR ''<'', CHR ''>'', CHR ''&''}"
  shows "compact_run s (c # cs) = (c # fst (compact_run s' cs), snd (compact_run s' cs))"
  using assms by (auto simp: split_beta Let_def line_separator_def code_def)

lemma compact_digits:
  "list_all digit_char ds \<Longrightarrow>
     compact_run (Num1, st) (ds @ rest) = (let (out, s) = compact_run (Num1, st) rest in (ds @ out, s))"
proof (induction ds)
  case (Cons d ds)
  then have "digit_char d" "list_all digit_char ds" by simp_all
  then show ?case
    using Cons.IH digit_not_separator [of d "ds @ rest"] digit_plain [of d]
    by (simp add: split_beta Let_def)
qed (simp add: split_beta)

lemma scan_digits: "list_all digit_char ds \<Longrightarrow> scan_run (Num1, st) (ds @ rest) = scan_run (Num1, st) rest"
  by (induction ds) auto

lemma compact_decimal:
  "compact_run (Begin_value, [Object_value]) (decimal_int v @ ''}'') = (decimal_int v @ ''}'', (End_top, []))"
proof -
  have stop: "compact_run (Num1, [Object_value]) ''}'' = (''}'', (End_top, []))"
    "compact_run (Num0, [Object_value]) ''}'' = (''}'', (End_top, []))"
    by code_simp+
  have pos: "compact_run (st, [Object_value]) (decimal_nat n @ ''}'') = (decimal_nat n @ ''}'', (End_top, []))"
    if n: "0 < n" and st: "st = Begin_value \<or> st = Neg" for n st
  proof -
    obtain d ds where d: "decimal_nat n = d # ds"
      by (cases "decimal_nat n") simp_all
    then have nz: "nonzero_digit d" and ds: "digit_char d" "list_all digit_char ds"
      using decimal_nat_head [OF n] decimal_nat_digits [of n] by simp_all
    have "\<not> json_space d" "d \<noteq> CHR ''{''" "d \<noteq> CHR ''[''" "d \<noteq> CHR 0x22" "d \<noteq> CHR ''-''" "d \<noteq> CHR ''0''"
      using nz ds(1) by (auto simp: nonzero_digit_def json_space_def digit_char_def code_def)
    then have "scan_step (st, [Object_value]) d = (Scan_continue, Num1, [Object_value])"
      using nz st by (auto simp: step_begin_value_def)
    then show ?thesis
      using digit_not_separator [OF ds(1), of "ds @ ''}''"] digit_plain [OF ds(1)] compact_digits [OF ds(2)] stop
      by (simp add: d split_beta Let_def)
  qed
  consider "v = 0" | "0 < nat v" "0 \<le> v" | "v < 0" "0 < nat (- v)"
    by linarith
  then show ?thesis
  proof cases
    case 1
    then show ?thesis by simp code_simp
  next
    case 2
    then show ?thesis using pos by (simp add: decimal_int_def)
  next
    case 3
    have "scan_step (Begin_value, [Object_value]) (CHR ''-'') = (Scan_continue, Neg, [Object_value])"
      by code_simp
    then show ?thesis
      using 3 pos [of "nat (- v)" Neg] compact_step [of "(Begin_value, [Object_value])" "CHR ''-''"]
      by (simp add: decimal_int_def code_def del: compact_run.simps)
  qed
qed

lemma compact_value_text:
  "compact_run scan_init (int_field_text ''value'' v) = (int_field_text ''value'' v, (End_top, []))"
proof -
  have "scan_step scan_init (CHR ''{'') = (Scan_continue, (Begin_string_or_empty, [Object_key]))"
    "scan_step (Begin_string_or_empty, [Object_key]) (CHR 0x22) = (Scan_continue, (In_string, [Object_key]))"
    "scan_step (In_string, [Object_key]) (CHR ''v'') = (Scan_continue, (In_string, [Object_key]))"
    "scan_step (In_string, [Object_key]) (CHR ''a'') = (Scan_continue, (In_string, [Object_key]))"
    "scan_step (In_string, [Object_key]) (CHR ''l'') = (Scan_continue, (In_string, [Object_key]))"
    "scan_step (In_string, [Object_key]) (CHR ''u'') = (Scan_continue, (In_string, [Object_key]))"
    "scan_step (In_string, [Object_key]) (CHR ''e'') = (Scan_continue, (In_string, [Object_key]))"
    "scan_step (In_string, [Object_key]) (CHR 0x22) = (Scan_continue, (End_value, [Object_key]))"
    "scan_step (End_value, [Object_key]) (CHR '':'') = (Scan_continue, (Begin_value, [Object_value]))"
    by code_simp+
  note steps = this [THEN compact_step]
  show ?thesis
    by (simp add: int_field_text_def steps code_def compact_decimal del: compact_run.simps)
qed

lemma json_compact_value_text: "json_compact (int_field_text ''value'' v) = Some (int_field_text ''value'' v)"
  by (simp add: json_compact_def compact_value_text scan_eof_def) code_simp

lemma scan_run_append: "scan_run s (xs @ ys) = scan_run (scan_run s xs) ys"
  by (induction xs arbitrary: s) simp_all

text \<open>The scan of a text is the one its compaction makes.\<close>

lemma compact_scan: "snd (compact_run s t) = scan_run s t"
proof (induction s t rule: compact_run.induct)
  case (2 s c cs)
  obtain op s' where st: "scan_step s c = (op, s')" by (metis surj_pair)
  show ?case
  proof (cases "line_separator (take 3 (c # cs))")
    case True
    have "take 3 (c # cs) @ drop 2 cs = c # cs" by simp
    then have "scan_run s (c # cs) = scan_run (scan_run s (take 3 (c # cs))) (drop 2 cs)"
      by (metis scan_run_append)
    then show ?thesis
      using True 2 (1) [OF refl st [symmetric] refl True] st by (simp add: split_beta Let_def)
  next
    case False
    then show ?thesis
      using 2 (2) [OF refl st [symmetric] refl False] st by (simp add: split_beta Let_def)
  qed
qed simp

lemma json_compact_valid: "json_compact t \<noteq> None \<Longrightarrow> json_valid t"
  using compact_scan [of scan_init t] by (auto simp: json_compact_def json_valid_def split_beta Let_def split: if_splits)

lemma int_field_text_valid [simp]: "json_valid (int_field_text ''value'' v)"
  by (rule json_compact_valid) (simp add: json_compact_value_text)

lemma encode_value_field: "encode (JObj [(''value'', JInt v)]) = Some (int_field_text ''value'' v)"
  by (simp add: int_field_text_def) code_simp

lemma decimal_int_number: "list_all number_char (decimal_int v)"
  using decimal_nat_digits by (auto simp: decimal_int_def number_char_def list_all_iff)

lemma parse_int64_decimal:
  assumes "- (2 ^ 63) \<le> v" "v < 2 ^ 63"
  shows "parse_int64 (decimal_int v) = Some (word_of_int v)"
proof (cases "v < 0")
  case True
  then show ?thesis
    using assms decimal_nat_digits by (simp add: parse_int64_def decimal_int_def Let_def)
next
  case False
  obtain d ds where d: "decimal_nat (nat v) = d # ds"
    by (cases "decimal_nat (nat v)") simp_all
  then have "digit_char d"
    using decimal_nat_digits [of "nat v"] by simp
  then have "d \<noteq> CHR ''-''"
    by (auto simp: digit_char_def code_def)
  then show ?thesis
    using assms False decimal_nat_digits [of "nat v"] decimal_nat_value [of "nat v"] d
    by (simp add: parse_int64_def decimal_int_def Let_def)
qed

lemma unmarshal_value_text:
  "unmarshal_int_field ''value'' (int_field_text ''value'' (sint x)) = Inr (x :: 64 word)"
proof -
  let ?t = "int_field_text ''value'' (sint x)"
  have bounds: "- (2 ^ 63) \<le> sint x" "sint x < 2 ^ 63"
    using sint_ge [of x] sint_lt [of x] by simp_all
  have num: "takeWhile number_char (decimal_int (sint x) @ ''}'') = decimal_int (sint x)"
    "dropWhile number_char (decimal_int (sint x) @ ''}'') = ''}''"
    using decimal_int_number [of "sint x"]
    by (auto simp: takeWhile_append dropWhile_append list_all_iff number_char_def digit_char_def code_def)
  obtain d ds where d: "decimal_int (sint x) = d # ds"
    by (cases "decimal_int (sint x)") (auto simp: decimal_int_def split: if_splits)
  then have nd: "number_char d"
    using decimal_int_number [of "sint x"] by simp
  have plain: "\<not> json_space d" "d \<notin> {CHR 0x22, CHR ''{'', CHR ''['', CHR ''t'', CHR ''f'', CHR ''n''}"
    using nd by (auto simp: number_char_def json_space_def digit_char_def code_def)
  have val: "parse_value (Suc n) (decimal_int (sint x) @ ''}'') = Some (TNumber (decimal_int (sint x)), ''}'')" for n
    using num d plain by simp
  obtain n where n: "2 * length ?t + 2 = Suc (Suc (Suc n))"
  proof
    have "1 \<le> length ?t" by (simp add: int_field_text_def)
    then show "2 * length ?t + 2 = Suc (Suc (Suc (2 * length ?t - 1)))" by arith
  qed
  have lit: "take_literal (CHR ''v'' # CHR ''a'' # CHR ''l'' # CHR ''u'' # CHR ''e'' # CHR 0x22 # cs) = (''value'', cs)" for cs
    by (simp add: backslash_def)
  have mem: "parse_members (Suc (Suc n)) (CHR 0x22 # CHR ''v'' # CHR ''a'' # CHR ''l'' # CHR ''u'' # CHR ''e'' # CHR 0x22
      # CHR '':'' # decimal_int (sint x) @ ''}'') = Some ([(''value'', TNumber (decimal_int (sint x)))], [])"
    using lit val by (simp add: json_space_def code_def Let_def backslash_def del: take_literal.simps)
  have "parse_value (Suc (Suc (Suc n))) ?t = Some (TObject [(''value'', TNumber (decimal_int (sint x)))], [])"
    by (simp add: int_field_text_def json_space_def code_def mem del: parse_members.simps)
  then have "json_tree ?t = Some (TObject [(''value'', TNumber (decimal_int (sint x)))])"
    unfolding json_tree_def n by simp
  then show ?thesis
    using parse_int64_decimal [OF bounds] by (simp add: unmarshal_int_field_def decode_member_def)
qed

text \<open>
  C40. What the reference domain observes is what it decodes: the text of an observed 64-bit
  value is valid and already compact JSON, and \<open>Unmarshal\<close> returns that value.
\<close>

theorem value_roundtrip:
  "encode (JObj [(''value'', JInt (sint x))]) = Some (int_field_text ''value'' (sint x))
    \<and> json_compact (int_field_text ''value'' (sint x)) = Some (int_field_text ''value'' (sint x))
    \<and> unmarshal_int_field ''value'' (int_field_text ''value'' (sint x)) = Inr (x :: 64 word)"
  by (intro conjI; rule encode_value_field json_compact_value_text unmarshal_value_text)

end
