(* ===== verification/Conformance_Integer.thy ===== *)
theory Conformance_Integer
  imports Kernel_History Go_Decode
begin

text \<open>
  \<open>boatstack/kernel/conformance/integer.go\<close>: the reference domain, a counter, with its operator,
  classifier, compare-and-swap store, locker and clock, and the control program over it. All of
  them are parts of one world. A method that locks its mutex and unlocks it when it returns is
  atomic; acquiring the held kernel lock blocks for ever, and unlocking a free one ends the
  process. \<open>int\<close> has 64 bits.
\<close>

section \<open>The world\<close>

record integer_world =
  iw_value :: "64 word"
  iw_executions :: "string \<rightharpoonup> int"
  iw_interrupt :: bool
  iw_panic :: bool
  iw_state :: control_state
  iw_receipts :: "receipt list"
  iw_commit_failures :: int
  iw_commit_count :: int
  iw_locked :: bool
  iw_time :: gtime

section \<open>Domain\<close>

definition integer_observe :: "string \<Rightarrow> (integer_world, observation) act" where
  "integer_observe i w = act_sum (new_observation (JObj [(''value'', JInt (sint (iw_value w)))])) w"

definition integer_admissible :: "evaluation \<Rightarrow> (integer_world, bool \<times> string) act" where
  "integer_admissible ev =
     act_bind (act_sum (unmarshal_int_field ''value'' (ob_value (ev_observation ev)))) (\<lambda>observed.
       let operation = t_operation (ev_transition ev) in
       if operation = ''objective.bind''
       then act_return (s_binding (ev_state ev) = None \<and> ev_objective ev \<noteq> None, ''objective is not yet bound'')
       else if operation = ''counter.increment''
       then act_return (ev_objective ev \<noteq> None \<and> sint observed < 2,
              ''exact objective is present and value is below target'')
       else if operation = ''counter.reset''
       then act_return (0 < sint observed \<or> s_recovery (ev_state ev) \<noteq> None,
              ''value is nonzero or recovery remains active'')
       else act_return (False, ''unknown transition''))"

definition integer_verify :: "evaluation \<Rightarrow> effect \<Rightarrow> observation \<Rightarrow> (integer_world, unit) act" where
  "integer_verify ev effect target =
     act_bind (act_sum (unmarshal_int_field ''value'' (ob_value (ev_observation ev)))) (\<lambda>before.
     act_bind (act_sum (unmarshal_int_field ''value'' (ob_value target))) (\<lambda>result.
       let operation = t_operation (ev_transition ev) in
       if operation = ''objective.bind''
       then (if before \<noteq> result then act_fail (errorf [Lit ''objective binding changed domain state'']) else act_return ())
       else if operation = ''counter.increment''
       then (if result \<noteq> before + 1 then act_fail (errorf [Lit ''increment postcondition failed'']) else act_return ())
       else if operation = ''counter.reset''
       then (if result \<noteq> 0 then act_fail (errorf [Lit ''reset postcondition failed'']) else act_return ())
       else act_return ()))"

definition change_observation :: "integer_world \<Rightarrow> integer_world" where
  "change_observation w = w\<lparr>iw_value := iw_value w + 1\<rparr>"

definition interrupt_next :: "integer_world \<Rightarrow> integer_world" where
  "interrupt_next w = w\<lparr>iw_interrupt := True\<rparr>"

definition panic_next :: "integer_world \<Rightarrow> integer_world" where
  "panic_next w = w\<lparr>iw_panic := True\<rparr>"

definition effect_counts :: "integer_world \<Rightarrow> (string \<rightharpoonup> int)" where
  "effect_counts w = iw_executions w"

section \<open>Operator and classifier\<close>

definition count_execution :: "string \<Rightarrow> integer_world \<Rightarrow> integer_world" where
  "count_execution i w =
     w\<lparr>iw_executions := (iw_executions w)(i \<mapsto> (case iw_executions w i of None \<Rightarrow> 0 | Some n \<Rightarrow> n) + 1)\<rparr>"

definition value_fact :: "string \<Rightarrow> 64 word \<Rightarrow> effect_fact" where
  "value_fact operation v =
     \<lparr>f_facet = (if operation = ''objective.bind'' then ''supervisor.objective'' else ''counter.value''),
      f_operation = operation, f_fingerprint = ''value-'' @ decimal_int (sint v)\<rparr>"

definition integer_execute :: "operation \<Rightarrow> (integer_world, effect) act" where
  "integer_execute op w0 =
     (let operation = t_operation (op_transition op); w = count_execution (t_id (op_transition op)) w0 in
      if operation = ''objective.bind'' then (Returned [value_fact operation (iw_value w)], w)
      else if operation = ''counter.increment''
      then (let w = w\<lparr>iw_value := iw_value w + 1\<rparr> in
        if iw_interrupt w
        then (Failed (errorf [Lit ''simulated interrupted operator'']), w\<lparr>iw_interrupt := False\<rparr>)
        else if iw_panic w then (Panicked, w\<lparr>iw_panic := False\<rparr>)
        else (Returned [value_fact operation (iw_value w)], w))
      else if operation = ''counter.reset''
      then (let w = w\<lparr>iw_value := 0\<rparr> in (Returned [value_fact operation (iw_value w)], w))
      else (Failed (errorf [Lit ''unknown operation'']), w))"

definition integer_capabilities :: "transition \<Rightarrow> gerror + capability list" where
  "integer_capabilities t =
     (if t_operation t = ''objective.bind'' then Inr [''objective.bind'']
      else if t_operation t = ''counter.increment'' then Inr [''counter.increment'']
      else if t_operation t = ''counter.reset'' then Inr [''counter.reset'']
      else Inl (errorf [Lit ''unclassified operation '', Quoted (t_operation t)]))"

section \<open>Store, locker and clock\<close>

definition clone_state :: "control_state \<Rightarrow> control_state" where
  "clone_state s =
     s\<lparr>s_binding := (case s_binding s of None \<Rightarrow> None | Some b \<Rightarrow> Some b),
       s_recovery := (case s_recovery s of None \<Rightarrow> None | Some r \<Rightarrow> Some r)\<rparr>"

definition memory_append :: "receipt \<Rightarrow> integer_world \<Rightarrow> integer_world" where
  "memory_append rcp w = w\<lparr>iw_receipts := iw_receipts w @ [rcp]\<rparr>"

definition memory_load :: "string \<Rightarrow> (integer_world, control_state) act" where
  "memory_load i w = (Returned (clone_state (iw_state w)), w)"

definition memory_begin :: "u64 \<Rightarrow> control_state \<Rightarrow> (integer_world, unit) act" where
  "memory_begin revision target w =
     (if s_revision (iw_state w) \<noteq> revision then (Failed (errorf [Lit ''stale revision'']), w)
      else (Returned (), w\<lparr>iw_state := clone_state target\<rparr>))"

definition memory_commit :: "u64 \<Rightarrow> control_state \<Rightarrow> receipt \<Rightarrow> (integer_world, unit) act" where
  "memory_commit revision target rcp w =
     (if 0 < iw_commit_failures w
      then (Failed (errorf [Lit ''simulated atomic transaction failure'']),
            w\<lparr>iw_commit_failures := iw_commit_failures w - 1\<rparr>)
      else if s_revision (iw_state w) \<noteq> revision then (Failed (errorf [Lit ''stale revision'']), w)
      else (Returned (), memory_append rcp
              (w\<lparr>iw_state := clone_state target, iw_commit_count := iw_commit_count w + 1\<rparr>)))"

definition memory_snapshot :: "integer_world \<Rightarrow> control_state \<times> int" where
  "memory_snapshot w = (clone_state (iw_state w), iw_commit_count w)"

definition fail_next_commit :: "integer_world \<Rightarrow> integer_world" where
  "fail_next_commit w = w\<lparr>iw_commit_failures := iw_commit_failures w + 1\<rparr>"

definition retarget_instance :: "string \<Rightarrow> integer_world \<Rightarrow> integer_world" where
  "retarget_instance i w = w\<lparr>iw_state := (iw_state w)\<lparr>s_instance := i\<rparr>\<rparr>"

definition bump_revision :: "integer_world \<Rightarrow> integer_world" where
  "bump_revision w = w\<lparr>iw_state := (iw_state w)\<lparr>s_revision := s_revision (iw_state w) + 1\<rparr>\<rparr>"

definition retarget_program :: "program_identity \<Rightarrow> integer_world \<Rightarrow> integer_world" where
  "retarget_program p w = w\<lparr>iw_state := (iw_state w)\<lparr>s_program := p\<rparr>\<rparr>"

definition rebind :: "objective \<Rightarrow> (integer_world, unit) act" where
  "rebind ob w =
     (case bind_objective ob of Inl e \<Rightarrow> (Panicked, w)
      | Inr b \<Rightarrow> (Returned (), w\<lparr>iw_state := (iw_state w)\<lparr>s_binding := Some b\<rparr>\<rparr>))"

definition memory_acquire :: "string \<Rightarrow> (integer_world, unit) act" where
  "memory_acquire i w = (if iw_locked w then (Halted, w) else (Returned (), w\<lparr>iw_locked := True\<rparr>))"

definition memory_unlock :: "unit \<Rightarrow> (integer_world, unit) act" where
  "memory_unlock l w = (if iw_locked w then (Returned (), w\<lparr>iw_locked := False\<rparr>) else (Halted, w))"

definition fixed_now :: "integer_world \<Rightarrow> gtime \<times> integer_world" where
  "fixed_now w = (iw_time w, w)"

definition advance_clock :: "int \<Rightarrow> integer_world \<Rightarrow> integer_world" where
  "advance_clock d w = w\<lparr>iw_time := time_add (iw_time w) d\<rparr>"

definition integer_ports :: "(integer_world, unit) ports" where
  "integer_ports =
     \<lparr>port_observe = integer_observe, port_admissible = integer_admissible, port_verify = integer_verify,
      port_execute = integer_execute, port_classify = integer_capabilities, port_load = memory_load,
      port_begin = memory_begin, port_commit = memory_commit, port_acquire = memory_acquire,
      port_unlock = memory_unlock, port_now = fixed_now\<rparr>"

section \<open>The program\<close>

definition integer_transition ::
    "string \<Rightarrow> string list \<Rightarrow> string \<Rightarrow> objective_scope \<Rightarrow> objective_mutation \<Rightarrow> capability list \<Rightarrow> string list
       \<Rightarrow> string \<Rightarrow> int \<Rightarrow> string list \<Rightarrow> transition" where
  "integer_transition i sources target scope mutation required owned operation priority recovers =
     \<lparr>t_id = i, t_sources = sources, t_target = target, t_scope = scope, t_mutation = mutation,
      t_required = required, t_owned = owned, t_operation = operation, t_priority = priority,
      t_recovers = recovers\<rparr>"

definition integer_transitions :: "transition list" where
  "integer_transitions =
     [integer_transition ''objective.bind'' [''unbound''] ''zero'' Objective_none Bind_objective
        [''objective.bind''] [''supervisor.objective''] ''objective.bind'' 5 [],
      integer_transition ''counter.increment-first'' [''zero''] ''one'' Objective_bound_exact Preserve_objective
        [''counter.increment''] [''counter.value''] ''counter.increment'' 10 [],
      integer_transition ''counter.increment-second'' [''one''] ''two'' Objective_bound_exact Preserve_objective
        [''counter.increment''] [''counter.value''] ''counter.increment'' 10 [],
      integer_transition ''counter.reset'' [''one'', ''two''] ''zero'' Objective_optional_preserve Preserve_objective
        [''counter.reset''] [''counter.value''] ''counter.reset'' 20 [],
      integer_transition ''objective.recover'' [''unbound''] ''unbound'' Objective_optional_preserve Preserve_objective
        [''counter.reset''] [''counter.value''] ''counter.reset'' 1 [''objective.bind''],
      integer_transition ''counter.recover'' [''zero'', ''one'', ''two''] ''zero'' Objective_optional_preserve
        Preserve_objective [''counter.reset''] [''counter.value''] ''counter.reset'' 1
        [''counter.increment-first'', ''counter.increment-second'', ''counter.reset'']]"

definition integer_program :: "gerror + program" where
  "integer_program =
     compile_program ''integer-control'' ''1.0.0'' ''kernel-v1'' ''unbound'' [''two''] integer_transitions"

section \<open>The reference ports satisfy the contract\<close>

lemma clone_state_id [simp]: "clone_state s = s"
  by (simp add: clone_state_def split: option.splits)

lemma integer_ports_simps [simp]:
  "port_observe integer_ports = integer_observe" "port_admissible integer_ports = integer_admissible"
  "port_verify integer_ports = integer_verify" "port_execute integer_ports = integer_execute"
  "port_classify integer_ports = integer_capabilities" "port_load integer_ports = memory_load"
  "port_begin integer_ports = memory_begin" "port_commit integer_ports = memory_commit"
  "port_acquire integer_ports = memory_acquire" "port_unlock integer_ports = memory_unlock"
  "port_now integer_ports = fixed_now"
  by (simp_all add: integer_ports_def)

interpretation memory: store_port memory_load memory_begin memory_commit iw_state iw_receipts
  by unfold_locales (simp_all add: after_def memory_load_def memory_begin_def memory_commit_def memory_append_def)

definition integer_effects :: "integer_world \<Rightarrow> 64 word \<times> (string \<rightharpoonup> int)" where
  "integer_effects w = (iw_value w, effect_counts w)"

lemma keeps_admissible: "keeps view (integer_admissible ev)"
  unfolding integer_admissible_def Let_def by (intro keeps_intros)

lemma keeps_verify: "keeps view (integer_verify ev effect ob)"
  unfolding integer_verify_def Let_def by (intro keeps_intros)

lemma keeps_observe: "keeps view (integer_observe i)"
  by (auto simp: keeps_def integer_observe_def act_sum_def act_fail_def act_return_def split: sum.splits)

lemmas integer_views = integer_effects_def effect_counts_def keeps_def

interpretation integer: kernel_ports integer_ports iw_state iw_receipts integer_effects
proof unfold_locales
  show "keeps (\<lambda>w. (iw_state w, iw_receipts w, integer_effects w)) (port_observe integer_ports i)"
    "keeps (\<lambda>w. (iw_state w, iw_receipts w, integer_effects w)) (port_admissible integer_ports ev)"
    "keeps (\<lambda>w. (iw_state w, iw_receipts w, integer_effects w)) (port_verify integer_ports ev effect ob)"
    for i ev effect ob
    by (simp_all add: keeps_admissible keeps_verify keeps_observe)
  show "after (port_load integer_ports i) w (\<lambda>r w'. iw_state w' = iw_state w \<and> iw_receipts w' = iw_receipts w
      \<and> (\<forall>s. r = Returned s \<longrightarrow> s = iw_state w))"
    "after (port_begin integer_ports n s) w (\<lambda>r w'. iw_receipts w' = iw_receipts w \<and> (r \<noteq> Returned ()
       \<and> iw_state w' = iw_state w \<or> s_revision (iw_state w) = n \<and> iw_state w' = s))"
    "after (port_commit integer_ports n s rcp) w (\<lambda>r w'. r \<noteq> Returned () \<and> iw_state w' = iw_state w
       \<and> iw_receipts w' = iw_receipts w
       \<or> s_revision (iw_state w) = n \<and> iw_state w' = s \<and> iw_receipts w' = iw_receipts w @ [rcp])" for i n s rcp w
    using memory.load_law memory.begin_law memory.commit_law by simp_all
qed (simp_all add: integer_views memory_acquire_def memory_unlock_def fixed_now_def integer_execute_def Let_def
    count_execution_def memory_load_def memory_begin_def memory_commit_def memory_append_def)

section \<open>The reference program compiles\<close>

definition integer_source :: program where
  "integer_source = \<lparr>p_schema = program_schema_version, p_id = ''integer-control'', p_version = ''1.0.0'',
     p_runtime = ''kernel-v1'', p_contract = [], p_initial = ''unbound'', p_marked = [''two''],
     p_transitions = integer_transitions, p_fingerprint = [], p_by_id = None\<rparr>"

lemma integer_prepares: "(case prepare integer_source of Inl _ \<Rightarrow> False | Inr _ \<Rightarrow> True)"
  by code_simp

lemma integer_order: "map t_id (prepared_transitions integer_source) =
    [''counter.recover'', ''objective.recover'', ''objective.bind'', ''counter.increment-first'',
     ''counter.increment-second'', ''counter.reset'']"
  by code_simp

end
