(* ===== verification/Kernel_Progress.thy ===== *)
theory Kernel_Progress
  imports Kernel_History
begin

text \<open>
  Progress: a request for a transition that is applicable, admitted by the domain and covered by
  the authority resolves to a prescription, and applying that prescription returns a receipt as
  soon as no port fails. None of the runtime's own checks can then refuse.
\<close>

section \<open>Resolution\<close>

lemma act_bind_Returned: "m w = (Returned x, w') \<Longrightarrow> act_bind m f w = f x w'"
  by (simp add: act_bind_def)

lemma act_sum_Inr [simp]: "act_sum (Inr x) = act_return x"
  by (simp add: act_sum_def)

lemma act_return_bind [simp]: "act_bind (act_return x) f = f x"
  by (simp add: act_bind_def act_return_def fun_eq_iff)

lemma screen_irrelevant:
  "rq_requested rq \<noteq> [] \<Longrightarrow> t_id t \<noteq> rq_requested rq \<Longrightarrow> \<exists>ct. screen_candidate s rq t = Inl ct"
  by (simp add: screen_candidate_def Let_def)

lemma scan_irrelevant:
  assumes "rq_requested rq \<noteq> []" "\<forall>t\<in>set ts. t_id t \<noteq> rq_requested rq"
  shows "\<exists>sc'. scan_candidates ps s ob rq sc ts w = (Returned sc', w)
    \<and> sc_candidates sc' = sc_candidates sc \<and> sc_transitions sc' = sc_transitions sc"
  using assms(2)
proof (induction ts arbitrary: sc)
  case Nil
  then show ?case by (simp add: act_return_def)
next
  case (Cons t ts)
  obtain ct where "screen_candidate s rq t = Inl ct"
    using screen_irrelevant [OF assms(1), of t s] Cons.prems by auto
  then have "scan_candidates ps s ob rq sc (t # ts) w
      = scan_candidates ps s ob rq (sc\<lparr>sc_traces := sc_traces sc @ [ct]\<rparr>) ts w"
    by (simp add: consider_transition_def scan_add_def)
  then show ?case
    using Cons.IH [of "sc\<lparr>sc_traces := sc_traces sc @ [ct]\<rparr>"] Cons.prems by simp
qed

lemma scan_requested:
  assumes "rq_requested rq \<noteq> []" "t \<in> set ts" "distinct (map t_id ts)" "t_id t = rq_requested rq"
    and "screen_candidate s rq t = Inr (ct, obj)"
    and "port_admissible ps \<lparr>ev_state = s, ev_observation = ob, ev_objective = obj, ev_transition = t\<rparr> w
      = (Returned (True, reason), w')"
    and "required_capabilities (port_classify ps) t = Inr req"
  shows "\<exists>sc'. scan_candidates ps s ob rq sc ts w = (Returned sc', w')
    \<and> sc_candidates sc' = sc_candidates sc @ [relation_candidate_of t req]
    \<and> sc_transitions sc' = (sc_transitions sc)(t_id t \<mapsto> t)"
  using assms(2,3)
proof (induction ts arbitrary: sc)
  case (Cons u ts)
  show ?case
  proof (cases "u = t")
    case True
    obtain ct' where c: "consider_transition ps s ob rq t w = (Returned (ct', Some (relation_candidate_of t req)), w')"
      using assms(5,6,7) by (simp add: consider_transition_def act_bind_def Let_def act_return_def)
    have "\<forall>v\<in>set ts. t_id v \<noteq> rq_requested rq"
      using Cons.prems(2) True assms(4) by (metis distinct.simps(2) imageI list.map(2) list.set_map)
    from scan_irrelevant [OF assms(1) this, of ps s ob _ w']
    show ?thesis
      using True by (simp add: act_bind_def [of "consider_transition ps s ob rq t"] c scan_add_def) (force simp: scan_add_def)
  next
    case False
    then have t: "t \<in> set ts" "t_id u \<noteq> rq_requested rq"
      using Cons.prems assms(4) by (auto, metis imageI)
    obtain cu where "screen_candidate s rq u = Inl cu"
      using screen_irrelevant [OF assms(1) t(2)] by blast
    then have "scan_candidates ps s ob rq sc (u # ts) w
        = scan_candidates ps s ob rq (sc\<lparr>sc_traces := sc_traces sc @ [cu]\<rparr>) ts w"
      by (simp add: consider_transition_def scan_add_def)
    then show ?thesis
      using Cons.IH [OF t(1), of "sc\<lparr>sc_traces := sc_traces sc @ [cu]\<rparr>"] Cons.prems by simp
  qed
qed simp

lemma new_prescription_total:
  assumes "state_validate s = None" "observation_validate ob = None" "length (ap_fingerprint auth) = 64"
    and "t_mutation t = Bind_objective \<Longrightarrow> \<exists>v. obj = Some v \<and> objective_validate v = None"
  shows "\<exists>q. new_prescription s ob t obj auth req w = (Returned q, w) \<and> issued s ob t obj auth req q"
proof -
  obtain bf where bf: "binding_fingerprint (s_binding s) = Inr bf" "length bf = 64"
    using binding_fingerprint_total by blast
  have ok: "s_instance s \<noteq> []" "s_revision s \<noteq> 0" "length (pi_fingerprint (s_program s)) = 64"
    "length (ob_fingerprint ob) = 64" "ap_fingerprint auth \<noteq> []"
  proof -
    have "semantic_id (s_instance s)" "s_revision s \<noteq> 0" "program_identity_validate (s_program s) = None"
      using assms(1) by (simp_all add: state_validate_None_iff)
    then show "s_instance s \<noteq> []" "s_revision s \<noteq> 0" "length (pi_fingerprint (s_program s)) = 64"
      using semantic_id_nonempty by (blast, blast, simp add: program_identity_validate_def split: if_splits)
    show "length (ob_fingerprint ob) = 64" "ap_fingerprint auth \<noteq> []"
      using assms(2,3) by (auto simp: observation_validate_None)
  qed
  then have "\<exists>f. new_freshness (s_instance s) (s_revision s) (pi_fingerprint (s_program s))
      (ob_fingerprint ob) bf (ap_fingerprint auth) = Inr f"
    using bf(2) by (simp add: new_freshness_def freshness_validate_def)
  then obtain f where f: "new_freshness (s_instance s) (s_revision s) (pi_fingerprint (s_program s))
      (ob_fingerprint ob) bf (ap_fingerprint auth) = Inr f" by blast
  have "\<exists>b. bind_requested t obj w = (Returned b, w)"
  proof (cases "t_mutation t = Bind_objective")
    case True
    then obtain v b where "obj = Some v" "bind_objective v = Inr b"
      using assms(4) bind_objective_total by blast
    then show ?thesis using True by (simp add: bind_requested_cases)
  qed (simp add: bind_requested_cases)
  then obtain b where b: "bind_requested t obj w = (Returned b, w)" by blast
  define p where "p = \<lparr>px_schema = prescription_schema_version, px_id = [], px_transition = t_id t,
      px_freshness = f, px_expected = clone_binding (s_binding s), px_requested = b, px_required = req\<rparr>"
  obtain h where h: "prescription_identity p = Inr h"
    using prescription_identity_total by blast
  have "new_prescription s ob t obj auth req w = (Returned (p\<lparr>px_id := ''prx-'' @ h\<rparr>), w)"
    unfolding new_prescription_def bf(1) act_sum_Inr act_return_bind f act_bind_def [of "bind_requested t obj"] b
      Let_def p_def [symmetric] h prod.case outcome.case by (simp add: act_return_def)
  then show ?thesis
    using afterD [OF after_new_prescription [of s ob t obj auth req w]] by blast
qed

lemma relate_single:
  assumes "set req \<subseteq> set av" "q = [] \<or> q = t_id t"
  shows "d_kind (relate \<lparr>ri_requested = q, ri_marked = False, ri_no_candidate = None,
      ri_candidates = [relation_candidate_of t req], ri_available = av\<rparr>) = Prescribed
    \<and> d_transition (relate \<lparr>ri_requested = q, ri_marked = False, ri_no_candidate = None,
      ri_candidates = [relation_candidate_of t req], ri_available = av\<rparr>) = t_id t"
proof -
  let ?inp = "\<lparr>ri_requested = q, ri_marked = False, ri_no_candidate = None,
      ri_candidates = [relation_candidate_of t req], ri_available = av\<rparr>"
  have "eligible ?inp = [relation_candidate_of t req]"
    using assms(2) by (auto simp: eligible_def relation_candidate_of_def)
  then have "strictly_preferred (eligible ?inp) (relation_candidate_of t req)"
    by (simp add: strictly_preferred_def exI [of _ "[]"])
  moreover have "authorized (relation_candidate_of t req) (set av)"
    using assms(1) by (simp add: authorized_def relation_candidate_of_def)
  ultimately show ?thesis
    using relate_prescribed_iff [of ?inp "t_id t"] by (auto simp: relation_candidate_of_def)
qed

lemma resolve_requested:
  assumes C: "compiled (run_program r)" and early: "early_decision (run_program r) s ob rq = None"
    and now: "port_now (run_ports r) w = (now, w1)" and auth: "authority_project (rq_authority rq) now = Inr auth"
    and t: "t \<in> set (p_transitions (run_program r))" "rq_requested rq = t_id t"
    and screen: "screen_candidate s rq t = Inr (ct, obj)"
    and admit: "port_admissible (run_ports r) \<lparr>ev_state = s, ev_observation = ob, ev_objective = obj, ev_transition = t\<rparr> w1
      = (Returned (True, reason), w2)"
    and req: "required_capabilities (port_classify (run_ports r)) t = Inr req" "set req \<subseteq> set (ap_capabilities auth)"
  shows "\<exists>rs q. resolve_state r s ob rq w = (Returned rs, w2) \<and> rs_prescription rs = Some q
    \<and> d_kind (rs_decision rs) = Prescribed \<and> issued s ob t obj auth req q"
proof -
  have d: "distinct (map t_id (p_transitions (run_program r)))"
    using C program_validate_prepare_ok prepare_ok_distinct by (auto simp: compiled_def)
  have "t_id t \<noteq> []"
    using compiled_transition_valid(1) [OF C t(1)] qualified_nonempty
    by (auto simp: transition_validate_None_iff transition_incomplete_def)
  then have rne: "rq_requested rq \<noteq> []" using t(2) by simp
  obtain sc where sc: "scan_candidates (run_ports r) s ob rq scan_init_state (p_transitions (run_program r)) w1
      = (Returned sc, w2)" "sc_candidates sc = [relation_candidate_of t req]" "sc_transitions sc (t_id t) = Some t"
    using scan_requested [OF rne t(1) d t(2) [symmetric] screen admit req(1), of scan_init_state]
    by (auto simp: scan_init_state_def)
  have obj: "objective_for s (rq_objective rq) t = (obj, [])"
    using screen_candidate_Inr screen by metis
  have sv: "state_validate s = None" "observation_validate ob = None"
    using early_decision_None [OF early] by simp_all
  obtain q where q: "new_prescription s ob t obj auth req w2 = (Returned q, w2)" "issued s ob t obj auth req q"
    using new_prescription_total [OF sv authority_project_fingerprint [OF auth], of t obj req w2]
      objective_for_bind [OF _ obj] by blast
  define inp where "inp = \<lparr>ri_requested = rq_requested rq, ri_marked = False, ri_no_candidate = None,
      ri_candidates = [relation_candidate_of t req], ri_available = ap_capabilities auth\<rparr>"
  have rel: "d_kind (relate inp) = Prescribed" "d_transition (relate inp) = t_id t"
    using relate_single [OF req(2), of "rq_requested rq" t] t(2) by (simp_all add: inp_def)
  have "\<exists>rs. resolve_selected (run_ports r) s ob rq auth tr sc w2 = (Returned rs, w2)
      \<and> rs_prescription rs = Some q \<and> d_kind (rs_decision rs) = Prescribed" for tr
    using rel sc(2,3) req(1) obj
    by (simp add: resolve_selected_def relate_with_trace_def Let_def act_bind_def [of "new_prescription s ob t obj auth req"]
          q(1) flip: inp_def)
       (simp add: act_return_def resolution_of_def)
  then obtain rs where "resolve_selected (run_ports r) s ob rq auth
        ((new_decision_trace s ob rq (run_program r))\<lparr>dt_authority := ap_fingerprint auth\<rparr>) sc w2 = (Returned rs, w2)"
      "rs_prescription rs = Some q" "d_kind (rs_decision rs) = Prescribed"
    by blast
  then show ?thesis
    using q(2) early now auth
    by (intro exI [of _ rs] exI [of _ q]) (simp add: resolve_state_def Let_def act_get_def act_bind_def sc(1))
qed

section \<open>Application\<close>

lemma attempt_state_valid:
  assumes "state_validate s = None" "s_revision s + 1 \<noteq> 0" "px_id p \<noteq> []" "qualified_semantic_id (px_transition p)"
  shows "state_validate (attempt_state p s) = None"
  using assms
  by (cases "s_recovery s") (auto simp: state_validate_None_iff attempt_state_def recovery_complete_def)

text \<open>The receipt the runtime builds passes its own validation.\<close>

lemma new_receipt_valid:
  assumes r: "new_receipt p a (attempt_state p s) (target_state t requested (attempt_state p s))
      (sort_effects effect) result now = Inr rcp"
    and s: "at_state a = s" "state_validate s = None" and t: "at_transition a = t" "qualified_semantic_id (t_id t)"
    and p: "px_id p \<noteq> []" and auth: "length (ap_fingerprint (at_authority a)) = 64"
    and ob: "length (ob_fingerprint (at_observation a)) = 64" "length (ob_fingerprint result) = 64"
    and now: "\<not> time_is_zero now" and caps: "\<forall>c\<in>set (at_required a). semantic_id c" and eff: "effect \<noteq> []"
    and bind: "t_mutation t = Bind_objective \<Longrightarrow> \<exists>b. requested = Some b \<and> binding_validate b = None"
  shows "receipt_validate rcp = None"
proof -
  have rv: "rcp_prior_revision rcp = s_revision s" "rcp_attempt_revision rcp = s_revision s + 1"
    "rcp_result_revision rcp = s_revision s + 1 + 1" "rcp_authority rcp \<noteq> []"
    "rcp_program rcp = s_program s" "rcp_effects rcp \<noteq> []"
    "rcp_binding rcp = s_binding (target_state t requested (attempt_state p s))"
    using r s auth eff by (auto simp: new_receipt_Inr)
  have sv: "semantic_id (s_instance s)" "s_revision s \<noteq> 0" "program_identity_validate (s_program s) = None"
    "\<forall>b. s_binding s = Some b \<longrightarrow> binding_validate b = None"
    using s(2) by (simp_all add: state_validate_None_iff)
  have "\<not> receipt_incomplete rcp"
    using r rv sv(1,2) s(1) t p ob now
    by (simp add: receipt_incomplete_def new_receipt_Inr)
  moreover have "\<forall>b. rcp_binding rcp = Some b \<longrightarrow> binding_validate b = None"
    using bind sv(4) unfolding rv(7) by (auto split: if_splits)
  ultimately show ?thesis
    unfolding receipt_validate_None using r rv sv(3) caps by (simp add: new_receipt_Inr)
qed

lemma apply_commit_returns:
  assumes s: "at_state a = s" "state_validate s = None" and t: "at_transition a = t" "qualified_semantic_id (t_id t)"
    and p: "px_id p \<noteq> []" and auth: "length (ap_fingerprint (at_authority a)) = 64"
    and ob: "length (ob_fingerprint (at_observation a)) = 64" "length (ob_fingerprint result) = 64"
    and caps: "\<forall>c\<in>set (at_required a). semantic_id c" and eff: "effect \<noteq> []"
    and bind: "t_mutation t = Bind_objective \<Longrightarrow> \<exists>v. at_objective a = Some v \<and> objective_validate v = None"
    and now: "port_now ps w = (now, w1)" "\<not> time_is_zero now" "time_text (time_utc now) \<noteq> None"
    and commit: "\<And>target rcp. \<exists>w'. port_commit ps (s_revision s + 1) target rcp w1 = (Returned (), w')"
  shows "\<exists>requested rcp w'.
    port_commit ps (s_revision s + 1) (target_state t requested (attempt_state p s)) rcp w1 = (Returned (), w')
    \<and> (t_mutation t = Bind_objective \<longrightarrow>
        (\<exists>v b. at_objective a = Some v \<and> bind_objective v = Inr b \<and> requested = Some b))
    \<and> apply_commit ps p a (attempt_state p s) (sort_effects effect) result w = (Returned rcp, w')"
proof -
  have "\<exists>requested. bind_requested t (at_objective a) w = (Returned requested, w)
      \<and> (t_mutation t = Bind_objective \<longrightarrow>
          (\<exists>v b. at_objective a = Some v \<and> bind_objective v = Inr b \<and> requested = Some b))"
  proof (cases "t_mutation t = Bind_objective")
    case True
    then obtain v b where "at_objective a = Some v" "bind_objective v = Inr b"
      using bind bind_objective_total by blast
    then show ?thesis using True by (simp add: bind_requested_cases)
  qed (simp add: bind_requested_cases)
  then obtain requested where req: "bind_requested t (at_objective a) w = (Returned requested, w)"
    and b: "t_mutation t = Bind_objective \<longrightarrow>
          (\<exists>v b. at_objective a = Some v \<and> bind_objective v = Inr b \<and> requested = Some b)" by blast
  define target where "target = target_state t requested (attempt_state p s)"
  obtain rcp where rcp: "new_receipt p a (attempt_state p s) target (sort_effects effect) result now = Inr rcp"
    using new_receipt_total [OF now(3)] by blast
  have "receipt_validate rcp = None"
    by (rule new_receipt_valid [OF rcp [unfolded target_def] s t p auth ob now(2) caps eff])
       (use b bind_objective_valid in auto)
  moreover obtain w' where "port_commit ps (s_revision s + 1) target rcp w1 = (Returned (), w')"
    using commit by blast
  ultimately have "apply_commit ps p a (attempt_state p s) (sort_effects effect) result w = (Returned rcp, w')"
    using req rcp now(1) t(1)
    by (simp add: apply_commit_def act_bind_def act_get_def act_wrap_def act_check_def act_return_def
        act_sum_def target_def Let_def)
  then show ?thesis
    using \<open>port_commit ps (s_revision s + 1) target rcp w1 = (Returned (), w')\<close> b target_def by blast
qed

text \<open>
  A run in which no port fails: the worlds between its calls, from the acquired lock to the
  second clock reading. \<open>w0\<close> is the world before, \<open>w9\<close> the one in which the commit is called.
\<close>

definition ports_cooperate ::
    "('w, 'l) runtime \<Rightarrow> apply_request \<Rightarrow> 'l \<Rightarrow> control_state \<Rightarrow> attempt \<Rightarrow> effect \<Rightarrow> observation
       \<Rightarrow> gtime \<Rightarrow> 'w \<Rightarrow> 'w \<Rightarrow> bool" where
  "ports_cooperate r rq l s a effect result now w0 w9 \<longleftrightarrow>
     (\<exists>w1 w2 w3 w4 w5 w6 w7 w8 w8' n1 rs. let ps = run_ports r; inst = rq_instance (aq_resolve rq); p = aq_prescription rq in
        port_acquire ps inst w0 = (Returned l, w1)
        \<and> port_load ps inst w1 = (Returned s, w2)
        \<and> port_observe ps inst w2 = (Returned (at_observation a), w3)
        \<and> port_now ps w3 = (n1, w4) \<and> authority_project (rq_authority (aq_resolve rq)) n1 = Inr (at_authority a)
        \<and> resolve_state r s (at_observation a) (aq_resolve rq) w4 = (Returned rs, w5)
        \<and> rs_prescription rs = Some p \<and> d_kind (rs_decision rs) = Prescribed
        \<and> port_begin ps (s_revision s) (attempt_state p s) w5 = (Returned (), w6)
        \<and> port_execute ps (attempt_operation inst a) w6 = (Returned effect, w7)
        \<and> port_observe ps inst w7 = (Returned result, w8)
        \<and> port_verify ps (attempt_evaluation a) (sort_effects effect) result w8 = (Returned (), w8')
        \<and> port_now ps w8' = (now, w9))"

lemma apply_effect_unfold:
  assumes "port_execute ps (attempt_operation inst a) w6 = (Returned effect, w7)"
    and "validate_effects (at_transition a) effect = None"
    and "port_observe ps inst w7 = (Returned result, w8)"
    and "port_verify ps (attempt_evaluation a) (sort_effects effect) result w8 = (Returned (), w8')"
  shows "apply_effect ps p a inst begun w6 = apply_commit ps p a begun (sort_effects effect) result w8'"
  using assms
  by (simp add: apply_effect_def act_bind_def act_wrap_def act_check_def act_return_def Let_def
      flip: attempt_operation_def)

lemma apply_returns:
  assumes C: "compiled (run_program r)"
    and run: "ports_cooperate r rq l s a effect result now w w9"
    and a: "issued s (at_observation a) (at_transition a) (at_objective a) (at_authority a) (at_required a) (aq_prescription rq)"
      "at_state a = s" "at_transition a \<in> set (p_transitions (run_program r))"
      "objective_for s (rq_objective (aq_resolve rq)) (at_transition a) = (at_objective a, [])"
      "required_capabilities (port_classify (run_ports r)) (at_transition a) = Inr (at_required a)"
    and s: "state_validate s = None" "s_revision s + 1 \<noteq> 0"
    and effect: "validate_effects (at_transition a) effect = None"
    and result: "length (ob_fingerprint (at_observation a)) = 64" "length (ob_fingerprint result) = 64"
    and now: "\<not> time_is_zero now" "time_text (time_utc now) \<noteq> None"
    and commit: "\<And>target rcp. \<exists>w'. port_commit (run_ports r) (s_revision s + 1) target rcp w9 = (Returned (), w')"
    and unlock: "\<And>target rcp w'. port_commit (run_ports r) (s_revision s + 1) target rcp w9 = (Returned (), w')
      \<Longrightarrow> \<exists>w''. port_unlock (run_ports r) l w' = (Returned (), w'')"
  shows "\<exists>requested rcp w' w''.
    port_commit (run_ports r) (s_revision s + 1)
      (target_state (at_transition a) requested (attempt_state (aq_prescription rq) s)) rcp w9 = (Returned (), w')
    \<and> port_unlock (run_ports r) l w' = (Returned (), w'')
    \<and> (t_mutation (at_transition a) = Bind_objective \<longrightarrow>
        (\<exists>v b. at_objective a = Some v \<and> bind_objective v = Inr b \<and> requested = Some b))
    \<and> apply_transition r rq w = (Returned rcp, w'')"
proof -
  let ?ps = "run_ports r" and ?inst = "rq_instance (aq_resolve rq)" and ?p = "aq_prescription rq" and ?t = "at_transition a"
  obtain w1 w2 w3 w4 w5 w6 w7 w8 w8' n1 rs where ports:
    "port_acquire ?ps ?inst w = (Returned l, w1)" "port_load ?ps ?inst w1 = (Returned s, w2)"
    "port_observe ?ps ?inst w2 = (Returned (at_observation a), w3)" "port_now ?ps w3 = (n1, w4)"
    and auth: "authority_project (rq_authority (aq_resolve rq)) n1 = Inr (at_authority a)"
    and res: "resolve_state r s (at_observation a) (aq_resolve rq) w4 = (Returned rs, w5)"
      "rs_prescription rs = Some ?p" "d_kind (rs_decision rs) = Prescribed"
    and bg: "port_begin ?ps (s_revision s) (attempt_state ?p s) w5 = (Returned (), w6)"
    and eff: "port_execute ?ps (attempt_operation ?inst a) w6 = (Returned effect, w7)"
      "port_observe ?ps ?inst w7 = (Returned result, w8)"
      "port_verify ?ps (attempt_evaluation a) (sort_effects effect) result w8 = (Returned (), w8')"
      "port_now ?ps w8' = (now, w9)"
    using run unfolding ports_cooperate_def Let_def by blast
  have tv: "transition_validate ?t = None"
    by (rule compiled_transition_valid(1) [OF C a(3)])
  have q: "px_transition ?p = t_id ?t" "px_id ?p \<noteq> []" "qualified_semantic_id (t_id ?t)"
    using a(1) tv by (auto simp: issued_def transition_validate_None_iff transition_incomplete_def)
  have lookup: "program_transition (run_program r) (px_transition ?p) = Some ?t"
    using compiled_lookup [OF C] a(3) q(1) by simp
  have current: "validate_current ?p s (at_observation a) (at_authority a) = None"
    by (rule issued_current [OF a(1)])
  have av: "state_validate (attempt_state ?p s) = None"
    using attempt_state_valid [OF s] q by simp
  have caps: "\<forall>c\<in>set (at_required a). semantic_id c"
    using a(5) by (auto simp: required_capabilities_Inr)
  have obj: "t_mutation ?t = Bind_objective \<Longrightarrow> \<exists>v. at_objective a = Some v \<and> objective_validate v = None"
    using objective_for_bind [OF _ a(4)] by blast
  have ne: "effect \<noteq> []"
    using effect by (simp add: validate_effects_None)
  obtain requested rcp w' where c:
    "port_commit ?ps (s_revision s + 1) (target_state ?t requested (attempt_state ?p s)) rcp w9 = (Returned (), w')"
    "t_mutation ?t = Bind_objective \<longrightarrow>
        (\<exists>v b. at_objective a = Some v \<and> bind_objective v = Inr b \<and> requested = Some b)"
    "apply_commit ?ps ?p a (attempt_state ?p s) (sort_effects effect) result w8' = (Returned rcp, w')"
    using apply_commit_returns [OF a(2) s(1) refl q(3) q(2) authority_project_fingerprint [OF auth] result caps ne obj
        eff(4) now commit] by blast
  obtain w'' where u: "port_unlock ?ps l w' = (Returned (), w'')"
    using unlock c(1) by blast
  have rec: "\<lparr>at_state = s, at_observation = at_observation a, at_transition = ?t, at_objective = at_objective a,
      at_authority = at_authority a, at_required = at_required a\<rparr> = a"
    using a(2) by (cases a) simp
  have begun: "apply_begin ?ps ?p a ?inst w5 = (Returned rcp, w')"
    using apply_effect_unfold [OF eff(1) effect eff(2,3)] c(3) av bg a(2)
    by (simp add: apply_begin_def act_bind_def act_wrap_def act_check_def act_return_def Let_def)
  have "apply_resolved r rq s (at_observation a) (at_authority a) rs w5 = (Returned rcp, w')"
    using begun res(2,3) lookup a(4,5) rec
    by (simp add: apply_resolved_def Let_def)
  then have "apply_locked r rq w1 = (Returned rcp, w')"
    using ports(2-4) auth res(1) current
    by (simp add: apply_locked_def act_bind_def act_get_def act_check_def act_return_def act_sum_def Let_def)
  then have "apply_transition r rq w = (Returned rcp, w'')"
    using ports(1) u by (simp add: apply_transition_def act_bind_def act_defer_def)
  then show ?thesis using c(1,2) u by blast
qed

end
