(* ===== verification/Conformance_Fixture.thy ===== *)
theory Conformance_Fixture
  imports Conformance_Integer Kernel_Progress
begin

text \<open>
  The fixtures of \<open>boatstack/kernel/conformance\<close>: the scenario values and the worlds
  \<open>newIntegerFixture\<close> builds for every setup, and the snapshots the checks compare. \<open>None\<close> is a
  panic of the factory.
\<close>

section \<open>Setups\<close>

text \<open>\<open>Setup\<close> is a string type.\<close>

type_synonym setup_kind = string

abbreviation Setup_unbound :: setup_kind where
  "Setup_unbound \<equiv> ''unbound''"

abbreviation Setup_bound :: setup_kind where
  "Setup_bound \<equiv> ''bound''"

abbreviation Setup_maintenance_absent :: setup_kind where
  "Setup_maintenance_absent \<equiv> ''maintenance-absent''"

abbreviation Setup_maintenance_bound :: setup_kind where
  "Setup_maintenance_bound \<equiv> ''maintenance-bound''"

abbreviation Setup_concurrent_same_base :: setup_kind where
  "Setup_concurrent_same_base \<equiv> ''concurrent-same-base''"

definition setup_valid :: "setup_kind \<Rightarrow> bool" where
  "setup_valid s = (s \<in> {Setup_unbound, Setup_bound, Setup_maintenance_absent, Setup_maintenance_bound,
                         Setup_concurrent_same_base})"

section \<open>The scenario\<close>

definition integer_objective :: "string \<Rightarrow> u64 \<Rightarrow> int \<Rightarrow> gerror + objective" where
  "integer_objective i revision v = new_objective i revision (JObj [(''value'', JInt v)])"

definition retarget_first :: "transition \<Rightarrow> transition" where
  "retarget_first t = (if t_id t = ''counter.increment-first'' then t\<lparr>t_target := ''two''\<rparr> else t)"

definition alternate_program :: "program \<Rightarrow> gerror + program" where
  "alternate_program p =
     compile_program (p_id p) (p_version p) (p_runtime p) (p_initial p) (p_marked p)
       (map retarget_first (p_transitions p))"

text \<open>12 August 2026, 10:00 UTC.\<close>

definition fixture_time :: gtime where
  "fixture_time = \<lparr>t_nanos = (739839 * 86400 + 36000) * 1000000000, t_offset = 0\<rparr>"

definition fixture_authority :: authority where
  "fixture_authority =
     [\<lparr>a_id = ''human-counter'', a_subject = ''fixture'', a_fingerprint = ''fixture-authority'',
       a_capabilities = [''counter.audit'', ''counter.increment'', ''counter.reset'', ''objective.bind''],
       a_issued = time_add fixture_time (- 60 * 1000000000),
       a_expires = time_add fixture_time (24 * 3600 * 1000000000)\<rparr>]"

record fixture =
  fx_program :: program
  fx_objective :: objective
  fx_revised :: objective
  fx_conflicting :: objective
  fx_alternate :: program
  fx_authority :: authority
  fx_world :: integer_world

abbreviation fixture_instance :: string where
  "fixture_instance \<equiv> ''counter-fixture''"

definition initial_state :: "program \<Rightarrow> control_state" where
  "initial_state p =
     \<lparr>s_instance = fixture_instance, s_program = program_identity_of p, s_binding = None,
      s_mode = ''unbound'', s_revision = 1, s_recovery = None\<rparr>"

text \<open>The state and the value a setup starts from.\<close>

definition setup_state :: "setup_kind \<Rightarrow> program \<Rightarrow> objective \<Rightarrow> (control_state \<times> 64 word) option" where
  "setup_state kind p ob =
     (let state = initial_state p in
      if kind = Setup_concurrent_same_base
      then (case bind_objective ob of Inl e \<Rightarrow> None
            | Inr b \<Rightarrow> Some (state\<lparr>s_mode := ''zero'', s_binding := Some b\<rparr>, 0))
      else if kind = Setup_maintenance_absent then Some (state\<lparr>s_mode := ''one''\<rparr>, 1)
      else if kind = Setup_maintenance_bound
      then (case bind_objective ob of Inl e \<Rightarrow> None
            | Inr b \<Rightarrow> Some (state\<lparr>s_mode := ''one'', s_binding := Some b\<rparr>, 1))
      else Some (state, 0))"

definition fixture_world :: "control_state \<Rightarrow> 64 word \<Rightarrow> integer_world" where
  "fixture_world s v =
     \<lparr>iw_value = v, iw_executions = Map.empty, iw_interrupt = False, iw_panic = False, iw_state = s,
      iw_receipts = [], iw_commit_failures = 0, iw_commit_count = 0, iw_locked = False,
      iw_time = fixture_time\<rparr>"

definition fixture_request :: "objective \<Rightarrow> string \<Rightarrow> resolve_request" where
  "fixture_request ob requested =
     \<lparr>rq_instance = fixture_instance, rq_objective = Some ob, rq_authority = fixture_authority,
      rq_requested = requested, rq_trace = False\<rparr>"

text \<open>
  The loop that seeds the bound setup: resolve a transition and apply it; whatever else happens
  is a panic.
\<close>

definition act_must :: "('w, 'a) act \<Rightarrow> ('w, 'a) act" where
  "act_must m w = (case m w of (Failed e, w') \<Rightarrow> (Panicked, w') | (r, w') \<Rightarrow> (r, w'))"

fun seed_transitions :: "('w, 'l) runtime \<Rightarrow> objective \<Rightarrow> string list \<Rightarrow> ('w, unit) act" where
  "seed_transitions r ob [] = act_return ()"
| "seed_transitions r ob (t # ts) =
     act_bind (act_must (resolve r (fixture_request ob t))) (\<lambda>rs.
       case rs_prescription rs of None \<Rightarrow> act_panic
       | Some q \<Rightarrow>
           act_bind (act_must (apply_transition r \<lparr>aq_resolve = fixture_request ob t, aq_prescription = q\<rparr>)) (\<lambda>_.
             seed_transitions r ob ts))"

definition seed_bound :: "program \<Rightarrow> objective \<Rightarrow> integer_world \<Rightarrow> integer_world option" where
  "seed_bound p ob w =
     (case new_runtime p (Some integer_ports) of Inl e \<Rightarrow> None
      | Inr r \<Rightarrow>
          (case seed_transitions r ob [''objective.bind'', ''counter.increment-first'', ''counter.reset''] w of
             (Returned _, w') \<Rightarrow> Some w' | _ \<Rightarrow> None))"

definition new_integer_fixture :: "setup_kind \<Rightarrow> fixture option" where
  "new_integer_fixture kind =
     (if \<not> setup_valid kind then None else
      case integer_program of Inl e \<Rightarrow> None | Inr p \<Rightarrow>
     (case integer_objective ''reach-two'' 1 2 of Inl e \<Rightarrow> None | Inr ob \<Rightarrow>
     (case integer_objective ''reach-two'' 2 3 of Inl e \<Rightarrow> None | Inr revised \<Rightarrow>
     (case integer_objective ''other'' 1 0 of Inl e \<Rightarrow> None | Inr conflicting \<Rightarrow>
     (case alternate_program p of Inl e \<Rightarrow> None | Inr alternate \<Rightarrow>
     (case setup_state kind p ob of None \<Rightarrow> None | Some (s, v) \<Rightarrow>
     (case (if kind = Setup_bound then seed_bound p ob (fixture_world s v) else Some (fixture_world s v)) of
        None \<Rightarrow> None
      | Some w \<Rightarrow>
          Some \<lparr>fx_program = p, fx_objective = ob, fx_revised = revised, fx_conflicting = conflicting,
                fx_alternate = alternate, fx_authority = fixture_authority, fx_world = w\<rparr>)))))))"

section \<open>Snapshots\<close>

record snapshot =
  sn_state :: control_state
  sn_observation :: observation
  sn_effects :: "string \<rightharpoonup> int"
  sn_receipts :: "receipt list"
  sn_commits :: int

text \<open>\<open>Scenario.Snapshot\<close>: a failed observation panics.\<close>

definition integer_snapshot :: "integer_world \<Rightarrow> snapshot option" where
  "integer_snapshot w =
     (let (current, commits) = memory_snapshot w in
      case fst (integer_observe (s_instance current) w) of
        Returned ob \<Rightarrow>
          Some \<lparr>sn_state = current, sn_observation = ob, sn_effects = effect_counts w,
                sn_receipts = iw_receipts w, sn_commits = commits\<rparr>
      | _ \<Rightarrow> None)"

end
