(* ===== verification/Conformance_Run.thy ===== *)
theory Conformance_Run
  imports Conformance_Fixture
begin

text \<open>
  Runs of the reference domain: its program compiles, a requested transition that is applicable,
  admitted and authorized is prescribed and, when no failure is injected, committed; what an
  interrupted operator leaves; and the worlds of the fixtures of every setup.
\<close>

section \<open>The reference program\<close>

text \<open>The transitions in canonical form and order.\<close>

definition recover_t :: transition where
  "recover_t = integer_transition ''counter.recover'' [''one'', ''two'', ''zero''] ''zero'' Objective_optional_preserve
     Preserve_objective [''counter.reset''] [''counter.value''] ''counter.reset'' 1
     [''counter.increment-first'', ''counter.increment-second'', ''counter.reset'']"

definition unbound_recover_t :: transition where
  "unbound_recover_t = integer_transition ''objective.recover'' [''unbound''] ''unbound'' Objective_optional_preserve
     Preserve_objective [''counter.reset''] [''counter.value''] ''counter.reset'' 1 [''objective.bind'']"

definition bind_t :: transition where
  "bind_t = integer_transition ''objective.bind'' [''unbound''] ''zero'' Objective_none Bind_objective
     [''objective.bind''] [''supervisor.objective''] ''objective.bind'' 5 []"

definition first_t :: transition where
  "first_t = integer_transition ''counter.increment-first'' [''zero''] ''one'' Objective_bound_exact Preserve_objective
     [''counter.increment''] [''counter.value''] ''counter.increment'' 10 []"

definition second_t :: transition where
  "second_t = integer_transition ''counter.increment-second'' [''one''] ''two'' Objective_bound_exact Preserve_objective
     [''counter.increment''] [''counter.value''] ''counter.increment'' 10 []"

definition reset_t :: transition where
  "reset_t = integer_transition ''counter.reset'' [''one'', ''two''] ''zero'' Objective_optional_preserve
     Preserve_objective [''counter.reset''] [''counter.value''] ''counter.reset'' 20 []"

definition integer_sorted :: "transition list" where
  "integer_sorted = [recover_t, unbound_recover_t, bind_t, first_t, second_t, reset_t]"

lemmas transition_defs = recover_t_def unbound_recover_t_def bind_t_def first_t_def second_t_def reset_t_def
  integer_transition_def

lemma integer_sorted: "prepared_transitions integer_source = integer_sorted"
  by code_simp

lemma integer_prepared: "prepare integer_source = Inr (prepared integer_source)"
  using integer_prepares prepare_Inr_iff [of integer_source] by (auto split: sum.splits)

lemma integer_program_Inr:
  "integer_program = Inr ((prepared integer_source)\<lparr>p_fingerprint := projr (program_hash (prepared integer_source))\<rparr>)"
proof -
  have "prepare_ok integer_source"
    using integer_prepared prepare_Inr_iff by blast
  then show ?thesis
    unfolding integer_program_def compile_program_def
    by (simp add: compile_Inr_iff Let_def flip: integer_source_def)
qed

definition reference_program :: program where
  "reference_program = projr integer_program"

lemma reference_program: "integer_program = Inr reference_program"
  by (simp add: reference_program_def integer_program_Inr)

lemma reference_compiled: "compiled reference_program"
  using reference_program compile_compiled unfolding integer_program_def compile_program_def by blast

lemma reference_fields [simp]:
  "p_transitions reference_program = integer_sorted" "p_marked reference_program = [''two'']"
  "p_id reference_program = ''integer-control''" "p_version reference_program = ''1.0.0''"
  "p_runtime reference_program = ''kernel-v1''" "p_initial reference_program = ''unbound''"
  "p_contract reference_program = []"
  by (simp_all add: reference_program_def integer_program_Inr integer_sorted)
     (simp_all add: integer_source_def prepared_def)

section \<open>Objectives and observations\<close>

lemma integer_objective_Inr:
  assumes "semantic_id i" "n \<noteq> 0"
  shows "\<exists>ob. integer_objective i n v = Inr ob \<and> objective_validate ob = None \<and> o_id ob = i \<and> o_revision ob = n
    \<and> o_reference ob = int_field_text ''value'' v"
proof -
  let ?text = "int_field_text ''value'' v"
  have "raw_free (objective_json i n ?text)"
    by (simp add: objective_json_def json_compact_value_text)
  then obtain h where h: "hash_json (objective_json i n ?text) = Inr h" "length h = 64"
    using hash_json_total hash_json_length by blast
  define ob where "ob = \<lparr>o_id = i, o_revision = n, o_fingerprint = h, o_reference = ?text\<rparr>"
  have "objective_validate ob = None"
    using assms h by (simp add: objective_validate_None_iff ob_def) (simp add: int_field_text_def)
  moreover have "integer_objective i n v = Inr ob"
    unfolding integer_objective_def new_objective_def encode_value_field
    using h(1) calculation by (simp add: Let_def ob_def)
  ultimately show ?thesis
    by (intro exI [of _ ob]) (simp add: ob_def)
qed

lemma integer_observe_Returned:
  "\<exists>h. integer_observe i w = (Returned \<lparr>ob_fingerprint = h, ob_value = int_field_text ''value'' (sint (iw_value w))\<rparr>, w)
    \<and> length h = 64 \<and> hash_json (JRaw (int_field_text ''value'' (sint (iw_value w)))) = Inr h"
proof -
  let ?text = "int_field_text ''value'' (sint (iw_value w))"
  have "raw_free (JRaw ?text)" by (simp add: json_compact_value_text)
  then obtain h where h: "hash_json (JRaw ?text) = Inr h" "length h = 64"
    using hash_json_total hash_json_length by blast
  have "integer_observe i w = (Returned \<lparr>ob_fingerprint = h, ob_value = ?text\<rparr>, w)"
    unfolding integer_observe_def new_observation_def encode_value_field option.case h(1)
    by (simp add: act_sum_def act_return_def)
  then show ?thesis using h by blast
qed

definition value_observation :: "64 word \<Rightarrow> observation" where
  "value_observation v =
     \<lparr>ob_fingerprint = projr (hash_json (JRaw (int_field_text ''value'' (sint v)))),
      ob_value = int_field_text ''value'' (sint v)\<rparr>"

lemma observe_value: "integer_observe i w = (Returned (value_observation (iw_value w)), w)"
  using integer_observe_Returned [of i w] by (auto simp: value_observation_def)

lemma value_observation_decode [simp]:
  "unmarshal_int_field ''value'' (ob_value (value_observation v)) = Inr v"
  by (simp add: value_observation_def unmarshal_value_text)

lemma value_observation_valid [simp]:
  "observation_validate (value_observation v) = None" "length (ob_fingerprint (value_observation v)) = 64"
proof -
  obtain h where "hash_json (JRaw (int_field_text ''value'' (sint v))) = Inr h" "length h = 64"
    using integer_observe_Returned [of i "w\<lparr>iw_value := v\<rparr>"] by auto
  then show "observation_validate (value_observation v) = None" "length (ob_fingerprint (value_observation v)) = 64"
    by (simp_all add: observation_validate_None value_observation_def) (simp add: int_field_text_def)
qed

lemma alternate_prepares:
  "(case prepare (integer_source\<lparr>p_transitions := map retarget_first integer_sorted\<rparr>) of Inl _ \<Rightarrow> False | Inr _ \<Rightarrow> True)"
  by code_simp

lemma alternate_program_Inr: "\<exists>q. alternate_program reference_program = Inr q \<and> compiled q"
proof -
  have "prepare_ok (integer_source\<lparr>p_transitions := map retarget_first integer_sorted\<rparr>)"
    using alternate_prepares prepare_Inr_iff by (auto split: sum.splits)
  then have "\<exists>q. alternate_program reference_program = Inr q"
    unfolding alternate_program_def compile_program_def
    by (simp add: compile_Inr_iff Let_def integer_source_def)
  then show ?thesis
    using compile_compiled unfolding alternate_program_def compile_program_def by blast
qed

section \<open>Authority\<close>

lemma fixture_time_text: "time_text (time_utc fixture_time) = Some ''2026-08-12T10:00:00Z''"
  by code_simp

lemma fixture_time_nonzero: "\<not> time_is_zero fixture_time"
  by code_simp

lemma fixture_authority_projects:
  "\<exists>auth. authority_project fixture_authority fixture_time = Inr auth
    \<and> ap_capabilities auth = [''counter.audit'', ''counter.increment'', ''counter.reset'', ''objective.bind'']"
proof -
  have "(case project_receipts fixture_time [] [] (sort_key a_id fixture_authority) of Inl _ \<Rightarrow> False
      | Inr caps \<Rightarrow> normalize_capabilities caps =
          Inr [''counter.audit'', ''counter.increment'', ''counter.reset'', ''objective.bind''])"
    by code_simp
  moreover have "raw_free (receipts_json (sort_key a_id fixture_authority))"
    by code_simp
  then obtain h where "hash_json (receipts_json (sort_key a_id fixture_authority)) = Inr h"
    using hash_json_total by blast
  ultimately show ?thesis
    by (auto simp: authority_project_def Let_def split: sum.splits)
qed

section \<open>One transition\<close>

definition admits :: "string \<Rightarrow> control_state \<Rightarrow> objective option \<Rightarrow> 64 word \<Rightarrow> bool" where
  "admits op s obj v =
     (if op = ''objective.bind'' then s_binding s = None \<and> obj \<noteq> None
      else if op = ''counter.increment'' then obj \<noteq> None \<and> sint v < 2
      else if op = ''counter.reset'' then 0 < sint v \<or> s_recovery s \<noteq> None else False)"

definition next_value :: "string \<Rightarrow> 64 word \<Rightarrow> 64 word" where
  "next_value op v =
     (if op = ''counter.increment'' then v + 1 else if op = ''counter.reset'' then 0 else v)"

lemma admissible_value:
  assumes "ob_value (ev_observation ev) = ob_value (value_observation v)"
  shows "\<exists>reason. integer_admissible ev w =
     (Returned (admits (t_operation (ev_transition ev)) (ev_state ev) (ev_objective ev) v, reason), w)"
  by (simp add: integer_admissible_def assms Let_def admits_def act_return_def)

definition integer_ready :: "program \<Rightarrow> integer_world \<Rightarrow> bool" where
  "integer_ready p w \<longleftrightarrow>
     \<not> iw_locked w \<and> \<not> iw_interrupt w \<and> \<not> iw_panic w \<and> iw_commit_failures w \<le> 0 \<and> iw_time w = fixture_time
     \<and> state_validate (iw_state w) = None \<and> s_instance (iw_state w) = fixture_instance
     \<and> s_program (iw_state w) = program_identity_of p \<and> s_revision (iw_state w) + 1 \<noteq> 0"

definition integer_runtime :: "program \<Rightarrow> (integer_world, unit) runtime" where
  "integer_runtime p = \<lparr>run_program = p, run_ports = integer_ports\<rparr>"

lemma integer_runtime_simps [simp]:
  "run_program (integer_runtime p) = p" "run_ports (integer_runtime p) = integer_ports"
  by (simp_all add: integer_runtime_def)

lemma issued_unique:
  assumes "issued s ob t obj auth req p" "issued s ob t obj auth req q"
  shows "q = p"
proof -
  have "q\<lparr>px_id := []\<rparr> = p\<lparr>px_id := []\<rparr>"
    using assms by (intro prescription.equality) (auto simp: issued_def split: if_splits)
  then have "prescription_identity q = prescription_identity p"
    by (simp add: prescription_identity_def)
  then have "px_id q = px_id p"
    using assms by (auto simp: issued_def)
  then show ?thesis
    using \<open>q\<lparr>px_id := []\<rparr> = p\<lparr>px_id := []\<rparr>\<close> by (cases p; cases q) simp
qed

text \<open>What it takes for a requested transition to be prescribed in the reference domain.\<close>

definition integer_admitted ::
    "program \<Rightarrow> resolve_request \<Rightarrow> control_state \<Rightarrow> 64 word \<Rightarrow> transition \<Rightarrow> objective option
       \<Rightarrow> authority_projection \<Rightarrow> capability list \<Rightarrow> bool" where
  "integer_admitted p rq s v t obj auth req \<longleftrightarrow>
     rq_instance rq = s_instance s \<and> s_program s = program_identity_of p \<and> state_validate s = None
     \<and> authority_project (rq_authority rq) fixture_time = Inr auth
     \<and> t \<in> set (p_transitions p) \<and> rq_requested rq = t_id t
     \<and> (\<exists>ct. screen_candidate s rq t = Inr (ct, obj))
     \<and> admits (t_operation t) s obj v
     \<and> required_capabilities integer_capabilities t = Inr req \<and> set req \<subseteq> set (ap_capabilities auth)"

lemma integer_resolve_state:
  assumes C: "compiled p" and adm: "integer_admitted p rq s v t obj auth req" and time: "iw_time w = fixture_time"
  shows "\<exists>rs q. resolve_state (integer_runtime p) s (value_observation v) rq w = (Returned rs, w)
    \<and> rs_prescription rs = Some q \<and> d_kind (rs_decision rs) = Prescribed
    \<and> issued s (value_observation v) t obj auth req q"
proof -
  let ?ob = "value_observation v" and ?r = "integer_runtime p"
  have t: "t \<in> set (p_transitions p)" "rq_requested rq = t_id t"
    using adm by (simp_all add: integer_admitted_def)
  have "t_id t \<noteq> []"
    using compiled_transition_valid(1) [OF C t(1)] qualified_nonempty
    by (auto simp: transition_validate_None_iff transition_incomplete_def)
  then have early: "early_decision (run_program ?r) s ?ob rq = None"
    using adm by (simp add: early_decision_def integer_admitted_def)
  obtain ct where screen: "screen_candidate s rq t = Inr (ct, obj)"
    using adm unfolding integer_admitted_def by blast
  obtain reason where dom: "integer_admissible \<lparr>ev_state = s, ev_observation = ?ob, ev_objective = obj,
      ev_transition = t\<rparr> w = (Returned (True, reason), w)"
    using admissible_value [of "\<lparr>ev_state = s, ev_observation = ?ob, ev_objective = obj, ev_transition = t\<rparr>" v w]
      adm by (auto simp: integer_admitted_def)
  show ?thesis
    by (rule resolve_requested [of ?r s ?ob rq w fixture_time w auth t ct obj reason w req])
       (use C early t screen dom adm time in \<open>simp_all add: fixed_now_def integer_admitted_def\<close>)
qed

lemma integer_resolves:
  assumes C: "compiled p" and adm: "integer_admitted p rq (iw_state w) (iw_value w) t obj auth req"
    and time: "iw_time w = fixture_time"
  shows "\<exists>rs q. resolve (integer_runtime p) rq w = (Returned rs, w) \<and> rs_prescription rs = Some q
    \<and> d_kind (rs_decision rs) = Prescribed
    \<and> issued (iw_state w) (value_observation (iw_value w)) t obj auth req q"
  using integer_resolve_state [OF assms]
  by (simp add: resolve_def act_bind_def memory_load_def observe_value)

definition integer_attempt ::
    "control_state \<Rightarrow> 64 word \<Rightarrow> transition \<Rightarrow> objective option \<Rightarrow> authority_projection \<Rightarrow> capability list \<Rightarrow> attempt" where
  "integer_attempt s v t obj auth req =
     \<lparr>at_state = s, at_observation = value_observation v, at_transition = t, at_objective = obj,
      at_authority = auth, at_required = req\<rparr>"

text \<open>Applying an issued prescription reaches the operator, in the locked world with the attempt.\<close>

lemma integer_begins:
  assumes C: "compiled p" and adm: "integer_admitted p rq (iw_state w) (iw_value w) t obj auth req"
    and w: "iw_time w = fixture_time" "\<not> iw_locked w" "s_revision (iw_state w) + 1 \<noteq> 0"
    and q: "issued (iw_state w) (value_observation (iw_value w)) t obj auth req q"
  shows "apply_transition (integer_runtime p) \<lparr>aq_resolve = rq, aq_prescription = q\<rparr> w =
    act_defer (memory_unlock ())
      (apply_effect integer_ports q (integer_attempt (iw_state w) (iw_value w) t obj auth req)
         (rq_instance rq) (attempt_state q (iw_state w)))
      (w\<lparr>iw_locked := True, iw_state := attempt_state q (iw_state w)\<rparr>)"
proof -
  let ?w1 = "w\<lparr>iw_locked := True\<rparr>" and ?s = "iw_state w" and ?ob = "value_observation (iw_value w)"
    and ?rq = "\<lparr>aq_resolve = rq, aq_prescription = q\<rparr>" and ?begun = "attempt_state q (iw_state w)"
  have t: "t \<in> set (p_transitions p)"
    and auth: "authority_project (rq_authority rq) fixture_time = Inr auth"
    and req: "required_capabilities integer_capabilities t = Inr req"
    and obj: "objective_for ?s (rq_objective rq) t = (obj, [])"
    and sv: "state_validate ?s = None"
    using adm screen_candidate_Inr by (auto simp: integer_admitted_def)
  obtain rs q' where rs: "resolve_state (integer_runtime p) ?s ?ob rq ?w1 = (Returned rs, ?w1)"
      "rs_prescription rs = Some q'" "d_kind (rs_decision rs) = Prescribed" "issued ?s ?ob t obj auth req q'"
    using integer_resolve_state [OF C adm, of ?w1] w by auto
  have same: "q' = q"
    using issued_unique [OF q rs(4)] .
  have tv: "transition_validate t = None"
    by (rule compiled_transition_valid(1) [OF C t])
  have px: "px_transition q = t_id t" "px_id q \<noteq> []" "qualified_semantic_id (t_id t)"
    using q tv by (auto simp: issued_def transition_validate_None_iff transition_incomplete_def)
  have lookup: "program_transition p (px_transition q) = Some t"
    using compiled_lookup [OF C] t px(1) by simp
  have av: "state_validate ?begun = None"
    using attempt_state_valid [OF sv w(3)] px by simp
  have "apply_begin integer_ports q (integer_attempt ?s (iw_value w) t obj auth req) (rq_instance rq) ?w1
      = apply_effect integer_ports q (integer_attempt ?s (iw_value w) t obj auth req) (rq_instance rq) ?begun
          (w\<lparr>iw_locked := True, iw_state := ?begun\<rparr>)"
    using av by (simp add: apply_begin_def act_bind_def act_wrap_def act_check_def act_return_def Let_def
        memory_begin_def integer_attempt_def)
  then have "apply_resolved (integer_runtime p) ?rq ?s ?ob auth rs ?w1
      = apply_effect integer_ports q (integer_attempt ?s (iw_value w) t obj auth req) (rq_instance rq) ?begun
          (w\<lparr>iw_locked := True, iw_state := ?begun\<rparr>)"
    using rs(2,3) same lookup req obj
    by (simp add: apply_resolved_def Let_def integer_attempt_def)
  then have "apply_locked (integer_runtime p) ?rq ?w1
      = apply_effect integer_ports q (integer_attempt ?s (iw_value w) t obj auth req) (rq_instance rq) ?begun
          (w\<lparr>iw_locked := True, iw_state := ?begun\<rparr>)"
    using rs(1) auth issued_current [OF q] w(1)
    by (simp add: apply_locked_def act_bind_def act_get_def act_check_def act_return_def act_sum_def Let_def
        memory_load_def observe_value fixed_now_def)
  then show ?thesis
    using w(2) by (simp add: apply_transition_def act_bind_def memory_acquire_def act_defer_def)
qed

section \<open>A committed transition\<close>

definition integer_committed :: "transition \<Rightarrow> control_state \<Rightarrow> receipt \<Rightarrow> integer_world \<Rightarrow> integer_world" where
  "integer_committed t target rcp w =
     (count_execution (t_id t) w)\<lparr>iw_value := next_value (t_operation t) (iw_value w), iw_state := target,
        iw_receipts := iw_receipts w @ [rcp], iw_commit_count := iw_commit_count w + 1\<rparr>"

lemma integer_executes:
  assumes "\<not> iw_interrupt w" "\<not> iw_panic w" "t_operation (op_transition op) \<in> {''objective.bind'', ''counter.increment'', ''counter.reset''}"
  shows "integer_execute op w =
    (Returned [value_fact (t_operation (op_transition op)) (next_value (t_operation (op_transition op)) (iw_value w))],
     (count_execution (t_id (op_transition op)) w)\<lparr>iw_value := next_value (t_operation (op_transition op)) (iw_value w)\<rparr>)"
  using assms by (auto simp: integer_execute_def Let_def next_value_def count_execution_def)

lemma integer_verifies:
  "ob_value (ev_observation ev) = ob_value (value_observation v) \<Longrightarrow>
   integer_verify ev effect (value_observation (next_value (t_operation (ev_transition ev)) v)) w = (Returned (), w)"
  by (simp add: integer_verify_def Let_def next_value_def act_return_def)

lemma admits_operation:
  "admits op s obj v \<Longrightarrow> op \<in> {''objective.bind'', ''counter.increment'', ''counter.reset''}"
  by (simp add: admits_def split: if_splits)

lemma integer_commits:
  assumes C: "compiled p" and adm: "integer_admitted p rq (iw_state w) (iw_value w) t obj auth req"
    and w: "iw_time w = fixture_time" "\<not> iw_locked w" "s_revision (iw_state w) + 1 \<noteq> 0"
      "\<not> iw_interrupt w" "\<not> iw_panic w" "iw_commit_failures w \<le> 0"
    and owned: "f_facet (value_fact (t_operation t) 0) \<in> set (t_owned t)"
    and q: "issued (iw_state w) (value_observation (iw_value w)) t obj auth req q"
  shows "\<exists>requested rcp. apply_transition (integer_runtime p) \<lparr>aq_resolve = rq, aq_prescription = q\<rparr> w =
      (Returned rcp, integer_committed t (target_state t requested (attempt_state q (iw_state w))) rcp w)
    \<and> (t_mutation t = Bind_objective \<longrightarrow> (\<exists>v b. obj = Some v \<and> bind_objective v = Inr b \<and> requested = Some b))"
proof -
  let ?s = "iw_state w" and ?v = "iw_value w" and ?begun = "attempt_state q (iw_state w)"
  let ?a = "integer_attempt ?s ?v t obj auth req" and ?op = "t_operation t"
  let ?w6 = "w\<lparr>iw_locked := True, iw_state := ?begun\<rparr>"
  let ?w7 = "(count_execution (t_id t) ?w6)\<lparr>iw_value := next_value ?op ?v\<rparr>"
  have t: "t \<in> set (p_transitions p)"
    and auth: "authority_project (rq_authority rq) fixture_time = Inr auth"
    and req: "required_capabilities integer_capabilities t = Inr req"
    and obj: "objective_for ?s (rq_objective rq) t = (obj, [])"
    and sv: "state_validate ?s = None"
    using adm screen_candidate_Inr by (auto simp: integer_admitted_def)
  have op: "?op \<in> {''objective.bind'', ''counter.increment'', ''counter.reset''}"
    using adm admits_operation unfolding integer_admitted_def by blast
  have tv: "transition_validate t = None"
    by (rule compiled_transition_valid(1) [OF C t])
  have px: "px_transition q = t_id t" "px_id q \<noteq> []" "qualified_semantic_id (t_id t)" "qualified_semantic_id ?op"
    using q tv by (auto simp: issued_def transition_validate_None_iff transition_incomplete_def)
  have eff: "validate_effects t [value_fact ?op (next_value ?op ?v)] = None"
    using owned px(4) by (auto simp: validate_effects_None fact_escapes_def value_fact_def)
  have run: "apply_effect integer_ports q ?a (rq_instance rq) ?begun ?w6
      = apply_commit integer_ports q ?a ?begun (sort_effects [value_fact ?op (next_value ?op ?v)])
          (value_observation (next_value ?op ?v)) ?w7"
    by (rule apply_effect_unfold [where ?w7.0 = ?w7 and ?w8.0 = ?w7])
       (use op w eff integer_executes [of ?w6 "attempt_operation (rq_instance rq) ?a"]
          integer_verifies [of "attempt_evaluation ?a" ?v] in
        \<open>simp_all add: attempt_operation_def integer_attempt_def attempt_evaluation_def observe_value\<close>)
  obtain requested rcp w' where c:
    "memory_commit (s_revision ?s + 1) (target_state t requested ?begun) rcp ?w7 = (Returned (), w')"
    "t_mutation t = Bind_objective \<longrightarrow> (\<exists>v b. obj = Some v \<and> bind_objective v = Inr b \<and> requested = Some b)"
    "apply_commit integer_ports q ?a ?begun (sort_effects [value_fact ?op (next_value ?op ?v)])
       (value_observation (next_value ?op ?v)) ?w7 = (Returned rcp, w')"
  proof -
    have caps: "\<forall>c\<in>set req. semantic_id c"
      using req by (auto simp: required_capabilities_Inr)
    have ne: "[value_fact ?op (next_value ?op ?v)] \<noteq> []" by simp
    have "\<exists>requested rcp w'.
      port_commit integer_ports (s_revision ?s + 1) (target_state t requested (attempt_state q ?s)) rcp ?w7 = (Returned (), w')
      \<and> (t_mutation t = Bind_objective \<longrightarrow>
          (\<exists>v b. at_objective ?a = Some v \<and> bind_objective v = Inr b \<and> requested = Some b))
      \<and> apply_commit integer_ports q ?a (attempt_state q ?s) (sort_effects [value_fact ?op (next_value ?op ?v)])
          (value_observation (next_value ?op ?v)) ?w7 = (Returned rcp, w')"
      by (rule apply_commit_returns)
         (use sv px caps objective_for_bind [OF _ obj] authority_project_fingerprint [OF auth] w fixture_time_text fixture_time_nonzero in
          \<open>auto simp: integer_attempt_def fixed_now_def memory_commit_def count_execution_def\<close>)
    then show ?thesis using that by (auto simp: integer_attempt_def)
  qed
  have "w' = (integer_committed t (target_state t requested ?begun) rcp w)\<lparr>iw_locked := True\<rparr>"
    using c(1) w by (auto simp: memory_commit_def memory_append_def integer_committed_def count_execution_def split: if_splits)
  then have "memory_unlock () w' = (Returned (), integer_committed t (target_state t requested ?begun) rcp w)"
    using w(2) by (simp add: memory_unlock_def integer_committed_def count_execution_def)
  then have "apply_transition (integer_runtime p) \<lparr>aq_resolve = rq, aq_prescription = q\<rparr> w =
      (Returned rcp, integer_committed t (target_state t requested ?begun) rcp w)"
    unfolding integer_begins [OF C adm w(1-3) q] using run c(3) by (simp add: act_defer_def)
  then show ?thesis using c(2) by blast
qed

section \<open>Steps of the reference program\<close>

lemma reference_required:
  "list_all (\<lambda>t. required_capabilities integer_capabilities t = Inr (t_required t)
     \<and> set (t_required t) \<subseteq> set [''counter.audit'', ''counter.increment'', ''counter.reset'', ''objective.bind'']
     \<and> f_facet (value_fact (t_operation t) 0) \<in> set (t_owned t)) integer_sorted"
  by code_simp

definition integer_steady :: "program \<Rightarrow> integer_world \<Rightarrow> bool" where
  "integer_steady p w \<longleftrightarrow>
     \<not> iw_locked w \<and> iw_commit_failures w \<le> 0 \<and> iw_time w = fixture_time
     \<and> state_validate (iw_state w) = None \<and> s_instance (iw_state w) = fixture_instance
     \<and> s_program (iw_state w) = program_identity_of p \<and> s_revision (iw_state w) + 1 \<noteq> 0"

lemma reference_admitted:
  assumes "t \<in> set integer_sorted" "integer_steady reference_program w"
    "s_mode (iw_state w) \<in> set (t_sources t)" "recovery_compatible (iw_state w) t"
    "objective_for (iw_state w) (Some ob) t = (obj, [])" "admits (t_operation t) (iw_state w) obj (iw_value w)"
  shows "\<exists>auth. integer_admitted reference_program (fixture_request ob (t_id t)) (iw_state w) (iw_value w) t obj auth (t_required t)"
proof -
  obtain auth where "authority_project fixture_authority fixture_time = Inr auth"
    "ap_capabilities auth = [''counter.audit'', ''counter.increment'', ''counter.reset'', ''objective.bind'']"
    using fixture_authority_projects by blast
  then show ?thesis
    using assms reference_required
    by (intro exI [of _ auth]) (auto simp: integer_admitted_def integer_steady_def fixture_request_def list_all_iff
        screen_candidate_Inr)
qed

definition resolved_apply :: "('w, 'l) runtime \<Rightarrow> resolve_request \<Rightarrow> 'w \<Rightarrow> apply_request" where
  "resolved_apply r rq w =
     \<lparr>aq_resolve = rq, aq_prescription =
        (case fst (resolve r rq w) of Returned rs \<Rightarrow> the (rs_prescription rs) | _ \<Rightarrow> undefined)\<rparr>"

abbreviation "reference_runtime \<equiv> integer_runtime reference_program"

lemma reference_resolves:
  assumes "t \<in> set integer_sorted" "integer_steady reference_program w"
    "s_mode (iw_state w) \<in> set (t_sources t)" "recovery_compatible (iw_state w) t"
    "objective_for (iw_state w) (Some ob) t = (obj, [])" "admits (t_operation t) (iw_state w) obj (iw_value w)"
  shows "\<exists>rs q auth. resolve reference_runtime (fixture_request ob (t_id t)) w = (Returned rs, w) \<and> rs_prescription rs = Some q
    \<and> d_kind (rs_decision rs) = Prescribed
    \<and> resolved_apply reference_runtime (fixture_request ob (t_id t)) w
        = \<lparr>aq_resolve = fixture_request ob (t_id t), aq_prescription = q\<rparr>
    \<and> issued (iw_state w) (value_observation (iw_value w)) t obj auth (t_required t) q
    \<and> integer_admitted reference_program (fixture_request ob (t_id t)) (iw_state w) (iw_value w) t obj auth (t_required t)"
proof -
  obtain auth where a: "integer_admitted reference_program (fixture_request ob (t_id t)) (iw_state w) (iw_value w) t obj auth (t_required t)"
    using reference_admitted [OF assms] by blast
  obtain rs q where r: "resolve reference_runtime (fixture_request ob (t_id t)) w = (Returned rs, w)" "rs_prescription rs = Some q"
    "d_kind (rs_decision rs) = Prescribed" "issued (iw_state w) (value_observation (iw_value w)) t obj auth (t_required t) q"
    using integer_resolves [OF reference_compiled a] assms(2) by (auto simp: integer_steady_def)
  then show ?thesis
    using a by (intro exI [of _ rs] exI [of _ q] exI [of _ auth]) (simp add: resolved_apply_def)
qed

lemma reference_commits:
  assumes A: "t \<in> set integer_sorted" "integer_steady reference_program w"
    "s_mode (iw_state w) \<in> set (t_sources t)" "recovery_compatible (iw_state w) t"
    "objective_for (iw_state w) (Some ob) t = (obj, [])" "admits (t_operation t) (iw_state w) obj (iw_value w)"
    and "\<not> iw_interrupt w" "\<not> iw_panic w"
  shows "\<exists>requested rcp q. apply_transition reference_runtime (resolved_apply reference_runtime (fixture_request ob (t_id t)) w) w =
      (Returned rcp, integer_committed t (target_state t requested (attempt_state q (iw_state w))) rcp w)
    \<and> (t_mutation t = Bind_objective \<longrightarrow> (\<exists>v b. obj = Some v \<and> bind_objective v = Inr b \<and> requested = Some b))"
proof -
  obtain rs q auth where r: "resolved_apply reference_runtime (fixture_request ob (t_id t)) w
        = \<lparr>aq_resolve = fixture_request ob (t_id t), aq_prescription = q\<rparr>"
    "issued (iw_state w) (value_observation (iw_value w)) t obj auth (t_required t) q"
    "integer_admitted reference_program (fixture_request ob (t_id t)) (iw_state w) (iw_value w) t obj auth (t_required t)"
    using reference_resolves [OF A] by blast
  have "f_facet (value_fact (t_operation t) 0) \<in> set (t_owned t)"
    using reference_required A(1) by (simp add: list_all_iff)
  from integer_commits [OF reference_compiled r(3) _ _ _ _ _ _ this r(2)] show ?thesis
    unfolding r(1) using assms by (auto simp: integer_steady_def)
qed

text \<open>An interrupted increment.\<close>

lemma reference_interrupted:
  assumes A: "t \<in> set integer_sorted" "integer_steady reference_program w"
    "s_mode (iw_state w) \<in> set (t_sources t)" "recovery_compatible (iw_state w) t"
    "objective_for (iw_state w) (Some ob) t = (obj, [])" "admits (t_operation t) (iw_state w) obj (iw_value w)"
    and "iw_interrupt w" "t_operation t = ''counter.increment''"
  shows "\<exists>e q. apply_transition reference_runtime (resolved_apply reference_runtime (fixture_request ob (t_id t)) w) w =
      (Failed e, (count_execution (t_id t) w)\<lparr>iw_value := iw_value w + 1, iw_interrupt := False,
                   iw_state := attempt_state q (iw_state w)\<rparr>)
    \<and> is_recovery_required e \<and> px_transition q = t_id t"
proof -
  obtain rs q auth where r: "resolved_apply reference_runtime (fixture_request ob (t_id t)) w
        = \<lparr>aq_resolve = fixture_request ob (t_id t), aq_prescription = q\<rparr>"
    "issued (iw_state w) (value_observation (iw_value w)) t obj auth (t_required t) q"
    "integer_admitted reference_program (fixture_request ob (t_id t)) (iw_state w) (iw_value w) t obj auth (t_required t)"
    using reference_resolves [OF A] by blast
  have w: "iw_time w = fixture_time" "\<not> iw_locked w" "s_revision (iw_state w) + 1 \<noteq> 0"
    using A(2) by (simp_all add: integer_steady_def)
  have "px_transition q = t_id t"
    using r(2) by (simp add: issued_def)
  then show ?thesis
    unfolding r(1) integer_begins [OF reference_compiled r(3) w r(2)]
    using assms(7,8) w(2)
    by (simp add: apply_effect_def act_defer_def act_bind_def act_wrap_def integer_execute_def Let_def
        integer_attempt_def count_execution_def memory_unlock_def)
       (intro exI [of _ q] conjI integer_world.equality; simp)
qed

section \<open>The fixture worlds\<close>

definition reference_objective :: objective where
  "reference_objective = projr (integer_objective ''reach-two'' 1 2)"

definition reference_binding :: objective_binding where
  "reference_binding = projr (bind_objective reference_objective)"

lemma reference_objective:
  "integer_objective ''reach-two'' 1 2 = Inr reference_objective" "objective_validate reference_objective = None"
  "o_id reference_objective = ''reach-two''" "o_revision reference_objective = 1"
proof -
  have "semantic_id ''reach-two''" by code_simp
  then obtain ob where "integer_objective ''reach-two'' 1 2 = Inr ob" "objective_validate ob = None"
    "o_id ob = ''reach-two''" "o_revision ob = 1"
    using integer_objective_Inr [of "''reach-two''" 1 2] by auto
  then show "integer_objective ''reach-two'' 1 2 = Inr reference_objective" "objective_validate reference_objective = None"
    "o_id reference_objective = ''reach-two''" "o_revision reference_objective = 1"
    by (simp_all add: reference_objective_def)
qed

lemma reference_binding:
  "bind_objective reference_objective = Inr reference_binding" "binding_validate reference_binding = None"
  "binding_matches reference_binding reference_objective"
proof -
  obtain b where b: "bind_objective reference_objective = Inr b"
    using bind_objective_total [OF reference_objective(2)] by blast
  then have "b = reference_binding" by (simp add: reference_binding_def)
  then show "bind_objective reference_objective = Inr reference_binding" "binding_validate reference_binding = None"
    "binding_matches reference_binding reference_objective"
    using b bind_objective_valid bind_objective_matches by blast+
qed

definition at_mode :: "string \<Rightarrow> u64 \<Rightarrow> objective_binding option \<Rightarrow> control_state" where
  "at_mode m n b = (initial_state reference_program)\<lparr>s_mode := m, s_revision := n, s_binding := b\<rparr>"

lemma at_mode_simps [simp]:
  "s_mode (at_mode m n b) = m" "s_revision (at_mode m n b) = n" "s_binding (at_mode m n b) = b"
  "s_recovery (at_mode m n b) = None" "s_instance (at_mode m n b) = fixture_instance"
  "s_program (at_mode m n b) = program_identity_of reference_program"
  by (simp_all add: at_mode_def initial_state_def)

lemma initial_at_mode: "initial_state reference_program = at_mode ''unbound'' 1 None"
  by (simp add: at_mode_def initial_state_def)

lemma at_mode_valid:
  assumes "m \<noteq> []" "n \<noteq> 0" "b = None \<or> b = Some reference_binding"
  shows "state_validate (at_mode m n b) = None"
proof -
  have "semantic_id fixture_instance" by code_simp
  then show ?thesis
    using assms reference_binding(2) compiled_identity [OF reference_compiled] by (auto simp: state_validate_None_iff)
qed

lemma at_mode_target:
  "target_state t requested (attempt_state q (at_mode m n b)) =
     at_mode (t_target t) (n + 2) (if t_mutation t = Bind_objective then requested
       else if t_mutation t = Clear_objective then None else b)"
  by (simp add: target_state_def attempt_state_def at_mode_def initial_state_def)

text \<open>Worlds of the fixture without injected failures, at a mode, a revision, a binding and a value.\<close>

definition integer_at :: "string \<Rightarrow> u64 \<Rightarrow> objective_binding option \<Rightarrow> 64 word \<Rightarrow> integer_world \<Rightarrow> bool" where
  "integer_at m n b v w \<longleftrightarrow>
     \<not> iw_locked w \<and> \<not> iw_interrupt w \<and> \<not> iw_panic w \<and> iw_commit_failures w \<le> 0 \<and> iw_time w = fixture_time
     \<and> iw_state w = at_mode m n b \<and> iw_value w = v"

lemma integer_at_steady:
  "integer_at m n b v w \<Longrightarrow> m \<noteq> [] \<Longrightarrow> n \<noteq> 0 \<Longrightarrow> n + 1 \<noteq> 0 \<Longrightarrow> b = None \<or> b = Some reference_binding
     \<Longrightarrow> integer_steady reference_program w"
  using at_mode_valid by (auto simp: integer_at_def integer_steady_def)

lemma integer_at_world: "integer_at m n b v (fixture_world (at_mode m n b) v)"
  by (simp add: integer_at_def fixture_world_def)

lemma integer_at_committed:
  "integer_at m n b v w \<Longrightarrow>
     integer_at (t_target t) (n + 2) b' (next_value (t_operation t) v) (integer_committed t (at_mode (t_target t) (n + 2) b') rcp w)"
  by (simp add: integer_at_def integer_committed_def count_execution_def)

lemma reference_step:
  assumes t: "t \<in> set integer_sorted" "t_recovers t = []" "m \<in> set (t_sources t)" "t_mutation t \<noteq> Clear_objective"
    and w: "integer_at m n b v w" "m \<noteq> []" "n \<noteq> 0" "n + 1 \<noteq> 0" "b = None \<or> b = Some reference_binding"
    and obj: "objective_for (at_mode m n b) (Some reference_objective) t = (obj, [])"
    and adm: "admits (t_operation t) (at_mode m n b) obj v"
  shows "\<exists>rs q rcp. resolve reference_runtime (fixture_request reference_objective (t_id t)) w = (Returned rs, w)
    \<and> rs_prescription rs = Some q \<and> px_transition q = t_id t \<and> px_expected q = b
    \<and> resolved_apply reference_runtime (fixture_request reference_objective (t_id t)) w
        = \<lparr>aq_resolve = fixture_request reference_objective (t_id t), aq_prescription = q\<rparr>
    \<and> apply_transition reference_runtime \<lparr>aq_resolve = fixture_request reference_objective (t_id t), aq_prescription = q\<rparr> w
       = (Returned rcp, integer_committed t (at_mode (t_target t) (n + 2)
            (if t_mutation t = Bind_objective then Some reference_binding else b)) rcp w)"
proof -
  have st: "iw_state w = at_mode m n b" "iw_value w = v" "\<not> iw_interrupt w" "\<not> iw_panic w"
    using w(1) by (simp_all add: integer_at_def)
  have c: "integer_steady reference_program w" "s_mode (iw_state w) \<in> set (t_sources t)"
    "recovery_compatible (iw_state w) t" "objective_for (iw_state w) (Some reference_objective) t = (obj, [])"
    "admits (t_operation t) (iw_state w) obj (iw_value w)"
    using integer_at_steady [OF w] st t obj adm by (auto simp: recovery_compatible_def)
  have "\<And>v b'. t_mutation t = Bind_objective \<Longrightarrow> obj = Some v \<Longrightarrow> v = reference_objective"
    using objective_for_bind [OF _ obj] by auto
  then show ?thesis
    using reference_resolves [OF t(1) c] reference_commits [OF t(1) c st(3,4)] reference_binding(1) t(4)
    unfolding st(1) at_mode_target issued_def at_mode_simps by fastforce
qed

section \<open>The runs of the fixtures\<close>

lemma reference_members: "bind_t \<in> set integer_sorted" "first_t \<in> set integer_sorted" "second_t \<in> set integer_sorted"
  "reset_t \<in> set integer_sorted" "recover_t \<in> set integer_sorted" "unbound_recover_t \<in> set integer_sorted"
  by (simp_all add: integer_sorted_def)

lemma reference_matches [simp]: "binding_matches reference_binding reference_objective"
  by (rule reference_binding(3))

lemma reference_matches_supplied [simp]:
  "binding_matches_supplied (at_mode m n b) (Some reference_objective) \<longleftrightarrow> (\<exists>x. b = Some x \<and> binding_matches x reference_objective)"
  by (simp add: binding_matches_supplied_def split: option.splits)

lemma reference_objectives:
  "objective_for (at_mode m n None) (Some reference_objective) bind_t = (Some reference_objective, [])"
  "objective_for (at_mode m n (Some reference_binding)) (Some reference_objective) first_t = (Some reference_objective, [])"
  "objective_for (at_mode m n (Some reference_binding)) (Some reference_objective) second_t = (Some reference_objective, [])"
  "objective_for (at_mode m n (Some reference_binding)) (Some reference_objective) reset_t = (Some reference_objective, [])"
  using reference_objective(2) by (simp_all add: objective_for_def transition_defs)

lemma reference_ids [simp]:
  "t_id bind_t = ''objective.bind''" "t_id first_t = ''counter.increment-first''"
  "t_id second_t = ''counter.increment-second''" "t_id reset_t = ''counter.reset''" "t_id recover_t = ''counter.recover''"
  by (simp_all add: transition_defs)

definition integer_steps :: "integer_world \<Rightarrow> string \<Rightarrow> integer_world \<Rightarrow> prescription \<Rightarrow> receipt \<Rightarrow> bool" where
  "integer_steps w i w' q rcp \<longleftrightarrow>
    (\<exists>rs. resolve reference_runtime (fixture_request reference_objective i) w = (Returned rs, w) \<and> rs_prescription rs = Some q)
    \<and> px_transition q = i \<and> px_expected q = s_binding (iw_state w)
    \<and> resolved_apply reference_runtime (fixture_request reference_objective i) w
        = \<lparr>aq_resolve = fixture_request reference_objective i, aq_prescription = q\<rparr>
    \<and> apply_transition reference_runtime \<lparr>aq_resolve = fixture_request reference_objective i, aq_prescription = q\<rparr> w
       = (Returned rcp, w')
    \<and> iw_receipts w' = iw_receipts w @ [rcp] \<and> iw_commit_count w' = iw_commit_count w + 1
    \<and> iw_executions w' = iw_executions (count_execution i w)"

lemma integer_step:
  assumes "t \<in> set integer_sorted" "t_recovers t = []" "m \<in> set (t_sources t)" "t_mutation t \<noteq> Clear_objective"
    and "integer_at m n b v w" "m \<noteq> []" "n \<noteq> 0" "n + 1 \<noteq> 0" "b = None \<or> b = Some reference_binding"
    and "objective_for (at_mode m n b) (Some reference_objective) t = (obj, [])"
    and "admits (t_operation t) (at_mode m n b) obj v"
  shows "\<exists>q rcp w'. integer_steps w (t_id t) w' q rcp
    \<and> integer_at (t_target t) (n + 2) (if t_mutation t = Bind_objective then Some reference_binding else b)
        (next_value (t_operation t) v) w'"
proof -
  let ?b = "if t_mutation t = Bind_objective then Some reference_binding else b"
  obtain rs q rcp where s: "resolve reference_runtime (fixture_request reference_objective (t_id t)) w = (Returned rs, w)"
    "rs_prescription rs = Some q" "px_transition q = t_id t" "px_expected q = b"
    "resolved_apply reference_runtime (fixture_request reference_objective (t_id t)) w
        = \<lparr>aq_resolve = fixture_request reference_objective (t_id t), aq_prescription = q\<rparr>"
    "apply_transition reference_runtime \<lparr>aq_resolve = fixture_request reference_objective (t_id t), aq_prescription = q\<rparr> w
       = (Returned rcp, integer_committed t (at_mode (t_target t) (n + 2) ?b) rcp w)"
    using reference_step [OF assms] by blast
  show ?thesis
    by (intro exI [of _ q] exI [of _ rcp] exI [of _ "integer_committed t (at_mode (t_target t) (n + 2) ?b) rcp w"] conjI
        integer_at_committed [OF assms(5)])
       (use s assms(5) in \<open>auto simp: integer_steps_def integer_committed_def count_execution_def integer_at_def\<close>)
qed

lemma bind_step:
  assumes "integer_at ''unbound'' n None v w" "n \<noteq> 0" "n + 1 \<noteq> 0"
  shows "\<exists>q rcp w'. integer_steps w ''objective.bind'' w' q rcp \<and> integer_at ''zero'' (n + 2) (Some reference_binding) v w'"
  using integer_step [OF reference_members(1) _ _ _ assms(1) _ assms(2,3) _ reference_objectives(1)]
  by (simp add: transition_defs admits_def next_value_def)

lemma first_step:
  assumes "integer_at ''zero'' n (Some reference_binding) v w" "n \<noteq> 0" "n + 1 \<noteq> 0" "sint v < 2"
  shows "\<exists>q rcp w'. integer_steps w ''counter.increment-first'' w' q rcp \<and> integer_at ''one'' (n + 2) (Some reference_binding) (v + 1) w'"
  using integer_step [OF reference_members(2) _ _ _ assms(1) _ assms(2,3) _ reference_objectives(2)] assms(4)
  by (simp add: transition_defs admits_def next_value_def)

lemma second_step:
  assumes "integer_at ''one'' n (Some reference_binding) v w" "n \<noteq> 0" "n + 1 \<noteq> 0" "sint v < 2"
  shows "\<exists>q rcp w'. integer_steps w ''counter.increment-second'' w' q rcp \<and> integer_at ''two'' (n + 2) (Some reference_binding) (v + 1) w'"
  using integer_step [OF reference_members(3) _ _ _ assms(1) _ assms(2,3) _ reference_objectives(3)] assms(4)
  by (simp add: transition_defs admits_def next_value_def)

lemma reset_step:
  assumes "integer_at m n (Some reference_binding) v w" "m \<in> {''one'', ''two''}" "n \<noteq> 0" "n + 1 \<noteq> 0" "0 < sint v"
  shows "\<exists>q rcp w'. integer_steps w ''counter.reset'' w' q rcp \<and> integer_at ''zero'' (n + 2) (Some reference_binding) 0 w'"
  using integer_step [OF reference_members(4) _ _ _ assms(1) _ assms(3,4) _ reference_objectives(4)] assms(2,5)
  by (auto simp: transition_defs admits_def next_value_def)

section \<open>The factory\<close>

lemma sint_small [simp]: "sint (0 :: 64 word) = 0" "sint (1 :: 64 word) = 1"
  by simp_all

lemma seed_step:
  "integer_steps w i w' q rcp \<Longrightarrow>
     seed_transitions reference_runtime reference_objective (i # is) w = seed_transitions reference_runtime reference_objective is w'"
  by (auto simp: integer_steps_def act_bind_def act_must_def)

lemma seeded:
  assumes "integer_at ''unbound'' 1 None 0 w"
  shows "\<exists>q1 r1 w1 q2 r2 w2 q3 r3 w3. integer_steps w ''objective.bind'' w1 q1 r1
    \<and> integer_steps w1 ''counter.increment-first'' w2 q2 r2 \<and> integer_steps w2 ''counter.reset'' w3 q3 r3
    \<and> integer_at ''zero'' 7 (Some reference_binding) 0 w3"
proof -
  obtain q1 r1 w1 where 1: "integer_steps w ''objective.bind'' w1 q1 r1" "integer_at ''zero'' 3 (Some reference_binding) 0 w1"
    using bind_step [OF assms] by auto
  obtain q2 r2 w2 where 2: "integer_steps w1 ''counter.increment-first'' w2 q2 r2" "integer_at ''one'' 5 (Some reference_binding) 1 w2"
    using first_step [OF 1(2)] by auto
  obtain q3 r3 w3 where 3: "integer_steps w2 ''counter.reset'' w3 q3 r3" "integer_at ''zero'' 7 (Some reference_binding) 0 w3"
    using reset_step [OF 2(2)] by auto
  show ?thesis using 1(1) 2(1) 3 by blast
qed

lemma reference_new_runtime: "new_runtime reference_program (Some integer_ports) = Inr reference_runtime"
proof -
  have "program_validate reference_program = None"
    using reference_compiled by (simp add: compiled_def)
  moreover have "first_error (required_error integer_capabilities) integer_sorted = None"
    by code_simp
  ultimately show ?thesis
    by (simp add: new_runtime_def integer_runtime_def del: first_error_None_iff)
qed

lemma seed_bound_world:
  assumes "integer_at ''unbound'' 1 None 0 w"
  shows "\<exists>w'. seed_bound reference_program reference_objective w = Some w'
    \<and> integer_at ''zero'' 7 (Some reference_binding) 0 w'
    \<and> length (iw_receipts w') = length (iw_receipts w) + 3 \<and> iw_commit_count w' = iw_commit_count w + 3
    \<and> iw_executions w' = iw_executions (count_execution ''counter.reset'' (count_execution ''counter.increment-first''
        (count_execution ''objective.bind'' w)))"
proof -
  obtain q1 r1 w1 q2 r2 w2 q3 r3 w3 where s: "integer_steps w ''objective.bind'' w1 q1 r1"
    "integer_steps w1 ''counter.increment-first'' w2 q2 r2" "integer_steps w2 ''counter.reset'' w3 q3 r3"
    "integer_at ''zero'' 7 (Some reference_binding) 0 w3"
    using seeded [OF assms] by blast
  have "seed_bound reference_program reference_objective w = Some w3"
    unfolding seed_bound_def reference_new_runtime
    by (simp add: seed_step [OF s(1)] seed_step [OF s(2)] seed_step [OF s(3)] act_return_def del: seed_transitions.simps(2))
  then show ?thesis
    using s by (auto simp: integer_steps_def count_execution_def)
qed

lemma at_mode_update:
  "(at_mode m n b)\<lparr>s_mode := m'\<rparr> = at_mode m' n b" "(at_mode m n b)\<lparr>s_binding := b'\<rparr> = at_mode m n b'"
  by (simp_all add: at_mode_def)

definition setup_world :: "setup_kind \<Rightarrow> integer_world" where
  "setup_world kind =
     (if kind = Setup_concurrent_same_base then fixture_world (at_mode ''zero'' 1 (Some reference_binding)) 0
      else if kind = Setup_maintenance_absent then fixture_world (at_mode ''one'' 1 None) 1
      else if kind = Setup_maintenance_bound then fixture_world (at_mode ''one'' 1 (Some reference_binding)) 1
      else fixture_world (at_mode ''unbound'' 1 None) 0)"

lemma setup_state_reference:
  "\<exists>s v. setup_state kind reference_program reference_objective = Some (s, v) \<and> setup_world kind = fixture_world s v"
  using reference_binding(1)
  by (simp add: setup_state_def setup_world_def initial_at_mode Let_def at_mode_update)

lemma new_fixture:
  assumes "setup_valid kind"
  shows "\<exists>fx. new_integer_fixture kind = Some fx \<and> fx_program fx = reference_program
    \<and> fx_objective fx = reference_objective \<and> fx_authority fx = fixture_authority
    \<and> objective_validate (fx_revised fx) = None \<and> objective_validate (fx_conflicting fx) = None
    \<and> o_id (fx_revised fx) = ''reach-two'' \<and> o_revision (fx_revised fx) = 2
    \<and> compiled (fx_alternate fx) \<and> alternate_program reference_program = Inr (fx_alternate fx)
    \<and> (if kind = Setup_bound then seed_bound reference_program reference_objective (setup_world kind) = Some (fx_world fx)
       else fx_world fx = setup_world kind)"
proof -
  have "semantic_id ''reach-two''" "semantic_id ''other''" by code_simp+
  then obtain revised conflicting where o: "integer_objective ''reach-two'' 2 3 = Inr revised"
      "integer_objective ''other'' 1 0 = Inr conflicting" "objective_validate revised = None"
      "objective_validate conflicting = None" "o_id revised = ''reach-two''" "o_revision revised = 2"
    using integer_objective_Inr [of "''reach-two''" 2 3] integer_objective_Inr [of "''other''" 1 0] by auto
  obtain alternate where alt: "alternate_program reference_program = Inr alternate" "compiled alternate"
    using alternate_program_Inr by blast
  obtain s v where st: "setup_state kind reference_program reference_objective = Some (s, v)" "setup_world kind = fixture_world s v"
    using setup_state_reference by blast
  have "\<exists>w. (if kind = Setup_bound then seed_bound reference_program reference_objective (fixture_world s v)
      else Some (fixture_world s v)) = Some w"
  proof (cases "kind = Setup_bound")
    case True
    then have "integer_at ''unbound'' 1 None 0 (fixture_world s v)"
      using st(2) integer_at_world [of "''unbound''" 1 None 0] by (simp add: setup_world_def)
    then show ?thesis
      using seed_bound_world True by auto
  qed simp
  then obtain w where w: "(if kind = Setup_bound then seed_bound reference_program reference_objective (fixture_world s v)
      else Some (fixture_world s v)) = Some w" by blast
  show ?thesis
    unfolding new_integer_fixture_def reference_program reference_objective(1) sum.case o(1,2) alt(1) st(1)
      option.case prod.case w
    using assms o alt w st(2) by (auto split: if_splits)
qed

text \<open>
  The factory of the reference fixtures panics exactly for an unknown setup. The bound
  fixture starts from a committed history: its seeding binds, increments and resets through the
  runtime, so that it is in mode zero, bound to its objective and at value zero, seven revisions
  on, with three receipts, three commits and one execution of each transition.
\<close>

theorem fixture_factory:
  "(new_integer_fixture kind = None \<longleftrightarrow> \<not> setup_valid kind)
    \<and> (\<exists>fx b. new_integer_fixture Setup_bound = Some fx
        \<and> s_mode (iw_state (fx_world fx)) = ''zero'' \<and> s_revision (iw_state (fx_world fx)) = 7
        \<and> s_recovery (iw_state (fx_world fx)) = None
        \<and> s_binding (iw_state (fx_world fx)) = Some b \<and> binding_matches b (fx_objective fx)
        \<and> iw_value (fx_world fx) = 0 \<and> length (iw_receipts (fx_world fx)) = 3 \<and> iw_commit_count (fx_world fx) = 3
        \<and> effect_counts (fx_world fx) = [''objective.bind'' \<mapsto> 1, ''counter.increment-first'' \<mapsto> 1, ''counter.reset'' \<mapsto> 1])"
proof (rule conjI)
  show "new_integer_fixture kind = None \<longleftrightarrow> \<not> setup_valid kind"
    using new_fixture [of kind] by (auto simp: new_integer_fixture_def)
  let ?w = "setup_world Setup_bound"
  have at: "integer_at ''unbound'' 1 None 0 ?w" and w: "iw_receipts ?w = []" "iw_commit_count ?w = 0" "iw_executions ?w = Map.empty"
    using integer_at_world [of "''unbound''" 1 None 0] by (simp_all add: setup_world_def fixture_world_def)
  obtain fx where fx: "new_integer_fixture Setup_bound = Some fx" "fx_objective fx = reference_objective"
      "seed_bound reference_program reference_objective ?w = Some (fx_world fx)"
    using new_fixture [of Setup_bound] by (auto simp: setup_valid_def)
  have "integer_at ''zero'' 7 (Some reference_binding) 0 (fx_world fx)" "length (iw_receipts (fx_world fx)) = 3"
    "iw_commit_count (fx_world fx) = 3"
    "iw_executions (fx_world fx) = [''objective.bind'' \<mapsto> 1, ''counter.increment-first'' \<mapsto> 1, ''counter.reset'' \<mapsto> 1]"
    using seed_bound_world [OF at] fx(3) w by (auto simp: count_execution_def)
  then show "\<exists>fx b. new_integer_fixture Setup_bound = Some fx
        \<and> s_mode (iw_state (fx_world fx)) = ''zero'' \<and> s_revision (iw_state (fx_world fx)) = 7
        \<and> s_recovery (iw_state (fx_world fx)) = None
        \<and> s_binding (iw_state (fx_world fx)) = Some b \<and> binding_matches b (fx_objective fx)
        \<and> iw_value (fx_world fx) = 0 \<and> length (iw_receipts (fx_world fx)) = 3 \<and> iw_commit_count (fx_world fx) = 3
        \<and> effect_counts (fx_world fx) = [''objective.bind'' \<mapsto> 1, ''counter.increment-first'' \<mapsto> 1, ''counter.reset'' \<mapsto> 1]"
    using fx by (intro exI [of _ fx] exI [of _ reference_binding]) (simp add: integer_at_def effect_counts_def)
qed

end
