(* ===== verification/Kernel_Examples.thy ===== *)
theory Kernel_Examples
  imports Conformance_Run
begin

text \<open>
  The kernel's theorems at work on the reference domain: each is applied to a run of the integer
  fixtures in which all its hypotheses hold.
\<close>

section \<open>The runs\<close>

abbreviation unbound_world :: integer_world where
  "unbound_world \<equiv> setup_world Setup_unbound"

abbreviation bound_request :: "string \<Rightarrow> resolve_request" where
  "bound_request i \<equiv> fixture_request reference_objective i"

abbreviation reference_apply :: "string \<Rightarrow> integer_world \<Rightarrow> apply_request" where
  "reference_apply i w \<equiv> resolved_apply reference_runtime (bound_request i) w"

lemma reference_kernel: "kernel_ports (run_ports reference_runtime) iw_state iw_receipts integer_effects"
  using integer.kernel_ports_axioms by simp

lemma reference_runtime_compiled: "compiled (run_program reference_runtime)"
  using reference_compiled by simp

lemma unbound_at: "integer_at ''unbound'' 1 None 0 unbound_world"
  using integer_at_world [of "''unbound''" 1 None 0] by (simp add: setup_world_def)

lemma same_base_at: "integer_at ''zero'' 1 (Some reference_binding) 0 (setup_world Setup_concurrent_same_base)"
  using integer_at_world [of "''zero''" 1 "Some reference_binding" 0] by (simp add: setup_world_def)

lemma steps_separated: "integer_steps w i w' q rcp \<Longrightarrow> i \<noteq> [] \<Longrightarrow> separated reference_runtime (reference_apply i w)"
  by (auto simp: integer_steps_def fixture_request_def intro: separated_requested)

lemma steps_apply:
  "integer_steps w i w' q rcp \<Longrightarrow> apply_transition reference_runtime (reference_apply i w) w = (Returned rcp, w')"
  by (simp add: integer_steps_def)

lemma issued_transition: "issued s ob t obj auth req q \<Longrightarrow> px_transition q = t_id t"
  by (simp add: issued_def)

text \<open>An interrupted increment of the fixture of the concurrent setup.\<close>

definition interrupted_world :: integer_world where
  "interrupted_world = interrupt_next (setup_world Setup_concurrent_same_base)"

lemma interrupted_increment:
  "\<exists>e w' q. apply_transition reference_runtime (reference_apply ''counter.increment-first'' interrupted_world) interrupted_world
      = (Failed e, w') \<and> is_recovery_required e
    \<and> iw_state w' = attempt_state q (at_mode ''zero'' 1 (Some reference_binding))
    \<and> integer_effects w' \<noteq> integer_effects interrupted_world \<and> iw_receipts w' = iw_receipts interrupted_world
    \<and> separated reference_runtime (reference_apply ''counter.increment-first'' interrupted_world)"
proof -
  let ?w = interrupted_world
  have w: "iw_state ?w = at_mode ''zero'' 1 (Some reference_binding)" "iw_value ?w = 0" "iw_interrupt ?w"
    "\<not> iw_locked ?w" "iw_commit_failures ?w \<le> 0" "iw_time ?w = fixture_time"
    by (simp_all add: interrupted_world_def interrupt_next_def setup_world_def fixture_world_def)
  then have steady: "integer_steady reference_program ?w"
    using at_mode_valid [of "''zero''" 1 "Some reference_binding"] by (simp add: integer_steady_def)
  have c: "s_mode (iw_state ?w) \<in> set (t_sources first_t)" "recovery_compatible (iw_state ?w) first_t"
    "objective_for (iw_state ?w) (Some reference_objective) first_t = (Some reference_objective, [])"
    "admits (t_operation first_t) (iw_state ?w) (Some reference_objective) (iw_value ?w)"
    "t_operation first_t = ''counter.increment''"
    using reference_objectives(2) w(1,2) by (simp_all add: recovery_compatible_def admits_def) (simp_all add: transition_defs)
  obtain e q where run: "apply_transition reference_runtime (reference_apply (t_id first_t) ?w) ?w =
      (Failed e, (count_execution (t_id first_t) ?w)\<lparr>iw_value := iw_value ?w + 1, iw_interrupt := False,
         iw_state := attempt_state q (iw_state ?w)\<rparr>)" "is_recovery_required e"
    using reference_interrupted [OF reference_members(2) steady c(1-4) w(3) c(5)] by blast
  obtain q' where q': "reference_apply (t_id first_t) ?w = \<lparr>aq_resolve = bound_request (t_id first_t), aq_prescription = q'\<rparr>"
    "px_transition q' = t_id first_t"
    using reference_resolves [OF reference_members(2) steady c(1-4)] issued_transition by blast
  have "separated reference_runtime (reference_apply (t_id first_t) ?w)"
    using q' by (intro separated_requested) (simp_all add: fixture_request_def)
  then show ?thesis
    using run w
    by (intro exI [of _ e] exI [of _ "(count_execution (t_id first_t) ?w)\<lparr>iw_value := iw_value ?w + 1,
          iw_interrupt := False, iw_state := attempt_state q (iw_state ?w)\<rparr>"] exI [of _ q] conjI)
       (simp_all add: integer_effects_def count_execution_def)
qed

section \<open>Types, programs and relation\<close>

lemma new_objective_binds_witness:
  "\<exists>b. bind_objective reference_objective = Inr b \<and> binding_validate b = None \<and> binding_matches b reference_objective"
  using new_objective_binds [OF reference_objective(1) [unfolded integer_objective_def]] by blast

lemma normalize_capabilities_canonical_witness:
  "normalize_capabilities [''counter.reset'', ''counter.audit''] = Inr [''counter.audit'', ''counter.reset'']"
proof -
  have "normalize_capabilities [''counter.audit'', ''counter.reset'', ''counter.audit''] = Inr [''counter.audit'', ''counter.reset'']"
    by code_simp
  moreover have "set [''counter.reset'', ''counter.audit''] = set [''counter.audit'', ''counter.reset'', ''counter.audit'']"
    by auto
  ultimately show ?thesis
    using normalize_capabilities_canonical by blast
qed

lemma authority_project_exact_witness:
  "\<exists>p. authority_project fixture_authority fixture_time = Inr p
    \<and> set (ap_capabilities p) = {''counter.audit'', ''counter.increment'', ''counter.reset'', ''objective.bind''}"
proof -
  obtain p where p: "authority_project fixture_authority fixture_time = Inr p"
    using fixture_authority_projects by blast
  show ?thesis
    using p authority_project_exact [OF p] by (intro exI [of _ p]) (simp add: fixture_authority_def)
qed

lemma compile_roundtrip_witness:
  "program_validate reference_program = None
    \<and> compile_program ''integer-control'' ''1.0.0'' ''kernel-v1'' ''unbound'' [''two''] integer_sorted = Inr reference_program"
  using compile_roundtrip [OF reference_program [unfolded integer_program_def compile_program_def]]
  by (simp add: compile_program_def)

lemma compile_order_free_witness:
  "compile_program ''integer-control'' ''1.0.0'' ''kernel-v1'' ''unbound'' [''two''] (rev integer_transitions) = Inr reference_program"
  unfolding compile_program_def
  by (rule compile_order_free [OF reference_program [unfolded integer_program_def compile_program_def]])
     (simp_all add: rev_map [symmetric])

lemma valid_program_recoverable_witness:
  "\<exists>r\<in>set integer_sorted. t_id first_t \<in> set (t_recovers r) \<and> set (t_sources first_t) \<subseteq> set (t_sources r)
    \<and> t_scope r \<noteq> Objective_bound_exact \<and> t_mutation r = Preserve_objective"
  using valid_program_recoverable [of reference_program first_t] reference_compiled reference_members(2)
  by (simp add: compiled_def) (simp add: transition_defs)

lemma lookup_exact_witness: "program_transition (program_clone reference_program) ''counter.increment-first'' = Some first_t"
  using lookup_exact [of reference_program "''counter.increment-first''" first_t] reference_compiled reference_members(2)
  by (simp add: compiled_def)

abbreviation plain_candidate :: "string \<Rightarrow> int \<Rightarrow> string list \<Rightarrow> relation_candidate" where
  "plain_candidate i priority required \<equiv>
     \<lparr>rc_id = i, rc_rank = 0, rc_priority = priority, rc_selectable = True, rc_required_all = required, rc_required_any = []\<rparr>"

definition sample_relation :: relation_input where
  "sample_relation =
     \<lparr>ri_requested = [], ri_marked = False, ri_no_candidate = None,
      ri_candidates = [plain_candidate ''counter.reset'' 20 [''counter.reset''],
        plain_candidate ''counter.increment-second'' 10 [''counter.increment'']],
      ri_available = [''counter.increment'']\<rparr>"


lemma sample_relation_decision: "d_kind (relate sample_relation) = Prescribed \<and> d_transition (relate sample_relation) = ''counter.increment-second''"
  by code_simp

lemma relate_prescribes_exactly_witness:
  "\<exists>c\<in>set (ri_candidates sample_relation). rc_id c = ''counter.increment-second''
    \<and> strictly_preferred (eligible sample_relation) c \<and> authorized c {''counter.increment''}"
proof -
  have "ri_no_candidate sample_relation \<noteq> Some Prescribed" "set (ri_available sample_relation) = {''counter.increment''}"
    by (simp_all add: sample_relation_def)
  then show ?thesis
    using relate_prescribes_exactly [of sample_relation "''counter.increment-second''"] sample_relation_decision by auto
qed

lemma relate_order_free_witness:
  "relate (sample_relation\<lparr>ri_candidates := rev (ri_candidates sample_relation)\<rparr>) = relate sample_relation"
  by (rule relate_order_free) simp_all

lemma relate_requested_agrees_witness:
  "d_transition (relate (sample_relation\<lparr>ri_requested := ''counter.increment-second''\<rparr>)) = ''counter.increment-second''"
  using relate_requested_agrees [of sample_relation "''counter.increment-second''"] sample_relation_decision
  by (simp add: sample_relation_def)

lemma relate_trace_faithful_witness:
  "fst (relate_with_trace sample_relation) = relate sample_relation
    \<and> map c_transition (snd (relate_with_trace sample_relation)) = [''counter.reset'', ''counter.increment-second'']"
proof -
  have "ri_no_candidate sample_relation \<noteq> Some Prescribed" "distinct (map rc_id (ri_candidates sample_relation))"
    "map rc_id (ri_candidates sample_relation) = [''counter.reset'', ''counter.increment-second'']"
    by (simp_all add: sample_relation_def)
  then show ?thesis
    using relate_trace_faithful [of sample_relation] by simp
qed

section \<open>Runtime\<close>

lemma capabilities_never_weakened_witness:
  "required_capabilities integer_capabilities first_t = Inr [''counter.increment'']
    \<and> set [''counter.increment''] = set (t_required first_t) \<union> {''counter.increment''}"
proof -
  have r: "required_capabilities integer_capabilities first_t = Inr [''counter.increment'']"
    "integer_capabilities first_t = Inr [''counter.increment'']"
    by code_simp+
  show ?thesis
    using capabilities_never_weakened [OF r] r(1) by simp
qed

lemma objective_for_exact_witness:
  "objective_for (at_mode ''zero'' 1 (Some reference_binding)) (Some reference_objective) first_t = (Some reference_objective, [])
    \<and> objective_validate reference_objective = None"
  using objective_for_exact [OF reference_objectives(2) [of "''zero''" 1]] reference_objectives(2) by auto

lemma prescription_identity_exact_witness:
  "\<exists>p auth. validate_current p (at_mode ''unbound'' 1 None) (value_observation 0) auth = None
    \<and> validate_current p (at_mode ''unbound'' 2 None) (value_observation 0) auth \<noteq> None"
proof -
  let ?s = "at_mode ''unbound'' 1 None"
  obtain auth where "authority_project fixture_authority fixture_time = Inr auth"
    using fixture_authority_projects by blast
  then obtain q where "issued ?s (value_observation 0) bind_t (Some reference_objective) auth [''objective.bind''] q"
    using new_prescription_total [of ?s "value_observation 0" auth bind_t "Some reference_objective"]
      at_mode_valid authority_project_fingerprint reference_objective(2) by fastforce
  then have v: "validate_current q ?s (value_observation 0) auth = None"
    by (rule issued_current)
  then show ?thesis
    using prescription_identity_exact [OF v, of "at_mode ''unbound'' 2 None" "value_observation 0" auth]
    by (intro exI [of _ q] exI [of _ auth]) simp
qed

lemma bind_run:
  "\<exists>q rcp w'. integer_steps unbound_world ''objective.bind'' w' q rcp \<and> integer_at ''zero'' 3 (Some reference_binding) 0 w'"
  using bind_step [OF unbound_at] by simp

lemma first_run:
  "\<exists>q rcp w'. integer_steps (setup_world Setup_concurrent_same_base) ''counter.increment-first'' w' q rcp
    \<and> integer_at ''one'' 3 (Some reference_binding) 1 w'"
  using first_step [OF same_base_at] by simp

lemma apply_atomic_witness:
  "\<exists>t\<in>set integer_sorted. \<exists>requested rcp w'.
     apply_transition reference_runtime (reference_apply ''objective.bind'' unbound_world) unbound_world = (Returned rcp, w')
     \<and> iw_receipts w' = [rcp] \<and> receipt_validate rcp = None
     \<and> iw_state w' = target_state t requested
         (attempt_state (aq_prescription (reference_apply ''objective.bind'' unbound_world)) (iw_state unbound_world))"
proof -
  obtain q rcp w' where s: "integer_steps unbound_world ''objective.bind'' w' q rcp"
    using bind_run by blast
  have "iw_receipts w' = [rcp]"
    using s by (simp add: integer_steps_def setup_world_def fixture_world_def)
  then show ?thesis
    using apply_atomic [OF reference_kernel reference_runtime_compiled steps_separated [OF s] steps_apply [OF s]]
      steps_apply [OF s] by (fastforce simp: setup_world_def fixture_world_def)
qed

lemma apply_success_witness:
  "\<exists>rcp w'. apply_transition reference_runtime (reference_apply ''objective.bind'' unbound_world) unbound_world = (Returned rcp, w')
    \<and> rcp_transition rcp = ''objective.bind'' \<and> s_recovery (iw_state w') = None
    \<and> s_revision (iw_state w') = 3 \<and> rcp_result_revision rcp = 3"
proof -
  obtain q rcp w' where s: "integer_steps unbound_world ''objective.bind'' w' q rcp"
    using bind_run by blast
  have "px_transition (aq_prescription (reference_apply ''objective.bind'' unbound_world)) = ''objective.bind''"
    "s_revision (iw_state unbound_world) = 1"
    using s unbound_at by (simp_all add: integer_steps_def integer_at_def)
  then show ?thesis
    using apply_success [OF reference_kernel reference_runtime_compiled steps_separated [OF s] steps_apply [OF s]]
      steps_apply [OF s] by auto
qed

lemma effect_leaves_obligation_witness:
  "\<exists>e w'. apply_transition reference_runtime (reference_apply ''counter.increment-first'' interrupted_world) interrupted_world
      = (Failed e, w') \<and> (\<exists>o'. s_recovery (iw_state w') = Some o')"
proof -
  obtain e w' where r: "apply_transition reference_runtime (reference_apply ''counter.increment-first'' interrupted_world)
      interrupted_world = (Failed e, w')" "integer_effects w' \<noteq> integer_effects interrupted_world"
    "iw_receipts w' = iw_receipts interrupted_world"
    "separated reference_runtime (reference_apply ''counter.increment-first'' interrupted_world)"
    using interrupted_increment by blast
  show ?thesis
    using effect_leaves_obligation [OF reference_kernel reference_runtime_compiled r(4,1,2,3)] r(1) by blast
qed

lemma operator_runs_under_obligation_witness:
  "apply_transition (reference_runtime\<lparr>run_ports := guarded iw_state (run_ports reference_runtime)\<rparr>)
      (reference_apply ''objective.bind'' unbound_world) unbound_world
    = apply_transition reference_runtime (reference_apply ''objective.bind'' unbound_world) unbound_world"
  by (rule operator_runs_under_obligation [OF reference_kernel])

lemma stale_prescription_refused_witness:
  "\<exists>q rcp w' res v. integer_steps unbound_world ''objective.bind'' w' q rcp
    \<and> apply_transition reference_runtime (reference_apply ''objective.bind'' unbound_world) w' = (res, v)
    \<and> (\<forall>rcp. res \<noteq> Returned rcp) \<and> iw_state v = iw_state w'"
proof -
  obtain q rcp w' where s: "integer_steps unbound_world ''objective.bind'' w' q rcp" "integer_at ''zero'' 3 (Some reference_binding) 0 w'"
    using bind_run by blast
  obtain res v where run: "apply_transition reference_runtime (reference_apply ''objective.bind'' unbound_world) w' = (res, v)"
    by fastforce
  have "px_expected q = None"
    using s(1) unbound_at by (simp add: integer_steps_def integer_at_def)
  then have "px_expected (aq_prescription (reference_apply ''objective.bind'' unbound_world)) \<noteq> s_binding (iw_state w')"
    using s by (simp add: integer_steps_def integer_at_def)
  then show ?thesis
    using stale_prescription_refused [OF reference_kernel reference_runtime_compiled steps_separated [OF s(1)] run] run s(1)
    by blast
qed


lemma replay_refused_witness:
  "\<exists>q rcp w' res v. integer_steps unbound_world ''objective.bind'' w' q rcp
    \<and> apply_transition reference_runtime (reference_apply ''objective.bind'' unbound_world) (change_observation w') = (res, v)
    \<and> (\<forall>rcp. res \<noteq> Returned rcp) \<and> iw_receipts v = iw_receipts w'"
proof -
  obtain q rcp w' where s: "integer_steps unbound_world ''objective.bind'' w' q rcp"
    using bind_run by blast
  obtain res v where run: "apply_transition reference_runtime (reference_apply ''objective.bind'' unbound_world)
      (change_observation w') = (res, v)"
    by fastforce
  have "(\<forall>rcp. res \<noteq> Returned rcp) \<and> iw_state v = iw_state (change_observation w')
      \<and> iw_receipts v = iw_receipts (change_observation w') \<and> integer_effects v = integer_effects (change_observation w')"
    by (rule replay_refused [OF reference_kernel reference_runtime_compiled steps_separated [OF s] steps_separated [OF s]
        steps_apply [OF s] _ _ _ run]) (simp_all add: change_observation_def)
  moreover have "iw_receipts (change_observation w') = iw_receipts w'"
    by (simp add: change_observation_def)
  ultimately show ?thesis
    using run s by metis
qed

lemma resolve_reads_only_and_soundly_witness:
  "\<exists>rs q. resolve reference_runtime (bound_request ''objective.bind'') unbound_world = (Returned rs, unbound_world)
    \<and> rs_prescription rs = Some q \<and> (\<exists>t\<in>set integer_sorted. t_id t = px_transition q \<and> ''unbound'' \<in> set (t_sources t))"
proof -
  obtain q rcp w' rs where s: "integer_steps unbound_world ''objective.bind'' w' q rcp"
    "resolve reference_runtime (bound_request ''objective.bind'') unbound_world = (Returned rs, unbound_world)"
    "rs_prescription rs = Some q"
    using bind_run unfolding integer_steps_def by blast
  have "iw_state unbound_world = at_mode ''unbound'' 1 None"
    using unbound_at by (simp add: integer_at_def)
  then show ?thesis
    using resolve_reads_only_and_soundly [OF reference_kernel reference_runtime_compiled s(2)] s(2,3) by auto
qed

section \<open>Histories\<close>

lemma history_ledger_witness:
  "\<exists>q rcp w'. integer_steps unbound_world ''objective.bind'' w' q rcp \<and> ledger_ok (iw_state w') (iw_receipts w')"
proof -
  obtain q rcp w' where s: "integer_steps unbound_world ''objective.bind'' w' q rcp"
    using bind_run by blast
  have st: "iw_state unbound_world = at_mode ''unbound'' 1 None" "iw_receipts unbound_world = []"
    using unbound_at by (simp_all add: integer_at_def) (simp add: setup_world_def fixture_world_def)
  have "history reference_runtime iw_state iw_receipts unbound_world w'"
    by (rule history.application [OF history.start steps_separated [OF s] _ steps_apply [OF s]]) (simp_all add: st)
  moreover have "ledger_ok (iw_state unbound_world) (iw_receipts unbound_world)"
    using at_mode_valid by (simp add: ledger_ok_def st)
  ultimately show ?thesis
    using history_ledger [OF reference_kernel reference_runtime_compiled] s by blast
qed

lemma interrupted_attempt_recoverable_witness:
  "\<exists>q. px_transition q = ''counter.increment-first'' \<and> (\<exists>x\<in>set integer_sorted. t_recovers x \<noteq> []
    \<and> (\<exists>ct obj. screen_candidate (attempt_state q (at_mode ''zero'' 1 None)) (bound_request []) x = Inr (ct, obj)))"
proof -
  define q :: prescription where "q = \<lparr>px_schema = 2, px_id = ''prx'', px_transition = ''counter.increment-first'',
    px_freshness = \<lparr>fr_instance = [], fr_revision = 1, fr_program = [], fr_snapshot = [], fr_binding = [], fr_authority = []\<rparr>,
    px_expected = None, px_requested = None, px_required = []\<rparr>"
  have "s_mode (at_mode ''zero'' 1 None) \<in> set (t_sources first_t)" "recovery_compatible (at_mode ''zero'' 1 None) first_t"
    by (simp_all add: recovery_compatible_def) (simp_all add: transition_defs)
  moreover have "px_transition q = t_id first_t" by (simp add: q_def)
  ultimately show ?thesis
    using interrupted_attempt_recoverable [OF reference_compiled, of first_t "at_mode ''zero'' 1 None" q] reference_members(2)
    by (intro exI [of _ q]) (fastforce simp: fixture_request_def)
qed

text \<open>
  The end of the counter: an instance whose next transition is the last, and one at the last
  revision, for which a prescription is still issued.
\<close>

definition last_world :: integer_world where
  "last_world = fixture_world (at_mode ''unbound'' (- 2) None) 0"

definition exhausted_world :: integer_world where
  "exhausted_world = fixture_world (at_mode ''unbound'' (- 1) None) 0"

lemma exhausted_prescribed:
  "\<exists>rs q. resolve reference_runtime (bound_request ''objective.bind'') exhausted_world = (Returned rs, exhausted_world)
    \<and> rs_prescription rs = Some q
    \<and> reference_apply ''objective.bind'' exhausted_world
        = \<lparr>aq_resolve = bound_request ''objective.bind'', aq_prescription = q\<rparr>
    \<and> px_transition q = ''objective.bind''"
proof -
  let ?w = exhausted_world
  have w: "iw_state ?w = at_mode ''unbound'' (- 1) None" "iw_value ?w = 0" "iw_time ?w = fixture_time"
    by (simp_all add: exhausted_world_def fixture_world_def)
  obtain auth where auth: "authority_project fixture_authority fixture_time = Inr auth"
    "ap_capabilities auth = [''counter.audit'', ''counter.increment'', ''counter.reset'', ''objective.bind'']"
    using fixture_authority_projects by blast
  have t: "bind_t \<in> set integer_sorted" "t_id bind_t = ''objective.bind''" "''unbound'' \<in> set (t_sources bind_t)"
    "t_recovers bind_t = []" "t_operation bind_t = ''objective.bind''"
    using reference_members(1) by (simp_all add: transition_defs)
  have "state_validate (iw_state ?w) = None"
    using at_mode_valid [of "''unbound''" "- 1" None] w(1) by simp
  moreover have "objective_for (iw_state ?w) (Some reference_objective) bind_t = (Some reference_objective, [])"
    "recovery_compatible (iw_state ?w) bind_t"
    "admits (t_operation bind_t) (iw_state ?w) (Some reference_objective) (iw_value ?w)"
    using reference_objectives(1) t w by (simp_all add: recovery_compatible_def admits_def)
  ultimately have "integer_admitted reference_program (bound_request ''objective.bind'') (iw_state ?w) (iw_value ?w) bind_t
      (Some reference_objective) auth (t_required bind_t)"
    using auth reference_required t w(1)
    by (auto simp: integer_admitted_def fixture_request_def list_all_iff screen_candidate_Inr)
  from integer_resolves [OF reference_compiled this w(3)] obtain rs q where
    r: "resolve reference_runtime (bound_request ''objective.bind'') ?w = (Returned rs, ?w)" "rs_prescription rs = Some q"
    "issued (iw_state ?w) (value_observation (iw_value ?w)) bind_t (Some reference_objective) auth (t_required bind_t) q"
    by blast
  then show ?thesis
    using issued_transition [OF r(3)] t(2) by (intro exI [of _ rs] exI [of _ q]) (simp add: resolved_apply_def)
qed

lemma revision_exhaustion_witness:
  "(\<exists>rcp w'. apply_transition reference_runtime (reference_apply ''objective.bind'' last_world) last_world = (Returned rcp, w')
      \<and> s_revision (iw_state w') = 0 \<and> state_validate (iw_state w') \<noteq> None)
    \<and> (\<exists>rs q res w'. resolve reference_runtime (bound_request ''objective.bind'') exhausted_world = (Returned rs, exhausted_world)
      \<and> rs_prescription rs = Some q
      \<and> apply_transition reference_runtime (reference_apply ''objective.bind'' exhausted_world) exhausted_world = (res, w')
      \<and> (\<forall>rcp. res \<noteq> Returned rcp) \<and> iw_state w' = iw_state exhausted_world)"
proof (intro conjI)
  have "integer_at ''unbound'' (- 2) None 0 last_world"
    using integer_at_world [of "''unbound''" "- 2" None 0] by (simp add: last_world_def)
  moreover have "(- 2 :: u64) \<noteq> 0" "(- 2 :: u64) + 1 \<noteq> 0"
    by simp_all
  ultimately obtain q rcp w' where s: "integer_steps last_world ''objective.bind'' w' q rcp"
    using bind_step by blast
  have "s_revision (iw_state last_world) = - 2"
    by (simp add: last_world_def fixture_world_def)
  then show "\<exists>rcp w'. apply_transition reference_runtime (reference_apply ''objective.bind'' last_world) last_world = (Returned rcp, w')
      \<and> s_revision (iw_state w') = 0 \<and> state_validate (iw_state w') \<noteq> None"
    using revision_exhaustion [OF reference_kernel reference_runtime_compiled steps_separated [OF s] steps_apply [OF s]]
      steps_apply [OF s] by auto
next
  obtain rs q where r: "resolve reference_runtime (bound_request ''objective.bind'') exhausted_world = (Returned rs, exhausted_world)"
    "rs_prescription rs = Some q"
    and a: "reference_apply ''objective.bind'' exhausted_world
        = \<lparr>aq_resolve = bound_request ''objective.bind'', aq_prescription = q\<rparr>" "px_transition q = ''objective.bind''"
    using exhausted_prescribed by blast
  obtain res w' where run: "apply_transition reference_runtime (reference_apply ''objective.bind'' exhausted_world)
      exhausted_world = (res, w')"
    by fastforce
  have "separated reference_runtime (reference_apply ''objective.bind'' exhausted_world)"
    unfolding a(1) by (rule separated_requested) (simp_all add: a(2) fixture_request_def)
  moreover have "s_revision (iw_state exhausted_world) = - 1"
    by (simp add: exhausted_world_def fixture_world_def)
  ultimately show "\<exists>rs q res w'. resolve reference_runtime (bound_request ''objective.bind'') exhausted_world
        = (Returned rs, exhausted_world) \<and> rs_prescription rs = Some q
      \<and> apply_transition reference_runtime (reference_apply ''objective.bind'' exhausted_world) exhausted_world = (res, w')
      \<and> (\<forall>rcp. res \<noteq> Returned rcp) \<and> iw_state w' = iw_state exhausted_world"
    using revision_exhaustion [OF reference_kernel reference_runtime_compiled _ run] r run by blast
qed

end
