(* ===== verification/Delivery_Facts.thy ===== *)
theory Delivery_Facts
  imports Kernel_Relation
begin

text \<open>
  \<open>boatstack/internal/softwaredelivery/model\<close>, first part: the enumerations of the software
  delivery domain (\<open>state.go\<close>), observed facts with their evidence (\<open>fact.go\<close>), invocation
  identity (\<open>identity.go\<close>), objectives (\<open>objective.go\<close>) and the domains of durable state
  (\<open>state_facet.go\<close>).

  The enumerations are Go string types, so a value of any bytes can be stored in them; they
  are strings here, with \<open>Valid\<close> as a predicate. Names of the software-delivery domain that
  the kernel uses as well carry the prefix \<open>sd_\<close>.
\<close>

section \<open>Enumerations\<close>

type_synonym protocol_phase = string

abbreviation Phase_dormant :: protocol_phase where "Phase_dormant \<equiv> ''DORMANT''"
abbreviation Phase_observed :: protocol_phase where "Phase_observed \<equiv> ''OBSERVED''"
abbreviation Phase_active :: protocol_phase where "Phase_active \<equiv> ''ACTIVE''"
abbreviation Phase_recovery :: protocol_phase where "Phase_recovery \<equiv> ''RECOVERY''"
abbreviation Phase_unresolved :: protocol_phase where "Phase_unresolved \<equiv> ''UNRESOLVED''"
abbreviation Phase_frontier :: protocol_phase where "Phase_frontier \<equiv> ''FRONTIER''"
abbreviation Phase_terminal :: protocol_phase where "Phase_terminal \<equiv> ''TERMINAL''"
abbreviation Phase_abandoned :: protocol_phase where "Phase_abandoned \<equiv> ''ABANDONED''"

definition ordered_protocol_phases :: "protocol_phase list" where
  "ordered_protocol_phases =
     [''DORMANT'', ''OBSERVED'', ''PRESCRIBED'', ''ADMITTED'', ''EXECUTING_LOCAL'',
      ''EXECUTING_EXTERNAL'', ''VERIFYING'', ''ACTIVE'', ''RECOVERY'', ''UNRESOLVED'',
      ''FRONTIER'', ''TERMINAL'', ''ABANDONED'']"

definition phase_valid :: "protocol_phase \<Rightarrow> bool" where
  "phase_valid p = (p \<in> set ordered_protocol_phases)"

definition is_completion_target :: "protocol_phase \<Rightarrow> bool" where
  "is_completion_target p = (p = Phase_frontier \<or> p = Phase_terminal \<or> p = Phase_abandoned)"

abbreviation Engagement_dormant :: string where "Engagement_dormant \<equiv> ''dormant''"
abbreviation Engagement_command :: string where "Engagement_command \<equiv> ''command''"
abbreviation Engagement_active :: string where "Engagement_active \<equiv> ''active''"

definition engagement_valid :: "string \<Rightarrow> bool" where
  "engagement_valid s =
     (s \<in> {''dormant'', ''command'', ''active'', ''stale'', ''conflicting'', ''invalid''})"

abbreviation Delivery_uninitialized :: string where "Delivery_uninitialized \<equiv> ''uninitialized''"
abbreviation Delivery_planning :: string where "Delivery_planning \<equiv> ''planning''"
abbreviation Delivery_approved :: string where "Delivery_approved \<equiv> ''approved''"
abbreviation Delivery_active :: string where "Delivery_active \<equiv> ''active''"
abbreviation Delivery_gates_passed :: string where "Delivery_gates_passed \<equiv> ''gates-passed''"
abbreviation Delivery_discarded :: string where "Delivery_discarded \<equiv> ''discarded''"
abbreviation Delivery_terminal :: string where "Delivery_terminal \<equiv> ''terminal''"

definition delivery_valid :: "string \<Rightarrow> bool" where
  "delivery_valid s =
     (s \<in> {''uninitialized'', ''planning'', ''approved'', ''active'', ''gates-passed'',
           ''published'', ''amendment'', ''invalid'', ''recovery'', ''discarded'', ''terminal''})"

abbreviation Workspace_absent :: string where "Workspace_absent \<equiv> ''absent''"
abbreviation Workspace_landed :: string where "Workspace_landed \<equiv> ''landed''"
abbreviation Workspace_abandoned :: string where "Workspace_abandoned \<equiv> ''abandoned''"

definition workspace_valid :: "string \<Rightarrow> bool" where
  "workspace_valid s =
     (s \<in> {''absent'', ''cut'', ''active'', ''published'', ''landed'', ''abandoned'',
           ''attention-required''})"

abbreviation Plan_absent :: string where "Plan_absent \<equiv> ''absent''"
abbreviation Plan_approved :: string where "Plan_approved \<equiv> ''approved''"

definition plan_valid :: "string \<Rightarrow> bool" where
  "plan_valid s =
     (s \<in> {''absent'', ''draft'', ''valid'', ''approved'', ''locked'', ''stale'', ''invalid'',
           ''amendment-required''})"

abbreviation Work_package_absent :: string where "Work_package_absent \<equiv> ''absent''"
abbreviation Work_package_valid :: string where "Work_package_valid \<equiv> ''valid''"
abbreviation Work_package_approved :: string where "Work_package_approved \<equiv> ''approved''"

definition work_package_valid :: "string \<Rightarrow> bool" where
  "work_package_valid s = (s \<in> {''absent'', ''valid'', ''approved''})"

abbreviation Configuration_verified :: string where "Configuration_verified \<equiv> ''verified''"
abbreviation Configuration_unsupported :: string where "Configuration_unsupported \<equiv> ''unsupported''"

definition configuration_valid :: "string \<Rightarrow> bool" where
  "configuration_valid s =
     (s \<in> {''verified'', ''stale'', ''divergent'', ''conflicting'', ''unsupported''})"

abbreviation Runtime_absent :: string where "Runtime_absent \<equiv> ''absent''"
abbreviation Runtime_verified :: string where "Runtime_verified \<equiv> ''verified''"

definition runtime_valid :: "string \<Rightarrow> bool" where
  "runtime_valid s =
     (s \<in> {''absent'', ''hydrating'', ''verified'', ''stale'', ''invalid'', ''conflicting'',
           ''wrong-source'', ''partially-published''})"

abbreviation Publication_none :: string where "Publication_none \<equiv> ''none''"
abbreviation Publication_open :: string where "Publication_open \<equiv> ''open''"
abbreviation Publication_closed_unmerged :: string where "Publication_closed_unmerged \<equiv> ''closed-unmerged''"
abbreviation Publication_merged :: string where "Publication_merged \<equiv> ''merged''"
abbreviation Publication_unavailable :: string where "Publication_unavailable \<equiv> ''unavailable''"
abbreviation Publication_conflicting :: string where "Publication_conflicting \<equiv> ''conflicting''"

definition publication_valid :: "string \<Rightarrow> bool" where
  "publication_valid s =
     (s \<in> {''none'', ''candidate'', ''open'', ''closed-unmerged'', ''merged'', ''unavailable'',
           ''conflicting'', ''published-not-landed''})"

abbreviation Verification_unverified :: string where "Verification_unverified \<equiv> ''unverified''"
abbreviation Verification_current :: string where "Verification_current \<equiv> ''current''"
abbreviation Verification_stale :: string where "Verification_stale \<equiv> ''stale''"

definition verification_valid :: "string \<Rightarrow> bool" where
  "verification_valid s =
     (s \<in> {''unverified'', ''current'', ''stale'', ''failed'', ''unresolved''})"

abbreviation Recovery_none :: string where "Recovery_none \<equiv> ''none''"
abbreviation Recovery_escalated :: string where "Recovery_escalated \<equiv> ''escalated''"

definition recovery_valid :: "string \<Rightarrow> bool" where
  "recovery_valid s =
     (s \<in> {''none'', ''resumable'', ''rollback'', ''compensation'', ''reconcile'', ''escalated''})"

abbreviation Transaction_none :: string where "Transaction_none \<equiv> ''none''"

definition transaction_valid :: "string \<Rightarrow> bool" where
  "transaction_valid s =
     (s \<in> {''none'', ''staged'', ''local-applied'', ''external-uncertain'', ''verifying'',
           ''committed'', ''compensating''})"

abbreviation Terminal_nonterminal :: string where "Terminal_nonterminal \<equiv> ''nonterminal''"
abbreviation Terminal_established :: string where "Terminal_established \<equiv> ''established''"

definition terminal_valid :: "string \<Rightarrow> bool" where
  "terminal_valid s =
     (s \<in> {''nonterminal'', ''established'', ''stale'', ''unknown'', ''conflicting''})"

abbreviation Program_unbound :: string where "Program_unbound \<equiv> ''unbound''"
abbreviation Program_current :: string where "Program_current \<equiv> ''current''"
abbreviation Program_drift :: string where "Program_drift \<equiv> ''drift''"

definition program_state_valid :: "string \<Rightarrow> bool" where
  "program_state_valid s = (s \<in> {''unbound'', ''current'', ''drift''})"

lemmas enum_valid_defs = phase_valid_def ordered_protocol_phases_def engagement_valid_def
  delivery_valid_def workspace_valid_def plan_valid_def work_package_valid_def
  configuration_valid_def runtime_valid_def publication_valid_def verification_valid_def
  recovery_valid_def transaction_valid_def terminal_valid_def program_state_valid_def

section \<open>Facts and evidence\<close>

abbreviation Fact_known :: string where "Fact_known \<equiv> ''known''"
abbreviation Fact_absent :: string where "Fact_absent \<equiv> ''absent''"

definition fact_status_valid :: "string \<Rightarrow> bool" where
  "fact_status_valid s =
     (s \<in> {''known'', ''absent'', ''unknown'', ''stale'', ''ambiguous'', ''conflicting''})"

record evidence =
  ev_source :: string
  ev_fingerprint :: string
  ev_revision :: string
  ev_observed_at :: gtime

record 'a fact =
  f_status :: string
  f_value :: 'a
  f_evidence :: "evidence list"
  f_detail :: string

definition known :: "'a \<Rightarrow> evidence \<Rightarrow> 'a fact" where
  "known v e = \<lparr>f_status = Fact_known, f_value = v, f_evidence = [e], f_detail = []\<rparr>"

definition evidence_error :: "string \<Rightarrow> nat \<times> evidence \<Rightarrow> gerror option" where
  "evidence_error name ie =
     (if ev_source (snd ie) = [] \<or> ev_fingerprint (snd ie) = []
      then Some (errorf [Lit name, Lit '': evidence '', Number (int (fst ie)), Lit '' requires source and fingerprint''])
      else None)"

definition fact_validate :: "'a fact \<Rightarrow> string \<Rightarrow> gerror option" where
  "fact_validate f name =
     (if \<not> fact_status_valid (f_status f)
      then Some (errorf [Lit name, Lit '': invalid or missing fact status '', Quoted (f_status f)])
      else if f_status f = Fact_known \<and> f_evidence f = []
      then Some (errorf [Lit name, Lit '': known controlling fact has no evidence''])
      else first_error (evidence_error name) (enumerate 0 (f_evidence f)))"

lemma ball_enumerate: "(\<forall>ie\<in>set (enumerate n xs). P (snd ie)) \<longleftrightarrow> (\<forall>x\<in>set xs. P x)"
  by (metis (no_types, lifting) imageE image_eqI list.set_map map_snd_enumerate)

definition is_known :: "'a fact \<Rightarrow> bool" where
  "is_known f = (f_status f = Fact_known)"

lemma fact_validate_None:
  "fact_validate f name = None \<longleftrightarrow> fact_status_valid (f_status f)
     \<and> (is_known f \<longrightarrow> f_evidence f \<noteq> [])
     \<and> (\<forall>e\<in>set (f_evidence f). ev_source e \<noteq> [] \<and> ev_fingerprint e \<noteq> [])"
proof -
  have "(\<forall>ie\<in>set (enumerate 0 es). evidence_error name ie = None)
      \<longleftrightarrow> (\<forall>e\<in>set es. ev_source e \<noteq> [] \<and> ev_fingerprint e \<noteq> [])" for es
    using ball_enumerate [of 0 es "\<lambda>e. ev_source e \<noteq> [] \<and> ev_fingerprint e \<noteq> []"]
    by (simp add: evidence_error_def)
  then show ?thesis
    by (auto simp: fact_validate_def is_known_def)
qed

text \<open>The name only shows in the text of the error.\<close>

lemma fact_validate_name: "fact_validate f a = None \<longleftrightarrow> fact_validate f b = None"
  by (simp add: fact_validate_None)

lemma known_valid [simp]:
  "fact_validate (known v e) name = None \<longleftrightarrow> ev_source e \<noteq> [] \<and> ev_fingerprint e \<noteq> []"
  by (simp add: fact_validate_None known_def fact_status_valid_def is_known_def)

lemma known_simps [simp]:
  "f_status (known v e) = Fact_known" "f_value (known v e) = v" "f_evidence (known v e) = [e]"
  "is_known (known v e)"
  by (simp_all add: known_def is_known_def)

text \<open>\<open>zeroEvidenceTimes\<close>.\<close>

definition zero_time :: gtime where
  "zero_time = \<lparr>t_nanos = 0, t_offset = 0\<rparr>"

definition zero_evidence_times :: "'a fact \<Rightarrow> 'a fact" where
  "zero_evidence_times f = f\<lparr>f_evidence := map (\<lambda>e. e\<lparr>ev_observed_at := zero_time\<rparr>) (f_evidence f)\<rparr>"

lemma zero_evidence_idem [simp]: "zero_evidence_times (zero_evidence_times f) = zero_evidence_times f"
  by (simp add: zero_evidence_times_def)

lemma zero_evidence_simps [simp]:
  "f_status (zero_evidence_times f) = f_status f" "f_value (zero_evidence_times f) = f_value f"
  "f_detail (zero_evidence_times f) = f_detail f" "is_known (zero_evidence_times f) = is_known f"
  by (simp_all add: zero_evidence_times_def is_known_def)

lemma zero_evidence_validate [simp]:
  "fact_validate (zero_evidence_times f) name = None \<longleftrightarrow> fact_validate f name = None"
  by (simp add: fact_validate_None) (simp add: zero_evidence_times_def)

section \<open>Invocation identity\<close>

definition topology_valid :: "string \<Rightarrow> bool" where
  "topology_valid t = (t = ''embedded'' \<or> t = ''detached'' \<or> t = ''hybrid'')"

record invocation =
  iv_repository_id :: string
  iv_git_common_id :: string
  iv_worktree_id :: string
  iv_ref :: string
  iv_controller_id :: string
  iv_invoking_path :: string
  iv_runtime_version :: string
  iv_runtime_path :: string
  iv_runtime_fingerprint :: string
  iv_topology :: string
  iv_host :: string
  iv_correlation :: string

text \<open>\<open>filepath.IsAbs\<close> and, for an absolute path, \<open>filepath.Clean\<close>, as on Unix.\<close>

definition is_abs :: "string \<Rightarrow> bool" where
  "is_abs path = (path \<noteq> [] \<and> hd path = CHR ''/'')"

fun clean_segments :: "string list \<Rightarrow> string list \<Rightarrow> string list" where
  "clean_segments acc [] = rev acc"
| "clean_segments acc (s # ss) =
     (if s = [] \<or> s = ''.'' then clean_segments acc ss
      else if s = ''..'' then clean_segments (tl acc) ss
      else clean_segments (s # acc) ss)"

definition clean_abs :: "string \<Rightarrow> string" where
  "clean_abs path =
     (case clean_segments [] (split_at (CHR ''/'') path) of
        [] \<Rightarrow> ''/'' | segs \<Rightarrow> concat (map (\<lambda>s. CHR ''/'' # s) segs))"

definition derive_worktree_id :: "string \<Rightarrow> string \<Rightarrow> gerror + string" where
  "derive_worktree_id git_common root =
     (if git_common = [] \<or> root = [] \<or> \<not> is_abs root
      then Inl (errorf [Lit ''worktree identity requires git-common identity and an absolute repository root''])
      else Inr (take 12 (sha256_hex (git_common @ [CHR 0x00] @ clean_abs root))))"

definition invocation_validate :: "invocation \<Rightarrow> bool \<Rightarrow> gerror option" where
  "invocation_validate c effectful =
     (if \<not> topology_valid (iv_topology c)
      then Some (errorf [Lit ''invocation: invalid topology '', Quoted (iv_topology c)])
      else if iv_repository_id c = [] \<or> iv_git_common_id c = [] \<or> iv_controller_id c = []
      then Some (errorf [Lit ''invocation: repository, git-common, and controller identity are required''])
      else if iv_invoking_path c = [] \<or> \<not> is_abs (iv_invoking_path c)
      then Some (errorf [Lit ''invocation: invoking path must be explicit and absolute''])
      else if iv_host c = [] \<or> iv_correlation c = []
      then Some (errorf [Lit ''invocation: host and correlation identity are required''])
      else if effectful \<and> (iv_worktree_id c = [] \<or> iv_ref c = [] \<or> iv_runtime_version c = []
             \<or> iv_runtime_path c = [] \<or> iv_runtime_fingerprint c = [] \<or> \<not> is_abs (iv_runtime_path c))
      then Some (errorf [Lit ''invocation: effectful operation requires worktree, ref, and exact runtime version, location, and fingerprint''])
      else None)"

section \<open>Objectives\<close>

abbreviation Objective_approved_work_package :: string where
  "Objective_approved_work_package \<equiv> ''approved-work-package''"
abbreviation Objective_approved_plan :: string where "Objective_approved_plan \<equiv> ''approved-plan''"
abbreviation Objective_verified :: string where "Objective_verified \<equiv> ''verified-implementation''"
abbreviation Objective_open_pr :: string where "Objective_open_pr \<equiv> ''open-or-updated-pr''"
abbreviation Objective_merged :: string where "Objective_merged \<equiv> ''merged-delivery''"

text \<open>\<open>safeObjectiveIdentity\<close> is the expression of \<open>semantic_id\<close>.\<close>

definition target_id_valid :: "string \<Rightarrow> bool" where
  "target_id_valid k = semantic_id k"

record sd_objective =
  so_id :: string
  so_target :: string
  so_trusted :: string
  so_delivery :: string
  so_evidence :: string
  so_frontier :: bool

definition sd_objective_validate :: "sd_objective \<Rightarrow> gerror option" where
  "sd_objective_validate g =
     (if \<not> semantic_id (so_id g) \<or> \<not> semantic_id (so_delivery g)
      then Some (errorf [Lit ''objective: id and delivery identity must be safe semantic segments''])
      else if \<not> target_id_valid (so_target g) \<or> so_trusted g \<noteq> [] \<and> \<not> target_id_valid (so_trusted g)
      then Some (errorf [Lit ''objective: invalid target '', Quoted (so_target g),
                         Lit '' or trusted class '', Quoted (so_trusted g)])
      else None)"

definition trusted_objective_class :: "sd_objective \<Rightarrow> string" where
  "trusted_objective_class g = (if so_trusted g \<noteq> [] then so_trusted g else so_target g)"

section \<open>Domains of durable state\<close>

abbreviation Facet_installation :: string where "Facet_installation \<equiv> ''installation''"
abbreviation Facet_program :: string where "Facet_program \<equiv> ''program''"
abbreviation Facet_control :: string where "Facet_control \<equiv> ''control''"
abbreviation Facet_product :: string where "Facet_product \<equiv> ''product''"

definition state_facet_valid :: "string \<Rightarrow> bool" where
  "state_facet_valid f = (f \<in> {''installation'', ''program'', ''control'', ''product''})"

text \<open>
  The scan of the sorted list: an invalid facet, or one equal to its predecessor. The first
  argument is the previous element.
\<close>

fun scan_facets :: "string \<Rightarrow> string option \<Rightarrow> string list \<Rightarrow> gerror option" where
  "scan_facets name prev [] = None"
| "scan_facets name prev (f # fs) =
     (if \<not> state_facet_valid f
      then Some (errorf [Lit name, Lit '' contains invalid state facet '', Quoted f])
      else if prev = Some f
      then Some (errorf [Lit name, Lit '' duplicates state facet '', Quoted f])
      else scan_facets name (Some f) fs)"

definition normalize_state_facets :: "string \<Rightarrow> string list \<Rightarrow> gerror + string list" where
  "normalize_state_facets name facets =
     (case scan_facets name None (sort facets) of Some e \<Rightarrow> Inl e | None \<Rightarrow> Inr (sort facets))"

definition union_state_facets :: "string list list \<Rightarrow> string list" where
  "union_state_facets groups = sort (remdups (filter state_facet_valid (concat groups)))"

lemma scan_facets_None:
  assumes "sorted fs" "\<forall>p. prev = Some p \<longrightarrow> (\<forall>f\<in>set fs. p \<le> f)"
  shows "scan_facets name prev fs = None
    \<longleftrightarrow> (\<forall>f\<in>set fs. state_facet_valid f) \<and> distinct fs \<and> (\<forall>p. prev = Some p \<longrightarrow> p \<notin> set fs)"
  using assms
proof (induction fs arbitrary: prev)
  case Nil
  then show ?case by simp
next
  case (Cons f fs)
  have IH: "scan_facets name (Some f) fs = None
      \<longleftrightarrow> (\<forall>f\<in>set fs. state_facet_valid f) \<and> distinct fs \<and> f \<notin> set fs"
    using Cons.IH [of "Some f"] Cons.prems by simp
  show ?case
    using Cons.prems(2) IH by (cases prev) (use Cons.prems(1) in \<open>force simp: order_le_less\<close>)+
qed

lemma normalize_state_facets_Inr:
  "normalize_state_facets name facets = Inr fs
     \<longleftrightarrow> fs = sort facets \<and> distinct facets \<and> (\<forall>f\<in>set facets. state_facet_valid f)"
  using scan_facets_None [of "sort facets" None name]
  by (auto simp: normalize_state_facets_def split: option.splits)

lemma normalize_facets_set: "normalize_state_facets name facets = Inr fs \<Longrightarrow> set fs = set facets"
  by (auto simp: normalize_state_facets_Inr)

lemma set_union_state_facets [simp]:
  "set (union_state_facets groups) = {f \<in> set (concat groups). state_facet_valid f}"
  by (auto simp: union_state_facets_def)

lemma union_state_facets_canonical: "sorted_wrt (<) (union_state_facets groups)"
  by (simp add: union_state_facets_def sort_strict)

lemma union_is_normal: "normalize_state_facets name (union_state_facets groups) = Inr (union_state_facets groups)"
  using union_state_facets_canonical [of groups]
  by (simp add: normalize_state_facets_Inr strict_sorted_iff sorted_sort_id)

end
