(* ===== verification/Delivery_Snapshot.thy ===== *)
theory Delivery_Snapshot
  imports Delivery_Facts
begin

text \<open>
  \<open>boatstack/internal/softwaredelivery/model\<close>, second part: observations and canonical
  snapshots (\<open>state.go\<close>), the facets a predicate can name (\<open>facet.go\<close>) and the health
  projection (\<open>health.go\<close>).

  The maps \<open>ProgramFacts\<close> and \<open>ExtensionFacts\<close> are association lists with distinct keys, in
  the order in which a \<open>range\<close> over them visits the entries; \<open>Marshal\<close> sorts the keys.
\<close>

section \<open>Contexts and policy\<close>

record configuration_policy =
  cp_plan_approval :: string
  cp_independent_review :: bool
  cp_high_risk_change :: bool
  cp_visual_evidence :: string
  cp_external_effect :: string
  cp_hosts :: "string list"

definition policy_canonical :: "configuration_policy \<Rightarrow> configuration_policy" where
  "policy_canonical p = p\<lparr>cp_hosts := sort (cp_hosts p)\<rparr>"

fun scan_hosts :: "string list \<Rightarrow> string list \<Rightarrow> gerror option" where
  "scan_hosts seen [] = None"
| "scan_hosts seen (h # hs) =
     (if h = [] \<or> h \<in> set seen
      then Some (errorf [Lit ''configuration policy has empty or duplicate host '', Quoted h])
      else scan_hosts (h # seen) hs)"

definition policy_validate :: "configuration_policy \<Rightarrow> gerror option" where
  "policy_validate p =
     (if cp_plan_approval p \<noteq> ''human'' \<and> cp_plan_approval p \<noteq> ''human-or-autonomy''
      then Some (errorf [Lit ''configuration policy has invalid plan approval '', Quoted (cp_plan_approval p)])
      else if cp_visual_evidence p \<noteq> ''off'' \<and> cp_visual_evidence p \<noteq> ''optional''
           \<and> cp_visual_evidence p \<noteq> ''required''
      then Some (errorf [Lit ''configuration policy has invalid visual evidence '', Quoted (cp_visual_evidence p)])
      else if cp_external_effect p \<noteq> ''human-or-autonomy-plus-provider''
      then Some (errorf [Lit ''configuration policy has invalid external authority '', Quoted (cp_external_effect p)])
      else if cp_hosts p = [] then Some (errorf [Lit ''configuration policy requires enabled hosts''])
      else (case scan_hosts [] (cp_hosts p) of Some e \<Rightarrow> Some e
        | None \<Rightarrow> if ''cli'' \<notin> set (cp_hosts p)
                  then Some (errorf [Lit ''configuration policy requires cli host'']) else None))"

record recovery_context =
  rx_transaction :: string
  rx_cause :: string
  rx_source_phase :: protocol_phase
  rx_permitted :: "string list"
  rx_budget :: int
  rx_resumption :: protocol_phase

definition recovery_context_validate :: "recovery_context \<Rightarrow> gerror option" where
  "recovery_context_validate c =
     (if rx_transaction c = [] \<or> rx_cause c = [] \<or> \<not> phase_valid (rx_source_phase c)
         \<or> \<not> phase_valid (rx_resumption c) \<or> rx_permitted c = [] \<or> rx_budget c < 0
      then Some (errorf [Lit ''recovery context requires transaction, cause, source, permitted exits, budget, and resumption target''])
      else None)"

record transaction_context =
  tx_id :: string
  tx_transition :: string
  tx_status :: string
  tx_resources :: "string list"
  tx_external :: bool

definition transaction_context_validate :: "transaction_context \<Rightarrow> gerror option" where
  "transaction_context_validate c =
     (if tx_id c = [] \<or> tx_transition c = [] \<or> tx_status c = []
      then Some (errorf [Lit ''transaction context requires id, transition, and status'']) else None)"

section \<open>Observations\<close>

record sd_observation =
  ob_schema_version :: int
  ob_state_revision :: u64
  ob_program_fingerprint :: string
  ob_recorded_fingerprint :: string
  ob_invocation :: invocation
  ob_program :: "string fact"
  ob_phase :: "protocol_phase fact"
  ob_engagement :: "string fact"
  ob_delivery :: "string fact"
  ob_workspace :: "string fact"
  ob_work_package :: "string fact"
  ob_plan :: "string fact"
  ob_configuration :: "string fact"
  ob_configuration_policy :: "configuration_policy fact"
  ob_runtime :: "string fact"
  ob_publication :: "string fact"
  ob_verification :: "string fact"
  ob_recovery :: "string fact"
  ob_transaction :: "string fact"
  ob_recovery_info :: "recovery_context fact"
  ob_transaction_info :: "transaction_context fact"
  ob_terminal :: "string fact"
  ob_objective :: "sd_objective fact"
  ob_program_facts :: "(string \<times> string fact) list"
  ob_extension_facts :: "(string \<times> string fact) list"
  ob_observed_at :: gtime

definition executable_runtime_admitted :: "sd_observation \<Rightarrow> string \<Rightarrow> bool" where
  "executable_runtime_admitted ob fingerprint \<longleftrightarrow>
     ob_recorded_fingerprint ob = fingerprint \<and> is_known (ob_configuration ob)
     \<and> f_value (ob_configuration ob) = Configuration_verified"

text \<open>The embedded struct is the field \<open>sn_observation\<close>.\<close>

record sd_snapshot =
  sn_observation :: sd_observation
  sn_fingerprint :: string

section \<open>Facets\<close>

definition controlling_facets :: "string list" where
  "controlling_facets =
     [''phase'', ''program'', ''topology'', ''engagement'', ''delivery'', ''workspace'',
      ''work-package'', ''plan'', ''configuration'', ''configuration-policy'', ''runtime'',
      ''publication'', ''verification'', ''recovery'', ''transaction'', ''recovery-info'',
      ''transaction-info'', ''terminal'', ''objective'']"

definition controlling_facet :: "string \<Rightarrow> bool" where
  "controlling_facet f = (f \<in> set controlling_facets)"

text \<open>
  The regular expressions over lower-case words joined by \<open>.\<close> or \<open>-\<close>: a word that starts with
  a letter, then at least \<open>n\<close> further words of letters and digits.
\<close>

definition word_char :: "char \<Rightarrow> bool" where
  "word_char c = (lower_char c \<or> digit_char c)"

fun split_words :: "string \<Rightarrow> string list" where
  "split_words [] = [[]]"
| "split_words (c # cs) =
     (if c = CHR ''.'' \<or> c = CHR ''-'' then [] # split_words cs
      else (case split_words cs of [] \<Rightarrow> [[c]] | seg # segs \<Rightarrow> (c # seg) # segs))"

fun lower_word :: "string \<Rightarrow> bool" where
  "lower_word [] = False"
| "lower_word (c # cs) = (lower_char c \<and> list_all word_char cs)"

definition joined_words :: "nat \<Rightarrow> string \<Rightarrow> bool" where
  "joined_words n s =
     (case split_words s of [] \<Rightarrow> False
      | w # ws \<Rightarrow> lower_word w \<and> n \<le> length ws \<and> list_all (\<lambda>v. v \<noteq> [] \<and> list_all word_char v) ws)"

text \<open>\<open>^[a-z][a-z0-9]*(?:[.-][a-z0-9]+){2,}$\<close>\<close>

definition namespaced_facet :: "string \<Rightarrow> bool" where
  "namespaced_facet s = joined_words 2 s"

definition facet_name_valid :: "string \<Rightarrow> bool" where
  "facet_name_valid f = (controlling_facet f \<or> namespaced_facet f)"

definition join_with :: "string \<Rightarrow> string list \<Rightarrow> string" where
  "join_with sep xs = (case xs of [] \<Rightarrow> [] | x # rest \<Rightarrow> x @ concat (map (\<lambda>y. sep @ y) rest))"

definition bool_text :: "bool \<Rightarrow> string" where
  "bool_text b = (if b then ''true'' else ''false'')"

definition policy_text :: "configuration_policy \<Rightarrow> string" where
  "policy_text p = (let v = policy_canonical p in
     join_with ''|'' [cp_plan_approval v, cp_visual_evidence v, cp_external_effect v,
       bool_text (cp_independent_review v), bool_text (cp_high_risk_change v),
       join_with '','' (cp_hosts v)])"

definition recovery_context_text :: "recovery_context \<Rightarrow> string" where
  "recovery_context_text v =
     join_with ''|'' [rx_transaction v, rx_cause v, rx_source_phase v, rx_resumption v]"

definition transaction_context_text :: "transaction_context \<Rightarrow> string" where
  "transaction_context_text v =
     join_with ''|'' [tx_id v, tx_transition v, tx_status v, join_with '','' (sort (tx_resources v)),
       bool_text (tx_external v)]"

definition objective_text :: "sd_objective \<Rightarrow> string" where
  "objective_text v =
     join_with ''|'' [so_id v, so_target v, trusted_objective_class v, so_delivery v, so_evidence v,
       bool_text (so_frontier v)]"

definition scalar :: "string fact \<Rightarrow> (string \<times> string) option" where
  "scalar f = Some (f_status f, f_value f)"

text \<open>\<open>Snapshot.Facet\<close>: status and value, \<open>None\<close> where the third result is false.\<close>

definition snapshot_facet :: "sd_observation \<Rightarrow> string \<Rightarrow> (string \<times> string) option" where
  "snapshot_facet s name =
     (if name = ''phase'' then scalar (ob_phase s)
      else if name = ''program'' then scalar (ob_program s)
      else if name = ''topology'' then Some (Fact_known, iv_topology (ob_invocation s))
      else if name = ''engagement'' then scalar (ob_engagement s)
      else if name = ''delivery'' then scalar (ob_delivery s)
      else if name = ''workspace'' then scalar (ob_workspace s)
      else if name = ''work-package'' then scalar (ob_work_package s)
      else if name = ''plan'' then scalar (ob_plan s)
      else if name = ''configuration'' then scalar (ob_configuration s)
      else if name = ''configuration-policy''
      then Some (f_status (ob_configuration_policy s), policy_text (f_value (ob_configuration_policy s)))
      else if name = ''runtime'' then scalar (ob_runtime s)
      else if name = ''publication'' then scalar (ob_publication s)
      else if name = ''verification'' then scalar (ob_verification s)
      else if name = ''recovery'' then scalar (ob_recovery s)
      else if name = ''transaction'' then scalar (ob_transaction s)
      else if name = ''recovery-info''
      then Some (f_status (ob_recovery_info s), recovery_context_text (f_value (ob_recovery_info s)))
      else if name = ''transaction-info''
      then Some (f_status (ob_transaction_info s), transaction_context_text (f_value (ob_transaction_info s)))
      else if name = ''terminal'' then scalar (ob_terminal s)
      else if name = ''objective''
      then Some (f_status (ob_objective s), objective_text (f_value (ob_objective s)))
      else (case map_of (ob_program_facts s) name of
          Some f \<Rightarrow> scalar f
        | None \<Rightarrow> (case map_of (ob_extension_facts s) name of Some f \<Rightarrow> scalar f | None \<Rightarrow> None)))"

section \<open>Health\<close>

record operational_health =
  oh_runtime_verified :: bool
  oh_recovery_required :: bool

definition project_operational_health :: "sd_snapshot \<Rightarrow> operational_health" where
  "project_operational_health sn = (let s = sn_observation sn in
     \<lparr>oh_runtime_verified = (is_known (ob_runtime s) \<and> f_value (ob_runtime s) = Runtime_verified),
      oh_recovery_required = (f_value (ob_phase s) = Phase_recovery
        \<or> f_value (ob_recovery s) \<noteq> Recovery_none \<or> f_value (ob_transaction s) \<noteq> Transaction_none)\<rparr>)"

section \<open>The content of an observation\<close>

definition evidence_json :: "evidence \<Rightarrow> json" where
  "evidence_json e =
     JObj ([(''source'', JStr (ev_source e)), (''fingerprint'', JStr (ev_fingerprint e))]
       @ omit_empty (ev_revision e = []) ''revision'' (JStr (ev_revision e))
       @ [(''observed_at'', time_json (ev_observed_at e))])"

definition sd_fact_json :: "('a \<Rightarrow> bool) \<Rightarrow> ('a \<Rightarrow> json) \<Rightarrow> 'a fact \<Rightarrow> json" where
  "sd_fact_json is_empty value_json f =
     JObj ([(''status'', JStr (f_status f))]
       @ omit_empty (is_empty (f_value f)) ''value'' (value_json (f_value f))
       @ omit_empty (f_evidence f = []) ''evidence'' (JArr (map evidence_json (f_evidence f)))
       @ omit_empty (f_detail f = []) ''detail'' (JStr (f_detail f)))"

text \<open>\<open>omitempty\<close> never leaves out a struct.\<close>

definition string_fact_json :: "string fact \<Rightarrow> json" where
  "string_fact_json f = sd_fact_json (\<lambda>v. v = []) JStr f"

definition struct_fact_json :: "('a \<Rightarrow> json) \<Rightarrow> 'a fact \<Rightarrow> json" where
  "struct_fact_json value_json f = sd_fact_json (\<lambda>_. False) value_json f"

definition flag :: "bool \<Rightarrow> string \<Rightarrow> (string \<times> json) list" where
  "flag b key = omit_empty (\<not> b) key (JBool b)"

definition policy_json :: "configuration_policy \<Rightarrow> json" where
  "policy_json p =
     JObj ([(''plan_approval'', JStr (cp_plan_approval p))]
       @ flag (cp_independent_review p) ''independent_review_for_high_risk''
       @ flag (cp_high_risk_change p) ''high_risk_change''
       @ [(''visual_evidence'', JStr (cp_visual_evidence p)),
          (''external_effect_authority'', JStr (cp_external_effect p)),
          (''hosts'', json_nil_strings (cp_hosts p))])"

definition recovery_context_json :: "recovery_context \<Rightarrow> json" where
  "recovery_context_json c =
     JObj [(''transaction_id'', JStr (rx_transaction c)), (''cause'', JStr (rx_cause c)),
       (''source_phase'', JStr (rx_source_phase c)), (''permitted'', json_nil_strings (rx_permitted c)),
       (''budget_remaining'', JInt (rx_budget c)), (''resumption'', JStr (rx_resumption c))]"

definition transaction_context_json :: "transaction_context \<Rightarrow> json" where
  "transaction_context_json c =
     JObj ([(''id'', JStr (tx_id c)), (''transition_id'', JStr (tx_transition c)),
        (''status'', JStr (tx_status c))]
       @ omit_empty (tx_resources c = []) ''resource_digests'' (json_strings (tx_resources c))
       @ flag (tx_external c) ''external_possible'')"

definition sd_objective_json :: "sd_objective \<Rightarrow> json" where
  "sd_objective_json g =
     JObj ([(''id'', JStr (so_id g)), (''target_id'', JStr (so_target g))]
       @ omit_empty (so_trusted g = []) ''trusted_class'' (JStr (so_trusted g))
       @ [(''delivery_id'', JStr (so_delivery g))]
       @ omit_empty (so_evidence g = []) ''evidence_fingerprint'' (JStr (so_evidence g))
       @ flag (so_frontier g) ''frontier_is_stop'')"

definition invocation_json :: "invocation \<Rightarrow> json" where
  "invocation_json c =
     JObj [(''repository_id'', JStr (iv_repository_id c)), (''git_common_id'', JStr (iv_git_common_id c)),
       (''worktree_id'', JStr (iv_worktree_id c)), (''ref'', JStr (iv_ref c)),
       (''controller_id'', JStr (iv_controller_id c)), (''invoking_path'', JStr (iv_invoking_path c)),
       (''runtime_version'', JStr (iv_runtime_version c)), (''runtime_path'', JStr (iv_runtime_path c)),
       (''runtime_fingerprint'', JStr (iv_runtime_fingerprint c)), (''topology'', JStr (iv_topology c)),
       (''host'', JStr (iv_host c)), (''correlation_id'', JStr (iv_correlation c))]"

definition fact_map_json :: "(string \<times> string fact) list \<Rightarrow> json" where
  "fact_map_json facts = JObj (map (\<lambda>kf. (fst kf, string_fact_json (snd kf))) (sort_key fst facts))"

text \<open>\<open>Snapshot{Observation: o}\<close>, with an empty fingerprint.\<close>

definition observation_json :: "sd_observation \<Rightarrow> json" where
  "observation_json s =
     JObj ([(''schema_version'', JInt (ob_schema_version s)),
        (''state_revision'', JInt (uint (ob_state_revision s)))]
       @ omit_empty (ob_program_fingerprint s = []) ''program_fingerprint'' (JStr (ob_program_fingerprint s))
       @ omit_empty (ob_recorded_fingerprint s = []) ''recorded_program_fingerprint''
           (JStr (ob_recorded_fingerprint s))
       @ [(''invocation'', invocation_json (ob_invocation s)),
          (''program'', string_fact_json (ob_program s)),
          (''phase'', string_fact_json (ob_phase s)),
          (''engagement'', string_fact_json (ob_engagement s)),
          (''delivery'', string_fact_json (ob_delivery s)),
          (''workspace'', string_fact_json (ob_workspace s)),
          (''work_package'', string_fact_json (ob_work_package s)),
          (''plan'', string_fact_json (ob_plan s)),
          (''configuration'', string_fact_json (ob_configuration s)),
          (''configuration_policy'', struct_fact_json policy_json (ob_configuration_policy s)),
          (''runtime'', string_fact_json (ob_runtime s)),
          (''publication'', string_fact_json (ob_publication s)),
          (''verification'', string_fact_json (ob_verification s)),
          (''recovery'', string_fact_json (ob_recovery s)),
          (''transaction'', string_fact_json (ob_transaction s)),
          (''recovery_info'', struct_fact_json recovery_context_json (ob_recovery_info s)),
          (''transaction_info'', struct_fact_json transaction_context_json (ob_transaction_info s)),
          (''terminal'', string_fact_json (ob_terminal s)),
          (''objective'', struct_fact_json sd_objective_json (ob_objective s))]
       @ omit_empty (ob_program_facts s = []) ''flow_facts'' (fact_map_json (ob_program_facts s))
       @ omit_empty (ob_extension_facts s = []) ''extension_facts'' (fact_map_json (ob_extension_facts s))
       @ [(''observed_at'', time_json (ob_observed_at s)), (''fingerprint'', JStr [])])"

text \<open>
  The two loops over the maps of facts. They store the zeroed facts in the maps themselves,
  which the projection shares with its argument.
\<close>

definition zero_fact_maps :: "sd_observation \<Rightarrow> sd_observation" where
  "zero_fact_maps s =
     s\<lparr>ob_program_facts := map (\<lambda>kf. (fst kf, zero_evidence_times (snd kf))) (ob_program_facts s),
       ob_extension_facts := map (\<lambda>kf. (fst kf, zero_evidence_times (snd kf))) (ob_extension_facts s)\<rparr>"

definition untimed :: "sd_observation \<Rightarrow> sd_observation" where
  "untimed s =
     (zero_fact_maps s)
      \<lparr>ob_observed_at := zero_time,
       ob_program := zero_evidence_times (ob_program s),
       ob_phase := zero_evidence_times (ob_phase s),
       ob_engagement := zero_evidence_times (ob_engagement s),
       ob_delivery := zero_evidence_times (ob_delivery s),
       ob_workspace := zero_evidence_times (ob_workspace s),
       ob_work_package := zero_evidence_times (ob_work_package s),
       ob_plan := zero_evidence_times (ob_plan s),
       ob_configuration := zero_evidence_times (ob_configuration s),
       ob_configuration_policy := zero_evidence_times (ob_configuration_policy s),
       ob_runtime := zero_evidence_times (ob_runtime s),
       ob_publication := zero_evidence_times (ob_publication s),
       ob_verification := zero_evidence_times (ob_verification s),
       ob_recovery := zero_evidence_times (ob_recovery s),
       ob_transaction := zero_evidence_times (ob_transaction s),
       ob_recovery_info := zero_evidence_times (ob_recovery_info s),
       ob_transaction_info := zero_evidence_times (ob_transaction_info s),
       ob_terminal := zero_evidence_times (ob_terminal s),
       ob_objective := zero_evidence_times (ob_objective s)\<rparr>"

text \<open>\<open>observationFingerprint\<close>: its result, and the observation as the caller sees it after.\<close>

definition observation_fingerprint :: "sd_observation \<Rightarrow> (gerror + string) \<times> sd_observation" where
  "observation_fingerprint s =
     ((case hash_json (observation_json (untimed s)) of
         Inl e \<Rightarrow> Inl (wrapf [Lit ''snapshot: canonical encoding: ''] e)
       | Inr h \<Rightarrow> Inr h),
      zero_fact_maps s)"

definition work_context_identity :: string where
  "work_context_identity = ''foreground-work-context''"

definition foreground_work_context_fingerprint :: "sd_snapshot \<Rightarrow> gerror + string" where
  "foreground_work_context_fingerprint sn = (let s = sn_observation sn in
     fst (observation_fingerprint
       (s\<lparr>ob_invocation := (ob_invocation s)\<lparr>iv_controller_id := work_context_identity,
          iv_host := work_context_identity, iv_correlation := work_context_identity,
          iv_runtime_path := []\<rparr>\<rparr>)))"

section \<open>Canonical snapshots\<close>

definition snapshot_schema_version :: int where
  "snapshot_schema_version = 6"

text \<open>The defaults for a program and a work package that were not observed.\<close>

definition observation_defaults :: "sd_observation \<Rightarrow> sd_observation" where
  "observation_defaults s =
     (let s1 = (if f_status (ob_program s) = [] \<and> ob_program_fingerprint s = []
                then s\<lparr>ob_program := known Program_unbound
                  \<lparr>ev_source = ''control-program:unbound'', ev_fingerprint = ''unbound'',
                   ev_revision = [], ev_observed_at = ob_observed_at s\<rparr>\<rparr>
                else s)
      in if f_status (ob_work_package s1) = []
         then s1\<lparr>ob_work_package := known Work_package_absent
           \<lparr>ev_source = ''work-package:absent'', ev_fingerprint = ''absent'', ev_revision = [],
            ev_observed_at = \<lparr>t_nanos = 62135596800 * 1000000000, t_offset = 0\<rparr>\<rparr>\<rparr>
         else s1)"

text \<open>The table \<open>checks\<close>: every fact is well formed.\<close>

definition fact_errors :: "sd_observation \<Rightarrow> gerror option list" where
  "fact_errors s =
     [fact_validate (ob_program s) ''program'', fact_validate (ob_phase s) ''phase'',
      fact_validate (ob_engagement s) ''engagement'', fact_validate (ob_delivery s) ''delivery'',
      fact_validate (ob_workspace s) ''workspace'', fact_validate (ob_work_package s) ''work_package'',
      fact_validate (ob_plan s) ''plan'', fact_validate (ob_configuration s) ''configuration'',
      fact_validate (ob_configuration_policy s) ''configuration_policy'',
      fact_validate (ob_runtime s) ''runtime'', fact_validate (ob_publication s) ''publication'',
      fact_validate (ob_verification s) ''verification'', fact_validate (ob_recovery s) ''recovery'',
      fact_validate (ob_transaction s) ''transaction'', fact_validate (ob_recovery_info s) ''recovery_info'',
      fact_validate (ob_transaction_info s) ''transaction_info'', fact_validate (ob_terminal s) ''terminal'',
      fact_validate (ob_objective s) ''objective'']"

text \<open>The table \<open>valueChecks\<close>: name, whether the fact is known, whether its value is valid.\<close>

definition value_checks :: "sd_observation \<Rightarrow> (string \<times> bool \<times> bool) list" where
  "value_checks s =
     [(''program'', is_known (ob_program s), program_state_valid (f_value (ob_program s))),
      (''engagement'', is_known (ob_engagement s), engagement_valid (f_value (ob_engagement s))),
      (''delivery'', is_known (ob_delivery s), delivery_valid (f_value (ob_delivery s))),
      (''workspace'', is_known (ob_workspace s), workspace_valid (f_value (ob_workspace s))),
      (''work_package'', is_known (ob_work_package s), work_package_valid (f_value (ob_work_package s))),
      (''plan'', is_known (ob_plan s), plan_valid (f_value (ob_plan s))),
      (''configuration'', is_known (ob_configuration s), configuration_valid (f_value (ob_configuration s))),
      (''runtime'', is_known (ob_runtime s), runtime_valid (f_value (ob_runtime s))),
      (''publication'', is_known (ob_publication s), publication_valid (f_value (ob_publication s))),
      (''verification'', is_known (ob_verification s), verification_valid (f_value (ob_verification s))),
      (''recovery'', is_known (ob_recovery s), recovery_valid (f_value (ob_recovery s))),
      (''transaction'', is_known (ob_transaction s), transaction_valid (f_value (ob_transaction s))),
      (''terminal'', is_known (ob_terminal s), terminal_valid (f_value (ob_terminal s)))]"

definition value_error :: "string \<times> bool \<times> bool \<Rightarrow> gerror option" where
  "value_error c =
     (if fst (snd c) \<and> \<not> snd (snd c)
      then Some (errorf [Lit ''snapshot: invalid '', Lit (fst c), Lit '' value'']) else None)"

definition known_as :: "string fact \<Rightarrow> string \<Rightarrow> bool" where
  "known_as f v = (is_known f \<and> f_value f = v)"

definition known_other :: "string fact \<Rightarrow> string list \<Rightarrow> bool" where
  "known_other f vs = (is_known f \<and> f_value f \<notin> set vs)"

definition recovery_info_incomplete :: "sd_observation \<Rightarrow> bool" where
  "recovery_info_incomplete s \<longleftrightarrow>
     \<not> is_known (ob_recovery_info s) \<or> recovery_context_validate (f_value (ob_recovery_info s)) \<noteq> None"

definition transaction_info_incomplete :: "sd_observation \<Rightarrow> bool" where
  "transaction_info_incomplete s \<longleftrightarrow>
     \<not> is_known (ob_transaction_info s)
     \<or> transaction_context_validate (f_value (ob_transaction_info s)) \<noteq> None"

definition objective_incomplete :: "sd_observation \<Rightarrow> bool" where
  "objective_incomplete s \<longleftrightarrow>
     \<not> is_known (ob_objective s) \<or> sd_objective_validate (f_value (ob_objective s)) \<noteq> None"

text \<open>From the recovery phase to the objective: what the facts must agree on.\<close>

definition consistency_error :: "sd_observation \<Rightarrow> gerror option" where
  "consistency_error s =
     (if known_as (ob_phase s) Phase_recovery \<and> known_as (ob_recovery s) Recovery_none
      then Some (errorf [Lit ''snapshot: recovery phase requires a recovery state''])
      else if known_as (ob_phase s) Phase_recovery \<and> recovery_info_incomplete s
      then Some (errorf [Lit ''snapshot: recovery phase requires complete recovery context''])
      else if known_other (ob_recovery s) [Recovery_none] \<and> recovery_info_incomplete s
      then Some (errorf [Lit ''snapshot: non-empty recovery state requires complete recovery context''])
      else if known_other (ob_transaction s) [Transaction_none] \<and> transaction_info_incomplete s
      then Some (errorf [Lit ''snapshot: active transaction requires complete transaction context''])
      else if known_as (ob_terminal s) Terminal_established
           \<and> known_other (ob_phase s) [Phase_terminal, Phase_abandoned]
      then Some (errorf [Lit ''snapshot: established terminal evidence requires terminal or abandoned phase''])
      else if known_as (ob_terminal s) Terminal_established \<and> objective_incomplete s
      then Some (errorf [Lit ''snapshot: established terminal evidence requires an exact configured objective''])
      else if known_as (ob_terminal s) Terminal_established
           \<and> known_other (ob_delivery s) [Delivery_terminal, Delivery_discarded]
      then Some (errorf [Lit ''snapshot: established terminal evidence requires terminal or discarded delivery''])
      else if known_as (ob_workspace s) Workspace_landed
           \<and> known_other (ob_publication s) [Publication_merged]
      then Some (errorf [Lit ''snapshot: landed workspace requires merged publication evidence''])
      else if known_as (ob_phase s) Phase_active \<and> known_as (ob_engagement s) Engagement_dormant
      then Some (errorf [Lit ''snapshot: active protocol phase cannot have dormant engagement''])
      else if is_known (ob_objective s)
      then map_option (wrapf [Lit ''snapshot: invalid objective fact: ''])
             (sd_objective_validate (f_value (ob_objective s)))
      else None)"

definition named_fact_error :: "string \<Rightarrow> string \<times> string fact \<Rightarrow> gerror option" where
  "named_fact_error what kf =
     (if \<not> facet_name_valid (fst kf) \<or> controlling_facet (fst kf)
      then Some (errorf [Lit ''snapshot: invalid '', Lit what, Lit '' fact id '', Quoted (fst kf)])
      else fact_validate (snd kf) (what @ '' fact '' @ fst kf))"

text \<open>The contexts of known facts, after the maps.\<close>

definition context_error :: "sd_observation \<Rightarrow> gerror option" where
  "context_error s =
     (case (if is_known (ob_recovery_info s)
            then recovery_context_validate (f_value (ob_recovery_info s)) else None) of
        Some e \<Rightarrow> Some (wrapf [Lit ''snapshot: invalid recovery context: ''] e)
      | None \<Rightarrow>
          map_option (wrapf [Lit ''snapshot: invalid transaction context: ''])
            (if is_known (ob_transaction_info s)
             then transaction_context_validate (f_value (ob_transaction_info s)) else None))"

text \<open>All checks in the order of \<open>Canonicalize\<close>, up to the policy.\<close>

definition observation_errors :: "sd_observation \<Rightarrow> gerror option list" where
  "observation_errors s =
     [if ob_program_fingerprint s \<noteq> [] \<and> length (ob_program_fingerprint s) \<noteq> 64
      then Some (errorf [Lit ''snapshot: invalid program fingerprint'']) else None,
      invocation_validate (ob_invocation s) False,
      first_error (\<lambda>e. e) (fact_errors s),
      if is_known (ob_phase s) \<and> \<not> phase_valid (f_value (ob_phase s))
      then Some (errorf [Lit ''snapshot: invalid protocol phase '', Quoted (f_value (ob_phase s))]) else None,
      first_error value_error (value_checks s),
      if time_is_zero (ob_observed_at s)
      then Some (errorf [Lit ''snapshot: observed time is required'']) else None,
      consistency_error s,
      first_error (named_fact_error ''control-program'') (ob_program_facts s),
      first_error (named_fact_error ''extension'') (ob_extension_facts s),
      if is_known (ob_configuration_policy s)
      then map_option (wrapf [Lit ''snapshot: invalid configuration policy: ''])
             (policy_validate (f_value (ob_configuration_policy s)))
      else None,
      context_error s]"

definition canonical_policy :: "sd_observation \<Rightarrow> sd_observation" where
  "canonical_policy s =
     (if is_known (ob_configuration_policy s)
      then s\<lparr>ob_configuration_policy := (ob_configuration_policy s)
             \<lparr>f_value := policy_canonical (f_value (ob_configuration_policy s))\<rparr>\<rparr>
      else s)"

definition canonicalize :: "sd_observation \<Rightarrow> gerror + sd_snapshot" where
  "canonicalize given =
     (if ob_schema_version given \<noteq> snapshot_schema_version
      then Inl (errorf [Lit ''snapshot: schema version '', Number (ob_schema_version given),
                        Lit '', want '', Number snapshot_schema_version])
      else if ob_state_revision given = 0
      then Inl (errorf [Lit ''snapshot: durable state revision is required''])
      else (let s = observation_defaults given in
        case first_error (\<lambda>e. e) (observation_errors s) of Some e \<Rightarrow> Inl e
        | None \<Rightarrow>
            (case observation_fingerprint (canonical_policy s) of
               (Inl e, _) \<Rightarrow> Inl e
             | (Inr h, seen) \<Rightarrow> Inr \<lparr>sn_observation = seen, sn_fingerprint = h\<rparr>)))"

definition program_binding :: "sd_observation \<Rightarrow> string \<Rightarrow> string" where
  "program_binding s fingerprint =
     (if ob_recorded_fingerprint s = [] then Program_unbound
      else if ob_recorded_fingerprint s = fingerprint then Program_current else Program_drift)"

definition canonicalize_for_program :: "sd_observation \<Rightarrow> string \<Rightarrow> gerror + sd_snapshot" where
  "canonicalize_for_program s fingerprint =
     (if length fingerprint \<noteq> 64
      then Inl (errorf [Lit ''snapshot: invalid compiled program fingerprint''])
      else canonicalize
        (s\<lparr>ob_program_fingerprint := fingerprint,
           ob_program := known (program_binding s fingerprint)
             \<lparr>ev_source = ''compiled-control-program'', ev_fingerprint = fingerprint,
              ev_revision = [], ev_observed_at = ob_observed_at s\<rparr>\<rparr>))"


section \<open>Laws of the content\<close>

lemma time_text_zero: "time_text zero_time \<noteq> None"
  by code_simp

lemma raw_free_zero_time [simp]: "raw_free (time_json zero_time)"
  using time_text_zero by simp

lemma raw_free_zero_evidence [simp]:
  "list_all raw_free (map evidence_json (f_evidence (zero_evidence_times f)))"
proof -
  have "raw_free (evidence_json (e\<lparr>ev_observed_at := zero_time\<rparr>))" for e :: evidence
    by (simp add: evidence_json_def del: raw_free_time)
  then show ?thesis
    by (auto simp: zero_evidence_times_def list_all_iff)
qed

lemma raw_free_zero_fact:
  "(\<And>v. raw_free (vj v)) \<Longrightarrow> raw_free (sd_fact_json is_empty vj (zero_evidence_times f))"
  by (simp add: sd_fact_json_def)

lemma raw_free_string_fact [simp]: "raw_free (string_fact_json (zero_evidence_times f))"
  by (simp add: string_fact_json_def raw_free_zero_fact)

lemma raw_free_struct_fact [simp]:
  "raw_free (struct_fact_json policy_json (zero_evidence_times p))"
  "raw_free (struct_fact_json recovery_context_json (zero_evidence_times r))"
  "raw_free (struct_fact_json transaction_context_json (zero_evidence_times t))"
  "raw_free (struct_fact_json sd_objective_json (zero_evidence_times g))"
  by (simp_all add: struct_fact_json_def raw_free_zero_fact policy_json_def recovery_context_json_def
      transaction_context_json_def sd_objective_json_def flag_def)

lemma raw_free_fact_map [simp]:
  "raw_free (fact_map_json (map (\<lambda>kf. (fst kf, zero_evidence_times (snd kf))) facts))"
  by (auto simp: fact_map_json_def list_all_iff)

text \<open>A projection without times always encodes.\<close>

lemma raw_free_observation: "raw_free (observation_json (untimed s))"
  by (simp add: observation_json_def untimed_def zero_fact_maps_def invocation_json_def
      del: raw_free_time)

lemma observation_fingerprint_total:
  "\<exists>h. observation_fingerprint s = (Inr h, zero_fact_maps s) \<and> length h = 64
     \<and> hash_json (observation_json (untimed s)) = Inr h"
  using hash_json_total [OF raw_free_observation [of s]] hash_json_length
  by (auto simp: observation_fingerprint_def)

lemma untimed_simps [simp]:
  "untimed (zero_fact_maps s) = untimed s" "untimed (untimed s) = untimed s"
  "zero_fact_maps (zero_fact_maps s) = zero_fact_maps s"
  by (simp_all add: untimed_def zero_fact_maps_def)

text \<open>What the fingerprint identifies: the observation without times, maps as sets of entries.\<close>

definition content :: "sd_observation \<Rightarrow> sd_observation" where
  "content s = (let u = untimed s in
     u\<lparr>ob_program_facts := sort_key fst (ob_program_facts u),
       ob_extension_facts := sort_key fst (ob_extension_facts u)\<rparr>)"

lemma sort_key_Nil_iff [simp]: "sort_key f xs = [] \<longleftrightarrow> xs = []"
  by (metis set_empty set_sort)

lemma sort_key_idem [simp]: "sort_key f (sort_key f xs) = sort_key f xs"
  by (rule sort_key_id_if_sorted) simp

lemma observation_json_content: "observation_json (untimed s) = observation_json (content s)"
  by (simp add: content_def observation_json_def Let_def fact_map_json_def)

lemma fingerprint_content:
  "content s = content s' \<Longrightarrow> fst (observation_fingerprint s) = fst (observation_fingerprint s')"
  by (simp add: observation_fingerprint_def observation_json_content)

section \<open>Laws of the canonical snapshot\<close>

lemma policy_canonical_idem [simp]: "policy_canonical (policy_canonical p) = policy_canonical p"
  by (simp add: policy_canonical_def)

lemma scan_hosts_None: "scan_hosts seen hs = None \<longleftrightarrow> distinct hs \<and> [] \<notin> set hs \<and> set hs \<inter> set seen = {}"
  by (induction hs arbitrary: seen) auto

lemma policy_validate_None:
  "policy_validate p = None \<longleftrightarrow>
     cp_plan_approval p \<in> {''human'', ''human-or-autonomy''}
     \<and> cp_visual_evidence p \<in> {''off'', ''optional'', ''required''}
     \<and> cp_external_effect p = ''human-or-autonomy-plus-provider''
     \<and> distinct (cp_hosts p) \<and> [] \<notin> set (cp_hosts p) \<and> ''cli'' \<in> set (cp_hosts p)"
  using scan_hosts_None [of "[]" "cp_hosts p"]
  by (cases "scan_hosts [] (cp_hosts p)") (auto simp: policy_validate_def)

lemma policy_validate_canonical [simp]:
  "policy_validate (policy_canonical p) = None \<longleftrightarrow> policy_validate p = None"
  by (simp add: policy_validate_None) (simp add: policy_canonical_def)

lemma canonicalize_Inr:
  "canonicalize given = Inr sn \<longleftrightarrow>
     ob_schema_version given = snapshot_schema_version \<and> ob_state_revision given \<noteq> 0
     \<and> (\<forall>e\<in>set (observation_errors (observation_defaults given)). e = None)
     \<and> sn_observation sn = zero_fact_maps (canonical_policy (observation_defaults given))
     \<and> Inr (sn_fingerprint sn) = fst (observation_fingerprint (canonical_policy (observation_defaults given)))"
proof -
  obtain h where h: "observation_fingerprint (canonical_policy (observation_defaults given))
      = (Inr h, zero_fact_maps (canonical_policy (observation_defaults given)))"
    using observation_fingerprint_total by metis
  show ?thesis
  proof (cases "first_error (\<lambda>e. e) (observation_errors (observation_defaults given))")
    case None
    then have "\<forall>e\<in>set (observation_errors (observation_defaults given)). e = None"
      by simp
    then show ?thesis
      unfolding canonicalize_def Let_def None h by (cases sn) auto
  next
    case (Some e)
    then have "\<not> (\<forall>e\<in>set (observation_errors (observation_defaults given)). e = None)"
      using first_error_None_iff [of "\<lambda>e. e" "observation_errors (observation_defaults given)"] by simp
    then show ?thesis
      using Some by (auto simp: canonicalize_def Let_def)
  qed
qed

lemma zero_maps_simps [simp]:
  "ob_schema_version (zero_fact_maps s) = ob_schema_version s"
  "ob_state_revision (zero_fact_maps s) = ob_state_revision s"
  "ob_program_fingerprint (zero_fact_maps s) = ob_program_fingerprint s"
  "ob_recorded_fingerprint (zero_fact_maps s) = ob_recorded_fingerprint s"
  "ob_invocation (zero_fact_maps s) = ob_invocation s"
  "ob_program (zero_fact_maps s) = ob_program s" "ob_phase (zero_fact_maps s) = ob_phase s"
  "ob_engagement (zero_fact_maps s) = ob_engagement s"
  "ob_delivery (zero_fact_maps s) = ob_delivery s"
  "ob_workspace (zero_fact_maps s) = ob_workspace s"
  "ob_work_package (zero_fact_maps s) = ob_work_package s"
  "ob_plan (zero_fact_maps s) = ob_plan s"
  "ob_configuration (zero_fact_maps s) = ob_configuration s"
  "ob_configuration_policy (zero_fact_maps s) = ob_configuration_policy s"
  "ob_runtime (zero_fact_maps s) = ob_runtime s"
  "ob_publication (zero_fact_maps s) = ob_publication s"
  "ob_verification (zero_fact_maps s) = ob_verification s"
  "ob_recovery (zero_fact_maps s) = ob_recovery s"
  "ob_transaction (zero_fact_maps s) = ob_transaction s"
  "ob_recovery_info (zero_fact_maps s) = ob_recovery_info s"
  "ob_transaction_info (zero_fact_maps s) = ob_transaction_info s"
  "ob_terminal (zero_fact_maps s) = ob_terminal s"
  "ob_objective (zero_fact_maps s) = ob_objective s"
  "ob_observed_at (zero_fact_maps s) = ob_observed_at s"
  by (simp_all add: zero_fact_maps_def)

lemma canonical_policy_simps [simp]:
  "ob_schema_version (canonical_policy s) = ob_schema_version s"
  "ob_state_revision (canonical_policy s) = ob_state_revision s"
  "ob_program_fingerprint (canonical_policy s) = ob_program_fingerprint s"
  "ob_recorded_fingerprint (canonical_policy s) = ob_recorded_fingerprint s"
  "ob_invocation (canonical_policy s) = ob_invocation s"
  "ob_program (canonical_policy s) = ob_program s" "ob_phase (canonical_policy s) = ob_phase s"
  "ob_engagement (canonical_policy s) = ob_engagement s"
  "ob_delivery (canonical_policy s) = ob_delivery s"
  "ob_workspace (canonical_policy s) = ob_workspace s"
  "ob_work_package (canonical_policy s) = ob_work_package s"
  "ob_plan (canonical_policy s) = ob_plan s"
  "ob_configuration (canonical_policy s) = ob_configuration s"
  "ob_runtime (canonical_policy s) = ob_runtime s"
  "ob_publication (canonical_policy s) = ob_publication s"
  "ob_verification (canonical_policy s) = ob_verification s"
  "ob_recovery (canonical_policy s) = ob_recovery s"
  "ob_transaction (canonical_policy s) = ob_transaction s"
  "ob_recovery_info (canonical_policy s) = ob_recovery_info s"
  "ob_transaction_info (canonical_policy s) = ob_transaction_info s"
  "ob_terminal (canonical_policy s) = ob_terminal s"
  "ob_objective (canonical_policy s) = ob_objective s"
  "ob_program_facts (canonical_policy s) = ob_program_facts s"
  "ob_extension_facts (canonical_policy s) = ob_extension_facts s"
  "ob_observed_at (canonical_policy s) = ob_observed_at s"
  by (simp_all add: canonical_policy_def)

lemma canonical_policy_fact [simp]:
  "is_known (ob_configuration_policy (canonical_policy s)) = is_known (ob_configuration_policy s)"
  "fact_validate (ob_configuration_policy (canonical_policy s)) n = None
     \<longleftrightarrow> fact_validate (ob_configuration_policy s) n = None"
  "is_known (ob_configuration_policy s) \<Longrightarrow>
     f_value (ob_configuration_policy (canonical_policy s)) = policy_canonical (f_value (ob_configuration_policy s))"
  "canonical_policy (canonical_policy s) = canonical_policy s"
  by (simp_all add: canonical_policy_def is_known_def fact_validate_None)

lemma observation_defaults_id:
  "f_status (ob_program s) \<noteq> [] \<or> ob_program_fingerprint s \<noteq> [] \<Longrightarrow> f_status (ob_work_package s) \<noteq> []
     \<Longrightarrow> observation_defaults s = s"
  by (auto simp: observation_defaults_def)

lemma defaults_status:
  "f_status (ob_program (observation_defaults s)) \<noteq> [] \<or> ob_program_fingerprint (observation_defaults s) \<noteq> []"
  "f_status (ob_work_package (observation_defaults s)) \<noteq> []"
  by (auto simp: observation_defaults_def Let_def)

lemma canonical_program_facts:
  "ob_program_facts (zero_fact_maps s) = map (\<lambda>kf. (fst kf, zero_evidence_times (snd kf))) (ob_program_facts s)"
  "ob_extension_facts (zero_fact_maps s) = map (\<lambda>kf. (fst kf, zero_evidence_times (snd kf))) (ob_extension_facts s)"
  by (simp_all add: zero_fact_maps_def)

lemma named_fact_zero [simp]:
  "named_fact_error what (k, zero_evidence_times f) = None \<longleftrightarrow> named_fact_error what (k, f) = None"
  by (simp add: named_fact_error_def)

lemma checks_canonical:
  "(\<forall>e\<in>set (fact_errors (zero_fact_maps (canonical_policy s))). e = None)
     \<longleftrightarrow> (\<forall>e\<in>set (fact_errors s). e = None)"
  "value_checks (zero_fact_maps (canonical_policy s)) = value_checks s"
  "consistency_error (zero_fact_maps (canonical_policy s)) = consistency_error s"
  "context_error (zero_fact_maps (canonical_policy s)) = context_error s"
proof -
  show "value_checks (zero_fact_maps (canonical_policy s)) = value_checks s"
    by (simp only: value_checks_def zero_maps_simps canonical_policy_simps)
  show "consistency_error (zero_fact_maps (canonical_policy s)) = consistency_error s"
    by (simp only: consistency_error_def recovery_info_incomplete_def transaction_info_incomplete_def
        objective_incomplete_def zero_maps_simps canonical_policy_simps)
  show "context_error (zero_fact_maps (canonical_policy s)) = context_error s"
    by (simp only: context_error_def zero_maps_simps canonical_policy_simps)
  show "(\<forall>e\<in>set (fact_errors (zero_fact_maps (canonical_policy s))). e = None)
     \<longleftrightarrow> (\<forall>e\<in>set (fact_errors s). e = None)"
    by (simp only: fact_errors_def zero_maps_simps canonical_policy_simps list.set ball_simps
        canonical_policy_fact)
qed

lemma errors_canonical:
  "(\<forall>e\<in>set (observation_errors (zero_fact_maps (canonical_policy s))). e = None)
     \<longleftrightarrow> (\<forall>e\<in>set (observation_errors s). e = None)"
  by (simp add: observation_errors_def checks_canonical canonical_program_facts split_beta')


lemma canonical_policy_zero [simp]:
  "canonical_policy (zero_fact_maps s) = zero_fact_maps (canonical_policy s)"
  by (simp add: canonical_policy_def zero_fact_maps_def)

text \<open>
  A canonical snapshot is a fixed point: observing again exactly what a snapshot holds
  gives the same snapshot with the same fingerprint.
\<close>

theorem canonicalize_fixpoint:
  assumes "canonicalize s = Inr sn"
  shows "canonicalize (sn_observation sn) = Inr sn"
proof -
  let ?d = "observation_defaults s"
  let ?c = "zero_fact_maps (canonical_policy ?d)"
  have d: "observation_defaults ?c = ?c"
    by (rule observation_defaults_id) (use defaults_status [of s] in simp_all)
  have fields: "ob_schema_version ?d = ob_schema_version s" "ob_state_revision ?d = ob_state_revision s"
    by (simp_all add: observation_defaults_def Let_def)
  show ?thesis
    using assms by (simp add: canonicalize_Inr d fields errors_canonical observation_fingerprint_def)
qed

text \<open>What the domain relies on in a snapshot.\<close>

definition snapshot_consistent :: "sd_observation \<Rightarrow> bool" where
  "snapshot_consistent s \<longleftrightarrow>
     invocation_validate (ob_invocation s) False = None
     \<and> (is_known (ob_phase s) \<longrightarrow> phase_valid (f_value (ob_phase s)))
     \<and> (known_as (ob_phase s) Phase_recovery \<longrightarrow> \<not> known_as (ob_recovery s) Recovery_none)
     \<and> (known_as (ob_phase s) Phase_recovery \<or> known_other (ob_recovery s) [Recovery_none]
          \<longrightarrow> \<not> recovery_info_incomplete s)
     \<and> (known_other (ob_transaction s) [Transaction_none] \<longrightarrow> \<not> transaction_info_incomplete s)
     \<and> (known_as (ob_terminal s) Terminal_established
          \<longrightarrow> \<not> objective_incomplete s \<and> \<not> known_other (ob_phase s) [Phase_terminal, Phase_abandoned]
            \<and> \<not> known_other (ob_delivery s) [Delivery_terminal, Delivery_discarded])
     \<and> (known_as (ob_workspace s) Workspace_landed \<longrightarrow> \<not> known_other (ob_publication s) [Publication_merged])
     \<and> \<not> (known_as (ob_phase s) Phase_active \<and> known_as (ob_engagement s) Engagement_dormant)
     \<and> (is_known (ob_configuration_policy s)
          \<longrightarrow> policy_validate (f_value (ob_configuration_policy s)) = None
            \<and> sorted (cp_hosts (f_value (ob_configuration_policy s))))"

lemma consistency_error_None:
  "consistency_error s = None \<Longrightarrow>
     (known_as (ob_phase s) Phase_recovery \<longrightarrow> \<not> known_as (ob_recovery s) Recovery_none)
     \<and> (known_as (ob_phase s) Phase_recovery \<or> known_other (ob_recovery s) [Recovery_none]
          \<longrightarrow> \<not> recovery_info_incomplete s)
     \<and> (known_other (ob_transaction s) [Transaction_none] \<longrightarrow> \<not> transaction_info_incomplete s)
     \<and> (known_as (ob_terminal s) Terminal_established
          \<longrightarrow> \<not> objective_incomplete s \<and> \<not> known_other (ob_phase s) [Phase_terminal, Phase_abandoned]
            \<and> \<not> known_other (ob_delivery s) [Delivery_terminal, Delivery_discarded])
     \<and> (known_as (ob_workspace s) Workspace_landed \<longrightarrow> \<not> known_other (ob_publication s) [Publication_merged])
     \<and> \<not> (known_as (ob_phase s) Phase_active \<and> known_as (ob_engagement s) Engagement_dormant)"
  unfolding consistency_error_def by (simp split: if_split_asm)

text \<open>
  C35. Every canonical snapshot is consistent: a recovery phase or recovery state comes with a
  complete recovery context, an open transaction with a complete transaction context,
  established terminal evidence with a valid objective and a terminal phase and delivery, a
  landed workspace with merged publication; the policy is valid and its hosts are sorted.
\<close>

theorem canonical_snapshot_consistent:
  assumes "canonicalize s = Inr sn"
  shows "snapshot_consistent (sn_observation sn) \<and> length (sn_fingerprint sn) = 64"
proof -
  let ?d = "observation_defaults s"
  let ?c = "zero_fact_maps (canonical_policy ?d)"
  have sn: "sn_observation sn = ?c" "Inr (sn_fingerprint sn) = fst (observation_fingerprint (canonical_policy ?d))"
    and all: "\<forall>e\<in>set (observation_errors ?c). e = None"
    using assms by (simp_all add: canonicalize_Inr errors_canonical)
  have "length (sn_fingerprint sn) = 64"
    using sn(2) observation_fingerprint_total [of "canonical_policy ?d"] by auto
  moreover have "consistency_error ?c = None" "invocation_validate (ob_invocation ?c) False = None"
    "is_known (ob_phase ?c) \<longrightarrow> phase_valid (f_value (ob_phase ?c))"
    "is_known (ob_configuration_policy ?c) \<longrightarrow> policy_validate (f_value (ob_configuration_policy ?c)) = None"
    using all by (simp_all add: observation_errors_def split: if_split_asm)
  moreover have "is_known (ob_configuration_policy ?c) \<longrightarrow> sorted (cp_hosts (f_value (ob_configuration_policy ?c)))"
    by (simp add: policy_canonical_def)
  ultimately show ?thesis
    unfolding sn(1) snapshot_consistent_def using consistency_error_None [of ?c] by blast
qed

section \<open>Independence of times and orders\<close>

lemma content_simps [simp]:
  "ob_schema_version (content s) = ob_schema_version s"
  "ob_state_revision (content s) = ob_state_revision s"
  "ob_program_fingerprint (content s) = ob_program_fingerprint s"
  "ob_recorded_fingerprint (content s) = ob_recorded_fingerprint s"
  "ob_invocation (content s) = ob_invocation s"
  "ob_program (content s) = zero_evidence_times (ob_program s)"
  "ob_phase (content s) = zero_evidence_times (ob_phase s)"
  "ob_engagement (content s) = zero_evidence_times (ob_engagement s)"
  "ob_delivery (content s) = zero_evidence_times (ob_delivery s)"
  "ob_workspace (content s) = zero_evidence_times (ob_workspace s)"
  "ob_work_package (content s) = zero_evidence_times (ob_work_package s)"
  "ob_plan (content s) = zero_evidence_times (ob_plan s)"
  "ob_configuration (content s) = zero_evidence_times (ob_configuration s)"
  "ob_configuration_policy (content s) = zero_evidence_times (ob_configuration_policy s)"
  "ob_runtime (content s) = zero_evidence_times (ob_runtime s)"
  "ob_publication (content s) = zero_evidence_times (ob_publication s)"
  "ob_verification (content s) = zero_evidence_times (ob_verification s)"
  "ob_recovery (content s) = zero_evidence_times (ob_recovery s)"
  "ob_transaction (content s) = zero_evidence_times (ob_transaction s)"
  "ob_recovery_info (content s) = zero_evidence_times (ob_recovery_info s)"
  "ob_transaction_info (content s) = zero_evidence_times (ob_transaction_info s)"
  "ob_terminal (content s) = zero_evidence_times (ob_terminal s)"
  "ob_objective (content s) = zero_evidence_times (ob_objective s)"
  "ob_observed_at (content s) = zero_time"
  by (simp_all add: content_def untimed_def Let_def)

lemma content_facts:
  "set (ob_program_facts (content s)) = (\<lambda>kf. (fst kf, zero_evidence_times (snd kf))) ` set (ob_program_facts s)"
  "set (ob_extension_facts (content s)) = (\<lambda>kf. (fst kf, zero_evidence_times (snd kf))) ` set (ob_extension_facts s)"
  by (simp_all add: content_def untimed_def zero_fact_maps_def Let_def)

text \<open>All checks but the one on the time of the observation.\<close>

definition acceptable :: "sd_observation \<Rightarrow> bool" where
  "acceptable s \<longleftrightarrow>
     (ob_program_fingerprint s = [] \<or> length (ob_program_fingerprint s) = 64)
     \<and> invocation_validate (ob_invocation s) False = None
     \<and> (\<forall>e\<in>set (fact_errors s). e = None)
     \<and> (is_known (ob_phase s) \<longrightarrow> phase_valid (f_value (ob_phase s)))
     \<and> (\<forall>c\<in>set (value_checks s). value_error c = None)
     \<and> consistency_error s = None
     \<and> (\<forall>kf\<in>set (ob_program_facts s). named_fact_error ''control-program'' kf = None)
     \<and> (\<forall>kf\<in>set (ob_extension_facts s). named_fact_error ''extension'' kf = None)
     \<and> (is_known (ob_configuration_policy s) \<longrightarrow> policy_validate (f_value (ob_configuration_policy s)) = None)
     \<and> context_error s = None"

lemma observation_errors_None:
  "(\<forall>e\<in>set (observation_errors s). e = None) \<longleftrightarrow> \<not> time_is_zero (ob_observed_at s) \<and> acceptable s"
  by (auto simp: observation_errors_def acceptable_def)

lemma checks_content:
  "value_checks (content s) = value_checks s"
  "consistency_error (content s) = consistency_error s"
  "context_error (content s) = context_error s"
  "(\<forall>e\<in>set (fact_errors (content s)). e = None) \<longleftrightarrow> (\<forall>e\<in>set (fact_errors s). e = None)"
proof -
  show "value_checks (content s) = value_checks s"
    by (simp only: value_checks_def content_simps zero_evidence_simps)
  show "consistency_error (content s) = consistency_error s"
    by (simp only: consistency_error_def recovery_info_incomplete_def transaction_info_incomplete_def
        objective_incomplete_def known_as_def known_other_def content_simps zero_evidence_simps)
  show "context_error (content s) = context_error s"
    by (simp only: context_error_def content_simps zero_evidence_simps)
  show "(\<forall>e\<in>set (fact_errors (content s)). e = None) \<longleftrightarrow> (\<forall>e\<in>set (fact_errors s). e = None)"
    by (simp only: fact_errors_def content_simps list.set ball_simps zero_evidence_validate)
qed

lemma acceptable_content: "acceptable (content s) = acceptable s"
  unfolding acceptable_def checks_content content_facts
  by (simp only: content_simps zero_evidence_simps ball_simps named_fact_zero prod.collapse)

lemma checks_policy:
  "value_checks (canonical_policy s) = value_checks s"
  "consistency_error (canonical_policy s) = consistency_error s"
  "context_error (canonical_policy s) = context_error s"
  "(\<forall>e\<in>set (fact_errors (canonical_policy s)). e = None) \<longleftrightarrow> (\<forall>e\<in>set (fact_errors s). e = None)"
proof -
  show "value_checks (canonical_policy s) = value_checks s"
    by (simp only: value_checks_def canonical_policy_simps)
  show "consistency_error (canonical_policy s) = consistency_error s"
    by (simp only: consistency_error_def recovery_info_incomplete_def transaction_info_incomplete_def
        objective_incomplete_def canonical_policy_simps)
  show "context_error (canonical_policy s) = context_error s"
    by (simp only: context_error_def canonical_policy_simps)
  show "(\<forall>e\<in>set (fact_errors (canonical_policy s)). e = None) \<longleftrightarrow> (\<forall>e\<in>set (fact_errors s). e = None)"
    by (simp only: fact_errors_def canonical_policy_simps list.set ball_simps canonical_policy_fact)
qed

lemma acceptable_policy: "acceptable (canonical_policy s) = acceptable s"
  unfolding acceptable_def checks_policy by simp

lemma content_program [simp]:
  "content (s\<lparr>ob_program := f\<rparr>) = (content s)\<lparr>ob_program := zero_evidence_times f\<rparr>"
  "content (s\<lparr>ob_work_package := f\<rparr>) = (content s)\<lparr>ob_work_package := zero_evidence_times f\<rparr>"
  by (simp_all add: content_def untimed_def zero_fact_maps_def Let_def)

lemma policy_program [simp]:
  "canonical_policy (s\<lparr>ob_program := f\<rparr>) = (canonical_policy s)\<lparr>ob_program := f\<rparr>"
  "canonical_policy (s\<lparr>ob_work_package := f\<rparr>) = (canonical_policy s)\<lparr>ob_work_package := f\<rparr>"
  by (simp_all add: canonical_policy_def)

lemma zero_known:
  "zero_evidence_times (known v (e\<lparr>ev_observed_at := t\<rparr>)) = known v (e\<lparr>ev_observed_at := zero_time\<rparr>)"
  by (simp add: zero_evidence_times_def known_def)

text \<open>The defaults by their content.\<close>

definition default_program :: "string fact" where
  "default_program = known Program_unbound
     \<lparr>ev_source = ''control-program:unbound'', ev_fingerprint = ''unbound'', ev_revision = [],
      ev_observed_at = zero_time\<rparr>"

definition default_work_package :: "string fact" where
  "default_work_package = known Work_package_absent
     \<lparr>ev_source = ''work-package:absent'', ev_fingerprint = ''absent'', ev_revision = [],
      ev_observed_at = zero_time\<rparr>"

lemma zero_default [simp]:
  "zero_evidence_times (known Program_unbound \<lparr>ev_source = ''control-program:unbound'',
     ev_fingerprint = ''unbound'', ev_revision = [], ev_observed_at = t\<rparr>) = default_program"
  "zero_evidence_times (known Work_package_absent \<lparr>ev_source = ''work-package:absent'',
     ev_fingerprint = ''absent'', ev_revision = [], ev_observed_at = t\<rparr>) = default_work_package"
  by (simp_all add: zero_evidence_times_def known_def default_program_def default_work_package_def)

lemma content_defaults:
  "content (canonical_policy (observation_defaults s)) =
     (let c = content (canonical_policy s);
          c1 = (if f_status (ob_program c) = [] \<and> ob_program_fingerprint c = []
                then c\<lparr>ob_program := default_program\<rparr> else c)
      in if f_status (ob_work_package c1) = [] then c1\<lparr>ob_work_package := default_work_package\<rparr> else c1)"
  by (simp add: observation_defaults_def Let_def)

section \<open>Observing again\<close>

text \<open>
  Two observations of the same state of affairs, stated field by field and without the erasure
  the program computes: scalars and the invocation are equal; every fact has the same status,
  value and detail and the same evidence but for the times it was observed at; the hosts of a
  known policy may be listed in another order; the maps of facts hold each key once and agree
  under every key, in any order of their entries; the time of the observation is free.
\<close>

definition evidence_agrees :: "evidence \<Rightarrow> evidence \<Rightarrow> bool" where
  "evidence_agrees e e' \<longleftrightarrow> ev_source e = ev_source e' \<and> ev_fingerprint e = ev_fingerprint e'
     \<and> ev_revision e = ev_revision e'"

definition fact_agrees_on :: "('a \<Rightarrow> 'a \<Rightarrow> bool) \<Rightarrow> 'a fact \<Rightarrow> 'a fact \<Rightarrow> bool" where
  "fact_agrees_on same f f' \<longleftrightarrow> f_status f = f_status f' \<and> same (f_value f) (f_value f')
     \<and> f_detail f = f_detail f' \<and> list_all2 evidence_agrees (f_evidence f) (f_evidence f')"

abbreviation fact_agrees :: "'a fact \<Rightarrow> 'a fact \<Rightarrow> bool" where
  "fact_agrees \<equiv> fact_agrees_on (=)"

definition policy_agrees :: "configuration_policy \<Rightarrow> configuration_policy \<Rightarrow> bool" where
  "policy_agrees p p' \<longleftrightarrow> p\<lparr>cp_hosts := []\<rparr> = p'\<lparr>cp_hosts := []\<rparr> \<and> mset (cp_hosts p) = mset (cp_hosts p')"

definition fact_map_agrees :: "(string \<times> 'a fact) list \<Rightarrow> (string \<times> 'a fact) list \<Rightarrow> bool" where
  "fact_map_agrees m m' \<longleftrightarrow> distinct (map fst m) \<and> distinct (map fst m')
     \<and> set (map fst m) = set (map fst m')
     \<and> list_all (\<lambda>(k, f). case map_of m' k of None \<Rightarrow> False | Some f' \<Rightarrow> fact_agrees f f') m"

definition reobserved :: "sd_observation \<Rightarrow> sd_observation \<Rightarrow> bool" where
  "reobserved s s' \<longleftrightarrow>
     ob_schema_version s = ob_schema_version s'
     \<and> ob_state_revision s = ob_state_revision s'
     \<and> ob_program_fingerprint s = ob_program_fingerprint s'
     \<and> ob_recorded_fingerprint s = ob_recorded_fingerprint s'
     \<and> ob_invocation s = ob_invocation s'
     \<and> fact_agrees (ob_program s) (ob_program s')
     \<and> fact_agrees (ob_phase s) (ob_phase s')
     \<and> fact_agrees (ob_engagement s) (ob_engagement s')
     \<and> fact_agrees (ob_delivery s) (ob_delivery s')
     \<and> fact_agrees (ob_workspace s) (ob_workspace s')
     \<and> fact_agrees (ob_work_package s) (ob_work_package s')
     \<and> fact_agrees (ob_plan s) (ob_plan s')
     \<and> fact_agrees (ob_configuration s) (ob_configuration s')
     \<and> fact_agrees (ob_runtime s) (ob_runtime s')
     \<and> fact_agrees (ob_publication s) (ob_publication s')
     \<and> fact_agrees (ob_verification s) (ob_verification s')
     \<and> fact_agrees (ob_recovery s) (ob_recovery s')
     \<and> fact_agrees (ob_transaction s) (ob_transaction s')
     \<and> fact_agrees (ob_recovery_info s) (ob_recovery_info s')
     \<and> fact_agrees (ob_transaction_info s) (ob_transaction_info s')
     \<and> fact_agrees (ob_terminal s) (ob_terminal s')
     \<and> fact_agrees (ob_objective s) (ob_objective s')
     \<and> (if is_known (ob_configuration_policy s)
        then fact_agrees_on policy_agrees (ob_configuration_policy s) (ob_configuration_policy s')
        else fact_agrees (ob_configuration_policy s) (ob_configuration_policy s'))
     \<and> fact_map_agrees (ob_program_facts s) (ob_program_facts s')
     \<and> fact_map_agrees (ob_extension_facts s) (ob_extension_facts s')"

lemma zero_evidence_agrees:
  "list_all2 evidence_agrees es es'
     \<Longrightarrow> map (\<lambda>e. e\<lparr>ev_observed_at := t\<rparr>) es = map (\<lambda>e. e\<lparr>ev_observed_at := t\<rparr>) es'"
  by (induction rule: list_all2_induct) (auto simp: evidence_agrees_def)

lemma zero_fact_agrees: "fact_agrees f f' \<Longrightarrow> zero_evidence_times f = zero_evidence_times f'"
  using zero_evidence_agrees [of "f_evidence f" "f_evidence f'"]
  by (auto simp: fact_agrees_on_def zero_evidence_times_def)

lemma policy_canonical_agrees: "policy_agrees p p' \<Longrightarrow> policy_canonical p = policy_canonical p'"
  using sorted_list_of_multiset_mset [of "cp_hosts p"] sorted_list_of_multiset_mset [of "cp_hosts p'"]
  by (cases p; cases p') (simp add: policy_agrees_def policy_canonical_def)

lemma zero_map_agrees:
  assumes "fact_map_agrees m m'"
  shows "sort_key fst (map (\<lambda>kf. (fst kf, zero_evidence_times (snd kf))) m)
    = sort_key fst (map (\<lambda>kf. (fst kf, zero_evidence_times (snd kf))) m')" (is "sort_key fst ?z = sort_key fst ?z'")
proof (rule map_sorted_distinct_set_unique [where f = fst])
  have d: "distinct (map fst m)" "distinct (map fst m')" "fst ` set m = fst ` set m'"
    and all: "\<And>k f. (k, f) \<in> set m \<Longrightarrow> \<exists>f'. map_of m' k = Some f' \<and> fact_agrees f f'"
    using assms by (simp_all add: fact_map_agrees_def list_all_iff) (fastforce split: option.splits)
  have e: "map fst ?z = map fst m" "map fst ?z' = map fst m'"
    by (simp_all add: comp_def)
  have same: "set ?z = set ?z'"
  proof
    show "set ?z \<subseteq> set ?z'"
    proof
      fix x assume "x \<in> set ?z"
      then obtain k f where x: "x = (k, zero_evidence_times f)" "(k, f) \<in> set m"
        by auto
      then obtain f' where "(k, f') \<in> set m'" "fact_agrees f f'"
        using all [OF x(2)] map_of_SomeD by fastforce
      then show "x \<in> set ?z'"
        using x(1) zero_fact_agrees [of f f'] by force
    qed
    show "set ?z' \<subseteq> set ?z"
    proof
      fix x assume "x \<in> set ?z'"
      then obtain k f' where x: "x = (k, zero_evidence_times f')" "(k, f') \<in> set m'"
        by auto
      then have "k \<in> fst ` set m"
        using d(3) by force
      then obtain f where f: "(k, f) \<in> set m"
        by auto
      then have "fact_agrees f f'"
        using all [OF f] x(2) d(2) by auto
      then show "x \<in> set ?z"
        using x(1) f zero_fact_agrees [of f f'] by force
    qed
  qed
  then show "set (sort_key fst ?z) = set (sort_key fst ?z')"
    by simp
  show "sorted (map fst (sort_key fst ?z))" "sorted (map fst (sort_key fst ?z'))"
    by simp_all
  have "distinct (map fst ?z)" "distinct (map fst ?z')"
    unfolding e by (rule d)+
  then show "distinct (map fst (sort_key fst ?z))" "distinct (map fst (sort_key fst ?z'))"
    unfolding distinct_map_sort_key .
  have "inj_on fst (set ?z)"
    using \<open>distinct (map fst ?z)\<close> by (auto simp: distinct_map intro: inj_on_imageI)
  then show "inj_on fst (set (sort_key fst ?z) \<union> set (sort_key fst ?z'))"
    using same by simp
qed

lemma content_maps:
  "ob_program_facts (content s) = sort_key fst (map (\<lambda>kf. (fst kf, zero_evidence_times (snd kf))) (ob_program_facts s))"
  "ob_extension_facts (content s) = sort_key fst (map (\<lambda>kf. (fst kf, zero_evidence_times (snd kf))) (ob_extension_facts s))"
  by (simp_all add: content_def untimed_def zero_fact_maps_def Let_def)

lemma policy_content_agrees:
  assumes "if is_known (ob_configuration_policy s)
     then fact_agrees_on policy_agrees (ob_configuration_policy s) (ob_configuration_policy s')
     else fact_agrees (ob_configuration_policy s) (ob_configuration_policy s')"
  shows "zero_evidence_times (ob_configuration_policy (canonical_policy s))
    = zero_evidence_times (ob_configuration_policy (canonical_policy s'))"
proof (cases "is_known (ob_configuration_policy s)")
  case True
  then have a: "fact_agrees_on policy_agrees (ob_configuration_policy s) (ob_configuration_policy s')"
    using assms by simp
  then have "is_known (ob_configuration_policy s')"
    using True by (simp add: fact_agrees_on_def is_known_def)
  then show ?thesis
    using True a policy_canonical_agrees
    by (intro zero_fact_agrees) (auto simp: canonical_policy_def fact_agrees_on_def)
next
  case False
  then show ?thesis
    using assms zero_fact_agrees by (auto simp: canonical_policy_def fact_agrees_on_def is_known_def)
qed

text \<open>Observing again leaves the content the fingerprint identifies.\<close>

lemma reobserved_content:
  assumes "reobserved s s'"
  shows "content (canonical_policy s) = content (canonical_policy s')"
proof (rule sd_observation.equality)
  note r = assms [unfolded reobserved_def]
  show "ob_schema_version (content (canonical_policy s)) = ob_schema_version (content (canonical_policy s'))"
    using r by simp
  show "ob_state_revision (content (canonical_policy s)) = ob_state_revision (content (canonical_policy s'))"
    using r by simp
  show "ob_program_fingerprint (content (canonical_policy s)) = ob_program_fingerprint (content (canonical_policy s'))"
    using r by simp
  show "ob_recorded_fingerprint (content (canonical_policy s)) = ob_recorded_fingerprint (content (canonical_policy s'))"
    using r by simp
  show "ob_invocation (content (canonical_policy s)) = ob_invocation (content (canonical_policy s'))"
    using r by simp
  show "ob_program (content (canonical_policy s)) = ob_program (content (canonical_policy s'))"
    using r by (simp add: zero_fact_agrees)
  show "ob_phase (content (canonical_policy s)) = ob_phase (content (canonical_policy s'))"
    using r by (simp add: zero_fact_agrees)
  show "ob_engagement (content (canonical_policy s)) = ob_engagement (content (canonical_policy s'))"
    using r by (simp add: zero_fact_agrees)
  show "ob_delivery (content (canonical_policy s)) = ob_delivery (content (canonical_policy s'))"
    using r by (simp add: zero_fact_agrees)
  show "ob_workspace (content (canonical_policy s)) = ob_workspace (content (canonical_policy s'))"
    using r by (simp add: zero_fact_agrees)
  show "ob_work_package (content (canonical_policy s)) = ob_work_package (content (canonical_policy s'))"
    using r by (simp add: zero_fact_agrees)
  show "ob_plan (content (canonical_policy s)) = ob_plan (content (canonical_policy s'))"
    using r by (simp add: zero_fact_agrees)
  show "ob_configuration (content (canonical_policy s)) = ob_configuration (content (canonical_policy s'))"
    using r by (simp add: zero_fact_agrees)
  show "ob_runtime (content (canonical_policy s)) = ob_runtime (content (canonical_policy s'))"
    using r by (simp add: zero_fact_agrees)
  show "ob_publication (content (canonical_policy s)) = ob_publication (content (canonical_policy s'))"
    using r by (simp add: zero_fact_agrees)
  show "ob_verification (content (canonical_policy s)) = ob_verification (content (canonical_policy s'))"
    using r by (simp add: zero_fact_agrees)
  show "ob_recovery (content (canonical_policy s)) = ob_recovery (content (canonical_policy s'))"
    using r by (simp add: zero_fact_agrees)
  show "ob_transaction (content (canonical_policy s)) = ob_transaction (content (canonical_policy s'))"
    using r by (simp add: zero_fact_agrees)
  show "ob_recovery_info (content (canonical_policy s)) = ob_recovery_info (content (canonical_policy s'))"
    using r by (simp add: zero_fact_agrees)
  show "ob_transaction_info (content (canonical_policy s)) = ob_transaction_info (content (canonical_policy s'))"
    using r by (simp add: zero_fact_agrees)
  show "ob_terminal (content (canonical_policy s)) = ob_terminal (content (canonical_policy s'))"
    using r by (simp add: zero_fact_agrees)
  show "ob_objective (content (canonical_policy s)) = ob_objective (content (canonical_policy s'))"
    using r by (simp add: zero_fact_agrees)
  show "ob_configuration_policy (content (canonical_policy s)) = ob_configuration_policy (content (canonical_policy s'))"
    using r policy_content_agrees by simp
  show "ob_program_facts (content (canonical_policy s)) = ob_program_facts (content (canonical_policy s'))"
    "ob_extension_facts (content (canonical_policy s)) = ob_extension_facts (content (canonical_policy s'))"
    unfolding content_maps canonical_policy_simps using r zero_map_agrees by blast+
qed simp_all

lemma same_content_defaults:
  "content (canonical_policy s) = content (canonical_policy s')
     \<Longrightarrow> content (canonical_policy (observation_defaults s)) = content (canonical_policy (observation_defaults s'))"
  unfolding content_defaults by simp

lemma same_content_acceptable:
  "content (canonical_policy s) = content (canonical_policy s') \<Longrightarrow> acceptable s = acceptable s'"
  by (metis acceptable_content acceptable_policy)

lemma observation_defaults_simps [simp]:
  "ob_schema_version (observation_defaults s) = ob_schema_version s"
  "ob_state_revision (observation_defaults s) = ob_state_revision s"
  "ob_observed_at (observation_defaults s) = ob_observed_at s"
  "ob_phase (observation_defaults s) = ob_phase s"
  "ob_program_facts (observation_defaults s) = ob_program_facts s"
  "ob_extension_facts (observation_defaults s) = ob_extension_facts s"
  by (simp_all add: observation_defaults_def Let_def)

text \<open>
  C36. The snapshot fingerprint does not depend on when the observation was made, on when any
  evidence of any fact was seen, on the order of a known policy's hosts, or on the order in
  which Go visits a map: an observation that agrees with an accepted one in everything else is
  accepted as well and has the same fingerprint.
\<close>

theorem fingerprint_reproducible:
  assumes "canonicalize s = Inr sn" and "reobserved s s'" and "\<not> time_is_zero (ob_observed_at s')"
  shows "\<exists>sn'. canonicalize s' = Inr sn' \<and> sn_fingerprint sn' = sn_fingerprint sn"
proof -
  let ?c = "\<lambda>s. canonical_policy (observation_defaults s)"
  have d: "content (?c s) = content (?c s')"
    by (rule same_content_defaults [OF reobserved_content [OF assms(2)]])
  have fields: "ob_schema_version s' = ob_schema_version s" "ob_state_revision s' = ob_state_revision s"
    using assms(2) by (simp_all add: reobserved_def)
  have "fst (observation_fingerprint (?c s)) = fst (observation_fingerprint (?c s'))"
    by (rule fingerprint_content [OF d])
  moreover obtain h where "observation_fingerprint (?c s') = (Inr h, zero_fact_maps (?c s'))"
    using observation_fingerprint_total by metis
  ultimately have "canonicalize s' = Inr \<lparr>sn_observation = zero_fact_maps (?c s'), sn_fingerprint = h\<rparr>"
    "sn_fingerprint sn = h"
    using assms(1,3) same_content_acceptable [OF d] fields
    by (simp_all add: canonicalize_Inr observation_errors_None)
  then show ?thesis
    by auto
qed

text \<open>
  The maps of facts are shared: zeroing the evidence times of the fingerprinted projection also
  zeroes them in the snapshot, while the other facts keep the times of their evidence.
\<close>

theorem snapshot_loses_map_times:
  assumes "canonicalize s = Inr sn" and "(k, f) \<in> set (ob_program_facts (sn_observation sn))"
    and "e \<in> set (f_evidence f)"
  shows "ev_observed_at e = zero_time \<and> ob_phase (sn_observation sn) = ob_phase s"
  using assms by (auto simp: canonicalize_Inr canonical_program_facts zero_evidence_times_def)

end
