(* ===== verification/Delivery_Catalog.thy ===== *)
theory Delivery_Catalog
  imports Delivery_Snapshot
begin

text \<open>
  \<open>boatstack/internal/softwaredelivery/catalog\<close>, first part: the declaration of a transition
  (\<open>transition.go\<close>), how its predicates are evaluated on a snapshot, capabilities
  (\<open>capability.go\<close>), objective contracts (\<open>objective_contract.go\<close>), the fields and domains a
  declared state effect can name (\<open>state_facet.go\<close>) and the contracts of the native state
  handlers (\<open>native_state_handler.go\<close>).

  Values are immutable, so \<open>cloneTransition\<close> and \<open>cloneConditions\<close> are the identity. Enumerations are strings,
  as in \<open>Delivery_Facts\<close>.
\<close>

section \<open>Enumerations\<close>

abbreviation Origin_core :: string where "Origin_core \<equiv> ''core-system''"
abbreviation Origin_program :: string where "Origin_program \<equiv> ''control-program''"
abbreviation Origin_extension :: string where "Origin_extension \<equiv> ''extension''"

definition origin_valid :: "string \<Rightarrow> bool" where
  "origin_valid k = (k \<in> {Origin_core, Origin_program, Origin_extension})"

abbreviation Selection_system_recovery :: string where "Selection_system_recovery \<equiv> ''SYSTEM_RECOVERY''"
abbreviation Selection_program_recovery :: string where "Selection_program_recovery \<equiv> ''PROGRAM_RECOVERY''"
abbreviation Selection_extension_recovery :: string where
  "Selection_extension_recovery \<equiv> ''EXTENSION_RECOVERY''"
abbreviation Selection_objective_required :: string where
  "Selection_objective_required \<equiv> ''OBJECTIVE_REQUIRED''"
abbreviation Selection_program_progress :: string where "Selection_program_progress \<equiv> ''PROGRAM_PROGRESS''"
abbreviation Selection_explicit_only :: string where "Selection_explicit_only \<equiv> ''EXPLICIT_ONLY''"
abbreviation Selection_observed_external :: string where
  "Selection_observed_external \<equiv> ''OBSERVED_EXTERNAL''"

definition selection_valid :: "string \<Rightarrow> bool" where
  "selection_valid c =
     (c \<in> {Selection_system_recovery, Selection_program_recovery, Selection_extension_recovery,
           Selection_objective_required, Selection_program_progress, Selection_explicit_only,
           Selection_observed_external})"

definition selection_rank :: "string \<Rightarrow> int" where
  "selection_rank c =
     (if c = Selection_system_recovery then 1 else if c = Selection_program_recovery then 2
      else if c = Selection_extension_recovery then 3 else if c = Selection_objective_required then 4
      else if c = Selection_program_progress then 5 else if c = Selection_explicit_only then 6
      else if c = Selection_observed_external then 7 else 99)"

abbreviation Event_owned_local :: string where "Event_owned_local \<equiv> ''owned-local''"
abbreviation Event_owned_external :: string where "Event_owned_external \<equiv> ''owned-external''"
abbreviation Event_authority :: string where "Event_authority \<equiv> ''authority''"
abbreviation Event_observed_external :: string where "Event_observed_external \<equiv> ''observed-external''"
abbreviation Event_recovery :: string where "Event_recovery \<equiv> ''recovery''"

definition event_controllable :: "string \<Rightarrow> bool" where
  "event_controllable c = (c \<noteq> Event_observed_external)"

definition event_valid :: "string \<Rightarrow> bool" where
  "event_valid c =
     (c \<in> {Event_owned_local, Event_owned_external, Event_authority, Event_observed_external, Event_recovery})"

abbreviation Authority_none :: string where "Authority_none \<equiv> ''none''"
abbreviation Authority_repository :: string where "Authority_repository \<equiv> ''repository-policy''"
abbreviation Authority_human :: string where "Authority_human \<equiv> ''human''"
abbreviation Authority_autonomy :: string where "Authority_autonomy \<equiv> ''autonomy''"
abbreviation Authority_provider :: string where "Authority_provider \<equiv> ''external-provider''"

definition authority_class_valid :: "string \<Rightarrow> bool" where
  "authority_class_valid c =
     (c \<in> {Authority_none, Authority_repository, Authority_human, Authority_autonomy, Authority_provider})"

text \<open>An authority set is the list of the classes whose entry is true.\<close>

type_synonym authority_set = "string list"

definition authority_satisfies :: "authority_set \<Rightarrow> string list \<Rightarrow> string list \<Rightarrow> bool" where
  "authority_satisfies s alternatives required =
     (if \<not> list_all (\<lambda>a. a = Authority_none \<or> contains s a) required then False
      else alternatives = [] \<or> list_ex (\<lambda>a. a = Authority_none \<or> contains s a) alternatives)"

section \<open>Declarations\<close>

record transition_origin =
  og_kind :: string
  og_id :: string
  og_version :: string
  og_manifest :: string

record step_prescription =
  sp_operation :: string
  sp_arguments :: "string list"
  sp_authority_prompt :: string
  sp_postcondition :: string

record parameter_spec =
  ps_name :: string
  ps_required :: bool
  ps_secret :: bool

text \<open>
  A producer of the program's IR. Its three pointers are kept by the tree \<open>Marshal\<close> writes for
  what they point to.
\<close>

record parameter_producer =
  pp_kind :: string
  pp_input :: string
  pp_facet :: string
  pp_available_when :: "json option"
  pp_transition :: string
  pp_field :: string
  pp_work :: string
  pp_output :: string
  pp_binding :: "json option"
  pp_request :: "json option"

record work_input =
  wi_id :: string
  wi_producer :: parameter_producer

record work_output =
  wo_id :: string
  wo_path :: string
  wo_media_type :: string
  wo_required :: bool
  wo_max_bytes :: int
  wo_guidance_path :: string
  wo_guidance_sha :: string
  wo_guidance_content :: string
  wo_schema_path :: string
  wo_schema_sha :: string
  wo_schema_content :: string

record work_contract =
  wc_id :: string
  wc_fingerprint :: string
  wc_instruction_path :: string
  wc_instruction_sha :: string
  wc_instruction_content :: string
  wc_inputs :: "work_input list"
  wc_outputs :: "work_output list"

abbreviation Effect_assignments :: string where "Effect_assignments \<equiv> ''assignments''"
abbreviation Effect_native :: string where "Effect_native \<equiv> ''native''"

record value_reference =
  vr_parameter :: string
  vr_admission :: string
  vr_invocation :: string

record state_assignment =
  as_facet :: string
  as_value :: "string option"
  as_from :: value_reference

record state_precondition =
  pc_facet :: string
  pc_values :: "string list"

record state_effect =
  se_kind :: string
  se_preconditions :: "state_precondition list"
  se_assignments :: "state_assignment list"
  se_native_handler :: string

record interruption_contract =
  ic_points :: "string list"
  ic_partial_state :: "string list"
  ic_detection :: string
  ic_resume :: string
  ic_rollback :: string
  ic_compensation :: string
  ic_recovery :: string
  ic_recovery_authority :: string
  ic_resumption_predicate :: string

record policy_contract =
  pl_required_when :: string
  pl_authority_rule :: string
  pl_availability_rule :: string
  pl_evidence_prefix :: string
  pl_managed_operations :: "string list"
  pl_binds_objective :: bool
  pl_reconciles_program :: bool
  pl_rechecks_external :: bool
  pl_objective_scope :: objective_scope

record facet_condition =
  fc_facet :: string
  fc_statuses :: "string list"
  fc_values :: "string list"

record sd_transition =
  tn_id :: string
  tn_version :: int
  tn_origin :: transition_origin
  tn_owner :: string
  tn_selection :: string
  tn_class :: string
  tn_source_phases :: "protocol_phase list"
  tn_target_phases :: "protocol_phase list"
  tn_target_ids :: "string list"
  tn_required_identity :: "string list"
  tn_authority :: "string list"
  tn_authority_all :: "string list"
  tn_required_capabilities :: "string list"
  tn_declared_capabilities :: "string list"
  tn_runtime_execution :: bool
  tn_required_evidence :: "string list"
  tn_owned_resources :: "string list"
  tn_owned_facets :: "string list"
  tn_state_effect :: state_effect
  tn_effect :: string
  tn_local_effects :: "string list"
  tn_external_effects :: "string list"
  tn_idempotent :: bool
  tn_parameters :: "parameter_spec list"
  tn_prescription :: step_prescription
  tn_source_predicate :: string
  tn_source_conditions :: "facet_condition list"
  tn_admission_predicate :: string
  tn_target_predicate :: string
  tn_target_conditions :: "facet_condition list"
  tn_verifier :: string
  tn_interruption :: interruption_contract
  tn_reversibility :: string
  tn_terminal_effect :: string
  tn_privacy :: string
  tn_telemetry :: string
  tn_cost_class :: string
  tn_policy :: policy_contract
  tn_priority :: int
  tn_identity_rebind :: bool
  tn_worktree_transfer :: bool
  tn_execution_context :: string
  tn_binds_source_revision :: bool
  tn_authority_parameter :: string
  tn_work :: "work_contract option"

definition tn_controllable :: "sd_transition \<Rightarrow> bool" where
  "tn_controllable t = event_controllable (tn_class t)"

abbreviation tn_scope :: "sd_transition \<Rightarrow> objective_scope" where
  "tn_scope t \<equiv> pl_objective_scope (tn_policy t)"

section \<open>Predicates on a snapshot\<close>

definition trace_safe_facet :: "string \<Rightarrow> bool" where
  "trace_safe_facet f =
     (f \<in> {''phase'', ''program'', ''topology'', ''engagement'', ''delivery'', ''workspace'',
           ''work-package'', ''plan'', ''configuration'', ''runtime'', ''publication'',
           ''verification'', ''recovery'', ''transaction'', ''terminal''})"

definition condition_evaluate :: "facet_condition \<Rightarrow> sd_observation \<Rightarrow> bool \<times> message" where
  "condition_evaluate c s =
     (case snapshot_facet s (fc_facet c) of
        None \<Rightarrow> (False, [Lit ''source facet '', Quoted (fc_facet c), Lit '' is unavailable''])
      | Some (status, v) \<Rightarrow>
          if \<not> contains (fc_statuses c) status
          then (False, [Lit ''source facet '', Quoted (fc_facet c), Lit '' has status '', Quoted status,
                        Lit ''; requires one of '', Listed (fc_statuses c)])
          else if fc_values c = []
          then (True, [Lit ''source facet '', Quoted (fc_facet c), Lit '' has an allowed status''])
          else if contains (fc_values c) v
          then (True, if \<not> trace_safe_facet (fc_facet c)
                      then [Lit ''source facet '', Quoted (fc_facet c), Lit '' has an allowed value'']
                      else [Lit ''source facet '', Quoted (fc_facet c), Lit '' has allowed value '', Quoted v])
          else (False, if \<not> trace_safe_facet (fc_facet c)
                       then [Lit ''source facet '', Quoted (fc_facet c), Lit '' does not match its allowed values'']
                       else [Lit ''source facet '', Quoted (fc_facet c), Lit '' has value '', Quoted v,
                             Lit ''; requires one of '', Listed (fc_values c)]))"

definition condition_matches :: "facet_condition \<Rightarrow> sd_observation \<Rightarrow> bool" where
  "condition_matches c s = fst (condition_evaluate c s)"

text \<open>The first condition that does not hold, with its reason.\<close>

fun failing_condition :: "facet_condition list \<Rightarrow> sd_observation \<Rightarrow> message option" where
  "failing_condition [] s = None"
| "failing_condition (c # cs) s =
     (case condition_evaluate c s of (matched, reason) \<Rightarrow>
        if \<not> matched then Some reason else failing_condition cs s)"

definition implicitly_selectable :: "sd_transition \<Rightarrow> bool" where
  "implicitly_selectable t =
     (tn_selection t = Selection_system_recovery \<or> tn_selection t = Selection_program_recovery
      \<or> tn_selection t = Selection_extension_recovery \<or> tn_selection t = Selection_objective_required
      \<or> tn_selection t = Selection_program_progress)"

definition objective_evaluation :: "sd_transition \<Rightarrow> sd_objective \<Rightarrow> bool \<times> message" where
  "objective_evaluation t ob =
     (if tn_scope t = Objective_optional_preserve
      then (True, [Lit ''transition preserves the current objective binding''])
      else if tn_target_ids t = []
      then (True, [Lit ''transition is not restricted to an objective target''])
      else (let target = (if og_kind (tn_origin t) = Origin_core
                          then trusted_objective_class ob else so_target ob) in
        if contains (tn_target_ids t) target
        then (True, [Lit ''objective target '', Quoted target, Lit '' is in scope''])
        else (False, [Lit ''objective target '', Quoted target, Lit '' is outside supported targets '',
                      Listed (tn_target_ids t)])))"

definition supports_objective :: "sd_transition \<Rightarrow> sd_objective \<Rightarrow> bool" where
  "supports_objective t ob = fst (objective_evaluation t ob)"

definition source_evaluation :: "sd_transition \<Rightarrow> sd_observation \<Rightarrow> bool \<times> message" where
  "source_evaluation t s =
     (if \<not> is_known (ob_phase s) \<or> \<not> contains (tn_source_phases t) (f_value (ob_phase s))
      then (False, [Lit ''source phase is '', Quoted (f_value (ob_phase s)), Lit '' with status '',
                    Quoted (f_status (ob_phase s)), Lit ''; requires one of '', Listed (tn_source_phases t)])
      else (case failing_condition (tn_source_conditions t) s of
          Some reason \<Rightarrow> (False, reason)
        | None \<Rightarrow>
            if tn_scope t = Objective_optional_preserve \<and> \<not> is_known (ob_objective s)
               \<and> f_status (ob_objective s) \<noteq> Fact_absent
            then (False, [Lit ''objective binding status '', Quoted (f_status (ob_objective s)),
                          Lit '' cannot be preserved''])
            else (True, [Lit ''source phase and domain facets are satisfied''])))"

definition source_matches :: "sd_transition \<Rightarrow> sd_observation \<Rightarrow> bool" where
  "source_matches t s = fst (source_evaluation t s)"

definition target_matches :: "sd_transition \<Rightarrow> sd_observation \<Rightarrow> bool" where
  "target_matches t s =
     (is_known (ob_phase s) \<and> contains (tn_target_phases t) (f_value (ob_phase s))
      \<and> list_all (\<lambda>c. condition_matches c s) (tn_target_conditions t))"

definition declares_target_phase :: "sd_transition \<Rightarrow> protocol_phase \<Rightarrow> bool" where
  "declares_target_phase t p = contains (tn_target_phases t) p"

lemma failing_condition_None: "failing_condition cs s = None \<longleftrightarrow> (\<forall>c\<in>set cs. condition_matches c s)"
  by (induction cs) (auto simp: condition_matches_def split: prod.splits)

lemma source_matches_iff:
  "source_matches t s \<longleftrightarrow> is_known (ob_phase s) \<and> f_value (ob_phase s) \<in> set (tn_source_phases t)
     \<and> (\<forall>c\<in>set (tn_source_conditions t). condition_matches c s)
     \<and> (tn_scope t = Objective_optional_preserve \<longrightarrow>
          is_known (ob_objective s) \<or> f_status (ob_objective s) = Fact_absent)"
  by (auto simp: source_matches_def source_evaluation_def failing_condition_None [symmetric] split: option.splits)

section \<open>Capabilities\<close>

abbreviation Capability_repository_write :: string where "Capability_repository_write \<equiv> ''repository.write''"
abbreviation Capability_command_execute :: string where "Capability_command_execute \<equiv> ''command.execute''"
abbreviation Capability_product_mutate :: string where "Capability_product_mutate \<equiv> ''product.mutate''"
abbreviation Capability_publication_prepare :: string where
  "Capability_publication_prepare \<equiv> ''publication.prepare''"
abbreviation Capability_publication_publish :: string where
  "Capability_publication_publish \<equiv> ''publication.publish''"
abbreviation Capability_human_approve :: string where "Capability_human_approve \<equiv> ''human.approve''"

definition effect_capability_valid :: "string \<Rightarrow> bool" where
  "effect_capability_valid c =
     (c \<in> {Capability_repository_write, Capability_command_execute, Capability_product_mutate,
           Capability_publication_prepare, Capability_publication_publish, Capability_human_approve})"

text \<open>A capability set is the list of the capabilities whose entry is true.\<close>

type_synonym capability_set = "string list"

definition new_capability_set :: "string list \<Rightarrow> capability_set" where
  "new_capability_set values = remdups (filter effect_capability_valid values)"

definition contains_all :: "capability_set \<Rightarrow> string list \<Rightarrow> bool" where
  "contains_all s values = list_all (contains s) values"

definition sorted_capabilities :: "capability_set \<Rightarrow> string list" where
  "sorted_capabilities s = sort (remdups s)"

fun scan_capabilities :: "string \<Rightarrow> string list \<Rightarrow> string list \<Rightarrow> gerror + string list" where
  "scan_capabilities field seen [] = Inr (sorted_capabilities seen)"
| "scan_capabilities field seen (v # vs) =
     (if \<not> effect_capability_valid v
      then Inl (errorf [Lit field, Lit '' contains unknown capability '', Quoted v])
      else if v \<in> set seen then Inl (errorf [Lit field, Lit '' duplicates capability '', Quoted v])
      else scan_capabilities field (v # seen) vs)"

definition normalize_effect_capabilities :: "string \<Rightarrow> string list \<Rightarrow> gerror + string list" where
  "normalize_effect_capabilities field values = scan_capabilities field [] values"

definition union_capabilities :: "string list list \<Rightarrow> string list" where
  "union_capabilities groups = sorted_capabilities (filter effect_capability_valid (concat groups))"

definition missing_capability :: "string list \<Rightarrow> capability_set \<Rightarrow> string" where
  "missing_capability required available =
     (case filter (\<lambda>v. \<not> contains available v) required of [] \<Rightarrow> [] | v # _ \<Rightarrow> v)"

definition authority_capabilities :: "authority_set \<Rightarrow> capability_set" where
  "authority_capabilities a =
     (let delegated = [Capability_repository_write, Capability_command_execute,
            Capability_product_mutate, Capability_publication_prepare]
      in (if contains a Authority_repository then delegated else [])
         @ (if contains a Authority_human then delegated @ [Capability_human_approve] else [])
         @ (if contains a Authority_autonomy then delegated else [])
         @ (if contains a Authority_provider then [Capability_publication_publish] else []))"

definition command_effects :: "string list" where
  "command_effects =
     [''gate.build.record'', ''gate.test.record'', ''workspace.cut'', ''workspace.sync'',
      ''workspace.cleanup'', ''workspace.reap'', ''publication.observe'', ''publication.reconcile'',
      ''publication.execute'', ''publication.correct'']"

definition kernel_effect_capabilities :: "sd_transition \<Rightarrow> string list" where
  "kernel_effect_capabilities t =
     (if \<not> tn_controllable t then []
      else sorted_capabilities
        ([Capability_repository_write]
         @ (if tn_runtime_execution t then [Capability_command_execute] else [])
         @ (if contains (tn_owned_facets t) Facet_product then [Capability_product_mutate] else [])
         @ (if contains command_effects (tn_effect t) then [Capability_command_execute] else [])
         @ (if tn_effect t = ''publication.preview'' then [Capability_publication_prepare] else [])
         @ (if tn_effect t = ''publication.execute'' \<or> tn_effect t = ''publication.correct''
            then [Capability_publication_publish] else [])))"

definition effect_required_capabilities :: "sd_transition \<Rightarrow> string list" where
  "effect_required_capabilities t =
     union_capabilities [tn_required_capabilities t, kernel_effect_capabilities t]"

section \<open>Objective contracts\<close>

record objective_contract =
  oc_target :: string
  oc_trusted :: string
  oc_conditions :: "facet_condition list"

type_synonym objective_contracts = "(string \<times> objective_contract) list"

definition contract_condition_error :: "string \<Rightarrow> facet_condition \<Rightarrow> gerror option" where
  "contract_condition_error target c =
     (if \<not> facet_name_valid (fc_facet c) \<or> fc_statuses c = []
      then Some (errorf [Lit ''objective '', Quoted target, Lit '' has invalid terminal condition''])
      else first_error (\<lambda>st. if fact_status_valid st then None
             else Some (errorf [Lit ''objective '', Quoted target, Lit '' has invalid terminal status '', Quoted st]))
           (fc_statuses c))"

definition add_contract ::
    "(string \<times> facet_condition list) list \<Rightarrow> objective_contracts \<Rightarrow> objective_contract
       \<Rightarrow> gerror + objective_contracts" where
  "add_contract extra contracts c =
     (if \<not> target_id_valid (oc_target c) \<or> oc_conditions c = []
      then Inl (errorf [Lit ''objective contract requires a valid objective and conditions''])
      else (let trusted = (if oc_trusted c = [] then oc_target c else oc_trusted c);
                conditions = oc_conditions c @ (case map_of extra (oc_target c) of Some cs \<Rightarrow> cs | None \<Rightarrow> [])
        in if \<not> target_id_valid trusted
           then Inl (errorf [Lit ''objective contract '', Quoted (oc_target c), Lit '' requires a valid trusted class''])
           else if map_of contracts (oc_target c) \<noteq> None
           then Inl (errorf [Lit ''duplicate objective contract '', Quoted (oc_target c)])
           else (case first_error (contract_condition_error (oc_target c)) conditions of
               Some e \<Rightarrow> Inl e
             | None \<Rightarrow> Inr (contracts @ [(oc_target c, c\<lparr>oc_trusted := trusted, oc_conditions := conditions\<rparr>)]))))"

fun add_contracts ::
    "(string \<times> facet_condition list) list \<Rightarrow> objective_contracts \<Rightarrow> objective_contract list
       \<Rightarrow> gerror + objective_contracts" where
  "add_contracts extra contracts [] = Inr contracts"
| "add_contracts extra contracts (c # cs) =
     (case add_contract extra contracts c of Inl e \<Rightarrow> Inl e | Inr contracts' \<Rightarrow> add_contracts extra contracts' cs)"

text \<open>The extension map is an association list in the order the final loop visits it.\<close>

definition new_objective_contracts ::
    "objective_contract list \<Rightarrow> (string \<times> facet_condition list) list \<Rightarrow> gerror + objective_contracts" where
  "new_objective_contracts base extra =
     (case add_contracts extra [] base of Inl e \<Rightarrow> Inl e
      | Inr contracts \<Rightarrow>
          (case first_error (\<lambda>target. if map_of contracts target \<noteq> None then None
                  else Some (errorf [Lit ''extension constrains unsupported objective '', Quoted target]))
                (map fst extra) of
             Some e \<Rightarrow> Inl e | None \<Rightarrow> Inr contracts))"

definition contracts_accept :: "objective_contracts \<Rightarrow> sd_objective \<Rightarrow> bool" where
  "contracts_accept c ob =
     (case map_of c (so_target ob) of None \<Rightarrow> False
      | Some contract \<Rightarrow> oc_trusted contract = trusted_objective_class ob)"

definition contracts_match :: "objective_contracts \<Rightarrow> sd_observation \<Rightarrow> sd_objective \<Rightarrow> bool" where
  "contracts_match c s ob =
     (if \<not> is_known (ob_objective s) \<or> f_value (ob_objective s) \<noteq> ob then False
      else (case map_of c (so_target ob) of None \<Rightarrow> False
        | Some contract \<Rightarrow> list_all (\<lambda>k. condition_matches k s) (oc_conditions contract)))"

definition contracts_all :: "objective_contracts \<Rightarrow> objective_contract list" where
  "contracts_all c = sort_key oc_target (map snd c)"

section \<open>Fields and domains of a declared effect\<close>

definition declared_state_field_facets :: "(string \<times> string) list" where
  "declared_state_field_facets =
     [(''program_fingerprint'', Facet_program), (''phase'', Facet_control),
      (''engagement'', Facet_product), (''delivery'', Facet_product), (''workspace'', Facet_product),
      (''plan'', Facet_product), (''configuration'', Facet_control), (''runtime'', Facet_installation),
      (''publication'', Facet_product), (''verification'', Facet_product), (''recovery'', Facet_control),
      (''transaction'', Facet_control), (''terminal'', Facet_product), (''source_revision'', Facet_product),
      (''worktree_fingerprint'', Facet_product), (''config_fingerprint'', Facet_control),
      (''runtime_version'', Facet_installation), (''runtime_fingerprint'', Facet_installation),
      (''runtime_source'', Facet_installation), (''workspace_branch'', Facet_product),
      (''workspace_path'', Facet_product), (''workspace_base_ref'', Facet_product),
      (''workspace_source_path'', Facet_product), (''workspace_source_id'', Facet_product),
      (''workspace_source_ref'', Facet_product), (''transaction_id'', Facet_control),
      (''transaction_transition'', Facet_control), (''recovery_cause'', Facet_control),
      (''recovery_source_phase'', Facet_control), (''recovery_resumption'', Facet_control),
      (''recovery_budget'', Facet_control)]"

definition declared_state_field_facet :: "string \<Rightarrow> string option" where
  "declared_state_field_facet field = map_of declared_state_field_facets field"

definition valid_declared_literal :: "string \<Rightarrow> string \<Rightarrow> bool" where
  "valid_declared_literal field v =
     (if field = ''phase'' then phase_valid v
      else if field = ''engagement'' then engagement_valid v
      else if field = ''delivery'' then delivery_valid v
      else if field = ''workspace'' then workspace_valid v
      else if field = ''plan'' then plan_valid v
      else if field = ''work_package'' then work_package_valid v
      else if field = ''configuration'' then configuration_valid v
      else if field = ''runtime'' then runtime_valid v
      else if field = ''publication'' then publication_valid v
      else if field = ''verification'' then verification_valid v
      else if field = ''recovery'' then recovery_valid v
      else if field = ''transaction'' then transaction_valid v
      else if field = ''terminal'' then terminal_valid v
      else if field = ''recovery_source_phase'' \<or> field = ''recovery_resumption'' then v = [] \<or> phase_valid v
      else if field = ''recovery_budget'' then v = ''0''
      else True)"

definition declared_resolver_facet :: "string \<Rightarrow> string option" where
  "declared_resolver_facet field =
     (if field \<in> {''engagement'', ''delivery'', ''workspace'', ''plan'', ''configuration'', ''runtime'',
                 ''publication'', ''verification'', ''recovery'', ''transaction'', ''terminal''}
      then Some field
      else if field = ''work_package'' then Some ''work-package'' else None)"

record state_facet_policy =
  fp_reads :: "string list"
  fp_writes :: "string list"

definition all_state_facets :: "string list" where
  "all_state_facets = [Facet_installation, Facet_program, Facet_control, Facet_product]"

text \<open>What an origin must not own; \<open>None\<close> for an origin the switch does not know.\<close>

definition origin_forbids :: "string \<Rightarrow> (string \<Rightarrow> bool) option" where
  "origin_forbids kind =
     (if kind = Origin_program then Some (\<lambda>f. f = Facet_installation \<or> f = Facet_program)
      else if kind = Origin_extension then Some (\<lambda>f. f \<noteq> Facet_control)
      else if kind = Origin_core then Some (\<lambda>f. False) else None)"

definition origin_name :: "string \<Rightarrow> string" where
  "origin_name kind = (if kind = Origin_program then ''control program'' else ''extension'')"

definition durable_state_facet_policy :: "sd_transition \<Rightarrow> gerror + state_facet_policy" where
  "durable_state_facet_policy t =
     (if tn_class t = Event_observed_external
      then Inr \<lparr>fp_reads = all_state_facets, fp_writes = []\<rparr>
      else (case normalize_state_facets (tn_id t @ ''.owned_facets'') (tn_owned_facets t) of
          Inl e \<Rightarrow> Inl (errorf ([Lit (tn_id t), Lit '': controllable transition requires valid owned facets: ''] @ etext e))
        | Inr writes \<Rightarrow>
            if writes = []
            then Inl (errorf [Lit (tn_id t), Lit '': controllable transition requires valid owned facets: <nil>''])
            else if \<not> contains writes Facet_control
            then Inl (errorf [Lit (tn_id t), Lit '': controllable transition must own '', Quoted Facet_control,
                              Lit '' durable state''])
            else (case origin_forbids (og_kind (tn_origin t)) of
                None \<Rightarrow> Inl (errorf [Lit ''transition '', Quoted (tn_id t),
                                     Lit '' has no valid durable state facet policy origin''])
              | Some bad \<Rightarrow>
                  (case filter bad writes of
                     f # _ \<Rightarrow> Inl (errorf [Lit (tn_id t), Lit '': '', Lit (origin_name (og_kind (tn_origin t))),
                                           Lit '' cannot own '', Quoted f, Lit '' durable state''])
                   | [] \<Rightarrow> Inr \<lparr>fp_reads = all_state_facets, fp_writes = writes\<rparr>))))"

definition recovery_state_facets :: "string \<Rightarrow> string list \<Rightarrow> string list" where
  "recovery_state_facets i required =
     (if i \<in> {''runtime.hydrate'', ''runtime.replace'', ''runtime.reconcile'', ''installation.update''}
      then [Facet_control, Facet_installation]
      else if i \<in> {''installation.initialize'', ''installation.reconcile-update''}
      then [Facet_control, Facet_installation, Facet_program]
      else if i \<in> {''repository.attach'', ''catalog.reconcile''} then [Facet_control, Facet_program]
      else [Facet_control]
        @ (if contains_all (new_capability_set required) [Capability_product_mutate] then [Facet_product] else []))"

section \<open>Contracts of the native state handlers\<close>

record native_contract =
  nc_components :: "string list"
  nc_effects :: "string list"
  nc_facets :: "string list"
  nc_scopes :: "objective_scope list"
  nc_binds :: bool

definition core_native :: "string list \<Rightarrow> string list \<Rightarrow> objective_scope \<Rightarrow> native_contract" where
  "core_native effects facets scope =
     \<lparr>nc_components = [''boatstack.core''], nc_effects = effects, nc_facets = facets,
      nc_scopes = [scope], nc_binds = False\<rparr>"

definition standard_native :: "string list \<Rightarrow> objective_scope \<Rightarrow> native_contract" where
  "standard_native effects scope =
     \<lparr>nc_components = [''boatstack.standard''], nc_effects = effects,
      nc_facets = [Facet_control, Facet_product], nc_scopes = [scope], nc_binds = False\<rparr>"

definition native_contracts :: "(string \<times> native_contract) list" where
  "native_contracts =
     [(''runtime-verified-settled'', core_native [''runtime.hydrate'', ''runtime.replace'']
         [Facet_control, Facet_installation] Objective_optional_preserve),
      (''runtime-reconcile'', core_native [''runtime.reconcile'']
         [Facet_control, Facet_installation] Objective_optional_preserve),
      (''configuration-verified-settled'', core_native [''configuration.initialize'', ''configuration.mutate'']
         [Facet_control] Objective_optional_preserve),
      (''configuration-reconcile'', core_native [''configuration.reconcile'']
         [Facet_control] Objective_optional_preserve),
      (''installation-initialize'', core_native [''installation.initialize'']
         [Facet_control, Facet_installation, Facet_program] Objective_optional_preserve),
      (''installation-reconcile-update'', core_native [''installation.reconcile-update'']
         [Facet_control, Facet_installation, Facet_program] Objective_optional_preserve),
      (''catalog-reconcile'', core_native [''catalog.reconcile'']
         [Facet_control, Facet_program] Objective_optional_preserve),
      (''objective-bind'', \<lparr>nc_components = [''boatstack.core''], nc_effects = [''objective.bind''],
         nc_facets = [Facet_control, Facet_product], nc_scopes = [Objective_none], nc_binds = True\<rparr>),
      (''plan-approve'', standard_native [''plan.approve''] Objective_bound_exact),
      (''work-package-admit'', standard_native [''work.package.admit''] Objective_bound_exact),
      (''work-package-approve'', standard_native [''work.package.approve''] Objective_bound_exact),
      (''planning-package-promote'', standard_native [''planning.package.promote''] Objective_bound_exact),
      (''abandon-delivery'', standard_native [''plan.abandon'', ''publication.abandon''] Objective_bound_exact),
      (''workspace-cleanup'', standard_native [''workspace.cleanup''] Objective_bound_exact),
      (''workspace-reap'', standard_native [''workspace.reap''] Objective_bound_exact),
      (''workspace-reconcile'', standard_native [''workspace.reconcile''] Objective_optional_preserve),
      (''gate-build-record'', standard_native [''gate.build.record''] Objective_bound_exact),
      (''gate-test-record'', standard_native [''gate.test.record''] Objective_bound_exact),
      (''gate-review-record'', standard_native [''gate.review.record''] Objective_bound_exact),
      (''gate-change-record'', standard_native [''gate.change.record''] Objective_bound_exact),
      (''gate-journey-record'', standard_native [''gate.journey.record''] Objective_bound_exact),
      (''visual-evidence-attach'', standard_native [''evidence.visual.attach''] Objective_bound_exact),
      (''publication-observe'', \<lparr>nc_components = [''boatstack.standard''],
         nc_effects = [''publication.observe'', ''publication.reconcile''],
         nc_facets = [Facet_control, Facet_product],
         nc_scopes = [Objective_bound_exact, Objective_optional_preserve], nc_binds = False\<rparr>)]"

definition validate_native_handler :: "sd_transition \<Rightarrow> gerror option" where
  "validate_native_handler t =
     (let name = se_native_handler (tn_state_effect t) in
      case map_of native_contracts name of
        None \<Rightarrow> Some (errorf [Lit (tn_id t), Lit '': native state handler '', Quoted name, Lit '' is not registered''])
      | Some contract \<Rightarrow>
          if \<not> contains (nc_components contract) (og_id (tn_origin t))
          then Some (errorf [Lit (tn_id t), Lit '': component '', Quoted (og_id (tn_origin t)),
                             Lit '' cannot invoke native state handler '', Quoted name])
          else if \<not> contains (nc_effects contract) (tn_effect t)
          then Some (errorf [Lit (tn_id t), Lit '': native state handler '', Quoted name,
                             Lit '' is incompatible with effect '', Quoted (tn_effect t)])
          else (case normalize_state_facets (tn_id t @ ''.owned_facets'') (tn_owned_facets t) of
              Inl e \<Rightarrow> Some e
            | Inr writes \<Rightarrow>
                (case normalize_state_facets (name @ ''.owned_facets'') (nc_facets contract) of
                   Inl e \<Rightarrow> Some e
                 | Inr expected \<Rightarrow>
                     if writes \<noteq> expected
                     then Some (errorf [Lit (tn_id t), Lit '': native state handler '', Quoted name,
                                        Lit '' requires owned facets '', Listed expected])
                     else if \<not> contains (nc_scopes contract) (tn_scope t)
                             \<or> pl_binds_objective (tn_policy t) \<noteq> nc_binds contract
                     then Some (errorf [Lit (tn_id t), Lit '': native state handler '', Quoted name,
                                        Lit '' has incompatible objective policy''])
                     else None)))"

end
