(* ===== verification/Delivery_Registry.thy ===== *)
theory Delivery_Registry
  imports Delivery_Catalog
begin

text \<open>
  \<open>boatstack/internal/softwaredelivery/catalog\<close>, second part: the closure rules of declarative
  state effects (\<open>state_effect_closure.go\<close>), the validation of a transition, and the registry
  with its lookups (\<open>transition.go\<close>).

  A sequence of guarded error returns is the first error of a list.
\<close>

definition fails :: "bool \<Rightarrow> message \<Rightarrow> gerror option" where
  "fails b m = (if b then Some (errorf m) else None)"

text \<open>The same with a typed error.\<close>

definition fails_with :: "error_class \<Rightarrow> bool \<Rightarrow> message \<Rightarrow> gerror option" where
  "fails_with c b text = (if b then Some (Gerror c text) else None)"

lemma fails_with_None [simp]: "fails_with c b text = None \<longleftrightarrow> \<not> b"
  by (simp add: fails_with_def)

definition first_failure :: "gerror option list \<Rightarrow> gerror option" where
  "first_failure checks = first_error (\<lambda>e. e) checks"

lemma fails_None [simp]: "fails b m = None \<longleftrightarrow> \<not> b"
  by (simp add: fails_def)

lemma first_failure_None [simp]: "first_failure es = None \<longleftrightarrow> (\<forall>e\<in>set es. e = None)"
  by (simp add: first_failure_def)

text \<open>The scan for an element seen before.\<close>

fun unique_scan :: "('a \<Rightarrow> 'b) \<Rightarrow> ('a \<Rightarrow> bool) \<Rightarrow> 'b list \<Rightarrow> 'a list \<Rightarrow> bool" where
  "unique_scan key ok seen [] = True"
| "unique_scan key ok seen (x # xs) =
     (ok x \<and> key x \<notin> set seen \<and> unique_scan key ok (key x # seen) xs)"

lemma unique_scan_iff:
  "unique_scan key ok seen xs \<longleftrightarrow> list_all ok xs \<and> distinct (map key xs) \<and> set (map key xs) \<inter> set seen = {}"
  by (induction xs arbitrary: seen) auto

section \<open>Closure of declarative effects\<close>

definition assignment_literal :: "sd_transition \<Rightarrow> string \<Rightarrow> string option" where
  "assignment_literal t facet =
     (case filter (\<lambda>a. as_facet a = facet \<and> as_value a \<noteq> None) (se_assignments (tn_state_effect t)) of
        [] \<Rightarrow> None | a # _ \<Rightarrow> as_value a)"

text \<open>A condition that pins the facet to known values; the first one decides.\<close>

definition pins :: "string \<Rightarrow> facet_condition \<Rightarrow> bool" where
  "pins facet c = (fc_facet c = facet \<and> fc_statuses c = [Fact_known] \<and> fc_values c \<noteq> [])"

definition source_guarantees :: "sd_transition \<Rightarrow> string \<Rightarrow> string list \<Rightarrow> bool" where
  "source_guarantees t field values =
     (case declared_resolver_facet field of None \<Rightarrow> False
      | Some facet \<Rightarrow>
          (case filter (pins facet) (tn_source_conditions t) of
             [] \<Rightarrow> False | c # _ \<Rightarrow> list_all (contains values) (fc_values c)))"

definition result_guarantees :: "sd_transition \<Rightarrow> string \<Rightarrow> string list \<Rightarrow> bool" where
  "result_guarantees t facet values =
     (case assignment_literal t facet of Some v \<Rightarrow> contains values v
      | None \<Rightarrow> source_guarantees t facet values)"

definition preserve_or_produce :: "sd_transition \<Rightarrow> bool \<Rightarrow> string list \<Rightarrow> bool" where
  "preserve_or_produce t source_valid facets =
     list_all (\<lambda>facet.
       case filter (\<lambda>a. as_facet a = facet) (se_assignments (tn_state_effect t)) of
         [] \<Rightarrow> source_valid | a # _ \<Rightarrow> as_value a \<noteq> Some []) facets"

definition result_guarantees_phase :: "sd_transition \<Rightarrow> protocol_phase list \<Rightarrow> bool" where
  "result_guarantees_phase t phases =
     (case assignment_literal t ''phase'' of Some v \<Rightarrow> contains phases v
      | None \<Rightarrow> tn_source_phases t \<noteq> [] \<and> list_all (contains phases) (tn_source_phases t))"

definition preserved_phase_declared :: "sd_transition \<Rightarrow> bool" where
  "preserved_phase_declared t =
     (assignment_literal t ''phase'' \<noteq> None
      \<or> list_all (declares_target_phase t) (tn_source_phases t) \<and> tn_source_phases t \<noteq> [])"

definition journal_derived_recovery :: "sd_transition \<Rightarrow> bool" where
  "journal_derived_recovery t =
     (tn_class t = Event_recovery \<and> \<not> tn_runtime_execution t
      \<and> se_assignments (tn_state_effect t) = [] \<and> contains (tn_owned_resources t) ''recovery-journal'')"

definition managed_workspace_values :: "string list" where
  "managed_workspace_values =
     [''cut'', ''active'', ''published'', ''landed'', ''attention-required'', ''abandoned'']"

definition non_empty_recovery_values :: "string list" where
  "non_empty_recovery_values =
     [''resumable'', ''rollback'', ''compensation'', ''reconcile'', Recovery_escalated]"

definition non_empty_transaction_values :: "string list" where
  "non_empty_transaction_values =
     [''staged'', ''local-applied'', ''external-uncertain'', ''verifying'', ''committed'', ''compensating'']"

definition deterministic_assignment_error :: "sd_transition \<Rightarrow> state_assignment \<Rightarrow> gerror option" where
  "deterministic_assignment_error t a =
     (if as_facet a \<in> {''recovery_source_phase'', ''recovery_resumption'', ''recovery_budget''}
      then fails (as_value a = None)
        [Lit (tn_id t), Lit '': state-effect assignment '', Quoted (as_facet a),
         Lit '' requires a literal constrained value'']
      else if as_facet a = ''program_fingerprint''
      then (case as_value a of
          Some v \<Rightarrow> fails (v \<noteq> [] \<and> length v \<noteq> 64)
            [Lit (tn_id t), Lit '': state-effect assignment '', Quoted (as_facet a),
             Lit '' requires an empty or 64-character fingerprint'']
        | None \<Rightarrow> fails (vr_admission (as_from a) \<noteq> ''expected_program_fingerprint'')
            [Lit (tn_id t), Lit '': state-effect assignment '', Quoted (as_facet a),
             Lit '' requires the admitted program fingerprint''])
      else None)"

definition closure_error :: "sd_transition \<Rightarrow> string list \<Rightarrow> gerror option" where
  "closure_error t assigned =
     (if se_kind (tn_state_effect t) \<noteq> Effect_assignments \<or> journal_derived_recovery t then None
      else (let result = result_guarantees t; source = source_guarantees t;
                configuration = result ''configuration'' [Configuration_verified];
                configuration_source = source ''configuration'' [Configuration_verified];
                runtime = result ''runtime'' [Runtime_verified];
                runtime_source = source ''runtime'' [Runtime_verified];
                workspace = result ''workspace'' managed_workspace_values;
                workspace_source = source ''workspace'' managed_workspace_values;
                recovery = result ''recovery'' non_empty_recovery_values;
                recovery_source = source ''recovery'' non_empty_recovery_values;
                transaction = result ''transaction'' non_empty_transaction_values;
                transaction_source = source ''transaction'' non_empty_transaction_values
        in first_failure
          [fails (\<not> preserved_phase_declared t)
             [Lit (tn_id t), Lit '': declarative state effect can preserve a source phase outside its target phases''],
           fails (configuration \<and> \<not> configuration_source)
             [Lit (tn_id t), Lit '': declarative verified configuration requires an already verified source; initialization requires a native handler''],
           fails (configuration \<and> \<not> preserve_or_produce t configuration_source [''config_fingerprint''])
             [Lit (tn_id t), Lit '': declarative verified configuration cannot clear its fingerprint''],
           fails (runtime \<and> \<not> preserve_or_produce t runtime_source
                    [''runtime_version'', ''runtime_fingerprint'', ''runtime_source''])
             [Lit (tn_id t), Lit '': declarative verified runtime requires version, fingerprint, and source assignments''],
           fails (workspace \<and> \<not> preserve_or_produce t workspace_source
                    [''workspace_path'', ''workspace_branch'', ''workspace_source_path'',
                     ''workspace_source_id'', ''workspace_source_ref''])
             [Lit (tn_id t), Lit '': declarative managed workspace requires complete destination and source identity''],
           fails (recovery \<and> (\<not> preserve_or_produce t recovery_source
                      [''transaction_id'', ''recovery_cause'', ''recovery_source_phase'', ''recovery_resumption'']
                    \<or> \<not> recovery_source \<and> \<not> contains assigned ''recovery_budget''))
             [Lit (tn_id t), Lit '': declarative recovery state requires complete recovery context''],
           fails (transaction \<and> \<not> preserve_or_produce t transaction_source [''transaction_id'', ''transaction_transition''])
             [Lit (tn_id t), Lit '': declarative transaction state requires complete transaction context''],
           fails (result ''terminal'' [Terminal_established] \<and> \<not> result_guarantees_phase t [Phase_terminal, Phase_abandoned])
             [Lit (tn_id t), Lit '': declarative established terminal state requires a terminal or abandoned target phase''],
           fails (result_guarantees_phase t [Phase_recovery] \<and> \<not> recovery)
             [Lit (tn_id t), Lit '': declarative recovery phase requires a non-empty recovery classification'']]))"

section \<open>State effects\<close>

definition precondition_implied :: "sd_transition \<Rightarrow> state_precondition \<Rightarrow> bool" where
  "precondition_implied t c =
     (if pc_facet c = ''phase'' then list_all (contains (pc_values c)) (tn_source_phases t)
      else (case declared_resolver_facet (pc_facet c) of None \<Rightarrow> False
        | Some facet \<Rightarrow>
            (case filter (pins facet) (tn_source_conditions t) of
               [] \<Rightarrow> False | s # _ \<Rightarrow> list_all (contains (pc_values c)) (fc_values s))))"

definition assignment_matches_target :: "sd_transition \<Rightarrow> state_assignment \<Rightarrow> bool" where
  "assignment_matches_target t a =
     (if as_facet a = ''phase''
      then (case as_value a of None \<Rightarrow> False | Some v \<Rightarrow> declares_target_phase t v)
      else (case declared_resolver_facet (as_facet a) of None \<Rightarrow> True
        | Some facet \<Rightarrow>
            (case as_value a of None \<Rightarrow> False
             | Some v \<Rightarrow> list_all (\<lambda>c. fc_facet c = facet \<longrightarrow>
                 contains (fc_statuses c) Fact_known \<and> (fc_values c = [] \<or> contains (fc_values c) v))
                 (tn_target_conditions t))))"

text \<open>The first value that was seen before or is no literal of the field.\<close>

fun bad_value :: "string \<Rightarrow> string list \<Rightarrow> string list \<Rightarrow> string option" where
  "bad_value field seen [] = None"
| "bad_value field seen (v # vs) =
     (if v \<in> set seen \<or> \<not> valid_declared_literal field v then Some v else bad_value field (v # seen) vs)"

fun precondition_errors :: "sd_transition \<Rightarrow> string list \<Rightarrow> state_precondition list \<Rightarrow> gerror option" where
  "precondition_errors t seen [] = None"
| "precondition_errors t seen (c # cs) =
     (if declared_state_field_facet (pc_facet c) = None \<or> pc_values c = [] \<or> pc_facet c \<in> set seen
      then Some (errorf [Lit (tn_id t), Lit '': state-effect preconditions require unique facets and values''])
      else if bad_value (pc_facet c) [] (pc_values c) \<noteq> None
      then Some (errorf [Lit (tn_id t), Lit '': state-effect precondition '', Quoted (pc_facet c),
                         Lit '' has invalid or duplicate value '',
                         Quoted (case bad_value (pc_facet c) [] (pc_values c) of Some v \<Rightarrow> v | None \<Rightarrow> [])])
      else if \<not> precondition_implied t c
      then Some (errorf [Lit (tn_id t), Lit '': state-effect precondition '', Quoted (pc_facet c),
                         Lit '' is not implied by resolver source conditions''])
      else precondition_errors t (pc_facet c # seen) cs)"

definition value_sources :: "state_assignment \<Rightarrow> nat" where
  "value_sources a =
     (if as_value a \<noteq> None then 1 else 0)
     + length (filter (\<lambda>s. s \<noteq> []) [vr_parameter (as_from a), vr_admission (as_from a), vr_invocation (as_from a)])"

text \<open>The parameters by name; a later declaration of a name replaces an earlier one.\<close>

definition parameter_named :: "sd_transition \<Rightarrow> string \<Rightarrow> parameter_spec option" where
  "parameter_named t name = map_of (rev (map (\<lambda>p. (ps_name p, p)) (tn_parameters t))) name"

definition assignment_error :: "sd_transition \<Rightarrow> string list \<Rightarrow> state_assignment \<Rightarrow> gerror option" where
  "assignment_error t seen a =
     (let param = vr_parameter (as_from a); adm = vr_admission (as_from a); ivo = vr_invocation (as_from a);
          facet = declared_state_field_facet (as_facet a) in
      first_failure
       [fails (facet = None \<or> as_facet a \<in> set seen)
          [Lit (tn_id t), Lit '': state-effect assignments require unique facets''],
        fails (\<not> contains (map Some (tn_owned_facets t)) facet)
          [Lit (tn_id t), Lit '': state-effect assignment '', Quoted (as_facet a),
           Lit '' exceeds owned facet '', Quoted (case facet of Some f \<Rightarrow> f | None \<Rightarrow> [])],
        fails (value_sources a \<noteq> 1)
          [Lit (tn_id t), Lit '': state-effect assignment '', Quoted (as_facet a),
           Lit '' requires exactly one value source''],
        (case as_value a of None \<Rightarrow> None
         | Some v \<Rightarrow> fails (\<not> valid_declared_literal (as_facet a) v)
            [Lit (tn_id t), Lit '': state-effect assignment '', Quoted (as_facet a),
             Lit '' has invalid literal '', Quoted v]),
        deterministic_assignment_error t a,
        fails (\<not> assignment_matches_target t a)
          [Lit (tn_id t), Lit '': state-effect assignment '', Quoted (as_facet a),
           Lit '' is not compatible with resolver target conditions''],
        fails (param \<noteq> [] \<and> parameter_named t param = None)
          [Lit (tn_id t), Lit '': state-effect assignment '', Quoted (as_facet a),
           Lit '' references undeclared parameter '', Quoted param],
        fails (param \<noteq> [] \<and> (case parameter_named t param of None \<Rightarrow> False | Some p \<Rightarrow> \<not> ps_required p))
          [Lit (tn_id t), Lit '': state-effect assignment '', Quoted (as_facet a),
           Lit '' references optional parameter '', Quoted param],
        fails (adm \<notin> {[], ''source_revision'', ''worktree_fingerprint'', ''expected_program_fingerprint''})
          [Lit (tn_id t), Lit '': state-effect assignment '', Quoted (as_facet a),
           Lit '' references unknown admission value '', Quoted adm],
        fails (ivo \<notin> {[], ''invoking_path'', ''worktree_id'', ''ref''})
          [Lit (tn_id t), Lit '': state-effect assignment '', Quoted (as_facet a),
           Lit '' references unknown invocation value '', Quoted ivo]])"

fun assignment_errors :: "sd_transition \<Rightarrow> string list \<Rightarrow> state_assignment list \<Rightarrow> gerror option" where
  "assignment_errors t seen [] = None"
| "assignment_errors t seen (a # as) =
     (case assignment_error t seen a of Some e \<Rightarrow> Some e
      | None \<Rightarrow> assignment_errors t (as_facet a # seen) as)"

text \<open>\<open>semanticID\<close>: words joined by \<open>.\<close> or \<open>-\<close>, at most one \<open>/\<close>.\<close>

definition catalog_id :: "string \<Rightarrow> bool" where
  "catalog_id s =
     (let segs = split_at (CHR ''/'') s in length segs \<le> 2 \<and> list_all (joined_words 0) segs)"

definition effect_kind_error :: "sd_transition \<Rightarrow> gerror option" where
  "effect_kind_error t =
     (let se = tn_state_effect t in
      if se_kind se = Effect_assignments
      then fails (se_native_handler se \<noteq> [])
        [Lit (tn_id t), Lit '': assignment state effect cannot name a native handler'']
      else if se_kind se = Effect_native
      then first_failure
        [fails (\<not> catalog_id (se_native_handler se) \<or> se_assignments se \<noteq> [])
           [Lit (tn_id t), Lit '': native state effect requires one semantic handler and no assignments''],
         fails (tn_runtime_execution t)
           [Lit (tn_id t), Lit '': component runtime transition cannot invoke a host-native state handler''],
         validate_native_handler t]
      else Some (errorf [Lit (tn_id t), Lit '': controllable transition requires a declared state effect'']))"

definition validate_state_effect :: "sd_transition \<Rightarrow> gerror option" where
  "validate_state_effect t =
     (if \<not> tn_controllable t
      then fails (se_kind (tn_state_effect t) \<noteq> [] \<or> tn_owned_facets t \<noteq> [])
        [Lit (tn_id t), Lit '': observed external transition cannot declare a durable state effect'']
      else first_failure
        [effect_kind_error t,
         precondition_errors t [] (se_preconditions (tn_state_effect t)),
         assignment_errors t [] (se_assignments (tn_state_effect t)),
         closure_error t (map as_facet (se_assignments (tn_state_effect t)))])"

section \<open>Work contracts\<close>

text \<open>\<open>strings.TrimSpace\<close> leaves nothing: only white space, in UTF-8.\<close>

definition ascii_space :: "char \<Rightarrow> bool" where
  "ascii_space c = (code c \<in> {9, 10, 11, 12, 13, 32})"

definition wide_space :: "string \<Rightarrow> bool" where
  "wide_space bs =
     (map code bs \<in> {[0xE1, 0x9A, 0x80], [0xE2, 0x80, 0xA8], [0xE2, 0x80, 0xA9], [0xE2, 0x80, 0xAF],
                     [0xE2, 0x81, 0x9F], [0xE3, 0x80, 0x80]}
      \<or> (case map code bs of [a, b, c] \<Rightarrow> a = 0xE2 \<and> b = 0x80 \<and> 0x80 \<le> c \<and> c \<le> 0x8A | _ \<Rightarrow> False))"

function blank :: "string \<Rightarrow> bool" where
  "blank [] = True"
| "blank (c # cs) =
     (if ascii_space c then blank cs
      else if map code (take 2 (c # cs)) \<in> {[0xC2, 0x85], [0xC2, 0xA0]} then blank (drop 1 cs)
      else if wide_space (take 3 (c # cs)) then blank (drop 2 cs) else False)"
  by pat_completeness auto
termination
  by (relation "measure length") auto

definition producer_json :: "parameter_producer \<Rightarrow> json" where
  "producer_json p =
     (let opt = (\<lambda>key v. omit_empty (v = []) key (JStr v));
          ptr = (\<lambda>key v. case v of None \<Rightarrow> [] | Some j \<Rightarrow> [(key, j)]) in
      JObj ([(''kind'', JStr (pp_kind p))] @ opt ''input'' (pp_input p) @ opt ''facet'' (pp_facet p)
        @ ptr ''available_when'' (pp_available_when p) @ opt ''transition'' (pp_transition p)
        @ opt ''field'' (pp_field p) @ opt ''work'' (pp_work p) @ opt ''output'' (pp_output p)
        @ ptr ''binding'' (pp_binding p) @ ptr ''request'' (pp_request p)))"

definition work_output_json :: "work_output \<Rightarrow> json" where
  "work_output_json w =
     (let opt = (\<lambda>key v. omit_empty (v = []) key (JStr v)) in
      JObj ([(''id'', JStr (wo_id w)), (''path'', JStr (wo_path w)), (''media_type'', JStr (wo_media_type w)),
          (''required'', JBool (wo_required w)), (''max_bytes'', JInt (wo_max_bytes w))]
        @ opt ''guidance_path'' (wo_guidance_path w) @ opt ''guidance_sha256'' (wo_guidance_sha w)
        @ opt ''guidance_content'' (wo_guidance_content w) @ opt ''schema_path'' (wo_schema_path w)
        @ opt ''schema_sha256'' (wo_schema_sha w) @ opt ''schema_content'' (wo_schema_content w)))"

definition work_json :: "work_contract \<Rightarrow> json" where
  "work_json w =
     JObj ([(''id'', JStr (wc_id w)), (''instruction_path'', JStr (wc_instruction_path w)),
         (''instruction_sha256'', JStr (wc_instruction_sha w)),
         (''instruction_content'', JStr (wc_instruction_content w))]
       @ omit_empty (wc_inputs w = []) ''inputs''
           (JArr (map (\<lambda>i. JObj [(''id'', JStr (wi_id i)), (''producer'', producer_json (wi_producer i))]) (wc_inputs w)))
       @ [(''outputs'', JArr (map work_output_json (wc_outputs w)))])"

definition producer_valid :: "parameter_producer \<Rightarrow> bool" where
  "producer_valid p \<longleftrightarrow>
     pp_kind p = ''entry-input'' \<and> catalog_id (pp_input p) \<and> pp_facet p = [] \<and> pp_available_when p = None
       \<and> pp_transition p = [] \<and> pp_field p = [] \<and> pp_work p = [] \<and> pp_output p = []
       \<and> pp_binding p = None \<and> pp_request p = None
     \<or> pp_kind p = ''work-output'' \<and> catalog_id (pp_work p) \<and> catalog_id (pp_output p) \<and> pp_input p = []
       \<and> pp_facet p = [] \<and> pp_available_when p = None \<and> pp_transition p = [] \<and> pp_field p = []
       \<and> pp_binding p = None \<and> pp_request p = None"

fun work_output_errors :: "string \<Rightarrow> string list \<Rightarrow> string list \<Rightarrow> work_output list \<Rightarrow> gerror option" where
  "work_output_errors i ids paths [] = None"
| "work_output_errors i ids paths (w # ws) =
     (let has_schema = (wo_schema_path w \<noteq> [] \<or> wo_schema_sha w \<noteq> [] \<or> wo_schema_content w \<noteq> []) in
      if \<not> catalog_id (wo_id w) \<or> wo_path w = [] \<or> wo_id w \<in> set ids \<or> wo_path w \<in> set paths
         \<or> wo_max_bytes w < 1 \<or> 16 * 2 ^ 20 < wo_max_bytes w
      then Some (errorf [Lit i, Lit '': foreground work outputs must be bounded and unique''])
      else if wo_media_type w \<notin> {''text/markdown'', ''text/plain'', ''application/json''}
      then Some (errorf [Lit i, Lit '': foreground work output '', Quoted (wo_id w), Lit '' has unsupported media type''])
      else if has_schema \<and> (wo_schema_path w = [] \<or> length (wo_schema_sha w) \<noteq> 64 \<or> wo_schema_content w = []
               \<or> wo_media_type w \<noteq> ''application/json'')
      then Some (errorf [Lit i, Lit '': foreground work output '', Quoted (wo_id w), Lit '' has invalid schema binding''])
      else work_output_errors i (wo_id w # ids) (wo_path w # paths) ws)"

definition validate_work :: "sd_transition \<Rightarrow> gerror option" where
  "validate_work t =
     (case tn_work t of None \<Rightarrow> None
      | Some w \<Rightarrow> first_failure
         [fails (\<not> tn_controllable t \<or> wc_id w = [] \<or> \<not> catalog_id (wc_id w) \<or> length (wc_fingerprint w) \<noteq> 64
            \<or> wc_instruction_path w = [] \<or> length (wc_instruction_sha w) \<noteq> 64
            \<or> blank (wc_instruction_content w) \<or> wc_outputs w = [])
           [Lit (tn_id t), Lit '': foreground work contract is incomplete''],
          fails (hash_json (work_json w) \<noteq> Inr (wc_fingerprint w))
           [Lit (tn_id t), Lit '': foreground work contract fingerprint is invalid''],
          fails (\<not> unique_scan wi_id (\<lambda>i. catalog_id (wi_id i) \<and> producer_valid (wi_producer i)) [] (wc_inputs w))
           [Lit (tn_id t), Lit '': foreground work inputs must be semantic and unique''],
          work_output_errors (tn_id t) [] [] (wc_outputs w)])"


section \<open>Transitions\<close>

definition selection_ownership_error :: "sd_transition \<Rightarrow> gerror option" where
  "selection_ownership_error t =
     (if tn_selection t = Selection_system_recovery
      then fails (og_kind (tn_origin t) \<noteq> Origin_core \<or> tn_class t \<noteq> Event_recovery)
        [Lit (tn_id t), Lit '': SYSTEM_RECOVERY is reserved for CoreSystem recovery events'']
      else if tn_selection t = Selection_program_recovery
      then fails (og_kind (tn_origin t) \<noteq> Origin_program \<or> tn_class t \<noteq> Event_recovery)
        [Lit (tn_id t), Lit '': PROGRAM_RECOVERY is reserved for ProgramRuntime recovery events'']
      else if tn_selection t = Selection_extension_recovery
      then fails (og_kind (tn_origin t) \<noteq> Origin_extension \<or> tn_class t \<noteq> Event_recovery)
        [Lit (tn_id t), Lit '': EXTENSION_RECOVERY is reserved for extension recovery events'']
      else fails (tn_class t = Event_recovery)
        [Lit (tn_id t), Lit '': recovery event requires its origin-specific recovery selection class''])"

definition transition_condition_error :: "sd_transition \<Rightarrow> facet_condition \<Rightarrow> gerror option" where
  "transition_condition_error t c =
     (if \<not> facet_name_valid (fc_facet c) \<or> fc_facet c = ''phase'' \<or> fc_statuses c = []
      then Some (errorf [Lit (tn_id t), Lit '': invalid or phase-duplicating facet condition''])
      else first_error (\<lambda>st. fails (\<not> fact_status_valid st)
             [Lit (tn_id t), Lit '': invalid fact status '', Quoted st]) (fc_statuses c))"

definition capability_error :: "sd_transition \<Rightarrow> gerror option" where
  "capability_error t =
     (case normalize_effect_capabilities (tn_id t @ ''.required_capabilities'') (tn_required_capabilities t) of
        Inl e \<Rightarrow> Some e
      | Inr required \<Rightarrow>
          (case normalize_effect_capabilities (tn_id t @ ''.declared_capabilities'') (tn_declared_capabilities t) of
             Inl e \<Rightarrow> Some e
           | Inr declared \<Rightarrow>
               (let missing = missing_capability
                      (union_capabilities [required, kernel_effect_capabilities t]) (new_capability_set declared)
                in fails (tn_controllable t \<and> missing \<noteq> [])
                  [Lit (tn_id t), Lit '': CAPABILITY_NOT_DECLARED '', Quoted missing])))"

definition effect_scope_error :: "sd_transition \<Rightarrow> gerror option" where
  "effect_scope_error t =
     (if tn_class t = Event_owned_external
      then fails (tn_local_effects t \<noteq> [] \<or> tn_external_effects t \<noteq> [tn_effect t])
        [Lit (tn_id t), Lit '': owned external effect scope is incomplete'']
      else if tn_controllable t
      then fails (tn_local_effects t \<noteq> [tn_effect t] \<or> tn_external_effects t \<noteq> [])
        [Lit (tn_id t), Lit '': owned local effect scope is incomplete'']
      else fails (tn_local_effects t \<noteq> [] \<or> tn_external_effects t \<noteq> [])
        [Lit (tn_id t), Lit '': observed event declares an owned effect scope''])"

definition interruption_error :: "sd_transition \<Rightarrow> gerror option" where
  "interruption_error t =
     (let c = tn_interruption t in first_failure
       [fails (ic_points c = [] \<or> ic_partial_state c = [] \<or> ic_detection c = [] \<or> ic_resume c = []
          \<or> ic_rollback c = [] \<or> ic_compensation c = [] \<or> ic_recovery_authority c = []
          \<or> ic_resumption_predicate c = [])
          [Lit (tn_id t), Lit '': interruption and recovery contract is incomplete''],
        fails (tn_controllable t \<and> ic_recovery c = [])
          [Lit (tn_id t), Lit '': controllable transition has no interruption recovery transition''],
        fails (\<not> tn_controllable t \<and> ic_recovery c \<noteq> [])
          [Lit (tn_id t), Lit '': observed transition cannot own an interruption recovery transition'']])"

definition names_facet :: "facet_condition list \<Rightarrow> string \<Rightarrow> bool" where
  "names_facet conditions facet = list_ex (\<lambda>c. fc_facet c = facet) conditions"

definition policy_error :: "sd_transition \<Rightarrow> gerror option" where
  "policy_error t =
     (let core = (og_kind (tn_origin t) = Origin_core); policy = tn_policy t in first_failure
       [fails (\<not> scope_valid (tn_scope t))
          [Lit (tn_id t), Lit '': invalid objective scope '', Quoted (tn_scope t)],
        fails (tn_scope t = Objective_optional_preserve \<and> pl_binds_objective policy)
          [Lit (tn_id t), Lit '': optional-preserve maintenance cannot bind a requested product objective''],
        fails (pl_binds_objective policy \<and> (\<not> core \<or> \<not> names_facet (tn_target_conditions t) ''objective''))
          [Lit (tn_id t), Lit '': requested-objective binding requires a CoreSystem objective target''],
        fails (pl_reconciles_program policy \<and> (\<not> core \<or> \<not> names_facet (tn_target_conditions t) ''program''))
          [Lit (tn_id t), Lit '': program reconciliation requires a CoreSystem program target'']])"

text \<open>\<open>validateTransition\<close>, its checks in order.\<close>

definition transition_errors :: "sd_transition \<Rightarrow> gerror option list" where
  "transition_errors t =
     [fails (tn_id t = [] \<or> \<not> catalog_id (tn_id t)) [Lit ''invalid semantic id '', Quoted (tn_id t)],
      fails (\<not> event_valid (tn_class t)) [Lit (tn_id t), Lit '': invalid event class '', Quoted (tn_class t)],
      fails (\<not> origin_valid (og_kind (tn_origin t)) \<or> og_id (tn_origin t) = [] \<or> og_version (tn_origin t) = []
             \<or> og_manifest (tn_origin t) = [] \<or> tn_owner t = [])
        [Lit (tn_id t), Lit '': transition origin, owner, version, and manifest fingerprint are required''],
      (case durable_state_facet_policy t of Inl e \<Rightarrow> Some e | Inr _ \<Rightarrow> None),
      validate_state_effect t,
      fails (\<not> selection_valid (tn_selection t))
        [Lit (tn_id t), Lit '': invalid selection class '', Quoted (tn_selection t)],
      fails (tn_class t = Event_observed_external \<and> tn_selection t \<noteq> Selection_observed_external)
        [Lit (tn_id t), Lit '': observed external transition must use OBSERVED_EXTERNAL selection''],
      fails (tn_class t \<noteq> Event_observed_external \<and> tn_selection t = Selection_observed_external)
        [Lit (tn_id t), Lit '': controllable transition cannot use OBSERVED_EXTERNAL selection''],
      selection_ownership_error t,
      fails (tn_version t < 1 \<or> tn_source_phases t = [] \<or> tn_target_phases t = [])
        [Lit (tn_id t), Lit '': version, source phases, and target phases are required''],
      fails (tn_execution_context t \<notin> {[], ''preserve'', ''advance''})
        [Lit (tn_id t), Lit '': invalid execution context effect '', Quoted (tn_execution_context t)],
      first_error (\<lambda>p. fails (\<not> phase_valid p) [Lit (tn_id t), Lit '': invalid phase '', Quoted p])
        (tn_source_phases t @ tn_target_phases t),
      fails (\<not> unique_scan (\<lambda>k. k) target_id_valid [] (tn_target_ids t))
        [Lit (tn_id t), Lit '': objective kinds must be valid and unique''],
      fails (tn_authority t = [] \<or> tn_required_evidence t = [])
        [Lit (tn_id t), Lit '': authority and evidence declarations are required''],
      first_error (\<lambda>a. fails (\<not> authority_class_valid a) [Lit (tn_id t), Lit '': invalid authority class '', Quoted a])
        (tn_authority t @ tn_authority_all t),
      capability_error t,
      fails (tn_controllable t \<and> tn_effect t = [])
        [Lit (tn_id t), Lit '': controllable transition has no owned effect''],
      fails (\<not> tn_controllable t \<and> (tn_effect t \<noteq> [] \<or> tn_owned_resources t \<noteq> []))
        [Lit (tn_id t), Lit '': observed external transition cannot own effects''],
      fails (tn_controllable t \<and> tn_owned_resources t = [])
        [Lit (tn_id t), Lit '': controllable transition has no owned resource''],
      fails (tn_required_identity t = [] \<or> tn_source_predicate t = [] \<or> tn_admission_predicate t = []
             \<or> tn_target_predicate t = [] \<or> tn_verifier t = [] \<or> sp_operation (tn_prescription t) = []
             \<or> sp_postcondition (tn_prescription t) = [])
        [Lit (tn_id t), Lit '': identity, predicates, verifier, and typed prescription are required''],
      fails (tn_source_conditions t = [] \<or> tn_target_conditions t = [])
        [Lit (tn_id t), Lit '': source and target facet conditions are required''],
      first_error (transition_condition_error t) (tn_source_conditions t @ tn_target_conditions t),
      effect_scope_error t,
      interruption_error t,
      fails (tn_terminal_effect t = []) [Lit (tn_id t), Lit '': terminal effect declaration is required''],
      fails (\<not> unique_scan ps_name (\<lambda>p. ps_name p \<noteq> []) [] (tn_parameters t))
        [Lit (tn_id t), Lit '': parameter names must be non-empty and unique''],
      fails (\<not> unique_scan (\<lambda>k. k) catalog_id [] (pl_managed_operations (tn_policy t)))
        [Lit (tn_id t), Lit '': managed operations must be semantic and unique''],
      policy_error t,
      fails (tn_authority_parameter t \<noteq> []
             \<and> (tn_authority_parameter t \<notin> set (map ps_name (tn_parameters t))
                \<or> \<not> contains (tn_authority t) Authority_provider \<and> \<not> contains (tn_authority_all t) Authority_provider))
        [Lit (tn_id t), Lit '': provider authority binding requires a declared parameter and mandatory provider authority''],
      fails (tn_reversibility t = [] \<or> tn_privacy t = [] \<or> tn_telemetry t = [] \<or> tn_cost_class t = [])
        [Lit (tn_id t), Lit '': recovery/telemetry metadata are incomplete''],
      fails (tn_priority t < 1) [Lit (tn_id t), Lit '': priority must be positive''],
      validate_work t]"

definition validate_transition :: "sd_transition \<Rightarrow> gerror option" where
  "validate_transition t = first_failure (transition_errors t)"

section \<open>The registry\<close>

record registry =
  rg_ordered :: "sd_transition list"
  rg_by_id :: "(string \<times> sd_transition) list"
  rg_managed :: "(string \<times> string) list"

text \<open>The managed operations of one transition, first conflict first.\<close>

fun claim_operations ::
    "string \<Rightarrow> (string \<times> string) list \<Rightarrow> string list \<Rightarrow> gerror + (string \<times> string) list" where
  "claim_operations i managed [] = Inr managed"
| "claim_operations i managed (op # ops) =
     (case map_of managed op of
        Some prior \<Rightarrow> Inl (errorf [Lit ''managed operation '', Quoted op, Lit '' is owned by both '', Quoted prior,
                                  Lit '' and '', Quoted i])
      | None \<Rightarrow> claim_operations i ((op, i) # managed) ops)"

fun register ::
    "nat \<Rightarrow> (string \<times> sd_transition) list \<Rightarrow> (string \<times> string) list \<Rightarrow> sd_transition list
       \<Rightarrow> gerror + (string \<times> sd_transition) list \<times> (string \<times> string) list" where
  "register n by_id managed [] = Inr (by_id, managed)"
| "register n by_id managed (t # ts) =
     (case validate_transition t of
        Some e \<Rightarrow> Inl (wrapf [Lit ''transition '', Number (int n), Lit '': ''] e)
      | None \<Rightarrow>
          if map_of by_id (tn_id t) \<noteq> None
          then Inl (errorf [Lit ''duplicate transition id '', Quoted (tn_id t)])
          else (case claim_operations (tn_id t) managed (pl_managed_operations (tn_policy t)) of
              Inl e \<Rightarrow> Inl e
            | Inr managed' \<Rightarrow> register (Suc n) ((tn_id t, t) # by_id) managed' ts))"

definition recovery_reference_error :: "(string \<times> sd_transition) list \<Rightarrow> sd_transition \<Rightarrow> gerror option" where
  "recovery_reference_error by_id t =
     (let recovery = ic_recovery (tn_interruption t) in
      if recovery = [] then None
      else fails (case map_of by_id recovery of None \<Rightarrow> True | Some c \<Rightarrow> tn_class c \<noteq> Event_recovery)
        [Lit ''transition '', Quoted (tn_id t), Lit '' references non-recovery transition '', Quoted recovery])"

definition selection_order :: "sd_transition \<Rightarrow> int \<times> int \<times> string" where
  "selection_order t = (selection_rank (tn_selection t), tn_priority t, tn_id t)"

text \<open>\<open>catalog.New\<close>.\<close>

definition new_registry :: "sd_transition list \<Rightarrow> gerror + registry" where
  "new_registry ts =
     (case register 0 [] [] ts of Inl e \<Rightarrow> Inl e
      | Inr (by_id, managed) \<Rightarrow>
          (case first_error (recovery_reference_error by_id) ts of Some e \<Rightarrow> Inl e
           | None \<Rightarrow> Inr \<lparr>rg_ordered = sort_key selection_order ts, rg_by_id = by_id, rg_managed = managed\<rparr>))"

definition registry_lookup :: "registry \<Rightarrow> string \<Rightarrow> sd_transition option" where
  "registry_lookup r i = map_of (rg_by_id r) i"

definition managed_transition :: "registry \<Rightarrow> string \<Rightarrow> sd_transition option" where
  "managed_transition r operation =
     (case map_of (rg_managed r) operation of None \<Rightarrow> None | Some i \<Rightarrow> registry_lookup r i)"

definition registry_admissible :: "registry \<Rightarrow> sd_observation \<Rightarrow> sd_objective \<Rightarrow> sd_transition list" where
  "registry_admissible r s ob =
     filter (\<lambda>t. tn_controllable t \<and> source_matches t s \<and> supports_objective t ob) (rg_ordered r)"

end
