(* ===== verification/Delivery_Durable.thy ===== *)
theory Delivery_Durable
  imports Delivery_Snapshot
begin

text \<open>
  \<open>boatstack/internal/softwaredelivery/durable\<close>: the durable state of a delivery, its
  validation and canonical form (\<open>state.go\<close>), the owner of each field and the domains in which
  two states differ (\<open>state_facet.go\<close>), and external bindings (\<open>binding.go\<close>). The bytes of
  \<open>EncodeState\<close> and \<open>DecodeState\<close> are not modelled.

  A nil slice and an empty slice are the same list: \<open>Canonical\<close> copies with \<open>append\<close> onto nil,
  so a state that was decoded never holds an empty slice that is not nil.
\<close>

section \<open>The state\<close>

record gate_evidence =
  ge_gate :: string
  ge_revision :: string
  ge_fingerprint :: string

record durable_state =
  ds_schema_version :: int
  ds_repository_id :: string
  ds_git_common_id :: string
  ds_worktree_id :: string
  ds_program_fingerprint :: string
  ds_human_identity_role :: string
  ds_control_bundle_fingerprint :: string
  ds_revision :: u64
  ds_phase :: protocol_phase
  ds_engagement :: string
  ds_delivery :: string
  ds_workspace :: string
  ds_work_package :: string
  ds_plan :: string
  ds_configuration :: string
  ds_runtime :: string
  ds_publication :: string
  ds_verification :: string
  ds_recovery :: string
  ds_transaction :: string
  ds_terminal :: string
  ds_objective :: sd_objective
  ds_source_revision :: string
  ds_worktree_fingerprint :: string
  ds_config_fingerprint :: string
  ds_plan_approval_policy :: string
  ds_visual_evidence_policy :: string
  ds_external_effect_policy :: string
  ds_independent_review :: bool
  ds_enabled_hosts :: "string list"
  ds_runtime_version :: string
  ds_runtime_fingerprint :: string
  ds_runtime_source :: string
  ds_plan_fingerprint :: string
  ds_work_package_fingerprint :: string
  ds_work_package_approval_fingerprint :: string
  ds_approval_fingerprint :: string
  ds_workspace_branch :: string
  ds_workspace_path :: string
  ds_workspace_base_ref :: string
  ds_workspace_source_path :: string
  ds_workspace_source_id :: string
  ds_workspace_source_ref :: string
  ds_publication_id :: string
  ds_publication_url :: string
  ds_preview_fingerprint :: string
  ds_transaction_id :: string
  ds_transaction_transition :: string
  ds_recovery_cause :: string
  ds_recovery_source_phase :: protocol_phase
  ds_recovery_resumption :: protocol_phase
  ds_recovery_budget :: int
  ds_last_transition :: string
  ds_gates :: "gate_evidence list"
  ds_updated_at :: gtime

definition state_schema_version :: int where
  "state_schema_version = 8"

definition can_read_state_schema :: "int \<Rightarrow> bool" where
  "can_read_state_schema v = (v = state_schema_version)"

definition empty_objective :: sd_objective where
  "empty_objective = \<lparr>so_id = [], so_target = [], so_trusted = [], so_delivery = [],
     so_evidence = [], so_frontier = False\<rparr>"

definition default_state :: "invocation \<Rightarrow> gtime \<Rightarrow> durable_state" where
  "default_state ctx now = \<lparr>
     ds_schema_version = state_schema_version, ds_repository_id = iv_repository_id ctx,
     ds_git_common_id = iv_git_common_id ctx, ds_worktree_id = iv_worktree_id ctx,
     ds_program_fingerprint = [], ds_human_identity_role = [],
     ds_control_bundle_fingerprint = [], ds_revision = 1, ds_phase = Phase_dormant,
     ds_engagement = Engagement_dormant, ds_delivery = Delivery_uninitialized,
     ds_workspace = Workspace_absent, ds_work_package = Work_package_absent,
     ds_plan = Plan_absent, ds_configuration = Configuration_unsupported,
     ds_runtime = Runtime_absent, ds_publication = Publication_none,
     ds_verification = Verification_unverified, ds_recovery = Recovery_none,
     ds_transaction = Transaction_none, ds_terminal = Terminal_nonterminal,
     ds_objective = empty_objective, ds_source_revision = [], ds_worktree_fingerprint = [],
     ds_config_fingerprint = [], ds_plan_approval_policy = [], ds_visual_evidence_policy = [],
     ds_external_effect_policy = [], ds_independent_review = False, ds_enabled_hosts = [],
     ds_runtime_version = [], ds_runtime_fingerprint = [], ds_runtime_source = [],
     ds_plan_fingerprint = [], ds_work_package_fingerprint = [],
     ds_work_package_approval_fingerprint = [], ds_approval_fingerprint = [],
     ds_workspace_branch = [], ds_workspace_path = [], ds_workspace_base_ref = [],
     ds_workspace_source_path = [], ds_workspace_source_id = [], ds_workspace_source_ref = [],
     ds_publication_id = [], ds_publication_url = [], ds_preview_fingerprint = [],
     ds_transaction_id = [], ds_transaction_transition = [], ds_recovery_cause = [],
     ds_recovery_source_phase = [], ds_recovery_resumption = [], ds_recovery_budget = 0,
     ds_last_transition = [], ds_gates = [], ds_updated_at = time_utc now\<rparr>"

definition next_revision :: "u64 \<Rightarrow> gerror + u64" where
  "next_revision current =
     (if current = 0 then Inl (errorf [Lit ''durable state revision is absent''])
      else if current = NOT 0 then Inl (errorf [Lit ''durable state revision overflow''])
      else Inr (current + 1))"

section \<open>Validation\<close>

text \<open>\<open>humanidentity.ValidateRole\<close>: \<open>^[a-z][a-z0-9._-]*$\<close>, at most 128 bytes.\<close>

fun role_pattern :: "string \<Rightarrow> bool" where
  "role_pattern [] = False"
| "role_pattern (c # cs) =
     (lower_char c \<and> list_all (\<lambda>d. word_char d \<or> d \<in> {CHR ''.'', CHR ''_'', CHR ''-''}) cs)"

definition max_role_bytes :: nat where
  "max_role_bytes = 128"

definition validate_role :: "string \<Rightarrow> gerror option" where
  "validate_role role =
     (if length role = 0 \<or> max_role_bytes < length role \<or> \<not> role_pattern role
      then Some (errorf [Lit ''HUMAN_IDENTITY_ROLE_INVALID: role must be 1-'', Number (int max_role_bytes),
                         Lit '' bytes and match ^[a-z][a-z0-9._-]*$''])
      else None)"

definition state_policy :: "durable_state \<Rightarrow> configuration_policy" where
  "state_policy s = policy_canonical
     \<lparr>cp_plan_approval = ds_plan_approval_policy s, cp_independent_review = ds_independent_review s,
      cp_high_risk_change = False, cp_visual_evidence = ds_visual_evidence_policy s,
      cp_external_effect = ds_external_effect_policy s, cp_hosts = ds_enabled_hosts s\<rparr>"

definition managed_workspaces :: "string list" where
  "managed_workspaces =
     [''cut'', ''active'', ''published'', ''landed'', ''attention-required'', ''abandoned'']"

fun scan_gates :: "string list \<Rightarrow> gate_evidence list \<Rightarrow> gerror option" where
  "scan_gates seen [] = None"
| "scan_gates seen (g # gs) =
     (if ge_gate g = [] \<or> ge_revision g = [] \<or> ge_fingerprint g = [] \<or> ge_gate g \<in> set seen
      then Some (errorf [Lit ''durable gate evidence must be complete and unique''])
      else scan_gates (ge_gate g # seen) gs)"

definition controlling_values_valid :: "durable_state \<Rightarrow> bool" where
  "controlling_values_valid s \<longleftrightarrow>
     phase_valid (ds_phase s) \<and> engagement_valid (ds_engagement s) \<and> delivery_valid (ds_delivery s)
     \<and> workspace_valid (ds_workspace s) \<and> work_package_valid (ds_work_package s)
     \<and> plan_valid (ds_plan s) \<and> configuration_valid (ds_configuration s)
     \<and> runtime_valid (ds_runtime s) \<and> publication_valid (ds_publication s)
     \<and> verification_valid (ds_verification s) \<and> recovery_valid (ds_recovery s)
     \<and> transaction_valid (ds_transaction s) \<and> terminal_valid (ds_terminal s)"

definition recovery_context_incomplete :: "durable_state \<Rightarrow> bool" where
  "recovery_context_incomplete s \<longleftrightarrow>
     ds_transaction_id s = [] \<or> ds_recovery_cause s = [] \<or> \<not> phase_valid (ds_recovery_source_phase s)
     \<or> \<not> phase_valid (ds_recovery_resumption s) \<or> ds_recovery_budget s < 0"

definition bad_fingerprint :: "string \<Rightarrow> bool" where
  "bad_fingerprint f = (f \<noteq> [] \<and> length f \<noteq> 64)"

definition durable_validate :: "durable_state \<Rightarrow> gerror option" where
  "durable_validate s =
     (if ds_schema_version s \<noteq> state_schema_version
      then Some (errorf [Lit ''durable state schema '', Number (ds_schema_version s),
                         Lit '', want '', Number state_schema_version])
      else if ds_repository_id s = [] \<or> ds_git_common_id s = [] \<or> ds_worktree_id s = []
              \<or> ds_revision s = 0 \<or> time_is_zero (ds_updated_at s)
      then Some (errorf [Lit ''durable state identity, revision, and update time are required''])
      else if bad_fingerprint (ds_program_fingerprint s)
      then Some (errorf [Lit ''durable state has invalid program fingerprint''])
      else if ds_human_identity_role s \<noteq> [] \<and> ds_program_fingerprint s = []
      then Some (errorf [Lit ''durable state human identity role requires a program fingerprint''])
      else if ds_human_identity_role s \<noteq> [] \<and> validate_role (ds_human_identity_role s) \<noteq> None
      then map_option (wrapf [Lit ''durable state has invalid program human identity role: ''])
             (validate_role (ds_human_identity_role s))
      else if bad_fingerprint (ds_control_bundle_fingerprint s)
      then Some (errorf [Lit ''durable state has invalid control-bundle fingerprint''])
      else if bad_fingerprint (ds_work_package_fingerprint s)
      then Some (errorf [Lit ''durable state has invalid work package fingerprint''])
      else if bad_fingerprint (ds_work_package_approval_fingerprint s)
      then Some (errorf [Lit ''durable state has invalid work package approval fingerprint''])
      else if ds_work_package s \<noteq> Work_package_absent \<and> ds_work_package_fingerprint s = []
      then Some (errorf [Lit ''admitted work package requires an exact package fingerprint''])
      else if ds_work_package s = Work_package_approved \<and> ds_work_package_approval_fingerprint s = []
      then Some (errorf [Lit ''approved work package requires an exact approval fingerprint''])
      else if \<not> controlling_values_valid s
      then Some (errorf [Lit ''durable state contains an invalid controlling value''])
      else if ds_phase s = Phase_recovery \<and> ds_recovery s = Recovery_none
      then Some (errorf [Lit ''durable recovery phase has no recovery classification''])
      else if ds_recovery s \<noteq> Recovery_none \<and> recovery_context_incomplete s
      then Some (errorf [Lit ''durable recovery state has incomplete recovery context''])
      else if ds_transaction s \<noteq> Transaction_none
              \<and> (ds_transaction_id s = [] \<or> ds_transaction_transition s = [])
      then Some (errorf [Lit ''durable transaction state has incomplete transaction context''])
      else if ds_runtime s = Runtime_verified
              \<and> (ds_runtime_version s = [] \<or> ds_runtime_fingerprint s = [] \<or> ds_runtime_source s = [])
      then Some (errorf [Lit ''verified runtime requires version, source revision, and fingerprint''])
      else if ds_configuration s = Configuration_verified \<and> ds_config_fingerprint s = []
      then Some (errorf [Lit ''verified configuration requires a fingerprint''])
      else if ds_configuration s = Configuration_verified \<and> policy_validate (state_policy s) \<noteq> None
      then map_option (wrapf [Lit ''verified configuration policy: '']) (policy_validate (state_policy s))
      else if ds_workspace s \<in> set managed_workspaces
              \<and> (ds_workspace_path s = [] \<or> ds_workspace_branch s = [] \<or> ds_workspace_source_path s = []
                 \<or> ds_workspace_source_id s = [] \<or> ds_workspace_source_ref s = [])
      then Some (errorf [Lit ''managed workspace state requires destination and source identity''])
      else if ds_terminal s = Terminal_established \<and> ds_phase s \<noteq> Phase_terminal
              \<and> ds_phase s \<noteq> Phase_abandoned
      then Some (errorf [Lit ''durable terminal evidence has a nonterminal phase''])
      else scan_gates [] (ds_gates s))"

definition durable_canonical :: "durable_state \<Rightarrow> durable_state" where
  "durable_canonical s =
     s\<lparr>ds_gates := sort_key ge_gate (ds_gates s), ds_enabled_hosts := sort (ds_enabled_hosts s)\<rparr>"

text \<open>
  The errors of \<open>EncodeState\<close>: validation of the canonical state, and \<open>Marshal\<close> on an instant
  that has no text.
\<close>

definition encode_state_error :: "durable_state \<Rightarrow> gerror option" where
  "encode_state_error s =
     (case durable_validate (durable_canonical s) of Some e \<Rightarrow> Some e
      | None \<Rightarrow> if time_text (ds_updated_at s) = None then Some marshal_error else None)"

section \<open>Gates and objective\<close>

definition has_current_gates :: "durable_state \<Rightarrow> string list \<Rightarrow> bool" where
  "has_current_gates s names =
     (if ds_source_revision s = [] then False
      else list_all (\<lambda>n. list_ex (\<lambda>g. ge_revision g = ds_source_revision s \<and> ge_gate g = n) (ds_gates s)) names)"

definition required_gate_evidence_current :: "durable_state \<Rightarrow> bool" where
  "required_gate_evidence_current s =
     (if \<not> has_current_gates s [''build'', ''test'', ''review''] then False
      else ds_visual_evidence_policy s \<noteq> ''required'' \<or> has_current_gates s [''visual''])"

definition active_objective :: "durable_state \<Rightarrow> sd_objective \<times> bool" where
  "active_objective s =
     (ds_objective s, so_id (ds_objective s) \<noteq> [] \<and> ds_terminal s = Terminal_nonterminal)"

section \<open>Ownership of fields\<close>

definition state_field_facets :: "(string \<times> string) list" where
  "state_field_facets =
     [(''SchemaVersion'', Facet_control), (''RepositoryID'', Facet_control),
      (''GitCommonID'', Facet_control), (''WorktreeID'', Facet_control),
      (''ProgramFingerprint'', Facet_program), (''ProgramHumanIdentityRole'', Facet_program),
      (''ControlBundleFingerprint'', Facet_control), (''Revision'', Facet_control),
      (''Phase'', Facet_control), (''Engagement'', Facet_product),
      (''Delivery'', Facet_product), (''Workspace'', Facet_product),
      (''WorkPackage'', Facet_product), (''Plan'', Facet_product),
      (''Configuration'', Facet_control), (''Runtime'', Facet_installation),
      (''Publication'', Facet_product), (''Verification'', Facet_product),
      (''Recovery'', Facet_control), (''Transaction'', Facet_control),
      (''Terminal'', Facet_product), (''Objective'', Facet_product),
      (''SourceRevision'', Facet_product), (''WorktreeFingerprint'', Facet_product),
      (''ConfigFingerprint'', Facet_control), (''PlanApprovalPolicy'', Facet_control),
      (''VisualEvidencePolicy'', Facet_control), (''ExternalEffectPolicy'', Facet_control),
      (''IndependentReview'', Facet_control), (''EnabledHosts'', Facet_control),
      (''RuntimeVersion'', Facet_installation), (''RuntimeFingerprint'', Facet_installation),
      (''RuntimeSource'', Facet_installation), (''PlanFingerprint'', Facet_product),
      (''WorkPackageFingerprint'', Facet_product),
      (''WorkPackageApprovalFingerprint'', Facet_product),
      (''ApprovalFingerprint'', Facet_product), (''WorkspaceBranch'', Facet_product),
      (''WorkspacePath'', Facet_product), (''WorkspaceBaseRef'', Facet_product),
      (''WorkspaceSourcePath'', Facet_product), (''WorkspaceSourceID'', Facet_product),
      (''WorkspaceSourceRef'', Facet_product), (''PublicationID'', Facet_product),
      (''PublicationURL'', Facet_product), (''PreviewFingerprint'', Facet_product),
      (''TransactionID'', Facet_control), (''TransactionTransition'', Facet_control),
      (''RecoveryCause'', Facet_control), (''RecoverySourcePhase'', Facet_control),
      (''RecoveryResumption'', Facet_control), (''RecoveryBudget'', Facet_control),
      (''LastTransition'', Facet_control), (''Gates'', Facet_product),
      (''UpdatedAt'', Facet_control)]"

text \<open>The fields in declaration order, with \<open>reflect.DeepEqual\<close> of the field in two states.\<close>

definition differs :: "(durable_state \<Rightarrow> 'a) \<Rightarrow> durable_state \<Rightarrow> durable_state \<Rightarrow> bool" where
  "differs field before after = (field before \<noteq> field after)"

definition state_fields :: "(string \<times> (durable_state \<Rightarrow> durable_state \<Rightarrow> bool)) list" where
  "state_fields =
     [(''SchemaVersion'', differs ds_schema_version),
      (''RepositoryID'', differs ds_repository_id), (''GitCommonID'', differs ds_git_common_id),
      (''WorktreeID'', differs ds_worktree_id),
      (''ProgramFingerprint'', differs ds_program_fingerprint),
      (''ProgramHumanIdentityRole'', differs ds_human_identity_role),
      (''ControlBundleFingerprint'', differs ds_control_bundle_fingerprint),
      (''Revision'', differs ds_revision), (''Phase'', differs ds_phase),
      (''Engagement'', differs ds_engagement), (''Delivery'', differs ds_delivery),
      (''Workspace'', differs ds_workspace), (''WorkPackage'', differs ds_work_package),
      (''Plan'', differs ds_plan), (''Configuration'', differs ds_configuration),
      (''Runtime'', differs ds_runtime), (''Publication'', differs ds_publication),
      (''Verification'', differs ds_verification), (''Recovery'', differs ds_recovery),
      (''Transaction'', differs ds_transaction), (''Terminal'', differs ds_terminal),
      (''Objective'', differs ds_objective), (''SourceRevision'', differs ds_source_revision),
      (''WorktreeFingerprint'', differs ds_worktree_fingerprint),
      (''ConfigFingerprint'', differs ds_config_fingerprint),
      (''PlanApprovalPolicy'', differs ds_plan_approval_policy),
      (''VisualEvidencePolicy'', differs ds_visual_evidence_policy),
      (''ExternalEffectPolicy'', differs ds_external_effect_policy),
      (''IndependentReview'', differs ds_independent_review),
      (''EnabledHosts'', differs ds_enabled_hosts),
      (''RuntimeVersion'', differs ds_runtime_version),
      (''RuntimeFingerprint'', differs ds_runtime_fingerprint),
      (''RuntimeSource'', differs ds_runtime_source),
      (''PlanFingerprint'', differs ds_plan_fingerprint),
      (''WorkPackageFingerprint'', differs ds_work_package_fingerprint),
      (''WorkPackageApprovalFingerprint'', differs ds_work_package_approval_fingerprint),
      (''ApprovalFingerprint'', differs ds_approval_fingerprint),
      (''WorkspaceBranch'', differs ds_workspace_branch),
      (''WorkspacePath'', differs ds_workspace_path),
      (''WorkspaceBaseRef'', differs ds_workspace_base_ref),
      (''WorkspaceSourcePath'', differs ds_workspace_source_path),
      (''WorkspaceSourceID'', differs ds_workspace_source_id),
      (''WorkspaceSourceRef'', differs ds_workspace_source_ref),
      (''PublicationID'', differs ds_publication_id),
      (''PublicationURL'', differs ds_publication_url),
      (''PreviewFingerprint'', differs ds_preview_fingerprint),
      (''TransactionID'', differs ds_transaction_id),
      (''TransactionTransition'', differs ds_transaction_transition),
      (''RecoveryCause'', differs ds_recovery_cause),
      (''RecoverySourcePhase'', differs ds_recovery_source_phase),
      (''RecoveryResumption'', differs ds_recovery_resumption),
      (''RecoveryBudget'', differs ds_recovery_budget),
      (''LastTransition'', differs ds_last_transition), (''Gates'', differs ds_gates),
      (''UpdatedAt'', differs ds_updated_at)]"

definition unclassified_field :: "string \<Rightarrow> gerror option" where
  "unclassified_field name =
     (case map_of state_field_facets name of
        Some f \<Rightarrow> if state_facet_valid f then None
                  else Some (errorf [Lit ''STATE_FACET_UNCLASSIFIED: durable State field '', Lit name,
                                     Lit '' has no valid owner''])
      | None \<Rightarrow> Some (errorf [Lit ''STATE_FACET_UNCLASSIFIED: durable State field '', Lit name,
                              Lit '' has no valid owner'']))"

definition validate_state_field_facets :: "gerror option" where
  "validate_state_field_facets =
     (if length state_field_facets \<noteq> length state_fields
      then Some (errorf [Lit ''STATE_FACET_UNCLASSIFIED: durable State has '', Number (int (length state_fields)),
                         Lit '' fields but '', Number (int (length state_field_facets)), Lit '' facet assignments''])
      else first_error unclassified_field (map fst state_fields))"

text \<open>A missing entry of a Go map reads as the empty string.\<close>

definition field_owner :: "string \<Rightarrow> string" where
  "field_owner name = (case map_of state_field_facets name of Some f \<Rightarrow> f | None \<Rightarrow> [])"

definition changed_facets :: "durable_state \<Rightarrow> durable_state \<Rightarrow> gerror + string list" where
  "changed_facets before after =
     (case validate_state_field_facets of Some e \<Rightarrow> Inl e
      | None \<Rightarrow> normalize_state_facets ''changed state facets''
          (remdups (map (\<lambda>fd. field_owner (fst fd)) (filter (\<lambda>fd. snd fd before after) state_fields))))"

section \<open>Bindings\<close>

record external_binding =
  xb_schema_version :: int
  xb_repository_id :: string
  xb_git_common_id :: string
  xb_topology :: string
  xb_controller_id :: string
  xb_config_authority :: string
  xb_created_at :: gtime

definition binding_schema_version :: int where
  "binding_schema_version = 1"

definition external_binding_validate :: "external_binding \<Rightarrow> gerror option" where
  "external_binding_validate b =
     (if xb_schema_version b \<noteq> binding_schema_version \<or> xb_repository_id b = [] \<or> xb_git_common_id b = []
         \<or> xb_controller_id b = [] \<or> xb_config_authority b = [] \<or> time_is_zero (xb_created_at b)
      then Some (errorf [Lit ''binding schema and identity fields are required''])
      else if xb_topology b \<noteq> ''detached'' \<and> xb_topology b \<noteq> ''hybrid''
      then Some (errorf [Lit ''external binding requires detached or hybrid topology''])
      else if xb_config_authority b \<noteq> ''repository'' \<and> xb_config_authority b \<noteq> ''external''
      then Some (errorf [Lit ''external binding has invalid configuration authority '', Quoted (xb_config_authority b)])
      else None)"

end
