(* ===== verification/Delivery_Protocol.thy ===== *)
theory Delivery_Protocol
  imports Delivery_Registry Delivery_Durable
begin

text \<open>
  \<open>boatstack/internal/softwaredelivery/protocol\<close>: git names (\<open>values.go\<close>), parameters
  (\<open>parameters.go\<close>), authority receipts and bundles (\<open>authority.go\<close>), the projection of
  authority onto capabilities (\<open>capability.go\<close>), and the law of applicability that resolution and
  admission share (\<open>admission.go\<close>).
\<close>

section \<open>Git names\<close>

definition has_prefix :: "string \<Rightarrow> string \<Rightarrow> bool" where
  "has_prefix p s = (take (length p) s = p)"

definition has_suffix :: "string \<Rightarrow> string \<Rightarrow> bool" where
  "has_suffix p s = has_prefix (rev p) (rev s)"

fun has_infix :: "string \<Rightarrow> string \<Rightarrow> bool" where
  "has_infix p [] = (p = [])"
| "has_infix p (c # cs) = (has_prefix p (c # cs) \<or> has_infix p cs)"

text \<open>\<open>strings.TrimSpace\<close> changes the string: it starts or ends with white space.\<close>

definition space_at_front :: "string \<Rightarrow> bool" where
  "space_at_front s =
     (s \<noteq> [] \<and> ascii_space (hd s) \<or> map code (take 2 s) \<in> {[0xC2, 0x85], [0xC2, 0xA0]}
      \<or> wide_space (take 3 s))"

definition space_at_end :: "string \<Rightarrow> bool" where
  "space_at_end s =
     (s \<noteq> [] \<and> ascii_space (last s) \<or> map code (drop (length s - 2) s) \<in> {[0xC2, 0x85], [0xC2, 0xA0]}
      \<or> wide_space (drop (length s - 3) s))"

definition forbidden_ref_char :: "char \<Rightarrow> bool" where
  "forbidden_ref_char c =
     (code c \<le> 32 \<or> code c = 127 \<or> c \<in> set ''~^:?*['' \<or> c = backslash)"

definition validate_git_reference :: "string \<Rightarrow> gerror option" where
  "validate_git_reference v = first_failure
     [fails (v = [] \<or> space_at_front v \<or> space_at_end v \<or> 255 < length v \<or> has_prefix ''-'' v)
        [Lit ''Git reference must be a bounded non-option value''],
      fails (v = ''@'' \<or> has_infix ''..'' v \<or> has_infix [CHR ''@'', CHR 0x7B] v \<or> has_infix ''//'' v
             \<or> has_suffix ''.'' v \<or> has_suffix ''/'' v)
        [Lit ''Git reference '', Quoted v, Lit '' contains forbidden reference syntax''],
      fails (list_ex forbidden_ref_char v)
        [Lit ''Git reference '', Quoted v, Lit '' contains a forbidden character''],
      fails (list_ex (\<lambda>c. c = [] \<or> has_prefix ''.'' c \<or> has_suffix ''.lock'' c) (split_at (CHR ''/'') v))
        [Lit ''Git reference '', Quoted v, Lit '' contains a forbidden component'']]"

definition validate_git_branch :: "string \<Rightarrow> gerror option" where
  "validate_git_branch v =
     (case validate_git_reference v of Some e \<Rightarrow> Some e
      | None \<Rightarrow> fails (v = ''HEAD'' \<or> has_prefix ''refs/'' v)
          [Lit ''Git branch '', Quoted v, Lit '' must be an unqualified branch name''])"

section \<open>Parameters\<close>

record parameter =
  pm_name :: string
  pm_value :: string

definition parameters_canonical :: "parameter list \<Rightarrow> parameter list" where
  "parameters_canonical ps = sort_key pm_name ps"

fun parameters_get :: "parameter list \<Rightarrow> string \<Rightarrow> string option" where
  "parameters_get [] name = None"
| "parameters_get (p # ps) name = (if pm_name p = name then Some (pm_value p) else parameters_get ps name)"

text \<open>The first result of \<open>Get\<close>: the empty string where there is none.\<close>

definition parameter_text :: "parameter list \<Rightarrow> string \<Rightarrow> string" where
  "parameter_text ps name = (case parameters_get ps name of Some v \<Rightarrow> v | None \<Rightarrow> [])"

text \<open>The switch on the name: what the value must be.\<close>

definition parameter_value_error :: "string \<Rightarrow> parameter \<Rightarrow> gerror option" where
  "parameter_value_error i p =
     (let named = [Lit ''transition '', Quoted i, Lit '' parameter '', Quoted (pm_name p)] in
      if pm_name p \<in> {''source_path'', ''config_path'', ''destination'', ''evidence_path'', ''manifest_path'', ''body_path''}
      then fails (\<not> is_abs (pm_value p)) (named @ [Lit '' must be an absolute path''])
      else if pm_name p \<in> {''branch'', ''head_ref''}
      then map_option (wrapf (named @ [Lit '': ''])) (validate_git_branch (pm_value p))
      else if pm_name p = ''base_ref''
      then map_option (wrapf (named @ [Lit '': ''])) (validate_git_reference (pm_value p))
      else if pm_name p = ''topology''
      then fails (pm_value p \<noteq> ''detached'' \<and> pm_value p \<noteq> ''hybrid'')
        [Lit ''transition '', Quoted i, Lit '' requires detached or hybrid topology'']
      else if pm_name p = ''config_authority''
      then fails (pm_value p \<noteq> ''repository'' \<and> pm_value p \<noteq> ''external'')
        [Lit ''transition '', Quoted i, Lit '' requires repository or external configuration authority'']
      else None)"

definition parameter_error :: "string \<Rightarrow> string list \<Rightarrow> string list \<Rightarrow> parameter \<Rightarrow> gerror option" where
  "parameter_error i allowed seen p = first_failure
     [fails (pm_name p = [] \<or> pm_value p = [])
        [Lit ''transition '', Quoted i, Lit '' parameters require non-empty names and values''],
      fails (pm_name p \<in> set seen)
        [Lit ''transition '', Quoted i, Lit '' parameter '', Quoted (pm_name p), Lit '' is duplicated''],
      fails (pm_name p \<notin> set allowed)
        [Lit ''transition '', Quoted i, Lit '' does not accept parameter '', Quoted (pm_name p)],
      parameter_value_error i p]"

fun parameter_errors :: "string \<Rightarrow> string list \<Rightarrow> string list \<Rightarrow> parameter list \<Rightarrow> gerror option" where
  "parameter_errors i allowed seen [] = None"
| "parameter_errors i allowed seen (p # ps) =
     (case parameter_error i allowed seen p of Some e \<Rightarrow> Some e
      | None \<Rightarrow> parameter_errors i allowed (pm_name p # seen) ps)"

definition parameters_validate :: "parameter list \<Rightarrow> sd_transition \<Rightarrow> gerror option" where
  "parameters_validate ps t =
     (case parameter_errors (tn_id t) (map ps_name (tn_parameters t)) [] ps of Some e \<Rightarrow> Some e
      | None \<Rightarrow>
          first_error (\<lambda>spec. fails_with Missing_parameter (ps_required spec \<and> ps_name spec \<notin> set (map pm_name ps))
              [Lit ''transition '', Quoted (tn_id t), Lit '' requires parameter '', Quoted (ps_name spec)])
            (tn_parameters t))"

lemma parameters_get_Some: "parameters_get ps name = Some v \<Longrightarrow> \<exists>p\<in>set ps. pm_name p = name \<and> pm_value p = v"
  by (induction ps) (auto split: if_splits)

lemma parameters_get_None: "parameters_get ps name = None \<longleftrightarrow> name \<notin> set (map pm_name ps)"
  by (induction ps) auto

lemma parameter_error_None:
  "parameter_error i allowed seen p = None \<longleftrightarrow> pm_name p \<noteq> [] \<and> pm_value p \<noteq> []
     \<and> pm_name p \<notin> set seen \<and> pm_name p \<in> set allowed \<and> parameter_value_error i p = None"
  by (simp add: parameter_error_def)

lemma parameter_errors_None:
  "parameter_errors i allowed seen ps = None \<Longrightarrow>
     (\<forall>p\<in>set ps. pm_value p \<noteq> [] \<and> pm_name p \<in> set allowed)
     \<and> distinct (map pm_name ps) \<and> set (map pm_name ps) \<inter> set seen = {}"
proof (induction ps arbitrary: seen)
  case Nil
  then show ?case by simp
next
  case (Cons p ps)
  then have "parameter_error i allowed seen p = None"
    "parameter_errors i allowed (pm_name p # seen) ps = None"
    by (simp_all split: option.splits)
  then show ?case
    using Cons.IH [of "pm_name p # seen"] by (auto simp: parameter_error_None)
qed

lemma parameters_validate_None:
  assumes "parameters_validate ps t = None"
  shows "\<forall>spec\<in>set (tn_parameters t). ps_required spec \<longrightarrow> ps_name spec \<in> set (map pm_name ps)"
    "\<forall>p\<in>set ps. pm_value p \<noteq> [] \<and> pm_name p \<in> set (map ps_name (tn_parameters t))"
    "distinct (map pm_name ps)"
proof -
  have errs: "parameter_errors (tn_id t) (map ps_name (tn_parameters t)) [] ps = None"
    using assms by (simp add: parameters_validate_def split: option.splits)
  then show "\<forall>spec\<in>set (tn_parameters t). ps_required spec \<longrightarrow> ps_name spec \<in> set (map pm_name ps)"
    using assms by (simp add: parameters_validate_def)
  show "\<forall>p\<in>set ps. pm_value p \<noteq> [] \<and> pm_name p \<in> set (map ps_name (tn_parameters t))"
    "distinct (map pm_name ps)"
    using parameter_errors_None [OF errs] by auto
qed

lemma required_parameter_read:
  assumes "parameters_validate ps t = None" "spec \<in> set (tn_parameters t)" "ps_required spec"
  shows "\<exists>v. parameters_get ps (ps_name spec) = Some v \<and> v \<noteq> []"
  using parameters_validate_None [OF assms(1)] assms(2,3) parameters_get_None [of ps "ps_name spec"]
    parameters_get_Some [of ps "ps_name spec"]
  by (cases "parameters_get ps (ps_name spec)") auto

lemma parameters_get_distinct:
  "distinct (map pm_name ps) \<Longrightarrow>
     parameters_get ps name = Some v \<longleftrightarrow> (\<exists>p\<in>set ps. pm_name p = name \<and> pm_value p = v)"
proof (induction ps)
  case (Cons q qs)
  then show ?case
    by (cases "pm_name q = name") (auto simp: image_iff)
qed simp

text \<open>
  Parameters that pass validation are usable: every declared required parameter is read
  back as a non-empty string, an undeclared one is never read, and reading does not depend on
  the order in which the caller listed them.
\<close>

theorem parameters_readable:
  assumes "parameters_validate ps t = None"
  shows "(\<forall>spec\<in>set (tn_parameters t). ps_required spec \<longrightarrow>
           (\<exists>v. parameters_get ps (ps_name spec) = Some v \<and> v \<noteq> []))
    \<and> (\<forall>name. name \<notin> set (map ps_name (tn_parameters t)) \<longrightarrow> parameters_get ps name = None)
    \<and> (\<forall>name. parameters_get (parameters_canonical ps) name = parameters_get ps name)"
proof -
  note ok = parameters_validate_None [OF assms]
  have "distinct (map pm_name (parameters_canonical ps))"
    using ok(3) by (simp add: parameters_canonical_def distinct_map)
  then have "parameters_get (parameters_canonical ps) name = Some v \<longleftrightarrow> parameters_get ps name = Some v" for name v
    using parameters_get_distinct ok(3) by (simp add: parameters_canonical_def)
  then have "parameters_get (parameters_canonical ps) name = parameters_get ps name" for name
    by (metis option.exhaust)
  moreover have "parameters_get ps name = None" if "name \<notin> set (map ps_name (tn_parameters t))" for name
    using that ok(2) parameters_get_Some [of ps name] by (cases "parameters_get ps name") auto
  ultimately show ?thesis
    using required_parameter_read [OF assms] by blast
qed

section \<open>Authority\<close>

record sd_receipt =
  rp_id :: string
  rp_class :: string
  rp_subject :: string
  rp_fingerprint :: string
  rp_role :: string
  rp_provider :: string
  rp_issued_at :: gtime
  rp_expires_at :: gtime

definition sd_receipt_validate :: "sd_receipt \<Rightarrow> gtime \<Rightarrow> gerror option" where
  "sd_receipt_validate r now = first_failure
     [fails (rp_id r = [] \<or> rp_subject r = [] \<or> rp_fingerprint r = [] \<or> time_is_zero (rp_issued_at r))
        [Lit ''authority receipt requires id, subject, fingerprint, and issue time''],
      fails (\<not> authority_class_valid (rp_class r) \<or> rp_class r = Authority_none)
        [Lit ''authority receipt has invalid class '', Quoted (rp_class r)],
      fails ((rp_role r = []) \<noteq> (rp_provider r = []))
        [Lit ''authority receipt has incomplete identity provenance''],
      fails (rp_role r \<noteq> [] \<and> (validate_role (rp_role r) \<noteq> None \<or> length (rp_provider r) \<noteq> 64
               \<or> \<not> list_all hex_char (rp_provider r)))
        [Lit ''authority receipt has invalid identity provenance''],
      fails (\<not> time_is_zero (rp_expires_at r) \<and> \<not> time_before now (rp_expires_at r))
        [Lit ''authority receipt '', Quoted (rp_id r), Lit '' expired'']]"

type_synonym authority_bundle = "sd_receipt list"

fun bundle_errors :: "gtime \<Rightarrow> string list \<Rightarrow> authority_bundle \<Rightarrow> gerror option" where
  "bundle_errors now seen [] = None"
| "bundle_errors now seen (r # rs) =
     (case sd_receipt_validate r now of Some e \<Rightarrow> Some e
      | None \<Rightarrow>
          if rp_id r \<in> set seen
          then Some (errorf [Lit ''authority receipt '', Quoted (rp_id r), Lit '' is duplicated''])
          else bundle_errors now (rp_id r # seen) rs)"

definition bundle_validate :: "authority_bundle \<Rightarrow> gtime \<Rightarrow> gerror option" where
  "bundle_validate b now = bundle_errors now [] b"

definition bundle_set :: "authority_bundle \<Rightarrow> gtime \<Rightarrow> authority_set" where
  "bundle_set b now = map rp_class (filter (\<lambda>r. sd_receipt_validate r now = None) b)"

definition bundle_canonical :: "authority_bundle \<Rightarrow> authority_bundle" where
  "bundle_canonical b = sort_key rp_id b"

definition authority_source_json :: "sd_receipt \<Rightarrow> json" where
  "authority_source_json r =
     JObj ([(''id'', JStr (rp_id r)), (''class'', JStr (rp_class r)), (''subject'', JStr (rp_subject r)),
         (''fingerprint'', JStr (rp_fingerprint r))]
       @ omit_empty (rp_role r = []) ''identity_role'' (JStr (rp_role r))
       @ omit_empty (rp_provider r = []) ''identity_provider_fingerprint'' (JStr (rp_provider r)))"

definition content_id :: "string \<Rightarrow> json \<Rightarrow> gerror + string" where
  "content_id prefix j =
     (case hash_json j of Inl e \<Rightarrow> Inl (wrapf [Lit ''canonical encoding: ''] e) | Inr h \<Rightarrow> Inr (prefix @ h))"

definition bundle_fingerprint :: "authority_bundle \<Rightarrow> gerror + string" where
  "bundle_fingerprint b = content_id ''auth-'' (JArr (map authority_source_json (bundle_canonical b)))"

definition granted_capabilities :: "authority_bundle \<Rightarrow> gtime \<Rightarrow> string list" where
  "granted_capabilities b now = sorted_capabilities (authority_capabilities (bundle_set b now))"

definition configuration_evidence :: "sd_observation \<Rightarrow> evidence option" where
  "configuration_evidence s =
     (case filter (\<lambda>e. has_prefix ''configuration:'' (ev_source e)) (f_evidence (ob_configuration s)) of
        [] \<Rightarrow> None | e # _ \<Rightarrow> Some e)"

definition derive_repository_authority ::
    "sd_observation \<Rightarrow> authority_bundle \<Rightarrow> gtime \<Rightarrow> gerror + authority_bundle" where
  "derive_repository_authority s b now =
     (if list_ex (\<lambda>r. rp_class r = Authority_repository) b
      then Inl (errorf [Lit ''repository authority must be derived once by Boatstack kernel''])
      else if \<not> known_as (ob_configuration s) Configuration_verified
      then Inl (errorf [Lit ''repository authority requires current verified configuration evidence''])
      else (case configuration_evidence s of
          None \<Rightarrow> Inl (errorf [Lit ''repository authority has no exact configuration evidence''])
        | Some e \<Rightarrow>
            if ev_source e = [] \<or> ev_fingerprint e = []
            then Inl (errorf [Lit ''repository authority has no exact configuration evidence''])
            else Inr (b @ [\<lparr>rp_id = ''policy-'' @ take 16 (sha256_hex
                   (iv_repository_id (ob_invocation s) @ [CHR 0x00] @ iv_git_common_id (ob_invocation s)
                    @ [CHR 0x00] @ ev_source e @ [CHR 0x00] @ ev_fingerprint e)),
                 rp_class = Authority_repository, rp_subject = ev_source e, rp_fingerprint = ev_fingerprint e,
                 rp_role = [], rp_provider = [], rp_issued_at = time_utc now,
                 rp_expires_at = time_utc (time_add now (2 * 60 * 1000000000))\<rparr>])))"

definition derive_repository_authority_when_available ::
    "sd_observation \<Rightarrow> authority_bundle \<Rightarrow> gtime \<Rightarrow> gerror + authority_bundle" where
  "derive_repository_authority_when_available s b now =
     (if \<not> known_as (ob_configuration s) Configuration_verified then Inr b
      else derive_repository_authority s b now)"

section \<open>Capabilities\<close>

record capability_projection =
  cj_authority_fingerprint :: string
  cj_required :: "string list"
  cj_granted :: "string list"
  cj_effective :: "string list"

definition requires_human_approval :: "sd_observation \<Rightarrow> sd_transition \<Rightarrow> bool" where
  "requires_human_approval s t =
     (if pl_authority_rule (tn_policy t) = ''plan-approval'' \<and> is_known (ob_configuration_policy s)
      then cp_plan_approval (f_value (ob_configuration_policy s)) = ''human''
      else if pl_authority_rule (tn_policy t) = ''independent-high-risk-review''
              \<and> is_known (ob_configuration_policy s)
      then cp_independent_review (f_value (ob_configuration_policy s))
           \<and> cp_high_risk_change (f_value (ob_configuration_policy s))
      else False)"

definition project_capabilities ::
    "sd_observation \<Rightarrow> sd_transition \<Rightarrow> authority_bundle \<Rightarrow> gtime \<Rightarrow> gerror + capability_projection" where
  "project_capabilities s t authority now =
     (case bundle_validate authority now of Some e \<Rightarrow> Inl e
      | None \<Rightarrow>
        (let required = (if requires_human_approval s t
                then union_capabilities [effect_required_capabilities t, [Capability_human_approve]]
                else effect_required_capabilities t);
             undeclared = missing_capability required (new_capability_set (tn_declared_capabilities t));
             granted = authority_capabilities (bundle_set authority now);
             denied = missing_capability required granted
         in if undeclared \<noteq> []
            then Inl (errorf [Lit ''CAPABILITY_NOT_DECLARED '', Quoted undeclared, Lit '' for transition '',
                              Quoted (tn_id t)])
            else if denied \<noteq> []
            then Inl (errorf [Lit ''CAPABILITY_DENIED '', Quoted denied, Lit '' for transition '', Quoted (tn_id t)])
            else (case bundle_fingerprint authority of Inl e \<Rightarrow> Inl e
              | Inr fp \<Rightarrow> Inr \<lparr>cj_authority_fingerprint = fp, cj_required = required,
                    cj_granted = sorted_capabilities granted, cj_effective = required\<rparr>)))"

definition require_capability :: "string list \<Rightarrow> string \<Rightarrow> string \<Rightarrow> gerror option" where
  "require_capability values required component =
     fails (\<not> contains (new_capability_set values) required)
       [Lit ''EFFECT_CAPABILITY_DENIED '', Quoted required, Lit '' for '', Lit component]"

section \<open>Program deltas\<close>

definition program_delta_fingerprint :: "string \<Rightarrow> string \<Rightarrow> gerror + string" where
  "program_delta_fingerprint prior candidate =
     (if length prior \<noteq> 64 \<or> length candidate \<noteq> 64 \<or> prior = candidate
      then Inl (errorf [Lit ''program delta requires distinct 64-character prior and candidate fingerprints''])
      else Inr (sha256_hex (''boatstack-program-delta-v1'' @ [CHR 0x00] @ prior @ [CHR 0x00] @ candidate)))"

section \<open>Applicability\<close>

definition objective_for_transition ::
    "sd_observation \<Rightarrow> sd_objective \<Rightarrow> sd_transition \<Rightarrow> gerror + sd_objective" where
  "objective_for_transition s requested t =
     (if tn_scope t \<noteq> Objective_optional_preserve
      then (case sd_objective_validate requested of Some e \<Rightarrow> Inl e | None \<Rightarrow> Inr requested)
      else if is_known (ob_objective s)
      then (case sd_objective_validate (f_value (ob_objective s)) of
          Some e \<Rightarrow> Inl (wrapf [Lit ''transition '', Quoted (tn_id t),
                                Lit '' has invalid configured objective evidence: ''] e)
        | None \<Rightarrow> Inr (f_value (ob_objective s)))
      else if f_status (ob_objective s) = Fact_absent then Inr empty_objective
      else Inl (errorf [Lit ''transition '', Quoted (tn_id t),
                        Lit '' requires known or verified-absent product objective evidence'']))"

text \<open>\<open>gitBinding\<close>: the first git evidence of the delivery fact, then of the verification fact.\<close>

definition git_binding :: "sd_observation \<Rightarrow> string \<times> string" where
  "git_binding s =
     (case filter (\<lambda>e. has_prefix ''git:'' (ev_source e) \<and> ev_revision e \<noteq> [] \<and> ev_fingerprint e \<noteq> [])
             (f_evidence (ob_delivery s) @ f_evidence (ob_verification s)) of
        [] \<Rightarrow> ([], []) | e # _ \<Rightarrow> (ev_revision e, ev_fingerprint e))"

definition recovery_permission_error :: "sd_observation \<Rightarrow> sd_transition \<Rightarrow> gerror option" where
  "recovery_permission_error s t =
     (if tn_class t \<noteq> Event_recovery then None
      else if \<not> is_known (ob_recovery_info s)
      then Some (errorf [Lit ''transition '', Quoted (tn_id t), Lit '' requires exact recovery context''])
      else fails (\<not> contains (rx_permitted (f_value (ob_recovery_info s))) (tn_id t))
        [Lit ''transition '', Quoted (tn_id t), Lit '' is not permitted for transaction '',
         Quoted (rx_transaction (f_value (ob_recovery_info s)))])"

definition provider_binding_error ::
    "authority_bundle \<Rightarrow> sd_transition \<Rightarrow> parameter list \<Rightarrow> gerror option" where
  "provider_binding_error authority t ps =
     (let expected = (if tn_authority_parameter t \<noteq> [] then parameter_text ps (tn_authority_parameter t) else []) in
      first_error (\<lambda>r.
        if rp_class r \<noteq> Authority_provider then None
        else if expected = []
        then Some (errorf [Lit ''transition '', Quoted (tn_id t), Lit '' does not accept provider authority''])
        else fails (rp_fingerprint r \<noteq> expected)
          [Lit ''provider authority for transition '', Quoted (tn_id t),
           Lit '' does not bind the exact admitted request'']) authority)"

definition policy_authority_error :: "sd_observation \<Rightarrow> sd_transition \<Rightarrow> authority_set \<Rightarrow> gerror option" where
  "policy_authority_error s t authority =
     (let known_policy = is_known (ob_configuration_policy s); policy = f_value (ob_configuration_policy s);
          rule = pl_authority_rule (tn_policy t); availability = pl_availability_rule (tn_policy t)
      in if known_policy \<and> \<not> contains (cp_hosts policy) (iv_host (ob_invocation s))
         then Some (errorf [Lit ''transition '', Quoted (tn_id t), Lit '' is unavailable to disabled host '',
                            Quoted (iv_host (ob_invocation s))])
         else if pl_required_when (tn_policy t) = [] \<and> rule = [] \<and> availability = [] then None
         else first_failure
           [fails (\<not> known_policy)
              [Lit ''transition '', Quoted (tn_id t), Lit '' requires known configuration policy''],
            fails (availability = ''visual-evidence-enabled'' \<and> cp_visual_evidence policy = ''off'')
              [Lit ''transition '', Quoted (tn_id t), Lit '' is disabled by repository policy''],
            fails (rule = ''plan-approval'' \<and> cp_plan_approval policy = ''human''
                   \<and> \<not> contains authority Authority_human)
              [Lit ''transition '', Quoted (tn_id t), Lit '' requires human approval under repository policy''],
            fails (rule = ''independent-high-risk-review'' \<and> cp_independent_review policy
                   \<and> cp_high_risk_change policy \<and> \<not> contains authority Authority_human)
              [Lit ''transition '', Quoted (tn_id t),
               Lit '' requires independent human review for a high-risk change'']])"

definition authority_evidence_error :: "sd_observation \<Rightarrow> authority_bundle \<Rightarrow> gerror option" where
  "authority_evidence_error s authority =
     first_error (\<lambda>r.
       fails (rp_class r = Authority_repository
         \<and> \<not> list_ex (\<lambda>e. has_prefix ''configuration:'' (ev_source e) \<and> ev_fingerprint e = rp_fingerprint r)
             (f_evidence (ob_configuration s)))
         [Lit ''repository authority receipt '', Quoted (rp_id r),
          Lit '' is not bound to current configuration evidence'']) authority"

text \<open>\<open>ValidateApplicability\<close>, after the objective is determined.\<close>

definition applicability_errors ::
    "sd_snapshot \<Rightarrow> sd_objective \<Rightarrow> sd_transition \<Rightarrow> authority_bundle \<Rightarrow> parameter list \<Rightarrow> gtime
       \<Rightarrow> gerror option list" where
  "applicability_errors sn ob t authority ps now =
     (let s = sn_observation sn; i = tn_id t; available = bundle_set authority now;
          (revision, worktree) = git_binding s in
      [fails (sn_fingerprint sn = [] \<or> length (ob_program_fingerprint s) \<noteq> 64
              \<or> \<not> source_matches t s \<or> \<not> supports_objective t ob)
         [Lit ''transition '', Quoted i, Lit '' is not admissible from snapshot '', Quoted (sn_fingerprint sn)],
       fails (is_known (ob_objective s) \<and> f_value (ob_objective s) \<noteq> ob \<and> \<not> pl_binds_objective (tn_policy t))
         [Lit ''transition '', Quoted i, Lit '' cannot replace configured objective; objective.bind is required''],
       bundle_validate authority now,
       authority_evidence_error s authority,
       parameters_validate ps t,
       provider_binding_error authority t ps,
       fails (tn_binds_source_revision t
              \<and> (revision = [] \<or> worktree = [] \<or> parameter_text ps ''source_revision'' \<noteq> revision))
         [Lit ''transition '', Quoted i, Lit '' must bind the current Git revision and worktree fingerprint''],
       fails (\<not> authority_satisfies available (tn_authority t) (tn_authority_all t))
         [Lit ''transition '', Quoted i, Lit '' lacks required authority''],
       policy_authority_error s t available,
       recovery_permission_error s t])"

definition validate_applicability ::
    "sd_snapshot \<Rightarrow> sd_objective \<Rightarrow> sd_transition \<Rightarrow> authority_bundle \<Rightarrow> parameter list \<Rightarrow> gtime
       \<Rightarrow> gerror option" where
  "validate_applicability sn requested t authority ps now =
     (if \<not> tn_controllable t
      then Some (errorf [Lit ''transition '', Quoted (tn_id t), Lit '' is uncontrollable and cannot be admitted''])
      else (case invocation_validate (ob_invocation (sn_observation sn)) True of Some e \<Rightarrow> Some e
        | None \<Rightarrow>
            (case objective_for_transition (sn_observation sn) requested t of Inl e \<Rightarrow> Some e
             | Inr ob \<Rightarrow> first_failure (applicability_errors sn ob t authority ps now))))"

end
