(* ===== verification/Runtime_Bundle.thy ===== *)
theory Runtime_Bundle
  imports Delivery_Registry
begin

text \<open>
  \<open>boatstack/internal/runtime\<close>: identities and pins of a runtime (\<open>identity.go\<close>) and the control
  bundle, the content-addressed projection of a repository's control files
  (\<open>control_bundle.go\<close>), as values. Reading them from a file system or a git revision is not
  modelled.
\<close>

section \<open>Paths\<close>

text \<open>\<open>filepath.Clean\<close> and \<open>filepath.Dir\<close> on a system whose separator is the slash.\<close>

fun clean_parts :: "bool \<Rightarrow> string list \<Rightarrow> string list \<Rightarrow> string list" where
  "clean_parts rooted out [] = List.rev out"
| "clean_parts rooted out (c # cs) =
     (if c = [] \<or> c = ''.'' then clean_parts rooted out cs
      else if c = ''..''
      then (if out \<noteq> [] \<and> hd out \<noteq> ''..'' then clean_parts rooted (tl out) cs
            else if rooted then clean_parts rooted out cs
            else clean_parts rooted (''..'' # out) cs)
      else clean_parts rooted (c # out) cs)"

definition clean_path :: "string \<Rightarrow> string" where
  "clean_path p =
     (let text = (if is_abs p then ''/'' else []) @ join_with ''/'' (clean_parts (is_abs p) [] (split_at (CHR ''/'') p))
      in if text = [] then ''.'' else text)"

definition path_dir :: "string \<Rightarrow> string" where
  "path_dir p = clean_path (List.rev (dropWhile (\<lambda>c. c \<noteq> CHR ''/'') (List.rev p)))"

definition path_prefix :: "string \<Rightarrow> string \<Rightarrow> bool" where
  "path_prefix pre p = (take (length pre) p = pre)"

definition path_suffix :: "string \<Rightarrow> string \<Rightarrow> bool" where
  "path_suffix suf p = (drop (length p - length suf) p = suf)"

definition safe_projection_relative :: "string \<Rightarrow> bool" where
  "safe_projection_relative v =
     (if v = [] \<or> is_abs v \<or> list_ex (\<lambda>c. c = backslash \<or> code c \<in> {13, 10, 0}) v then False
      else (let clean = clean_path v in
        clean \<noteq> ''.'' \<and> clean \<noteq> ''..'' \<and> \<not> path_prefix ''../'' clean \<and> clean = v))"

lemma safe_nonempty: "safe_projection_relative p \<Longrightarrow> p \<noteq> []"
  by (auto simp: safe_projection_relative_def)

lemma safe_positive: "safe_projection_relative p \<Longrightarrow> [] < p"
  using safe_nonempty [of p] by (cases p) auto

section \<open>Digests\<close>

definition lower_hex :: "char \<Rightarrow> bool" where
  "lower_hex c = (digit_char c \<or> byte_in 97 102 c)"

definition valid_control_digest :: "string \<Rightarrow> bool" where
  "valid_control_digest v = (length v = 64 \<and> list_all lower_hex v)"

definition valid_object_identity :: "string \<Rightarrow> bool" where
  "valid_object_identity v = ((length v = 40 \<or> length v = 64) \<and> list_all lower_hex v)"

definition control_bundle_digest :: "json \<Rightarrow> gerror + string" where
  "control_bundle_digest j = hash_json j"

section \<open>Runtime identities and pins\<close>

record runtime_identity =
  rn_version :: string
  rn_sha256 :: string
  rn_source :: string

text \<open>\<open>^[A-Za-z0-9][A-Za-z0-9._-]*$\<close>\<close>

definition version_start :: "char \<Rightarrow> bool" where
  "version_start c = (upper_char c \<or> lower_char c \<or> digit_char c)"

definition version_pattern :: "string \<Rightarrow> bool" where
  "version_pattern v =
     (case v of [] \<Rightarrow> False
      | c # cs \<Rightarrow> version_start c \<and> list_all (\<lambda>c. version_start c \<or> c \<in> set ''._-'') cs)"

definition runtime_identity_validate :: "runtime_identity \<Rightarrow> gerror option" where
  "runtime_identity_validate i = first_failure
     [fails (\<not> version_pattern (rn_version i))
        [Lit ''runtime version must be a non-empty filesystem-safe identity''],
      fails (\<not> valid_control_digest (rn_sha256 i))
        [Lit ''runtime SHA-256 must contain 64 lowercase hexadecimal characters''],
      fails (blank (rn_source i)) [Lit ''runtime source revision is required'']]"

record runtime_pin =
  pn_schema_version :: int
  pn_version :: string
  pn_sha256 :: string
  pn_source :: string
  pn_program_fingerprint :: string
  pn_state_schema_version :: int

definition pin_schema_version :: int where
  "pin_schema_version = 1"

definition new_pin :: "runtime_identity \<Rightarrow> string \<Rightarrow> int \<Rightarrow> runtime_pin" where
  "new_pin i program schema =
     \<lparr>pn_schema_version = pin_schema_version, pn_version = rn_version i, pn_sha256 = rn_sha256 i,
      pn_source = rn_source i, pn_program_fingerprint = program, pn_state_schema_version = schema\<rparr>"

definition pin_identity :: "runtime_pin \<Rightarrow> runtime_identity" where
  "pin_identity p = \<lparr>rn_version = pn_version p, rn_sha256 = pn_sha256 p, rn_source = pn_source p\<rparr>"

definition pin_validate :: "runtime_pin \<Rightarrow> gerror option" where
  "pin_validate p =
     (if pn_schema_version p \<noteq> pin_schema_version
      then Some (errorf [Lit ''runtime pin schema '', Number (pn_schema_version p), Lit '', want '',
                         Number pin_schema_version])
      else (case runtime_identity_validate (pin_identity p) of Some e \<Rightarrow> Some e
        | None \<Rightarrow> first_failure
            [fails (length (pn_program_fingerprint p) \<noteq> 64)
               [Lit ''runtime pin requires an exact control-program fingerprint''],
             fails (\<not> valid_control_digest (pn_program_fingerprint p))
               [Lit ''runtime pin control-program fingerprint must be lowercase hexadecimal''],
             fails (pn_state_schema_version p < 1) [Lit ''runtime pin requires a state schema identity'']]))"

text \<open>\<open>json.MarshalIndent\<close> of a flat struct, with an indentation of two blanks.\<close>

fun indent_fields :: "(string \<times> json) list \<Rightarrow> string option" where
  "indent_fields [] = Some []"
| "indent_fields ((k, j) # fs) =
     (case (encode j, indent_fields fs) of
        (Some a, Some b) \<Rightarrow>
          Some (CHR 0x0A # ''  '' @ encode_string k @ '': '' @ a @ (if fs = [] then [CHR 0x0A] else '','') @ b)
      | _ \<Rightarrow> None)"

definition encode_indented :: "(string \<times> json) list \<Rightarrow> string option" where
  "encode_indented fs = map_option (\<lambda>s. CHR 0x7B # s @ [CHR 0x7D]) (indent_fields fs)"

definition pin_fields :: "runtime_pin \<Rightarrow> (string \<times> json) list" where
  "pin_fields p =
     [(''schema_version'', JInt (pn_schema_version p)), (''version'', JStr (pn_version p)),
      (''sha256'', JStr (pn_sha256 p)), (''source_revision'', JStr (pn_source p)),
      (''program_fingerprint'', JStr (pn_program_fingerprint p)),
      (''state_schema_version'', JInt (pn_state_schema_version p))]"

definition encode_pin :: "runtime_pin \<Rightarrow> gerror + string" where
  "encode_pin p =
     (case pin_validate p of Some e \<Rightarrow> Inl e
      | None \<Rightarrow> (case encode_indented (pin_fields p) of None \<Rightarrow> Inl marshal_error
          | Some bs \<Rightarrow> Inr (bs @ [CHR 0x0A])))"

lemma encode_pin_total: "pin_validate p = None \<Longrightarrow> \<exists>bs. encode_pin p = Inr bs"
  by (simp add: encode_pin_def encode_indented_def pin_fields_def)

section \<open>Snapshots\<close>

record bundle_file =
  bf_path :: string
  bf_sha256 :: string
  bf_absent :: bool

record bundle_member_set =
  ms_root :: string
  ms_suffix :: string
  ms_paths :: "string list"

record bundle_snapshot =
  bs_fingerprint :: string
  bs_files :: "bundle_file list"
  bs_member_sets :: "bundle_member_set list"

definition max_bundle_file :: nat where
  "max_bundle_file = 64 * 2 ^ 20"

definition bundle_file_json :: "bundle_file \<Rightarrow> json" where
  "bundle_file_json f = JObj ([(''path'', JStr (bf_path f))]
     @ omit_empty (bf_sha256 f = []) ''sha256'' (JStr (bf_sha256 f))
     @ omit_empty (\<not> bf_absent f) ''absent'' (JBool True))"

text \<open>The paths of a set are copied onto a nil slice wherever a set is built.\<close>

definition member_set_json :: "bundle_member_set \<Rightarrow> json" where
  "member_set_json m = JObj [(''root'', JStr (ms_root m)), (''suffix'', JStr (ms_suffix m)),
     (''paths'', json_nil_strings (ms_paths m))]"

definition snapshot_digest :: "bundle_file list \<Rightarrow> bundle_member_set list \<Rightarrow> gerror + string" where
  "snapshot_digest files sets = control_bundle_digest
     (JObj ([(''files'', JArr (map bundle_file_json files))]
       @ omit_empty (sets = []) ''member_sets'' (JArr (map member_set_json sets))))"

text \<open>The paths of one member set, sorted: each a bound direct child, none twice.\<close>

fun member_path_error ::
    "string list \<Rightarrow> bundle_member_set \<Rightarrow> string option \<Rightarrow> string list \<Rightarrow> gerror option" where
  "member_path_error bound m previous [] = None"
| "member_path_error bound m previous (p # ps) =
     (if \<not> safe_projection_relative p \<or> path_dir p \<noteq> ms_root m \<or> \<not> path_suffix (ms_suffix m) p \<or> p \<notin> set bound
      then Some (errorf [Lit ''CONTROL_BUNDLE_INVALID: member set path '', Quoted p,
                         Lit '' is not a bound direct child''])
      else if previous = Some p
      then Some (errorf [Lit ''CONTROL_BUNDLE_INVALID: duplicate member set path '', Quoted p])
      else member_path_error bound m (Some p) ps)"

definition trim_slash :: "string \<Rightarrow> string" where
  "trim_slash p = (if path_suffix ''/'' p then butlast p else p)"

definition canonical_member_set :: "string list \<Rightarrow> bundle_member_set \<Rightarrow> gerror + bundle_member_set" where
  "canonical_member_set bound m =
     (if \<not> safe_projection_relative (ms_root m) \<or> CHR ''/'' \<in> set (ms_suffix m)
         \<or> backslash \<in> set (ms_suffix m) \<or> ms_suffix m = []
      then Inl (errorf [Lit ''CONTROL_BUNDLE_INVALID: unsafe member set''])
      else (let m' = m\<lparr>ms_root := trim_slash (ms_root m), ms_paths := sort (ms_paths m)\<rparr> in
        case member_path_error bound m' None (ms_paths m') of Some e \<Rightarrow> Inl e | None \<Rightarrow> Inr m'))"

definition member_set_key :: "bundle_member_set \<Rightarrow> string \<times> string" where
  "member_set_key m = (ms_root m, ms_suffix m)"

fun repeated :: "('a \<Rightarrow> 'b) \<Rightarrow> 'a list \<Rightarrow> 'a option" where
  "repeated f (x # y # zs) = (if f x = f y then Some y else repeated f (y # zs))"
| "repeated f xs = None"

definition bound_paths :: "bundle_file list \<Rightarrow> string list" where
  "bound_paths files = map bf_path (filter (\<lambda>f. \<not> bf_absent f) files)"

definition canonical_member_sets ::
    "bundle_member_set list \<Rightarrow> bundle_file list \<Rightarrow> gerror + bundle_member_set list" where
  "canonical_member_sets values files =
     (case map_result (canonical_member_set (bound_paths files)) values of Inl e \<Rightarrow> Inl e
      | Inr sets \<Rightarrow>
          (let sorted = sort_key member_set_key sets in
           if repeated member_set_key sorted \<noteq> None
           then Inl (errorf [Lit ''CONTROL_BUNDLE_INVALID: duplicate member set'']) else Inr sorted))"

definition file_binding :: "string \<times> string \<Rightarrow> gerror + bundle_file" where
  "file_binding pr =
     (if \<not> safe_projection_relative (fst pr)
      then Inl (errorf [Lit ''CONTROL_BUNDLE_INVALID: unsafe path '', Quoted (fst pr)])
      else if max_bundle_file < length (snd pr)
      then Inl (errorf [Lit ''CONTROL_BUNDLE_INVALID: '', Lit (fst pr),
                        Lit '' exceeds the maximum control-bundle file size''])
      else Inr \<lparr>bf_path = fst pr, bf_sha256 = sha256_hex (snd pr), bf_absent = False\<rparr>)"

definition absent_binding :: "string \<Rightarrow> gerror + bundle_file" where
  "absent_binding p =
     (if \<not> safe_projection_relative p
      then Inl (errorf [Lit ''CONTROL_BUNDLE_INVALID: unsafe path '', Quoted p])
      else Inr \<lparr>bf_path = p, bf_sha256 = [], bf_absent = True\<rparr>)"

definition seal_snapshot :: "bundle_file list \<Rightarrow> bundle_member_set list \<Rightarrow> gerror + bundle_snapshot" where
  "seal_snapshot files values =
     (case canonical_member_sets values files of Inl e \<Rightarrow> Inl e
      | Inr sets \<Rightarrow> (case snapshot_digest files sets of Inl e \<Rightarrow> Inl e
          | Inr h \<Rightarrow> Inr \<lparr>bs_fingerprint = h, bs_files = files, bs_member_sets = sets\<rparr>))"

text \<open>The map of files is an association list, in the order in which \<open>range\<close> visits it.\<close>

definition new_bundle_snapshot ::
    "(string \<times> string) list \<Rightarrow> string list \<Rightarrow> bundle_member_set list \<Rightarrow> gerror + bundle_snapshot" where
  "new_bundle_snapshot files absent sets =
     (case map_result file_binding files of Inl e \<Rightarrow> Inl e
      | Inr present \<Rightarrow>
          (case map_result absent_binding absent of Inl e \<Rightarrow> Inl e
           | Inr removed \<Rightarrow>
               (let bindings = sort_key bf_path (present @ removed) in
                if bindings = [] then Inl (errorf [Lit ''CONTROL_BUNDLE_INVALID: bundle has no files''])
                else (case repeated bf_path bindings of
                    Some f \<Rightarrow> Inl (errorf [Lit ''CONTROL_BUNDLE_INVALID: duplicate path '', Quoted (bf_path f)])
                  | None \<Rightarrow> seal_snapshot bindings sets))))"

text \<open>The bindings in strictly increasing order of their paths.\<close>

fun file_bindings_error :: "string \<Rightarrow> bundle_file list \<Rightarrow> bool" where
  "file_bindings_error prior [] = False"
| "file_bindings_error prior (f # fs) =
     (\<not> safe_projection_relative (bf_path f) \<or> bf_path f \<le> prior \<or> bf_absent f \<and> bf_sha256 f \<noteq> []
      \<or> \<not> bf_absent f \<and> \<not> valid_control_digest (bf_sha256 f) \<or> file_bindings_error (bf_path f) fs)"

definition bundle_snapshot_validate :: "bundle_snapshot \<Rightarrow> gerror option" where
  "bundle_snapshot_validate s = first_failure
     [fails (\<not> valid_control_digest (bs_fingerprint s) \<or> bs_files s = [])
        [Lit ''CONTROL_BUNDLE_INVALID: snapshot is incomplete''],
      fails (file_bindings_error [] (bs_files s))
        [Lit ''CONTROL_BUNDLE_INVALID: file bindings are not canonical''],
      fails (canonical_member_sets (bs_member_sets s) (bs_files s) \<noteq> Inr (bs_member_sets s))
        [Lit ''CONTROL_BUNDLE_INVALID: member sets are not canonical''],
      fails (snapshot_digest (bs_files s) (bs_member_sets s) \<noteq> Inr (bs_fingerprint s))
        [Lit ''CONTROL_BUNDLE_INVALID: snapshot fingerprint mismatch'']]"

definition bundle_snapshot_validate_historical :: "bundle_snapshot \<Rightarrow> gerror option" where
  "bundle_snapshot_validate_historical s = first_failure
     [fails (\<not> valid_control_digest (bs_fingerprint s) \<or> bs_files s = [] \<or> bs_member_sets s \<noteq> [])
        [Lit ''CONTROL_BUNDLE_INVALID: historical snapshot is incomplete''],
      fails (file_bindings_error [] (bs_files s))
        [Lit ''CONTROL_BUNDLE_INVALID: historical file bindings are not canonical''],
      fails (control_bundle_digest (JArr (map bundle_file_json (bs_files s))) \<noteq> Inr (bs_fingerprint s))
        [Lit ''CONTROL_BUNDLE_INVALID: historical snapshot fingerprint mismatch'']]"

text \<open>Replacing or removing one file of a snapshot.\<close>

fun put_binding :: "bundle_file \<Rightarrow> bundle_file list \<Rightarrow> bundle_file list" where
  "put_binding b [] = []"
| "put_binding b (f # fs) = (if bf_path f = bf_path b then b # fs else f # put_binding b fs)"

definition replace_binding :: "bundle_snapshot \<Rightarrow> bundle_file \<Rightarrow> gerror + bundle_snapshot" where
  "replace_binding s b =
     (case bundle_snapshot_validate s of Some e \<Rightarrow> Inl e
      | None \<Rightarrow>
          if \<not> safe_projection_relative (bf_path b)
          then Inl (errorf [Lit ''CONTROL_BUNDLE_INVALID: unsafe path '', Quoted (bf_path b)])
          else seal_snapshot
            (if bf_path b \<in> set (map bf_path (bs_files s)) then put_binding b (bs_files s)
             else sort_key bf_path (bs_files s @ [b]))
            (bs_member_sets s))"

definition replace_bundle_file :: "bundle_snapshot \<Rightarrow> string \<Rightarrow> string \<Rightarrow> gerror + bundle_snapshot" where
  "replace_bundle_file s path raw =
     (if max_bundle_file < length raw
      then Inl (errorf [Lit ''CONTROL_BUNDLE_INVALID: '', Lit path,
                        Lit '' exceeds the maximum control-bundle file size''])
      else replace_binding s \<lparr>bf_path = path, bf_sha256 = sha256_hex raw, bf_absent = False\<rparr>)"

definition replace_bundle_file_absent :: "bundle_snapshot \<Rightarrow> string \<Rightarrow> gerror + bundle_snapshot" where
  "replace_bundle_file_absent s path = replace_binding s \<lparr>bf_path = path, bf_sha256 = [], bf_absent = True\<rparr>"

section \<open>Contracts\<close>

record bundle_contract =
  bc_schema_version :: int
  bc_fingerprint :: string
  bc_source :: bundle_snapshot
  bc_target :: "bundle_snapshot option"
  bc_target_revision :: string
  bc_source_pin :: "runtime_pin option"
  bc_target_pin :: "runtime_pin option"

definition bundle_schema_version :: int where
  "bundle_schema_version = 1"

definition runtime_file :: string where
  "runtime_file = ''.boatstack/runtime.json''"

definition bundle_snapshot_json :: "bundle_snapshot \<Rightarrow> json" where
  "bundle_snapshot_json s = JObj ([(''fingerprint'', JStr (bs_fingerprint s)),
       (''files'', JArr (map bundle_file_json (bs_files s)))]
     @ omit_empty (bs_member_sets s = []) ''member_sets'' (JArr (map member_set_json (bs_member_sets s))))"

definition omit_none :: "string \<Rightarrow> ('a \<Rightarrow> json) \<Rightarrow> 'a option \<Rightarrow> (string \<times> json) list" where
  "omit_none key f v = (case v of None \<Rightarrow> [] | Some x \<Rightarrow> [(key, f x)])"

definition bundle_contract_json :: "bundle_contract \<Rightarrow> json" where
  "bundle_contract_json c = JObj ([(''schema_version'', JInt (bc_schema_version c)),
       (''fingerprint'', JStr (bc_fingerprint c)), (''source'', bundle_snapshot_json (bc_source c))]
     @ omit_none ''target'' bundle_snapshot_json (bc_target c)
     @ omit_empty (bc_target_revision c = []) ''target_revision'' (JStr (bc_target_revision c))
     @ omit_none ''source_runtime_pin'' (\<lambda>p. JObj (pin_fields p)) (bc_source_pin c)
     @ omit_none ''target_runtime_pin'' (\<lambda>p. JObj (pin_fields p)) (bc_target_pin c))"

definition bound_pin_error :: "bundle_snapshot \<Rightarrow> runtime_pin option \<Rightarrow> gerror option" where
  "bound_pin_error s pin =
     (case filter (\<lambda>f. bf_path f = runtime_file) (bs_files s) of
        b # _ \<Rightarrow>
          if bf_absent b
          then fails (pin \<noteq> None) [Lit ''CONTROL_BUNDLE_INVALID: runtime-pin metadata has no runtime file'']
          else (case pin of
              None \<Rightarrow> Some (errorf [Lit ''CONTROL_BUNDLE_INVALID: runtime file has no decoded pin metadata''])
            | Some p \<Rightarrow> (case encode_pin p of Inl e \<Rightarrow> Some (wrapf [Lit ''CONTROL_BUNDLE_INVALID: ''] e)
                | Inr raw \<Rightarrow> fails (sha256_hex raw \<noteq> bf_sha256 b)
                    [Lit ''CONTROL_BUNDLE_INVALID: runtime-pin metadata does not match bundle bytes'']))
      | [] \<Rightarrow> fails (pin \<noteq> None) [Lit ''CONTROL_BUNDLE_INVALID: runtime-pin metadata has no runtime file''])"

text \<open>\<open>validateFields\<close> and \<open>validateHistoricalFields\<close> differ in how a snapshot is validated.\<close>

definition contract_field_errors ::
    "(bundle_snapshot \<Rightarrow> gerror option) \<Rightarrow> bundle_contract \<Rightarrow> gerror option list" where
  "contract_field_errors check c =
     [fails (bc_schema_version c \<noteq> bundle_schema_version) [Lit ''CONTROL_BUNDLE_INVALID: unsupported schema''],
      check (bc_source c),
      (case bc_target c of Some t \<Rightarrow> check t
       | None \<Rightarrow> fails (bc_target_revision c \<noteq> [])
           [Lit ''CONTROL_BUNDLE_INVALID: target revision has no target bundle'']),
      bound_pin_error (bc_source c) (bc_source_pin c),
      (case bc_target c of Some t \<Rightarrow> bound_pin_error t (bc_target_pin c)
       | None \<Rightarrow> fails (bc_target_pin c \<noteq> None)
           [Lit ''CONTROL_BUNDLE_INVALID: target runtime pin has no target bundle'']),
      fails (bc_target_revision c \<noteq> [] \<and> \<not> valid_object_identity (bc_target_revision c))
        [Lit ''CONTROL_BUNDLE_INVALID: target revision is not an exact object identity'']]"

definition contract_fields_validate :: "bundle_contract \<Rightarrow> gerror option" where
  "contract_fields_validate c = first_failure (contract_field_errors bundle_snapshot_validate c)"

definition contract_historical_fields :: "bundle_contract \<Rightarrow> gerror option" where
  "contract_historical_fields c = first_failure (contract_field_errors bundle_snapshot_validate_historical c)"

definition contract_digest :: "bundle_contract \<Rightarrow> gerror + string" where
  "contract_digest c = control_bundle_digest (bundle_contract_json (c\<lparr>bc_fingerprint := []\<rparr>))"

definition contract_fingerprint_validate :: "bundle_contract \<Rightarrow> gerror option" where
  "contract_fingerprint_validate c =
     fails (bc_fingerprint c = [] \<or> contract_digest c \<noteq> Inr (bc_fingerprint c))
       [Lit ''CONTROL_BUNDLE_INVALID: contract fingerprint mismatch'']"

definition bundle_contract_validate :: "bundle_contract \<Rightarrow> gerror option" where
  "bundle_contract_validate c =
     (case contract_fields_validate c of Some e \<Rightarrow> Some e | None \<Rightarrow> contract_fingerprint_validate c)"

definition bundle_contract_validate_history :: "bundle_contract \<Rightarrow> gerror option" where
  "bundle_contract_validate_history c =
     (if bundle_contract_validate c = None then None
      else (case contract_historical_fields c of Some e \<Rightarrow> Some e | None \<Rightarrow> contract_fingerprint_validate c))"

definition new_bundle_contract ::
    "bundle_snapshot \<Rightarrow> bundle_snapshot option \<Rightarrow> string \<Rightarrow> runtime_pin option \<Rightarrow> runtime_pin option
       \<Rightarrow> gerror + bundle_contract" where
  "new_bundle_contract source target revision source_pin target_pin =
     (let c = \<lparr>bc_schema_version = bundle_schema_version, bc_fingerprint = [], bc_source = source,
               bc_target = target, bc_target_revision = revision, bc_source_pin = source_pin,
               bc_target_pin = target_pin\<rparr>
      in case contract_fields_validate c of Some e \<Rightarrow> Inl e
         | None \<Rightarrow> (case contract_digest c of Inl e \<Rightarrow> Inl e | Inr h \<Rightarrow> Inr (c\<lparr>bc_fingerprint := h\<rparr>)))"

section \<open>Sealed snapshots validate\<close>

lemma split_at_no_sep: "c \<in> set (split_at sep s) \<Longrightarrow> sep \<notin> set c"
  by (induction sep s arbitrary: c rule: split_at.induct) (auto split: if_splits list.splits)

lemma clean_parts_set:
  "c \<in> set (clean_parts rooted out cs) \<Longrightarrow> c \<in> set out \<or> c \<in> set cs \<and> c \<noteq> [] \<or> c = ''..''"
proof (induction rooted out cs rule: clean_parts.induct)
  case (2 rooted out d ds)
  then show ?case
    by (cases out) (auto split: if_splits)
qed simp

lemma join_last:
  assumes "cs \<noteq> []" "last cs \<noteq> []"
  shows "join_with sep cs \<noteq> []" "last (join_with sep cs) = last (last cs)"
proof -
  have joined: "concat (map ((@) sep) ys) \<noteq> [] \<and> last (concat (map ((@) sep) ys)) = last (last ys)"
    if "ys \<noteq> []" "last ys \<noteq> []" for ys
    using that by (cases ys rule: rev_cases) auto
  obtain x xs where cs: "cs = x # xs"
    using assms(1) by (cases cs) auto
  have "join_with sep cs \<noteq> [] \<and> last (join_with sep cs) = last (last cs)"
  proof (cases "xs = []")
    case False
    then show ?thesis
      using joined [of xs] assms(2) by (simp add: cs join_with_def)
  qed (use assms(2) in \<open>simp add: cs join_with_def\<close>)
  then show "join_with sep cs \<noteq> []" "last (join_with sep cs) = last (last cs)"
    by blast+
qed

lemma clean_relative_last:
  assumes "\<not> is_abs p" "clean_path p = p"
  shows "\<not> path_suffix ''/'' p"
proof -
  define cs where "cs = clean_parts False [] (split_at (CHR ''/'') p)"
  have "clean_path p = (if join_with ''/'' cs = [] then ''.'' else join_with ''/'' cs)"
    using assms(1) by (simp add: clean_path_def Let_def cs_def)
  then have p: "p = (if join_with ''/'' cs = [] then ''.'' else join_with ''/'' cs)"
    unfolding assms(2) .
  have part: "c \<noteq> [] \<and> CHR ''/'' \<notin> set c" if "c \<in> set cs" for c
    using clean_parts_set [of c False "[]" "split_at (CHR ''/'') p"] that split_at_no_sep
    by (auto simp: cs_def)
  show ?thesis
  proof (cases "cs = []")
    case True
    then have "join_with ''/'' cs = []"
      by (simp add: join_with_def)
    then have "p = ''.''"
      by (subst p) simp
    then show ?thesis
      by (simp add: path_suffix_def)
  next
    case False
    then have last: "last cs \<noteq> []" "CHR ''/'' \<notin> set (last cs)"
      using part by simp_all
    have "last (last cs) \<noteq> CHR ''/''"
      using last last_in_set by metis
    then have "last p \<noteq> CHR ''/''"
      by (subst p) (simp add: join_last [OF False last(1)])
    then show ?thesis
      by (cases p rule: rev_cases) (auto simp: path_suffix_def)
  qed
qed

lemma trim_slash_safe: "safe_projection_relative p \<Longrightarrow> trim_slash p = p"
  using clean_relative_last [of p]
  by (auto simp: trim_slash_def safe_projection_relative_def Let_def split: if_splits)

text \<open>Digests are lower case, so what is sealed has a valid fingerprint.\<close>

lemma lower_hex_digit: "n < 16 \<Longrightarrow> lower_hex (hex_digit n)"
  by (auto simp: lower_hex_def hex_digit_def digit_char_def byte_in_def)

lemma lower_hex_word: "list_all lower_hex (hex_word n x)"
proof (induction n arbitrary: x)
  case (Suc n)
  have "unat (x AND 15) < 16"
    using word_and_le1 [of x 15] by (simp add: word_le_nat_alt)
  then show ?case
    using Suc lower_hex_digit by simp
qed simp

lemma sha_digest_valid [simp]: "valid_control_digest (sha256_hex m)"
proof -
  have "list_all lower_hex (hex_state st)" for st
    by (induction st rule: hex_state.induct) (simp add: lower_hex_word)
  then show ?thesis
    by (simp add: valid_control_digest_def sha256_hex_def Let_def)
qed

lemma hash_json_valid: "hash_json j = Inr h \<Longrightarrow> valid_control_digest h"
  by (auto simp: hash_json_def split: option.splits)

lemma repeated_None_iff:
  "sorted (map f xs) \<Longrightarrow> repeated f xs = None \<longleftrightarrow> sorted_wrt (<) (map f (xs :: 'a list) :: 'b::linorder list)"
proof (induction f xs rule: repeated.induct)
  case (1 f x y zs)
  then have "f x \<le> f y" "sorted (map f (y # zs))"
    by simp_all
  then show ?case
    using 1 by (auto intro: order.strict_trans1)
qed simp_all

definition good_binding :: "bundle_file \<Rightarrow> bool" where
  "good_binding f \<longleftrightarrow> safe_projection_relative (bf_path f)
     \<and> (if bf_absent f then bf_sha256 f = [] else valid_control_digest (bf_sha256 f))"

lemma file_bindings_iff:
  "\<not> file_bindings_error prior fs \<longleftrightarrow> sorted_wrt (<) (prior # map bf_path fs) \<and> (\<forall>f\<in>set fs. good_binding f)"
proof (induction fs arbitrary: prior)
  case (Cons f fs)
  show ?case
    using Cons [of "bf_path f"] by (auto simp: good_binding_def not_le intro: less_trans)
qed simp

lemma file_binding_good: "file_binding pr = Inr f \<Longrightarrow> good_binding f"
  by (auto simp: file_binding_def good_binding_def split: if_splits)

lemma absent_binding_good: "absent_binding p = Inr f \<Longrightarrow> good_binding f"
  by (auto simp: absent_binding_def good_binding_def split: if_splits)

lemma map_result_member:
  assumes "map_result f xs = Inr ys" "y \<in> set ys"
  shows "\<exists>x\<in>set xs. f x = Inr y"
  using assms by (induction xs arbitrary: ys) (auto split: sum.splits)

lemma canonical_member_set_fix:
  assumes "canonical_member_set bound m = Inr m'"
  shows "canonical_member_set bound m' = Inr m'"
proof -
  have safe: "safe_projection_relative (ms_root m)"
    and m': "m' = m\<lparr>ms_root := trim_slash (ms_root m), ms_paths := sort (ms_paths m)\<rparr>"
    using assms by (auto simp: canonical_member_set_def Let_def split: if_splits option.splits)
  then have "trim_slash (ms_root m) = ms_root m"
    by (simp add: trim_slash_safe)
  then show ?thesis
    using assms by (auto simp: canonical_member_set_def Let_def m' split: if_splits option.splits)
qed

lemma canonical_member_sets_fix:
  assumes "canonical_member_sets values fs = Inr sets"
  shows "canonical_member_sets sets fs = Inr sets"
proof -
  obtain ms where ms: "map_result (canonical_member_set (bound_paths fs)) values = Inr ms"
    "sets = sort_key member_set_key ms" "repeated member_set_key sets = None"
    using assms by (auto simp: canonical_member_sets_def Let_def split: sum.splits if_splits)
  have "\<forall>m\<in>set ms. \<exists>v. canonical_member_set (bound_paths fs) v = Inr m"
    using map_result_member [OF ms(1)] by blast
  then have "map_result (canonical_member_set (bound_paths fs)) sets = Inr (map (\<lambda>m. m) sets)"
    by (intro map_result_all_Inr) (auto simp: ms(2) dest: canonical_member_set_fix)
  then show ?thesis
    using ms(2,3) by (simp add: canonical_member_sets_def Let_def)
qed

lemma seal_snapshot_valid:
  assumes "seal_snapshot fs values = Inr s" "fs \<noteq> []" "\<not> file_bindings_error [] fs"
  shows "bundle_snapshot_validate s = None" "bs_files s = fs"
  using assms canonical_member_sets_fix
  by (auto simp: seal_snapshot_def bundle_snapshot_validate_def first_failure_def fails_def snapshot_digest_def
      control_bundle_digest_def hash_json_valid split: sum.splits)

lemma put_binding_paths: "map bf_path (put_binding b fs) = map bf_path fs"
  by (induction fs) auto

lemma put_binding_set: "set (put_binding b fs) \<subseteq> insert b (set fs)"
  by (induction fs) auto

lemma new_bundle_snapshot_valid:
  assumes "new_bundle_snapshot files absent sets = Inr s"
  shows "bundle_snapshot_validate s = None"
proof -
  obtain present removed where b: "map_result file_binding files = Inr present"
    "map_result absent_binding absent = Inr removed"
    using assms by (auto simp: new_bundle_snapshot_def split: sum.splits)
  define fs where "fs = sort_key bf_path (present @ removed)"
  have s: "fs \<noteq> []" "repeated bf_path fs = None" "seal_snapshot fs sets = Inr s"
    using assms b by (auto simp: new_bundle_snapshot_def Let_def fs_def split: if_splits option.splits)
  have good: "\<forall>f\<in>set fs. good_binding f"
    using map_result_member [OF b(1)] map_result_member [OF b(2)] file_binding_good absent_binding_good
    unfolding fs_def set_sort set_append by blast
  moreover have "sorted_wrt (<) (map bf_path fs)"
    using s(2) repeated_None_iff [of bf_path fs] by (simp add: fs_def)
  moreover have "\<forall>f\<in>set fs. [] < bf_path f"
    using good safe_positive by (auto simp: good_binding_def)
  ultimately have "\<not> file_bindings_error [] fs"
    by (simp add: file_bindings_iff)
  then show ?thesis
    using seal_snapshot_valid [OF s(3,1)] by blast
qed

lemma bundle_snapshot_valid_files:
  "bundle_snapshot_validate s = None \<Longrightarrow> bs_files s \<noteq> [] \<and> \<not> file_bindings_error [] (bs_files s)"
  by (auto simp: bundle_snapshot_validate_def first_failure_def fails_def split: if_splits)

lemma replace_binding_valid:
  assumes "replace_binding s b = Inr s'"
    and "if bf_absent b then bf_sha256 b = [] else valid_control_digest (bf_sha256 b)"
  shows "bundle_snapshot_validate s' = None \<and> b \<in> set (bs_files s')"
proof -
  have s: "bundle_snapshot_validate s = None" "safe_projection_relative (bf_path b)"
    using assms(1) by (auto simp: replace_binding_def split: option.splits if_splits)
  define fs where "fs = (if bf_path b \<in> set (map bf_path (bs_files s)) then put_binding b (bs_files s)
             else sort_key bf_path (bs_files s @ [b]))"
  have seal: "seal_snapshot fs (bs_member_sets s) = Inr s'"
    using assms(1) s by (simp add: replace_binding_def fs_def)
  note old = bundle_snapshot_valid_files [OF s(1)]
  then have strict: "sorted_wrt (<) (map bf_path (bs_files s))" "\<forall>f\<in>set (bs_files s). good_binding f"
    by (simp_all add: file_bindings_iff)
  have b: "good_binding b"
    using assms(2) s(2) by (simp add: good_binding_def)
  have good: "\<forall>f\<in>set fs. good_binding f"
    using b strict(2) put_binding_set [of b "bs_files s"] by (auto simp: fs_def)
  have "sorted_wrt (<) (map bf_path fs)"
  proof (cases "bf_path b \<in> set (map bf_path (bs_files s))")
    case True
    then show ?thesis
      using strict(1) by (simp add: fs_def put_binding_paths)
  next
    case False
    then have "distinct (map bf_path fs)"
      using strict(1) by (auto simp: fs_def distinct_map strict_sorted_iff)
    then show ?thesis
      using False by (simp add: fs_def strict_sorted_iff)
  qed
  moreover have "\<forall>f\<in>set fs. [] < bf_path f"
    using good safe_positive by (auto simp: good_binding_def)
  ultimately have "\<not> file_bindings_error [] fs"
    using good by (simp add: file_bindings_iff)
  moreover have "b \<in> set fs"
  proof -
    have "bf_path b \<in> set (map bf_path gs) \<Longrightarrow> b \<in> set (put_binding b gs)" for gs
      by (induction gs) auto
    then show ?thesis
      by (auto simp: fs_def)
  qed
  moreover from this have "fs \<noteq> []"
    by auto
  ultimately show ?thesis
    using seal_snapshot_valid [OF seal] by simp
qed

lemma new_bundle_contract_valid:
  assumes "new_bundle_contract source target revision p q = Inr c"
  shows "bundle_contract_validate c = None"
proof -
  define d where "d = \<lparr>bc_schema_version = bundle_schema_version, bc_fingerprint = [], bc_source = source,
     bc_target = target, bc_target_revision = revision, bc_source_pin = p, bc_target_pin = q\<rparr>"
  obtain h where h: "contract_fields_validate d = None" "contract_digest d = Inr h" "c = d\<lparr>bc_fingerprint := h\<rparr>"
    using assms by (auto simp: new_bundle_contract_def Let_def d_def split: option.splits sum.splits)
  have "length h = 64"
    using h(2) by (auto simp: contract_digest_def control_bundle_digest_def dest: hash_json_length)
  moreover have "contract_digest c = contract_digest d"
    by (simp add: h(3) contract_digest_def)
  moreover have "contract_fields_validate c = contract_fields_validate d"
    by (cases "bc_target d") (simp_all add: h(3) contract_fields_validate_def contract_field_errors_def)
  ultimately show ?thesis
    using h by (auto simp: bundle_contract_validate_def contract_fingerprint_validate_def fails_def)
qed

end
