(* ===== verification/Delivery_Work.thy ===== *)
theory Delivery_Work
  imports Delivery_Protocol Runtime_Bundle "HOL-Library.AList"
begin

text \<open>
  \<open>protocol/work.go\<close>: the evidence of foreground work and its binding to the declared contract;
  \<open>protocol/control_bundle.go\<close>: which transitions need a control bundle and the target it must
  reach.
\<close>

section \<open>Evidence of foreground work\<close>

record work_provenance =
  wp_receipt :: string
  wp_transition :: string
  wp_work :: string
  wp_output :: string
  wp_result_fingerprint :: string
  wp_contract_fingerprint :: string
  wp_output_sha256 :: string

definition work_provenance_validate :: "work_provenance \<Rightarrow> gerror option" where
  "work_provenance_validate p =
     fails (wp_receipt p = [] \<or> wp_transition p = [] \<or> wp_work p = [] \<or> wp_output p = []
       \<or> \<not> valid_control_digest (wp_result_fingerprint p) \<or> \<not> valid_control_digest (wp_contract_fingerprint p)
       \<or> \<not> valid_control_digest (wp_output_sha256 p))
       [Lit ''foreground work-output provenance is incomplete'']"

text \<open>The check that inputs and their evidence share: provenance of exactly these bytes.\<close>

definition bad_provenance :: "string \<Rightarrow> work_provenance option \<Rightarrow> bool" where
  "bad_provenance fingerprint output =
     (case output of None \<Rightarrow> False
      | Some p \<Rightarrow> work_provenance_validate p \<noteq> None \<or> fingerprint \<noteq> wp_output_sha256 p)"

record work_input_value =
  wv_value :: string
  wv_fingerprint :: string
  wv_output :: "work_provenance option"

definition work_input_value_validate :: "work_input_value \<Rightarrow> gerror option" where
  "work_input_value_validate v = first_failure
     [fails (wv_value v = [] \<or> \<not> valid_control_digest (wv_fingerprint v))
        [Lit ''foreground work input requires a value and exact fingerprint''],
      fails (bad_provenance (wv_fingerprint v) (wv_output v))
        [Lit ''foreground work input has invalid work-output provenance'']]"

record work_input_evidence =
  we_id :: string
  we_fingerprint :: string
  we_output :: "work_provenance option"

definition work_input_evidence_validate :: "work_input_evidence \<Rightarrow> gerror option" where
  "work_input_evidence_validate e = first_failure
     [fails (we_id e = [] \<or> \<not> valid_control_digest (we_fingerprint e))
        [Lit ''foreground work input evidence is incomplete''],
      fails (bad_provenance (we_fingerprint e) (we_output e))
        [Lit ''foreground work input evidence has invalid work-output provenance'']]"

record work_output_evidence =
  wx_id :: string
  wx_path :: string
  wx_media_type :: string
  wx_sha256 :: string
  wx_size :: int
  wx_content :: string

record work_evidence =
  wk_schema_version :: int
  wk_request :: string
  wk_request_fingerprint :: string
  wk_result_fingerprint :: string
  wk_run :: string
  wk_program :: string
  wk_entry :: string
  wk_contract :: string
  wk_contract_fingerprint :: string
  wk_transition :: string
  wk_program_fingerprint :: string
  wk_context_fingerprint :: string
  wk_state_revision :: u64
  wk_repository :: string
  wk_worktree :: string
  wk_inputs :: "work_input_evidence list"
  wk_outputs :: "work_output_evidence list"

definition work_evidence_schema_version :: int where
  "work_evidence_schema_version = 4"

definition work_provenance_json :: "work_provenance \<Rightarrow> json" where
  "work_provenance_json p = JObj [(''receipt_id'', JStr (wp_receipt p)), (''transition_id'', JStr (wp_transition p)),
     (''work_id'', JStr (wp_work p)), (''output_id'', JStr (wp_output p)),
     (''result_fingerprint'', JStr (wp_result_fingerprint p)),
     (''contract_fingerprint'', JStr (wp_contract_fingerprint p)), (''output_sha256'', JStr (wp_output_sha256 p))]"

definition work_input_evidence_json :: "work_input_evidence \<Rightarrow> json" where
  "work_input_evidence_json e = JObj ([(''id'', JStr (we_id e)), (''fingerprint'', JStr (we_fingerprint e))]
     @ omit_none ''work_output'' work_provenance_json (we_output e))"

definition work_output_evidence_json :: "work_output_evidence \<Rightarrow> json" where
  "work_output_evidence_json x = JObj [(''id'', JStr (wx_id x)), (''path'', JStr (wx_path x)),
     (''media_type'', JStr (wx_media_type x)), (''sha256'', JStr (wx_sha256 x)), (''size'', JInt (wx_size x)),
     (''content'', JStr (wx_content x))]"

definition nil_array :: "('a \<Rightarrow> json) \<Rightarrow> 'a list \<Rightarrow> json" where
  "nil_array f xs = (if xs = [] then JNull else JArr (map f xs))"

definition work_evidence_json :: "work_evidence \<Rightarrow> json" where
  "work_evidence_json e =
     (let opt = (\<lambda>key v. omit_empty (v = []) key (JStr v)) in
      JObj ([(''schema_version'', JInt (wk_schema_version e)), (''request_id'', JStr (wk_request e)),
          (''request_fingerprint'', JStr (wk_request_fingerprint e)),
          (''result_fingerprint'', JStr (wk_result_fingerprint e))]
        @ opt ''run_id'' (wk_run e) @ opt ''program_id'' (wk_program e) @ opt ''entry_id'' (wk_entry e)
        @ [(''contract_id'', JStr (wk_contract e)), (''contract_fingerprint'', JStr (wk_contract_fingerprint e)),
           (''transition_id'', JStr (wk_transition e)), (''program_fingerprint'', JStr (wk_program_fingerprint e)),
           (''context_fingerprint'', JStr (wk_context_fingerprint e)),
           (''state_revision'', JInt (uint (wk_state_revision e))), (''repository_id'', JStr (wk_repository e)),
           (''worktree_id'', JStr (wk_worktree e))]
        @ omit_empty (wk_inputs e = []) ''inputs'' (JArr (map work_input_evidence_json (wk_inputs e)))
        @ [(''outputs'', nil_array work_output_evidence_json (wk_outputs e))]))"

definition work_result_hash :: "work_evidence \<Rightarrow> gerror + string" where
  "work_result_hash e = hash_json (work_evidence_json (e\<lparr>wk_result_fingerprint := []\<rparr>))"

definition bad_output :: "work_output_evidence \<Rightarrow> bool" where
  "bad_output x \<longleftrightarrow> wx_id x = [] \<or> wx_path x = [] \<or> wx_media_type x = [] \<or> \<not> valid_control_digest (wx_sha256 x)
     \<or> sha256_hex (wx_content x) \<noteq> wx_sha256 x \<or> wx_size x < 0 \<or> int (length (wx_content x)) \<noteq> wx_size x"

text \<open>A loop that stops at a bad or repeated element.\<close>

fun scan_unique :: "('a \<Rightarrow> string) \<Rightarrow> ('a \<Rightarrow> bool) \<Rightarrow> string list \<Rightarrow> 'a list \<Rightarrow> bool" where
  "scan_unique key bad seen [] = True"
| "scan_unique key bad seen (x # xs) = (if bad x \<or> key x \<in> set seen then False else scan_unique key bad (key x # seen) xs)"

definition work_evidence_validate :: "work_evidence \<Rightarrow> gerror option" where
  "work_evidence_validate e = first_failure
     [fails (wk_schema_version e \<noteq> work_evidence_schema_version \<or> wk_request e = []
        \<or> \<not> valid_control_digest (wk_request_fingerprint e) \<or> \<not> valid_control_digest (wk_result_fingerprint e)
        \<or> wk_run e = [] \<or> wk_program e = [] \<or> wk_entry e = [] \<or> wk_contract e = []
        \<or> \<not> valid_control_digest (wk_contract_fingerprint e) \<or> wk_transition e = []
        \<or> \<not> valid_control_digest (wk_program_fingerprint e) \<or> \<not> valid_control_digest (wk_context_fingerprint e)
        \<or> wk_state_revision e = 0 \<or> wk_repository e = [] \<or> wk_worktree e = [] \<or> wk_outputs e = [])
        [Lit ''foreground work evidence has incomplete identity''],
      fails (\<not> scan_unique we_id (\<lambda>i. work_input_evidence_validate i \<noteq> None) [] (wk_inputs e))
        [Lit ''foreground work input evidence is incomplete or duplicated''],
      fails (\<not> scan_unique wx_id bad_output [] (wk_outputs e))
        [Lit ''foreground work output evidence is incomplete or duplicated''],
      fails (work_result_hash e \<noteq> Inr (wk_result_fingerprint e))
        [Lit ''foreground work result fingerprint is invalid'']]"

section \<open>Evidence against the declared contract\<close>

text \<open>A Go map filled by a loop: a later element replaces an earlier one of the same key.\<close>

definition map_by :: "('a \<Rightarrow> string) \<Rightarrow> 'a list \<Rightarrow> (string \<times> 'a) list" where
  "map_by key xs = AList.clearjunk (List.rev (map (\<lambda>x. (key x, x)) xs))"

fun match_inputs :: "(string \<times> work_input) list \<Rightarrow> work_input_evidence list \<Rightarrow> gerror option" where
  "match_inputs declared [] =
     fails (declared \<noteq> []) [Lit ''foreground work result is missing input evidence'']"
| "match_inputs declared (i # is) =
     (case map_of declared (we_id i) of
        None \<Rightarrow> Some (errorf [Lit ''foreground work input '', Quoted (we_id i), Lit '' does not match the trusted contract''])
      | Some c \<Rightarrow>
          (let p = wi_producer c; rest = match_inputs (AList.delete (we_id i) declared) is in
           if pp_kind p = ''entry-input''
           then if we_output i \<noteq> None
                then Some (errorf [Lit ''foreground work entry input '', Quoted (we_id i),
                                   Lit '' invents producer provenance''])
                else rest
           else if pp_kind p = ''work-output''
           then (case we_output i of
               Some w \<Rightarrow> if wp_work w = pp_work p \<and> wp_output w = pp_output p then rest
                 else Some (errorf [Lit ''foreground work input '', Quoted (we_id i),
                                    Lit '' does not match its declared producer''])
             | None \<Rightarrow> Some (errorf [Lit ''foreground work input '', Quoted (we_id i),
                                     Lit '' does not match its declared producer'']))
           else Some (errorf [Lit ''foreground work input '', Quoted (we_id i), Lit '' has an unsupported producer''])))"

fun match_outputs :: "(string \<times> work_output) list \<Rightarrow> work_output_evidence list \<Rightarrow> gerror option" where
  "match_outputs declared [] =
     first_error (\<lambda>d. fails (wo_required (snd d))
       [Lit ''foreground work result is missing required output '', Quoted (wo_id (snd d))]) declared"
| "match_outputs declared (x # xs) =
     (case map_of declared (wx_id x) of
        Some c \<Rightarrow>
          if wo_path c \<noteq> wx_path x \<or> wo_media_type c \<noteq> wx_media_type x \<or> wo_max_bytes c < wx_size x
          then Some (errorf [Lit ''foreground work output '', Quoted (wx_id x), Lit '' does not match the trusted contract''])
          else match_outputs (AList.delete (wx_id x) declared) xs
      | None \<Rightarrow> Some (errorf [Lit ''foreground work output '', Quoted (wx_id x), Lit '' does not match the trusted contract'']))"

definition work_stale :: "work_evidence \<Rightarrow> sd_snapshot \<Rightarrow> sd_transition \<Rightarrow> string \<Rightarrow> work_contract \<Rightarrow> bool" where
  "work_stale e sn t context w =
     (let s = sn_observation sn in
      wk_contract e \<noteq> wc_id w \<or> wk_contract_fingerprint e \<noteq> wc_fingerprint w \<or> wk_transition e \<noteq> tn_id t
      \<or> wk_program_fingerprint e \<noteq> ob_program_fingerprint s \<or> wk_context_fingerprint e \<noteq> context
      \<or> wk_state_revision e \<noteq> ob_state_revision s
      \<or> wk_repository e \<noteq> iv_repository_id (ob_invocation s) \<or> wk_worktree e \<noteq> iv_worktree_id (ob_invocation s))"

definition work_evidence_current :: "work_evidence \<Rightarrow> sd_snapshot \<Rightarrow> sd_transition \<Rightarrow> gerror option" where
  "work_evidence_current e sn t =
     (case work_evidence_validate e of Some err \<Rightarrow> Some err
      | None \<Rightarrow>
          (let stale = errorf [Lit ''foreground work evidence is stale or belongs to a different transition context''] in
           case foreground_work_context_fingerprint sn of
             Inl err \<Rightarrow> Some (wrapf [Lit ''foreground work context fingerprint: ''] err)
           | Inr context \<Rightarrow>
               (case tn_work t of None \<Rightarrow> Some stale
                | Some w \<Rightarrow>
                    if work_stale e sn t context w then Some stale
                    else (case match_inputs (map_by wi_id (wc_inputs w)) (wk_inputs e) of Some err \<Rightarrow> Some err
                      | None \<Rightarrow> match_outputs (map_by wo_id (wc_outputs w)) (wk_outputs e)))))"

definition seal_work_evidence :: "work_evidence \<Rightarrow> gerror + work_evidence" where
  "seal_work_evidence e =
     (let c = e\<lparr>wk_inputs := sort_key we_id (wk_inputs e), wk_outputs := sort_key wx_id (wk_outputs e)\<rparr> in
      case work_result_hash c of Inl err \<Rightarrow> Inl err
      | Inr h \<Rightarrow> (case work_evidence_validate (c\<lparr>wk_result_fingerprint := h\<rparr>) of
            Some err \<Rightarrow> Inl err | None \<Rightarrow> Inr (c\<lparr>wk_result_fingerprint := h\<rparr>)))"

section \<open>Control bundles of a transition\<close>

definition bundle_transitions :: "string list" where
  "bundle_transitions =
     [''runtime.hydrate'', ''runtime.replace'', ''runtime.reconcile'', ''installation.initialize'',
      ''installation.update'', ''installation.reconcile-update'', ''catalog.reconcile'']"

definition requires_control_bundle :: "sd_transition \<Rightarrow> bool" where
  "requires_control_bundle t = (tn_execution_context t = ''advance'' \<or> tn_id t \<in> set bundle_transitions)"

text \<open>The identity of the runtime the target bundle must pin.\<close>

definition target_identity :: "sd_transition \<Rightarrow> parameter list \<Rightarrow> bundle_contract \<Rightarrow> gerror + runtime_identity" where
  "target_identity t ps bundle =
     (if tn_id t = ''catalog.reconcile''
      then (case bc_source_pin bundle of
          None \<Rightarrow> Inl (errorf [Lit ''CONTROL_BUNDLE_TARGET_INVALID: catalog reconciliation has no trusted runtime pin''])
        | Some p \<Rightarrow> Inr (pin_identity p))
      else (case (parameters_get ps ''runtime_version'', parameters_get ps ''runtime_sha256'',
                  parameters_get ps ''source_revision'') of
          (Some v, Some h, Some r) \<Rightarrow> Inr \<lparr>rn_version = v, rn_sha256 = h, rn_source = r\<rparr>
        | _ \<Rightarrow> Inl (errorf [Lit ''CONTROL_BUNDLE_TARGET_INVALID: runtime mutation lacks exact candidate identity''])))"

definition project_control_bundle ::
    "sd_observation \<Rightarrow> sd_transition \<Rightarrow> parameter list \<Rightarrow> bundle_contract option
       \<Rightarrow> gerror + bundle_contract option" where
  "project_control_bundle s t ps bundle =
     (case bundle of None \<Rightarrow> Inr None
      | Some b \<Rightarrow>
          if \<not> requires_control_bundle t \<or> tn_execution_context t = ''advance'' then Inr bundle
          else (case target_identity t ps b of Inl e \<Rightarrow> Inl e
            | Inr i \<Rightarrow>
                (let pin = new_pin i (ob_program_fingerprint s) state_schema_version;
                     base = (case bc_target b of None \<Rightarrow> bc_source b | Some x \<Rightarrow> x) in
                 case encode_pin pin of Inl e \<Rightarrow> Inl (wrapf [Lit ''CONTROL_BUNDLE_TARGET_INVALID: ''] e)
                 | Inr raw \<Rightarrow>
                   (case replace_bundle_file base runtime_file raw of Inl e \<Rightarrow> Inl e
                    | Inr target \<Rightarrow>
                        (case new_bundle_contract (bc_source b) (Some target) (bc_target_revision b)
                                (bc_source_pin b) (Some pin) of
                           Inl e \<Rightarrow> Inl e | Inr c \<Rightarrow> Inr (Some c))))))"

definition bundle_for_transition :: "bundle_contract option \<Rightarrow> sd_transition \<Rightarrow> gerror option" where
  "bundle_for_transition bundle t =
     (case bundle of
        None \<Rightarrow> fails (requires_control_bundle t)
          [Lit ''CONTROL_BUNDLE_REQUIRED: transition '', Quoted (tn_id t), Lit '' requires an exact repository control bundle'']
      | Some b \<Rightarrow> (case bundle_contract_validate b of Some e \<Rightarrow> Some e
          | None \<Rightarrow> fails (requires_control_bundle t \<and> bc_target b = None)
              [Lit ''CONTROL_BUNDLE_REQUIRED: transition '', Quoted (tn_id t), Lit '' requires a target bundle'']))"

end
