(* ===== verification/Delivery_Admission.thy ===== *)
theory Delivery_Admission
  imports Delivery_Work
begin

text \<open>
  \<open>protocol/prescription.go\<close> and \<open>protocol/admission.go\<close>: the prescription that resolution emits, the
  admission built from it, and what makes either of them current.
\<close>

section \<open>Prescriptions\<close>

record sd_prescription =
  pr_schema_version :: int
  pr_id :: string
  pr_transition :: string
  pr_freshness :: freshness
  pr_required :: "string list"
  pr_effective :: "string list"
  pr_work_fingerprint :: string
  pr_bundle_fingerprint :: string
  pr_invocation_fingerprint :: string

definition sd_prescription_schema_version :: int where
  "sd_prescription_schema_version = 7"

definition objective_binding_fingerprint :: "sd_observation \<Rightarrow> gerror + string" where
  "objective_binding_fingerprint s = hash_json (JObj
     [(''status'', JStr (f_status (ob_objective s))), (''objective'', sd_objective_json (f_value (ob_objective s)))])"

definition sd_freshness_fields :: "freshness \<Rightarrow> (string \<times> json) list" where
  "sd_freshness_fields f =
     [(''expected_instance_id'', JStr (fr_instance f)), (''expected_state_revision'', JInt (uint (fr_revision f))),
      (''expected_program_fingerprint'', JStr (fr_program f)), (''expected_snapshot_fingerprint'', JStr (fr_snapshot f)),
      (''expected_objective_binding_fingerprint'', JStr (fr_binding f)),
      (''authority_fingerprint'', JStr (fr_authority f))]"

definition sd_prescription_json :: "sd_prescription \<Rightarrow> json" where
  "sd_prescription_json p =
     (let opt = (\<lambda>key v. omit_empty (v = []) key (JStr v)) in
      JObj ([(''schema_version'', JInt (pr_schema_version p)), (''id'', JStr (pr_id p)),
          (''transition_id'', JStr (pr_transition p))] @ sd_freshness_fields (pr_freshness p)
        @ [(''required_capabilities'', json_nil_strings (pr_required p)),
           (''effective_capabilities'', json_nil_strings (pr_effective p))]
        @ opt ''work_result_fingerprint'' (pr_work_fingerprint p)
        @ opt ''control_bundle_fingerprint'' (pr_bundle_fingerprint p)
        @ opt ''invocation_fingerprint'' (pr_invocation_fingerprint p)))"

definition sd_prescription_identity :: "sd_prescription \<Rightarrow> gerror + string" where
  "sd_prescription_identity p = content_id ''prx-'' (sd_prescription_json (p\<lparr>pr_id := []\<rparr>))"

definition prescription_fields_validate :: "sd_prescription \<Rightarrow> gerror option" where
  "prescription_fields_validate p =
     fails (pr_schema_version p \<noteq> sd_prescription_schema_version \<or> pr_transition p = []
       \<or> freshness_validate (pr_freshness p) \<noteq> None \<or> pr_required p = [] \<or> pr_effective p = []
       \<or> pr_bundle_fingerprint p \<noteq> [] \<and> length (pr_bundle_fingerprint p) \<noteq> 64
       \<or> pr_invocation_fingerprint p \<noteq> [] \<and> length (pr_invocation_fingerprint p) \<noteq> 64)
       [Lit ''prescription has invalid schema, transition, state revision, program, or snapshot identity'']"

definition sd_prescription_validate :: "sd_prescription \<Rightarrow> gerror option" where
  "sd_prescription_validate p =
     (case prescription_fields_validate p of Some e \<Rightarrow> Some e
      | None \<Rightarrow> (case sd_prescription_identity p of Inl e \<Rightarrow> Some e
          | Inr h \<Rightarrow> fails (pr_id p = [] \<or> h \<noteq> pr_id p) [Lit ''prescription failed content identity verification'']))"

text \<open>The freshness of a snapshot under an authority.\<close>

definition snapshot_freshness :: "sd_snapshot \<Rightarrow> string \<Rightarrow> gerror + freshness" where
  "snapshot_freshness sn authority =
     (let s = sn_observation sn in
      case objective_binding_fingerprint s of Inl e \<Rightarrow> Inl e
      | Inr b \<Rightarrow> new_freshness (iv_repository_id (ob_invocation s)) (ob_state_revision s)
          (ob_program_fingerprint s) (sn_fingerprint sn) b authority)"

definition seal_prescription :: "sd_prescription \<Rightarrow> gerror + sd_prescription" where
  "seal_prescription p =
     (case prescription_fields_validate p of Some e \<Rightarrow> Inl e
      | None \<Rightarrow> (case sd_prescription_identity p of Inl e \<Rightarrow> Inl e | Inr h \<Rightarrow> Inr (p\<lparr>pr_id := h\<rparr>)))"

definition new_sd_prescription ::
    "sd_snapshot \<Rightarrow> sd_transition \<Rightarrow> capability_projection \<Rightarrow> work_evidence option
       \<Rightarrow> bundle_contract option \<Rightarrow> string \<Rightarrow> gerror + sd_prescription" where
  "new_sd_prescription sn t caps work bundle invocation =
     (case snapshot_freshness sn (cj_authority_fingerprint caps) of Inl e \<Rightarrow> Inl e
      | Inr fresh \<Rightarrow>
          if invocation \<noteq> [] \<and> length invocation \<noteq> 64
          then Inl (errorf [Lit ''invocation fingerprint is invalid''])
          else (case bundle_for_transition bundle t of Some e \<Rightarrow> Inl e
            | None \<Rightarrow>
                (case (case work of None \<Rightarrow> None | Some w \<Rightarrow> work_evidence_current w sn t) of Some e \<Rightarrow> Inl e
                 | None \<Rightarrow> seal_prescription
                    \<lparr>pr_schema_version = sd_prescription_schema_version, pr_id = [], pr_transition = tn_id t,
                     pr_freshness = fresh, pr_required = cj_required caps, pr_effective = cj_effective caps,
                     pr_work_fingerprint = (case work of None \<Rightarrow> [] | Some w \<Rightarrow> wk_result_fingerprint w),
                     pr_bundle_fingerprint = (case bundle of None \<Rightarrow> [] | Some b \<Rightarrow> bc_fingerprint b),
                     pr_invocation_fingerprint = invocation\<rparr>)))"

definition prescription_invocation_error :: "sd_prescription \<Rightarrow> string \<Rightarrow> gerror option" where
  "prescription_invocation_error p fingerprint =
     fails (pr_invocation_fingerprint p \<noteq> fingerprint)
       [Lit ''INVOCATION_DRIFT: prescription is bound to a different transition invocation'']"

definition prescription_current ::
    "sd_prescription \<Rightarrow> sd_snapshot \<Rightarrow> sd_transition \<Rightarrow> capability_projection \<Rightarrow> gerror option" where
  "prescription_current p sn t caps =
     (case sd_prescription_validate p of Some e \<Rightarrow> Some e
      | None \<Rightarrow>
          if pr_transition p \<noteq> tn_id t
          then Some (errorf [Lit ''prescription '', Quoted (pr_id p), Lit '' is bound to transition '',
                             Quoted (pr_transition p), Lit '', not '', Quoted (tn_id t)])
          else (case snapshot_freshness sn (cj_authority_fingerprint caps) of Inl e \<Rightarrow> Some e
            | Inr current \<Rightarrow>
                (case freshness_check (pr_freshness p) current of
                   Some e \<Rightarrow> Some (wrapf [Lit ''prescription '', Quoted (pr_id p), Lit '' is stale: ''] e)
                 | None \<Rightarrow> fails (fr_authority (pr_freshness p) \<noteq> cj_authority_fingerprint caps
                       \<or> pr_required p \<noteq> cj_required caps \<or> pr_effective p \<noteq> cj_effective caps)
                     [Lit ''prescription '', Quoted (pr_id p),
                      Lit '' is bound to a different authority or capability context''])))"

definition prescription_work_error :: "sd_prescription \<Rightarrow> work_evidence option \<Rightarrow> gerror option" where
  "prescription_work_error p work =
     (if pr_work_fingerprint p = []
      then fails (work \<noteq> None) [Lit ''prescription is not bound to foreground work'']
      else (case work of
          Some w \<Rightarrow> fails (wk_result_fingerprint w \<noteq> pr_work_fingerprint p)
            [Lit ''prescription is bound to a different foreground work result'']
        | None \<Rightarrow> Some (errorf [Lit ''prescription is bound to a different foreground work result''])))"

definition prescription_bundle_error ::
    "sd_prescription \<Rightarrow> bundle_contract option \<Rightarrow> sd_transition \<Rightarrow> gerror option" where
  "prescription_bundle_error p bundle t =
     (case bundle_for_transition bundle t of Some e \<Rightarrow> Some e
      | None \<Rightarrow> fails (pr_bundle_fingerprint p \<noteq> (case bundle of None \<Rightarrow> [] | Some b \<Rightarrow> bc_fingerprint b))
          [Lit ''prescription is bound to a different repository control bundle''])"

section \<open>Admissions\<close>

record sd_admission =
  ad_schema_version :: int
  ad_id :: string
  ad_prescription :: string
  ad_transition_id :: string
  ad_transition_version :: int
  ad_expected_revision :: u64
  ad_expected_program :: string
  ad_prior_program :: string
  ad_program_delta :: string
  ad_expected_snapshot :: string
  ad_expected_binding :: string
  ad_source_revision :: string
  ad_worktree_fingerprint :: string
  ad_source_phase :: protocol_phase
  ad_invocation :: invocation
  ad_objective :: sd_objective
  ad_scope :: objective_scope
  ad_objective_status :: string
  ad_authority :: authority_bundle
  ad_authority_fingerprint :: string
  ad_required_capabilities :: "string list"
  ad_granted_capabilities :: "string list"
  ad_effective_capabilities :: "string list"
  ad_parameters :: "parameter list"
  ad_evidence :: "string list"
  ad_idempotency_key :: string
  ad_issued_at :: gtime
  ad_expires_at :: gtime
  ad_work :: "work_evidence option"
  ad_bundle :: "bundle_contract option"
  ad_bundle_revision :: string
  ad_invocation_fingerprint :: string

definition admission_schema_version :: int where
  "admission_schema_version = 9"

definition previous_admission_schema_version :: int where
  "previous_admission_schema_version = 8"

definition sd_authority_receipt_json :: "sd_receipt \<Rightarrow> json" where
  "sd_authority_receipt_json r =
     JObj ([(''id'', JStr (rp_id r)), (''class'', JStr (rp_class r)), (''subject'', JStr (rp_subject r)),
         (''fingerprint'', JStr (rp_fingerprint r))]
       @ omit_empty (rp_role r = []) ''identity_role'' (JStr (rp_role r))
       @ omit_empty (rp_provider r = []) ''identity_provider_fingerprint'' (JStr (rp_provider r))
       @ [(''issued_at'', time_json (rp_issued_at r)), (''expires_at'', time_json (rp_expires_at r))])"

definition parameter_json :: "parameter \<Rightarrow> json" where
  "parameter_json p = JObj [(''name'', JStr (pm_name p)), (''value'', JStr (pm_value p))]"

definition sd_admission_json :: "sd_admission \<Rightarrow> json" where
  "sd_admission_json a =
     (let opt = (\<lambda>key v. omit_empty (v = []) key (JStr v)) in
      JObj ([(''schema_version'', JInt (ad_schema_version a)), (''id'', JStr (ad_id a)),
          (''prescription_id'', JStr (ad_prescription a)), (''transition_id'', JStr (ad_transition_id a)),
          (''transition_version'', JInt (ad_transition_version a)),
          (''expected_state_revision'', JInt (uint (ad_expected_revision a))),
          (''expected_program_fingerprint'', JStr (ad_expected_program a))]
        @ opt ''prior_program_fingerprint'' (ad_prior_program a)
        @ opt ''program_delta_fingerprint'' (ad_program_delta a)
        @ [(''expected_snapshot_fingerprint'', JStr (ad_expected_snapshot a)),
           (''expected_objective_binding_fingerprint'', JStr (ad_expected_binding a))]
        @ opt ''source_revision'' (ad_source_revision a) @ opt ''worktree_fingerprint'' (ad_worktree_fingerprint a)
        @ [(''source_phase'', JStr (ad_source_phase a)), (''invocation'', invocation_json (ad_invocation a)),
           (''objective'', sd_objective_json (ad_objective a))]
        @ opt ''objective_scope'' (ad_scope a) @ opt ''objective_status'' (ad_objective_status a)
        @ [(''authority'', JObj [(''receipts'', nil_array sd_authority_receipt_json (ad_authority a))]),
           (''authority_fingerprint'', JStr (ad_authority_fingerprint a)),
           (''required_capabilities'', json_nil_strings (ad_required_capabilities a)),
           (''granted_capabilities'', json_strings (ad_granted_capabilities a)),
           (''effective_capabilities'', json_nil_strings (ad_effective_capabilities a))]
        @ omit_empty (ad_parameters a = []) ''parameters'' (JArr (map parameter_json (ad_parameters a)))
        @ [(''evidence'', json_nil_strings (ad_evidence a)), (''idempotency_key'', JStr (ad_idempotency_key a)),
           (''issued_at'', time_json (ad_issued_at a)), (''expires_at'', time_json (ad_expires_at a))]
        @ omit_none ''work'' work_evidence_json (ad_work a)
        @ omit_none ''control_bundle'' bundle_contract_json (ad_bundle a)
        @ opt ''control_bundle_revision'' (ad_bundle_revision a)
        @ opt ''invocation_fingerprint'' (ad_invocation_fingerprint a)))"

definition sd_admission_identity :: "sd_admission \<Rightarrow> gerror + string" where
  "sd_admission_identity a = content_id ''adm-'' (sd_admission_json (a\<lparr>ad_id := []\<rparr>))"

definition validate_admitted_capabilities :: "sd_admission \<Rightarrow> sd_transition \<Rightarrow> gerror option" where
  "validate_admitted_capabilities a t =
     (let missing = missing_capability (effect_required_capabilities t)
            (new_capability_set (ad_effective_capabilities a))
      in fails (missing \<noteq> [])
        [Lit ''EFFECT_CAPABILITY_DENIED '', Quoted missing, Lit '' for transition '', Quoted (tn_id t)])"

section \<open>Admitting\<close>

definition admission_work_error :: "work_evidence option \<Rightarrow> sd_snapshot \<Rightarrow> sd_transition \<Rightarrow> gerror option" where
  "admission_work_error work sn t =
     (if tn_work t \<noteq> None
      then (case work of
          None \<Rightarrow> Some (errorf [Lit ''transition '', Quoted (tn_id t), Lit '' requires foreground work evidence''])
        | Some w \<Rightarrow> work_evidence_current w sn t)
      else fails (work \<noteq> None)
        [Lit ''transition '', Quoted (tn_id t), Lit '' does not accept foreground work evidence''])"

definition prior_program :: "sd_observation \<Rightarrow> string" where
  "prior_program s =
     (if ob_recorded_fingerprint s \<noteq> [] \<and> ob_recorded_fingerprint s \<noteq> ob_program_fingerprint s
      then ob_recorded_fingerprint s else [])"

definition idempotency_json ::
    "sd_transition \<Rightarrow> sd_snapshot \<Rightarrow> sd_objective \<Rightarrow> parameter list \<Rightarrow> sd_prescription \<Rightarrow> json" where
  "idempotency_json t sn ob ps p =
     JObj ([(''transition'', JStr (tn_id t)), (''snapshot'', JStr (sn_fingerprint sn)),
         (''invocation'', invocation_json (ob_invocation (sn_observation sn))), (''objective'', sd_objective_json ob),
         (''parameters'', nil_array parameter_json (parameters_canonical ps))]
       @ omit_empty (pr_work_fingerprint p = []) ''work'' (JStr (pr_work_fingerprint p)))"

text \<open>The checks before the record is built, once the objective is determined.\<close>

definition admission_errors ::
    "sd_snapshot \<Rightarrow> sd_transition \<Rightarrow> sd_prescription \<Rightarrow> capability_projection \<Rightarrow> work_evidence option
       \<Rightarrow> bundle_contract option \<Rightarrow> int \<Rightarrow> gerror option list" where
  "admission_errors sn t p caps work bundle lifetime =
     [fails (lifetime \<le> 0) [Lit ''admission lifetime must be positive''],
      prescription_current p sn t caps,
      prescription_work_error p work,
      prescription_bundle_error p bundle t,
      admission_work_error work sn t]"

text \<open>The record, before its program delta, its idempotency key and its identity.\<close>

definition admission_draft ::
    "sd_snapshot \<Rightarrow> sd_objective \<Rightarrow> sd_transition \<Rightarrow> sd_prescription \<Rightarrow> authority_bundle \<Rightarrow> parameter list
       \<Rightarrow> capability_projection \<Rightarrow> work_evidence option \<Rightarrow> bundle_contract option \<Rightarrow> string \<Rightarrow> gtime \<Rightarrow> int
       \<Rightarrow> sd_admission" where
  "admission_draft sn ob t p authority ps caps work bundle bundle_revision now lifetime =
     (let s = sn_observation sn; (revision, worktree) = git_binding s in
      \<lparr>ad_schema_version = admission_schema_version, ad_id = [], ad_prescription = pr_id p,
       ad_transition_id = tn_id t, ad_transition_version = tn_version t,
       ad_expected_revision = fr_revision (pr_freshness p), ad_expected_program = fr_program (pr_freshness p),
       ad_prior_program = [], ad_program_delta = [], ad_expected_snapshot = fr_snapshot (pr_freshness p),
       ad_expected_binding = fr_binding (pr_freshness p), ad_source_revision = revision,
       ad_worktree_fingerprint = worktree, ad_source_phase = f_value (ob_phase s),
       ad_invocation = ob_invocation s, ad_objective = ob, ad_scope = tn_scope t,
       ad_objective_status = (if tn_scope t = Objective_optional_preserve then f_status (ob_objective s) else []),
       ad_authority = bundle_canonical authority, ad_authority_fingerprint = cj_authority_fingerprint caps,
       ad_required_capabilities = cj_required caps, ad_granted_capabilities = cj_granted caps,
       ad_effective_capabilities = cj_effective caps, ad_parameters = parameters_canonical ps,
       ad_evidence = tn_required_evidence t, ad_idempotency_key = [], ad_issued_at = time_utc now,
       ad_expires_at = time_utc (time_add now lifetime), ad_work = work, ad_bundle = bundle,
       ad_bundle_revision = bundle_revision, ad_invocation_fingerprint = pr_invocation_fingerprint p\<rparr>)"

definition bundle_revision_error :: "sd_admission \<Rightarrow> gerror option" where
  "bundle_revision_error a =
     fails (ad_bundle_revision a \<noteq> [] \<and> (ad_bundle a = None \<or> ad_bundle_revision a \<noteq> ad_source_revision a))
       [Lit ''CONTROL_BUNDLE_REVISION_DRIFT: exact bundle revision does not match the observed source revision'']"

definition with_program_delta :: "sd_admission \<Rightarrow> string \<Rightarrow> gerror + sd_admission" where
  "with_program_delta a prior =
     (if prior = [] then Inr a
      else (case program_delta_fingerprint prior (ad_expected_program a) of Inl e \<Rightarrow> Inl e
        | Inr d \<Rightarrow> Inr (a\<lparr>ad_prior_program := prior, ad_program_delta := d\<rparr>)))"

definition seal_admission :: "sd_admission \<Rightarrow> json \<Rightarrow> gerror + sd_admission" where
  "seal_admission a key_json =
     (case content_id ''idem-'' key_json of Inl e \<Rightarrow> Inl e
      | Inr key \<Rightarrow> (case sd_admission_identity (a\<lparr>ad_idempotency_key := key\<rparr>) of Inl e \<Rightarrow> Inl e
          | Inr h \<Rightarrow> Inr (a\<lparr>ad_idempotency_key := key, ad_id := h\<rparr>)))"

definition new_admission ::
    "sd_snapshot \<Rightarrow> sd_objective \<Rightarrow> sd_transition \<Rightarrow> sd_prescription \<Rightarrow> authority_bundle \<Rightarrow> parameter list
       \<Rightarrow> work_evidence option \<Rightarrow> bundle_contract option \<Rightarrow> string \<Rightarrow> gtime \<Rightarrow> int \<Rightarrow> gerror + sd_admission" where
  "new_admission sn requested t p authority ps work bundle bundle_revision now lifetime =
     (let s = sn_observation sn in
      case objective_for_transition s requested t of Inl e \<Rightarrow> Inl e
      | Inr ob \<Rightarrow>
        (case validate_applicability sn ob t authority ps now of Some e \<Rightarrow> Inl e
         | None \<Rightarrow>
           (case project_capabilities s t authority now of Inl e \<Rightarrow> Inl e
            | Inr caps \<Rightarrow>
              (case first_failure (admission_errors sn t p caps work bundle lifetime) of Some e \<Rightarrow> Inl e
               | None \<Rightarrow>
                 (let a = admission_draft sn ob t p authority ps caps work bundle bundle_revision now lifetime in
                  case bundle_revision_error a of Some e \<Rightarrow> Inl e
                  | None \<Rightarrow> (case with_program_delta a (prior_program s) of Inl e \<Rightarrow> Inl e
                      | Inr a' \<Rightarrow> seal_admission a' (idempotency_json t sn ob ps p)))))))"

section \<open>The identity of an admission\<close>

definition objective_status_error :: "sd_admission \<Rightarrow> gerror option" where
  "objective_status_error a =
     (if ad_scope a \<noteq> Objective_optional_preserve then sd_objective_validate (ad_objective a)
      else if ad_objective_status a = Fact_known then sd_objective_validate (ad_objective a)
      else if ad_objective_status a = Fact_absent
      then fails (sd_objective_validate (ad_objective a) = None)
        [Lit ''maintenance admission cannot bind product intent to verified absence'']
      else Some (errorf [Lit ''maintenance admission requires known or verified-absent product objective status'']))"

definition admission_bundle_error :: "bool \<Rightarrow> sd_admission \<Rightarrow> gerror option" where
  "admission_bundle_error historical a =
     (case ad_bundle a of
        Some b \<Rightarrow>
          (case (if historical then bundle_contract_validate_history b else bundle_contract_validate b) of
             Some e \<Rightarrow> Some e
           | None \<Rightarrow> fails (ad_bundle_revision a \<noteq> []
               \<and> (ad_bundle_revision a \<noteq> ad_source_revision a
                  \<or> length (ad_bundle_revision a) \<noteq> 40 \<and> length (ad_bundle_revision a) \<noteq> 64
                  \<or> \<not> list_all lower_hex (ad_bundle_revision a)))
               [Lit ''admission has invalid control-bundle revision identity''])
      | None \<Rightarrow> fails (ad_bundle_revision a \<noteq> [])
          [Lit ''admission control-bundle revision has no admitted bundle''])"

definition admission_delta_errors :: "sd_admission \<Rightarrow> gerror option list" where
  "admission_delta_errors a =
     [fails ((ad_prior_program a = []) \<noteq> (ad_program_delta a = []))
        [Lit ''admission has incomplete program delta identity''],
      fails (ad_prior_program a \<noteq> []
        \<and> program_delta_fingerprint (ad_prior_program a) (ad_expected_program a) \<noteq> Inr (ad_program_delta a))
        [Lit ''admission has invalid program delta identity''],
      fails (ad_transition_id a = ''installation.reconcile-update''
        \<and> (ad_prior_program a = [] \<or> parameter_text (ad_parameters a) ''accept_obligation_change'' \<noteq> ''true''))
        [Lit ''reconciled installation admission lacks exact program acceptance'']]"

text \<open>
  The three lists of capabilities are checked in the order of a map: which error is reported
  first is not determined, that there is one is.
\<close>

definition admission_capability_errors :: "sd_admission \<Rightarrow> gerror option list" where
  "admission_capability_errors a =
     (let norm = (\<lambda>field values. case normalize_effect_capabilities (''admission.'' @ field) values of
            Inl e \<Rightarrow> Some e | Inr _ \<Rightarrow> None);
          missing = missing_capability (ad_effective_capabilities a) (new_capability_set (ad_granted_capabilities a))
      in [norm ''required_capabilities'' (ad_required_capabilities a),
          norm ''granted_capabilities'' (ad_granted_capabilities a),
          norm ''effective_capabilities'' (ad_effective_capabilities a),
          fails (ad_required_capabilities a \<noteq> ad_effective_capabilities a)
            [Lit ''admission effective capabilities do not equal exact requirements''],
          fails (missing \<noteq> [])
            [Lit ''admission effective capability '', Quoted missing, Lit '' was not granted'']])"

definition admission_fields_bad :: "int \<Rightarrow> sd_admission \<Rightarrow> bool" where
  "admission_fields_bad schema a \<longleftrightarrow>
     ad_schema_version a \<noteq> schema \<or> ad_id a = [] \<or> ad_prescription a = [] \<or> ad_transition_id a = []
     \<or> ad_transition_version a < 1 \<or> ad_expected_revision a = 0 \<or> length (ad_expected_program a) \<noteq> 64
     \<or> length (ad_expected_snapshot a) \<noteq> 64 \<or> length (ad_expected_binding a) \<noteq> 64
     \<or> ad_authority_fingerprint a = [] \<or> ad_required_capabilities a = [] \<or> ad_effective_capabilities a = []
     \<or> \<not> phase_valid (ad_source_phase a) \<or> ad_idempotency_key a = [] \<or> time_is_zero (ad_issued_at a)
     \<or> time_before (ad_expires_at a) (ad_issued_at a)
     \<or> ad_invocation_fingerprint a \<noteq> [] \<and> length (ad_invocation_fingerprint a) \<noteq> 64"

definition admission_identity_errors :: "int \<Rightarrow> sd_admission \<Rightarrow> gerror option list" where
  "admission_identity_errors schema a =
     [fails (admission_fields_bad schema a) [Lit ''admission: invalid schema, identity, source, or lifetime''],
      admission_bundle_error (schema = previous_admission_schema_version) a,
      fails (bundle_fingerprint (ad_authority a) \<noteq> Inr (ad_authority_fingerprint a))
        [Lit ''admission has invalid authority identity'']]
     @ admission_capability_errors a @ admission_delta_errors a
     @ [invocation_validate (ad_invocation a) True,
        (case ad_work a of None \<Rightarrow> None | Some w \<Rightarrow> work_evidence_validate w),
        fails (\<not> scope_valid (ad_scope a))
          [Lit ''admission has invalid objective scope '', Quoted (ad_scope a)],
        objective_status_error a,
        (case sd_admission_identity a of Inl e \<Rightarrow> Some e
         | Inr h \<Rightarrow> fails (h \<noteq> ad_id a)
             [Lit ''admission '', Quoted (ad_id a), Lit '' failed content identity verification''])]"

definition validate_identity_of :: "int \<Rightarrow> sd_admission \<Rightarrow> gerror option" where
  "validate_identity_of schema a = first_failure (admission_identity_errors schema a)"

definition admission_validate_identity :: "sd_admission \<Rightarrow> gerror option" where
  "admission_validate_identity a = validate_identity_of admission_schema_version a"

definition admission_validate_history :: "sd_admission \<Rightarrow> gerror option" where
  "admission_validate_history a =
     (if ad_schema_version a = admission_schema_version then admission_validate_identity a
      else if ad_schema_version a = previous_admission_schema_version
      then if ad_invocation_fingerprint a \<noteq> [] \<or> ad_bundle_revision a \<noteq> []
           then Some (errorf [Lit ''legacy admission invents a current-schema invocation or control-bundle revision identity''])
           else validate_identity_of previous_admission_schema_version a
      else Some (errorf [Lit ''admission: unsupported committed-history schema '', Number (ad_schema_version a)]))"

section \<open>A current admission\<close>

definition same_projection :: "sd_admission \<Rightarrow> capability_projection \<Rightarrow> bool" where
  "same_projection a caps \<longleftrightarrow> ad_authority_fingerprint a = cj_authority_fingerprint caps
     \<and> ad_required_capabilities a = cj_required caps \<and> ad_granted_capabilities a = cj_granted caps
     \<and> ad_effective_capabilities a = cj_effective caps"

definition admission_binding_error :: "sd_admission \<Rightarrow> sd_observation \<Rightarrow> gerror option" where
  "admission_binding_error a s =
     (case objective_binding_fingerprint s of Inl e \<Rightarrow> Some e
      | Inr b \<Rightarrow> fails (ad_expected_binding a \<noteq> b)
          [Lit ''admission '', Quoted (ad_id a), Lit '' is stale: objective binding changed''])"

definition admission_work_current :: "sd_admission \<Rightarrow> sd_snapshot \<Rightarrow> sd_transition \<Rightarrow> gerror option" where
  "admission_work_current a sn t =
     (if tn_work t \<noteq> None
      then (case ad_work a of
          None \<Rightarrow> Some (errorf [Lit ''admission '', Quoted (ad_id a), Lit '' is missing foreground work evidence''])
        | Some w \<Rightarrow> map_option (wrapf [Lit ''admission '', Quoted (ad_id a), Lit '' foreground work changed: ''])
            (work_evidence_current w sn t))
      else fails (ad_work a \<noteq> None)
        [Lit ''admission '', Quoted (ad_id a), Lit '' carries unexpected foreground work evidence''])"

definition admission_projection_error :: "sd_admission \<Rightarrow> sd_observation \<Rightarrow> sd_transition \<Rightarrow> gtime \<Rightarrow> gerror option" where
  "admission_projection_error a s t now =
     (case project_capabilities s t (ad_authority a) now of Inl e \<Rightarrow> Some e
      | Inr caps \<Rightarrow> fails (\<not> same_projection a caps)
          [Lit ''admission '', Quoted (ad_id a), Lit '' authority or capability binding changed''])"

definition admission_current_errors ::
    "sd_admission \<Rightarrow> sd_snapshot \<Rightarrow> sd_objective \<Rightarrow> sd_transition \<Rightarrow> gtime \<Rightarrow> gerror option list" where
  "admission_current_errors a sn ob t now =
     (let s = sn_observation sn; prior = prior_program s; (revision, worktree) = git_binding s;
          stale = (\<lambda>b text. fails b [Lit ''admission '', Quoted (ad_id a), Lit text]);
          available = bundle_set (ad_authority a) now in
      [admission_validate_identity a,
       stale (\<not> time_before now (ad_expires_at a)) '' expired'',
       stale (ad_transition_id a \<noteq> tn_id t \<or> ad_transition_version a \<noteq> tn_version t) '' is bound to a different transition'',
       stale (ad_scope a \<noteq> tn_scope t) '' is bound to a different objective scope'',
       stale (ad_expected_revision a \<noteq> ob_state_revision s) '' is stale: state revision changed'',
       stale (ad_expected_snapshot a \<noteq> sn_fingerprint sn) '' is stale: snapshot changed'',
       admission_binding_error a s,
       stale (ad_expected_program a \<noteq> ob_program_fingerprint s) '' is bound to a different control program'',
       admission_work_current a sn t,
       stale (ad_prior_program a \<noteq> prior) '' is bound to a different prior control program'',
       stale (ad_prior_program a \<noteq> []
         \<and> program_delta_fingerprint (ad_prior_program a) (ad_expected_program a) \<noteq> Inr (ad_program_delta a))
         '' has an invalid program delta binding'',
       stale (\<not> is_known (ob_phase s) \<or> ad_source_phase a \<noteq> f_value (ob_phase s)) '' is bound to a different source phase'',
       stale (ad_invocation a \<noteq> ob_invocation s) '' is bound to a different invocation'',
       stale (ad_objective a \<noteq> ob) '' is bound to a different objective'',
       stale (ad_scope a = Objective_optional_preserve
         \<and> (ad_objective_status a \<noteq> f_status (ob_objective s)
            \<or> ad_objective_status a = Fact_known \<and> ad_objective a \<noteq> f_value (ob_objective s)))
         '' is stale: product objective changed'',
       bundle_validate (ad_authority a) now,
       admission_projection_error a s t now,
       authority_evidence_error s (ad_authority a),
       stale (\<not> authority_satisfies available (tn_authority t) (tn_authority_all t)) '' no longer has required authority'',
       policy_authority_error s t available,
       recovery_permission_error s t,
       stale (ad_source_revision a \<noteq> revision \<or> ad_worktree_fingerprint a \<noteq> worktree) '' Git binding changed'',
       stale (tn_binds_source_revision t
         \<and> (parameter_text (ad_parameters a) ''source_revision'' \<noteq> revision \<or> revision = [] \<or> worktree = []))
         '' is not bound to the current Git revision'',
       parameters_validate (ad_parameters a) t,
       provider_binding_error (ad_authority a) t (ad_parameters a)])"

definition admission_current ::
    "sd_admission \<Rightarrow> sd_snapshot \<Rightarrow> sd_objective \<Rightarrow> sd_transition \<Rightarrow> gtime \<Rightarrow> gerror option" where
  "admission_current a sn ob t now = first_failure (admission_current_errors a sn ob t now)"

end
