(* ===== verification/Delivery_Reducer.thy ===== *)
theory Delivery_Reducer
  imports Delivery_Admission
begin

text \<open>
  \<open>boatstack/internal/softwaredelivery/effects/state_reducer.go\<close> and the checks of
  \<open>state_facet.go\<close>: how an admitted transition changes the durable state, by its declared
  assignments or by a native handler, and the check that the change stays inside the domains
  the transition owns.

  The reducer writes into a state its caller owns; both callers drop that state when it returns
  an error, so an error carries no state here.
\<close>

section \<open>Reading and assigning a facet\<close>

definition state_facet_value :: "durable_state \<Rightarrow> string \<Rightarrow> gerror + string" where
  "state_facet_value s facet =
     (if facet = ''program_fingerprint'' then Inr (ds_program_fingerprint s)
      else if facet = ''phase'' then Inr (ds_phase s)
      else if facet = ''engagement'' then Inr (ds_engagement s)
      else if facet = ''delivery'' then Inr (ds_delivery s)
      else if facet = ''workspace'' then Inr (ds_workspace s)
      else if facet = ''plan'' then Inr (ds_plan s)
      else if facet = ''configuration'' then Inr (ds_configuration s)
      else if facet = ''runtime'' then Inr (ds_runtime s)
      else if facet = ''publication'' then Inr (ds_publication s)
      else if facet = ''verification'' then Inr (ds_verification s)
      else if facet = ''recovery'' then Inr (ds_recovery s)
      else if facet = ''transaction'' then Inr (ds_transaction s)
      else if facet = ''terminal'' then Inr (ds_terminal s)
      else if facet = ''source_revision'' then Inr (ds_source_revision s)
      else if facet = ''worktree_fingerprint'' then Inr (ds_worktree_fingerprint s)
      else if facet = ''config_fingerprint'' then Inr (ds_config_fingerprint s)
      else if facet = ''runtime_version'' then Inr (ds_runtime_version s)
      else if facet = ''runtime_fingerprint'' then Inr (ds_runtime_fingerprint s)
      else if facet = ''runtime_source'' then Inr (ds_runtime_source s)
      else if facet = ''workspace_branch'' then Inr (ds_workspace_branch s)
      else if facet = ''workspace_path'' then Inr (ds_workspace_path s)
      else if facet = ''workspace_base_ref'' then Inr (ds_workspace_base_ref s)
      else if facet = ''workspace_source_path'' then Inr (ds_workspace_source_path s)
      else if facet = ''workspace_source_id'' then Inr (ds_workspace_source_id s)
      else if facet = ''workspace_source_ref'' then Inr (ds_workspace_source_ref s)
      else if facet = ''transaction_id'' then Inr (ds_transaction_id s)
      else if facet = ''transaction_transition'' then Inr (ds_transaction_transition s)
      else if facet = ''recovery_cause'' then Inr (ds_recovery_cause s)
      else if facet = ''recovery_source_phase'' then Inr (ds_recovery_source_phase s)
      else if facet = ''recovery_resumption'' then Inr (ds_recovery_resumption s)
      else if facet = ''recovery_budget'' then Inr (decimal_int (ds_recovery_budget s))
      else Inl (errorf [Lit ''durable state facet '', Quoted facet, Lit '' is unknown'']))"

definition assign_state_facet :: "durable_state \<Rightarrow> string \<Rightarrow> string \<Rightarrow> gerror + durable_state" where
  "assign_state_facet s facet v =
     (if facet = ''program_fingerprint'' then Inr (s\<lparr>ds_program_fingerprint := v\<rparr>)
      else if facet = ''phase'' then Inr (s\<lparr>ds_phase := v\<rparr>)
      else if facet = ''engagement'' then Inr (s\<lparr>ds_engagement := v\<rparr>)
      else if facet = ''delivery'' then Inr (s\<lparr>ds_delivery := v\<rparr>)
      else if facet = ''workspace'' then Inr (s\<lparr>ds_workspace := v\<rparr>)
      else if facet = ''plan'' then Inr (s\<lparr>ds_plan := v\<rparr>)
      else if facet = ''configuration'' then Inr (s\<lparr>ds_configuration := v\<rparr>)
      else if facet = ''runtime'' then Inr (s\<lparr>ds_runtime := v\<rparr>)
      else if facet = ''publication'' then Inr (s\<lparr>ds_publication := v\<rparr>)
      else if facet = ''verification'' then Inr (s\<lparr>ds_verification := v\<rparr>)
      else if facet = ''recovery'' then Inr (s\<lparr>ds_recovery := v\<rparr>)
      else if facet = ''transaction'' then Inr (s\<lparr>ds_transaction := v\<rparr>)
      else if facet = ''terminal'' then Inr (s\<lparr>ds_terminal := v\<rparr>)
      else if facet = ''source_revision'' then Inr (s\<lparr>ds_source_revision := v\<rparr>)
      else if facet = ''worktree_fingerprint'' then Inr (s\<lparr>ds_worktree_fingerprint := v\<rparr>)
      else if facet = ''config_fingerprint'' then Inr (s\<lparr>ds_config_fingerprint := v\<rparr>)
      else if facet = ''runtime_version'' then Inr (s\<lparr>ds_runtime_version := v\<rparr>)
      else if facet = ''runtime_fingerprint'' then Inr (s\<lparr>ds_runtime_fingerprint := v\<rparr>)
      else if facet = ''runtime_source'' then Inr (s\<lparr>ds_runtime_source := v\<rparr>)
      else if facet = ''workspace_branch'' then Inr (s\<lparr>ds_workspace_branch := v\<rparr>)
      else if facet = ''workspace_path'' then Inr (s\<lparr>ds_workspace_path := v\<rparr>)
      else if facet = ''workspace_base_ref'' then Inr (s\<lparr>ds_workspace_base_ref := v\<rparr>)
      else if facet = ''workspace_source_path'' then Inr (s\<lparr>ds_workspace_source_path := v\<rparr>)
      else if facet = ''workspace_source_id'' then Inr (s\<lparr>ds_workspace_source_id := v\<rparr>)
      else if facet = ''workspace_source_ref'' then Inr (s\<lparr>ds_workspace_source_ref := v\<rparr>)
      else if facet = ''transaction_id'' then Inr (s\<lparr>ds_transaction_id := v\<rparr>)
      else if facet = ''transaction_transition'' then Inr (s\<lparr>ds_transaction_transition := v\<rparr>)
      else if facet = ''recovery_cause'' then Inr (s\<lparr>ds_recovery_cause := v\<rparr>)
      else if facet = ''recovery_source_phase'' then Inr (s\<lparr>ds_recovery_source_phase := v\<rparr>)
      else if facet = ''recovery_resumption'' then Inr (s\<lparr>ds_recovery_resumption := v\<rparr>)
      else if facet = ''recovery_budget''
      then (if v \<noteq> ''0''
            then Inl (errorf [Lit ''recovery_budget currently accepts only the fail-closed zero literal''])
            else Inr (s\<lparr>ds_recovery_budget := 0\<rparr>))
      else Inl (errorf [Lit ''durable state facet '', Quoted facet, Lit '' is unknown'']))"

definition invocation_value :: "sd_admission \<Rightarrow> string \<Rightarrow> gerror + string" where
  "invocation_value a source =
     (if source = ''invoking_path'' then Inr (iv_invoking_path (ad_invocation a))
      else if source = ''worktree_id'' then Inr (iv_worktree_id (ad_invocation a))
      else if source = ''ref'' then Inr (iv_ref (ad_invocation a))
      else if source = [] then Inl (errorf [Lit ''value source is absent''])
      else Inl (errorf [Lit ''invocation value '', Quoted source, Lit '' is unknown'']))"

definition assignment_value :: "sd_admission \<Rightarrow> state_assignment \<Rightarrow> gerror + string" where
  "assignment_value a asg =
     (let from = as_from asg in
      case as_value asg of Some v \<Rightarrow> Inr v
      | None \<Rightarrow>
          if vr_parameter from \<noteq> []
          then (case parameters_get (ad_parameters a) (vr_parameter from) of
              None \<Rightarrow> Inl (errorf [Lit ''parameter '', Quoted (vr_parameter from), Lit '' is absent''])
            | Some v \<Rightarrow> Inr v)
          else if vr_admission from = ''source_revision'' then Inr (ad_source_revision a)
          else if vr_admission from = ''worktree_fingerprint'' then Inr (ad_worktree_fingerprint a)
          else if vr_admission from = ''expected_program_fingerprint'' then Inr (ad_expected_program a)
          else if vr_admission from \<noteq> []
          then Inl (errorf [Lit ''admission value '', Quoted (vr_admission from), Lit '' is unknown''])
          else invocation_value a (vr_invocation from))"

section \<open>Helpers of the native handlers\<close>

definition clear_recovery_context :: "durable_state \<Rightarrow> durable_state" where
  "clear_recovery_context s =
     s\<lparr>ds_transaction_id := [], ds_transaction_transition := [], ds_recovery_cause := [],
       ds_recovery_source_phase := [], ds_recovery_resumption := [], ds_recovery_budget := 0\<rparr>"

definition engaged_phase :: "durable_state \<Rightarrow> protocol_phase" where
  "engaged_phase s = (if ds_engagement s = Engagement_active then Phase_active else Phase_observed)"

definition terminal_phase :: "durable_state \<Rightarrow> protocol_phase" where
  "terminal_phase s =
     (if ds_terminal s = Terminal_established \<and> ds_delivery s = Delivery_discarded then Phase_abandoned
      else if ds_terminal s = Terminal_established then Phase_terminal else Phase_observed)"

definition settled_phase :: "durable_state \<Rightarrow> protocol_phase" where
  "settled_phase s =
     (if ds_terminal s = Terminal_established then terminal_phase s else engaged_phase s)"

definition establish_terminal :: "durable_state \<Rightarrow> protocol_phase \<Rightarrow> durable_state" where
  "establish_terminal s phase =
     (let t = s\<lparr>ds_terminal := Terminal_established, ds_phase := phase\<rparr>
      in if phase = Phase_terminal then t\<lparr>ds_delivery := Delivery_terminal\<rparr> else t)"

fun upsert :: "gate_evidence list \<Rightarrow> gate_evidence \<Rightarrow> gate_evidence list" where
  "upsert [] e = [e]"
| "upsert (g # gs) e = (if ge_gate g = ge_gate e then e # gs else g # upsert gs e)"

definition upsert_gate :: "durable_state \<Rightarrow> gate_evidence \<Rightarrow> durable_state" where
  "upsert_gate s e = s\<lparr>ds_gates := upsert (ds_gates s) e\<rparr>"

definition verified_objective_satisfied :: "durable_state \<Rightarrow> sd_objective \<Rightarrow> bool" where
  "verified_objective_satisfied s ob =
     (if trusted_objective_class ob \<noteq> Objective_verified \<or> \<not> has_current_gates s [''build'', ''test'', ''review'']
      then False else required_gate_evidence_current s)"

definition reset_delivery_state :: "durable_state \<Rightarrow> durable_state" where
  "reset_delivery_state s =
     s\<lparr>ds_delivery := Delivery_uninitialized, ds_work_package := Work_package_absent,
       ds_plan := Plan_absent, ds_workspace := Workspace_absent, ds_publication := Publication_none,
       ds_verification := Verification_unverified, ds_plan_fingerprint := [],
       ds_work_package_fingerprint := [], ds_work_package_approval_fingerprint := [],
       ds_approval_fingerprint := [], ds_publication_id := [], ds_publication_url := [],
       ds_preview_fingerprint := [], ds_workspace_branch := [], ds_workspace_path := [],
       ds_workspace_base_ref := [], ds_workspace_source_path := [], ds_workspace_source_id := [],
       ds_workspace_source_ref := [], ds_gates := []\<rparr>"

section \<open>Native handlers\<close>

type_synonym native_handler = "durable_state \<Rightarrow> sd_admission \<Rightarrow> gerror + durable_state"

definition with_runtime :: "durable_state \<Rightarrow> sd_admission \<Rightarrow> durable_state" where
  "with_runtime s a =
     s\<lparr>ds_runtime := Runtime_verified,
       ds_runtime_version := parameter_text (ad_parameters a) ''runtime_version'',
       ds_runtime_fingerprint := parameter_text (ad_parameters a) ''runtime_sha256'',
       ds_runtime_source := parameter_text (ad_parameters a) ''source_revision''\<rparr>"

definition settle :: "durable_state \<Rightarrow> durable_state" where
  "settle s = s\<lparr>ds_phase := settled_phase s\<rparr>"

definition without_recovery :: "durable_state \<Rightarrow> durable_state" where
  "without_recovery s =
     clear_recovery_context (s\<lparr>ds_recovery := Recovery_none, ds_transaction := Transaction_none\<rparr>)"

definition apply_runtime_verified_settled :: native_handler where
  "apply_runtime_verified_settled s a = Inr (settle (with_runtime s a))"

definition apply_runtime_reconcile :: native_handler where
  "apply_runtime_reconcile s a =
     (case apply_runtime_verified_settled s a of Inl e \<Rightarrow> Inl e
      | Inr s1 \<Rightarrow> Inr (settle (without_recovery s1)))"

definition apply_configuration_verified_settled :: native_handler where
  "apply_configuration_verified_settled s a =
     Inr (settle (s\<lparr>ds_configuration := Configuration_verified,
       ds_config_fingerprint := parameter_text (ad_parameters a) ''config_sha256''\<rparr>))"

definition apply_configuration_reconcile :: native_handler where
  "apply_configuration_reconcile s a =
     Inr (settle (without_recovery (s\<lparr>ds_configuration := Configuration_verified\<rparr>)))"

definition apply_installation_initialize :: native_handler where
  "apply_installation_initialize s a =
     Inr ((with_runtime s a)\<lparr>ds_configuration := Configuration_verified,
       ds_config_fingerprint := parameter_text (ad_parameters a) ''config_sha256'',
       ds_phase := Phase_observed\<rparr>)"

definition apply_installation_reconcile_update :: native_handler where
  "apply_installation_reconcile_update s a =
     (if parameter_text (ad_parameters a) ''accept_obligation_change'' \<noteq> ''true'' \<or> ad_prior_program a = []
         \<or> ad_program_delta a = [] \<or> ds_program_fingerprint s \<noteq> ad_prior_program a
      then Inl (errorf [Lit ''reconciled installation update must bind and explicitly accept the exact prior-to-candidate program delta''])
      else Inr (with_runtime (s\<lparr>ds_program_fingerprint := ad_expected_program a\<rparr>) a))"

definition apply_catalog_reconcile :: native_handler where
  "apply_catalog_reconcile s a =
     (let prior = parameter_text (ad_parameters a) ''prior_program_fingerprint'' in
      if prior = [] \<or> prior \<noteq> ds_program_fingerprint s
         \<or> parameter_text (ad_parameters a) ''accept_obligation_change'' \<noteq> ''true''
      then Inl (errorf [Lit ''catalog reconciliation must bind the prior program and explicitly accept obligation changes''])
      else Inr (s\<lparr>ds_program_fingerprint := ad_expected_program a\<rparr>))"

text \<open>The tail of \<open>applyObjectiveBind\<close>: the new objective, and the phase it starts in.\<close>

definition bind_delivery :: "durable_state \<Rightarrow> sd_objective \<Rightarrow> bool \<Rightarrow> durable_state" where
  "bind_delivery s ob was_active =
     (let t = s\<lparr>ds_objective := ob, ds_terminal := Terminal_nonterminal, ds_phase := Phase_observed\<rparr>
      in if ds_recovery t = Recovery_escalated then t\<lparr>ds_phase := Phase_frontier\<rparr>
         else if was_active then t\<lparr>ds_phase := Phase_active\<rparr> else t)"

definition apply_objective_bind :: native_handler where
  "apply_objective_bind s a =
     (let was_active = (ds_phase s = Phase_active); ob = ad_objective a in
      if parameter_text (ad_parameters a) ''target_id'' \<noteq> so_target ob
         \<or> parameter_text (ad_parameters a) ''delivery_id'' \<noteq> so_delivery ob
      then Inl (errorf [Lit ''objective parameters do not match admitted objective''])
      else if so_delivery (ds_objective s) \<noteq> [] \<and> so_delivery (ds_objective s) \<noteq> so_delivery ob
      then (if ds_terminal s \<noteq> Terminal_established
            then Inl (errorf [Lit ''a different delivery requires the prior delivery to be terminal''])
            else Inr (bind_delivery (reset_delivery_state s) ob False))
      else Inr (bind_delivery s ob was_active))"

definition approve_plan :: native_handler where
  "approve_plan s a =
     (let t = s\<lparr>ds_plan := Plan_approved, ds_delivery := Delivery_approved, ds_phase := Phase_active\<rparr> in
      Inr (if trusted_objective_class (ad_objective a) = Objective_approved_plan
           then establish_terminal t Phase_terminal else t))"

definition apply_work_package_admit :: native_handler where
  "apply_work_package_admit s a =
     Inr (s\<lparr>ds_work_package := Work_package_valid, ds_delivery := Delivery_planning,
       ds_phase := Phase_active, ds_terminal := Terminal_nonterminal\<rparr>)"

definition apply_work_package_approve :: native_handler where
  "apply_work_package_approve s a =
     (let t = s\<lparr>ds_work_package := Work_package_approved, ds_delivery := Delivery_approved,
            ds_phase := Phase_active\<rparr> in
      Inr (if trusted_objective_class (ad_objective a) = Objective_approved_work_package
           then establish_terminal t Phase_terminal else t))"

definition apply_abandon_delivery :: native_handler where
  "apply_abandon_delivery s a =
     (let t = s\<lparr>ds_delivery := Delivery_discarded\<rparr>;
          u = (if ds_workspace t \<noteq> Workspace_absent then t\<lparr>ds_workspace := Workspace_abandoned\<rparr> else t)
      in Inr (establish_terminal (without_recovery u) Phase_abandoned))"

definition apply_workspace_reap :: native_handler where
  "apply_workspace_reap s a =
     (let t = s\<lparr>ds_workspace := Workspace_absent\<rparr> in Inr (t\<lparr>ds_phase := terminal_phase t\<rparr>))"

definition apply_workspace_cleanup :: native_handler where
  "apply_workspace_cleanup s a =
     (if ds_workspace s \<noteq> Workspace_landed \<and> ds_workspace s \<noteq> Workspace_abandoned
      then Inl (errorf [Lit ''workspace cleanup requires landed or explicitly abandoned state''])
      else (let t = s\<lparr>ds_workspace := Workspace_absent\<rparr> in Inr (t\<lparr>ds_phase := terminal_phase t\<rparr>)))"

definition apply_workspace_reconcile :: native_handler where
  "apply_workspace_reconcile s a =
     Inr (clear_recovery_context
       (s\<lparr>ds_recovery := Recovery_none, ds_transaction := Transaction_none, ds_phase := engaged_phase s\<rparr>))"

text \<open>What the gate handlers and the visual handler do once the evidence is stored.\<close>

definition settle_verification :: "durable_state \<Rightarrow> sd_objective \<Rightarrow> durable_state" where
  "settle_verification s ob =
     (let t = s\<lparr>ds_verification := Verification_stale, ds_phase := Phase_active\<rparr>;
          u = (if required_gate_evidence_current t then t\<lparr>ds_verification := Verification_current\<rparr> else t)
      in if verified_objective_satisfied u ob
         then establish_terminal (u\<lparr>ds_delivery := Delivery_gates_passed\<rparr>) Phase_terminal else u)"

definition gate_state_handler :: "string \<Rightarrow> native_handler" where
  "gate_state_handler gate s a =
     (let e = \<lparr>ge_gate = gate, ge_revision = parameter_text (ad_parameters a) ''source_revision'',
               ge_fingerprint = parameter_text (ad_parameters a) ''evidence_fingerprint''\<rparr>;
          t = (upsert_gate s e)\<lparr>ds_source_revision := ad_source_revision a,
                ds_worktree_fingerprint := ad_worktree_fingerprint a,
                ds_terminal := Terminal_nonterminal, ds_delivery := Delivery_active\<rparr>
      in Inr (settle_verification t (ad_objective a)))"

definition apply_visual_evidence :: native_handler where
  "apply_visual_evidence s a =
     (let e = \<lparr>ge_gate = ''visual'', ge_revision = parameter_text (ad_parameters a) ''source_revision'',
               ge_fingerprint = parameter_text (ad_parameters a) ''privacy_receipt''\<rparr>;
          t = (upsert_gate s e)\<lparr>ds_source_revision := ad_source_revision a,
                ds_worktree_fingerprint := ad_worktree_fingerprint a, ds_terminal := Terminal_nonterminal\<rparr>;
          u = (if trusted_objective_class (ad_objective a) = Objective_verified
               then t\<lparr>ds_delivery := Delivery_active\<rparr> else t)
      in Inr (settle_verification u (ad_objective a)))"

definition apply_publication_observation :: native_handler where
  "apply_publication_observation s a =
     (let t = without_recovery s; class = trusted_objective_class (ad_objective a) in
      Inr (if ds_publication t = Publication_unavailable \<or> ds_publication t = Publication_conflicting
           then t\<lparr>ds_phase := Phase_unresolved\<rparr>
           else if ds_publication t = Publication_closed_unmerged then t\<lparr>ds_phase := Phase_frontier\<rparr>
           else if class = Objective_open_pr \<and> ds_publication t = Publication_open
           then establish_terminal t Phase_terminal
           else if class = Objective_merged \<and> ds_publication t = Publication_merged
           then establish_terminal (t\<lparr>ds_workspace := Workspace_landed, ds_delivery := Delivery_terminal\<rparr>) Phase_terminal
           else t\<lparr>ds_phase := Phase_active\<rparr>))"

definition native_state_handlers :: "(string \<times> native_handler) list" where
  "native_state_handlers =
     [(''runtime-verified-settled'', apply_runtime_verified_settled),
      (''runtime-reconcile'', apply_runtime_reconcile),
      (''configuration-verified-settled'', apply_configuration_verified_settled),
      (''configuration-reconcile'', apply_configuration_reconcile),
      (''installation-initialize'', apply_installation_initialize),
      (''installation-reconcile-update'', apply_installation_reconcile_update),
      (''catalog-reconcile'', apply_catalog_reconcile),
      (''objective-bind'', apply_objective_bind),
      (''plan-approve'', approve_plan),
      (''work-package-admit'', apply_work_package_admit),
      (''work-package-approve'', apply_work_package_approve),
      (''planning-package-promote'', approve_plan),
      (''abandon-delivery'', apply_abandon_delivery),
      (''workspace-cleanup'', apply_workspace_cleanup),
      (''workspace-reap'', apply_workspace_reap),
      (''workspace-reconcile'', apply_workspace_reconcile),
      (''gate-build-record'', gate_state_handler ''build''),
      (''gate-test-record'', gate_state_handler ''test''),
      (''gate-review-record'', gate_state_handler ''review''),
      (''gate-change-record'', gate_state_handler ''change''),
      (''gate-journey-record'', gate_state_handler ''journey''),
      (''visual-evidence-attach'', apply_visual_evidence),
      (''publication-observe'', apply_publication_observation)]"

section \<open>The reducer\<close>

definition reducer_precondition_error :: "durable_state \<Rightarrow> sd_transition \<Rightarrow> state_precondition \<Rightarrow> gerror option" where
  "reducer_precondition_error s t c =
     (case state_facet_value s (pc_facet c) of
        Inl e \<Rightarrow> Some (wrapf [Lit ''transition '', Quoted (tn_id t), Lit '' state precondition: ''] e)
      | Inr current \<Rightarrow> fails (\<not> contains (pc_values c) current)
          [Lit ''transition '', Quoted (tn_id t), Lit '' state precondition '', Quoted (pc_facet c),
           Lit '' rejected value '', Quoted current])"

fun apply_assignments ::
    "sd_transition \<Rightarrow> sd_admission \<Rightarrow> durable_state \<Rightarrow> state_assignment list \<Rightarrow> gerror + durable_state" where
  "apply_assignments t a s [] = Inr s"
| "apply_assignments t a s (asg # rest) =
     (case assignment_value a asg of
        Inl e \<Rightarrow> Inl (wrapf [Lit ''transition '', Quoted (tn_id t), Lit '' state assignment '',
                             Quoted (as_facet asg), Lit '': ''] e)
      | Inr v \<Rightarrow>
          (case assign_state_facet s (as_facet asg) v of
             Inl e \<Rightarrow> Inl (wrapf [Lit ''transition '', Quoted (tn_id t), Lit '' state assignment: ''] e)
           | Inr s' \<Rightarrow> apply_assignments t a s' rest))"

definition apply_declared_state_effect ::
    "durable_state \<Rightarrow> sd_admission \<Rightarrow> sd_transition \<Rightarrow> gerror + durable_state" where
  "apply_declared_state_effect s a t =
     (let se = tn_state_effect t in
      case first_error (reducer_precondition_error s t) (se_preconditions se) of Some e \<Rightarrow> Inl e
      | None \<Rightarrow>
          if se_kind se = Effect_assignments then apply_assignments t a s (se_assignments se)
          else if se_kind se = Effect_native
          then (case map_of native_state_handlers (se_native_handler se) of
              None \<Rightarrow> Inl (errorf [Lit ''transition '', Quoted (tn_id t),
                                  Lit '' declares unknown native state handler '', Quoted (se_native_handler se)])
            | Some handler \<Rightarrow> handler s a)
          else Inl (errorf [Lit ''transition '', Quoted (tn_id t), Lit '' has no valid declared state effect'']))"

text \<open>The guard on the objective at the head of \<open>applyStateTransition\<close>.\<close>

definition objective_guard :: "durable_state \<Rightarrow> sd_admission \<Rightarrow> sd_transition \<Rightarrow> gerror option" where
  "objective_guard s a t =
     (let configured = (sd_objective_validate (ds_objective s) = None) in
      if tn_scope t = Objective_optional_preserve
      then first_failure
        [fails (configured \<and> ds_objective s \<noteq> ad_objective a)
           [Lit ''transition '', Quoted (tn_id t), Lit '' must preserve the exact configured product objective''],
         fails (\<not> configured \<and> sd_objective_validate (ad_objective a) = None)
           [Lit ''transition '', Quoted (tn_id t), Lit '' cannot create product intent from verified absence'']]
      else fails (configured \<and> ds_objective s \<noteq> ad_objective a
                  \<and> se_native_handler (tn_state_effect t) \<noteq> ''objective-bind'')
        [Lit ''transition '', Quoted (tn_id t), Lit '' cannot replace configured objective; use objective.bind''])"

definition apply_state_transition ::
    "durable_state \<Rightarrow> sd_admission \<Rightarrow> sd_transition \<Rightarrow> gerror + durable_state" where
  "apply_state_transition s a t =
     (case objective_guard s a t of Some e \<Rightarrow> Inl e
      | None \<Rightarrow>
          (case apply_declared_state_effect (s\<lparr>ds_last_transition := tn_id t\<rparr>) a t of Inl e \<Rightarrow> Inl e
           | Inr s' \<Rightarrow>
               if \<not> declares_target_phase t (ds_phase s')
               then Inl (errorf [Lit ''transition '', Quoted (tn_id t),
                                 Lit '' reducer produced undeclared target phase '', Lit (ds_phase s')])
               else Inr s'))"

section \<open>Ownership checks\<close>

definition validate_allowed_facets :: "string \<Rightarrow> string list \<Rightarrow> string list \<Rightarrow> gerror + string list" where
  "validate_allowed_facets i changed allowed =
     (case normalize_state_facets ''changed state facets'' changed of Inl e \<Rightarrow> Inl e
      | Inr canonical \<Rightarrow>
          (case filter (\<lambda>f. \<not> contains allowed f) canonical of
             [] \<Rightarrow> Inr canonical
           | f # _ \<Rightarrow> Inl (errorf [Lit ''FACET_OWNERSHIP_VIOLATION: transition '', Quoted i, Lit '' changed '',
                                  Quoted f, Lit '' outside its kernel-approved durable state facets''])))"

definition validate_transition_facets :: "sd_transition \<Rightarrow> string list \<Rightarrow> gerror + string list" where
  "validate_transition_facets t changed =
     (case durable_state_facet_policy t of Inl e \<Rightarrow> Inl e
      | Inr policy \<Rightarrow> validate_allowed_facets (tn_id t) changed (fp_writes policy))"

fun changed_state_facets ::
    "string list \<Rightarrow> (durable_state \<times> durable_state) list \<Rightarrow> gerror + string list" where
  "changed_state_facets result [] = Inr result"
| "changed_state_facets result ((before, after) # groups) =
     (case changed_facets before after of Inl e \<Rightarrow> Inl e
      | Inr changed \<Rightarrow> changed_state_facets (union_state_facets [result, changed]) groups)"

text \<open>
  The state commit of \<open>BindStateRevision\<close>: the part between loading the state and encoding it,
  with the instant \<open>now\<close> of the clock, and the facets it reports.

  Its copy \<open>before := state\<close> shares the array of gates with the state the reducer writes to.
  \<open>upsertGate\<close> replaces an entry in place, so the copy sees the replacement; it keeps its own
  length, and it keeps its entries when the reducer sets \<open>Gates\<close> to nil. \<open>shared_before\<close> is
  the copy as the comparison finds it.
\<close>

definition shared_before :: "durable_state \<Rightarrow> durable_state \<Rightarrow> durable_state" where
  "shared_before before after =
     (if length (ds_gates after) < length (ds_gates before) then before
      else before\<lparr>ds_gates := take (length (ds_gates before)) (ds_gates after)\<rparr>)"

text \<open>The program a state is first bound to.\<close>

definition bind_program :: "durable_state \<Rightarrow> sd_admission \<Rightarrow> durable_state" where
  "bind_program s a =
     (if ds_program_fingerprint s = [] then s\<lparr>ds_program_fingerprint := ad_expected_program a\<rparr> else s)"

definition commit_state ::
    "durable_state \<Rightarrow> durable_state \<Rightarrow> sd_transition \<Rightarrow> gtime \<Rightarrow> gerror + durable_state \<times> string list" where
  "commit_state before next t now =
     (case next_revision (ds_revision next) of Inl e \<Rightarrow> Inl e
      | Inr revision \<Rightarrow>
          (let final = next\<lparr>ds_revision := revision, ds_updated_at := time_utc now\<rparr> in
           case encode_state_error final of Some e \<Rightarrow> Inl e
           | None \<Rightarrow>
               (case changed_state_facets [] [(shared_before before final, final)] of Inl e \<Rightarrow> Inl e
                | Inr changed \<Rightarrow>
                    (case validate_transition_facets t changed of Inl e \<Rightarrow> Inl e
                     | Inr canonical \<Rightarrow> Inr (final, canonical)))))"

definition bind_state_revision ::
    "durable_state \<Rightarrow> sd_admission \<Rightarrow> sd_transition \<Rightarrow> gtime \<Rightarrow> gerror + durable_state \<times> string list" where
  "bind_state_revision state a t now =
     (if ds_revision state \<noteq> ad_expected_revision a
      then Inl (errorf [Lit ''durable state revision changed before revision binding''])
      else if ds_program_fingerprint state \<noteq> [] \<and> ds_program_fingerprint state \<noteq> ad_expected_program a
      then Inl (errorf [Lit ''compiled control program changed before revision binding''])
      else (case apply_state_transition (bind_program state a) a t of Inl e \<Rightarrow> Inl e
        | Inr next \<Rightarrow> commit_state state next t now))"

end
