(* ===== verification/Delivery_Ownership.thy ===== *)
theory Delivery_Ownership
  imports Delivery_Reducer
begin

text \<open>
  What the reducer changes: the durable state as its four domains, the domains each declared
  assignment and each native handler can change, and that a validated transition stays inside
  the domains it owns.
\<close>

section \<open>The four domains of a state\<close>

definition installation_part where
  "installation_part s =
     (ds_runtime s, ds_runtime_version s, ds_runtime_fingerprint s, ds_runtime_source s)"

definition program_part where
  "program_part s =
     (ds_program_fingerprint s, ds_human_identity_role s)"

definition control_part where
  "control_part s =
     (ds_schema_version s, ds_repository_id s, ds_git_common_id s, ds_worktree_id s,
      ds_control_bundle_fingerprint s, ds_revision s, ds_phase s, ds_configuration s,
      ds_recovery s, ds_transaction s, ds_config_fingerprint s, ds_plan_approval_policy s,
      ds_visual_evidence_policy s, ds_external_effect_policy s, ds_independent_review s,
      ds_enabled_hosts s, ds_transaction_id s, ds_transaction_transition s, ds_recovery_cause s,
      ds_recovery_source_phase s, ds_recovery_resumption s, ds_recovery_budget s,
      ds_last_transition s, ds_updated_at s)"

definition product_part where
  "product_part s =
     (ds_engagement s, ds_delivery s, ds_workspace s, ds_work_package s, ds_plan s,
      ds_publication s, ds_verification s, ds_terminal s, ds_objective s, ds_source_revision s,
      ds_worktree_fingerprint s, ds_plan_fingerprint s, ds_work_package_fingerprint s,
      ds_work_package_approval_fingerprint s, ds_approval_fingerprint s, ds_workspace_branch s,
      ds_workspace_path s, ds_workspace_base_ref s, ds_workspace_source_path s,
      ds_workspace_source_id s, ds_workspace_source_ref s, ds_publication_id s,
      ds_publication_url s, ds_preview_fingerprint s, ds_gates s)"

lemmas part_defs = installation_part_def program_part_def control_part_def product_part_def

lemma state_fields_classified [simp]: "validate_state_field_facets = None"
  by code_simp

text \<open>The owner of every field, next to the comparison of the field.\<close>

lemma field_owner_values:
  "map field_owner (map fst state_fields) =
     [Facet_control, Facet_control, Facet_control, Facet_control, Facet_program, Facet_program,
      Facet_control, Facet_control, Facet_control, Facet_product, Facet_product, Facet_product,
      Facet_product, Facet_product, Facet_control, Facet_installation, Facet_product,
      Facet_product, Facet_control, Facet_control, Facet_product, Facet_product, Facet_product,
      Facet_product, Facet_control, Facet_control, Facet_control, Facet_control, Facet_control,
      Facet_control, Facet_installation, Facet_installation, Facet_installation, Facet_product,
      Facet_product, Facet_product, Facet_product, Facet_product, Facet_product, Facet_product,
      Facet_product, Facet_product, Facet_product, Facet_product, Facet_product, Facet_product,
      Facet_control, Facet_control, Facet_control, Facet_control, Facet_control, Facet_control,
      Facet_control, Facet_product, Facet_control]"
  by code_simp

lemma field_comparisons:
  "map snd state_fields =
     [differs ds_schema_version, differs ds_repository_id, differs ds_git_common_id,
      differs ds_worktree_id, differs ds_program_fingerprint, differs ds_human_identity_role,
      differs ds_control_bundle_fingerprint, differs ds_revision, differs ds_phase,
      differs ds_engagement, differs ds_delivery, differs ds_workspace, differs ds_work_package,
      differs ds_plan, differs ds_configuration, differs ds_runtime, differs ds_publication,
      differs ds_verification, differs ds_recovery, differs ds_transaction, differs ds_terminal,
      differs ds_objective, differs ds_source_revision, differs ds_worktree_fingerprint,
      differs ds_config_fingerprint, differs ds_plan_approval_policy,
      differs ds_visual_evidence_policy, differs ds_external_effect_policy,
      differs ds_independent_review, differs ds_enabled_hosts, differs ds_runtime_version,
      differs ds_runtime_fingerprint, differs ds_runtime_source, differs ds_plan_fingerprint,
      differs ds_work_package_fingerprint, differs ds_work_package_approval_fingerprint,
      differs ds_approval_fingerprint, differs ds_workspace_branch, differs ds_workspace_path,
      differs ds_workspace_base_ref, differs ds_workspace_source_path,
      differs ds_workspace_source_id, differs ds_workspace_source_ref,
      differs ds_publication_id, differs ds_publication_url, differs ds_preview_fingerprint,
      differs ds_transaction_id, differs ds_transaction_transition, differs ds_recovery_cause,
      differs ds_recovery_source_phase, differs ds_recovery_resumption,
      differs ds_recovery_budget, differs ds_last_transition, differs ds_gates,
      differs ds_updated_at]"
  by (simp only: state_fields_def list.map snd_conv)

definition owned_fields :: "(string \<times> (durable_state \<Rightarrow> durable_state \<Rightarrow> bool)) list" where
  "owned_fields = zip (map field_owner (map fst state_fields)) (map snd state_fields)"

lemma owner_changed:
  "f \<in> set (map (\<lambda>fd. field_owner (fst fd)) (filter (\<lambda>fd. snd fd before after) state_fields))
     \<longleftrightarrow> list_ex (\<lambda>od. fst od = f \<and> snd od before after) owned_fields"
proof -
  have eq: "owned_fields = map (\<lambda>fd. (field_owner (fst fd), snd fd)) state_fields"
    unfolding owned_fields_def by (simp add: zip_map_map zip_same_conv_map comp_def split_beta')
  show ?thesis
    unfolding eq by (force simp: list_ex_iff)
qed

definition domain_changed :: "durable_state \<Rightarrow> durable_state \<Rightarrow> string \<Rightarrow> bool" where
  "domain_changed before after f \<longleftrightarrow>
     f = Facet_installation \<and> installation_part before \<noteq> installation_part after
     \<or> f = Facet_program \<and> program_part before \<noteq> program_part after
     \<or> f = Facet_control \<and> control_part before \<noteq> control_part after
     \<or> f = Facet_product \<and> product_part before \<noteq> product_part after"

lemma owned_changed:
  "list_ex (\<lambda>od. fst od = Facet_installation \<and> snd od before after) owned_fields
     \<longleftrightarrow> installation_part before \<noteq> installation_part after"
  "list_ex (\<lambda>od. fst od = Facet_program \<and> snd od before after) owned_fields
     \<longleftrightarrow> program_part before \<noteq> program_part after"
  "list_ex (\<lambda>od. fst od = Facet_control \<and> snd od before after) owned_fields
     \<longleftrightarrow> control_part before \<noteq> control_part after"
  "list_ex (\<lambda>od. fst od = Facet_product \<and> snd od before after) owned_fields
     \<longleftrightarrow> product_part before \<noteq> product_part after"
  unfolding owned_fields_def field_owner_values field_comparisons
  by (simp_all add: differs_def part_defs)

lemma owned_facets: "list_all (\<lambda>od. fst od \<in> {Facet_installation, Facet_program, Facet_control, Facet_product}) owned_fields"
  unfolding owned_fields_def field_owner_values field_comparisons by simp

lemma owner_changed_iff:
  "f \<in> set (map (\<lambda>fd. field_owner (fst fd)) (filter (\<lambda>fd. snd fd before after) state_fields))
     \<longleftrightarrow> domain_changed before after f"
proof -
  have "list_ex (\<lambda>od. fst od = f \<and> snd od before after) owned_fields
      \<Longrightarrow> f \<in> {Facet_installation, Facet_program, Facet_control, Facet_product}"
    using owned_facets by (auto simp: list_ex_iff list_all_iff)
  then show ?thesis
    unfolding owner_changed domain_changed_def owned_changed [symmetric] by auto
qed

lemma changed_facets_domains:
  "\<exists>cs. changed_facets before after = Inr cs \<and> sorted cs \<and> distinct cs
     \<and> (\<forall>f. f \<in> set cs \<longleftrightarrow> domain_changed before after f)"
proof -
  let ?xs = "map (\<lambda>fd. field_owner (fst fd)) (filter (\<lambda>fd. snd fd before after) state_fields)"
  have "state_facet_valid f" if "f \<in> set ?xs" for f
    using that unfolding owner_changed_iff by (auto simp: domain_changed_def state_facet_valid_def)
  then have "normalize_state_facets n (remdups ?xs) = Inr (sort (remdups ?xs))" for n
    by (simp add: normalize_state_facets_Inr del: set_map)
  then show ?thesis
    using owner_changed_iff [of _ before after] by (simp add: changed_facets_def del: set_map)
qed


section \<open>Changes inside a set of domains\<close>

definition within :: "string set \<Rightarrow> durable_state \<Rightarrow> durable_state \<Rightarrow> bool" where
  "within W before after \<longleftrightarrow> (\<forall>f. domain_changed before after f \<longrightarrow> f \<in> W)"

lemma within_parts:
  "within W s s' \<longleftrightarrow>
     (Facet_installation \<notin> W \<longrightarrow> installation_part s = installation_part s')
     \<and> (Facet_program \<notin> W \<longrightarrow> program_part s = program_part s')
     \<and> (Facet_control \<notin> W \<longrightarrow> control_part s = control_part s')
     \<and> (Facet_product \<notin> W \<longrightarrow> product_part s = product_part s')"
  unfolding within_def domain_changed_def by blast

lemma within_refl [simp]: "within W s s"
  by (simp add: within_parts)

lemma within_trans: "within W s s' \<Longrightarrow> within W s' s'' \<Longrightarrow> within W s s''"
  by (auto simp: within_parts)

lemma within_mono: "within V s s' \<Longrightarrow> V \<subseteq> W \<Longrightarrow> within W s s'"
  by (auto simp: within_def)

lemma within_changed: "within W s s' \<Longrightarrow> changed_facets s s' = Inr cs \<Longrightarrow> set cs \<subseteq> W"
  using changed_facets_domains [of s s'] by (auto simp: within_def)

lemma assignments_within:
  "list_all (\<lambda>fg. \<forall>s'. assign_state_facet s (fst fg) v = Inr s' \<longrightarrow> within {snd fg} s s')
     declared_state_field_facets"
  unfolding declared_state_field_facets_def list.pred_inject fst_conv snd_conv
  by (intro conjI TrueI allI impI; clarsimp simp: assign_state_facet_def within_parts part_defs split: if_split_asm)


lemma assignment_declared: "assign_state_facet s f v = Inr s' \<Longrightarrow> declared_state_field_facet f \<noteq> None"
  unfolding assign_state_facet_def declared_state_field_facet_def declared_state_field_facets_def
  by (simp split: if_split_asm)

lemma assignment_within:
  assumes "assign_state_facet s f v = Inr s'" "declared_state_field_facet f = Some g"
  shows "within {g} s s'"
proof -
  have "(f, g) \<in> set declared_state_field_facets"
    using assms(2) by (simp add: declared_state_field_facet_def map_of_SomeD)
  then show ?thesis
    using assignments_within [of s v] assms(1) by (fastforce simp: list_all_iff)
qed

section \<open>Native handlers\<close>

lemmas handler_defs = apply_runtime_verified_settled_def apply_runtime_reconcile_def
  apply_configuration_verified_settled_def apply_configuration_reconcile_def
  apply_installation_initialize_def apply_installation_reconcile_update_def
  apply_catalog_reconcile_def apply_objective_bind_def approve_plan_def
  apply_work_package_admit_def apply_work_package_approve_def apply_abandon_delivery_def
  apply_workspace_reap_def apply_workspace_cleanup_def apply_workspace_reconcile_def
  gate_state_handler_def apply_visual_evidence_def apply_publication_observation_def

lemmas helper_defs = with_runtime_def settle_def without_recovery_def clear_recovery_context_def
  establish_terminal_def upsert_gate_def reset_delivery_state_def bind_delivery_def settle_verification_def

lemma helpers_within:
  "within {Facet_control, Facet_installation} s (with_runtime s a)"
  "within {Facet_control} s (settle s)"
  "within {Facet_control} s (without_recovery s)"
  "within {Facet_control} s (clear_recovery_context s)"
  "within {Facet_control, Facet_product} s (establish_terminal s phase)"
  "within {Facet_control, Facet_product} s (upsert_gate s e)"
  "within {Facet_control, Facet_product} s (reset_delivery_state s)"
  "within {Facet_control, Facet_product} s (bind_delivery s ob b)"
  "within {Facet_control, Facet_product} s (settle_verification s ob)"
  by (simp_all add: within_parts part_defs helper_defs Let_def)

lemma handlers_within:
  "list_all (\<lambda>nh. \<forall>c s'. map_of native_contracts (fst nh) = Some c \<longrightarrow> snd nh s a = Inr s'
      \<longrightarrow> within (set (nc_facets c)) s s') native_state_handlers"
  unfolding native_state_handlers_def list.pred_inject fst_conv snd_conv
  by (intro conjI TrueI allI impI;
      clarsimp simp: native_contracts_def core_native_def standard_native_def within_parts part_defs
        handler_defs helper_defs Let_def split: if_split_asm)


lemma handler_within:
  assumes "map_of native_state_handlers name = Some h" "map_of native_contracts name = Some c" "h s a = Inr s'"
  shows "within (set (nc_facets c)) s s'"
  using handlers_within [of s a] map_of_SomeD [OF assms(1)] assms(2,3) by (fastforce simp: list_all_iff)

section \<open>Validated transitions\<close>

lemma transition_check: "validate_transition t = None \<Longrightarrow> e \<in> set (transition_errors t) \<Longrightarrow> e = None"
  by (simp add: validate_transition_def)

lemma valid_state_effect: "validate_transition t = None \<Longrightarrow> validate_state_effect t = None"
  by (erule transition_check) (simp add: transition_errors_def)

lemma valid_facet_policy: "validate_transition t = None \<Longrightarrow> \<exists>p. durable_state_facet_policy t = Inr p"
  using transition_check [of t "case durable_state_facet_policy t of Inl e \<Rightarrow> Some e | Inr _ \<Rightarrow> None"]
  by (auto simp: transition_errors_def split: sum.splits)

lemma facet_policy_writes:
  assumes "durable_state_facet_policy t = Inr p" "tn_controllable t"
  shows "fp_writes p = sort (tn_owned_facets t) \<and> Facet_control \<in> set (tn_owned_facets t)
    \<and> distinct (tn_owned_facets t) \<and> (\<forall>f\<in>set (tn_owned_facets t). state_facet_valid f)"
  using assms
  by (auto simp: durable_state_facet_policy_def tn_controllable_def event_controllable_def
      normalize_state_facets_Inr split: sum.splits if_split_asm option.splits list.splits)

text \<open>Only a controllable transition has an effect the reducer runs.\<close>

lemma reduced_controllable:
  assumes "validate_transition t = None" "apply_declared_state_effect s a t = Inr s'"
  shows "tn_controllable t"
  using valid_state_effect [OF assms(1)] assms(2)
  by (auto simp: validate_state_effect_def apply_declared_state_effect_def Let_def split: if_split_asm option.splits)

lemma assignment_errors_declared:
  "assignment_errors t seen asgs = None \<Longrightarrow> asg \<in> set asgs
     \<Longrightarrow> \<exists>g. declared_state_field_facet (as_facet asg) = Some g \<and> g \<in> set (tn_owned_facets t)"
proof (induction asgs arbitrary: seen)
  case Nil
  then show ?case by simp
next
  case (Cons x xs)
  then have "assignment_error t seen x = None" "assignment_errors t (as_facet x # seen) xs = None"
    by (simp_all split: option.splits)
  then show ?case
    using Cons by (auto simp: assignment_error_def Let_def)
qed

lemma apply_assignments_within:
  "apply_assignments t a s asgs = Inr s' \<Longrightarrow>
     (\<forall>asg\<in>set asgs. \<exists>g\<in>W. declared_state_field_facet (as_facet asg) = Some g) \<Longrightarrow> within W s s'"
proof (induction asgs arbitrary: s)
  case Nil
  then show ?case by simp
next
  case (Cons x xs)
  then obtain v s1 where v: "assignment_value a x = Inr v" "assign_state_facet s (as_facet x) v = Inr s1"
    "apply_assignments t a s1 xs = Inr s'"
    by (auto split: sum.splits)
  obtain g where g: "g \<in> W" "declared_state_field_facet (as_facet x) = Some g"
    using Cons.prems(2) by auto
  have "within W s s1"
    using assignment_within [OF v(2) g(2)] g(1) by (auto intro: within_mono)
  then show ?case
    using Cons.IH [OF v(3)] Cons.prems(2) within_trans by auto
qed

lemma reducer_within:
  assumes "validate_transition t = None" "apply_declared_state_effect s a t = Inr s'"
  shows "within (set (tn_owned_facets t)) s s'"
proof -
  let ?se = "tn_state_effect t"
  have c: "tn_controllable t"
    using assms by (rule reduced_controllable)
  then have se: "effect_kind_error t = None" "assignment_errors t [] (se_assignments ?se) = None"
    using valid_state_effect [OF assms(1)] by (simp_all add: validate_state_effect_def)
  consider (assign) "se_kind ?se = Effect_assignments" "apply_assignments t a s (se_assignments ?se) = Inr s'"
    | (native) h where "se_kind ?se = Effect_native" "map_of native_state_handlers (se_native_handler ?se) = Some h"
        "h s a = Inr s'"
    using assms(2) by (auto simp: apply_declared_state_effect_def Let_def split: if_split_asm option.splits)
  then show ?thesis
  proof cases
    case assign
    then show ?thesis
      using apply_assignments_within assignment_errors_declared [OF se(2)] by blast
  next
    case native
    have "validate_native_handler t = None"
      using se(1) native(1) by (simp add: effect_kind_error_def Let_def)
    then obtain contract where contract: "map_of native_contracts (se_native_handler ?se) = Some contract"
      "set (tn_owned_facets t) = set (nc_facets contract)"
      by (auto simp: validate_native_handler_def Let_def normalize_state_facets_Inr
          split: option.splits if_split_asm sum.splits) (metis set_sort)+
    then show ?thesis
      using handler_within [OF native(2) contract(1) native(3)] by simp
  qed
qed

lemma transition_within:
  assumes "validate_transition t = None" "apply_state_transition s a t = Inr s'"
  shows "within (set (tn_owned_facets t)) s s' \<and> tn_controllable t"
proof -
  let ?s = "s\<lparr>ds_last_transition := tn_id t\<rparr>"
  have r: "apply_declared_state_effect ?s a t = Inr s'"
    using assms(2) by (auto simp: apply_state_transition_def split: option.splits sum.splits if_split_asm)
  have c: "tn_controllable t"
    using assms(1) r by (rule reduced_controllable)
  obtain p where "durable_state_facet_policy t = Inr p"
    using valid_facet_policy [OF assms(1)] by blast
  then have "Facet_control \<in> set (tn_owned_facets t)"
    using facet_policy_writes c by blast
  then have "within (set (tn_owned_facets t)) s ?s"
    by (auto simp: within_parts part_defs)
  then show ?thesis
    using reducer_within [OF assms(1) r] within_trans c by blast
qed

text \<open>
  C17. Facet ownership is sound: when the reducer applies a transition the catalog accepted,
  the durable state changes only in the domains the transition owns, and the ownership check
  accepts the list of the domains in which the two states differ.
\<close>

theorem ownership_sound:
  assumes "validate_transition t = None" and "apply_state_transition s a t = Inr s'"
  shows "\<exists>cs. changed_facets s s' = Inr cs \<and> set cs \<subseteq> set (tn_owned_facets t)
    \<and> validate_transition_facets t cs = Inr cs"
proof -
  have w: "within (set (tn_owned_facets t)) s s'" and c: "tn_controllable t"
    using transition_within [OF assms] by simp_all
  obtain p where p: "durable_state_facet_policy t = Inr p"
    using valid_facet_policy [OF assms(1)] by blast
  then have writes: "fp_writes p = sort (tn_owned_facets t)"
    "\<forall>f\<in>set (tn_owned_facets t). state_facet_valid f"
    using facet_policy_writes c by blast+
  obtain cs where cs: "changed_facets s s' = Inr cs" "sorted cs" "distinct cs"
    using changed_facets_domains by blast
  have sub: "set cs \<subseteq> set (tn_owned_facets t)"
    using within_changed [OF w cs(1)] .
  have "normalize_state_facets n cs = Inr cs" for n
    using cs sub writes(2) by (auto simp: normalize_state_facets_Inr sorted_sort_id)
  moreover have "filter (\<lambda>f. \<not> contains (fp_writes p) f) cs = []"
    using sub writes(1) by (auto simp: filter_empty_conv)
  ultimately show ?thesis
    using cs(1) sub p by (simp add: validate_transition_facets_def validate_allowed_facets_def)
qed

end
