(* ===== verification/Delivery_Files.thy ===== *)
theory Delivery_Files
  imports Delivery_Admission
begin

text \<open>
  \<open>effects/io.go\<close> over an explicit file store: regular files with a mode, symbolic links, and the
  outcome of every call of the operating system. Directories are not recorded (one that is missing
  or in the way shows as a failing call), nor are temporary files and staging directories, which no
  other operation reads; the names of files are the cleaned paths.
\<close>

section \<open>The store\<close>

datatype file_entry = Regular string "32 word" | Symlink string

text \<open>A call succeeds, fails without a visible effect, or, for \<open>RemoveAll\<close>, fails after it removed some files.\<close>

datatype os_outcome = Fine | Fault | Partly "string list"

text \<open>
  Files and symbolic links by their cleaned absolute path. There is no entry for a directory: it
  is created by writing below it, a call that meets one in its way fails by \<open>fs_calls\<close> only, and
  no statement about the entries of a store says anything about the directories left in it.
\<close>

record file_store =
  fs_entries :: "(string \<times> file_entry) list"
  fs_calls :: "os_outcome list"
  fs_syncs :: "bool list"

text \<open>
  The outcomes to come: of the calls before an effect is visible, and, separately, whether a
  directory fails to be synchronised after it is. An exhausted list means success.
\<close>

definition file_at :: "file_store \<Rightarrow> string \<Rightarrow> file_entry option" where
  "file_at w p = map_of (fs_entries w) p"

definition os_error :: gerror where
  "os_error = errorf [Lit ''operating system call failed'']"

definition next_call :: "file_store \<Rightarrow> os_outcome \<times> file_store" where
  "next_call w = (case fs_calls w of [] \<Rightarrow> (Fine, w) | x # xs \<Rightarrow> (x, w\<lparr>fs_calls := xs\<rparr>))"

text \<open>\<open>n\<close> calls in sequence that touch nothing anyone reads; the first that fails ends them.\<close>

fun attempts :: "nat \<Rightarrow> file_store \<Rightarrow> gerror option \<times> file_store" where
  "attempts 0 w = (None, w)"
| "attempts (Suc n) w =
     (case next_call w of (Fine, w') \<Rightarrow> attempts n w' | (_, w') \<Rightarrow> (Some os_error, w'))"

definition sync_directory :: "file_store \<Rightarrow> gerror option \<times> file_store" where
  "sync_directory w =
     (case fs_syncs w of [] \<Rightarrow> (None, w)
      | failed # rest \<Rightarrow> (if failed then Some os_error else None, w\<lparr>fs_syncs := rest\<rparr>))"

text \<open>\<open>replaceFile\<close> installs the entry, then the directory is synchronised.\<close>

definition install_entry :: "string \<Rightarrow> file_entry \<Rightarrow> file_store \<Rightarrow> gerror option \<times> file_store" where
  "install_entry path e w =
     (case next_call w of
        (Fine, w') \<Rightarrow> sync_directory (w'\<lparr>fs_entries := AList.update path e (fs_entries w')\<rparr>)
      | (_, w') \<Rightarrow> (Some os_error, w'))"

text \<open>Directory, temporary file, mode, content, flush and close come before the replacement.\<close>

definition atomic_write :: "string \<Rightarrow> string \<Rightarrow> 32 word \<Rightarrow> file_store \<Rightarrow> gerror option \<times> file_store" where
  "atomic_write path body mode w =
     (if \<not> is_abs path then (Some (errorf [Lit ''effect path must be absolute: '', Lit path]), w)
      else case attempts 6 w of (Some e, w') \<Rightarrow> (Some e, w')
        | (None, w') \<Rightarrow> install_entry path (Regular body mode) w')"

definition atomic_symlink :: "string \<Rightarrow> string \<Rightarrow> file_store \<Rightarrow> gerror option \<times> file_store" where
  "atomic_symlink path target w =
     (if \<not> is_abs path \<or> target = []
      then (Some (errorf [Lit ''effect symlink requires an absolute path and non-empty target'']), w)
      else case attempts 5 w of (Some e, w') \<Rightarrow> (Some e, w')
        | (None, w') \<Rightarrow> install_entry path (Symlink target) w')"

text \<open>\<open>os.Remove\<close>, where a file that does not exist is no error.\<close>

definition remove_file :: "string \<Rightarrow> file_store \<Rightarrow> gerror option \<times> file_store" where
  "remove_file path w =
     (if file_at w path = None then (None, w)
      else case next_call w of
          (Fine, w') \<Rightarrow> (None, w'\<lparr>fs_entries := AList.delete path (fs_entries w')\<rparr>)
        | (_, w') \<Rightarrow> (Some os_error, w'))"

definition under :: "string \<Rightarrow> string \<Rightarrow> bool" where
  "under root path = (path = root \<or> has_prefix (root @ ''/'') path)"

definition remove_all :: "string \<Rightarrow> file_store \<Rightarrow> gerror option \<times> file_store" where
  "remove_all root w =
     (let gone = (\<lambda>removed w. w\<lparr>fs_entries := filter (\<lambda>(p, _). \<not> (under root p \<and> removed p)) (fs_entries w)\<rparr>) in
      case next_call w of
        (Fine, w') \<Rightarrow> (None, gone (\<lambda>_. True) w')
      | (Fault, w') \<Rightarrow> (Some os_error, w')
      | (Partly ps, w') \<Rightarrow> (Some os_error, gone (\<lambda>p. p \<in> set ps) w'))"

definition present :: "string \<Rightarrow> file_store \<Rightarrow> bool" where
  "present root w = list_ex (\<lambda>(p, _). under root p) (fs_entries w)"

section \<open>What the calls change\<close>

lemma next_call_entries: "next_call w = (x, w') \<Longrightarrow> fs_entries w' = fs_entries w"
  by (auto simp: next_call_def split: list.splits)

lemma attempts_entries: "attempts n w = (e, w') \<Longrightarrow> fs_entries w' = fs_entries w"
  by (induction n w rule: attempts.induct) (auto split: prod.splits os_outcome.splits dest: next_call_entries)

end
