(* ===== verification/Delivery_Receipt.thy ===== *)
theory Delivery_Receipt
  imports Delivery_Admission
begin

text \<open>
  \<open>protocol/receipt.go\<close>: the immutable fact of one committed transition, how it is built from an
  admission and a verified target, and what its validation insists on.
\<close>

section \<open>Parts of a receipt\<close>

definition valid_sha256 :: "string \<Rightarrow> bool" where
  "valid_sha256 v = (length v = 64 \<and> list_all (\<lambda>c. \<not> upper_char c) v \<and> list_all hex_char v)"

text \<open>\<open>time.Time.Sub\<close>: the difference in nanoseconds, saturated to an \<open>int64\<close>.\<close>

definition time_sub :: "gtime \<Rightarrow> gtime \<Rightarrow> int" where
  "time_sub t u = max (- (2 ^ 63)) (min (2 ^ 63 - 1) (t_nanos t - t_nanos u))"

record program_ref =
  pf_id :: string
  pf_version :: string
  pf_fingerprint :: string

definition program_ref_validate :: "program_ref \<Rightarrow> gerror option" where
  "program_ref_validate p =
     fails (pf_id p = [] \<or> pf_version p = [] \<or> \<not> valid_sha256 (pf_fingerprint p))
       [Lit ''receipt requires exact program id, version, and fingerprint'']"

abbreviation Effect_resource_mutation :: string where "Effect_resource_mutation \<equiv> ''resource-mutation''"
abbreviation Effect_boundary_settled :: string where "Effect_boundary_settled \<equiv> ''effect-boundary-settled''"

record sd_effect_fact =
  xf_kind :: string
  xf_effect :: string
  xf_owner :: string
  xf_resource :: string
  xf_target :: string
  xf_operation :: string
  xf_prior :: string
  xf_result :: string

definition effect_fact_check :: "sd_effect_fact \<Rightarrow> gerror option" where
  "effect_fact_check f =
     (if xf_effect f = [] \<or> xf_owner f = [] \<or> xf_target f = [] \<or> xf_operation f = []
         \<or> \<not> valid_sha256 (xf_prior f) \<or> \<not> valid_sha256 (xf_result f)
      then Some (errorf [Lit ''receipt effect fact has incomplete identity''])
      else if xf_kind f = Effect_resource_mutation
      then fails (xf_resource f = []) [Lit ''resource mutation fact requires a governed resource'']
      else if xf_kind f = Effect_boundary_settled
      then fails (xf_resource f \<noteq> [] \<or> xf_operation f \<noteq> ''settled'')
        [Lit ''settled boundary fact has invalid resource or operation'']
      else Some (errorf [Lit ''receipt effect fact has invalid kind '', Quoted (xf_kind f)]))"

text \<open>The order of \<open>sortEffectFacts\<close> compares the fields one after the other.\<close>

definition fact_key :: "sd_effect_fact \<Rightarrow> string list" where
  "fact_key f = [xf_kind f, xf_effect f, xf_owner f, xf_resource f, xf_target f, xf_operation f, xf_prior f, xf_result f]"

definition sort_facts :: "sd_effect_fact list \<Rightarrow> sd_effect_fact list" where
  "sort_facts fs = sort_key fact_key fs"

record verification_fact =
  vy_verifier :: string
  vy_postcondition :: string
  vy_result :: string
  vy_evidence :: string
  vy_verified_at :: gtime

definition verification_fact_validate :: "verification_fact \<Rightarrow> gerror option" where
  "verification_fact_validate v =
     fails (vy_verifier v = [] \<or> vy_postcondition v = [] \<or> vy_result v \<noteq> ''satisfied''
       \<or> \<not> valid_sha256 (vy_evidence v) \<or> time_is_zero (vy_verified_at v))
       [Lit ''receipt verification fact is incomplete or not satisfied'']"

record authority_source =
  au_id :: string
  au_class :: string
  au_subject :: string
  au_fingerprint :: string
  au_role :: string
  au_provider :: string

definition source_of_receipt :: "sd_receipt \<Rightarrow> authority_source" where
  "source_of_receipt r = \<lparr>au_id = rp_id r, au_class = rp_class r, au_subject = rp_subject r,
     au_fingerprint = rp_fingerprint r, au_role = rp_role r, au_provider = rp_provider r\<rparr>"

definition source_json :: "authority_source \<Rightarrow> json" where
  "source_json u =
     JObj ([(''id'', JStr (au_id u)), (''class'', JStr (au_class u)), (''subject'', JStr (au_subject u)),
         (''fingerprint'', JStr (au_fingerprint u))]
       @ omit_empty (au_role u = []) ''identity_role'' (JStr (au_role u))
       @ omit_empty (au_provider u = []) ''identity_provider_fingerprint'' (JStr (au_provider u)))"

section \<open>The receipt\<close>

record transition_receipt =
  tr_schema_version :: int
  tr_kind :: string
  tr_id :: string
  tr_flow :: string
  tr_sequence :: u64
  tr_program :: program_ref
  tr_transition :: string
  tr_transition_version :: int
  tr_prior_program :: string
  tr_program_delta :: string
  tr_program_accepted :: bool
  tr_runtime_version :: string
  tr_runtime_fingerprint :: string
  tr_runtime_source :: string
  tr_prescription :: string
  tr_admission :: string
  tr_prior_revision :: u64
  tr_resulting_revision :: u64
  tr_objective :: string
  tr_target_id :: string
  tr_trusted :: string
  tr_delivery :: string
  tr_scope :: objective_scope
  tr_objective_status :: string
  tr_binding :: string
  tr_source :: string
  tr_target :: string
  tr_authority :: string
  tr_authority_sources :: "authority_source list"
  tr_required :: "string list"
  tr_granted :: "string list"
  tr_exercised :: "string list"
  tr_effects :: "sd_effect_fact list"
  tr_outputs :: "parameter list"
  tr_facets :: "string list"
  tr_verification :: verification_fact
  tr_idempotency :: string
  tr_recovery :: string
  tr_terminal :: string
  tr_started_at :: gtime
  tr_committed_at :: gtime
  tr_duration :: int
  tr_context :: string
  tr_prior_invocation :: "invocation option"
  tr_resulting_invocation :: "invocation option"
  tr_work :: string
  tr_bundle_source :: string
  tr_bundle_target :: string
  tr_invocation_fingerprint :: string

definition sd_receipt_schema_version :: int where
  "sd_receipt_schema_version = 13"

definition previous_receipt_schema_version :: int where
  "previous_receipt_schema_version = 12"

definition program_ref_json :: "program_ref \<Rightarrow> json" where
  "program_ref_json p = JObj [(''id'', JStr (pf_id p)), (''version'', JStr (pf_version p)),
     (''fingerprint'', JStr (pf_fingerprint p))]"

definition sd_effect_fact_json :: "sd_effect_fact \<Rightarrow> json" where
  "sd_effect_fact_json f = JObj ([(''kind'', JStr (xf_kind f)), (''effect_id'', JStr (xf_effect f)),
       (''owner'', JStr (xf_owner f))] @ omit_empty (xf_resource f = []) ''resource'' (JStr (xf_resource f))
     @ [(''target'', JStr (xf_target f)), (''operation'', JStr (xf_operation f)),
        (''prior_fingerprint'', JStr (xf_prior f)), (''resulting_fingerprint'', JStr (xf_result f))])"

definition verification_fact_json :: "verification_fact \<Rightarrow> json" where
  "verification_fact_json v = JObj [(''verifier'', JStr (vy_verifier v)),
     (''expected_postcondition'', JStr (vy_postcondition v)), (''result'', JStr (vy_result v)),
     (''evidence_fingerprint'', JStr (vy_evidence v)), (''verified_at'', time_json (vy_verified_at v))]"

text \<open>The fields of the receipt in the order of the struct, in three parts.\<close>

definition receipt_identity_fields :: "transition_receipt \<Rightarrow> (string \<times> json) list" where
  "receipt_identity_fields r =
     (let opt = (\<lambda>key v. omit_empty (v = []) key (JStr v)) in
      [(''schema_version'', JInt (tr_schema_version r)), (''kind'', JStr (tr_kind r)), (''id'', JStr (tr_id r)),
       (''flow_id'', JStr (tr_flow r)), (''sequence'', JInt (uint (tr_sequence r))),
       (''program'', program_ref_json (tr_program r)), (''transition_id'', JStr (tr_transition r)),
       (''transition_version'', JInt (tr_transition_version r))]
      @ opt ''prior_program_fingerprint'' (tr_prior_program r)
      @ opt ''program_delta_fingerprint'' (tr_program_delta r)
      @ omit_empty (\<not> tr_program_accepted r) ''program_change_accepted'' (JBool (tr_program_accepted r))
      @ opt ''runtime_version'' (tr_runtime_version r) @ opt ''runtime_fingerprint'' (tr_runtime_fingerprint r)
      @ opt ''runtime_source_revision'' (tr_runtime_source r)
      @ [(''prescription_id'', JStr (tr_prescription r)), (''admission_id'', JStr (tr_admission r)),
         (''prior_state_revision'', JInt (uint (tr_prior_revision r))),
         (''resulting_state_revision'', JInt (uint (tr_resulting_revision r)))])"

definition receipt_evidence_fields :: "transition_receipt \<Rightarrow> (string \<times> json) list" where
  "receipt_evidence_fields r =
     (let opt = (\<lambda>key v. omit_empty (v = []) key (JStr v)) in
      [(''objective_id'', JStr (tr_objective r)), (''target_id'', JStr (tr_target_id r))]
      @ opt ''trusted_class'' (tr_trusted r) @ [(''delivery_id'', JStr (tr_delivery r))]
      @ opt ''objective_scope'' (tr_scope r) @ opt ''objective_status'' (tr_objective_status r)
      @ [(''objective_binding_fingerprint'', JStr (tr_binding r)), (''source_fingerprint'', JStr (tr_source r)),
         (''target_fingerprint'', JStr (tr_target r)), (''authority_fingerprint'', JStr (tr_authority r)),
         (''authority_sources'', JArr (map source_json (tr_authority_sources r))),
         (''required_capabilities'', json_nil_strings (tr_required r)),
         (''granted_capabilities'', json_nil_strings (tr_granted r))]
      @ omit_empty (tr_exercised r = []) ''exercised_capabilities'' (json_strings (tr_exercised r))
      @ [(''committed_effects'', nil_array sd_effect_fact_json (tr_effects r))]
      @ omit_empty (tr_outputs r = []) ''effect_outputs'' (JArr (map parameter_json (tr_outputs r)))
      @ [(''changed_state_facets'', json_nil_strings (tr_facets r)),
         (''verification'', verification_fact_json (tr_verification r)),
         (''idempotency_key'', JStr (tr_idempotency r))])"

definition receipt_outcome_fields :: "transition_receipt \<Rightarrow> (string \<times> json) list" where
  "receipt_outcome_fields r =
     (let opt = (\<lambda>key v. omit_empty (v = []) key (JStr v)) in
      opt ''recovery'' (tr_recovery r)
      @ [(''terminal'', JStr (tr_terminal r)), (''started_at'', time_json (tr_started_at r)),
         (''committed_at'', time_json (tr_committed_at r)), (''duration_nanoseconds'', JInt (tr_duration r))]
      @ opt ''execution_context'' (tr_context r)
      @ omit_none ''prior_invocation'' invocation_json (tr_prior_invocation r)
      @ omit_none ''resulting_invocation'' invocation_json (tr_resulting_invocation r)
      @ opt ''work_result_fingerprint'' (tr_work r)
      @ opt ''control_bundle_source_fingerprint'' (tr_bundle_source r)
      @ opt ''control_bundle_target_fingerprint'' (tr_bundle_target r)
      @ opt ''invocation_fingerprint'' (tr_invocation_fingerprint r))"

definition transition_receipt_json :: "transition_receipt \<Rightarrow> json" where
  "transition_receipt_json r =
     JObj (receipt_identity_fields r @ receipt_evidence_fields r @ receipt_outcome_fields r)"

definition sd_receipt_identity :: "transition_receipt \<Rightarrow> gerror + string" where
  "sd_receipt_identity r = content_id ''trc-'' (transition_receipt_json (r\<lparr>tr_id := []\<rparr>))"

section \<open>Building a receipt\<close>

text \<open>The checks of \<open>NewReceipt\<close> before anything is built, in its order.\<close>

definition new_receipt_errors ::
    "string \<Rightarrow> u64 \<Rightarrow> program_ref \<Rightarrow> sd_admission \<Rightarrow> sd_snapshot \<Rightarrow> sd_effect_fact list \<Rightarrow> gtime \<Rightarrow> gtime
       \<Rightarrow> gerror option list" where
  "new_receipt_errors flow seq program a target effects started committed =
     [fails (flow = [] \<or> seq = 0 \<or> ad_id a = [] \<or> sn_fingerprint target = [])
        [Lit ''receipt requires flow, sequence, admission, and target identity''],
      program_ref_validate program,
      fails (pf_fingerprint program \<noteq> ad_expected_program a)
        [Lit ''receipt program identity differs from admitted program''],
      fails (time_before committed started) [Lit ''receipt commit precedes effect start''],
      fails (ad_expected_revision a = - 1 \<or> ob_state_revision (sn_observation target) \<noteq> ad_expected_revision a + 1)
        [Lit ''receipt target revision must advance exactly once from the prescribed revision''],
      (case objective_binding_fingerprint (sn_observation target) of
         Inl e \<Rightarrow> Some (wrapf [Lit ''receipt target objective binding: ''] e) | Inr _ \<Rightarrow> None),
      fails (effects = []) [Lit ''committed transition requires kernel-observed effect facts'']]"

definition canonical_facets :: "string list \<Rightarrow> gerror + string list" where
  "canonical_facets changed =
     (case normalize_state_facets ''receipt.changed_state_facets'' changed of
        Inl e \<Rightarrow> Inl (wrapf [Lit ''receipt requires canonical changed state facets: ''] e)
      | Inr [] \<Rightarrow> Inl (errorf [Lit ''receipt requires canonical changed state facets: <nil>''])
      | Inr (f # fs) \<Rightarrow> Inr (f # fs))"

text \<open>The literal of the receipt, with the fields that the conditionals after it set.\<close>

definition receipt_draft ::
    "string \<Rightarrow> u64 \<Rightarrow> program_ref \<Rightarrow> sd_admission \<Rightarrow> sd_transition \<Rightarrow> sd_snapshot \<Rightarrow> string \<Rightarrow> string list
       \<Rightarrow> sd_effect_fact list \<Rightarrow> parameter list \<Rightarrow> string list \<Rightarrow> gtime \<Rightarrow> gtime \<Rightarrow> transition_receipt" where
  "receipt_draft flow seq program a t target binding facets effects outputs exercised started committed =
     (let ob = ad_objective a; s = sn_observation target in
      \<lparr>tr_schema_version = sd_receipt_schema_version, tr_kind = ''transition-committed'', tr_id = [], tr_flow = flow,
       tr_sequence = seq, tr_program = program, tr_transition = tn_id t, tr_transition_version = tn_version t,
       tr_prior_program = [], tr_program_delta = [], tr_program_accepted = False, tr_runtime_version = [],
       tr_runtime_fingerprint = [], tr_runtime_source = [], tr_prescription = ad_prescription a,
       tr_admission = ad_id a, tr_prior_revision = ad_expected_revision a,
       tr_resulting_revision = ob_state_revision s, tr_objective = so_id ob, tr_target_id = so_target ob,
       tr_trusted = so_trusted ob, tr_delivery = so_delivery ob, tr_scope = ad_scope a,
       tr_objective_status = ad_objective_status a, tr_binding = binding, tr_source = ad_expected_snapshot a,
       tr_target = sn_fingerprint target, tr_authority = ad_authority_fingerprint a,
       tr_authority_sources = map source_of_receipt (ad_authority a), tr_required = ad_required_capabilities a,
       tr_granted = ad_granted_capabilities a, tr_exercised = exercised, tr_effects = sort_facts effects,
       tr_outputs = parameters_canonical outputs, tr_facets = facets,
       tr_verification = \<lparr>vy_verifier = tn_verifier t, vy_postcondition = tn_target_predicate t,
          vy_result = ''satisfied'', vy_evidence = sn_fingerprint target, vy_verified_at = time_utc committed\<rparr>,
       tr_idempotency = ad_idempotency_key a, tr_recovery = ic_recovery (tn_interruption t),
       tr_terminal = (if is_known (ob_terminal s) then f_value (ob_terminal s) else ''unknown''),
       tr_started_at = time_utc started, tr_committed_at = time_utc committed,
       tr_duration = time_sub committed started, tr_context = [], tr_prior_invocation = None,
       tr_resulting_invocation = None, tr_work = (case ad_work a of None \<Rightarrow> [] | Some w \<Rightarrow> wk_result_fingerprint w),
       tr_bundle_source = (case ad_bundle a of None \<Rightarrow> [] | Some b \<Rightarrow> bs_fingerprint (bc_source b)),
       tr_bundle_target = (case ad_bundle a of None \<Rightarrow> []
          | Some b \<Rightarrow> (case bc_target b of None \<Rightarrow> bs_fingerprint (bc_source b) | Some x \<Rightarrow> bs_fingerprint x)),
       tr_invocation_fingerprint = ad_invocation_fingerprint a\<rparr>)"

definition with_lineage ::
    "sd_transition \<Rightarrow> sd_admission \<Rightarrow> sd_snapshot \<Rightarrow> transition_receipt \<Rightarrow> gerror + transition_receipt" where
  "with_lineage t a target r =
     (if tn_execution_context t \<noteq> ''advance'' then Inr r
      else (let resulting = ob_invocation (sn_observation target) in
        case invocation_validate (ad_invocation a) True of
          Some e \<Rightarrow> Inl (wrapf [Lit ''receipt prior invocation: ''] e)
        | None \<Rightarrow> (case invocation_validate resulting True of
            Some e \<Rightarrow> Inl (wrapf [Lit ''receipt resulting invocation: ''] e)
          | None \<Rightarrow> Inr (r\<lparr>tr_context := ''advance'', tr_prior_invocation := Some (ad_invocation a),
                            tr_resulting_invocation := Some resulting\<rparr>))))"

text \<open>Program change, runtime identity from the parameters, and the reconciler's fallback to the invocation.\<close>

definition receipt_runtime :: "sd_transition \<Rightarrow> sd_admission \<Rightarrow> transition_receipt \<Rightarrow> transition_receipt" where
  "receipt_runtime t a r =
     (let get = parameter_text (ad_parameters a); version = get ''runtime_version'';
          r1 = r\<lparr>tr_prior_program := ad_prior_program a, tr_program_delta := ad_program_delta a,
                 tr_program_accepted := (get ''accept_obligation_change'' = ''true''),
                 tr_runtime_version := version\<rparr>;
          r2 = (if version \<noteq> []
                then r1\<lparr>tr_runtime_fingerprint := get ''runtime_sha256'', tr_runtime_source := get ''source_revision''\<rparr>
                else r1)
      in if pl_reconciles_program (tn_policy t) \<and> tr_runtime_fingerprint r2 = []
         then r2\<lparr>tr_runtime_version := iv_runtime_version (ad_invocation a),
                 tr_runtime_fingerprint := iv_runtime_fingerprint (ad_invocation a)\<rparr>
         else r2)"

definition seal_receipt :: "transition_receipt \<Rightarrow> gerror + transition_receipt" where
  "seal_receipt r = (case sd_receipt_identity r of Inl e \<Rightarrow> Inl e | Inr h \<Rightarrow> Inr (r\<lparr>tr_id := h\<rparr>))"

definition new_sd_receipt ::
    "string \<Rightarrow> u64 \<Rightarrow> program_ref \<Rightarrow> sd_admission \<Rightarrow> sd_transition \<Rightarrow> sd_snapshot \<Rightarrow> string list \<Rightarrow> sd_effect_fact list
       \<Rightarrow> parameter list \<Rightarrow> string list \<Rightarrow> gtime \<Rightarrow> gtime \<Rightarrow> gerror + transition_receipt" where
  "new_sd_receipt flow seq program a t target changed effects outputs exercised started committed =
     (case first_failure (new_receipt_errors flow seq program a target effects started committed) of
        Some e \<Rightarrow> Inl e
      | None \<Rightarrow>
          (case objective_binding_fingerprint (sn_observation target) of Inl e \<Rightarrow> Inl e
           | Inr binding \<Rightarrow>
             (case canonical_facets changed of Inl e \<Rightarrow> Inl e
              | Inr facets \<Rightarrow>
                (case with_lineage t a target (receipt_draft flow seq program a t target binding facets effects
                        outputs exercised started committed) of
                   Inl e \<Rightarrow> Inl e
                 | Inr r \<Rightarrow> seal_receipt (receipt_runtime t a r)))))"

section \<open>Validating a receipt\<close>

definition sd_receipt_incomplete :: "int \<Rightarrow> transition_receipt \<Rightarrow> bool" where
  "sd_receipt_incomplete schema r \<longleftrightarrow>
     tr_schema_version r \<noteq> schema \<or> tr_kind r \<noteq> ''transition-committed'' \<or> tr_id r = [] \<or> tr_flow r = []
     \<or> tr_sequence r = 0 \<or> tr_transition r = [] \<or> tr_transition_version r < 1 \<or> tr_prescription r = []
     \<or> tr_admission r = [] \<or> tr_prior_revision r = 0 \<or> tr_prior_revision r = - 1
     \<or> tr_resulting_revision r \<noteq> tr_prior_revision r + 1 \<or> \<not> valid_sha256 (tr_source r)
     \<or> \<not> valid_sha256 (tr_target r) \<or> \<not> valid_sha256 (tr_binding r) \<or> tr_authority r = [] \<or> tr_required r = []
     \<or> tr_idempotency r = [] \<or> tr_effects r = [] \<or> tr_facets r = []"

fun scan_outputs :: "string list \<Rightarrow> (parameter \<times> parameter) list \<Rightarrow> gerror option" where
  "scan_outputs seen [] = None"
| "scan_outputs seen ((p, c) # rest) =
     (if pm_name p = [] \<or> pm_value p = [] \<or> pm_name p \<in> set seen
      then Some (errorf [Lit ''receipt effect outputs require unique non-empty names and values''])
      else if c \<noteq> p then Some (errorf [Lit ''receipt effect outputs are not canonical''])
      else scan_outputs (pm_name p # seen) rest)"

definition effect_outputs_error :: "parameter list \<Rightarrow> gerror option" where
  "effect_outputs_error outputs = scan_outputs [] (zip outputs (parameters_canonical outputs))"

definition lineage_error :: "transition_receipt \<Rightarrow> gerror option" where
  "lineage_error r =
     (if tr_context r \<noteq> []
      then (case (tr_prior_invocation r, tr_resulting_invocation r) of
          (Some p, Some q) \<Rightarrow>
            (if tr_context r \<noteq> ''advance'' then Some (errorf [Lit ''receipt has invalid execution context lineage''])
             else case invocation_validate p True of Some e \<Rightarrow> Some (wrapf [Lit ''receipt prior invocation: ''] e)
               | None \<Rightarrow> map_option (wrapf [Lit ''receipt resulting invocation: '']) (invocation_validate q True))
        | _ \<Rightarrow> Some (errorf [Lit ''receipt has invalid execution context lineage'']))
      else fails (tr_prior_invocation r \<noteq> None \<or> tr_resulting_invocation r \<noteq> None)
        [Lit ''receipt has invocation lineage without an execution context advance''])"

definition receipt_facets_error :: "transition_receipt \<Rightarrow> gerror option" where
  "receipt_facets_error r =
     (case normalize_state_facets ''receipt.changed_state_facets'' (tr_facets r) of
        Inl e \<Rightarrow> Some (wrapf [Lit ''receipt changed state facets are invalid or non-canonical: ''] e)
      | Inr fs \<Rightarrow> fails (fs \<noteq> tr_facets r) [Lit ''receipt changed state facets are invalid or non-canonical: <nil>''])"

definition receipt_capability_errors :: "transition_receipt \<Rightarrow> gerror option list" where
  "receipt_capability_errors r =
     (let norm = (\<lambda>field values. case normalize_effect_capabilities (''receipt.'' @ field) values of
            Inl e \<Rightarrow> Some e | Inr _ \<Rightarrow> None);
          missing = missing_capability (tr_required r) (new_capability_set (tr_granted r));
          outside = missing_capability (tr_exercised r) (new_capability_set (tr_required r))
      in [norm ''required_capabilities'' (tr_required r), norm ''granted_capabilities'' (tr_granted r),
          fails (missing \<noteq> []) [Lit ''receipt required capability '', Quoted missing, Lit '' was not admitted'']]
         @ (if tr_exercised r = [] then []
            else [norm ''exercised_capabilities'' (tr_exercised r),
                  fails (outside \<noteq> []) [Lit ''receipt exercised capability '', Quoted outside,
                    Lit '' outside exact admission'']]))"

definition receipt_verification_error :: "transition_receipt \<Rightarrow> gerror option" where
  "receipt_verification_error r =
     (case verification_fact_validate (tr_verification r) of
        Some e \<Rightarrow> Some (wrapf [Lit ''receipt verification does not prove its target snapshot: ''] e)
      | None \<Rightarrow> fails (vy_evidence (tr_verification r) \<noteq> tr_target r)
          [Lit ''receipt verification does not prove its target snapshot: <nil>''])"

text \<open>The sorted facts against the stored ones; the first argument is the previous sorted fact.\<close>

fun scan_effects :: "sd_effect_fact option \<Rightarrow> (sd_effect_fact \<times> sd_effect_fact) list \<Rightarrow> gerror option" where
  "scan_effects prev [] = None"
| "scan_effects prev ((f, stored) # rest) =
     (case effect_fact_check f of Some e \<Rightarrow> Some e
      | None \<Rightarrow>
          if f \<noteq> stored then Some (errorf [Lit ''receipt committed effects are not canonical''])
          else if prev = Some f then Some (errorf [Lit ''receipt duplicates a committed effect fact''])
          else scan_effects (Some f) rest)"

definition receipt_effects_error :: "transition_receipt \<Rightarrow> gerror option" where
  "receipt_effects_error r = scan_effects None (zip (sort_facts (tr_effects r)) (tr_effects r))"

definition source_error :: "authority_source \<Rightarrow> gerror option" where
  "source_error u =
     (if au_id u = [] \<or> \<not> authority_class_valid (au_class u) \<or> au_class u = Authority_none \<or> au_subject u = []
         \<or> au_fingerprint u = [] \<or> (au_role u = []) \<noteq> (au_provider u = [])
      then Some (errorf [Lit ''receipt has invalid authority provenance''])
      else fails (au_role u \<noteq> [] \<and> (validate_role (au_role u) \<noteq> None \<or> \<not> valid_sha256 (au_provider u)))
        [Lit ''receipt has invalid authority identity provenance''])"

fun scan_sources :: "string option \<Rightarrow> (authority_source \<times> authority_source) list \<Rightarrow> gerror option" where
  "scan_sources prev [] = None"
| "scan_sources prev ((u, stored) # rest) =
     (case source_error u of Some e \<Rightarrow> Some e
      | None \<Rightarrow>
          if prev = Some (au_id u)
          then Some (errorf [Lit ''receipt duplicates authority source '', Quoted (au_id u)])
          else if u \<noteq> stored then Some (errorf [Lit ''receipt authority provenance is not canonical''])
          else scan_sources (Some (au_id u)) rest)"

definition receipt_authority_errors :: "transition_receipt \<Rightarrow> gerror option list" where
  "receipt_authority_errors r =
     (let sources = sort_key au_id (tr_authority_sources r) in
      [scan_sources None (zip sources (tr_authority_sources r)),
       fails (content_id ''auth-'' (nil_array source_json sources) \<noteq> Inr (tr_authority r))
         [Lit ''receipt authority fingerprint does not match its provenance''],
       fails (tr_granted r \<noteq> sorted_capabilities (authority_capabilities (map au_class sources)))
         [Lit ''receipt granted capabilities do not match authority provenance'']])"

definition objective_fields_bad :: "transition_receipt \<Rightarrow> bool" where
  "objective_fields_bad r \<longleftrightarrow> tr_objective r = [] \<or> \<not> target_id_valid (tr_target_id r)
     \<or> tr_trusted r \<noteq> [] \<and> \<not> target_id_valid (tr_trusted r) \<or> tr_delivery r = []"

definition receipt_objective_error :: "transition_receipt \<Rightarrow> gerror option" where
  "receipt_objective_error r =
     (if \<not> scope_valid (tr_scope r) then Some (errorf [Lit ''receipt has invalid objective scope '', Quoted (tr_scope r)])
      else if tr_scope r = Objective_optional_preserve
      then (if tr_objective_status r = Fact_known
            then fails (objective_fields_bad r) [Lit ''maintenance receipt has incomplete known objective binding'']
            else if tr_objective_status r = Fact_absent
            then fails (tr_objective r \<noteq> [] \<or> tr_target_id r \<noteq> [] \<or> tr_delivery r \<noteq> [])
              [Lit ''maintenance receipt invents product intent from verified absence'']
            else Some (errorf [Lit ''maintenance receipt requires known or verified-absent objective status'']))
      else fails (objective_fields_bad r) [Lit ''receipt has incomplete objective identity''])"

definition receipt_timing_bad :: "transition_receipt \<Rightarrow> bool" where
  "receipt_timing_bad r \<longleftrightarrow> time_is_zero (tr_started_at r) \<or> time_before (tr_committed_at r) (tr_started_at r)
     \<or> tr_duration r \<noteq> time_sub (tr_committed_at r) (tr_started_at r)
     \<or> time_after (vy_verified_at (tr_verification r)) (tr_committed_at r)"

definition receipt_program_errors :: "transition_receipt \<Rightarrow> gerror option list" where
  "receipt_program_errors r =
     [fails ((tr_prior_program r = []) \<noteq> (tr_program_delta r = [])) [Lit ''receipt has incomplete program delta identity''],
      fails ((tr_runtime_version r = []) \<noteq> (tr_runtime_fingerprint r = [])
          \<or> (tr_runtime_version r = []) \<noteq> (tr_runtime_source r = []))
        [Lit ''receipt has incomplete runtime version, digest, or source identity''],
      fails (tr_prior_program r \<noteq> []
          \<and> program_delta_fingerprint (tr_prior_program r) (pf_fingerprint (tr_program r)) \<noteq> Inr (tr_program_delta r))
        [Lit ''receipt has invalid program delta identity''],
      fails (tr_program_accepted r \<and> (tr_prior_program r = [] \<or> tr_runtime_version r = []
          \<or> length (tr_runtime_fingerprint r) \<noteq> 64))
        [Lit ''receipt accepts a program change without exact delta and runtime identity''],
      fails (tr_transition r = ''installation.reconcile-update'' \<and> (\<not> tr_program_accepted r \<or> tr_prior_program r = []
          \<or> tr_runtime_version r = [] \<or> length (tr_runtime_fingerprint r) \<noteq> 64 \<or> tr_runtime_source r = []))
        [Lit ''reconciled installation receipt lacks exact program and runtime identity'']]"

definition receipt_errors :: "int \<Rightarrow> transition_receipt \<Rightarrow> gerror option list" where
  "receipt_errors schema r =
     [fails (sd_receipt_incomplete schema r) [Lit ''receipt has incomplete committed-transition identity or evidence''],
      fails ((tr_bundle_source r = []) \<noteq> (tr_bundle_target r = []) \<or> tr_bundle_source r \<noteq> []
          \<and> (length (tr_bundle_source r) \<noteq> 64 \<or> length (tr_bundle_target r) \<noteq> 64))
        [Lit ''receipt has incomplete repository control-bundle identity''],
      fails (tr_invocation_fingerprint r \<noteq> [] \<and> \<not> valid_sha256 (tr_invocation_fingerprint r))
        [Lit ''receipt has invalid invocation identity''],
      effect_outputs_error (tr_outputs r), lineage_error r,
      fails (tr_work r \<noteq> [] \<and> \<not> valid_sha256 (tr_work r)) [Lit ''receipt has invalid foreground work identity''],
      receipt_facets_error r, program_ref_validate (tr_program r)]
     @ receipt_capability_errors r
     @ [receipt_verification_error r, receipt_effects_error r]
     @ receipt_authority_errors r
     @ [receipt_objective_error r,
        fails (receipt_timing_bad r) [Lit ''receipt has invalid timing evidence'']]
     @ receipt_program_errors r
     @ [(case sd_receipt_identity r of Inl e \<Rightarrow> Some e
         | Inr h \<Rightarrow> fails (h \<noteq> tr_id r)
             [Lit ''receipt '', Quoted (tr_id r), Lit '' failed content identity verification''])]"

definition receipt_validate_schema :: "int \<Rightarrow> transition_receipt \<Rightarrow> gerror option" where
  "receipt_validate_schema schema r = first_failure (receipt_errors schema r)"

definition transition_receipt_validate :: "transition_receipt \<Rightarrow> gerror option" where
  "transition_receipt_validate r = receipt_validate_schema sd_receipt_schema_version r"

definition receipt_validate_history :: "transition_receipt \<Rightarrow> gerror option" where
  "receipt_validate_history r =
     (if tr_schema_version r = sd_receipt_schema_version then transition_receipt_validate r
      else if tr_schema_version r = previous_receipt_schema_version
      then if tr_outputs r \<noteq> [] \<or> tr_invocation_fingerprint r \<noteq> []
           then Some (errorf [Lit ''legacy receipt invents current-schema output or invocation evidence''])
           else receipt_validate_schema previous_receipt_schema_version r
      else Some (errorf [Lit ''receipt has unsupported committed-history schema '', Number (tr_schema_version r)]))"

end
