(* ===== verification/Delivery_Prepared.thy ===== *)
theory Delivery_Prepared
  imports Delivery_Files Delivery_Receipt
begin

text \<open>
  \<open>effects/prepared.go\<close>: a prepared effect, its execution as one transaction over the file store,
  its rollback, and the facts it reports; the two checks of \<open>effects/journal.go\<close> that tie those facts
  to the staged mutations.
\<close>

section \<open>Mutations and their facts\<close>

record resource_mutation =
  mu_resource :: string
  mu_owner :: string
  mu_path :: string
  mu_prior :: string
  mu_target :: string
  mu_prior_link :: string
  mu_target_link :: string
  mu_prior_exists :: bool
  mu_mode :: "32 word"
  mu_install_last :: bool
  mu_tree :: string
  mu_delete :: bool
  mu_facets :: "string list"

definition mutation_operation :: "resource_mutation \<Rightarrow> string" where
  "mutation_operation m =
     (if mu_delete m then ''delete'' else if mu_target_link m \<noteq> [] then ''symlink''
      else if \<not> mu_prior_exists m then ''create'' else ''update'')"

text \<open>\<open>json.Marshal\<close> of this struct cannot fail; an encoding that does not exist hashes as empty bytes.\<close>

definition mutation_state_fingerprint :: "bool \<Rightarrow> string \<Rightarrow> string \<Rightarrow> 32 word \<Rightarrow> string" where
  "mutation_state_fingerprint exists body link mode =
     (let file = exists \<and> link = [];
          digest = (if file then sha256_hex body else []); perm = (if file then mode else 0);
          raw = encode (JObj ([(''exists'', JBool exists)]
            @ omit_empty (digest = []) ''content_sha256'' (JStr digest)
            @ omit_empty (link = []) ''link'' (JStr link) @ omit_empty (perm = 0) ''mode'' (JInt (uint perm))))
      in sha256_hex (case raw of None \<Rightarrow> [] | Some s \<Rightarrow> s))"

definition prior_fingerprint :: "resource_mutation \<Rightarrow> string" where
  "prior_fingerprint m = mutation_state_fingerprint (mu_prior_exists m) (mu_prior m) (mu_prior_link m) (mu_mode m)"

definition result_fingerprint :: "resource_mutation \<Rightarrow> string" where
  "result_fingerprint m = mutation_state_fingerprint (\<not> mu_delete m) (mu_target m) (mu_target_link m) (mu_mode m)"

section \<open>Prepared effects\<close>

record effect_result =
  er_settlement :: string
  er_detail :: string
  er_outputs :: "parameter list"

text \<open>
  The external call and the final verification are parameters: functions of the store to a result
  and the store they leave.
\<close>

record prepared_effect =
  pe_mutations :: "resource_mutation list"
  pe_boundary :: "(file_store \<Rightarrow> (effect_result \<times> gerror option) \<times> file_store) option"
  pe_post_verify :: "(file_store \<Rightarrow> gerror option \<times> file_store) option"
  pe_verify_invocation :: "invocation option"
  pe_applied :: "resource_mutation list"
  pe_tree_roots :: "string list"
  pe_removed :: "(string \<times> resource_mutation list) list"
  pe_settled :: bool
  pe_result :: effect_result
  pe_transition :: sd_transition
  pe_required :: "string list"
  pe_effective :: "string list"
  pe_facets :: "string list"

definition effect_result_json :: "effect_result \<Rightarrow> json" where
  "effect_result_json r = JObj [(''Settlement'', JStr (er_settlement r)), (''Detail'', JStr (er_detail r)),
     (''Outputs'', nil_array parameter_json (er_outputs r))]"

definition mutation_fact :: "sd_transition \<Rightarrow> resource_mutation \<Rightarrow> sd_effect_fact" where
  "mutation_fact t m =
     \<lparr>xf_kind = Effect_resource_mutation, xf_effect = tn_effect t,
      xf_owner = (if mu_owner m = [] then tn_owner t else mu_owner m),
      xf_resource = (case tn_owned_resources t of [] \<Rightarrow> mu_resource m
         | r # _ \<Rightarrow> if mu_resource m = [] then r else mu_resource m),
      xf_target = mu_path m, xf_operation = mutation_operation m,
      xf_prior = prior_fingerprint m, xf_result = result_fingerprint m\<rparr>"

definition settled_fact :: "sd_transition \<Rightarrow> effect_result \<Rightarrow> sd_effect_fact" where
  "settled_fact t r =
     \<lparr>xf_kind = Effect_boundary_settled, xf_effect = tn_effect t, xf_owner = tn_owner t, xf_resource = [],
      xf_target = tn_id t, xf_operation = ''settled'', xf_prior = sha256_hex ''not-applicable'',
      xf_result = sha256_hex (case encode (effect_result_json r) of None \<Rightarrow> [] | Some s \<Rightarrow> s)\<rparr>"

definition committed_effects :: "prepared_effect \<Rightarrow> sd_effect_fact list" where
  "committed_effects p = map (mutation_fact (pe_transition p)) (pe_applied p)
     @ (if pe_settled p then [settled_fact (pe_transition p) (pe_result p)] else [])"

definition bind_prepared_capabilities ::
    "prepared_effect \<Rightarrow> sd_admission \<Rightarrow> sd_transition \<Rightarrow> gerror + prepared_effect" where
  "bind_prepared_capabilities p a t =
     (case validate_admitted_capabilities a t of Some e \<Rightarrow> Inl e
      | None \<Rightarrow> Inr (p\<lparr>pe_required := effect_required_capabilities t,
            pe_effective := ad_effective_capabilities a, pe_transition := t\<rparr>))"

section \<open>Trees that are installed at once\<close>

text \<open>
  \<open>filepath.Rel\<close> of a member: where it lies relative to the cleaned root, if that is below or at it.
\<close>

definition tree_member :: "string \<Rightarrow> string \<Rightarrow> bool" where
  "tree_member root path = (is_abs root = is_abs path \<and> under (clean_path root) (clean_path path))"

definition install_member :: "resource_mutation \<Rightarrow> file_store \<Rightarrow> file_store" where
  "install_member m w = w\<lparr>fs_entries :=
     AList.update (clean_path (mu_path m)) (Regular (mu_target m) (mu_mode m)) (fs_entries w)\<rparr>"

text \<open>
  Writing the members into the staging directory: a member outside the root is refused, the root
  itself is a directory that a file cannot replace, and each write makes eight calls.
\<close>

fun stage_members :: "string \<Rightarrow> resource_mutation list \<Rightarrow> file_store \<Rightarrow> gerror option \<times> file_store" where
  "stage_members root [] w = (None, w)"
| "stage_members root (m # ms) w =
     (if \<not> tree_member root (mu_path m) then (Some (errorf [Lit ''atomic tree member escapes root'']), w)
      else if clean_path (mu_path m) = clean_path root then (Some os_error, w)
      else case attempts 8 w of (Some e, w') \<Rightarrow> (Some e, w') | (None, w') \<Rightarrow> stage_members root ms w')"

definition atomic_install_tree :: "string \<Rightarrow> resource_mutation list \<Rightarrow> file_store \<Rightarrow> gerror option \<times> file_store" where
  "atomic_install_tree root ms w =
     (if \<not> is_abs root \<or> ms = [] then (Some (errorf [Lit ''atomic tree requires an absolute root and members'']), w)
      else if present root w then (Some (errorf [Lit ''atomic tree target already exists'']), w)
      else case attempts 3 w of (Some e, w') \<Rightarrow> (Some e, w')
        | (None, w') \<Rightarrow>
            (case stage_members root ms w' of (Some e, w'') \<Rightarrow> (Some e, w'')
             | (None, w'') \<Rightarrow>
                 (case attempts 2 w'' of (Some e, w3) \<Rightarrow> (Some e, w3)
                  | (None, w3) \<Rightarrow> (None, fold install_member ms w3))))"

section \<open>Executing\<close>

definition mutation_key :: "resource_mutation \<Rightarrow> string" where
  "mutation_key m = (if mu_install_last m then CHR ''1'' else CHR ''0'') # mu_path m"

definition ordered_mutations :: "prepared_effect \<Rightarrow> resource_mutation list" where
  "ordered_mutations p = sort_key mutation_key (pe_mutations p)"

definition deletes_all :: "resource_mutation list \<Rightarrow> bool" where
  "deletes_all ms = list_all (\<lambda>m. mu_delete m \<and> mu_target_link m = [] \<and> mu_target m = []) ms"

definition execute_tree ::
    "string \<Rightarrow> resource_mutation list \<Rightarrow> prepared_effect \<Rightarrow> file_store \<Rightarrow> gerror option \<times> prepared_effect \<times> file_store" where
  "execute_tree root ms p w =
     (let applied = p\<lparr>pe_applied := pe_applied p @ ms\<rparr>;
          synced = (\<lambda>q w. case sync_directory w of
            (Some e, w') \<Rightarrow> (Some (wrapf [Lit ''sync immutable resource tree parent '', Lit root, Lit '': ''] e), q, w')
          | (None, w') \<Rightarrow> (None, q, w')) in
      if deletes_all ms
      then (if \<not> list_all (\<lambda>m. tree_member root (mu_path m) \<and> clean_path (mu_path m) \<noteq> clean_path root) ms
            then (Some (errorf [Lit ''atomic tree deletion contains member outside root'']), p, w)
            else case remove_all root w of
                (Some e, w') \<Rightarrow> (Some (wrapf [Lit ''remove immutable resource tree '', Lit root, Lit '': ''] e), p, w')
              | (None, w') \<Rightarrow> synced (applied\<lparr>pe_removed := pe_removed p @ [(root, ms)]\<rparr>) w')
      else if list_all mu_prior_exists ms then (None, applied, w)
      else case atomic_install_tree root ms w of
          (Some e, w') \<Rightarrow> (Some (wrapf [Lit ''install immutable resource tree '', Lit root, Lit '': ''] e), p, w')
        | (None, w') \<Rightarrow> synced (applied\<lparr>pe_tree_roots := pe_tree_roots p @ [root]\<rparr>) w')"

fun execute_trees ::
    "resource_mutation list \<Rightarrow> string list \<Rightarrow> prepared_effect \<Rightarrow> file_store \<Rightarrow> gerror option \<times> prepared_effect \<times> file_store" where
  "execute_trees ms [] p w = (None, p, w)"
| "execute_trees ms (root # roots) p w =
     (case execute_tree root (filter (\<lambda>m. mu_tree m = root) ms) p w of
        (Some e, p', w') \<Rightarrow> (Some e, p', w')
      | (None, p', w') \<Rightarrow> execute_trees ms roots p' w')"

definition apply_mutation :: "resource_mutation \<Rightarrow> file_store \<Rightarrow> gerror option \<times> file_store" where
  "apply_mutation m w =
     (if mu_delete m then remove_file (mu_path m) w
      else if mu_target_link m \<noteq> [] then atomic_symlink (mu_path m) (mu_target_link m) w
      else atomic_write (mu_path m) (mu_target m) (mu_mode m) w)"

fun execute_regular ::
    "resource_mutation list \<Rightarrow> prepared_effect \<Rightarrow> file_store \<Rightarrow> gerror option \<times> prepared_effect \<times> file_store" where
  "execute_regular [] p w = (None, p, w)"
| "execute_regular (m # ms) p w =
     (case apply_mutation m w of
        (Some e, w') \<Rightarrow> (Some (wrapf [Lit ''install managed resource '', Lit (mu_path m), Lit '': ''] e), p, w')
      | (None, w') \<Rightarrow> execute_regular ms (p\<lparr>pe_applied := pe_applied p @ [m]\<rparr>) w')"

definition tree_roots :: "resource_mutation list \<Rightarrow> string list" where
  "tree_roots ms = sort (remdups (filter (\<lambda>r. r \<noteq> []) (map mu_tree ms)))"

text \<open>The mutations of the manifest, trees before regular files, then the final verification.\<close>

definition execute_mutations :: "prepared_effect \<Rightarrow> file_store \<Rightarrow> gerror option \<times> prepared_effect \<times> file_store" where
  "execute_mutations p w =
     (let ms = ordered_mutations p in
      case execute_trees ms (tree_roots ms) p w of (Some e, p', w') \<Rightarrow> (Some e, p', w')
      | (None, p', w') \<Rightarrow>
          (case execute_regular (filter (\<lambda>m. mu_tree m = []) ms) p' w' of (Some e, p'', w'') \<Rightarrow> (Some e, p'', w'')
           | (None, p'', w'') \<Rightarrow>
               (case pe_post_verify p'' of None \<Rightarrow> (None, p'', w'')
                | Some verify \<Rightarrow> (case verify w'' of (e, w3) \<Rightarrow> (e, p'', w3)))))"

definition settled_result :: effect_result where
  "settled_result = \<lparr>er_settlement = ''settled'', er_detail = [], er_outputs = []\<rparr>"

definition execute ::
    "prepared_effect \<Rightarrow> file_store \<Rightarrow> (effect_result \<times> gerror option) \<times> prepared_effect \<times> file_store" where
  "execute p w =
     (let missing = missing_capability (pe_required p) (new_capability_set (pe_effective p)) in
      if pe_required p = []
      then ((settled_result, Some (errorf [Lit ''effect boundary has no kernel capability classification''])), p, w)
      else if missing \<noteq> []
      then ((settled_result, Some (errorf [Lit ''EFFECT_CAPABILITY_DENIED '', Quoted missing,
              Lit '' at prepared effect boundary''])), p, w)
      else case pe_boundary p of
          None \<Rightarrow> (case execute_mutations p w of (e, p', w') \<Rightarrow> ((settled_result, e), p', w'))
        | Some call \<Rightarrow>
            (case call w of ((r, err), w') \<Rightarrow>
               if err \<noteq> None \<or> er_settlement r = ''unknown'' then ((r, err), p, w')
               else (case execute_mutations (p\<lparr>pe_settled := True, pe_result := r\<rparr>) w' of
                   (e, p', w'') \<Rightarrow> ((r, e), p', w''))))"

section \<open>Rolling back\<close>

text \<open>Each step collects its errors; the whole fails when there are any.\<close>

fun rollback_roots :: "string list \<Rightarrow> file_store \<Rightarrow> gerror list \<times> file_store" where
  "rollback_roots [] w = ([], w)"
| "rollback_roots (root # roots) w =
     (let (e, w') = (case remove_all root w of (Some e, w') \<Rightarrow> ([e], w')
             | (None, w') \<Rightarrow> (case sync_directory w' of (Some e, w'') \<Rightarrow> ([e], w'') | (None, w'') \<Rightarrow> ([], w'')));
          (es, w'') = rollback_roots roots w'
      in (e @ es, w''))"

definition undo_mutation :: "resource_mutation \<Rightarrow> file_store \<Rightarrow> gerror option \<times> file_store" where
  "undo_mutation m w =
     (if mu_tree m \<noteq> [] then (None, w)
      else if mu_prior_link m \<noteq> [] then atomic_symlink (mu_path m) (mu_prior_link m) w
      else if mu_prior_exists m then atomic_write (mu_path m) (mu_prior m) (mu_mode m) w
      else remove_file (mu_path m) w)"

fun rollback_applied :: "resource_mutation list \<Rightarrow> file_store \<Rightarrow> gerror list \<times> file_store" where
  "rollback_applied [] w = ([], w)"
| "rollback_applied (m # ms) w =
     (let (e, w') = undo_mutation m w; (es, w'') = rollback_applied ms w'
      in ((case e of None \<Rightarrow> es | Some x \<Rightarrow> x # es), w''))"

definition restore_members :: "string \<Rightarrow> resource_mutation list \<Rightarrow> resource_mutation list" where
  "restore_members root ms =
     map (\<lambda>m. \<lparr>mu_resource = [], mu_owner = [], mu_path = mu_path m, mu_prior = [], mu_target = mu_prior m,
            mu_prior_link = [], mu_target_link = mu_prior_link m, mu_prior_exists = False, mu_mode = mu_mode m,
            mu_install_last = mu_install_last m, mu_tree = root, mu_delete = False, mu_facets = []\<rparr>)
       (filter mu_prior_exists ms)"

fun rollback_removed :: "(string \<times> resource_mutation list) list \<Rightarrow> file_store \<Rightarrow> gerror list \<times> file_store" where
  "rollback_removed [] w = ([], w)"
| "rollback_removed ((root, ms) # rest) w =
     (let restore = restore_members root ms;
          (e, w') = (if restore = [] then ([], w)
            else case atomic_install_tree root restore w of (Some e, w') \<Rightarrow> ([e], w')
              | (None, w') \<Rightarrow> (case sync_directory w' of (Some e, w'') \<Rightarrow> ([e], w'') | (None, w'') \<Rightarrow> ([], w'')));
          (es, w'') = rollback_removed rest w'
      in (e @ es, w''))"

definition rollback :: "prepared_effect \<Rightarrow> file_store \<Rightarrow> gerror list \<times> prepared_effect \<times> file_store" where
  "rollback p w =
     (let (e1, w1) = rollback_roots (rev (pe_tree_roots p)) w;
          (e2, w2) = rollback_applied (rev (pe_applied p)) w1;
          (e3, w3) = rollback_removed (rev (pe_removed p)) w2;
          e4 = (if pe_settled p
            then [errorf [Lit ''external effect settled and requires reconciliation or compensation'']] else [])
      in (e1 @ e2 @ e3 @ e4, p\<lparr>pe_applied := [], pe_tree_roots := [], pe_removed := []\<rparr>, w3))"

section \<open>Facts against the staged mutations\<close>

text \<open>The first fact not yet matched that describes the mutation exactly; what is left without it.\<close>

definition fact_matches :: "resource_mutation \<Rightarrow> sd_effect_fact \<Rightarrow> bool" where
  "fact_matches m f \<longleftrightarrow> xf_target f = mu_path m \<and> xf_operation f = mutation_operation m
     \<and> xf_prior f = prior_fingerprint m \<and> xf_result f = result_fingerprint m"

fun take_fact :: "resource_mutation \<Rightarrow> sd_effect_fact list \<Rightarrow> sd_effect_fact list option" where
  "take_fact m [] = None"
| "take_fact m (f # fs) = (if fact_matches m f then Some fs else map_option ((#) f) (take_fact m fs))"

fun match_facts :: "resource_mutation list \<Rightarrow> sd_effect_fact list \<Rightarrow> gerror option" where
  "match_facts [] fs = None"
| "match_facts (m # ms) fs =
     (case take_fact m fs of
        None \<Rightarrow> Some (errorf [Lit ''staged mutation '', Lit (mu_path m), Lit '' has no exact committed effect fact''])
      | Some rest \<Rightarrow> match_facts ms rest)"

definition committed_mutation_facts ::
    "string \<Rightarrow> resource_mutation list \<Rightarrow> string list \<Rightarrow> sd_effect_fact list \<Rightarrow> gerror option" where
  "committed_mutation_facts event ms facets facts =
     (let resource = filter (\<lambda>f. xf_kind f = Effect_resource_mutation) facts in
      if union_state_facets (map mu_facets ms) \<noteq> facets
      then Some (errorf [Lit ''receipt changed state facets do not match staged mutation facets''])
      else if event = Event_owned_external \<and> \<not> list_ex (\<lambda>f. xf_kind f = Effect_boundary_settled) facts
      then Some (errorf [Lit ''owned external transaction lacks a settled boundary fact''])
      else if length resource \<noteq> length ms
      then Some (errorf [Lit ''resource fact count does not match staged mutation count''])
      else match_facts ms resource)"

definition receipt_work_relation :: "sd_admission \<Rightarrow> transition_receipt \<Rightarrow> gerror option" where
  "receipt_work_relation a r =
     fails (tr_work r \<noteq> (case ad_work a of None \<Rightarrow> [] | Some w \<Rightarrow> wk_result_fingerprint w))
       [Lit ''foreground-work identity does not match its exact admission'']"

end
