(* ===== verification/Delivery_Journal.thy ===== *)
theory Delivery_Journal
  imports Delivery_Ownership Delivery_Prepared
begin

text \<open>
  \<open>effects/journal.go\<close>: the transaction journal of an admission, from its pending record to a
  committed or an aborted one. A journal file holds a record: strict decoding of what
  \<open>encodeJSON\<close> wrote gives the record back, and encoding counts as one of the calls that may fail.
\<close>

section \<open>Records\<close>

record journal_record =
  jr_schema_version :: int
  jr_admission :: sd_admission
  jr_transition :: string
  jr_class :: string
  jr_allowed :: "string list"
  jr_reconciles :: bool
  jr_status :: string
  jr_mutations :: "resource_mutation list"
  jr_reason :: string
  jr_receipt_id :: string
  jr_receipt :: "transition_receipt option"
  jr_created :: gtime
  jr_updated :: gtime

definition journal_schema_version :: int where
  "journal_schema_version = 9"

definition journal_name :: "string \<Rightarrow> string \<Rightarrow> gerror + string" where
  "journal_name i suffix =
     (if \<not> has_prefix ''adm-'' i \<or> list_ex (\<lambda>c. c = CHR ''/'' \<or> c = backslash) i
      then Inl (errorf [Lit ''invalid admission identity '', Quoted i]) else Inr (i @ suffix))"

definition committed_bundle_error :: "sd_admission \<Rightarrow> transition_receipt \<Rightarrow> gerror option" where
  "committed_bundle_error a r =
     (case ad_bundle a of
        Some b \<Rightarrow> fails (tr_bundle_source r \<noteq> bs_fingerprint (bc_source b)
            \<or> tr_bundle_target r \<noteq> (case bc_target b of None \<Rightarrow> bs_fingerprint (bc_source b) | Some x \<Rightarrow> bs_fingerprint x))
          [Lit ''committed transition fact does not match its admitted control bundle'']
      | None \<Rightarrow> fails (tr_bundle_source r \<noteq> [] \<or> tr_bundle_target r \<noteq> [])
          [Lit ''committed transition fact invents a control bundle''])"

definition receipt_differs :: "sd_admission \<Rightarrow> transition_receipt \<Rightarrow> bool" where
  "receipt_differs a r \<longleftrightarrow>
     tr_prescription r \<noteq> ad_prescription a \<or> tr_transition_version r \<noteq> ad_transition_version a
     \<or> pf_fingerprint (tr_program r) \<noteq> ad_expected_program a
     \<or> tr_invocation_fingerprint r \<noteq> ad_invocation_fingerprint a \<or> tr_prior_revision r \<noteq> ad_expected_revision a
     \<or> tr_source r \<noteq> ad_expected_snapshot a \<or> tr_authority r \<noteq> ad_authority_fingerprint a
     \<or> tr_required r \<noteq> ad_required_capabilities a \<or> tr_granted r \<noteq> ad_granted_capabilities a
     \<or> tr_objective r \<noteq> so_id (ad_objective a) \<or> tr_target_id r \<noteq> so_target (ad_objective a)
     \<or> tr_trusted r \<noteq> so_trusted (ad_objective a) \<or> tr_delivery r \<noteq> so_delivery (ad_objective a)
     \<or> tr_scope r \<noteq> ad_scope a \<or> tr_objective_status r \<noteq> ad_objective_status a"

text \<open>The checks of a record that carries a receipt, in the order of \<open>readJournal\<close>.\<close>

definition journal_receipt_errors :: "bool \<Rightarrow> journal_record \<Rightarrow> transition_receipt \<Rightarrow> gerror option list" where
  "journal_receipt_errors legacy j r =
     (let a = jr_admission j; invalid = (if legacy then receipt_validate_history r else transition_receipt_validate r) in
      [fails (invalid \<noteq> None \<or> tr_id r \<noteq> jr_receipt_id j \<or> tr_admission r \<noteq> ad_id a \<or> tr_transition r \<noteq> jr_transition j)
         [Lit ''invalid committed transition fact''],
       fails (receipt_differs a r) [Lit ''committed transition fact does not match its exact admission''],
       receipt_work_relation a r,
       committed_bundle_error a r,
       committed_mutation_facts (jr_class j) (jr_mutations j) (tr_facets r) (tr_effects r)])"

text \<open>A record of the previous schemas is accepted only when it is committed.\<close>

definition legacy_committed :: "bool \<Rightarrow> journal_record \<Rightarrow> bool" where
  "legacy_committed committed j \<longleftrightarrow> committed \<and> jr_status j = ''committed''
     \<and> ad_schema_version (jr_admission j) = previous_admission_schema_version
     \<and> (case jr_receipt j of None \<Rightarrow> False | Some r \<Rightarrow> tr_schema_version r = previous_receipt_schema_version)"

definition facets_error :: "string \<Rightarrow> string list \<Rightarrow> bool \<Rightarrow> message \<Rightarrow> gerror option" where
  "facets_error name facets nonempty text =
     (case normalize_state_facets name facets of Inl e \<Rightarrow> Some (wrapf text e)
      | Inr fs \<Rightarrow> fails (nonempty \<and> fs = [] \<or> fs \<noteq> facets) text)"

text \<open>\<open>readJournal\<close> of a decoded record; the flag says that the name of its file ends in \<open>.committed\<close>.\<close>

definition read_journal_errors :: "bool \<Rightarrow> journal_record \<Rightarrow> gerror option list" where
  "read_journal_errors committed j =
     (let legacy = legacy_committed committed j; a = jr_admission j;
          invalid = (if legacy then admission_validate_history a else admission_validate_identity a) in
      [fails (jr_schema_version j \<noteq> journal_schema_version \<or> ad_id a = [] \<or> jr_transition j = []
          \<or> \<not> event_valid (jr_class j) \<or> \<not> event_controllable (jr_class j) \<or> jr_status j = [])
         [Lit ''invalid transaction journal''],
       fails (invalid \<noteq> None \<or> ad_transition_id a \<noteq> jr_transition j) [Lit ''invalid transaction admission''],
       facets_error ''journal allowed state facets'' (jr_allowed j) True [Lit ''invalid allowed state facets''],
       first_error (\<lambda>m. facets_error ''journal mutation state facets'' (mu_facets m) False
         [Lit ''invalid transaction state facets'']) (jr_mutations j)]
      @ (case jr_receipt j of None \<Rightarrow> [] | Some r \<Rightarrow> journal_receipt_errors legacy j r)
      @ [fails (committed \<and> (jr_status j \<noteq> ''committed'' \<or> jr_receipt j = None))
          [Lit ''committed transaction journal lacks its canonical transition fact'']])"

definition read_journal_check :: "bool \<Rightarrow> journal_record \<Rightarrow> gerror option" where
  "read_journal_check committed j = first_failure (read_journal_errors committed j)"

section \<open>The journal and its files\<close>

text \<open>
  The files by admission and suffix, the pending files this process has bound, and the outcomes of
  the calls to come as in the file store.
\<close>

datatype journal_suffix = Pending | Committed | Aborted

record journal_state =
  jl_files :: "((string \<times> journal_suffix) \<times> journal_record) list"
  jl_active :: "string list"
  jl_calls :: "os_outcome list"
  jl_syncs :: "bool list"

definition journal_at :: "journal_state \<Rightarrow> string \<Rightarrow> journal_suffix \<Rightarrow> journal_record option" where
  "journal_at s i x = map_of (jl_files s) (i, x)"

definition journal_call :: "journal_state \<Rightarrow> bool \<times> journal_state" where
  "journal_call s = (case jl_calls s of [] \<Rightarrow> (True, s) | x # xs \<Rightarrow> (x = Fine, s\<lparr>jl_calls := xs\<rparr>))"

fun journal_attempts :: "nat \<Rightarrow> journal_state \<Rightarrow> gerror option \<times> journal_state" where
  "journal_attempts 0 s = (None, s)"
| "journal_attempts (Suc n) s =
     (case journal_call s of (True, s') \<Rightarrow> journal_attempts n s' | (False, s') \<Rightarrow> (Some os_error, s'))"

definition journal_try :: "journal_state \<Rightarrow> gerror option \<times> journal_state" where
  "journal_try s = journal_attempts 1 s"

definition journal_sync :: "journal_state \<Rightarrow> gerror option \<times> journal_state" where
  "journal_sync s =
     (case jl_syncs s of [] \<Rightarrow> (None, s)
      | failed # rest \<Rightarrow> (if failed then Some os_error else None, s\<lparr>jl_syncs := rest\<rparr>))"

definition put_journal :: "string \<Rightarrow> journal_suffix \<Rightarrow> journal_record \<Rightarrow> journal_state \<Rightarrow> journal_state" where
  "put_journal i x j s = s\<lparr>jl_files := AList.update (i, x) j (jl_files s)\<rparr>"

definition drop_journal :: "string \<Rightarrow> journal_suffix \<Rightarrow> journal_state \<Rightarrow> journal_state" where
  "drop_journal i x s = s\<lparr>jl_files := AList.delete (i, x) (jl_files s)\<rparr>"

text \<open>
  Encoding, then \<open>atomicWrite\<close>: seven calls before the replacement, and the synchronisation after
  it. The file is given by the record that was encoded. For a record whose texts are valid UTF-8
  \<open>encodeJSON\<close> followed by the strict decoder of \<open>readJournal\<close> gives the record back; other texts
  lose their invalid bytes to U+FFFD on the way, which is not modelled.
\<close>

definition write_journal :: "string \<Rightarrow> journal_suffix \<Rightarrow> journal_record \<Rightarrow> journal_state \<Rightarrow> gerror option \<times> journal_state" where
  "write_journal i x j s =
     (case journal_attempts 8 s of (Some e, s') \<Rightarrow> (Some e, s') | (None, s') \<Rightarrow> journal_sync (put_journal i x j s'))"

text \<open>Reading: the call, then the checks of the decoded record.\<close>

definition read_journal :: "string \<Rightarrow> journal_suffix \<Rightarrow> journal_state \<Rightarrow> (gerror + journal_record) \<times> journal_state" where
  "read_journal i x s =
     (case journal_try s of (Some e, s') \<Rightarrow> (Inl e, s')
      | (None, s') \<Rightarrow>
          (case journal_at s' i x of None \<Rightarrow> (Inl os_error, s')
           | Some j \<Rightarrow> (case read_journal_check (x = Committed) j of Some e \<Rightarrow> (Inl e, s') | None \<Rightarrow> (Inr j, s'))))"

text \<open>The name is checked, then the path bound to it is looked up.\<close>

definition bound_journal :: "string \<Rightarrow> journal_state \<Rightarrow> gerror option" where
  "bound_journal i s =
     (case journal_name i ''.pending'' of Inl e \<Rightarrow> Some e
      | Inr name \<Rightarrow> fails (i \<notin> set (jl_active s)) [Lit ''transaction journal path is not bound for '', Lit i])"

section \<open>Operations\<close>

text \<open>The layout is a parameter that may fail to resolve.\<close>

definition journal_begin ::
    "gerror option \<Rightarrow> sd_admission \<Rightarrow> sd_transition \<Rightarrow> gtime \<Rightarrow> journal_state \<Rightarrow> gerror option \<times> journal_state" where
  "journal_begin layout a t now s =
     (case layout of Some e \<Rightarrow> (Some e, s)
      | None \<Rightarrow>
        (case journal_name (ad_id a) ''.pending'' of Inl e \<Rightarrow> (Some e, s)
         | Inr name \<Rightarrow>
           (case journal_try s of (Some e, s') \<Rightarrow> (Some e, s')
            | (None, s') \<Rightarrow>
              if journal_at s' (ad_id a) Pending \<noteq> None
              then (Some (errorf [Lit ''transaction journal already exists for admission '', Lit (ad_id a)]), s')
              else (case durable_state_facet_policy t of Inl e \<Rightarrow> (Some e, s')
                | Inr policy \<Rightarrow>
                    (case write_journal (ad_id a) Pending
                        \<lparr>jr_schema_version = journal_schema_version, jr_admission = a, jr_transition = tn_id t,
                         jr_class = tn_class t, jr_allowed = fp_writes policy,
                         jr_reconciles = pl_reconciles_program (tn_policy t), jr_status = ''begun'', jr_mutations = [],
                         jr_reason = [], jr_receipt_id = [], jr_receipt = None, jr_created = time_utc now,
                         jr_updated = time_utc now\<rparr> s' of
                       (Some e, s'') \<Rightarrow> (Some e, s'')
                     | (None, s'') \<Rightarrow> (None, s''\<lparr>jl_active := List.insert (ad_id a) (jl_active s'')\<rparr>))))))"

definition journal_update ::
    "string \<Rightarrow> (journal_record \<Rightarrow> journal_record) \<Rightarrow> gtime \<Rightarrow> journal_state \<Rightarrow> gerror option \<times> journal_state" where
  "journal_update i change now s =
     (case bound_journal i s of Some e \<Rightarrow> (Some e, s)
      | None \<Rightarrow> (case read_journal i Pending s of (Inl e, s') \<Rightarrow> (Some e, s')
          | (Inr j, s') \<Rightarrow> write_journal i Pending ((change j)\<lparr>jr_updated := time_utc now\<rparr>) s'))"

definition journal_stage ::
    "string \<Rightarrow> resource_mutation list \<Rightarrow> gtime \<Rightarrow> journal_state \<Rightarrow> gerror option \<times> journal_state" where
  "journal_stage i ms = journal_update i (\<lambda>j. j\<lparr>jr_status := ''staged'', jr_mutations := ms\<rparr>)"

text \<open>
  \<open>strings.TrimSpace\<close> leaves nothing: the text is a sequence of Unicode white space, in UTF-8
  (U+0009 to U+000D, U+0020, U+0085, U+00A0, U+1680, U+2000 to U+200A, U+2028, U+2029, U+202F,
  U+205F and U+3000).
\<close>

definition space_width :: "string \<Rightarrow> nat" where
  "space_width v =
     (let bytes = map code v in
      if take 1 bytes \<in> set (map (\<lambda>b. [b]) ([9..<14] @ [32])) then 1
      else if take 2 bytes \<in> {[194, 133], [194, 160]} then 2
      else if take 3 bytes \<in> set (map (\<lambda>b. [226, 128, b]) ([128..<139] @ [168, 169, 175]))
              \<or> take 3 bytes \<in> {[225, 154, 128], [226, 129, 159], [227, 128, 128]} then 3
      else 0)"

function blank_text :: "string \<Rightarrow> bool" where
  "blank_text v =
     (if v = [] then True else if space_width v = 0 then False else blank_text (drop (space_width v) v))"
  by pat_completeness auto

termination
  by (relation "measure length") auto

declare blank_text.simps [simp del]

definition journal_mark :: "string \<Rightarrow> string \<Rightarrow> gtime \<Rightarrow> journal_state \<Rightarrow> gerror option \<times> journal_state" where
  "journal_mark i status now s =
     (if blank_text status then (Some (errorf [Lit ''journal status is required'']), s)
      else journal_update i (\<lambda>j. j\<lparr>jr_status := status\<rparr>) now s)"

definition journal_abort :: "string \<Rightarrow> string \<Rightarrow> gtime \<Rightarrow> journal_state \<Rightarrow> gerror option \<times> journal_state" where
  "journal_abort i reason now s =
     (case bound_journal i s of Some e \<Rightarrow> (Some e, s)
      | None \<Rightarrow>
        (case read_journal i Pending s of (Inl e, s1) \<Rightarrow> (Some e, s1)
         | (Inr j, s1) \<Rightarrow>
           (case write_journal i Aborted (j\<lparr>jr_status := ''aborted'', jr_reason := reason, jr_receipt_id := [],
                 jr_receipt := None, jr_updated := time_utc now\<rparr>) s1 of
              (Some e, s2) \<Rightarrow> (Some e, s2)
            | (None, s2) \<Rightarrow>
                (case journal_try s2 of (Some e, s3) \<Rightarrow> (Some e, s3)
                 | (None, s3) \<Rightarrow> (None, (drop_journal i Pending s3)\<lparr>jl_active := removeAll i (jl_active s3)\<rparr>)))))"

definition journal_require_recovery ::
    "string \<Rightarrow> string \<Rightarrow> gtime \<Rightarrow> journal_state \<Rightarrow> gerror option \<times> journal_state" where
  "journal_require_recovery i reason = journal_update i (\<lambda>j. j\<lparr>jr_status := ''recovery-required'', jr_reason := reason,
     jr_receipt_id := [], jr_receipt := None\<rparr>)"

text \<open>
  \<open>Commit\<close>: the whole fact goes into the pending record, then that record is renamed; if only the
  synchronisation fails, the rename is taken back.
\<close>

definition move_journal :: "string \<Rightarrow> journal_suffix \<Rightarrow> journal_suffix \<Rightarrow> journal_record \<Rightarrow> journal_state \<Rightarrow> journal_state" where
  "move_journal i x y j s = drop_journal i x (put_journal i y j s)"

definition journal_install :: "string \<Rightarrow> journal_record \<Rightarrow> journal_state \<Rightarrow> gerror option \<times> journal_state" where
  "journal_install i j s =
     (case journal_try s of (Some e, s1) \<Rightarrow> (Some e, s1)
      | (None, s1) \<Rightarrow>
        if journal_at s1 i Committed \<noteq> None
        then (Some (errorf [Lit ''committed transaction journal already exists for '', Lit i]), s1)
        else (case journal_try s1 of (Some e, s2) \<Rightarrow> (Some e, s2)
          | (None, s2) \<Rightarrow>
              (case journal_sync (move_journal i Pending Committed j s2) of
                 (None, s3) \<Rightarrow> (None, s3\<lparr>jl_active := removeAll i (jl_active s3)\<rparr>)
               | (Some e, s3) \<Rightarrow>
                   (case journal_try s3 of
                      (None, s4) \<Rightarrow> (Some e, move_journal i Committed Pending j s4)
                    | (Some e', s4) \<Rightarrow>
                        (Some (wrapf [Lit ''restore pending journal after directory sync failure: ''] e'), s4)))))"

definition journal_commit :: "transition_receipt \<Rightarrow> gtime \<Rightarrow> journal_state \<Rightarrow> gerror option \<times> journal_state" where
  "journal_commit r now s =
     (let i = tr_admission r in
      case transition_receipt_validate r of Some e \<Rightarrow> (Some e, s)
      | None \<Rightarrow>
        (case bound_journal i s of Some e \<Rightarrow> (Some e, s)
         | None \<Rightarrow>
           (case read_journal i Pending s of (Inl e, s1) \<Rightarrow> (Some e, s1)
            | (Inr j, s1) \<Rightarrow>
              if ad_id (jr_admission j) \<noteq> tr_admission r \<or> jr_transition j \<noteq> tr_transition r
              then (Some (errorf [Lit ''transition fact does not match its transaction journal'']), s1)
              else (let j' = j\<lparr>jr_status := ''committed'', jr_reason := [], jr_receipt_id := tr_id r,
                      jr_receipt := Some r, jr_updated := time_utc now\<rparr> in
                    case write_journal i Pending j' s1 of (Some e, s2) \<Rightarrow> (Some e, s2)
                    | (None, s2) \<Rightarrow> journal_install i j' s2))))"

end
