(* ===== verification/Delivery_Supervisor.thy ===== *)
theory Delivery_Supervisor
  imports Delivery_Protocol
begin

text \<open>
  \<open>boatstack/internal/softwaredelivery/supervisor\<close>: the projection of the catalog onto the kernel's
  relation (\<open>supervisor.go\<close>) and the law of the command hook (\<open>guard.go\<close>). The classification
  of raw command text by regular expressions (\<open>classify.go\<close>) is not modelled: an intent is an
  argument of the guard.
\<close>

section \<open>Decisions\<close>

abbreviation Decision_prescribed :: string where "Decision_prescribed \<equiv> ''PRESCRIBED''"
abbreviation Decision_terminal :: string where "Decision_terminal \<equiv> ''TERMINAL''"
abbreviation Decision_frontier :: string where "Decision_frontier \<equiv> ''FRONTIER''"
abbreviation Decision_blocked :: string where "Decision_blocked \<equiv> ''BLOCKED''"
abbreviation Decision_refused :: string where "Decision_refused \<equiv> ''REFUSED''"
abbreviation Decision_unresolved :: string where "Decision_unresolved \<equiv> ''UNRESOLVED''"

definition reason_program_drift :: string where
  "reason_program_drift = ''compiled control program drift requires explicit reconciliation''"

record sd_decision =
  de_kind :: string
  de_snapshot :: string
  de_transition :: "sd_transition option"
  de_candidates :: "string list"
  de_reason :: message

record supervisor =
  sv_registry :: registry
  sv_contracts :: objective_contracts

definition map_decision_kind :: "decision_kind \<Rightarrow> string" where
  "map_decision_kind k =
     (case k of Prescribed \<Rightarrow> Decision_prescribed | Marked \<Rightarrow> Decision_terminal
      | Frontier \<Rightarrow> Decision_frontier | Blocked \<Rightarrow> Decision_blocked | Refused \<Rightarrow> Decision_refused
      | Unresolved \<Rightarrow> Decision_unresolved)"

section \<open>Authority of a transition\<close>

definition authority_capability :: "string \<Rightarrow> capability" where
  "authority_capability class = ''authority.'' @ class"

definition available_authority :: "authority_set \<Rightarrow> capability list" where
  "available_authority authority = map authority_capability (filter (\<lambda>c. c \<noteq> Authority_none) authority)"

text \<open>The two results of \<open>relationAuthority\<close>: what is required of the policy in addition.\<close>

definition policy_required :: "sd_observation \<Rightarrow> sd_transition \<Rightarrow> capability list" where
  "policy_required s t =
     (let rule = pl_authority_rule (tn_policy t); policy = f_value (ob_configuration_policy s);
          known_policy = is_known (ob_configuration_policy s)
      in (if rule \<noteq> [] \<and> \<not> known_policy then [''authority.verified-configuration-policy''] else [])
         @ (if rule = ''plan-approval'' \<and> known_policy \<and> cp_plan_approval policy = ''human''
            then [authority_capability Authority_human] else [])
         @ (if rule = ''independent-high-risk-review'' \<and> known_policy
               \<and> cp_independent_review policy \<and> cp_high_risk_change policy
            then [authority_capability Authority_human] else []))"

definition relation_authority :: "sd_observation \<Rightarrow> sd_transition \<Rightarrow> capability list \<times> capability list" where
  "relation_authority s t =
     (map authority_capability (filter (\<lambda>c. c \<noteq> Authority_none) (tn_authority_all t)) @ policy_required s t,
      if contains (tn_authority t) Authority_none then [] else map authority_capability (tn_authority t))"

section \<open>Domain predicates\<close>

definition host_enabled :: "string list \<Rightarrow> string \<Rightarrow> bool" where
  "host_enabled hosts host = contains hosts host"

definition permitted_program_drift_recovery :: "sd_observation \<Rightarrow> sd_transition \<Rightarrow> bool" where
  "permitted_program_drift_recovery s t =
     (if tn_class t \<noteq> Event_recovery \<or> \<not> is_known (ob_phase s) \<or> f_value (ob_phase s) \<noteq> Phase_recovery
         \<or> \<not> is_known (ob_recovery_info s) then False
      else contains (rx_permitted (f_value (ob_recovery_info s))) (tn_id t))"

definition current_evidence_recorded :: "sd_observation \<Rightarrow> string \<Rightarrow> bool" where
  "current_evidence_recorded s prefix =
     (if \<not> is_known (ob_verification s) then False
      else (let current = filter (\<lambda>r. r \<noteq> []) (map ev_revision (f_evidence (ob_delivery s))) in
        list_ex (\<lambda>e. has_prefix prefix (ev_source e) \<and> ev_revision e \<noteq> [] \<and> contains current (ev_revision e))
          (f_evidence (ob_verification s))))"

definition target_already_satisfied :: "sd_observation \<Rightarrow> sd_objective \<Rightarrow> sd_transition \<Rightarrow> bool" where
  "target_already_satisfied s ob t =
     (let p = tn_policy t in
      if pl_rechecks_external p then False
      else if pl_binds_objective p then is_known (ob_objective s) \<and> f_value (ob_objective s) = ob
      else if pl_required_when p = ''visual-evidence-required''
              \<and> (\<not> is_known (ob_configuration_policy s)
                 \<or> cp_visual_evidence (f_value (ob_configuration_policy s)) \<noteq> ''required'') then True
      else if pl_evidence_prefix p \<noteq> [] then current_evidence_recorded s (pl_evidence_prefix p)
      else target_matches t s)"

definition policy_allows :: "sd_observation \<Rightarrow> sd_transition \<Rightarrow> bool \<times> message" where
  "policy_allows s t =
     (if tn_class t = Event_recovery \<and> is_known (ob_recovery_info s)
         \<and> \<not> contains (rx_permitted (f_value (ob_recovery_info s))) (tn_id t)
      then (False, [Lit ''recovery transition '', Quoted (tn_id t), Lit '' is not permitted for transaction '',
                    Quoted (rx_transaction (f_value (ob_recovery_info s)))])
      else if pl_availability_rule (tn_policy t) = [] then (True, [])
      else if \<not> is_known (ob_configuration_policy s)
      then (False, [Lit ''transition '', Quoted (tn_id t), Lit '' requires known configuration policy''])
      else if pl_availability_rule (tn_policy t) = ''visual-evidence-enabled''
              \<and> cp_visual_evidence (f_value (ob_configuration_policy s)) = ''off''
      then (False, [Lit ''visual evidence is disabled by repository policy''])
      else (True, []))"

section \<open>The evaluation of one transition\<close>

definition evaluated :: "bool \<Rightarrow> message \<Rightarrow> evaluation_trace" where
  "evaluated ok reason = \<lparr>e_evaluated = True, e_satisfied = ok, e_reason = reason\<rparr>"

definition transition_trace :: "sd_transition \<Rightarrow> candidate_trace" where
  "transition_trace t =
     (new_candidate_trace (tn_id t) (tn_priority t))
       \<lparr>c_rank := selection_rank (tn_selection t), c_class := tn_selection t\<rparr>"

text \<open>The end of the loop body: an admissible transition becomes a candidate.\<close>

definition admit_candidate ::
    "sd_observation \<Rightarrow> sd_objective \<Rightarrow> sd_transition \<Rightarrow> candidate_trace
       \<Rightarrow> candidate_trace \<times> relation_candidate option" where
  "admit_candidate s ob t trace =
     (let satisfied = target_already_satisfied s ob t;
          selectable = (implicitly_selectable t \<and> \<not> satisfied);
          reason = (if \<not> implicitly_selectable t then ''transition requires an explicit request''
                    else if satisfied then ''transition target is already satisfied''
                    else ''transition is selectable for untargeted progress'')
      in (trace\<lparr>c_selection := evaluated selectable [Lit reason], c_selectable := selectable,
                c_survived := True, c_disposition := Disposition_shadowed\<rparr>,
          Some \<lparr>rc_id = tn_id t, rc_rank = selection_rank (tn_selection t), rc_priority = tn_priority t,
                rc_selectable = selectable, rc_required_all = fst (relation_authority s t),
                rc_required_any = snd (relation_authority s t)\<rparr>))"

text \<open>The checks of the objective and of the domain, once source and recovery have passed.\<close>

definition screen_objective ::
    "sd_observation \<Rightarrow> sd_objective \<Rightarrow> sd_transition \<Rightarrow> candidate_trace
       \<Rightarrow> candidate_trace \<times> relation_candidate option" where
  "screen_objective s ob t trace =
     (let (in_scope, scope_reason) = objective_evaluation t ob;
          trace = trace\<lparr>c_scope := evaluated in_scope scope_reason\<rparr>;
          (allowed, domain_reason) = policy_allows s t
      in if \<not> in_scope then (trace\<lparr>c_disposition := Disposition_objective_rejected\<rparr>, None)
         else if is_known (ob_objective s) \<and> f_value (ob_objective s) \<noteq> ob \<and> \<not> pl_binds_objective (tn_policy t)
         then (trace\<lparr>c_mutation := evaluated False
                  [Lit ''transition cannot replace the current objective binding''],
                c_disposition := Disposition_objective_rejected\<rparr>, None)
         else (let trace = trace\<lparr>c_mutation := evaluated True [Lit ''objective binding is compatible'']\<rparr> in
           if \<not> allowed
           then (trace\<lparr>c_domain := evaluated False domain_reason,
                       c_disposition := Disposition_domain_rejected\<rparr>, None)
           else admit_candidate s ob t (trace\<lparr>c_domain := evaluated True
             (if domain_reason = [] then [Lit ''software-delivery predicates are satisfied'']
              else domain_reason)\<rparr>)))"

definition screen_transition ::
    "sd_observation \<Rightarrow> sd_objective \<Rightarrow> string \<Rightarrow> sd_transition \<Rightarrow> candidate_trace \<times> relation_candidate option" where
  "screen_transition s ob requested t =
     (let trace = transition_trace t; (source_ok, source_reason) = source_evaluation t s in
      if requested \<noteq> [] \<and> tn_id t \<noteq> requested
      then (trace\<lparr>c_disposition := Disposition_irrelevant_to_request\<rparr>, None)
      else if \<not> tn_controllable t
      then (trace\<lparr>c_domain := evaluated False
               [Lit ''observed external events are not controllable candidates''],
             c_disposition := Disposition_domain_rejected\<rparr>, None)
      else (let trace = trace\<lparr>c_source_mode := evaluated source_ok source_reason\<rparr> in
        if \<not> source_ok then (trace\<lparr>c_disposition := Disposition_source_mode_rejected\<rparr>, None)
        else if f_value (ob_phase s) = Phase_recovery \<and> tn_class t \<noteq> Event_recovery
        then (trace\<lparr>c_recovery := evaluated False
                 [Lit ''only recovery transitions are compatible with the recovery phase''],
               c_disposition := Disposition_recovery_rejected\<rparr>, None)
        else screen_objective s ob t
          (trace\<lparr>c_recovery := evaluated True [Lit ''recovery state is compatible'']\<rparr>)))"

section \<open>Resolution\<close>

text \<open>The checks before the loop, with the decision they give.\<close>

definition objective_provided :: "sd_objective \<Rightarrow> bool" where
  "objective_provided ob = (so_id ob \<noteq> [] \<or> so_target ob \<noteq> [] \<or> so_trusted ob \<noteq> [] \<or> so_delivery ob \<noteq> [])"

definition drift_refuses :: "registry \<Rightarrow> sd_observation \<Rightarrow> string \<Rightarrow> bool" where
  "drift_refuses reg s requested =
     (case registry_lookup reg requested of None \<Rightarrow> True
      | Some t \<Rightarrow> \<not> pl_reconciles_program (tn_policy t) \<and> \<not> permitted_program_drift_recovery s t)"

definition supervise_early ::
    "supervisor \<Rightarrow> sd_snapshot \<Rightarrow> sd_objective \<Rightarrow> string \<Rightarrow> (string \<times> message) option" where
  "supervise_early sv sn ob requested =
     (let s = sn_observation sn in
      if objective_provided ob \<and> sd_objective_validate ob \<noteq> None
         \<or> \<not> objective_provided ob \<and> f_status (ob_objective s) \<noteq> Fact_absent \<or> sn_fingerprint sn = []
      then Some (Decision_unresolved, [Lit ''objective or canonical snapshot is invalid''])
      else if objective_provided ob \<and> \<not> contracts_accept (sv_contracts sv) ob
      then Some (Decision_refused, [Lit ''objective target and trusted class do not match the compiled program''])
      else if \<not> is_known (ob_terminal s) \<or> \<not> is_known (ob_phase s)
      then Some (Decision_unresolved, [Lit ''terminal or phase evidence is not known''])
      else if \<not> is_known (ob_program s)
      then Some (Decision_unresolved, [Lit ''compiled control program evidence is not known''])
      else if f_value (ob_program s) = Program_drift \<and> drift_refuses (sv_registry sv) s requested
      then Some (Decision_unresolved, [Lit reason_program_drift])
      else if is_known (ob_configuration_policy s)
              \<and> \<not> host_enabled (cp_hosts (f_value (ob_configuration_policy s))) (iv_host (ob_invocation s))
      then Some (Decision_refused, [Lit ''host '', Quoted (iv_host (ob_invocation s)),
                                    Lit '' is not enabled by repository policy''])
      else if requested \<noteq> [] \<and> (case registry_lookup (sv_registry sv) requested of
                None \<Rightarrow> True | Some t \<Rightarrow> \<not> tn_controllable t)
      then Some (Decision_refused, [Lit ''transition '', Quoted requested,
                                    Lit '' is not a controllable registry event''])
      else None)"

definition sd_merge_trace :: "candidate_trace list \<Rightarrow> candidate_trace \<Rightarrow> candidate_trace" where
  "sd_merge_trace relation ct =
     (case map_of (rev (map (\<lambda>r. (c_transition r, r)) relation)) (c_transition ct) of
        None \<Rightarrow> ct
      | Some r \<Rightarrow> ct\<lparr>c_selectable := c_selectable r, c_authority := c_authority r,
                     c_survived := c_survived r, c_disposition := c_disposition r\<rparr>)"

definition relation_input_of ::
    "supervisor \<Rightarrow> sd_snapshot \<Rightarrow> sd_objective \<Rightarrow> authority_set \<Rightarrow> string \<Rightarrow> relation_input" where
  "relation_input_of sv sn ob authority requested =
     (let s = sn_observation sn in
      \<lparr>ri_requested = requested, ri_marked = contracts_match (sv_contracts sv) s ob,
       ri_no_candidate = Some (if f_value (ob_phase s) = Phase_recovery \<or> f_value (ob_phase s) = Phase_unresolved
                               then Blocked else Unresolved),
       ri_candidates = List.map_filter (\<lambda>t. snd (screen_transition s ob requested t)) (rg_ordered (sv_registry sv)),
       ri_available = available_authority authority\<rparr>)"

text \<open>\<open>resolve\<close>: the decision and the trace of every transition.\<close>

definition supervise_with_trace ::
    "supervisor \<Rightarrow> sd_snapshot \<Rightarrow> sd_objective \<Rightarrow> authority_set \<Rightarrow> string
       \<Rightarrow> sd_decision \<times> candidate_trace list" where
  "supervise_with_trace sv sn ob authority requested =
     (case supervise_early sv sn ob requested of
        Some (kind, reason) \<Rightarrow>
          (\<lparr>de_kind = kind, de_snapshot = sn_fingerprint sn, de_transition = None, de_candidates = [],
            de_reason = reason\<rparr>, [])
      | None \<Rightarrow>
          (let s = sn_observation sn; all = rg_ordered (sv_registry sv);
               inp = relation_input_of sv sn ob authority requested; (d, relation) = relate_with_trace inp;
               candidates = filter (\<lambda>t. snd (screen_transition s ob requested t) \<noteq> None) all
           in (\<lparr>de_kind = map_decision_kind (d_kind d), de_snapshot = sn_fingerprint sn,
                de_transition = (if d_kind d = Prescribed
                  then map_of (rev (map (\<lambda>t. (tn_id t, t)) candidates)) (d_transition d) else None),
                de_candidates = d_candidates d, de_reason = d_reason d\<rparr>,
               map (\<lambda>t. sd_merge_trace relation (fst (screen_transition s ob requested t))) all)))"

definition supervise ::
    "supervisor \<Rightarrow> sd_snapshot \<Rightarrow> sd_objective \<Rightarrow> authority_set \<Rightarrow> string \<Rightarrow> sd_decision" where
  "supervise sv sn ob authority requested = fst (supervise_with_trace sv sn ob authority requested)"

section \<open>The command hook\<close>

abbreviation Intent_ordinary :: string where "Intent_ordinary \<equiv> ''ordinary''"
abbreviation Intent_managed_bypass :: string where "Intent_managed_bypass \<equiv> ''managed-bypass''"
abbreviation Intent_destructive :: string where "Intent_destructive \<equiv> ''destructive''"

record command_intent =
  ci_class :: string
  ci_operation :: string
  ci_fingerprint :: string
  ci_transition :: string

definition intent_validate :: "command_intent \<Rightarrow> gerror option" where
  "intent_validate i =
     (if ci_fingerprint i = [] \<or> ci_operation i = []
      then Some (errorf [Lit ''command intent requires operation and fingerprint''])
      else if ci_class i = Intent_ordinary \<or> ci_class i = Intent_destructive
      then fails (ci_transition i \<noteq> []) [Lit (ci_class i), Lit '' intent cannot name a managed transition'']
      else if ci_class i = Intent_managed_bypass
      then fails (ci_transition i \<noteq> [])
        [Lit ''managed-bypass transition must be resolved from the compiled control program'']
      else Some (errorf [Lit ''invalid command intent class '', Quoted (ci_class i)]))"

record guard_decision =
  gd_allowed :: bool
  gd_intent :: command_intent
  gd_required :: string
  gd_reason :: string

definition guard :: "supervisor \<Rightarrow> sd_snapshot \<Rightarrow> command_intent \<Rightarrow> guard_decision" where
  "guard sv sn intent =
     (let s = sn_observation sn;
          verdict = (\<lambda>allowed i required reason.
            \<lparr>gd_allowed = allowed, gd_intent = i, gd_required = required, gd_reason = reason\<rparr>)
      in if intent_validate intent \<noteq> None \<or> sn_fingerprint sn = []
         then verdict False intent [] ''command intent or canonical snapshot is invalid''
         else if ci_class intent = Intent_destructive
         then verdict False intent []
           ''high-confidence destructive operation requires an explicit registered recovery or cleanup transition''
         else if ci_class intent = Intent_ordinary
         then verdict True intent [] ''ordinary repository operation is outside managed effect authority''
         else (case managed_transition (sv_registry sv) (ci_operation intent) of
             None \<Rightarrow> verdict True (intent\<lparr>ci_class := Intent_ordinary\<rparr>) []
               ''operation is not managed by the compiled control program''
           | Some t \<Rightarrow>
               (let named = intent\<lparr>ci_transition := tn_id t\<rparr> in
                if \<not> is_known (ob_engagement s)
                then verdict False named (tn_id t) ''managed-effect engagement is unresolved''
                else if f_value (ob_engagement s) = Engagement_command
                        \<or> f_value (ob_engagement s) = Engagement_active \<or> f_value (ob_phase s) = Phase_recovery
                then verdict False named (tn_id t) ''managed effect must be requested through kernel admission''
                else verdict True named (tn_id t)
                  ''Boatstack is dormant; direct non-destructive repository operation remains inert'')))"

end
