(* ===== verification/Delivery_Engine.thy ===== *)
theory Delivery_Engine
  imports Delivery_Journal Delivery_Supervisor Go_Effect
begin

text \<open>
  \<open>engine/engine.go\<close>, resolution: one observation of the plant, the decision of the supervisor, and for
  a prescribed transition the prescription, the admission and the preflight of its effect. The ports
  (\<open>ports/ports.go\<close>) are fields of a record; they act on a world \<open>'w\<close>, \<open>'l\<close> is the type of a lock and
  \<open>'p\<close> that of a prepared effect, an object whose methods read and write the world. The context is
  part of the ports.
\<close>

section \<open>Ports\<close>

record observation_request =
  or_invocation :: invocation
  or_capabilities :: "string list"
  or_ignore :: string
  or_verify :: string

record ('w, 'l, 'p) engine_ports =
  ep_observe :: "observation_request \<Rightarrow> ('w, sd_observation) act"
  ep_now :: "'w \<Rightarrow> gtime \<times> 'w"
  ep_acquire :: "invocation \<Rightarrow> string list \<Rightarrow> ('w, 'l) act"
  ep_release :: "'l \<Rightarrow> ('w, unit) act"
  ep_begin :: "sd_admission \<Rightarrow> sd_transition \<Rightarrow> ('w, unit) act"
  ep_stage :: "string \<Rightarrow> resource_mutation list \<Rightarrow> ('w, unit) act"
  ep_mark :: "string \<Rightarrow> string \<Rightarrow> ('w, unit) act"
  ep_commit :: "transition_receipt \<Rightarrow> ('w, unit) act"
  ep_abort :: "string \<Rightarrow> string \<Rightarrow> ('w, unit) act"
  ep_recovery :: "string \<Rightarrow> string \<Rightarrow> ('w, unit) act"
  ep_prepare :: "sd_admission \<Rightarrow> sd_transition \<Rightarrow> ('w, 'p) act"
  ep_manifest :: "'p \<Rightarrow> 'w \<Rightarrow> resource_mutation list"
  ep_effects :: "'p \<Rightarrow> 'w \<Rightarrow> sd_effect_fact list"
  ep_facets :: "'p \<Rightarrow> 'w \<Rightarrow> string list"
  ep_transferred :: "'p \<Rightarrow> 'w \<Rightarrow> invocation option"
  ep_execute :: "'p \<Rightarrow> ('w, effect_result) act"
  ep_rollback :: "'p \<Rightarrow> ('w, unit) act"
  ep_bind :: "string \<Rightarrow> sd_admission \<Rightarrow> ('w, unit) act"
  ep_unbind :: "string \<Rightarrow> ('w, unit) act"
  ep_sequence :: "string \<Rightarrow> ('w, u64) act"
  ep_find :: "invocation \<Rightarrow> string \<Rightarrow> ('w, transition_receipt option) act"
  ep_project :: "transition_receipt \<Rightarrow> ('w, unit) act"

text \<open>The registry of the engine is the one its supervisor reads.\<close>

record ('w, 'l, 'p) engine =
  en_control :: supervisor
  en_program :: program_ref
  en_ports :: "('w, 'l, 'p) engine_ports"

text \<open>\<open>New\<close>; no ports stands for one of them being nil.\<close>

definition new_engine ::
    "registry \<Rightarrow> objective_contracts \<Rightarrow> program_ref \<Rightarrow> ('w, 'l, 'p) engine_ports option
       \<Rightarrow> gerror + ('w, 'l, 'p) engine" where
  "new_engine reg contracts program ports =
     (case ports of
        Some ps \<Rightarrow>
          if rg_ordered reg = [] \<or> contracts = [] \<or> program_ref_validate program \<noteq> None
          then Inl (errorf [Lit ''kernel engine requires registry, objective contracts, observer, clock, locker, journal, effects, and receipt store''])
          else Inr \<lparr>en_control = \<lparr>sv_registry = reg, sv_contracts = contracts\<rparr>, en_program = program, en_ports = ps\<rparr>
      | None \<Rightarrow>
          Inl (errorf [Lit ''kernel engine requires registry, objective contracts, observer, clock, locker, journal, effects, and receipt store'']))"

definition engine_canonicalize :: "('w, 'l, 'p) engine \<Rightarrow> sd_observation \<Rightarrow> gerror + sd_snapshot" where
  "engine_canonicalize en ob = canonicalize_for_program ob (pf_fingerprint (en_program en))"

text \<open>\<open>x, err := m; if err != nil { h(err) }; f(x)\<close>\<close>

definition act_else :: "('w, 'a) act \<Rightarrow> (gerror \<Rightarrow> ('w, 'b) act) \<Rightarrow> ('a \<Rightarrow> ('w, 'b) act) \<Rightarrow> ('w, 'b) act" where
  "act_else m h f w =
     (case m w of (Returned x, w') \<Rightarrow> f x w' | (Failed e, w') \<Rightarrow> h e w'
      | (Panicked, w') \<Rightarrow> (Panicked, w') | (Halted, w') \<Rightarrow> (Halted, w'))"

section \<open>Requests and resolutions\<close>

text \<open>Of \<open>invocation.Evidence\<close>, what the engine reads.\<close>

record bound_parameter =
  bp_name :: string
  bp_value :: string
  bp_secret :: string

record invocation_evidence =
  ie_transition :: string
  ie_program :: string
  ie_revision :: u64
  ie_parameters :: "bound_parameter list"
  ie_fingerprint :: string

record sd_resolve_request =
  sq_invocation :: invocation
  sq_objective :: sd_objective
  sq_authority :: authority_bundle
  sq_parameters :: "parameter list"
  sq_requested :: string
  sq_trace :: bool
  sq_work :: "work_evidence option"
  sq_bundle :: "bundle_contract option"
  sq_bundle_revision :: string
  sq_evidence :: "invocation_evidence option"

text \<open>The trace has the shape of the kernel's; its schema version is the kernel's constant.\<close>

record sd_recovery_trace =
  st_reason :: string
  st_transition :: string

record sd_decision_trace =
  tc_instance :: string
  tc_revision :: u64
  tc_mode :: string
  tc_program :: program_ref
  tc_observed :: string
  tc_binding :: "(string \<times> string) option"
  tc_requested_objective :: "(string \<times> string) option"
  tc_authority :: string
  tc_requested :: string
  tc_marked :: bool
  tc_recovery :: "sd_recovery_trace option"
  tc_decision_value :: "string \<times> string \<times> string list \<times> message"
  tc_candidates :: "candidate_trace list"

text \<open>No snapshot, prescription or admission is the zero value of the struct.\<close>

record sd_resolution =
  sr_snapshot :: "sd_snapshot option"
  sr_objective :: sd_objective
  sr_decision :: sd_decision
  sr_prescription :: "sd_prescription option"
  sr_admission :: "sd_admission option"
  sr_trace :: "sd_decision_trace option"

definition no_decision :: sd_decision where
  "no_decision = \<lparr>de_kind = [], de_snapshot = [], de_transition = None, de_candidates = [], de_reason = []\<rparr>"

definition no_resolution :: sd_resolution where
  "no_resolution = \<lparr>sr_snapshot = None, sr_objective = empty_objective, sr_decision = no_decision,
     sr_prescription = None, sr_admission = None, sr_trace = None\<rparr>"

definition unresolved_resolution :: "sd_objective \<Rightarrow> string \<Rightarrow> sd_resolution" where
  "unresolved_resolution ob reason = no_resolution\<lparr>sr_objective := ob,
     sr_decision := no_decision\<lparr>de_kind := Decision_unresolved, de_reason := [Lit reason]\<rparr>\<rparr>"

section \<open>The trace of a decision\<close>

definition software_decision_trace :: "sd_decision \<Rightarrow> string \<times> string \<times> string list \<times> message" where
  "software_decision_trace d =
     (de_kind d, case de_transition d of None \<Rightarrow> [] | Some t \<Rightarrow> tn_id t, de_candidates d, de_reason d)"

definition objective_identity_of :: "sd_objective \<Rightarrow> string \<times> string" where
  "objective_identity_of ob = (so_id ob, case hash_json (sd_objective_json ob) of Inl e \<Rightarrow> [] | Inr h \<Rightarrow> h)"

definition engine_trace ::
    "('w, 'l, 'p) engine \<Rightarrow> sd_snapshot \<Rightarrow> sd_objective \<Rightarrow> string \<Rightarrow> string \<Rightarrow> sd_decision \<Rightarrow> candidate_trace list
       \<Rightarrow> sd_decision_trace" where
  "engine_trace en sn asked authority requested d candidates =
     (let s = sn_observation sn in
      \<lparr>tc_instance = iv_repository_id (ob_invocation s), tc_revision = ob_state_revision s, tc_mode = f_value (ob_phase s),
       tc_program = en_program en, tc_observed = sn_fingerprint sn,
       tc_binding = (if is_known (ob_objective s) then Some (objective_identity_of (f_value (ob_objective s))) else None),
       tc_requested_objective = (if sd_objective_validate asked = None then Some (objective_identity_of asked) else None),
       tc_authority = authority, tc_requested = requested, tc_marked = (de_kind d = Decision_terminal),
       tc_recovery = (if f_value (ob_phase s) = Phase_recovery
            \<or> is_known (ob_recovery s) \<and> f_value (ob_recovery s) \<noteq> Recovery_none
          then Some \<lparr>st_reason = ''software-delivery recovery state is '' @ f_value (ob_recovery s),
                     st_transition = (if is_known (ob_transaction_info s) then tx_transition (f_value (ob_transaction_info s)) else [])\<rparr>
          else None),
       tc_decision_value = software_decision_trace d, tc_candidates = candidates\<rparr>)"

definition update_decision_trace :: "sd_decision_trace option \<Rightarrow> sd_decision \<Rightarrow> sd_decision_trace option" where
  "update_decision_trace trace d = map_option (tc_decision_value_update (\<lambda>_. software_decision_trace d)) trace"

section \<open>Resolution\<close>

abbreviation Decision_candidate :: string where "Decision_candidate \<equiv> ''CANDIDATE''"

definition resolution_lifetime :: int where
  "resolution_lifetime = 120000000000"

fun bind_parameters :: "(string \<times> string) list \<Rightarrow> bound_parameter list \<Rightarrow> gerror + (string \<times> string) list" where
  "bind_parameters bound [] = Inr bound"
| "bind_parameters bound (p # ps) =
     (if bp_secret p \<noteq> [] then bind_parameters bound ps
      else if map_of bound (bp_name p) \<noteq> None
      then Inl (errorf [Lit ''invocation evidence duplicates parameter '', Quoted (bp_name p)])
      else bind_parameters ((bp_name p, bp_value p) # bound) ps)"

definition validate_invocation_parameters :: "invocation_evidence \<Rightarrow> parameter list \<Rightarrow> gerror option" where
  "validate_invocation_parameters v ps =
     (case bind_parameters [] (ie_parameters v) of Inl e \<Rightarrow> Some e
      | Inr bound \<Rightarrow>
          if length bound \<noteq> length ps
          then Some (errorf [Lit ''invocation evidence parameters do not match the admitted parameter set''])
          else first_error (\<lambda>p. fails (map_of bound (pm_name p) \<noteq> Some (pm_value p))
            [Lit ''invocation evidence parameter '', Quoted (pm_name p), Lit '' does not match the admitted value'']) ps)"

definition engine_objective ::
    "('w, 'l, 'p) engine \<Rightarrow> sd_snapshot \<Rightarrow> sd_resolve_request \<Rightarrow> gerror + sd_objective" where
  "engine_objective en sn rq =
     (let s = sn_observation sn;
          configured = (case sd_objective_validate (sq_objective rq) of None \<Rightarrow> Inr (sq_objective rq)
            | Some e \<Rightarrow>
                if is_known (ob_objective s) then Inr (f_value (ob_objective s))
                else if f_status (ob_objective s) = Fact_absent then Inr empty_objective
                else Inl (wrapf [Lit ''no valid requested or configured objective: ''] e)) in
      case registry_lookup (sv_registry (en_control en)) (sq_requested rq) of
        Some t \<Rightarrow> if tn_scope t = Objective_optional_preserve then objective_for_transition s (sq_objective rq) t else configured
      | None \<Rightarrow> configured)"

definition refuse :: "string \<Rightarrow> message \<Rightarrow> sd_decision \<Rightarrow> sd_decision" where
  "refuse kind reason d = d\<lparr>de_kind := kind, de_reason := reason, de_transition := None\<rparr>"

definition await :: "message \<Rightarrow> sd_transition \<Rightarrow> sd_decision \<Rightarrow> sd_decision" where
  "await reason t d = d\<lparr>de_kind := Decision_candidate, de_reason := reason, de_candidates := [tn_id t]\<rparr>"

text \<open>The decision that foreground work forces, if any.\<close>

definition work_verdict :: "sd_resolve_request \<Rightarrow> sd_snapshot \<Rightarrow> sd_transition \<Rightarrow> sd_decision \<Rightarrow> sd_decision option" where
  "work_verdict rq sn t d =
     (case (tn_work t, sq_work rq) of
        (Some c, None) \<Rightarrow>
          Some (await [Lit ''transition '', Quoted (tn_id t), Lit '' requires foreground work '', Quoted (wc_id c)] t d)
      | (Some c, Some w) \<Rightarrow> map_option (\<lambda>e. refuse Decision_refused (etext e) d) (work_evidence_current w sn t)
      | (None, Some w) \<Rightarrow>
          Some (refuse Decision_refused [Lit ''transition '', Quoted (tn_id t), Lit '' does not accept foreground work evidence''] d)
      | (None, None) \<Rightarrow> None)"

definition invocation_drift ::
    "('w, 'l, 'p) engine \<Rightarrow> sd_resolve_request \<Rightarrow> sd_snapshot \<Rightarrow> sd_transition \<Rightarrow> message option" where
  "invocation_drift en rq sn t =
     (case sq_evidence rq of None \<Rightarrow> None
      | Some v \<Rightarrow>
          if ie_transition v \<noteq> tn_id t \<or> ie_program v \<noteq> pf_fingerprint (en_program en)
             \<or> ie_revision v \<noteq> ob_state_revision (sn_observation sn)
          then Some [Lit ''INVOCATION_DRIFT: invocation evidence does not match the selected transition, executable program, or state'']
          else map_option (\<lambda>e. [Lit ''INVOCATION_DRIFT: ''] @ etext e)
            (validate_invocation_parameters v (sq_parameters rq)))"

definition evidence_fingerprint :: "sd_resolve_request \<Rightarrow> string" where
  "evidence_fingerprint rq = (case sq_evidence rq of None \<Rightarrow> [] | Some v \<Rightarrow> ie_fingerprint v)"

text \<open>
  What becomes of a prescribed transition: an error, or the objective, the decision and, where the
  decision stands, the prescription with its admission.
\<close>

definition prescribe ::
    "('w, 'l, 'p) engine \<Rightarrow> sd_resolve_request \<Rightarrow> sd_snapshot \<Rightarrow> sd_objective \<Rightarrow> sd_decision \<Rightarrow> sd_transition \<Rightarrow> gtime
       \<Rightarrow> gerror + sd_objective \<times> sd_decision \<times> (sd_prescription \<times> sd_admission) option" where
  "prescribe en rq sn ob d t now =
     (let s = sn_observation sn; stop = (\<lambda>ob kind e. Inr (ob, refuse kind (etext e) d, None)) in
      case objective_for_transition s ob t of Inl e \<Rightarrow> stop empty_objective Decision_refused e
      | Inr ob \<Rightarrow>
        (case validate_applicability sn ob t (sq_authority rq) (sq_parameters rq) now of
           Some e \<Rightarrow>
             if eclass e = Missing_parameter
             then Inr (ob, await (etext e @ [Lit ''; bind the declared parameters and re-resolve this transition'']) t d, None)
             else stop ob Decision_refused e
         | None \<Rightarrow>
           (case work_verdict rq sn t d of Some d' \<Rightarrow> Inr (ob, d', None)
            | None \<Rightarrow>
              (case project_capabilities s t (sq_authority rq) now of Inl e \<Rightarrow> stop ob Decision_refused e
               | Inr caps \<Rightarrow>
                 (case project_control_bundle s t (sq_parameters rq) (sq_bundle rq) of Inl e \<Rightarrow> Inl e
                  | Inr bundle \<Rightarrow>
                    (case invocation_drift en rq sn t of Some m \<Rightarrow> Inr (ob, refuse Decision_refused m d, None)
                     | None \<Rightarrow>
                       (case new_sd_prescription sn t caps (sq_work rq) bundle (evidence_fingerprint rq) of
                          Inl e \<Rightarrow> stop ob Decision_unresolved e
                        | Inr p \<Rightarrow>
                          (case new_admission sn ob t p (sq_authority rq) (sq_parameters rq) (sq_work rq) bundle
                              (sq_bundle_revision rq) now resolution_lifetime of
                             Inl e \<Rightarrow> stop ob Decision_unresolved e
                           | Inr a \<Rightarrow> Inr (ob, d, Some (p, a))))))))))"

definition resolution_trace_of ::
    "('w, 'l, 'p) engine \<Rightarrow> sd_resolve_request \<Rightarrow> sd_snapshot \<Rightarrow> sd_decision \<Rightarrow> candidate_trace list
       \<Rightarrow> gerror + sd_decision_trace option" where
  "resolution_trace_of en rq sn d candidates =
     (if \<not> sq_trace rq then Inr None
      else case bundle_fingerprint (sq_authority rq) of Inl e \<Rightarrow> Inl e
        | Inr f \<Rightarrow> Inr (Some (engine_trace en sn (sq_objective rq) f (sq_requested rq) d candidates)))"

definition resolved ::
    "sd_snapshot \<Rightarrow> sd_objective \<Rightarrow> sd_decision \<Rightarrow> sd_decision_trace option \<Rightarrow> (sd_prescription \<times> sd_admission) option
       \<Rightarrow> sd_resolution" where
  "resolved sn ob d trace issued = \<lparr>sr_snapshot = Some sn, sr_objective = ob, sr_decision = d,
     sr_prescription = map_option fst issued, sr_admission = map_option snd issued,
     sr_trace = update_decision_trace trace d\<rparr>"

text \<open>From the snapshot on; the preflight of the effect is the last word.\<close>

definition sd_resolve_snapshot ::
    "('w, 'l, 'p) engine \<Rightarrow> sd_resolve_request \<Rightarrow> sd_snapshot \<Rightarrow> sd_objective \<Rightarrow> gtime
       \<Rightarrow> ('w, sd_resolution \<times> gerror option) act" where
  "sd_resolve_snapshot en rq sn ob now =
     (let (d, candidates) = supervise_with_trace (en_control en) sn ob (bundle_set (sq_authority rq) now) (sq_requested rq) in
      case resolution_trace_of en rq sn d candidates of Inl e \<Rightarrow> act_return (no_resolution, Some e)
      | Inr trace \<Rightarrow>
        (case (if de_kind d = Decision_prescribed then de_transition d else None) of
           None \<Rightarrow> act_return (resolved sn ob d trace None, None)
         | Some t \<Rightarrow>
           (case prescribe en rq sn ob d t now of Inl e \<Rightarrow> act_return (no_resolution, Some e)
            | Inr (ob, d, None) \<Rightarrow> act_return (resolved sn ob d trace None, None)
            | Inr (ob, d, Some (p, a)) \<Rightarrow>
                act_else (ep_prepare (en_ports en) a t)
                  (\<lambda>e. act_return (resolved sn ob (refuse Decision_unresolved
                     ([Lit ''transition '', Quoted (ad_transition_id a), Lit '' failed deterministic effect preflight: ''] @ etext e) d)
                     trace None, None))
                  (\<lambda>_. act_return (resolved sn ob d trace (Some (p, a)), None)))))"

definition observation_of :: "invocation \<Rightarrow> string list \<Rightarrow> observation_request" where
  "observation_of i caps = \<lparr>or_invocation = i, or_capabilities = caps, or_ignore = [], or_verify = []\<rparr>"

definition sd_resolve ::
    "('w, 'l, 'p) engine \<Rightarrow> sd_resolve_request \<Rightarrow> ('w, sd_resolution \<times> gerror option) act" where
  "sd_resolve en rq =
     (let unresolved = unresolved_resolution (sq_objective rq) in
      case invocation_validate (sq_invocation rq) False of
        Some e \<Rightarrow> act_return (unresolved ''invocation identity is invalid'', Some e)
      | None \<Rightarrow>
        act_bind (act_get (ep_now (en_ports en))) (\<lambda>now.
          case bundle_validate (sq_authority rq) now of Some e \<Rightarrow> act_return (no_resolution, Some e)
          | None \<Rightarrow>
            act_else (ep_observe (en_ports en) (observation_of (sq_invocation rq) (granted_capabilities (sq_authority rq) now)))
              (\<lambda>e. act_return (unresolved ''required observation failed'', Some (wrapf [Lit ''observe plant: ''] e)))
              (\<lambda>ob.
                case engine_canonicalize en ob of
                  Inl e \<Rightarrow> act_return (unresolved ''canonical observation is invalid'',
                    Some (wrapf [Lit ''canonicalize observation: ''] e))
                | Inr sn \<Rightarrow>
                    if ob_invocation (sn_observation sn) \<noteq> sq_invocation rq
                    then act_return (no_resolution, Some (errorf [Lit ''observer returned a different invocation identity'']))
                    else (case engine_objective en sn rq of Inl e \<Rightarrow> act_return (no_resolution, Some e)
                      | Inr ob \<Rightarrow> sd_resolve_snapshot en rq sn ob now))))"

end
