(* ===== verification/Delivery_Apply.thy ===== *)
theory Delivery_Apply
  imports Delivery_Engine
begin

text \<open>
  \<open>engine/engine.go\<close>, application: replay of a committed request, re-resolution, the admission under the
  lock, and the transaction of the effect. An error is returned beside the result reached so far.
\<close>

section \<open>Requests and results\<close>

record sd_apply_request =
  xq_resolve :: sd_resolve_request
  xq_flow :: string
  xq_prescription :: sd_prescription
  xq_parameters :: "parameter list"
  xq_idempotency :: string
  xq_lifetime :: int

record apply_result =
  xr_source :: "sd_snapshot option"
  xr_target :: "sd_snapshot option"
  xr_objective :: sd_objective
  xr_decision :: sd_decision
  xr_admission :: "sd_admission option"
  xr_receipt :: "transition_receipt option"
  xr_replayed :: bool

definition no_result :: apply_result where
  "no_result = \<lparr>xr_source = None, xr_target = None, xr_objective = empty_objective, xr_decision = no_decision,
     xr_admission = None, xr_receipt = None, xr_replayed = False\<rparr>"

type_synonym 'w apply_act = "('w, apply_result \<times> gerror option) act"

definition give :: "apply_result \<Rightarrow> gerror \<Rightarrow> 'w apply_act" where
  "give res e = act_return (res, Some e)"

section \<open>Typed errors\<close>

definition join_errors :: "gerror \<Rightarrow> gerror \<Rightarrow> gerror" where
  "join_errors a b = Gerror (if eclass a \<noteq> Plain then eclass a else eclass b) (etext a @ [Lit [CHR 0x0A]] @ etext b)"

definition decision_error :: "sd_decision \<Rightarrow> gerror" where
  "decision_error d = Gerror Decision_error ([Lit ''kernel decision '', Lit (de_kind d), Lit '': ''] @ de_reason d)"

definition stale_admission_error :: "gerror \<Rightarrow> gerror" where
  "stale_admission_error e = Gerror Stale_admission (Lit ''stale admission: '' # etext e)"

definition postcondition_error :: "sd_transition \<Rightarrow> gerror" where
  "postcondition_error t = Gerror Postcondition [Lit ''transition '', Quoted (tn_id t),
     Lit '' did not establish its target predicate; recovery '', Quoted (ic_recovery (tn_interruption t)), Lit '' is required'']"

definition outcome_unknown_error :: "sd_transition \<Rightarrow> gerror" where
  "outcome_unknown_error t = Gerror Outcome_unknown [Lit ''transition '', Quoted (tn_id t),
     Lit '' has an unknown external outcome; reconcile with '', Quoted (ic_recovery (tn_interruption t))]"

definition replay_recovery_error :: "transition_receipt \<Rightarrow> gerror" where
  "replay_recovery_error r = Gerror Replay_recovery [Lit ''idempotency receipt '', Quoted (tr_id r),
     Lit '' exists, but its transaction state still requires recovery'']"

text \<open>\<open>StalePrescriptionError\<close>: the facets that changed, in order.\<close>

definition stale_prescription_error ::
    "sd_prescription \<Rightarrow> sd_snapshot \<Rightarrow> bool \<Rightarrow> bool \<Rightarrow> bool \<Rightarrow> gerror" where
  "stale_prescription_error p sn snapshot binding authority =
     (let f = pr_freshness p; s = sn_observation sn;
          facets = (if fr_revision f \<noteq> ob_state_revision s
              then [[Lit ''state revision '', Number (uint (fr_revision f)), Lit '' != '', Number (uint (ob_state_revision s))]] else [])
            @ (if fr_program f \<noteq> ob_program_fingerprint s then [[Lit ''control program changed'']] else [])
            @ (if snapshot then [[Lit ''admission-relevant snapshot changed'']] else [])
            @ (if binding then [[Lit ''objective binding changed'']] else [])
            @ (if authority then [[Lit ''authority or capability context changed'']] else [])
      in Gerror Stale_prescription ([Lit ''STALE_PRESCRIPTION '', Quoted (pr_id p), Lit '': '']
           @ (case facets of [] \<Rightarrow> [] | x # xs \<Rightarrow> x @ concat (map (\<lambda>y. Lit '', '' # y) xs))
           @ [Lit ''; re-resolve before apply'']))"

definition snapshot_changed :: "sd_prescription \<Rightarrow> sd_snapshot \<Rightarrow> bool" where
  "snapshot_changed p sn \<longleftrightarrow> fr_snapshot (pr_freshness p) \<noteq> sn_fingerprint sn"

definition validate_prescription_current :: "sd_prescription \<Rightarrow> sd_snapshot \<Rightarrow> gerror option" where
  "validate_prescription_current p sn =
     (case sd_prescription_validate p of Some e \<Rightarrow> Some e
      | None \<Rightarrow>
        (case objective_binding_fingerprint (sn_observation sn) of Inl e \<Rightarrow> Some e
         | Inr binding \<Rightarrow>
           (case snapshot_freshness sn (fr_authority (pr_freshness p)) of Inl e \<Rightarrow> Some e
            | Inr current \<Rightarrow>
                if freshness_check (pr_freshness p) current = None then None
                else Some (stale_prescription_error p sn (snapshot_changed p sn)
                  (fr_binding (pr_freshness p) \<noteq> binding) False))))"

definition validate_effect_capabilities :: "sd_admission \<Rightarrow> sd_transition \<Rightarrow> gerror option" where
  "validate_effect_capabilities a t =
     (let missing = missing_capability (effect_required_capabilities t) (new_capability_set (ad_effective_capabilities a)) in
      fails (missing \<noteq> []) [Lit ''EFFECT_CAPABILITY_DENIED '', Quoted missing, Lit '' for transition '', Quoted (tn_id t)])"

section \<open>Replaying a committed request\<close>

definition replay_objective_differs :: "transition_receipt \<Rightarrow> sd_objective \<Rightarrow> bool" where
  "replay_objective_differs r ob \<longleftrightarrow> tr_objective r \<noteq> so_id ob \<or> tr_target_id r \<noteq> so_target ob
     \<or> tr_trusted r \<noteq> so_trusted ob \<or> tr_delivery r \<noteq> so_delivery ob"

definition replay_bundle_error :: "transition_receipt \<Rightarrow> bundle_contract \<Rightarrow> gerror option" where
  "replay_bundle_error r b =
     (let other = [Lit ''idempotency receipt belongs to a different repository control bundle''];
          source = bs_fingerprint (bc_source b) in
      if tr_bundle_target r = [] then fails (tr_bundle_source r \<noteq> source \<or> bc_target b \<noteq> None) other
      else if tr_bundle_source r \<noteq> source \<and> tr_bundle_target r \<noteq> source then Some (errorf other)
      else (case bc_target b of None \<Rightarrow> None
        | Some x \<Rightarrow> fails (tr_bundle_target r \<noteq> bs_fingerprint x)
            [Lit ''idempotency receipt belongs to a different repository control-bundle target: receipt '',
             Lit (tr_bundle_target r), Lit '' request '', Lit (bs_fingerprint x)]))"

definition replay_request_errors ::
    "transition_receipt \<Rightarrow> sd_apply_request \<Rightarrow> string \<Rightarrow> bundle_contract option \<Rightarrow> gerror option list" where
  "replay_request_errors r xq program bundle =
     (let rq = xq_resolve xq in
      [fails (pf_fingerprint (tr_program r) \<noteq> program) [Lit ''idempotency receipt belongs to a different control program''],
       fails (tr_flow r \<noteq> xq_flow xq)
         [Lit ''idempotency receipt belongs to flow '', Quoted (tr_flow r), Lit '', not '', Quoted (xq_flow xq)],
       fails (tr_prescription r \<noteq> pr_id (xq_prescription xq)) [Lit ''idempotency receipt belongs to a different prescription''],
       fails (tr_invocation_fingerprint r \<noteq> pr_invocation_fingerprint (xq_prescription xq))
         [Lit ''idempotency receipt belongs to a different transition invocation''],
       fails (tr_scope r \<noteq> Objective_optional_preserve \<and> sd_objective_validate (sq_objective rq) = None
           \<and> replay_objective_differs r (sq_objective rq))
         [Lit ''idempotency receipt belongs to a different configured objective''],
       fails (sq_requested rq \<noteq> [] \<and> tr_transition r \<noteq> sq_requested rq)
         [Lit ''idempotency receipt belongs to transition '', Quoted (tr_transition r), Lit '', not '', Quoted (sq_requested rq)],
       fails (tr_work r \<noteq> (case sq_work rq of None \<Rightarrow> [] | Some w \<Rightarrow> wk_result_fingerprint w))
         [Lit ''idempotency receipt belongs to a different foreground work result''],
       (case bundle of None \<Rightarrow> None | Some b \<Rightarrow> replay_bundle_error r b)])"

definition validate_replay_request ::
    "transition_receipt \<Rightarrow> sd_apply_request \<Rightarrow> string \<Rightarrow> bundle_contract option \<Rightarrow> gerror option" where
  "validate_replay_request r xq program bundle = first_failure (replay_request_errors r xq program bundle)"

definition validate_replay_objective_state :: "transition_receipt \<Rightarrow> sd_snapshot \<Rightarrow> gerror option" where
  "validate_replay_objective_state r sn =
     (let ob = ob_objective (sn_observation sn) in
      if tr_scope r \<noteq> Objective_optional_preserve then None
      else if tr_objective_status r = Fact_known
      then fails (f_status ob \<noteq> Fact_known \<or> replay_objective_differs r (f_value ob))
        [Lit ''idempotency receipt objective binding no longer matches current state'']
      else if tr_objective_status r = Fact_absent
      then fails (f_status ob \<noteq> Fact_absent)
        [Lit ''idempotency receipt preserved an absent product objective, but current state is '', Quoted (f_status ob)]
      else Some (errorf [Lit ''idempotency receipt has invalid preserved objective status '', Quoted (tr_objective_status r)]))"

definition replay_state_settled :: "sd_snapshot \<Rightarrow> bool" where
  "replay_state_settled sn \<longleftrightarrow> (let s = sn_observation sn in
     is_known (ob_phase s) \<and> f_value (ob_phase s) \<noteq> Phase_recovery
     \<and> is_known (ob_recovery s) \<and> f_value (ob_recovery s) = Recovery_none
     \<and> is_known (ob_transaction s) \<and> f_value (ob_transaction s) = Transaction_none)"

definition same_invocation :: "invocation \<Rightarrow> invocation \<Rightarrow> sd_transition \<Rightarrow> bool" where
  "same_invocation target source t \<longleftrightarrow>
     (if target = source then True
      else if tn_worktree_transfer t
      then iv_repository_id target = iv_repository_id source \<and> iv_git_common_id target = iv_git_common_id source
        \<and> iv_controller_id target = iv_controller_id source \<and> iv_topology target = iv_topology source
        \<and> iv_host target = iv_host source \<and> iv_correlation target = iv_correlation source
      else if tn_identity_rebind t
      then iv_repository_id target = iv_repository_id source \<and> iv_git_common_id target = iv_git_common_id source
        \<and> iv_worktree_id target = iv_worktree_id source \<and> iv_ref target = iv_ref source
        \<and> iv_invoking_path target = iv_invoking_path source
        \<and> iv_host target = iv_host source \<and> iv_correlation target = iv_correlation source
      else False)"

text \<open>The checks of a replay that need the current state: what is returned with an error, and what a replay adds to.\<close>

definition replay_result :: "transition_receipt \<Rightarrow> sd_snapshot \<Rightarrow> apply_result \<Rightarrow> apply_result \<Rightarrow> 'w apply_act" where
  "replay_result r sn res found =
     (case validate_replay_objective_state r sn of Some e \<Rightarrow> give res e
      | None \<Rightarrow>
          if \<not> replay_state_settled sn then give res (replay_recovery_error r)
          else act_return (found\<lparr>xr_target := Some sn, xr_receipt := Some r, xr_replayed := True\<rparr>, None))"

text \<open>A replay outside the lock observes the plant first.\<close>

definition replay_observed ::
    "('w, 'l, 'p) engine \<Rightarrow> sd_apply_request \<Rightarrow> string list \<Rightarrow> apply_result \<Rightarrow> (sd_snapshot \<Rightarrow> 'w apply_act)
       \<Rightarrow> 'w apply_act" where
  "replay_observed en xq caps res answer =
     act_else (ep_observe (en_ports en) (observation_of (sq_invocation (xq_resolve xq)) caps)) (give res)
       (\<lambda>ob. case engine_canonicalize en ob of Inl e \<Rightarrow> give res e | Inr sn \<Rightarrow> answer sn)"

section \<open>The transaction of an effect\<close>

text \<open>The two ways a begun transaction is settled without a receipt.\<close>

definition settle_abort ::
    "('w, 'l, 'p) engine \<Rightarrow> sd_admission \<Rightarrow> apply_result \<Rightarrow> string \<Rightarrow> gerror \<Rightarrow> 'w apply_act" where
  "settle_abort en a res reason cause =
     act_else (ep_abort (en_ports en) (ad_id a) reason)
       (\<lambda>e. give res (join_errors cause (wrapf [Lit ''abort transaction journal: ''] e))) (\<lambda>_. give res cause)"

definition settle_recovery ::
    "('w, 'l, 'p) engine \<Rightarrow> sd_admission \<Rightarrow> apply_result \<Rightarrow> string \<Rightarrow> gerror \<Rightarrow> 'w apply_act" where
  "settle_recovery en a res reason cause =
     act_else (ep_recovery (en_ports en) (ad_id a) reason)
       (\<lambda>e. give res (join_errors cause (wrapf [Lit ''mark transaction recovery-required: ''] e))) (\<lambda>_. give res cause)"

text \<open>
  What the engine carries through a transaction: flow, transition, admission, sequence number and
  the prepared effect.
\<close>

record 'p transaction =
  ta_flow :: string
  ta_transition :: sd_transition
  ta_admission :: sd_admission
  ta_sequence :: u64
  ta_effect :: 'p

definition apply_receipt ::
    "('w, 'l, 'p) engine \<Rightarrow> 'p transaction \<Rightarrow> effect_result \<Rightarrow> gtime \<Rightarrow> sd_snapshot \<Rightarrow> apply_result \<Rightarrow> 'w apply_act" where
  "apply_receipt en x er started target res =
     (let ps = en_ports en; recovery = settle_recovery en (ta_admission x) res in
      act_bind (act_get (ep_now ps)) (\<lambda>completed.
        act_bind (act_get (\<lambda>w. ((ep_facets ps (ta_effect x) w, ep_effects ps (ta_effect x) w), w))) (\<lambda>(facets, effects).
          case new_sd_receipt (ta_flow x) (ta_sequence x) (en_program en) (ta_admission x) (ta_transition x) target facets
              effects (er_outputs er) [] started completed of
            Inl e \<Rightarrow> recovery ''receipt construction failed after verified effect'' e
          | Inr r \<Rightarrow>
              act_else (ep_commit ps r) (recovery ''transition fact commit failed after verified effect'')
                (\<lambda>_. let done = act_return (res\<lparr>xr_receipt := Some r\<rparr>, None) in
                     act_else (ep_project ps r) (\<lambda>_. done) (\<lambda>_. done)))))"

definition apply_verified ::
    "('w, 'l, 'p) engine \<Rightarrow> 'p transaction \<Rightarrow> effect_result \<Rightarrow> gtime \<Rightarrow> sd_snapshot \<Rightarrow> apply_result \<Rightarrow> 'w apply_act" where
  "apply_verified en x er started target res =
     (let t = ta_transition x; a = ta_admission x; postcondition = postcondition_error t in
      if \<not> same_invocation (ob_invocation (sn_observation target)) (ad_invocation a) t
      then settle_recovery en a res ''target identity changed'' postcondition
      else if \<not> target_matches t (sn_observation target)
      then (if er_settlement er = ''unknown''
            then settle_recovery en a res ''external outcome unknown'' (outcome_unknown_error t)
            else act_else (ep_rollback (en_ports en) (ta_effect x))
              (\<lambda>e. settle_recovery en a res ''postcondition and rollback failed'' (join_errors postcondition e))
              (\<lambda>_. settle_abort en a res ''postcondition failed and effect rolled back'' postcondition))
      else apply_receipt en x er started target res)"

definition verification_request :: "'p transaction \<Rightarrow> invocation \<Rightarrow> invocation option \<Rightarrow> observation_request" where
  "verification_request x i transferred = \<lparr>or_invocation = (case transferred of None \<Rightarrow> i | Some j \<Rightarrow> j),
     or_capabilities = ad_granted_capabilities (ta_admission x), or_ignore = ad_id (ta_admission x),
     or_verify = tn_id (ta_transition x)\<rparr>"

definition apply_executed ::
    "('w, 'l, 'p) engine \<Rightarrow> 'p transaction \<Rightarrow> invocation \<Rightarrow> effect_result \<Rightarrow> gtime \<Rightarrow> apply_result \<Rightarrow> 'w apply_act" where
  "apply_executed en x i er started res =
     (let ps = en_ports en; a = ta_admission x; recovery = settle_recovery en a res in
      act_else (ep_mark ps (ad_id a) ''verifying'') (recovery ''journal mark failed after effect'') (\<lambda>_.
        act_bind (act_get (\<lambda>w. (ep_transferred ps (ta_effect x) w, w))) (\<lambda>transferred.
          act_else (ep_observe ps (verification_request x i transferred)) (recovery ''target observation failed after effect'') (\<lambda>ob.
            case engine_canonicalize en ob of
              Inl e \<Rightarrow> recovery ''target canonicalization failed after effect'' e
            | Inr target \<Rightarrow> apply_verified en x er started target (res\<lparr>xr_target := Some target\<rparr>)))))"

definition effect_failed ::
    "('w, 'l, 'p) engine \<Rightarrow> 'p transaction \<Rightarrow> apply_result \<Rightarrow> gerror \<Rightarrow> 'w apply_act" where
  "effect_failed en x res e =
     (let t = ta_transition x; a = ta_admission x in
      if tn_class t = Event_owned_external
      then settle_recovery en a res ''external effect returned without a provable outcome''
        (join_errors (outcome_unknown_error t) e)
      else act_else (ep_rollback (en_ports en) (ta_effect x))
        (\<lambda>r. settle_recovery en a res ''effect and rollback failed'' (join_errors e r))
        (\<lambda>_. settle_abort en a res ''effect failed and rolled back'' e))"

definition apply_begun ::
    "('w, 'l, 'p) engine \<Rightarrow> 'p transaction \<Rightarrow> invocation \<Rightarrow> apply_result \<Rightarrow> 'w apply_act" where
  "apply_begun en x i res =
     (let ps = en_ports en; a = ta_admission x; abort = settle_abort en a res in
      act_else (ep_mark ps (ad_id a) ''executing'') (abort ''journal mark failed'') (\<lambda>_.
        case validate_effect_capabilities a (ta_transition x) of Some e \<Rightarrow> abort ''effect capability check failed'' e
        | None \<Rightarrow>
          act_bind (act_get (\<lambda>w. (ep_manifest ps (ta_effect x) w, w))) (\<lambda>manifest.
            act_else (ep_stage ps (ad_id a) manifest) (abort ''effect staging journal failed'') (\<lambda>_.
              act_bind (act_get (ep_now ps)) (\<lambda>started.
                act_else (ep_execute ps (ta_effect x)) (effect_failed en x res) (\<lambda>er.
                  apply_executed en x i er started res))))))"

text \<open>The sequence number is allocated before the journal begins.\<close>

definition apply_bound ::
    "('w, 'l, 'p) engine \<Rightarrow> string \<Rightarrow> sd_transition \<Rightarrow> sd_admission \<Rightarrow> 'p \<Rightarrow> invocation \<Rightarrow> apply_result \<Rightarrow> 'w apply_act" where
  "apply_bound en flow t a p i res =
     (let ps = en_ports en in
      act_else (ep_sequence ps flow) (\<lambda>e. give res (wrapf [Lit ''preflight committed receipt history: ''] e)) (\<lambda>n.
        act_else (ep_begin ps a t) (\<lambda>e. give res (wrapf [Lit ''begin transaction journal: ''] e)) (\<lambda>_.
          apply_begun en \<lparr>ta_flow = flow, ta_transition = t, ta_admission = a, ta_sequence = n, ta_effect = p\<rparr> i res)))"

section \<open>Under the lock\<close>

text \<open>The deferred release reports its error only where nothing else went wrong.\<close>

definition act_release :: "('w, unit) act \<Rightarrow> 'w apply_act \<Rightarrow> 'w apply_act" where
  "act_release release m w =
     (case m w of (Halted, w') \<Rightarrow> (Halted, w')
      | (r, w') \<Rightarrow>
          (case release w' of (Panicked, w'') \<Rightarrow> (Panicked, w'') | (Halted, w'') \<Rightarrow> (Halted, w'')
           | (Returned _, w'') \<Rightarrow> (r, w'')
           | (Failed e, w'') \<Rightarrow>
               (case r of Returned (res, None) \<Rightarrow> (Returned (res, Some (wrapf [Lit ''release effect lock: ''] e)), w'')
                | _ \<Rightarrow> (r, w''))))"

definition apply_prepared ::
    "('w, 'l, 'p) engine \<Rightarrow> sd_apply_request \<Rightarrow> sd_transition \<Rightarrow> sd_admission \<Rightarrow> sd_objective \<Rightarrow> sd_snapshot
       \<Rightarrow> apply_result \<Rightarrow> 'w apply_act" where
  "apply_prepared en xq t a ob sn res =
     (let ps = en_ports en; i = sq_invocation (xq_resolve xq) in
      act_bind (act_get (ep_now ps)) (\<lambda>now.
        case admission_current a sn ob t now of Some e \<Rightarrow> give res (stale_admission_error e)
        | None \<Rightarrow>
          (case validate_effect_capabilities a t of Some e \<Rightarrow> give res e
           | None \<Rightarrow>
              act_else (ep_prepare ps a t) (give res) (\<lambda>p.
                act_else (ep_bind ps (xq_flow xq) a) (give res) (\<lambda>_.
                  act_defer (ep_unbind ps (xq_flow xq)) (apply_bound en (xq_flow xq) t a p i res))))))"

definition engine_apply_locked ::
    "('w, 'l, 'p) engine \<Rightarrow> sd_apply_request \<Rightarrow> sd_transition \<Rightarrow> sd_admission \<Rightarrow> sd_objective \<Rightarrow> apply_result
       \<Rightarrow> 'w apply_act" where
  "engine_apply_locked en xq t a ob res =
     (let ps = en_ports en; i = sq_invocation (xq_resolve xq); program = pf_fingerprint (en_program en) in
      act_else (ep_observe ps (observation_of i (ad_granted_capabilities a))) (give res) (\<lambda>observed.
        case engine_canonicalize en observed of Inl e \<Rightarrow> give res e
        | Inr sn \<Rightarrow>
          (case validate_prescription_current (xq_prescription xq) sn of Some e \<Rightarrow> give res e
           | None \<Rightarrow>
              if xq_idempotency xq = [] then apply_prepared en xq t a ob sn res
              else act_else (ep_find ps i (ad_idempotency_key a))
                (\<lambda>e. give res (wrapf [Lit ''check locked idempotency: ''] e))
                (\<lambda>found. case found of None \<Rightarrow> apply_prepared en xq t a ob sn res
                  | Some r \<Rightarrow> (case validate_replay_request r xq program (ad_bundle a) of Some e \<Rightarrow> give res e
                      | None \<Rightarrow> replay_result r sn res res)))))"

section \<open>Apply\<close>

definition engine_apply_admitted ::
    "('w, 'l, 'p) engine \<Rightarrow> sd_apply_request \<Rightarrow> sd_transition \<Rightarrow> sd_admission \<Rightarrow> sd_objective \<Rightarrow> apply_result
       \<Rightarrow> 'w apply_act" where
  "engine_apply_admitted en xq t a ob res =
     (let ps = en_ports en; i = sq_invocation (xq_resolve xq); program = pf_fingerprint (en_program en);
          locked = act_else (ep_acquire ps i (tn_owned_resources t)) (\<lambda>e. give res (wrapf [Lit ''acquire effect lock: ''] e))
            (\<lambda>l. act_release (ep_release ps l) (engine_apply_locked en xq t a ob res)) in
      if xq_idempotency xq = [] then locked
      else if xq_idempotency xq \<noteq> ad_idempotency_key a
      then give res (errorf [Lit ''supplied idempotency key does not match the exact admitted request''])
      else act_else (ep_find ps i (ad_idempotency_key a)) (\<lambda>e. give res (wrapf [Lit ''check idempotency: ''] e))
        (\<lambda>found. case found of None \<Rightarrow> locked
          | Some r \<Rightarrow> (case validate_replay_request r xq program (ad_bundle a) of Some e \<Rightarrow> give res e
              | None \<Rightarrow> replay_observed en xq (ad_granted_capabilities a) res (\<lambda>sn. replay_result r sn res res))))"

definition engine_apply_resolved ::
    "('w, 'l, 'p) engine \<Rightarrow> sd_apply_request \<Rightarrow> sd_resolve_request \<Rightarrow> sd_resolution \<Rightarrow> sd_snapshot \<Rightarrow> apply_result
       \<Rightarrow> 'w apply_act" where
  "engine_apply_resolved en xq rq rs sn res =
     (let p = xq_prescription xq; ob = sr_objective rs in
      case validate_prescription_current p sn of Some e \<Rightarrow> give res e
      | None \<Rightarrow>
          if (case sr_prescription rs of None \<Rightarrow> [] | Some q \<Rightarrow> pr_id q) \<noteq> pr_id p
          then give res (stale_prescription_error p sn (snapshot_changed p sn) False True)
          else (case (if de_kind (sr_decision rs) = Decision_prescribed then de_transition (sr_decision rs) else None) of
             None \<Rightarrow> give res (decision_error (sr_decision rs))
           | Some t \<Rightarrow>
              act_bind (act_get (ep_now (en_ports en))) (\<lambda>now.
                case project_control_bundle (sn_observation sn) t (xq_parameters xq) (sq_bundle rq) of Inl e \<Rightarrow> give res e
                | Inr bundle \<Rightarrow>
                  (case new_admission sn ob t p (sq_authority rq) (xq_parameters xq) (sq_work rq) bundle (sq_bundle_revision rq)
                      now (xq_lifetime xq) of Inl e \<Rightarrow> give res e
                   | Inr a \<Rightarrow> engine_apply_admitted en (xq\<lparr>xq_resolve := rq\<lparr>sq_objective := ob\<rparr>\<rparr>) t a ob
                       (res\<lparr>xr_admission := Some a\<rparr>)))))"

text \<open>
  The request that goes on: a lifetime that is not positive is two minutes, and the parameters are
  those of the request. A resolution without error has a snapshot.
\<close>

text \<open>
  A resolution without a snapshot carries Go's zero value of one, which is what a caller would go
  on with if the error were nil; \<open>sd_resolve\<close> never returns that.
\<close>

definition zero_fact :: "'a \<Rightarrow> 'a fact" where
  "zero_fact v = \<lparr>f_status = [], f_value = v, f_evidence = [], f_detail = []\<rparr>"

definition zero_snapshot :: sd_snapshot where
  "zero_snapshot =
     \<lparr>sn_observation =
        \<lparr>ob_schema_version = 0, ob_state_revision = 0, ob_program_fingerprint = [], ob_recorded_fingerprint = [],
         ob_invocation = \<lparr>iv_repository_id = [], iv_git_common_id = [], iv_worktree_id = [], iv_ref = [],
           iv_controller_id = [], iv_invoking_path = [], iv_runtime_version = [], iv_runtime_path = [],
           iv_runtime_fingerprint = [], iv_topology = [], iv_host = [], iv_correlation = []\<rparr>,
         ob_program = zero_fact [], ob_phase = zero_fact [], ob_engagement = zero_fact [], ob_delivery = zero_fact [],
         ob_workspace = zero_fact [], ob_work_package = zero_fact [], ob_plan = zero_fact [],
         ob_configuration = zero_fact [],
         ob_configuration_policy = zero_fact \<lparr>cp_plan_approval = [], cp_independent_review = False,
           cp_high_risk_change = False, cp_visual_evidence = [], cp_external_effect = [], cp_hosts = []\<rparr>,
         ob_runtime = zero_fact [], ob_publication = zero_fact [], ob_verification = zero_fact [],
         ob_recovery = zero_fact [], ob_transaction = zero_fact [],
         ob_recovery_info = zero_fact \<lparr>rx_transaction = [], rx_cause = [], rx_source_phase = [], rx_permitted = [],
           rx_budget = 0, rx_resumption = []\<rparr>,
         ob_transaction_info = zero_fact \<lparr>tx_id = [], tx_transition = [], tx_status = [], tx_resources = [],
           tx_external = False\<rparr>,
         ob_terminal = zero_fact [], ob_objective = zero_fact empty_objective,
         ob_program_facts = [], ob_extension_facts = [], ob_observed_at = zero_time\<rparr>,
      sn_fingerprint = []\<rparr>"

definition resolution_snapshot :: "sd_resolution \<Rightarrow> sd_snapshot" where
  "resolution_snapshot rs = (case sr_snapshot rs of None \<Rightarrow> zero_snapshot | Some sn \<Rightarrow> sn)"

definition engine_apply_fresh :: "('w, 'l, 'p) engine \<Rightarrow> sd_apply_request \<Rightarrow> 'w apply_act" where
  "engine_apply_fresh en xq =
     (let rq = (xq_resolve xq)\<lparr>sq_parameters := xq_parameters xq\<rparr>;
          xq = xq\<lparr>xq_resolve := rq, xq_lifetime := if xq_lifetime xq \<le> 0 then resolution_lifetime else xq_lifetime xq\<rparr> in
      case prescription_invocation_error (xq_prescription xq) (evidence_fingerprint rq) of Some e \<Rightarrow> give no_result e
      | None \<Rightarrow>
          act_bind (sd_resolve en rq) (\<lambda>(rs, err).
            let res = no_result\<lparr>xr_source := sr_snapshot rs, xr_objective := sr_objective rs, xr_decision := sr_decision rs\<rparr> in
            case err of Some e \<Rightarrow> give res e
            | None \<Rightarrow> engine_apply_resolved en xq rq rs (resolution_snapshot rs) res))"

definition replayed_objective :: "sd_objective \<Rightarrow> sd_snapshot \<Rightarrow> sd_objective" where
  "replayed_objective ob sn =
     (if sd_objective_validate ob \<noteq> None \<and> is_known (ob_objective (sn_observation sn))
      then f_value (ob_objective (sn_observation sn)) else ob)"

definition sd_apply :: "('w, 'l, 'p) engine \<Rightarrow> sd_apply_request \<Rightarrow> 'w apply_act" where
  "sd_apply en xq =
     (let ps = en_ports en; rq = xq_resolve xq; i = sq_invocation rq; give = give no_result in
      if xq_flow xq = [] then give (errorf [Lit ''kernel apply requires flow identity''])
      else (case sd_prescription_validate (xq_prescription xq) of Some e \<Rightarrow> give e
        | None \<Rightarrow>
            if sq_requested rq \<noteq> pr_transition (xq_prescription xq)
            then give (errorf [Lit ''apply transition does not match prescription''])
            else if xq_idempotency xq = [] then engine_apply_fresh en xq
            else act_else (ep_find ps i (xq_idempotency xq)) (\<lambda>e. give (wrapf [Lit ''check supplied idempotency key: ''] e))
              (\<lambda>found. case found of None \<Rightarrow> engine_apply_fresh en xq
                | Some r \<Rightarrow>
                    (case validate_replay_request r xq (pf_fingerprint (en_program en)) (sq_bundle rq) of Some e \<Rightarrow> give e
                     | None \<Rightarrow>
                        act_bind (act_get (ep_now ps)) (\<lambda>now.
                          replay_observed en xq (granted_capabilities (sq_authority rq) now) no_result (\<lambda>sn.
                            replay_result r sn no_result (no_result\<lparr>xr_source := Some sn,
                              xr_objective := replayed_objective (sq_objective rq) sn\<rparr>)))))))"

end
