(* ===== verification/Delivery_Registry_Laws.thy ===== *)
theory Delivery_Registry_Laws
  imports Delivery_Ownership
begin

text \<open>
  What a registry that was built establishes (\<open>catalog.New\<close>, \<open>Lookup\<close>, \<open>ManagedTransition\<close>):
  which declarations it accepts, that identities and managed operations name one transition
  each, that every controllable transition has a recovery, and that the order of the
  declarations does not matter.
\<close>

abbreviation managed_operations :: "sd_transition \<Rightarrow> string list" where
  "managed_operations t \<equiv> pl_managed_operations (tn_policy t)"

definition claimed :: "sd_transition list \<Rightarrow> string list" where
  "claimed ts = concat (map managed_operations ts)"

definition claims :: "sd_transition list \<Rightarrow> (string \<times> string) list" where
  "claims ts = concat (map (\<lambda>t. map (\<lambda>op. (op, tn_id t)) (managed_operations t)) ts)"

lemma claimed_simps [simp]:
  "claimed [] = []" "claimed (t # ts) = managed_operations t @ claimed ts"
  "claims [] = []" "claims (t # ts) = map (\<lambda>op. (op, tn_id t)) (managed_operations t) @ claims ts"
  by (simp_all add: claimed_def claims_def)

lemma map_fst_claims [simp]: "map fst (claims ts) = claimed ts"
  by (induction ts) (simp_all add: comp_def)

lemma fst_claims [simp]: "fst ` set (claims ts) = set (claimed ts)"
  using map_fst_claims [of ts] by (metis list.set_map)

lemma mset_claimed: "mset (claimed ts) = (\<Sum>t\<in>#mset ts. mset (managed_operations t))"
  by (induction ts) simp_all

lemma set_claims: "(op, i) \<in> set (claims ts) \<longleftrightarrow> (\<exists>t\<in>set ts. tn_id t = i \<and> op \<in> set (managed_operations t))"
  by (auto simp: claims_def)

lemma claim_operations_iff:
  "claim_operations i managed ops = Inr m \<longleftrightarrow> distinct ops \<and> set ops \<inter> fst ` set managed = {}
     \<and> m = rev (map (\<lambda>op. (op, i)) ops) @ managed"
proof (induction ops arbitrary: managed)
  case (Cons op ops)
  show ?case
  proof (cases "map_of managed op")
    case None
    then have "op \<notin> fst ` set managed"
      by (simp add: map_of_eq_None_iff)
    then show ?thesis
      using None Cons.IH [of "(op, i) # managed"] by auto
  next
    case (Some j)
    then have "op \<in> fst ` set managed"
      by (metis domI dom_map_of_conv_image_fst)
    then show ?thesis
      using Some by auto
  qed
qed auto

text \<open>What the first loop of \<open>New\<close> accepts, and what it builds.\<close>

definition registrable :: "sd_transition list \<Rightarrow> bool" where
  "registrable ts \<longleftrightarrow> (\<forall>t\<in>set ts. validate_transition t = None) \<and> distinct (map tn_id ts) \<and> distinct (claimed ts)"

lemma register_iff:
  "register n by_id managed ts = Inr (b, m) \<longleftrightarrow> registrable ts
     \<and> set (map tn_id ts) \<inter> fst ` set by_id = {} \<and> set (claimed ts) \<inter> fst ` set managed = {}
     \<and> b = rev (map (\<lambda>t. (tn_id t, t)) ts) @ by_id \<and> m = rev (claims ts) @ managed"
proof (induction ts arbitrary: n by_id managed)
  case Nil
  then show ?case by (auto simp: registrable_def)
next
  case (Cons t ts)
  show ?case
  proof (cases "validate_transition t = None \<and> map_of by_id (tn_id t) = None
      \<and> distinct (managed_operations t) \<and> set (managed_operations t) \<inter> fst ` set managed = {}")
    case True
    then have "claim_operations (tn_id t) managed (managed_operations t)
        = Inr (rev (map (\<lambda>op. (op, tn_id t)) (managed_operations t)) @ managed)"
      by (simp add: claim_operations_iff)
    moreover have "tn_id t \<notin> fst ` set by_id"
      using True by (simp add: map_of_eq_None_iff)
    ultimately show ?thesis
      using True Cons.IH by (auto simp: registrable_def image_Un image_image)
  next
    case False
    then have "register n by_id managed (t # ts) \<noteq> Inr (b, m)"
      by (auto split: option.splits sum.splits simp: claim_operations_iff)
    moreover have "\<not> (registrable (t # ts) \<and> set (map tn_id (t # ts)) \<inter> fst ` set by_id = {}
        \<and> set (claimed (t # ts)) \<inter> fst ` set managed = {})"
      using False by (auto simp: registrable_def map_of_eq_None_iff)
    ultimately show ?thesis
      by blast
  qed
qed

definition recoverable :: "sd_transition list \<Rightarrow> bool" where
  "recoverable ts \<longleftrightarrow> (\<forall>t\<in>set ts. ic_recovery (tn_interruption t) \<noteq> [] \<longrightarrow>
     (\<exists>c\<in>set ts. tn_id c = ic_recovery (tn_interruption t) \<and> tn_class c = Event_recovery))"

lemma map_of_indexed:
  assumes "distinct (map tn_id ts)"
  shows "map_of (rev (map (\<lambda>t. (tn_id t, t)) ts)) i = Some t \<longleftrightarrow> t \<in> set ts \<and> tn_id t = i"
  using assms by (auto simp: map_of_eq_Some_iff rev_map [symmetric] comp_def image_iff distinct_map inj_on_def)

lemma recovery_references:
  assumes "distinct (map tn_id ts)"
  shows "first_error (recovery_reference_error (rev (map (\<lambda>t. (tn_id t, t)) ts))) ts = None \<longleftrightarrow> recoverable ts"
proof -
  let ?b = "rev (map (\<lambda>t. (tn_id t, t)) ts)"
  have "(case map_of ?b i of None \<Rightarrow> True | Some c \<Rightarrow> tn_class c \<noteq> Event_recovery)
      \<longleftrightarrow> \<not> (\<exists>c\<in>set ts. tn_id c = i \<and> tn_class c = Event_recovery)" for i
  proof (cases "map_of ?b i")
    case None
    then show ?thesis
      using map_of_indexed [OF assms, of i] by auto
  next
    case (Some a)
    moreover have "c = a" if "c \<in> set ts" "tn_id c = i" for c
      using that map_of_indexed [OF assms, of i c] Some by simp
    ultimately show ?thesis
      using map_of_indexed [OF assms, of i a] by auto
  qed
  then show ?thesis
    by (auto simp: recovery_reference_error_def recoverable_def Let_def)
qed

lemma new_registry_iff:
  "new_registry ts = Inr r \<longleftrightarrow> registrable ts \<and> recoverable ts
     \<and> r = \<lparr>rg_ordered = sort_key selection_order ts, rg_by_id = rev (map (\<lambda>t. (tn_id t, t)) ts),
            rg_managed = rev (claims ts)\<rparr>"
proof (cases "registrable ts")
  case True
  then have "register 0 [] [] ts = Inr (rev (map (\<lambda>t. (tn_id t, t)) ts), rev (claims ts))"
    by (simp add: register_iff)
  then show ?thesis
    using True recovery_references [of ts]
    by (auto simp: new_registry_def registrable_def simp del: first_error_None_iff split: option.splits)
next
  case False
  then have "register 0 [] [] ts \<noteq> Inr p" for p
    by (cases p) (simp add: register_iff)
  then show ?thesis
    using False by (cases "register 0 [] [] ts") (auto simp: new_registry_def)
qed

lemma registry_lookup_iff:
  assumes "new_registry ts = Inr r"
  shows "registry_lookup r i = Some t \<longleftrightarrow> t \<in> set ts \<and> tn_id t = i"
  using assms map_of_indexed [of ts] by (auto simp: new_registry_iff registrable_def registry_lookup_def)

lemma managed_transition_iff:
  assumes "new_registry ts = Inr r"
  shows "managed_transition r op = Some t \<longleftrightarrow> t \<in> set ts \<and> op \<in> set (managed_operations t)"
proof -
  have r: "registrable ts" "rg_managed r = rev (claims ts)"
    using assms by (auto simp: new_registry_iff)
  have "distinct (map fst (rev (claims ts)))"
    using r(1) by (simp add: rev_map [symmetric] registrable_def)
  then have m: "map_of (rg_managed r) op = Some i \<longleftrightarrow> (\<exists>u\<in>set ts. tn_id u = i \<and> op \<in> set (managed_operations u))" for i
    unfolding r(2) by (simp add: map_of_eq_Some_iff set_claims)
  have unique: "u = t" if "u \<in> set ts" "t \<in> set ts" "tn_id u = tn_id t" for u
    using r(1) that by (auto simp: registrable_def distinct_map inj_on_def)
  show ?thesis
  proof
    assume "managed_transition r op = Some t"
    then obtain i where i: "map_of (rg_managed r) op = Some i" "registry_lookup r i = Some t"
      by (auto simp: managed_transition_def split: option.splits)
    then obtain u where "u \<in> set ts" "tn_id u = i" "op \<in> set (managed_operations u)"
      using m by blast
    then show "t \<in> set ts \<and> op \<in> set (managed_operations t)"
      using i(2) registry_lookup_iff [OF assms] unique by auto
  next
    assume t: "t \<in> set ts \<and> op \<in> set (managed_operations t)"
    then show "managed_transition r op = Some t"
      using m [of "tn_id t"] registry_lookup_iff [OF assms, of "tn_id t" t]
      by (auto simp: managed_transition_def)
  qed
qed

lemma valid_has_recovery:
  assumes "validate_transition t = None" "tn_controllable t"
  shows "ic_recovery (tn_interruption t) \<noteq> []"
  using transition_check [OF assms(1), of "interruption_error t"] assms(2)
  by (auto simp: transition_errors_def interruption_error_def Let_def)

lemma registry_ordered:
  assumes "new_registry ts = Inr r"
  shows "distinct (map tn_id (rg_ordered r))" "set (rg_ordered r) = set ts"
  using assms by (auto simp: new_registry_iff registrable_def distinct_map)

text \<open>
  C30. A registry that was built is exact: it holds the given declarations, each valid, in the
  order of selection; an identity and a managed operation each name one transition, the one
  that declares them; and every controllable transition has a recovery transition in it.
\<close>

theorem registry_exact:
  assumes "new_registry ts = Inr r"
  shows "mset (rg_ordered r) = mset ts \<and> sorted (map selection_order (rg_ordered r))
    \<and> distinct (map tn_id (rg_ordered r)) \<and> (\<forall>t\<in>set ts. validate_transition t = None)
    \<and> (\<forall>i t. registry_lookup r i = Some t \<longleftrightarrow> t \<in> set ts \<and> tn_id t = i)
    \<and> (\<forall>op t. managed_transition r op = Some t \<longleftrightarrow> t \<in> set ts \<and> op \<in> set (managed_operations t))
    \<and> (\<forall>t\<in>set ts. tn_controllable t \<longrightarrow> (\<exists>c\<in>set ts. tn_id c = ic_recovery (tn_interruption t)
          \<and> tn_class c = Event_recovery \<and> registry_lookup r (tn_id c) = Some c))"
proof -
  have r: "registrable ts" "recoverable ts" "rg_ordered r = sort_key selection_order ts"
    using assms by (auto simp: new_registry_iff)
  have "\<exists>c\<in>set ts. tn_id c = ic_recovery (tn_interruption t) \<and> tn_class c = Event_recovery
      \<and> registry_lookup r (tn_id c) = Some c" if "t \<in> set ts" "tn_controllable t" for t
    using r(1,2) that valid_has_recovery [of t] registry_lookup_iff [OF assms]
    by (fastforce simp: registrable_def recoverable_def)
  then show ?thesis
    using r registry_lookup_iff [OF assms] managed_transition_iff [OF assms] registry_ordered(1) [OF assms]
    by (simp add: registrable_def)
qed

text \<open>
  The order in which declarations are listed does not matter to a registry: any other order
  is accepted too, and gives the same order of selection and the same lookups.
\<close>

lemma registry_order_free:
  assumes "new_registry ts = Inr r" and "mset us = mset ts"
  shows "\<exists>r'. new_registry us = Inr r' \<and> rg_ordered r' = rg_ordered r
    \<and> registry_lookup r' = registry_lookup r \<and> managed_transition r' = managed_transition r"
proof -
  have set: "set us = set ts"
    using assms(2) by (metis set_mset_mset)
  have r: "registrable ts" "recoverable ts" "rg_ordered r = sort_key selection_order ts"
    using assms(1) by (auto simp: new_registry_iff)
  have ids: "mset (map tn_id us) = mset (map tn_id ts)" "mset (claimed us) = mset (claimed ts)"
    using assms(2) by (simp_all add: mset_claimed)
  then have "registrable us" "recoverable us"
    using r set by (simp_all add: registrable_def recoverable_def flip: mset_eq_imp_distinct_iff [OF ids(1)]
        mset_eq_imp_distinct_iff [OF ids(2)])
  then obtain r' where r': "new_registry us = Inr r'"
    by (simp add: new_registry_iff)
  have "inj_on selection_order (set ts)"
    using r(1) by (auto simp: registrable_def distinct_map inj_on_def selection_order_def)
  then have "sort_key selection_order us = sort_key selection_order ts"
    using assms(2) by (intro sort_key_inj_key_eq) (simp_all add: set)
  then have "rg_ordered r' = rg_ordered r"
    using r' r(3) by (simp add: new_registry_iff)
  moreover have "registry_lookup r' i = registry_lookup r i" for i
    using registry_lookup_iff [OF assms(1)] registry_lookup_iff [OF r'] set by (metis option.exhaust)
  moreover have "managed_transition r' op = managed_transition r op" for op
    using managed_transition_iff [OF assms(1)] managed_transition_iff [OF r'] set by (metis option.exhaust)
  ultimately show ?thesis
    using r' by blast
qed

end
