(* ===== verification/Delivery_Admission_Laws.thy ===== *)
theory Delivery_Admission_Laws
  imports Delivery_Admission Delivery_Registry_Laws
begin

text \<open>
  What a prescription and an admission guarantee: both are sealed, current for exactly the
  snapshot they were built from, and bound to the work, bundle and invocation they were given.
\<close>

section \<open>Orders that do not matter\<close>

lemma bundle_errors_iff:
  "bundle_errors now seen b = None \<longleftrightarrow> (\<forall>r\<in>set b. sd_receipt_validate r now = None)
     \<and> distinct (map rp_id b) \<and> set (map rp_id b) \<inter> set seen = {}"
  by (induction b arbitrary: seen) (auto split: option.splits)

lemma bundle_canonical_validate [simp]: "bundle_validate (bundle_canonical b) now = bundle_validate b now"
  if "bundle_validate b now = None"
proof -
  have "bundle_validate (bundle_canonical b) now = None"
    using that by (simp add: bundle_validate_def bundle_errors_iff bundle_canonical_def distinct_map)
  then show ?thesis
    using that by simp
qed

lemma bundle_canonical_set [simp]: "set (bundle_set (bundle_canonical b) now) = set (bundle_set b now)"
  by (auto simp: bundle_set_def bundle_canonical_def)

lemma bundle_canonical_fingerprint [simp]: "bundle_fingerprint (bundle_canonical b) = bundle_fingerprint b"
  by (simp add: bundle_fingerprint_def bundle_canonical_def sort_key_id_if_sorted)

lemma authority_capabilities_cong: "set a = set b \<Longrightarrow> authority_capabilities a = authority_capabilities b"
  by (simp add: authority_capabilities_def Let_def)

lemma authority_satisfies_cong:
  "set a = set b \<Longrightarrow> authority_satisfies a some every = authority_satisfies b some every"
  by (simp add: authority_satisfies_def)

lemma policy_authority_cong:
  assumes "set a = set b"
  shows "policy_authority_error s t a = policy_authority_error s t b"
  unfolding policy_authority_error_def contains_iff assms ..

lemma project_capabilities_canonical:
  assumes "bundle_validate b now = None"
  shows "project_capabilities s t (bundle_canonical b) now = project_capabilities s t b now"
proof -
  have same: "authority_capabilities (bundle_set (bundle_canonical b) now) = authority_capabilities (bundle_set b now)"
    by (rule authority_capabilities_cong) simp
  show ?thesis
    unfolding project_capabilities_def bundle_canonical_fingerprint bundle_canonical_validate [OF assms] same ..
qed

lemma provider_binding_canonical:
  assumes "parameters_get ps' = parameters_get ps"
  shows "provider_binding_error (bundle_canonical b) t ps' = None \<longleftrightarrow> provider_binding_error b t ps = None"
  by (simp add: provider_binding_error_def bundle_canonical_def parameter_text_def assms Let_def)

lemma authority_evidence_canonical:
  "authority_evidence_error s (bundle_canonical b) = None \<longleftrightarrow> authority_evidence_error s b = None"
  by (simp add: authority_evidence_error_def bundle_canonical_def)

lemma parameter_errors_iff:
  "parameter_errors i allowed seen ps = None \<longleftrightarrow> distinct (map pm_name ps) \<and> set (map pm_name ps) \<inter> set seen = {}
     \<and> (\<forall>p\<in>set ps. parameter_error i allowed [] p = None)"
proof (induction ps arbitrary: seen)
  case (Cons p ps)
  have "parameter_error i allowed seen p = None \<longleftrightarrow> parameter_error i allowed [] p = None \<and> pm_name p \<notin> set seen"
    by (auto simp: parameter_error_None)
  then show ?case
    using Cons.IH [of "pm_name p # seen"] by (cases "parameter_error i allowed seen p") auto
qed simp

lemma parameters_canonical_validate:
  assumes "parameters_validate ps t = None"
  shows "parameters_validate (parameters_canonical ps) t = None"
  using assms
  by (auto simp: parameters_validate_def parameter_errors_iff parameters_canonical_def distinct_map split: option.splits)

lemma parameters_canonical_get:
  assumes "parameters_validate ps t = None"
  shows "parameters_get (parameters_canonical ps) = parameters_get ps"
proof
  fix name
  have d: "distinct (map pm_name ps)" "distinct (map pm_name (parameters_canonical ps))"
    using parameters_validate_None(3) [OF assms] by (simp_all add: parameters_canonical_def distinct_map)
  have "parameters_get (parameters_canonical ps) name = Some v \<longleftrightarrow> parameters_get ps name = Some v" for v
    using parameters_get_distinct [OF d(1)] parameters_get_distinct [OF d(2)]
    by (simp add: parameters_canonical_def)
  then show "parameters_get (parameters_canonical ps) name = parameters_get ps name"
    by (metis option.exhaust)
qed

section \<open>Capabilities\<close>

lemma scan_capabilities_ok:
  "distinct vs \<Longrightarrow> \<forall>v\<in>set vs. effect_capability_valid v \<Longrightarrow> set vs \<inter> set seen = {} \<Longrightarrow>
     \<exists>c. scan_capabilities field seen vs = Inr c"
  by (induction vs arbitrary: seen) auto

lemma missing_capability_none:
  assumes "missing_capability required available = []" "\<forall>c\<in>set required. effect_capability_valid c"
  shows "set required \<subseteq> set available"
proof
  fix c
  assume c: "c \<in> set required"
  show "c \<in> set available"
  proof (rule ccontr)
    assume "c \<notin> set available"
    then obtain d ds where d: "filter (\<lambda>v. \<not> contains available v) required = d # ds"
      using c by (cases "filter (\<lambda>v. \<not> contains available v) required") (auto simp: filter_empty_conv)
    then have "d \<in> set required"
      by (metis filter_is_subset list.set_intros(1) subsetD)
    then have "d \<noteq> []"
      using assms(2) by (auto simp: effect_capability_valid_def)
    then show False
      using assms(1) d by (simp add: missing_capability_def)
  qed
qed

lemma missing_capability_subset:
  assumes "set required \<subseteq> set available"
  shows "missing_capability required available = []"
proof -
  have "filter (\<lambda>v. \<not> contains available v) required = []"
    using assms by (auto simp: filter_empty_conv)
  then show ?thesis
    by (simp add: missing_capability_def)
qed

lemma union_capabilities_valid: "c \<in> set (union_capabilities groups) \<Longrightarrow> effect_capability_valid c"
  by (auto simp: union_capabilities_def sorted_capabilities_def)

lemma distinct_sorted_capabilities: "distinct (sorted_capabilities s)"
  by (simp add: sorted_capabilities_def)

lemma authority_capabilities_valid: "c \<in> set (authority_capabilities a) \<Longrightarrow> effect_capability_valid c"
  by (auto simp: authority_capabilities_def effect_capability_valid_def Let_def split: if_splits)

text \<open>A projection is exact: what is required is declared, granted and effective.\<close>

lemma project_capabilities_Inr:
  assumes "project_capabilities s t b now = Inr caps"
  shows "bundle_validate b now = None" "cj_effective caps = cj_required caps"
    "bundle_fingerprint b = Inr (cj_authority_fingerprint caps)"
    "set (cj_required caps) \<subseteq> set (cj_granted caps)"
    "distinct (cj_required caps) \<and> distinct (cj_granted caps)"
    "\<forall>c\<in>set (cj_required caps) \<union> set (cj_granted caps). effect_capability_valid c"
proof -
  define required where "required = (if requires_human_approval s t
      then union_capabilities [effect_required_capabilities t, [Capability_human_approve]]
      else effect_required_capabilities t)"
  let ?granted = "authority_capabilities (bundle_set b now)"
  show b: "bundle_validate b now = None"
    using assms by (auto simp: project_capabilities_def split: option.splits)
  have p: "missing_capability required ?granted = []"
    "bundle_fingerprint b = Inr (cj_authority_fingerprint caps)" "cj_required caps = required"
    "cj_effective caps = required" "cj_granted caps = sorted_capabilities ?granted"
    using assms unfolding project_capabilities_def Let_def required_def [symmetric]
    by (auto simp: b split: if_split_asm sum.splits)
  have "required = union_capabilities (if requires_human_approval s t
      then [effect_required_capabilities t, [Capability_human_approve]]
      else [tn_required_capabilities t, kernel_effect_capabilities t])"
    by (simp only: required_def effect_required_capabilities_def if_distrib [of union_capabilities])
  then obtain gs where gs: "required = union_capabilities gs"
    by blast
  have valid: "\<forall>c\<in>set required. effect_capability_valid c"
    unfolding gs by (intro ballI) (rule union_capabilities_valid)
  have distinct: "distinct required"
    unfolding gs union_capabilities_def by (rule distinct_sorted_capabilities)
  have "set required \<subseteq> set ?granted"
    by (rule missing_capability_none [OF p(1) valid])
  then show "set (cj_required caps) \<subseteq> set (cj_granted caps)"
    unfolding p(3,5) by (simp add: sorted_capabilities_def)
  show "cj_effective caps = cj_required caps" "bundle_fingerprint b = Inr (cj_authority_fingerprint caps)"
    "distinct (cj_required caps) \<and> distinct (cj_granted caps)"
    using p distinct by (simp_all only: distinct_sorted_capabilities simp_thms)
  have "effect_capability_valid c" if "c \<in> set (cj_granted caps)" for c
    using that authority_capabilities_valid unfolding p(5) by (simp add: sorted_capabilities_def)
  then show "\<forall>c\<in>set (cj_required caps) \<union> set (cj_granted caps). effect_capability_valid c"
    using valid unfolding p(3) by blast
qed

section \<open>Prescriptions\<close>

lemma content_id_Inr: "content_id prefix j = Inr h \<Longrightarrow> \<exists>d. h = prefix @ d \<and> length d = 64"
  by (auto simp: content_id_def hash_json_length split: sum.splits)

lemma snapshot_freshness_Inr:
  "snapshot_freshness sn auth = Inr f \<longleftrightarrow>
     (\<exists>b. objective_binding_fingerprint (sn_observation sn) = Inr b \<and> freshness_validate f = None
       \<and> f = \<lparr>fr_instance = iv_repository_id (ob_invocation (sn_observation sn)),
              fr_revision = ob_state_revision (sn_observation sn),
              fr_program = ob_program_fingerprint (sn_observation sn), fr_snapshot = sn_fingerprint sn,
              fr_binding = b, fr_authority = auth\<rparr>)"
  by (auto simp: snapshot_freshness_def Let_def new_freshness_Inr split: sum.splits)

lemma prescription_current_None:
  "prescription_current p sn t caps = None \<longleftrightarrow> sd_prescription_validate p = None \<and> pr_transition p = tn_id t
     \<and> snapshot_freshness sn (cj_authority_fingerprint caps) = Inr (pr_freshness p)
     \<and> pr_required p = cj_required caps \<and> pr_effective p = cj_effective caps"
proof -
  have "fr_authority f = auth \<and> freshness_validate f = None" if "snapshot_freshness sn auth = Inr f" for f auth
    using that by (auto simp: snapshot_freshness_Inr)
  note fresh = this
  show ?thesis
  proof (cases "snapshot_freshness sn (cj_authority_fingerprint caps)")
    case (Inr f)
    then have "freshness_check (pr_freshness p) f = None \<longleftrightarrow> pr_freshness p = f" "fr_authority f = cj_authority_fingerprint caps"
      using fresh by (auto simp: freshness_check_None_iff)
    then show ?thesis
      using Inr by (auto simp: prescription_current_def split: option.splits)
  qed (auto simp: prescription_current_def split: option.splits)
qed

lemma seal_prescription_Inr:
  assumes "seal_prescription p = Inr q"
  shows "sd_prescription_validate q = None" "\<exists>h. q = p\<lparr>pr_id := h\<rparr>"
proof -
  obtain h where h: "prescription_fields_validate p = None" "sd_prescription_identity p = Inr h" "q = p\<lparr>pr_id := h\<rparr>"
    using assms by (auto simp: seal_prescription_def split: option.splits sum.splits)
  have "h \<noteq> []"
    using h(2) content_id_Inr by (fastforce simp: sd_prescription_identity_def)
  moreover have "prescription_fields_validate q = None" "sd_prescription_identity q = Inr h"
    using h by (simp_all add: prescription_fields_validate_def sd_prescription_identity_def)
  ultimately show "sd_prescription_validate q = None"
    using h(3) by (simp add: sd_prescription_validate_def)
  show "\<exists>h. q = p\<lparr>pr_id := h\<rparr>"
    using h(3) by blast
qed

lemma work_current_valid: "work_evidence_current w sn t = None \<Longrightarrow> work_evidence_validate w = None"
  by (simp add: work_evidence_current_def split: option.splits)

lemma work_valid_fingerprint: "work_evidence_validate w = None \<Longrightarrow> wk_result_fingerprint w \<noteq> []"
  by (auto simp: work_evidence_validate_def first_failure_None valid_control_digest_def)

text \<open>
  C22. A prescription that was issued is sealed and current for exactly what it was issued for: its
  snapshot, transition and capabilities, its work, its control bundle and its invocation. Whatever
  else it is current for agrees on transition, repository, revision, program, snapshot,
  objective binding, authority and capabilities.
\<close>

theorem prescription_binds:
  assumes "new_sd_prescription sn t caps work bundle invoked = Inr p"
  shows "sd_prescription_validate p = None \<and> prescription_current p sn t caps = None
    \<and> prescription_work_error p work = None \<and> prescription_bundle_error p bundle t = None
    \<and> prescription_invocation_error p invoked = None
    \<and> (\<forall>sn' t' caps'. prescription_current p sn' t' caps' = None \<longrightarrow>
         tn_id t' = tn_id t \<and> sn_fingerprint sn' = sn_fingerprint sn
         \<and> ob_state_revision (sn_observation sn') = ob_state_revision (sn_observation sn)
         \<and> ob_program_fingerprint (sn_observation sn') = ob_program_fingerprint (sn_observation sn)
         \<and> iv_repository_id (ob_invocation (sn_observation sn')) = iv_repository_id (ob_invocation (sn_observation sn))
         \<and> objective_binding_fingerprint (sn_observation sn') = objective_binding_fingerprint (sn_observation sn)
         \<and> cj_authority_fingerprint caps' = cj_authority_fingerprint caps
         \<and> cj_required caps' = cj_required caps \<and> cj_effective caps' = cj_effective caps)"
proof -
  obtain fresh where f: "snapshot_freshness sn (cj_authority_fingerprint caps) = Inr fresh"
    "bundle_for_transition bundle t = None"
    "\<forall>w. work = Some w \<longrightarrow> work_evidence_current w sn t = None"
    "seal_prescription
       \<lparr>pr_schema_version = sd_prescription_schema_version, pr_id = [], pr_transition = tn_id t,
        pr_freshness = fresh, pr_required = cj_required caps, pr_effective = cj_effective caps,
        pr_work_fingerprint = (case work of None \<Rightarrow> [] | Some w \<Rightarrow> wk_result_fingerprint w),
        pr_bundle_fingerprint = (case bundle of None \<Rightarrow> [] | Some b \<Rightarrow> bc_fingerprint b),
        pr_invocation_fingerprint = invoked\<rparr> = Inr p"
    using assms by (auto simp: new_sd_prescription_def split: sum.splits option.splits if_splits)
  have valid: "sd_prescription_validate p = None"
    by (rule seal_prescription_Inr(1) [OF f(4)])
  have fields: "pr_transition p = tn_id t" "pr_freshness p = fresh" "pr_required p = cj_required caps"
    "pr_effective p = cj_effective caps"
    "pr_work_fingerprint p = (case work of None \<Rightarrow> [] | Some w \<Rightarrow> wk_result_fingerprint w)"
    "pr_bundle_fingerprint p = (case bundle of None \<Rightarrow> [] | Some b \<Rightarrow> bc_fingerprint b)"
    "pr_invocation_fingerprint p = invoked"
    using seal_prescription_Inr(2) [OF f(4)] by auto
  have current: "prescription_current p sn t caps = None"
    using f(1) valid fields by (simp add: prescription_current_None)
  have "prescription_work_error p work = None"
    using f(3) fields(5) work_current_valid work_valid_fingerprint
    by (cases work) (auto simp: prescription_work_error_def)
  moreover have "prescription_bundle_error p bundle t = None" "prescription_invocation_error p invoked = None"
    using f(2) fields by (simp_all add: prescription_bundle_error_def prescription_invocation_error_def)
  ultimately show ?thesis
    using valid current by (auto simp: prescription_current_None snapshot_freshness_Inr)
qed

section \<open>Admissions\<close>

lemma seal_admission_Inr:
  assumes "seal_admission a j = Inr a'"
  shows "\<exists>key h. a' = a\<lparr>ad_idempotency_key := key, ad_id := h\<rparr> \<and> key \<noteq> [] \<and> h \<noteq> []
    \<and> sd_admission_identity a' = Inr h"
proof -
  obtain key h where k: "content_id ''idem-'' j = Inr key"
    "sd_admission_identity (a\<lparr>ad_idempotency_key := key\<rparr>) = Inr h"
    "a' = a\<lparr>ad_idempotency_key := key, ad_id := h\<rparr>"
    using assms by (auto simp: seal_admission_def split: sum.splits)
  have "sd_admission_identity a' = Inr h"
    using k(2) by (simp add: k(3) sd_admission_identity_def)
  moreover have "key \<noteq> []"
    using content_id_Inr [OF k(1)] by auto
  moreover have "h \<noteq> []"
    using k(2) content_id_Inr by (fastforce simp: sd_admission_identity_def)
  ultimately show ?thesis
    using k(3) by blast
qed

lemma with_program_delta_Inr:
  assumes "with_program_delta a prior = Inr a'" "ad_prior_program a = []" "ad_program_delta a = []"
  shows "\<exists>d. a' = a\<lparr>ad_prior_program := prior, ad_program_delta := d\<rparr> \<and> (prior = [] \<longleftrightarrow> d = [])
    \<and> (prior \<noteq> [] \<longrightarrow> program_delta_fingerprint prior (ad_expected_program a) = Inr d)"
proof (cases "prior = []")
  case True
  then show ?thesis
    using assms by (intro exI [of _ "[]"]) (simp add: with_program_delta_def)
next
  case False
  then obtain d where d: "program_delta_fingerprint prior (ad_expected_program a) = Inr d"
    "a' = a\<lparr>ad_prior_program := prior, ad_program_delta := d\<rparr>"
    using assms by (auto simp: with_program_delta_def split: sum.splits)
  have "length d = 64"
    using d(1) by (auto simp: program_delta_fingerprint_def split: if_splits)
  then show ?thesis
    using d False by auto
qed

lemma new_admission_Inr:
  assumes "new_admission sn requested t p authority ps work bundle brev now lifetime = Inr a"
  shows "\<exists>ob caps d key h. objective_for_transition (sn_observation sn) requested t = Inr ob
    \<and> validate_applicability sn ob t authority ps now = None
    \<and> project_capabilities (sn_observation sn) t authority now = Inr caps
    \<and> (\<forall>e\<in>set (admission_errors sn t p caps work bundle lifetime). e = None)
    \<and> bundle_revision_error (admission_draft sn ob t p authority ps caps work bundle brev now lifetime) = None
    \<and> a = (admission_draft sn ob t p authority ps caps work bundle brev now lifetime)
        \<lparr>ad_prior_program := prior_program (sn_observation sn), ad_program_delta := d,
         ad_idempotency_key := key, ad_id := h\<rparr>
    \<and> (prior_program (sn_observation sn) = [] \<longleftrightarrow> d = [])
    \<and> (prior_program (sn_observation sn) \<noteq> [] \<longrightarrow>
         program_delta_fingerprint (prior_program (sn_observation sn)) (fr_program (pr_freshness p)) = Inr d)
    \<and> key \<noteq> [] \<and> h \<noteq> [] \<and> sd_admission_identity a = Inr h"
proof -
  let ?draft = "\<lambda>ob caps. admission_draft sn ob t p authority ps caps work bundle brev now lifetime"
  obtain ob where ob: "objective_for_transition (sn_observation sn) requested t = Inr ob"
    using assms by (cases "objective_for_transition (sn_observation sn) requested t") (auto simp: new_admission_def Let_def)
  have v: "validate_applicability sn ob t authority ps now = None"
    using assms ob by (cases "validate_applicability sn ob t authority ps now") (auto simp: new_admission_def Let_def)
  obtain caps where caps: "project_capabilities (sn_observation sn) t authority now = Inr caps"
    using assms ob v
    by (cases "project_capabilities (sn_observation sn) t authority now") (auto simp: new_admission_def Let_def)
  have e: "first_failure (admission_errors sn t p caps work bundle lifetime) = None"
    using assms ob v caps
    by (cases "first_failure (admission_errors sn t p caps work bundle lifetime)")
      (auto simp: new_admission_def Let_def simp del: first_failure_None)
  have b: "bundle_revision_error (?draft ob caps) = None"
    using assms ob v caps e
    by (cases "bundle_revision_error (?draft ob caps)") (auto simp: new_admission_def Let_def simp del: first_failure_None)
  obtain a1 where a1: "with_program_delta (?draft ob caps) (prior_program (sn_observation sn)) = Inr a1"
    using assms ob v caps e b
    by (cases "with_program_delta (?draft ob caps) (prior_program (sn_observation sn))")
      (auto simp: new_admission_def Let_def simp del: first_failure_None)
  have s: "seal_admission a1 (idempotency_json t sn ob ps p) = Inr a"
    using assms ob v caps e b a1 by (simp add: new_admission_def Let_def del: first_failure_None)
  have "ad_prior_program (?draft ob caps) = []" "ad_program_delta (?draft ob caps) = []"
    "ad_expected_program (?draft ob caps) = fr_program (pr_freshness p)"
    by (simp_all add: admission_draft_def Let_def split: prod.splits)
  then show ?thesis
    using ob v caps e b with_program_delta_Inr [OF a1] seal_admission_Inr [OF s] by auto
qed

lemma admission_draft_fields [simp]:
  fixes sn ob t p authority ps caps work bd brev now lifetime
  defines "a \<equiv> admission_draft sn ob t p authority ps caps work bd brev now lifetime"
  shows "ad_schema_version a = admission_schema_version" "ad_prescription a = pr_id p"
    "ad_transition_id a = tn_id t" "ad_transition_version a = tn_version t"
    "ad_expected_revision a = fr_revision (pr_freshness p)" "ad_expected_program a = fr_program (pr_freshness p)"
    "ad_expected_snapshot a = fr_snapshot (pr_freshness p)" "ad_expected_binding a = fr_binding (pr_freshness p)"
    "ad_source_revision a = fst (git_binding (sn_observation sn))"
    "ad_worktree_fingerprint a = snd (git_binding (sn_observation sn))"
    "ad_source_phase a = f_value (ob_phase (sn_observation sn))" "ad_invocation a = ob_invocation (sn_observation sn)"
    "ad_objective a = ob" "ad_scope a = tn_scope t"
    "ad_objective_status a = (if tn_scope t = Objective_optional_preserve
       then f_status (ob_objective (sn_observation sn)) else [])"
    "ad_authority a = bundle_canonical authority" "ad_authority_fingerprint a = cj_authority_fingerprint caps"
    "ad_required_capabilities a = cj_required caps" "ad_granted_capabilities a = cj_granted caps"
    "ad_effective_capabilities a = cj_effective caps" "ad_parameters a = parameters_canonical ps"
    "ad_issued_at a = time_utc now" "ad_expires_at a = time_utc (time_add now lifetime)"
    "ad_work a = work" "ad_bundle a = bd" "ad_bundle_revision a = brev"
    "ad_invocation_fingerprint a = pr_invocation_fingerprint p"
  by (simp_all add: a_def admission_draft_def Let_def split: prod.splits)

lemma prescription_validate_None:
  assumes "sd_prescription_validate p = None"
  shows "pr_id p \<noteq> []" "pr_transition p \<noteq> []" "freshness_validate (pr_freshness p) = None"
    "pr_required p \<noteq> []" "pr_effective p \<noteq> []"
    "pr_invocation_fingerprint p = [] \<or> length (pr_invocation_fingerprint p) = 64"
  using assms
  by (auto simp: sd_prescription_validate_def prescription_fields_validate_def split: option.splits sum.splits)

lemma freshness_valid_fields:
  "freshness_validate f = None \<Longrightarrow> fr_revision f \<noteq> 0 \<and> length (fr_program f) = 64 \<and> length (fr_snapshot f) = 64
     \<and> length (fr_binding f) = 64 \<and> fr_authority f \<noteq> []"
  by (simp add: freshness_validate_def split: if_splits)

lemma applicability_clauses:
  assumes "validate_applicability sn ob t authority ps now = None"
  shows "tn_controllable t" "invocation_validate (ob_invocation (sn_observation sn)) True = None"
    "\<exists>ob'. objective_for_transition (sn_observation sn) ob t = Inr ob'
       \<and> (\<forall>e\<in>set (applicability_errors sn ob' t authority ps now). e = None)"
  using assms by (auto simp: validate_applicability_def split: if_splits option.splits sum.splits)

lemma applicability_errors_None:
  "(\<forall>e\<in>set (applicability_errors sn ob t b ps now). e = None) \<longleftrightarrow>
     sn_fingerprint sn \<noteq> [] \<and> length (ob_program_fingerprint (sn_observation sn)) = 64
     \<and> source_matches t (sn_observation sn) \<and> supports_objective t ob
     \<and> \<not> (is_known (ob_objective (sn_observation sn)) \<and> f_value (ob_objective (sn_observation sn)) \<noteq> ob
           \<and> \<not> pl_binds_objective (tn_policy t))
     \<and> bundle_validate b now = None \<and> authority_evidence_error (sn_observation sn) b = None
     \<and> parameters_validate ps t = None \<and> provider_binding_error b t ps = None
     \<and> \<not> (tn_binds_source_revision t \<and> (fst (git_binding (sn_observation sn)) = []
           \<or> snd (git_binding (sn_observation sn)) = []
           \<or> parameter_text ps ''source_revision'' \<noteq> fst (git_binding (sn_observation sn))))
     \<and> authority_satisfies (bundle_set b now) (tn_authority t) (tn_authority_all t)
     \<and> policy_authority_error (sn_observation sn) t (bundle_set b now) = None
     \<and> recovery_permission_error (sn_observation sn) t = None"
  by (cases "git_binding (sn_observation sn)") (simp add: applicability_errors_def Let_def, blast)

lemma valid_transition_fields:
  assumes "validate_transition t = None"
  shows "1 \<le> tn_version t" "\<forall>p\<in>set (tn_source_phases t). phase_valid p" "tn_id t \<noteq> []"
    "tn_controllable t \<Longrightarrow> scope_valid (tn_scope t)"
proof -
  have none: "e = None" if "e \<in> set (transition_errors t)" for e
    using transition_check [OF assms that] .
  have "fails (tn_version t < 1 \<or> tn_source_phases t = [] \<or> tn_target_phases t = [])
        [Lit (tn_id t), Lit '': version, source phases, and target phases are required''] = None"
    by (rule none) (simp add: transition_errors_def)
  then show "1 \<le> tn_version t"
    by simp
  have "first_error (\<lambda>p. fails (\<not> phase_valid p) [Lit (tn_id t), Lit '': invalid phase '', Quoted p])
        (tn_source_phases t @ tn_target_phases t) = None"
    by (rule none) (simp add: transition_errors_def)
  then show "\<forall>p\<in>set (tn_source_phases t). phase_valid p"
    by auto
  have "fails (tn_id t = [] \<or> \<not> catalog_id (tn_id t)) [Lit ''invalid semantic id '', Quoted (tn_id t)] = None"
    by (rule none) (simp add: transition_errors_def)
  then show "tn_id t \<noteq> []"
    by simp
  show "tn_controllable t \<Longrightarrow> scope_valid (tn_scope t)"
    using none [of "policy_error t"] by (auto simp: transition_errors_def policy_error_def Let_def split: if_splits)
qed

text \<open>The conditions that \<open>NewAdmission\<close> leaves to its callers, and \<open>ValidateIdentity\<close> insists on.\<close>

definition admissible_request :: "sd_snapshot \<Rightarrow> sd_transition \<Rightarrow> parameter list \<Rightarrow> string \<Rightarrow> gtime \<Rightarrow> bool" where
  "admissible_request sn t ps brev now \<longleftrightarrow>
     \<not> time_is_zero now \<and> (brev \<noteq> [] \<longrightarrow> valid_object_identity brev)
     \<and> (tn_id t = ''installation.reconcile-update'' \<longrightarrow> prior_program (sn_observation sn) \<noteq> []
          \<and> parameter_text ps ''accept_obligation_change'' = ''true'')"

lemma capability_lists_ok:
  assumes "project_capabilities s t b now = Inr caps"
    and "ad_required_capabilities a = cj_required caps" "ad_granted_capabilities a = cj_granted caps"
      "ad_effective_capabilities a = cj_effective caps"
  shows "\<forall>e\<in>set (admission_capability_errors a). e = None"
proof -
  note c = project_capabilities_Inr [OF assms(1)]
  have norm: "\<exists>cs. normalize_effect_capabilities field vs = Inr cs"
    if "distinct vs" "\<forall>v\<in>set vs. effect_capability_valid v" for field vs
    unfolding normalize_effect_capabilities_def using that by (intro scan_capabilities_ok) simp_all
  have valid: "\<forall>v\<in>set (cj_required caps). effect_capability_valid v"
    "\<forall>v\<in>set (cj_granted caps). effect_capability_valid v" "distinct (cj_required caps)" "distinct (cj_granted caps)"
    using c(5,6) by blast+
  obtain r where "normalize_effect_capabilities ''admission.required_capabilities'' (cj_required caps) = Inr r"
    using norm [OF valid(3,1)] by blast
  moreover obtain e where "normalize_effect_capabilities ''admission.effective_capabilities'' (cj_required caps) = Inr e"
    using norm [OF valid(3,1)] by blast
  moreover obtain g where "normalize_effect_capabilities ''admission.granted_capabilities'' (cj_granted caps) = Inr g"
    using norm [OF valid(4,2)] by blast
  moreover have "missing_capability (cj_required caps) (new_capability_set (cj_granted caps)) = []"
    using c(4) valid(2) by (intro missing_capability_subset) (auto simp: new_capability_set_def)
  ultimately show ?thesis
    using assms(2-4) c(2) by (simp add: admission_capability_errors_def Let_def)
qed

lemma objective_status_ok:
  assumes "objective_for_transition s requested t = Inr ob" "ad_scope a = tn_scope t" "ad_objective a = ob"
    and "ad_objective_status a = (if tn_scope t = Objective_optional_preserve then f_status (ob_objective s) else [])"
  shows "objective_status_error a = None"
proof -
  have "sd_objective_validate empty_objective \<noteq> None"
    by (simp add: sd_objective_validate_def empty_objective_def)
  then show ?thesis
    using assms
    by (auto simp: objective_for_transition_def objective_status_error_def is_known_def split: if_splits option.splits)
qed

lemma work_admitted_valid: "admission_work_error work sn t = None \<Longrightarrow> work = Some w \<Longrightarrow> work_evidence_validate w = None"
  by (auto simp: admission_work_error_def dest: work_current_valid split: if_splits)

lemma new_admission_identity:
  assumes new: "new_admission sn requested t p authority ps work bd brev now lifetime = Inr a"
    and t: "validate_transition t = None" and request: "admissible_request sn t ps brev now"
  shows "admission_validate_identity a = None"
proof -
  let ?s = "sn_observation sn"
  obtain ob caps d key h where x: "objective_for_transition ?s requested t = Inr ob"
    "validate_applicability sn ob t authority ps now = None"
    "project_capabilities ?s t authority now = Inr caps"
    "\<forall>e\<in>set (admission_errors sn t p caps work bd lifetime). e = None"
    "bundle_revision_error (admission_draft sn ob t p authority ps caps work bd brev now lifetime) = None"
    "a = (admission_draft sn ob t p authority ps caps work bd brev now lifetime)
        \<lparr>ad_prior_program := prior_program ?s, ad_program_delta := d, ad_idempotency_key := key, ad_id := h\<rparr>"
    "prior_program ?s = [] \<longleftrightarrow> d = []"
    "prior_program ?s \<noteq> [] \<longrightarrow> program_delta_fingerprint (prior_program ?s) (fr_program (pr_freshness p)) = Inr d"
    "key \<noteq> []" "h \<noteq> []" "sd_admission_identity a = Inr h"
    using new_admission_Inr [OF new] by blast
  have checks: "0 < lifetime" "prescription_current p sn t caps = None" "prescription_bundle_error p bd t = None"
    "admission_work_error work sn t = None"
    using x(4) by (simp_all add: admission_errors_def)
  note p = prescription_current_None [of p sn t caps, THEN iffD1, OF checks(2)]
  note pv = prescription_validate_None [OF conjunct1 [OF p]]
  note caps = project_capabilities_Inr [OF x(3)]
  note ap = applicability_clauses [OF x(2)]
  obtain ob' where ob': "\<forall>e\<in>set (applicability_errors sn ob' t authority ps now). e = None"
    using ap(3) by blast
  then have src: "source_matches t ?s" "parameters_validate ps t = None" "bundle_validate authority now = None"
    by (simp_all add: applicability_errors_None)
  then have phase: "phase_valid (f_value (ob_phase ?s))"
    using valid_transition_fields(2) [OF t] by (auto simp: source_matches_iff)
  have fields: "\<not> admission_fields_bad admission_schema_version a"
    using pv freshness_valid_fields [OF pv(3)] valid_transition_fields(1,3) [OF t] phase x(9,10) request checks(1) p caps(2)
    by (auto simp: admission_fields_bad_def x(6) admissible_request_def time_before_def time_is_zero_def
        time_utc_def time_add_def snapshot_freshness_Inr)
  have bd_ok: "admission_bundle_error False a = None"
  proof (cases bd)
    case None
    then show ?thesis
      using x(5) by (simp add: admission_bundle_error_def x(6) bundle_revision_error_def)
  next
    case (Some b)
    then have "bundle_contract_validate b = None"
      using checks(3) by (auto simp: prescription_bundle_error_def bundle_for_transition_def split: option.splits)
    then show ?thesis
      using x(5) request Some
      by (auto simp: admission_bundle_error_def x(6) bundle_revision_error_def admissible_request_def valid_object_identity_def)
  qed
  have accept: "parameter_text (parameters_canonical ps) n = parameter_text ps n" for n
    using parameters_canonical_get [OF src(2)] by (simp add: parameter_text_def)
  have delta: "\<forall>e\<in>set (admission_delta_errors a). e = None"
    using x(7,8) request by (auto simp: admission_delta_errors_def x(6) admissible_request_def accept)
  have "bundle_fingerprint (ad_authority a) = Inr (ad_authority_fingerprint a)"
    using caps(3) by (simp add: x(6))
  moreover have "\<forall>e\<in>set (admission_capability_errors a). e = None"
    by (rule capability_lists_ok [OF x(3)]) (simp_all add: x(6))
  moreover have "objective_status_error a = None"
    by (rule objective_status_ok [OF x(1)]) (simp_all add: x(6))
  moreover have "case ad_work a of None \<Rightarrow> True | Some w \<Rightarrow> work_evidence_validate w = None"
    using work_admitted_valid [OF checks(4)] by (simp add: x(6) split: option.splits)
  moreover have "scope_valid (ad_scope a)" "invocation_validate (ad_invocation a) True = None" "ad_id a = h"
    using valid_transition_fields(4) [OF t ap(1)] ap(2) by (simp_all add: x(6))
  ultimately show ?thesis
    using fields bd_ok delta x(11)
    by (auto simp: admission_validate_identity_def validate_identity_of_def admission_identity_errors_def
        previous_admission_schema_version_def admission_schema_version_def split: option.splits)
qed


lemma optional_objective_kept:
  assumes "objective_for_transition s requested t = Inr ob" "tn_scope t = Objective_optional_preserve"
    and "f_status (ob_objective s) = Fact_known"
  shows "ob = f_value (ob_objective s)"
  using assms by (auto simp: objective_for_transition_def is_known_def split: if_splits option.splits)

lemma new_admission_current:
  assumes new: "new_admission sn requested t p authority ps work bd brev now lifetime = Inr a"
    and t: "validate_transition t = None" and request: "admissible_request sn t ps brev now"
  shows "\<exists>ob. objective_for_transition (sn_observation sn) requested t = Inr ob
    \<and> admission_current a sn ob t now = None \<and> admission_validate_history a = None"
proof -
  let ?s = "sn_observation sn"
  obtain ob caps d key h where x: "objective_for_transition ?s requested t = Inr ob"
    "validate_applicability sn ob t authority ps now = None"
    "project_capabilities ?s t authority now = Inr caps"
    "\<forall>e\<in>set (admission_errors sn t p caps work bd lifetime). e = None"
    "a = (admission_draft sn ob t p authority ps caps work bd brev now lifetime)
        \<lparr>ad_prior_program := prior_program ?s, ad_program_delta := d, ad_idempotency_key := key, ad_id := h\<rparr>"
    "prior_program ?s \<noteq> [] \<longrightarrow> program_delta_fingerprint (prior_program ?s) (fr_program (pr_freshness p)) = Inr d"
    using new_admission_Inr [OF new] by blast
  have checks: "0 < lifetime" "prescription_current p sn t caps = None" "admission_work_error work sn t = None"
    using x(4) by (simp_all add: admission_errors_def)
  note p = prescription_current_None [of p sn t caps, THEN iffD1, OF checks(2)]
  obtain ob' where "\<forall>e\<in>set (applicability_errors sn ob' t authority ps now). e = None"
    using applicability_clauses(3) [OF x(2)] by blast
  note ap = this [unfolded applicability_errors_None]
  have ps: "parameters_validate ps t = None" and b: "bundle_validate authority now = None"
    and known: "is_known (ob_phase ?s)"
    using ap by (simp_all add: source_matches_iff)
  have get: "parameters_get (parameters_canonical ps) = parameters_get ps"
    by (rule parameters_canonical_get [OF ps])
  have get_text: "parameter_text (parameters_canonical ps) n = parameter_text ps n" for n
    by (simp add: parameter_text_def get)
  have satisfied: "authority_satisfies (bundle_set (bundle_canonical authority) now) (tn_authority t) (tn_authority_all t)"
    using ap authority_satisfies_cong [OF bundle_canonical_set] by blast
  have policy: "policy_authority_error ?s t (bundle_set (bundle_canonical authority) now) = None"
    using ap policy_authority_cong [OF bundle_canonical_set] by metis
  have identity: "admission_validate_identity a = None"
    by (rule new_admission_identity [OF new t request])
  have work: "admission_work_current a sn t = None"
    using checks(3) by (auto simp: admission_work_current_def admission_work_error_def x(5) split: if_splits option.splits)
  have projection: "admission_projection_error a ?s t now = None"
    using x(3) by (simp add: admission_projection_error_def x(5) project_capabilities_canonical [OF b] same_projection_def)
  have binding: "admission_binding_error a ?s = None"
    using p by (auto simp: admission_binding_error_def x(5) snapshot_freshness_Inr)
  have objective: "tn_scope t = Objective_optional_preserve \<Longrightarrow> f_status (ob_objective ?s) = Fact_known
      \<Longrightarrow> ob = f_value (ob_objective ?s)"
    by (rule optional_objective_kept [OF x(1)])
  have rest: "\<forall>e\<in>set (admission_current_errors a sn ob t now). e = None"
    using identity work projection binding objective satisfied policy known ap p checks(1) x(6)
      bundle_canonical_validate [OF b] parameters_canonical_validate [OF ps]
    by (cases "git_binding ?s")
      (auto simp: admission_current_errors_def x(5) Let_def get_text time_before_def time_utc_def time_add_def
        snapshot_freshness_Inr authority_evidence_canonical provider_binding_canonical [OF get])
  have "ad_schema_version a = admission_schema_version"
    by (simp add: x(5))
  then show ?thesis
    using x(1) rest identity by (auto simp: admission_current_def admission_validate_history_def)
qed

text \<open>
  C21. An admission that \<open>NewAdmission\<close> issues for a valid transition and an admissible request
  passes every check of \<open>ValidateCurrent\<close> at the moment and for the snapshot it was issued for, and
  has a valid identity. Admissible means: the clock is set, a bundle revision is empty or an object
  identity, and \<open>installation.reconcile-update\<close> is requested with \<open>accept_obligation_change\<close> true
  on a snapshot whose recorded program differs; \<open>NewAdmission\<close> also issues that transition without
  them, and \<open>ValidateIdentity\<close> (\<open>admission.go\<close> 534) then rejects the admission.
\<close>

theorem admission_admits:
  assumes new: "new_admission sn requested t p authority ps work bd brev now lifetime = Inr a"
    and t: "validate_transition t = None" and request: "admissible_request sn t ps brev now"
  shows "\<exists>ob. objective_for_transition (sn_observation sn) requested t = Inr ob
    \<and> admission_current a sn ob t now = None \<and> admission_validate_history a = None"
  by (rule new_admission_current [OF assms])

end
