(* ===== verification/Delivery_Receipt_Laws.thy ===== *)
theory Delivery_Receipt_Laws
  imports Delivery_Admission_Laws Delivery_Receipt
begin

text \<open>
  What the receipt of a transition guarantees: a receipt built from an admission is one that
  validation accepts, and so one that the journal can commit and recovery can read back.
\<close>

section \<open>Digests, orders and scans\<close>

lemma valid_sha256_iff [simp]: "valid_sha256 v \<longleftrightarrow> valid_control_digest v"
proof -
  have "lower_hex c \<longleftrightarrow> \<not> upper_char c \<and> hex_char c" for c
    by (auto simp: lower_hex_def hex_char_def upper_char_def byte_in_def digit_char_def)
  then show ?thesis
    by (auto simp: valid_sha256_def valid_control_digest_def list_all_iff)
qed

lemma hash_json_digest: "hash_json j = Inr h \<Longrightarrow> valid_control_digest h"
  by (auto simp: hash_json_def split: option.splits)

lemma scan_effects_ok:
  assumes "\<forall>f\<in>set fs. effect_fact_check f = None" "distinct fs" "\<forall>p. prev = Some p \<longrightarrow> p \<notin> set fs"
  shows "scan_effects prev (zip fs fs) = None"
  using assms by (induction fs arbitrary: prev) auto

lemma sort_facts_idem [simp]: "sort_facts (sort_facts fs) = sort_facts fs"
  by (simp add: sort_facts_def sort_key_id_if_sorted)

lemma scan_sources_ok:
  assumes "\<forall>u\<in>set us. source_error u = None" "distinct (map au_id us)" "\<forall>i. prev = Some i \<longrightarrow> i \<notin> au_id ` set us"
  shows "scan_sources prev (zip us us) = None"
  using assms by (induction us arbitrary: prev) auto

lemma scan_outputs_ok:
  assumes "\<forall>p\<in>set ps. pm_name p \<noteq> [] \<and> pm_value p \<noteq> []" "distinct (map pm_name ps)" "pm_name ` set ps \<inter> set seen = {}"
  shows "scan_outputs seen (zip ps ps) = None"
  using assms by (induction ps arbitrary: seen) auto

lemma outputs_canonical_ok:
  assumes "\<forall>p\<in>set ps. pm_name p \<noteq> [] \<and> pm_value p \<noteq> []" "distinct (map pm_name ps)"
  shows "effect_outputs_error (parameters_canonical ps) = None"
proof -
  have "parameters_canonical (parameters_canonical ps) = parameters_canonical ps"
    by (simp add: parameters_canonical_def sort_key_id_if_sorted)
  then show ?thesis
    using assms scan_outputs_ok [of "parameters_canonical ps" "[]"]
    by (simp add: effect_outputs_error_def parameters_canonical_def distinct_map)
qed

lemma authority_source_fields [simp]:
  "au_id (source_of_receipt x) = rp_id x" "au_class (source_of_receipt x) = rp_class x"
  "au_subject (source_of_receipt x) = rp_subject x" "au_fingerprint (source_of_receipt x) = rp_fingerprint x"
  "au_role (source_of_receipt x) = rp_role x" "au_provider (source_of_receipt x) = rp_provider x"
  by (simp_all add: source_of_receipt_def)

lemma sources_sorted [simp]:
  "sort_key au_id (map source_of_receipt (bundle_canonical b)) = map source_of_receipt (bundle_canonical b)"
  by (rule sort_key_id_if_sorted) (simp add: bundle_canonical_def comp_def)

lemma source_json_receipt [simp]: "source_json (source_of_receipt x) = authority_source_json x"
  by (simp add: source_json_def authority_source_json_def)

lemma receipt_source_ok:
  "sd_receipt_validate x now = None \<Longrightarrow> rp_role x \<noteq> [] \<longrightarrow> valid_sha256 (rp_provider x)
     \<Longrightarrow> source_error (source_of_receipt x) = None"
  by (auto simp: sd_receipt_validate_def first_failure_None source_error_def)

lemma canonical_facets_Inr:
  "canonical_facets changed = Inr fs \<Longrightarrow> normalize_state_facets n changed = Inr fs \<and> fs \<noteq> []"
  by (auto simp: canonical_facets_def normalize_state_facets_Inr split: sum.splits list.splits)

lemma canonical_facets_valid:
  assumes "canonical_facets changed = Inr fs"
  shows "normalize_state_facets n fs = Inr fs"
  using canonical_facets_Inr [OF assms, of n]
  by (auto simp: normalize_state_facets_Inr sorted_sort_id)

lemma normalize_capabilities_ok:
  "distinct vs \<Longrightarrow> \<forall>v\<in>set vs. effect_capability_valid v \<Longrightarrow> \<exists>c. normalize_effect_capabilities field vs = Inr c"
  unfolding normalize_effect_capabilities_def by (rule scan_capabilities_ok) simp_all

section \<open>The parts of a receipt\<close>

lemma new_sd_receipt_Inr:
  assumes "new_sd_receipt flow seq program a t target changed effects outputs exercised started committed = Inr r"
  shows "\<exists>binding facets r0 h. (\<forall>e\<in>set (new_receipt_errors flow seq program a target effects started committed). e = None)
    \<and> objective_binding_fingerprint (sn_observation target) = Inr binding \<and> canonical_facets changed = Inr facets
    \<and> with_lineage t a target (receipt_draft flow seq program a t target binding facets effects outputs exercised
          started committed) = Inr r0
    \<and> r = (receipt_runtime t a r0)\<lparr>tr_id := h\<rparr> \<and> sd_receipt_identity (receipt_runtime t a r0) = Inr h"
proof -
  have e: "first_failure (new_receipt_errors flow seq program a target effects started committed) = None"
    using assms by (cases "first_failure (new_receipt_errors flow seq program a target effects started committed)")
      (auto simp: new_sd_receipt_def simp del: first_failure_None)
  obtain binding where b: "objective_binding_fingerprint (sn_observation target) = Inr binding"
    using assms e by (auto simp: new_sd_receipt_def simp del: first_failure_None split: sum.splits)
  obtain facets where f: "canonical_facets changed = Inr facets"
    using assms e b by (auto simp: new_sd_receipt_def simp del: first_failure_None split: sum.splits)
  obtain r0 where l: "with_lineage t a target (receipt_draft flow seq program a t target binding facets effects
      outputs exercised started committed) = Inr r0"
    using assms e b f by (auto simp: new_sd_receipt_def simp del: first_failure_None split: sum.splits)
  have "seal_receipt (receipt_runtime t a r0) = Inr r"
    using assms e b f l by (simp add: new_sd_receipt_def del: first_failure_None)
  then show ?thesis
    using e b f l by (auto simp: seal_receipt_def split: sum.splits)
qed

lemma receipt_sealed:
  assumes "sd_receipt_identity r0 = Inr h"
  shows "sd_receipt_identity (r0\<lparr>tr_id := h\<rparr>) = Inr h" "h \<noteq> []"
proof -
  show "sd_receipt_identity (r0\<lparr>tr_id := h\<rparr>) = Inr h"
    using assms by (simp add: sd_receipt_identity_def)
  show "h \<noteq> []"
    using assms content_id_Inr by (fastforce simp: sd_receipt_identity_def)
qed

lemma with_lineage_Inr:
  assumes "with_lineage t a target r = Inr r0" "tr_context r = []" "tr_prior_invocation r = None"
    "tr_resulting_invocation r = None"
  shows "lineage_error r0 = None \<and> (\<exists>c p q. r0 = r\<lparr>tr_context := c, tr_prior_invocation := p, tr_resulting_invocation := q\<rparr>)"
proof (cases "tn_execution_context t = ''advance''")
  case True
  then have "r0 = r\<lparr>tr_context := ''advance'', tr_prior_invocation := Some (ad_invocation a),
      tr_resulting_invocation := Some (ob_invocation (sn_observation target))\<rparr>"
    "invocation_validate (ad_invocation a) True = None"
    "invocation_validate (ob_invocation (sn_observation target)) True = None"
    using assms(1) by (auto simp: with_lineage_def Let_def split: option.splits)
  then show ?thesis
    by (auto simp: lineage_error_def)
next
  case False
  then have "r0 = r"
    using assms(1) by (simp add: with_lineage_def)
  then show ?thesis
    using assms(2-4) by (auto simp: lineage_error_def intro!: exI [of _ "[]"] exI [of _ None])
qed

lemma lineage_error_cong:
  "tr_context r = tr_context q \<Longrightarrow> tr_prior_invocation r = tr_prior_invocation q
     \<Longrightarrow> tr_resulting_invocation r = tr_resulting_invocation q \<Longrightarrow> lineage_error r = lineage_error q"
  by (simp only: lineage_error_def)

lemma with_runtime_fields [simp]:
  "receipt_runtime t a (r\<lparr>tr_context := c, tr_prior_invocation := p, tr_resulting_invocation := q\<rparr>)
     = (receipt_runtime t a r)\<lparr>tr_context := c, tr_prior_invocation := p, tr_resulting_invocation := q\<rparr>"
  by (simp add: receipt_runtime_def Let_def)

section \<open>A receipt that commits\<close>

text \<open>
  What \<open>NewReceipt\<close> leaves to its callers and validation insists on: lower-case digests, exact and
  distinct effect facts and outputs, a start time, exercised capabilities within the required ones,
  and the runtime identity of a transition that changes the program.
\<close>

definition receipt_ready ::
    "sd_transition \<Rightarrow> sd_admission \<Rightarrow> sd_snapshot \<Rightarrow> sd_effect_fact list \<Rightarrow> parameter list \<Rightarrow> string list \<Rightarrow> gtime
       \<Rightarrow> gtime \<Rightarrow> bool" where
  "receipt_ready t a target effects outputs exercised started committed \<longleftrightarrow>
     valid_sha256 (ad_expected_snapshot a) \<and> valid_sha256 (sn_fingerprint target)
     \<and> (ad_invocation_fingerprint a \<noteq> [] \<longrightarrow> valid_sha256 (ad_invocation_fingerprint a))
     \<and> (\<forall>x\<in>set (ad_authority a). rp_role x \<noteq> [] \<longrightarrow> valid_sha256 (rp_provider x))
     \<and> (\<forall>f\<in>set effects. effect_fact_check f = None) \<and> distinct effects
     \<and> (\<forall>p\<in>set outputs. pm_name p \<noteq> [] \<and> pm_value p \<noteq> []) \<and> distinct (map pm_name outputs)
     \<and> distinct exercised \<and> set exercised \<subseteq> set (ad_required_capabilities a)
     \<and> \<not> time_is_zero started \<and> \<not> time_is_zero committed
     \<and> (let get = parameter_text (ad_parameters a) in
          (get ''runtime_version'' = [] \<longrightarrow> \<not> pl_reconciles_program (tn_policy t))
          \<and> (get ''runtime_version'' \<noteq> [] \<longrightarrow> get ''runtime_sha256'' \<noteq> [] \<and> get ''source_revision'' \<noteq> [])
          \<and> (get ''accept_obligation_change'' = ''true'' \<longrightarrow> ad_prior_program a \<noteq> [] \<and> length (get ''runtime_sha256'') = 64
                \<and> get ''runtime_version'' \<noteq> [])
          \<and> (tn_id t = ''installation.reconcile-update'' \<longrightarrow> get ''accept_obligation_change'' = ''true''))"

text \<open>What the parts of an admission bring to a receipt.\<close>

lemma admitted_authority:
  assumes new: "new_admission sn requested t p authority ps work bd brev now lifetime = Inr a"
  shows "\<forall>x\<in>set (ad_authority a). sd_receipt_validate x now = None" "distinct (map rp_id (ad_authority a))"
    "ad_authority a = bundle_canonical (ad_authority a)"
    "ad_granted_capabilities a = sorted_capabilities (authority_capabilities (map rp_class (ad_authority a)))"
    "ad_authority a \<noteq> []" "bundle_fingerprint (ad_authority a) = Inr (ad_authority_fingerprint a)"
proof -
  let ?s = "sn_observation sn"
  obtain ob caps d key h where x: "project_capabilities ?s t authority now = Inr caps"
    "\<forall>e\<in>set (admission_errors sn t p caps work bd lifetime). e = None"
    "a = (admission_draft sn ob t p authority ps caps work bd brev now lifetime)
        \<lparr>ad_prior_program := prior_program ?s, ad_program_delta := d, ad_idempotency_key := key, ad_id := h\<rparr>"
    using new_admission_Inr [OF new] by blast
  have current: "prescription_current p sn t caps = None"
    using x(2) by (simp add: admission_errors_def)
  have a: "ad_authority a = bundle_canonical authority" "ad_granted_capabilities a = cj_granted caps"
    "ad_authority_fingerprint a = cj_authority_fingerprint caps" "ad_required_capabilities a = cj_required caps"
    by (simp_all add: x(3))
  note c = project_capabilities_Inr [OF x(1)]
  have ok: "\<forall>x\<in>set authority. sd_receipt_validate x now = None" "distinct (map rp_id authority)"
    using c(1) by (auto simp: bundle_validate_def bundle_errors_iff)
  then show "\<forall>x\<in>set (ad_authority a). sd_receipt_validate x now = None" "distinct (map rp_id (ad_authority a))"
    by (auto simp: a bundle_canonical_def distinct_map)
  show canonical: "ad_authority a = bundle_canonical (ad_authority a)"
    by (simp add: a bundle_canonical_def sort_key_id_if_sorted)
  have "set (bundle_set authority now) = set (map rp_class (ad_authority a))"
    using ok(1) by (auto simp: bundle_set_def a bundle_canonical_def)
  then have same: "authority_capabilities (bundle_set authority now) = authority_capabilities (map rp_class (ad_authority a))"
    by (rule authority_capabilities_cong)
  have "cj_granted caps = sorted_capabilities (authority_capabilities (bundle_set authority now))"
    using x(1) c(1) unfolding project_capabilities_def Let_def by (auto split: if_split_asm sum.splits)
  then show granted: "ad_granted_capabilities a = sorted_capabilities (authority_capabilities (map rp_class (ad_authority a)))"
    by (simp add: a same)
  have "sd_prescription_validate p = None" "pr_required p = cj_required caps"
    using current by (simp_all add: prescription_current_None)
  then have "cj_granted caps \<noteq> []"
    using prescription_validate_None(4) [of p] c(4) by auto
  then show "ad_authority a \<noteq> []"
    using granted by (auto simp: a authority_capabilities_def sorted_capabilities_def)
  show "bundle_fingerprint (ad_authority a) = Inr (ad_authority_fingerprint a)"
    using c(3) by (simp add: a)
qed

lemma receipt_authority_ok:
  assumes new: "new_admission sn requested t p authority ps work bd brev now lifetime = Inr a"
    and roles: "\<forall>x\<in>set (ad_authority a). rp_role x \<noteq> [] \<longrightarrow> valid_sha256 (rp_provider x)"
    and r: "tr_authority_sources r = map source_of_receipt (ad_authority a)" "tr_authority r = ad_authority_fingerprint a"
      "tr_granted r = ad_granted_capabilities a"
  shows "\<forall>e\<in>set (receipt_authority_errors r). e = None"
proof -
  note au = admitted_authority [OF new]
  let ?us = "map source_of_receipt (ad_authority a)"
  have sorted: "sort_key au_id ?us = ?us"
    using sources_sorted [of "ad_authority a"] au(3) by simp
  have "\<forall>u\<in>set ?us. source_error u = None"
    using au(1) roles receipt_source_ok by (metis (no_types, lifting) in_set_conv_nth length_map nth_map nth_mem)
  then have "scan_sources None (zip ?us ?us) = None"
    using au(2) by (intro scan_sources_ok) (simp_all add: comp_def)
  moreover have "content_id ''auth-'' (nil_array source_json ?us) = Inr (ad_authority_fingerprint a)"
    using au(3,5,6) by (simp add: bundle_fingerprint_def nil_array_def comp_def)
  moreover have "ad_granted_capabilities a = sorted_capabilities (authority_capabilities (map au_class ?us))"
    using au(4) by (simp add: comp_def)
  ultimately show ?thesis
    unfolding receipt_authority_errors_def r sorted Let_def by simp
qed

text \<open>An admission with a valid identity, clause by clause.\<close>

lemma admission_identity_facts:
  assumes "admission_validate_identity a = None"
  shows "\<not> admission_fields_bad admission_schema_version a" "admission_bundle_error False a = None"
    "\<forall>e\<in>set (admission_capability_errors a). e = None" "\<forall>e\<in>set (admission_delta_errors a). e = None"
    "case ad_work a of None \<Rightarrow> True | Some w \<Rightarrow> work_evidence_validate w = None"
    "scope_valid (ad_scope a)" "objective_status_error a = None"
  using assms
  by (auto simp: admission_validate_identity_def validate_identity_of_def admission_identity_errors_def
      admission_schema_version_def previous_admission_schema_version_def split: option.splits)

lemma bundle_fingerprints:
  assumes "bundle_contract_validate b = None"
  shows "valid_control_digest (bs_fingerprint (bc_source b))"
    "bc_target b = Some x \<Longrightarrow> valid_control_digest (bs_fingerprint x)"
  using assms
  by (auto simp: bundle_contract_validate_def contract_fields_validate_def contract_field_errors_def bundle_snapshot_validate_def
      first_failure_None split: option.splits if_splits)

lemma digest_nonempty: "valid_control_digest v \<Longrightarrow> v \<noteq> [] \<and> length v = 64"
  by (auto simp: valid_control_digest_def)

lemma scan_capabilities_Inr:
  "scan_capabilities f seen vs = Inr c \<Longrightarrow>
     (\<forall>v\<in>set vs. effect_capability_valid v \<and> v \<notin> set seen) \<and> distinct vs"
proof (induction vs arbitrary: seen)
  case (Cons v vs)
  then have "effect_capability_valid v" "v \<notin> set seen" "scan_capabilities f (v # seen) vs = Inr c"
    by (auto split: if_splits)
  then show ?case
    using Cons.IH [of "v # seen"] by auto
qed simp

lemma normalized_capabilities:
  assumes "normalize_effect_capabilities f vs = Inr c"
  shows "\<forall>v\<in>set vs. effect_capability_valid v" "distinct vs"
  using scan_capabilities_Inr assms by (auto simp: normalize_effect_capabilities_def)

lemma receipt_capabilities_ok:
  assumes "\<forall>e\<in>set (admission_capability_errors a). e = None"
    and "tr_required r = ad_required_capabilities a" "tr_granted r = ad_granted_capabilities a"
    and "distinct (tr_exercised r)" "set (tr_exercised r) \<subseteq> set (ad_required_capabilities a)"
  shows "\<forall>e\<in>set (receipt_capability_errors r). e = None"
proof -
  note scan = normalized_capabilities
  obtain c where c: "normalize_effect_capabilities ''admission.required_capabilities'' (ad_required_capabilities a) = Inr c"
    using assms(1) by (auto simp: admission_capability_errors_def Let_def split: sum.splits)
  obtain d where d: "normalize_effect_capabilities ''admission.granted_capabilities'' (ad_granted_capabilities a) = Inr d"
    using assms(1) by (auto simp: admission_capability_errors_def Let_def split: sum.splits)
  have missing: "missing_capability (ad_required_capabilities a) (new_capability_set (ad_granted_capabilities a)) = []"
    using assms(1) by (auto simp: admission_capability_errors_def Let_def split: sum.splits)
  have norm: "(case normalize_effect_capabilities f vs of Inl e \<Rightarrow> Some e | Inr _ \<Rightarrow> None) = None"
    if "distinct vs" "\<forall>v\<in>set vs. effect_capability_valid v" for f vs
    using normalize_capabilities_ok [OF that, of f] by auto
  have "missing_capability (tr_exercised r) (new_capability_set (ad_required_capabilities a)) = []"
    using assms(5) scan(1) [OF c] by (intro missing_capability_subset) (auto simp: new_capability_set_def)
  moreover have "\<forall>v\<in>set (tr_exercised r). effect_capability_valid v"
    using assms(5) scan(1) [OF c] by blast
  ultimately show ?thesis
    using norm scan [OF c] scan [OF d] missing assms(2-4)
    by (auto simp: receipt_capability_errors_def Let_def)
qed

lemma receipt_objective_ok:
  assumes "objective_for_transition s requested t = Inr ob" "objective_status_error a = None" "scope_valid (ad_scope a)"
    and a: "ad_objective a = ob" "ad_scope a = tn_scope t"
      "ad_objective_status a = (if tn_scope t = Objective_optional_preserve then f_status (ob_objective s) else [])"
    and r: "tr_objective r = so_id ob" "tr_target_id r = so_target ob" "tr_trusted r = so_trusted ob"
      "tr_delivery r = so_delivery ob" "tr_scope r = ad_scope a" "tr_objective_status r = ad_objective_status a"
  shows "receipt_objective_error r = None"
proof -
  have good: "\<not> objective_fields_bad r" if "sd_objective_validate ob = None"
    using that r by (auto simp: sd_objective_validate_def objective_fields_bad_def split: if_splits)
  have absent: "ob = empty_objective" if "tn_scope t = Objective_optional_preserve" "f_status (ob_objective s) = Fact_absent"
    using assms(1) that by (auto simp: objective_for_transition_def is_known_def split: if_splits option.splits)
  show ?thesis
    using assms(2,3) good absent a r
    by (auto simp: receipt_objective_error_def objective_status_error_def empty_objective_def split: if_splits)
qed

text \<open>The runtime identity of a receipt that is ready is the one of the parameters, complete or absent.\<close>

lemma with_runtime_ready:
  assumes "receipt_ready t a target effects outputs exercised started committed"
    and "tr_runtime_fingerprint r = []" "tr_runtime_source r = []"
  shows "receipt_runtime t a r = r\<lparr>tr_prior_program := ad_prior_program a, tr_program_delta := ad_program_delta a,
      tr_program_accepted := (parameter_text (ad_parameters a) ''accept_obligation_change'' = ''true''),
      tr_runtime_version := parameter_text (ad_parameters a) ''runtime_version'',
      tr_runtime_fingerprint := (if parameter_text (ad_parameters a) ''runtime_version'' = [] then []
         else parameter_text (ad_parameters a) ''runtime_sha256''),
      tr_runtime_source := (if parameter_text (ad_parameters a) ''runtime_version'' = [] then []
         else parameter_text (ad_parameters a) ''source_revision'')\<rparr>"
  using assms by (cases r) (auto simp: receipt_runtime_def receipt_ready_def Let_def)

lemma receipt_program_ok:
  assumes ready: "receipt_ready t a target effects outputs exercised started committed"
    and delta: "\<forall>e\<in>set (admission_delta_errors a). e = None"
    and id: "ad_transition_id a = tn_id t"
    and r: "tr_transition r = tn_id t" "pf_fingerprint (tr_program r) = ad_expected_program a"
      "tr_prior_program r = ad_prior_program a" "tr_program_delta r = ad_program_delta a"
      "tr_program_accepted r = (parameter_text (ad_parameters a) ''accept_obligation_change'' = ''true'')"
      "tr_runtime_version r = parameter_text (ad_parameters a) ''runtime_version''"
      "tr_runtime_fingerprint r = (if parameter_text (ad_parameters a) ''runtime_version'' = [] then []
         else parameter_text (ad_parameters a) ''runtime_sha256'')"
      "tr_runtime_source r = (if parameter_text (ad_parameters a) ''runtime_version'' = [] then []
         else parameter_text (ad_parameters a) ''source_revision'')"
  shows "\<forall>e\<in>set (receipt_program_errors r). e = None"
  using ready delta unfolding receipt_program_errors_def r
  by (auto simp: receipt_ready_def admission_delta_errors_def id Let_def)

lemma valid_transition_proof_fields:
  assumes "validate_transition t = None"
  shows "tn_verifier t \<noteq> []" "tn_target_predicate t \<noteq> []"
proof -
  have none: "e = None" if "e \<in> set (transition_errors t)" for e
    using transition_check [OF assms that] .
  have "fails (tn_required_identity t = [] \<or> tn_source_predicate t = [] \<or> tn_admission_predicate t = []
             \<or> tn_target_predicate t = [] \<or> tn_verifier t = [] \<or> sp_operation (tn_prescription t) = []
             \<or> sp_postcondition (tn_prescription t) = [])
        [Lit (tn_id t), Lit '': identity, predicates, verifier, and typed prescription are required''] = None"
    by (rule none) (simp add: transition_errors_def)
  then show "tn_verifier t \<noteq> []" "tn_target_predicate t \<noteq> []"
    by simp_all
qed

lemma with_runtime_other [simp]:
  "tr_prescription (receipt_runtime t a r) = tr_prescription r" "tr_admission (receipt_runtime t a r) = tr_admission r"
  "tr_transition (receipt_runtime t a r) = tr_transition r"
  "tr_transition_version (receipt_runtime t a r) = tr_transition_version r" "tr_program (receipt_runtime t a r) = tr_program r"
  "tr_invocation_fingerprint (receipt_runtime t a r) = tr_invocation_fingerprint r"
  "tr_prior_revision (receipt_runtime t a r) = tr_prior_revision r" "tr_source (receipt_runtime t a r) = tr_source r"
  "tr_authority (receipt_runtime t a r) = tr_authority r" "tr_required (receipt_runtime t a r) = tr_required r"
  "tr_granted (receipt_runtime t a r) = tr_granted r" "tr_objective (receipt_runtime t a r) = tr_objective r"
  "tr_target_id (receipt_runtime t a r) = tr_target_id r" "tr_trusted (receipt_runtime t a r) = tr_trusted r"
  "tr_delivery (receipt_runtime t a r) = tr_delivery r" "tr_scope (receipt_runtime t a r) = tr_scope r"
  "tr_objective_status (receipt_runtime t a r) = tr_objective_status r" "tr_work (receipt_runtime t a r) = tr_work r"
  "tr_bundle_source (receipt_runtime t a r) = tr_bundle_source r" "tr_bundle_target (receipt_runtime t a r) = tr_bundle_target r"
  "tr_facets (receipt_runtime t a r) = tr_facets r" "tr_effects (receipt_runtime t a r) = tr_effects r"
  by (simp_all add: receipt_runtime_def Let_def)

lemma new_sd_receipt_fields:
  assumes "new_sd_receipt flow seq program a t target changed effects outputs exercised started committed = Inr r"
  shows "tr_admission r = ad_id a" "tr_transition r = tn_id t" "tr_prior_revision r = ad_expected_revision a"
proof -
  obtain binding facets r0 h where x: "with_lineage t a target (receipt_draft flow seq program a t target binding facets
        effects outputs exercised started committed) = Inr r0" "r = (receipt_runtime t a r0)\<lparr>tr_id := h\<rparr>"
    using new_sd_receipt_Inr [OF assms] by blast
  then show "tr_admission r = ad_id a" "tr_transition r = tn_id t" "tr_prior_revision r = ad_expected_revision a"
    by (auto simp: receipt_draft_def Let_def dest!: with_lineage_Inr)
qed

text \<open>Every check of validation, on the fields that an admitted request brings.\<close>

lemma new_sd_receipt_valid:
  assumes new: "new_admission sn requested t p authority ps work bd brev now lifetime = Inr a"
    and t: "validate_transition t = None" and request: "admissible_request sn t ps brev now"
    and receipt: "new_sd_receipt flow seq program a t target changed effects outputs exercised started committed = Inr r"
    and ready: "receipt_ready t a target effects outputs exercised started committed"
  shows "transition_receipt_validate r = None"
proof -
  obtain binding facets r0 h where x:
    "\<forall>e\<in>set (new_receipt_errors flow seq program a target effects started committed). e = None"
    "objective_binding_fingerprint (sn_observation target) = Inr binding" "canonical_facets changed = Inr facets"
    "with_lineage t a target (receipt_draft flow seq program a t target binding facets effects outputs exercised
        started committed) = Inr r0"
    "r = (receipt_runtime t a r0)\<lparr>tr_id := h\<rparr>" "sd_receipt_identity (receipt_runtime t a r0) = Inr h"
    using new_sd_receipt_Inr [OF receipt] by blast
  let ?draft = "receipt_draft flow seq program a t target binding facets effects outputs exercised started committed"
  have lineage: "lineage_error r0 = None" and "\<exists>c p q. r0 = ?draft\<lparr>tr_context := c, tr_prior_invocation := p,
      tr_resulting_invocation := q\<rparr>"
    using with_lineage_Inr [OF x(4)] by (simp_all add: receipt_draft_def Let_def)
  then obtain c pi qi where r0: "r0 = ?draft\<lparr>tr_context := c, tr_prior_invocation := pi, tr_resulting_invocation := qi\<rparr>"
    by blast
  have r: "r = ?draft\<lparr>tr_context := c, tr_prior_invocation := pi, tr_resulting_invocation := qi,
      tr_prior_program := ad_prior_program a, tr_program_delta := ad_program_delta a,
      tr_program_accepted := (parameter_text (ad_parameters a) ''accept_obligation_change'' = ''true''),
      tr_runtime_version := parameter_text (ad_parameters a) ''runtime_version'',
      tr_runtime_fingerprint := (if parameter_text (ad_parameters a) ''runtime_version'' = [] then []
         else parameter_text (ad_parameters a) ''runtime_sha256''),
      tr_runtime_source := (if parameter_text (ad_parameters a) ''runtime_version'' = [] then []
         else parameter_text (ad_parameters a) ''source_revision''), tr_id := h\<rparr>"
    unfolding x(5) r0 by (subst with_runtime_ready [OF ready]) (simp_all add: receipt_draft_def Let_def)
  have lineage': "lineage_error r = None"
    using lineage lineage_error_cong [of r r0] by (simp add: r r0)
  have id: "sd_receipt_identity r = Inr h" "h \<noteq> []"
    using receipt_sealed [OF x(6)] by (simp_all add: x(5))
  note identity = admission_identity_facts [OF new_admission_identity [OF new t request]]
  obtain ob caps d key i where ad: "objective_for_transition (sn_observation sn) requested t = Inr ob"
    "a = (admission_draft sn ob t p authority ps caps work bd brev now lifetime)
        \<lparr>ad_prior_program := prior_program (sn_observation sn), ad_program_delta := d,
         ad_idempotency_key := key, ad_id := i\<rparr>"
    using new_admission_Inr [OF new] by blast
  have a: "ad_objective a = ob" "ad_scope a = tn_scope t" "ad_transition_id a = tn_id t"
    "ad_objective_status a = (if tn_scope t = Objective_optional_preserve
       then f_status (ob_objective (sn_observation sn)) else [])"
    by (simp_all add: ad(2))
  note rd = ready [unfolded receipt_ready_def]
  note errs = x(1) [unfolded new_receipt_errors_def]
  have authority: "\<forall>e\<in>set (receipt_authority_errors r). e = None"
    using rd by (intro receipt_authority_ok [OF new]) (simp_all add: r receipt_draft_def Let_def)
  have program: "\<forall>e\<in>set (receipt_program_errors r). e = None"
    using errs by (intro receipt_program_ok [OF ready identity(4) a(3)]) (simp_all add: r receipt_draft_def Let_def)
  have capabilities: "\<forall>e\<in>set (receipt_capability_errors r). e = None"
    using rd by (intro receipt_capabilities_ok [OF identity(3)]) (simp_all add: r receipt_draft_def Let_def)
  have objective: "receipt_objective_error r = None"
    by (rule receipt_objective_ok [OF ad(1) identity(7,6) a(1,2,4)]) (simp_all add: r receipt_draft_def Let_def a)
  have effects: "receipt_effects_error r = None"
    using rd scan_effects_ok [of "sort_facts effects" None]
    by (simp add: receipt_effects_error_def r receipt_draft_def Let_def sort_facts_def sort_key_id_if_sorted)
  have outputs: "effect_outputs_error (tr_outputs r) = None"
    using rd outputs_canonical_ok by (simp add: r receipt_draft_def Let_def)
  have facets: "receipt_facets_error r = None"
    using canonical_facets_valid [OF x(3)] by (simp add: receipt_facets_error_def r receipt_draft_def Let_def)
  note good = identity(1) [unfolded admission_fields_bad_def]
  have f: "tr_schema_version r = sd_receipt_schema_version" "tr_kind r = ''transition-committed''" "tr_id r = h"
    "tr_flow r = flow" "tr_sequence r = seq" "tr_program r = program" "tr_transition r = tn_id t"
    "tr_transition_version r = tn_version t" "tr_prescription r = ad_prescription a" "tr_admission r = ad_id a"
    "tr_prior_revision r = ad_expected_revision a" "tr_resulting_revision r = ob_state_revision (sn_observation target)"
    "tr_binding r = binding" "tr_source r = ad_expected_snapshot a" "tr_target r = sn_fingerprint target"
    "tr_authority r = ad_authority_fingerprint a" "tr_required r = ad_required_capabilities a"
    "tr_effects r = sort_facts effects" "tr_facets r = facets" "tr_idempotency r = ad_idempotency_key a"
    "tr_started_at r = time_utc started" "tr_committed_at r = time_utc committed"
    "tr_duration r = time_sub committed started" "tr_invocation_fingerprint r = ad_invocation_fingerprint a"
    "tr_verification r = \<lparr>vy_verifier = tn_verifier t, vy_postcondition = tn_target_predicate t,
       vy_result = ''satisfied'', vy_evidence = sn_fingerprint target, vy_verified_at = time_utc committed\<rparr>"
    "tr_work r = (case ad_work a of None \<Rightarrow> [] | Some w \<Rightarrow> wk_result_fingerprint w)"
    "tr_bundle_source r = (case ad_bundle a of None \<Rightarrow> [] | Some b \<Rightarrow> bs_fingerprint (bc_source b))"
    "tr_bundle_target r = (case ad_bundle a of None \<Rightarrow> []
       | Some b \<Rightarrow> (case bc_target b of None \<Rightarrow> bs_fingerprint (bc_source b) | Some x \<Rightarrow> bs_fingerprint x))"
    by (simp_all add: r receipt_draft_def Let_def)
  have "valid_control_digest binding"
    using x(2) hash_json_digest by (simp add: objective_binding_fingerprint_def)
  moreover have "facets \<noteq> []"
    using canonical_facets_Inr [OF x(3)] by simp
  moreover have "sort_facts effects \<noteq> []"
    using errs by (auto simp: sort_facts_def dest: arg_cong [of _ _ set])
  ultimately have whole: "\<not> sd_receipt_incomplete sd_receipt_schema_version r"
    using good errs rd valid_transition_fields(1,3) [OF t] id(2) by (simp add: sd_receipt_incomplete_def f)
  have "verification_fact_validate (tr_verification r) = None"
    using rd valid_transition_proof_fields [OF t] by (simp add: verification_fact_validate_def f)
  then have verification: "receipt_verification_error r = None"
    by (simp add: receipt_verification_error_def) (simp add: f)
  have timing: "\<not> receipt_timing_bad r"
    using rd errs
    by (simp add: receipt_timing_bad_def f time_before_def time_after_def time_utc_def time_sub_def time_is_zero_def)
  have work: "tr_work r \<noteq> [] \<longrightarrow> valid_sha256 (tr_work r)"
    using identity(5) by (auto simp: f work_evidence_validate_def split: option.splits)
  have bundles: "\<not> ((tr_bundle_source r = []) \<noteq> (tr_bundle_target r = []) \<or> tr_bundle_source r \<noteq> []
      \<and> (length (tr_bundle_source r) \<noteq> 64 \<or> length (tr_bundle_target r) \<noteq> 64))"
  proof (cases "ad_bundle a")
    case None
    then show ?thesis
      by (simp add: f)
  next
    case (Some b)
    then have "bundle_contract_validate b = None"
      using identity(2) by (auto simp: admission_bundle_error_def split: option.splits)
    note digests = bundle_fingerprints [OF this, THEN digest_nonempty]
    show ?thesis
      using digests(1) digests(2) by (cases "bc_target b") (simp_all add: f Some)
  qed
  have invoked: "tr_invocation_fingerprint r \<noteq> [] \<longrightarrow> valid_sha256 (tr_invocation_fingerprint r)"
    and ref: "program_ref_validate (tr_program r) = None"
    using rd errs by (simp_all add: f)
  have "\<forall>e\<in>set (receipt_errors sd_receipt_schema_version r). e = None"
    unfolding receipt_errors_def
    using whole bundles outputs lineage' work facets capabilities verification effects authority objective timing program
      invoked ref id by (auto simp: f(3))
  then show ?thesis
    by (simp add: transition_receipt_validate_def receipt_validate_schema_def)
qed

text \<open>
  C20. A receipt that \<open>NewReceipt\<close> builds for an admitted request validates when it is ready: the
  request meets \<open>admissible_request\<close>; the digests it copies (snapshots, invocation, provider
  evidence) are lower-case SHA-256 texts; its facts are valid and distinct, its outputs named,
  non-empty and distinct, its exercised capabilities distinct and required; both times are set;
  and the runtime identity is complete: a runtime version comes with its digest and source
  revision, a transition that reconciles the program has a runtime version among its parameters,
  and an obligation change is accepted with a full runtime. It then names the admission and the
  transition, and its revision is one more than the one admitted. \<open>NewReceipt\<close> itself checks none
  of these conditions: without them it can build receipts that do not validate.
\<close>

theorem receipt_commits:
  assumes new: "new_admission sn requested t p authority ps work bd brev now lifetime = Inr a"
    and t: "validate_transition t = None" and request: "admissible_request sn t ps brev now"
    and receipt: "new_sd_receipt flow seq program a t target changed effects outputs exercised started committed = Inr r"
    and ready: "receipt_ready t a target effects outputs exercised started committed"
  shows "transition_receipt_validate r = None \<and> receipt_validate_history r = None
    \<and> tr_admission r = ad_id a \<and> tr_transition r = ad_transition_id a
    \<and> tr_resulting_revision r = ad_expected_revision a + 1"
proof -
  have valid: "transition_receipt_validate r = None"
    by (rule new_sd_receipt_valid [OF new t request receipt ready])
  then have "\<not> sd_receipt_incomplete sd_receipt_schema_version r"
    by (simp add: transition_receipt_validate_def receipt_validate_schema_def receipt_errors_def first_failure_None)
  then have "tr_schema_version r = sd_receipt_schema_version" "tr_resulting_revision r = tr_prior_revision r + 1"
    by (simp_all add: sd_receipt_incomplete_def)
  moreover have "tr_admission r = ad_id a" "tr_transition r = tn_id t" "tr_prior_revision r = ad_expected_revision a"
    using new_sd_receipt_fields [OF receipt] by simp_all
  moreover have "ad_transition_id a = tn_id t"
    using new_admission_Inr [OF new] by auto
  ultimately show ?thesis
    using valid by (simp add: receipt_validate_history_def)
qed

text \<open>
  C32. A transition that reconciles the program, admitted without a runtime version among its
  parameters (\<open>catalog.reconcile\<close> declares none), never commits: \<open>NewReceipt\<close> takes version and
  fingerprint of the runtime from the invocation but no source revision, and validation rejects
  every such receipt.
\<close>

theorem reconciled_receipt_rejected:
  assumes receipt: "new_sd_receipt flow seq program a t target changed effects outputs exercised started committed = Inr r"
    and t: "pl_reconciles_program (tn_policy t)" "parameter_text (ad_parameters a) ''runtime_version'' = []"
    and a: "admission_validate_identity a = None"
  shows "transition_receipt_validate r \<noteq> None \<and> receipt_validate_history r \<noteq> None"
proof -
  obtain binding facets r0 h where x:
    "with_lineage t a target (receipt_draft flow seq program a t target binding facets effects outputs exercised
        started committed) = Inr r0"
    "r = (receipt_runtime t a r0)\<lparr>tr_id := h\<rparr>"
    using new_sd_receipt_Inr [OF receipt] by blast
  obtain c pi qi where r0: "r0 = (receipt_draft flow seq program a t target binding facets effects outputs exercised
      started committed)\<lparr>tr_context := c, tr_prior_invocation := pi, tr_resulting_invocation := qi\<rparr>"
    using with_lineage_Inr [OF x(1)] by (auto simp: receipt_draft_def Let_def)
  have r: "tr_runtime_version r = iv_runtime_version (ad_invocation a)" "tr_runtime_source r = []"
    "tr_schema_version r = sd_receipt_schema_version"
    unfolding x(2) r0 by (simp_all add: receipt_runtime_def t receipt_draft_def Let_def)
  have "invocation_validate (ad_invocation a) True = None"
    using a by (auto simp: admission_validate_identity_def validate_identity_of_def admission_identity_errors_def)
  then have "iv_runtime_version (ad_invocation a) \<noteq> []"
    by (simp add: invocation_validate_def split: if_splits)
  then have "\<exists>e\<in>set (receipt_program_errors r). e \<noteq> None"
    by (simp add: receipt_program_errors_def r fails_def)
  then have "transition_receipt_validate r \<noteq> None"
    by (auto simp: transition_receipt_validate_def receipt_validate_schema_def receipt_errors_def)
  then show ?thesis
    by (simp add: receipt_validate_history_def r)
qed

end
