(* ===== verification/Delivery_Engine_Laws.thy ===== *)
theory Delivery_Engine_Laws
  imports Delivery_Apply Delivery_Receipt_Laws
begin

text \<open>
  What the engine promises of its ports: whatever they answer, the calls of one application follow
  the protocol of a transaction, and what is reported as committed is the prescribed transition.
\<close>

section \<open>The protocol\<close>

text \<open>
  The calls that change something, each with whether it returned without an error, and the stages
  of one application. The flag of the last stages says whether a receipt was committed.
\<close>

datatype engine_call = Call_acquire | Call_release | Call_bind | Call_unbind | Call_begin | Call_mark string
  | Call_stage | Call_execute | Call_rollback | Call_commit | Call_abort | Call_recovery | Call_project

datatype engine_stage = Idle | Locked | Bound | Begun | Marked | Staged | Executed | Faulted | Verifying
  | Aborting | Recovering | Projecting | Settled bool | Finished bool | Closed bool | Abandoned

definition stray_call :: "engine_call \<Rightarrow> engine_stage option" where
  "stray_call c = (if c = Call_unbind \<or> c = Call_release then Some Abandoned else None)"

definition next_stage :: "engine_stage \<Rightarrow> engine_call \<times> bool \<Rightarrow> engine_stage option" where
  "next_stage q e = (let (c, ok) = e; go = (\<lambda>good bad. Some (if ok then good else bad)) in
     case q of
       Idle \<Rightarrow> (case c of Call_acquire \<Rightarrow> go Locked (Closed False) | _ \<Rightarrow> stray_call c)
     | Locked \<Rightarrow> (case c of Call_bind \<Rightarrow> go Bound (Finished False) | Call_release \<Rightarrow> Some (Closed False) | _ \<Rightarrow> stray_call c)
     | Bound \<Rightarrow> (case c of Call_begin \<Rightarrow> go Begun (Settled False) | Call_unbind \<Rightarrow> Some (Finished False) | _ \<Rightarrow> stray_call c)
     | Begun \<Rightarrow> if c = Call_mark ''executing'' then go Marked Aborting else stray_call c
     | Marked \<Rightarrow> (case c of Call_stage \<Rightarrow> go Staged Aborting | Call_abort \<Rightarrow> Some (Settled False) | _ \<Rightarrow> stray_call c)
     | Staged \<Rightarrow> (case c of Call_execute \<Rightarrow> go Executed Faulted | _ \<Rightarrow> stray_call c)
     | Faulted \<Rightarrow> (case c of Call_rollback \<Rightarrow> go Aborting Recovering | Call_recovery \<Rightarrow> Some (Settled False) | _ \<Rightarrow> stray_call c)
     | Executed \<Rightarrow> if c = Call_mark ''verifying'' then go Verifying Recovering else stray_call c
     | Verifying \<Rightarrow> (case c of Call_commit \<Rightarrow> go Projecting Recovering | Call_rollback \<Rightarrow> go Aborting Recovering
         | Call_recovery \<Rightarrow> Some (Settled False) | _ \<Rightarrow> stray_call c)
     | Aborting \<Rightarrow> (case c of Call_abort \<Rightarrow> Some (Settled False) | _ \<Rightarrow> stray_call c)
     | Recovering \<Rightarrow> (case c of Call_recovery \<Rightarrow> Some (Settled False) | _ \<Rightarrow> stray_call c)
     | Projecting \<Rightarrow> (case c of Call_project \<Rightarrow> Some (Settled True) | _ \<Rightarrow> stray_call c)
     | Settled committed \<Rightarrow> (case c of Call_unbind \<Rightarrow> Some (Finished committed) | _ \<Rightarrow> stray_call c)
     | Finished committed \<Rightarrow> (case c of Call_release \<Rightarrow> Some (Closed committed) | _ \<Rightarrow> stray_call c)
     | Closed committed \<Rightarrow> stray_call c
     | Abandoned \<Rightarrow> stray_call c)"

text \<open>A stray call is a deferred one after a panic: the transaction is left to recovery.\<close>

fun stage_after :: "engine_stage \<Rightarrow> (engine_call \<times> bool) list \<Rightarrow> engine_stage option" where
  "stage_after q [] = Some q"
| "stage_after q (c # cs) = (case next_stage q c of None \<Rightarrow> None | Some q' \<Rightarrow> stage_after q' cs)"

lemma stage_after_append: "stage_after q (es @ [c]) = (case stage_after q es of None \<Rightarrow> None | Some q' \<Rightarrow> next_stage q' c)"
  by (induction es arbitrary: q) (simp_all split: option.splits)

section \<open>Ports that keep a log\<close>

definition lifted :: "('w, 'a) act \<Rightarrow> ('w \<times> (engine_call \<times> bool) list, 'a) act" where
  "lifted m x = (let (r, w') = m (fst x) in (r, w', snd x))"

definition logged :: "engine_call \<Rightarrow> ('w, 'a) act \<Rightarrow> ('w \<times> (engine_call \<times> bool) list, 'a) act" where
  "logged c m x = (let (r, w') = m (fst x) in
     (r, w', snd x @ (case r of Returned _ \<Rightarrow> [(c, True)] | Failed _ \<Rightarrow> [(c, False)] | Panicked \<Rightarrow> [] | Halted \<Rightarrow> [])))"

definition logged_ports ::
    "('w, 'l, 'p) engine_ports \<Rightarrow> ('w \<times> (engine_call \<times> bool) list, 'l, 'p) engine_ports" where
  "logged_ports ps = \<lparr>
     ep_observe = (\<lambda>q. lifted (ep_observe ps q)),
     ep_now = (\<lambda>x. let (t, w') = ep_now ps (fst x) in (t, w', snd x)),
     ep_acquire = (\<lambda>i rs. logged Call_acquire (ep_acquire ps i rs)),
     ep_release = (\<lambda>l. logged Call_release (ep_release ps l)),
     ep_begin = (\<lambda>a t. logged Call_begin (ep_begin ps a t)),
     ep_stage = (\<lambda>i ms. logged Call_stage (ep_stage ps i ms)),
     ep_mark = (\<lambda>i status. logged (Call_mark status) (ep_mark ps i status)),
     ep_commit = (\<lambda>r. logged Call_commit (ep_commit ps r)),
     ep_abort = (\<lambda>i reason. logged Call_abort (ep_abort ps i reason)),
     ep_recovery = (\<lambda>i reason. logged Call_recovery (ep_recovery ps i reason)),
     ep_prepare = (\<lambda>a t. lifted (ep_prepare ps a t)),
     ep_manifest = (\<lambda>p x. ep_manifest ps p (fst x)),
     ep_effects = (\<lambda>p x. ep_effects ps p (fst x)),
     ep_facets = (\<lambda>p x. ep_facets ps p (fst x)),
     ep_transferred = (\<lambda>p x. ep_transferred ps p (fst x)),
     ep_execute = (\<lambda>p. logged Call_execute (ep_execute ps p)),
     ep_rollback = (\<lambda>p. logged Call_rollback (ep_rollback ps p)),
     ep_bind = (\<lambda>f a. logged Call_bind (ep_bind ps f a)),
     ep_unbind = (\<lambda>f. logged Call_unbind (ep_unbind ps f)),
     ep_sequence = (\<lambda>f. lifted (ep_sequence ps f)),
     ep_find = (\<lambda>i k. lifted (ep_find ps i k)),
     ep_project = (\<lambda>r. logged Call_project (ep_project ps r))\<rparr>"

definition logged_engine ::
    "('w, 'l, 'p) engine \<Rightarrow> ('w \<times> (engine_call \<times> bool) list, 'l, 'p) engine" where
  "logged_engine en = \<lparr>en_control = en_control en, en_program = en_program en, en_ports = logged_ports (en_ports en)\<rparr>"

lemma logged_engine_simps [simp]:
  "en_control (logged_engine en) = en_control en" "en_program (logged_engine en) = en_program en"
  "en_ports (logged_engine en) = logged_ports (en_ports en)"
  "engine_canonicalize (logged_engine en) = engine_canonicalize en"
  by (simp_all add: logged_engine_def engine_canonicalize_def fun_eq_iff)

lemma logged_pure:
  "engine_objective (logged_engine en) = engine_objective en"
  "invocation_drift (logged_engine en) = invocation_drift en"
  "engine_trace (logged_engine en) = engine_trace en"
  unfolding engine_objective_def invocation_drift_def engine_trace_def logged_engine_simps by (rule refl)+

lemma logged_prescribe:
  "prescribe (logged_engine en) = prescribe en" "resolution_trace_of (logged_engine en) = resolution_trace_of en"
  unfolding prescribe_def resolution_trace_of_def logged_pure by (rule refl)+

lemmas logged_engine_eqs = logged_engine_simps logged_pure logged_prescribe

section \<open>Following the protocol\<close>

text \<open>
  \<open>follows m m' q Q\<close>: from stage \<open>q\<close> the logged action \<open>m'\<close> does what \<open>m\<close> does, its log stays within the
  protocol, and \<open>Q\<close> holds of the outcome and the stage reached.
\<close>

definition follows ::
    "('w, 'a) act \<Rightarrow> ('w \<times> (engine_call \<times> bool) list, 'a) act \<Rightarrow> engine_stage \<Rightarrow> ('a outcome \<Rightarrow> engine_stage \<Rightarrow> bool) \<Rightarrow> bool" where
  "follows m m' q Q \<longleftrightarrow> (\<forall>w es. stage_after Idle es = Some q \<longrightarrow>
     (case m' (w, es) of (r, w', es') \<Rightarrow> m w = (r, w') \<and> (\<exists>q'. stage_after Idle es' = Some q' \<and> Q r q')))"

lemma followsI:
  assumes "\<And>w es r w' es'. stage_after Idle es = Some q \<Longrightarrow> m' (w, es) = (r, w', es')
    \<Longrightarrow> m w = (r, w') \<and> (\<exists>q'. stage_after Idle es' = Some q' \<and> Q r q')"
  shows "follows m m' q Q"
  unfolding follows_def
proof (intro allI impI)
  fix w es assume "stage_after Idle es = Some q"
  then show "case m' (w, es) of (r, w', es') \<Rightarrow> m w = (r, w') \<and> (\<exists>q'. stage_after Idle es' = Some q' \<and> Q r q')"
    using assms [of es w] by (cases "m' (w, es)") auto
qed

lemma followsD:
  assumes "follows m m' q Q" "stage_after Idle es = Some q" "m' (w, es) = (r, w', es')"
  shows "m w = (r, w') \<and> (\<exists>q'. stage_after Idle es' = Some q' \<and> Q r q')"
proof -
  note run = assms(1) [unfolded follows_def, rule_format, OF assms(2), of w]
  show ?thesis
    using run by (simp add: assms(3))
qed

lemma follows_mono:
  assumes "follows m m' q P" "\<And>r q'. P r q' \<Longrightarrow> Q r q'"
  shows "follows m m' q Q"
  by (rule followsI) (use followsD [OF assms(1)] assms(2) in blast)

named_theorems follows_intros \<open>composed actions that follow the protocol\<close>

lemma follows_return [follows_intros]: "Q (Returned x) q \<Longrightarrow> follows (act_return x) (act_return x) q Q"
  by (simp add: follows_def act_return_def)

lemma follows_lifted [follows_intros]: "(\<And>r. Q r q) \<Longrightarrow> follows m (lifted m) q Q"
  by (auto simp: follows_def lifted_def split: prod.splits)

lemma follows_get [follows_intros]:
  "(\<And>w es. f' (w, es) = (fst (f w), snd (f w), es)) \<Longrightarrow> (\<And>x. Q (Returned x) q) \<Longrightarrow> follows (act_get f) (act_get f') q Q"
  by (auto simp: follows_def act_get_def split: prod.splits)

lemma follows_logged [follows_intros]:
  assumes "\<And>x. \<exists>q'. next_stage q (c, True) = Some q' \<and> Q (Returned x) q'"
    and "\<And>e. \<exists>q'. next_stage q (c, False) = Some q' \<and> Q (Failed e) q'"
    and "Q Panicked q" "Q Halted q"
  shows "follows m (logged c m) q Q"
  unfolding follows_def
proof (intro allI impI)
  fix w es assume es: "stage_after Idle es = Some q"
  obtain r w' where "m w = (r, w')"
    by (cases "m w")
  then show "case logged c m (w, es) of (r, w', es') \<Rightarrow> m w = (r, w') \<and> (\<exists>q'. stage_after Idle es' = Some q' \<and> Q r q')"
    using assms es by (cases r) (simp_all add: logged_def stage_after_append)
qed

lemma follows_else [follows_intros]:
  assumes "follows m m' q (\<lambda>r q'. case r of Returned x \<Rightarrow> follows (f x) (f' x) q' Q | Failed e \<Rightarrow> follows (h e) (h' e) q' Q
      | Panicked \<Rightarrow> Q Panicked q' | Halted \<Rightarrow> Q Halted q')"
  shows "follows (act_else m h f) (act_else m' h' f') q Q"
proof (rule followsI)
  fix w es r w' es'
  assume es: "stage_after Idle es = Some q" and run: "act_else m' h' f' (w, es) = (r, w', es')"
  obtain s v es1 where s: "m' (w, es) = (s, v, es1)"
    by (cases "m' (w, es)") auto
  from followsD [OF assms es s] obtain q' where first: "m w = (s, v)" "stage_after Idle es1 = Some q'"
    "case s of Returned x \<Rightarrow> follows (f x) (f' x) q' Q | Failed e \<Rightarrow> follows (h e) (h' e) q' Q
      | Panicked \<Rightarrow> Q Panicked q' | Halted \<Rightarrow> Q Halted q'"
    by blast
  show "act_else m h f w = (r, w') \<and> (\<exists>q'. stage_after Idle es' = Some q' \<and> Q r q')"
  proof (cases s)
    case (Returned x)
    then show ?thesis
      using followsD [of "f x" "f' x" q' Q es1 v r w' es'] first run s by (simp add: act_else_def)
  next
    case (Failed e)
    then show ?thesis
      using followsD [of "h e" "h' e" q' Q es1 v r w' es'] first run s by (simp add: act_else_def)
  qed (use first run s in \<open>auto simp: act_else_def\<close>)
qed

lemma act_bind_else: "act_bind m f = act_else m act_fail f"
  by (auto simp: fun_eq_iff act_bind_def act_else_def act_fail_def split: prod.splits outcome.splits)

lemma follows_fail: "Q (Failed e) q \<Longrightarrow> follows (act_fail e) (act_fail e) q Q"
  by (simp add: follows_def act_fail_def)

lemma follows_bind [follows_intros]:
  assumes "follows m m' q (\<lambda>r q'. case r of Returned x \<Rightarrow> follows (f x) (f' x) q' Q | Failed e \<Rightarrow> Q (Failed e) q'
      | Panicked \<Rightarrow> Q Panicked q' | Halted \<Rightarrow> Q Halted q')"
  shows "follows (act_bind m f) (act_bind m' f') q Q"
proof -
  have "follows m m' q (\<lambda>r q'. case r of Returned x \<Rightarrow> follows (f x) (f' x) q' Q | Failed e \<Rightarrow> follows (act_fail e) (act_fail e) q' Q
      | Panicked \<Rightarrow> Q Panicked q' | Halted \<Rightarrow> Q Halted q')"
    by (rule follows_mono [OF assms]) (auto split: outcome.splits intro: follows_fail)
  then show ?thesis
    unfolding act_bind_else by (rule follows_else)
qed

section \<open>Deferred calls\<close>

lemma follows_defer [follows_intros]:
  assumes "follows m m' q (\<lambda>r q'. if r = Halted then Q Halted q'
      else follows c c' q' (\<lambda>r' q''. Q (case r' of Panicked \<Rightarrow> Panicked | Halted \<Rightarrow> Halted | _ \<Rightarrow> r) q''))"
  shows "follows (act_defer c m) (act_defer c' m') q Q"
proof (rule followsI)
  fix w es r w' es'
  assume es: "stage_after Idle es = Some q" and run: "act_defer c' m' (w, es) = (r, w', es')"
  obtain s v es1 where s: "m' (w, es) = (s, v, es1)"
    by (cases "m' (w, es)") auto
  from followsD [OF assms es s] obtain q' where first: "m w = (s, v)" "stage_after Idle es1 = Some q'"
    "if s = Halted then Q Halted q' else follows c c' q' (\<lambda>r' q''. Q (case r' of Panicked \<Rightarrow> Panicked | Halted \<Rightarrow> Halted | _ \<Rightarrow> s) q'')"
    by blast
  obtain t u es2 where t: "c' (v, es1) = (t, u, es2)"
    by (cases "c' (v, es1)") auto
  show "act_defer c m w = (r, w') \<and> (\<exists>q'. stage_after Idle es' = Some q' \<and> Q r q')"
  proof (cases "s = Halted")
    case False
    then have "follows c c' q' (\<lambda>r' q''. Q (case r' of Panicked \<Rightarrow> Panicked | Halted \<Rightarrow> Halted | _ \<Rightarrow> s) q'')"
      using first(3) by simp
    from followsD [OF this first(2) t] show ?thesis
      using False run s t first(1) by (cases t; cases s) (auto simp: act_defer_def)
  qed (use first run s in \<open>auto simp: act_defer_def\<close>)
qed

lemma follows_release [follows_intros]:
  assumes "follows m m' q (\<lambda>r q'. if r = Halted then Q Halted q'
      else follows c c' q' (\<lambda>r' q''. case r' of Panicked \<Rightarrow> Q Panicked q'' | Halted \<Rightarrow> Q Halted q'' | Returned _ \<Rightarrow> Q r q''
        | Failed e \<Rightarrow> Q (case r of Returned (res, None) \<Rightarrow> Returned (res, Some (wrapf [Lit ''release effect lock: ''] e)) | _ \<Rightarrow> r) q''))"
  shows "follows (act_release c m) (act_release c' m') q Q"
proof (rule followsI)
  fix w es r w' es'
  assume es: "stage_after Idle es = Some q" and run: "act_release c' m' (w, es) = (r, w', es')"
  obtain s v es1 where s: "m' (w, es) = (s, v, es1)"
    by (cases "m' (w, es)") auto
  let ?Q = "\<lambda>s r' q''. case r' of Panicked \<Rightarrow> Q Panicked q'' | Halted \<Rightarrow> Q Halted q'' | Returned _ \<Rightarrow> Q s q''
        | Failed e \<Rightarrow> Q (case s of Returned (res, None) \<Rightarrow> Returned (res, Some (wrapf [Lit ''release effect lock: ''] e)) | _ \<Rightarrow> s) q''"
  from followsD [OF assms es s] obtain q' where first: "m w = (s, v)" "stage_after Idle es1 = Some q'"
    "if s = Halted then Q Halted q' else follows c c' q' (?Q s)"
    by blast
  obtain t u es2 where t: "c' (v, es1) = (t, u, es2)"
    by (cases "c' (v, es1)") auto
  show "act_release c m w = (r, w') \<and> (\<exists>q'. stage_after Idle es' = Some q' \<and> Q r q')"
  proof (cases "s = Halted")
    case False
    then have "follows c c' q' (?Q s)"
      using first(3) by simp
    from followsD [OF this first(2) t] show ?thesis
      using False run s t first(1) by (cases t; cases s) (auto simp: act_release_def split: option.splits)
  qed (use first run s in \<open>auto simp: act_release_def\<close>)
qed

section \<open>Every begun transaction is settled\<close>

text \<open>What is reported: a receipt exactly when one was committed or replayed; success only with one.\<close>

definition reports :: "bool \<Rightarrow> apply_result \<Rightarrow> gerror option \<Rightarrow> bool" where
  "reports committed res err \<longleftrightarrow> (committed \<longleftrightarrow> xr_receipt res \<noteq> None \<and> \<not> xr_replayed res)
     \<and> (xr_receipt res = None \<longrightarrow> err \<noteq> None)"

definition returning :: "(apply_result \<Rightarrow> gerror option \<Rightarrow> engine_stage \<Rightarrow> bool)
    \<Rightarrow> (apply_result \<times> gerror option) outcome \<Rightarrow> engine_stage \<Rightarrow> bool" where
  "returning P r q = (case r of Returned (res, err) \<Rightarrow> P res err q | _ \<Rightarrow> True)"

lemma returning_simps [simp]:
  "returning P (Returned (res, err)) q = P res err q" "returning P (Failed e) q" "returning P Panicked q" "returning P Halted q"
  by (simp_all add: returning_def)

definition settles :: "apply_result \<Rightarrow> gerror option \<Rightarrow> engine_stage \<Rightarrow> bool" where
  "settles res err q \<longleftrightarrow> (case q of Settled c \<Rightarrow> reports c res err | _ \<Rightarrow> False)"

lemma next_stage_simps [simp]:
  "next_stage q (Call_unbind, ok) = Some (case q of Bound \<Rightarrow> Finished False | Settled c \<Rightarrow> Finished c | _ \<Rightarrow> Abandoned)"
  "next_stage q (Call_release, ok) = Some (case q of Locked \<Rightarrow> Closed False | Finished c \<Rightarrow> Closed c | _ \<Rightarrow> Abandoned)"
  by (cases q; simp add: next_stage_def stray_call_def)+

lemma follows_give [follows_intros]: "Q (Returned (res, Some e)) q \<Longrightarrow> follows (give res e) (give res e) q Q"
  unfolding give_def by (rule follows_return)

lemma follows_settle_abort:
  assumes "q = Aborting \<or> q = Marked" "xr_receipt res = None"
  shows "follows (settle_abort en a res reason cause) (settle_abort (logged_engine en) a res reason cause) q (returning settles)"
  unfolding settle_abort_def logged_engine_simps
  using assms
  by (auto intro!: follows_intros simp: logged_ports_def next_stage_def settles_def reports_def)

lemma follows_settle_recovery:
  assumes "q \<in> {Recovering, Verifying, Faulted}" "xr_receipt res = None"
  shows "follows (settle_recovery en a res reason cause) (settle_recovery (logged_engine en) a res reason cause) q (returning settles)"
  unfolding settle_recovery_def logged_engine_simps
  using assms
  by (auto intro!: follows_intros simp: logged_ports_def next_stage_def settles_def reports_def)

lemmas settle_intros = follows_settle_abort follows_settle_recovery

lemma follows_receipt:
  assumes "xr_receipt res = None" "\<not> xr_replayed res"
  shows "follows (apply_receipt en x er started target res) (apply_receipt (logged_engine en) x er started target res)
    Verifying (returning settles)"
  unfolding apply_receipt_def logged_engine_simps Let_def
  using assms
  by (auto intro!: follows_intros settle_intros split: prod.splits sum.splits
      simp: logged_ports_def next_stage_def settles_def reports_def)

lemma follows_verified:
  assumes "xr_receipt res = None" "\<not> xr_replayed res"
  shows "follows (apply_verified en x er started target res) (apply_verified (logged_engine en) x er started target res)
    Verifying (returning settles)"
  unfolding apply_verified_def logged_engine_simps Let_def
  using assms
  by (auto intro!: follows_else follows_logged settle_intros follows_receipt simp: logged_ports_def next_stage_def)

lemma follows_executed:
  assumes "xr_receipt res = None" "\<not> xr_replayed res"
  shows "follows (apply_executed en x i er started res) (apply_executed (logged_engine en) x i er started res)
    Executed (returning settles)"
  unfolding apply_executed_def logged_engine_simps Let_def
  using assms
  by (auto intro!: follows_intros settle_intros follows_verified split: sum.splits outcome.splits
      simp: logged_ports_def next_stage_def)

lemma follows_effect_failed:
  assumes "xr_receipt res = None"
  shows "follows (effect_failed en x res e) (effect_failed (logged_engine en) x res e) Faulted (returning settles)"
  unfolding effect_failed_def logged_engine_simps Let_def
  using assms
  by (auto intro!: follows_intros settle_intros simp: logged_ports_def next_stage_def)

lemma follows_begun:
  assumes "xr_receipt res = None" "\<not> xr_replayed res"
  shows "follows (apply_begun en x i res) (apply_begun (logged_engine en) x i res) Begun (returning settles)"
  unfolding apply_begun_def logged_engine_simps Let_def
  using assms
  by (auto intro!: follows_intros settle_intros follows_executed follows_effect_failed split: option.splits
      simp: logged_ports_def next_stage_def split_beta)

text \<open>Within the binding of the flow, and then under the lock.\<close>

definition bound_or_settled :: "apply_result \<Rightarrow> gerror option \<Rightarrow> engine_stage \<Rightarrow> bool" where
  "bound_or_settled res err q \<longleftrightarrow> (if q = Bound then reports False res err else settles res err q)"

definition locked_or_finished :: "apply_result \<Rightarrow> gerror option \<Rightarrow> engine_stage \<Rightarrow> bool" where
  "locked_or_finished res err q \<longleftrightarrow> (case q of Locked \<Rightarrow> reports False res err | Finished c \<Rightarrow> reports c res err | _ \<Rightarrow> False)"

definition idle_or_closed :: "apply_result \<Rightarrow> gerror option \<Rightarrow> engine_stage \<Rightarrow> bool" where
  "idle_or_closed res err q \<longleftrightarrow> (case q of Idle \<Rightarrow> reports False res err | Closed c \<Rightarrow> reports c res err | _ \<Rightarrow> False)"

lemma follows_bound:
  assumes "xr_receipt res = None" "\<not> xr_replayed res"
  shows "follows (apply_bound en flow t a p i res) (apply_bound (logged_engine en) flow t a p i res) Bound
    (returning bound_or_settled)"
proof -
  have begun: "follows (apply_begun en x i res) (apply_begun (logged_engine en) x i res) Begun (returning bound_or_settled)" for x
    by (rule follows_mono [OF follows_begun [OF assms]])
      (auto simp: returning_def bound_or_settled_def settles_def split: outcome.splits engine_stage.splits)
  show ?thesis
    unfolding apply_bound_def logged_engine_simps Let_def
    using assms
    by (auto intro!: follows_intros begun split: outcome.splits
        simp: logged_ports_def next_stage_def bound_or_settled_def settles_def reports_def)
qed

lemma follows_replay_result:
  assumes "xr_receipt res = None"
    "\<And>found err. reports False found err \<Longrightarrow> Q (Returned (found, err)) q"
  shows "follows (replay_result r sn res ok) (replay_result r sn res ok) q Q"
  unfolding replay_result_def
  using assms by (auto intro!: follows_intros simp: reports_def split: option.splits)

lemma follows_prepared:
  assumes "xr_receipt res = None" "\<not> xr_replayed res"
  shows "follows (apply_prepared en xq t a ob sn res) (apply_prepared (logged_engine en) xq t a ob sn res) Locked
    (returning locked_or_finished)"
proof -
  have bound: "follows (apply_bound en flow t a p i res) (apply_bound (logged_engine en) flow t a p i res) Bound
      (\<lambda>r q'. r \<noteq> Halted \<longrightarrow> follows (ep_unbind (en_ports en) flow) (logged Call_unbind (ep_unbind (en_ports en) flow)) q'
        (\<lambda>r'. returning locked_or_finished (case r' of Panicked \<Rightarrow> Panicked | Halted \<Rightarrow> Halted | _ \<Rightarrow> r)))" for flow p i
  proof (rule follows_mono [OF follows_bound [OF assms]], rule impI)
    fix r q assume "returning bound_or_settled r q"
    then show "follows (ep_unbind (en_ports en) flow) (logged Call_unbind (ep_unbind (en_ports en) flow)) q
        (\<lambda>r'. returning locked_or_finished (case r' of Panicked \<Rightarrow> Panicked | Halted \<Rightarrow> Halted | _ \<Rightarrow> r))"
      by (cases r) (auto intro!: follows_logged simp: locked_or_finished_def bound_or_settled_def settles_def
          split: if_splits engine_stage.splits)
  qed
  show ?thesis
    unfolding apply_prepared_def Let_def logged_engine_simps
    using assms
    by (auto intro!: follows_intros bound split: option.splits outcome.splits
        simp: logged_ports_def next_stage_def locked_or_finished_def reports_def split_beta)
qed

lemma follows_apply_locked:
  assumes "xr_receipt res = None" "\<not> xr_replayed res"
  shows "follows (engine_apply_locked en xq t a ob res) (engine_apply_locked (logged_engine en) xq t a ob res) Locked
    (returning locked_or_finished)"
  unfolding engine_apply_locked_def Let_def logged_engine_simps
  using assms
  by (auto intro!: follows_else follows_lifted follows_give follows_prepared follows_replay_result
      split: option.splits outcome.splits sum.splits simp: logged_ports_def locked_or_finished_def reports_def)

lemma follows_locked_call:
  assumes "xr_receipt res = None" "\<not> xr_replayed res"
  shows "follows (act_release (ep_release (en_ports en) l) (engine_apply_locked en xq t a ob res))
    (act_release (logged Call_release (ep_release (en_ports en) l)) (engine_apply_locked (logged_engine en) xq t a ob res))
    Locked (returning idle_or_closed)"
proof (rule follows_release, rule follows_mono [OF follows_apply_locked [OF assms]])
  fix r q assume "returning locked_or_finished r q"
  then show "if r = Halted then returning idle_or_closed Halted q
    else follows (ep_release (en_ports en) l) (logged Call_release (ep_release (en_ports en) l)) q
      (\<lambda>r' q''. case r' of Panicked \<Rightarrow> returning idle_or_closed Panicked q'' | Halted \<Rightarrow> returning idle_or_closed Halted q''
        | Returned _ \<Rightarrow> returning idle_or_closed r q''
        | Failed e \<Rightarrow> returning idle_or_closed (case r of Returned (res, None) \<Rightarrow>
            Returned (res, Some (wrapf [Lit ''release effect lock: ''] e)) | _ \<Rightarrow> r) q'')"
    by (cases r) (auto intro!: follows_logged simp: locked_or_finished_def idle_or_closed_def reports_def
        split: engine_stage.splits option.splits)
qed

lemma follows_admitted:
  assumes "xr_receipt res = None" "\<not> xr_replayed res"
  shows "follows (engine_apply_admitted en xq t a ob res) (engine_apply_admitted (logged_engine en) xq t a ob res) Idle
    (returning idle_or_closed)"
  unfolding engine_apply_admitted_def Let_def logged_engine_simps replay_observed_def
  using assms
  by (auto intro!: follows_else follows_lifted follows_logged follows_give follows_locked_call follows_replay_result
      split: option.splits outcome.splits sum.splits
      simp: logged_ports_def next_stage_def idle_or_closed_def reports_def)

lemma follows_sd_resolve: "follows (sd_resolve en rq) (sd_resolve (logged_engine en) rq) Idle (\<lambda>r q. q = Idle)"
  unfolding sd_resolve_def sd_resolve_snapshot_def Let_def logged_engine_eqs
  by (auto intro!: follows_else follows_bind follows_lifted follows_return follows_get
      split: option.splits outcome.splits sum.splits prod.splits simp: logged_ports_def split_beta)

lemma follows_resolved:
  assumes "xr_receipt res = None" "\<not> xr_replayed res"
  shows "follows (engine_apply_resolved en xq rq rs sn res) (engine_apply_resolved (logged_engine en) xq rq rs sn res) Idle
    (returning idle_or_closed)"
  unfolding engine_apply_resolved_def Let_def logged_engine_simps
  using assms
  by (auto intro!: follows_bind follows_get follows_give follows_admitted
      split: option.splits outcome.splits sum.splits simp: logged_ports_def split_beta idle_or_closed_def reports_def)

lemma follows_fresh:
  "follows (engine_apply_fresh en xq) (engine_apply_fresh (logged_engine en) xq) Idle (returning idle_or_closed)"
  unfolding engine_apply_fresh_def Let_def
  by (auto intro!: follows_bind follows_mono [OF follows_sd_resolve] follows_give follows_resolved
      split: option.splits outcome.splits simp: idle_or_closed_def reports_def no_result_def)

lemma follows_apply: "follows (sd_apply en xq) (sd_apply (logged_engine en) xq) Idle (returning idle_or_closed)"
proof -
  have "xr_receipt no_result = None" "\<not> xr_replayed no_result"
    by (simp_all add: no_result_def)
  then show ?thesis
    unfolding sd_apply_def Let_def logged_engine_simps replay_observed_def
    by (auto intro!: follows_else follows_bind follows_get follows_lifted follows_give follows_fresh follows_replay_result
        split: option.splits outcome.splits sum.splits simp: logged_ports_def split_beta idle_or_closed_def reports_def)
qed

text \<open>
  C1. The calls of one application follow the protocol of a transaction, whatever the ports answer:
  an effect runs once and only under the lock, in a journal that was begun, marked and staged; every
  begun transaction is settled by a commit, an abort or a recovery mark before the flow is unbound and
  the lock released; and a receipt that is no replay is reported exactly when it was committed. The
  log is the only thing the instrumented ports add.
\<close>

theorem apply_follows_protocol:
  assumes "sd_apply (logged_engine en) xq (w, []) = (r, w', es)"
  shows "sd_apply en xq w = (r, w') \<and> stage_after Idle es \<noteq> None
    \<and> (\<forall>res err. r = Returned (res, err) \<longrightarrow>
        stage_after Idle es \<in> {Some Idle, Some (Closed False), Some (Closed True)}
        \<and> (stage_after Idle es = Some (Closed True) \<longleftrightarrow> xr_receipt res \<noteq> None \<and> \<not> xr_replayed res)
        \<and> (err = None \<longrightarrow> xr_receipt res \<noteq> None))"
proof -
  obtain q where q: "sd_apply en xq w = (r, w')" "stage_after Idle es = Some q" "returning idle_or_closed r q"
    using followsD [OF follows_apply _ assms] by auto
  have "Some q \<in> {Some Idle, Some (Closed False), Some (Closed True)}
      \<and> (Some q = Some (Closed True) \<longleftrightarrow> xr_receipt res \<noteq> None \<and> \<not> xr_replayed res)
      \<and> (err = None \<longrightarrow> xr_receipt res \<noteq> None)" if "r = Returned (res, err)" for res err
    using q(3) that by (cases q) (auto simp: idle_or_closed_def reports_def)
  then show ?thesis
    unfolding q(2) using q(1) by blast
qed

end
