(* ===== verification/Delivery_Apply_Laws.thy ===== *)
theory Delivery_Apply_Laws
  imports Delivery_Apply Delivery_Receipt_Laws
begin

text \<open>
  What a successful application means: the receipt it returns is that of the prescribed transition,
  admitted for the state the prescription was issued for, with its target established.
\<close>

section \<open>Values returned\<close>

definition yields :: "('a \<Rightarrow> bool) \<Rightarrow> ('w, 'a) act \<Rightarrow> bool" where
  "yields P m \<longleftrightarrow> (\<forall>w x w'. m w = (Returned x, w') \<longrightarrow> P x)"

definition succeeds :: "(apply_result \<Rightarrow> bool) \<Rightarrow> 'w apply_act \<Rightarrow> bool" where
  "succeeds P m \<longleftrightarrow> yields (\<lambda>(res, err). err = None \<longrightarrow> P res) m"

named_theorems yields_intros \<open>values of composed actions\<close>
named_theorems succeeds_intros \<open>results of composed actions without an error\<close>

lemma yieldsD: "yields P m \<Longrightarrow> m w = (Returned x, w') \<Longrightarrow> P x"
  by (auto simp: yields_def)

lemma yields_return [yields_intros]: "P x \<Longrightarrow> yields P (act_return x)"
  by (simp add: yields_def act_return_def)

lemma yields_else [yields_intros]:
  "(\<And>e. yields P (h e)) \<Longrightarrow> (\<And>x. yields P (f x)) \<Longrightarrow> yields P (act_else m h f)"
  unfolding yields_def act_else_def by (fastforce split: prod.splits outcome.splits)

lemma yields_bind: "yields Q m \<Longrightarrow> (\<And>x. Q x \<Longrightarrow> yields P (f x)) \<Longrightarrow> yields P (act_bind m f)"
  unfolding yields_def act_bind_def by (fastforce split: prod.splits outcome.splits)

lemma yields_get [yields_intros]: "(\<And>x. yields P (f x)) \<Longrightarrow> yields P (act_bind (act_get g) f)"
  by (rule yields_bind [of "\<lambda>_. True"]) (simp_all add: yields_def)

lemma yields_mono: "yields P m \<Longrightarrow> (\<And>x. P x \<Longrightarrow> Q x) \<Longrightarrow> yields Q m"
  by (auto simp: yields_def)

lemma succeeds_return [succeeds_intros]: "(err = None \<Longrightarrow> P res) \<Longrightarrow> succeeds P (act_return (res, err))"
  by (simp add: succeeds_def yields_return)

lemma succeeds_give [succeeds_intros]: "succeeds P (give res e)"
  unfolding give_def by (rule succeeds_return) simp

lemma succeeds_else [succeeds_intros]:
  "(\<And>e. succeeds P (h e)) \<Longrightarrow> (\<And>x. succeeds P (f x)) \<Longrightarrow> succeeds P (act_else m h f)"
  by (simp add: succeeds_def yields_else)

lemma succeeds_bind: "yields Q m \<Longrightarrow> (\<And>x. Q x \<Longrightarrow> succeeds P (f x)) \<Longrightarrow> succeeds P (act_bind m f)"
  by (simp add: succeeds_def yields_bind)

lemma succeeds_get [succeeds_intros]: "(\<And>x. succeeds P (f x)) \<Longrightarrow> succeeds P (act_bind (act_get g) f)"
  by (simp add: succeeds_def yields_get)

lemma succeeds_defer [succeeds_intros]: "succeeds P m \<Longrightarrow> succeeds P (act_defer c m)"
  unfolding succeeds_def yields_def act_defer_def by (fastforce split: prod.splits outcome.splits)

lemma succeeds_release [succeeds_intros]: "succeeds P m \<Longrightarrow> succeeds P (act_release c m)"
  unfolding succeeds_def yields_def act_release_def by (fastforce split: prod.splits outcome.splits option.splits)

lemma succeeds_mono: "succeeds P m \<Longrightarrow> (\<And>res. P res \<Longrightarrow> Q res) \<Longrightarrow> succeeds Q m"
  unfolding succeeds_def by (erule yields_mono) auto

lemma succeeds_settle [succeeds_intros]:
  "succeeds P (settle_abort en a res reason cause)" "succeeds P (settle_recovery en a res reason cause)"
  by (auto simp: settle_abort_def settle_recovery_def intro!: succeeds_intros)

section \<open>From the effect to the receipt\<close>

text \<open>The result of a transaction: a verified target and the receipt built for it.\<close>

definition committed_by ::
    "('w, 'l, 'p) engine \<Rightarrow> string \<Rightarrow> sd_transition \<Rightarrow> sd_admission \<Rightarrow> apply_result \<Rightarrow> apply_result \<Rightarrow> bool" where
  "committed_by en flow t a res res' \<longleftrightarrow> (\<exists>n target r facets effects outputs started completed.
     res' = res\<lparr>xr_target := Some target, xr_receipt := Some r\<rparr>
     \<and> new_sd_receipt flow n (en_program en) a t target facets effects outputs [] started completed = Inr r
     \<and> target_matches t (sn_observation target)
     \<and> same_invocation (ob_invocation (sn_observation target)) (ad_invocation a) t)"

lemma succeeds_receipt:
  assumes "target_matches (ta_transition x) (sn_observation target)"
    "same_invocation (ob_invocation (sn_observation target)) (ad_invocation (ta_admission x)) (ta_transition x)"
  shows "succeeds (committed_by en (ta_flow x) (ta_transition x) (ta_admission x) res)
    (apply_receipt en x er started target (res\<lparr>xr_target := Some target\<rparr>))"
  unfolding apply_receipt_def Let_def
  using assms by (auto intro!: succeeds_intros split: sum.splits simp: committed_by_def) metis+

lemma succeeds_executed:
  "succeeds (committed_by en (ta_flow x) (ta_transition x) (ta_admission x) res) (apply_executed en x i er started res)"
  unfolding apply_executed_def apply_verified_def Let_def
  by (auto intro!: succeeds_intros succeeds_receipt split: sum.splits)

lemma succeeds_begun:
  "succeeds (committed_by en (ta_flow x) (ta_transition x) (ta_admission x) res) (apply_begun en x i res)"
  unfolding apply_begun_def effect_failed_def Let_def
  by (auto intro!: succeeds_intros succeeds_executed split: option.splits)

lemma succeeds_bound: "succeeds (committed_by en flow t a res) (apply_bound en flow t a p i res)"
  unfolding apply_bound_def Let_def
  by (auto intro!: succeeds_intros succeeds_begun [where x = "\<lparr>ta_flow = flow, ta_transition = t, ta_admission = a,
      ta_sequence = _, ta_effect = p\<rparr>", simplified])

definition replayed_or :: "(apply_result \<Rightarrow> bool) \<Rightarrow> apply_result \<Rightarrow> bool" where
  "replayed_or P res \<longleftrightarrow> xr_replayed res \<and> xr_receipt res \<noteq> None \<or> P res"

lemma succeeds_replay: "succeeds (replayed_or P) (replay_result r sn res ok)"
  by (auto simp: replay_result_def replayed_or_def intro!: succeeds_intros split: option.splits)

lemma succeeds_admitted:
  "succeeds (replayed_or (committed_by en (xq_flow xq) t a res)) (engine_apply_admitted en xq t a ob res)"
  unfolding engine_apply_admitted_def engine_apply_locked_def apply_prepared_def replay_observed_def Let_def
  by (auto intro!: succeeds_intros succeeds_replay succeeds_mono [OF succeeds_bound]
      split: option.splits sum.splits simp: replayed_or_def)

section \<open>Resolution\<close>

text \<open>A resolution with a prescription was decided by the supervisor and passed the law of admission.\<close>

definition issued_by ::
    "('w, 'l, 'p) engine \<Rightarrow> sd_resolve_request \<Rightarrow> sd_snapshot \<Rightarrow> sd_objective \<Rightarrow> gtime \<Rightarrow> sd_resolution \<Rightarrow> sd_prescription \<Rightarrow> bool" where
  "issued_by en rq sn ob now rs p \<longleftrightarrow> (\<exists>a t caps bd.
     sr_snapshot rs = Some sn \<and> sr_admission rs = Some a
     \<and> sr_decision rs = supervise (en_control en) sn ob (bundle_set (sq_authority rq) now) (sq_requested rq)
     \<and> de_kind (sr_decision rs) = Decision_prescribed \<and> de_transition (sr_decision rs) = Some t
     \<and> objective_for_transition (sn_observation sn) ob t = Inr (sr_objective rs)
     \<and> validate_applicability sn (sr_objective rs) t (sq_authority rq) (sq_parameters rq) now = None
     \<and> new_sd_prescription sn t caps (sq_work rq) bd (evidence_fingerprint rq) = Inr p
     \<and> new_admission sn (sr_objective rs) t p (sq_authority rq) (sq_parameters rq) (sq_work rq) bd
         (sq_bundle_revision rq) now resolution_lifetime = Inr a)"

definition resolution_ok ::
    "('w, 'l, 'p) engine \<Rightarrow> sd_resolve_request \<Rightarrow> sd_snapshot \<Rightarrow> sd_objective \<Rightarrow> gtime
       \<Rightarrow> sd_resolution \<times> gerror option \<Rightarrow> bool" where
  "resolution_ok en rq sn ob now x \<longleftrightarrow> (let (rs, err) = x in
     (case sr_prescription rs of None \<Rightarrow> True | Some p \<Rightarrow> err = None \<and> issued_by en rq sn ob now rs p))"

lemma prescribe_issues:
  assumes "prescribe en rq sn ob d t now = Inr (ob', d', Some (p, a))"
  shows "d' = d \<and> objective_for_transition (sn_observation sn) ob t = Inr ob'
    \<and> validate_applicability sn ob' t (sq_authority rq) (sq_parameters rq) now = None
    \<and> (\<exists>caps bd. new_sd_prescription sn t caps (sq_work rq) bd (evidence_fingerprint rq) = Inr p
       \<and> new_admission sn ob' t p (sq_authority rq) (sq_parameters rq) (sq_work rq) bd
           (sq_bundle_revision rq) now resolution_lifetime = Inr a)"
  using assms by (auto simp: prescribe_def Let_def split: sum.splits option.splits if_splits)

lemma resolve_snapshot_ok: "yields (resolution_ok en rq sn ob now) (sd_resolve_snapshot en rq sn ob now)"
proof -
  obtain d cts where d: "supervise_with_trace (en_control en) sn ob (bundle_set (sq_authority rq) now) (sq_requested rq) = (d, cts)"
    by (cases "supervise_with_trace (en_control en) sn ob (bundle_set (sq_authority rq) now) (sq_requested rq)")
  then have "supervise (en_control en) sn ob (bundle_set (sq_authority rq) now) (sq_requested rq) = d"
    by (simp add: supervise_def)
  then have "resolution_ok en rq sn ob now (resolved sn ob' d' trace (Some (p, a)), None)"
    if "prescribe en rq sn ob d t now = Inr (ob', d', Some (p, a))" "de_kind d = Decision_prescribed" "de_transition d = Some t"
    for t ob' d' trace p a
    using prescribe_issues [OF that(1)] that(2,3)
    by (fastforce simp: resolution_ok_def resolved_def issued_by_def)
  then show ?thesis
    unfolding sd_resolve_snapshot_def d
    by (auto intro!: yields_intros split: sum.splits option.splits prod.splits if_splits
        simp: resolution_ok_def no_resolution_def resolved_def)
qed

text \<open>A resolution with a prescription read the clock, observed, and went on with that observation.\<close>

lemma resolve_prescribed_run:
  assumes run: "sd_resolve en rq w = (Returned (rs, err), w')" and p: "sr_prescription rs = Some p"
  obtains now w1 seen w2 sn ob where "ep_now (en_ports en) w = (now, w1)"
    "ep_observe (en_ports en) (observation_of (sq_invocation rq) (granted_capabilities (sq_authority rq) now)) w1
       = (Returned seen, w2)"
    "engine_canonicalize en seen = Inr sn" "ob_invocation (sn_observation sn) = sq_invocation rq"
    "engine_objective en sn rq = Inr ob" "sd_resolve_snapshot en rq sn ob now w2 = (Returned (rs, err), w')"
proof -
  have none: "sr_prescription no_resolution = None" "sr_prescription (unresolved_resolution g reason) = None" for g reason
    by (simp_all add: no_resolution_def unresolved_resolution_def)
  show thesis
    using run p none that unfolding sd_resolve_def Let_def
    by (auto simp: act_bind_def act_get_def act_else_def act_return_def
        split: option.splits sum.splits prod.splits outcome.splits if_splits)
qed

text \<open>A prescription that admission accepts is bound to its snapshot.\<close>

lemma admission_binds:
  assumes "new_admission sn ob t p authority ps work bd brev now lifetime = Inr a"
  shows "sd_prescription_validate p = None" "pr_transition p = tn_id t" "fr_snapshot (pr_freshness p) = sn_fingerprint sn"
    "fr_revision (pr_freshness p) = ob_state_revision (sn_observation sn)" "ad_prescription a = pr_id p"
    "ad_transition_id a = tn_id t" "ad_expected_revision a = ob_state_revision (sn_observation sn)"
    "validate_prescription_current p sn = None" "ad_invocation a = ob_invocation (sn_observation sn)"
proof -
  obtain ob caps d key h where x: "\<forall>e\<in>set (admission_errors sn t p caps work bd lifetime). e = None"
    "a = (admission_draft sn ob t p authority ps caps work bd brev now lifetime)
        \<lparr>ad_prior_program := prior_program (sn_observation sn), ad_program_delta := d,
         ad_idempotency_key := key, ad_id := h\<rparr>"
    using new_admission_Inr [OF assms] by blast
  have "prescription_current p sn t caps = None"
    using x(1) by (simp add: admission_errors_def)
  then have p: "sd_prescription_validate p = None" "pr_transition p = tn_id t"
    "snapshot_freshness sn (cj_authority_fingerprint caps) = Inr (pr_freshness p)"
    by (simp_all add: prescription_current_None)
  then obtain b where b: "objective_binding_fingerprint (sn_observation sn) = Inr b" "fr_snapshot (pr_freshness p) = sn_fingerprint sn"
    "fr_revision (pr_freshness p) = ob_state_revision (sn_observation sn)"
    "fr_authority (pr_freshness p) = cj_authority_fingerprint caps" "freshness_validate (pr_freshness p) = None"
    by (auto simp: snapshot_freshness_Inr)
  show "sd_prescription_validate p = None" "pr_transition p = tn_id t" "fr_snapshot (pr_freshness p) = sn_fingerprint sn"
    "fr_revision (pr_freshness p) = ob_state_revision (sn_observation sn)" "ad_prescription a = pr_id p"
    "ad_transition_id a = tn_id t" "ad_expected_revision a = ob_state_revision (sn_observation sn)"
    "ad_invocation a = ob_invocation (sn_observation sn)"
    using p b x(2) by simp_all
  show "validate_prescription_current p sn = None"
    using p b by (simp add: validate_prescription_current_def freshness_check_None_iff)
qed

text \<open>
  C11. Resolution prescribes only what admission accepts. A resolution that carries a prescription
  returned no error; it read the clock once and observed once, with the capabilities granted at that
  time, and its snapshot is the canonical form of that very observation, under the requested
  invocation; its decision is the supervisor's for that snapshot and prescribes a transition that is
  applicable there, and the prescription is current for the snapshot, names the transition, and is
  the one the admission was issued under.
\<close>

theorem resolve_prescribes_admissible:
  assumes "sd_resolve en rq w = (Returned (rs, err), w')" "sr_prescription rs = Some p"
  shows "err = None \<and> (\<exists>sn a t ob now w1 seen w2. sr_snapshot rs = Some sn \<and> sr_admission rs = Some a
    \<and> ep_now (en_ports en) w = (now, w1)
    \<and> ep_observe (en_ports en) (observation_of (sq_invocation rq) (granted_capabilities (sq_authority rq) now)) w1
        = (Returned seen, w2)
    \<and> engine_canonicalize en seen = Inr sn
    \<and> ob_invocation (sn_observation sn) = sq_invocation rq
    \<and> engine_objective en sn rq = Inr ob
    \<and> sr_decision rs = supervise (en_control en) sn ob (bundle_set (sq_authority rq) now) (sq_requested rq)
    \<and> de_kind (sr_decision rs) = Decision_prescribed \<and> de_transition (sr_decision rs) = Some t
    \<and> validate_applicability sn (sr_objective rs) t (sq_authority rq) (sq_parameters rq) now = None
    \<and> pr_transition p = tn_id t \<and> ad_transition_id a = tn_id t \<and> ad_prescription a = pr_id p
    \<and> validate_prescription_current p sn = None)"
proof -
  obtain now w1 seen w2 sn ob where run: "ep_now (en_ports en) w = (now, w1)"
    "ep_observe (en_ports en) (observation_of (sq_invocation rq) (granted_capabilities (sq_authority rq) now)) w1
       = (Returned seen, w2)"
    "engine_canonicalize en seen = Inr sn" "ob_invocation (sn_observation sn) = sq_invocation rq"
    "engine_objective en sn rq = Inr ob" "sd_resolve_snapshot en rq sn ob now w2 = (Returned (rs, err), w')"
    by (rule resolve_prescribed_run [OF assms])
  have "resolution_ok en rq sn ob now (rs, err)"
    by (rule yieldsD [OF resolve_snapshot_ok run(6)])
  then have err: "err = None" and "issued_by en rq sn ob now rs p"
    using assms(2) by (simp_all add: resolution_ok_def)
  then obtain a t bd where x: "sr_snapshot rs = Some sn" "sr_admission rs = Some a"
    "sr_decision rs = supervise (en_control en) sn ob (bundle_set (sq_authority rq) now) (sq_requested rq)"
    "de_kind (sr_decision rs) = Decision_prescribed" "de_transition (sr_decision rs) = Some t"
    "validate_applicability sn (sr_objective rs) t (sq_authority rq) (sq_parameters rq) now = None"
    "new_admission sn (sr_objective rs) t p (sq_authority rq) (sq_parameters rq) (sq_work rq) bd
         (sq_bundle_revision rq) now resolution_lifetime = Inr a"
    unfolding issued_by_def by blast
  note binds = admission_binds [OF x(7)]
  show ?thesis
    using err run(1-5) x(1-6) binds(2,5,6,8) by blast
qed

section \<open>Application\<close>

lemma receipt_of_admission:
  assumes "new_sd_receipt flow seq program a t target changed effects outputs exercised started committed = Inr r"
  shows "tr_flow r = flow" "tr_transition r = tn_id t" "tr_prescription r = ad_prescription a" "tr_admission r = ad_id a"
    "tr_program r = program" "tr_prior_revision r = ad_expected_revision a"
    "ob_state_revision (sn_observation target) = ad_expected_revision a + 1"
proof -
  obtain binding facets r0 h where x: "with_lineage t a target (receipt_draft flow seq program a t target binding facets
        effects outputs exercised started committed) = Inr r0" "r = (receipt_runtime t a r0)\<lparr>tr_id := h\<rparr>"
    "\<forall>e\<in>set (new_receipt_errors flow seq program a target effects started committed). e = None"
    using new_sd_receipt_Inr [OF assms] by blast
  then show "tr_flow r = flow" "tr_transition r = tn_id t" "tr_prescription r = ad_prescription a" "tr_admission r = ad_id a"
    "tr_program r = program" "tr_prior_revision r = ad_expected_revision a"
    by (auto simp: receipt_draft_def receipt_runtime_def Let_def dest!: with_lineage_Inr)
  show "ob_state_revision (sn_observation target) = ad_expected_revision a + 1"
    using x(3) by (simp add: new_receipt_errors_def)
qed

text \<open>The decision that was carried out, for the admission that was issued.\<close>

definition carried_out :: "('w, 'l, 'p) engine \<Rightarrow> sd_apply_request \<Rightarrow> apply_result \<Rightarrow> bool" where
  "carried_out en xq res \<longleftrightarrow> (\<exists>sn a t res0 ob authority ps work bd brev now lifetime.
     xr_source res0 = Some sn \<and> xr_admission res0 = Some a \<and> de_kind (xr_decision res0) = Decision_prescribed
     \<and> de_transition (xr_decision res0) = Some t
     \<and> new_admission sn ob t (xq_prescription xq) authority ps work bd brev now lifetime = Inr a
     \<and> committed_by en (xq_flow xq) t a res0 res)"

lemma succeeds_resolved:
  assumes "xr_source res = Some sn" "xr_decision res = sr_decision rs" "xq_flow xq' = xq_flow xq"
    "xq_prescription xq' = xq_prescription xq"
  shows "succeeds (replayed_or (carried_out en xq)) (engine_apply_resolved en xq' rq rs sn res)"
proof -
  have "succeeds (replayed_or (carried_out en xq))
      (engine_apply_admitted en (xq'\<lparr>xq_resolve := rq'\<rparr>) t a ob (res\<lparr>xr_admission := Some a\<rparr>))"
    if "de_kind (sr_decision rs) = Decision_prescribed" "de_transition (sr_decision rs) = Some t"
      "new_admission sn ob t (xq_prescription xq) authority ps work bd brev now lifetime = Inr a"
    for rq' t a ob authority ps work bd brev now lifetime
  proof (rule succeeds_mono [OF succeeds_admitted])
    let ?res = "res\<lparr>xr_admission := Some a\<rparr>"
    fix res' assume run: "replayed_or (committed_by en (xq_flow (xq'\<lparr>xq_resolve := rq'\<rparr>)) t a ?res) res'"
    have "xr_source ?res = Some sn" "xr_admission ?res = Some a" "de_kind (xr_decision ?res) = Decision_prescribed"
      "de_transition (xr_decision ?res) = Some t"
      using that(1,2) assms(1,2) by simp_all
    then have "carried_out en xq res'" if "committed_by en (xq_flow xq) t a ?res res'"
      unfolding carried_out_def using \<open>new_admission _ _ _ _ _ _ _ _ _ _ _ = _\<close> that by blast
    then show "replayed_or (carried_out en xq) res'"
      using run assms(3) by (auto simp: replayed_or_def)
  qed
  then show ?thesis
    unfolding engine_apply_resolved_def Let_def
    using assms by (auto intro!: succeeds_intros split: option.splits sum.splits if_splits)
qed

text \<open>A resolution without an error has a snapshot.\<close>

lemma resolve_seen: "yields (\<lambda>(rs, err). err = None \<longrightarrow> sr_snapshot rs \<noteq> None) (sd_resolve en rq)"
  unfolding sd_resolve_def sd_resolve_snapshot_def Let_def
  by (auto intro!: yields_intros split: sum.splits option.splits prod.splits simp: resolved_def)

lemma succeeds_apply: "succeeds (replayed_or (carried_out en xq)) (sd_apply en xq)"
proof -
  have fresh: "succeeds (replayed_or (carried_out en xq)) (engine_apply_fresh en xq)"
    unfolding engine_apply_fresh_def Let_def
    by (auto intro!: succeeds_intros succeeds_bind [OF resolve_seen] succeeds_resolved split: option.splits
        simp: resolution_snapshot_def)
  show ?thesis
    unfolding sd_apply_def Let_def replay_observed_def
    by (auto intro!: succeeds_intros succeeds_replay fresh split: option.splits sum.splits)
qed

text \<open>
  C2. A receipt that Apply returns as committed is that of the prescribed transition. When Apply
  succeeds and is no replay, the re-resolved decision prescribes the transition of the prescription,
  for the very snapshot and revision the prescription names; the receipt is of the requested flow, of
  that prescription and of the admission returned, advances the revision by one, and the target of the
  transition holds in the snapshot it was verified on, under an invocation the transition may lead to.
\<close>

theorem applied_as_prescribed:
  assumes "sd_apply en xq w = (Returned (res, None), w')" "\<not> xr_replayed res"
  shows "\<exists>sn t a target r. xr_source res = Some sn \<and> xr_admission res = Some a \<and> xr_target res = Some target
    \<and> xr_receipt res = Some r
    \<and> de_kind (xr_decision res) = Decision_prescribed \<and> de_transition (xr_decision res) = Some t
    \<and> tn_id t = pr_transition (xq_prescription xq)
    \<and> fr_snapshot (pr_freshness (xq_prescription xq)) = sn_fingerprint sn
    \<and> fr_revision (pr_freshness (xq_prescription xq)) = ob_state_revision (sn_observation sn)
    \<and> tr_flow r = xq_flow xq \<and> tr_transition r = tn_id t \<and> tr_prescription r = pr_id (xq_prescription xq)
    \<and> tr_admission r = ad_id a \<and> tr_program r = en_program en
    \<and> tr_prior_revision r = ob_state_revision (sn_observation sn)
    \<and> ob_state_revision (sn_observation target) = ob_state_revision (sn_observation sn) + 1
    \<and> target_matches t (sn_observation target)
    \<and> same_invocation (ob_invocation (sn_observation target)) (ob_invocation (sn_observation sn)) t"
proof -
  have "replayed_or (carried_out en xq) res"
    using yieldsD [OF succeeds_apply [unfolded succeeds_def] assms(1)] by simp
  then obtain sn a t res0 ob authority ps work bd brev now lifetime where x:
    "xr_source res0 = Some sn" "xr_admission res0 = Some a" "de_kind (xr_decision res0) = Decision_prescribed"
    "de_transition (xr_decision res0) = Some t"
    "new_admission sn ob t (xq_prescription xq) authority ps work bd brev now lifetime = Inr a"
    "committed_by en (xq_flow xq) t a res0 res"
    using assms(2) unfolding replayed_or_def carried_out_def by blast
  then obtain n target r facets effects outputs started completed where y:
    "res = res0\<lparr>xr_target := Some target, xr_receipt := Some r\<rparr>"
    "new_sd_receipt (xq_flow xq) n (en_program en) a t target facets effects outputs [] started completed = Inr r"
    "target_matches t (sn_observation target)"
    "same_invocation (ob_invocation (sn_observation target)) (ad_invocation a) t"
    unfolding committed_by_def by blast
  note a = admission_binds [OF x(5)]
  note r = receipt_of_admission [OF y(2)]
  show ?thesis
    using x(1-4) y a r by auto
qed

section \<open>A refusal on the way\<close>

lemma unchanged_freshness:
  assumes "validate_prescription_current p sn = None"
  shows "fr_revision (pr_freshness p) = ob_state_revision (sn_observation sn)"
    "fr_program (pr_freshness p) = ob_program_fingerprint (sn_observation sn)" "\<not> snapshot_changed p sn" "pr_id p \<noteq> []"
proof -
  obtain current where x: "sd_prescription_validate p = None" "pr_freshness p = current"
    "snapshot_freshness sn (fr_authority (pr_freshness p)) = Inr current"
    using assms
    by (auto simp: validate_prescription_current_def freshness_check_None_iff split: option.splits sum.splits if_splits)
  then obtain b where current: "current = \<lparr>fr_instance = iv_repository_id (ob_invocation (sn_observation sn)),
      fr_revision = ob_state_revision (sn_observation sn), fr_program = ob_program_fingerprint (sn_observation sn),
      fr_snapshot = sn_fingerprint sn, fr_binding = b, fr_authority = fr_authority (pr_freshness p)\<rparr>"
    using x(3) unfolding snapshot_freshness_Inr by blast
  show "fr_revision (pr_freshness p) = ob_state_revision (sn_observation sn)"
    "fr_program (pr_freshness p) = ob_program_fingerprint (sn_observation sn)" "\<not> snapshot_changed p sn"
    unfolding x(2) snapshot_changed_def by (subst current, simp)+
  show "pr_id p \<noteq> []"
    using x(1) by (auto simp: sd_prescription_validate_def fails_def split: sum.splits option.splits)
qed

text \<open>
  A refusal on re-resolution is reported as staleness. When the prescription given to Apply is
  current for the observed snapshot but the supervisor no longer prescribes (the resolution has no
  prescription), Apply blames a changed authority or capability context, whatever the decision and its
  reason were; the error of the decision is never returned.
\<close>

theorem refusal_reported_stale:
  assumes "validate_prescription_current (xq_prescription xq) sn = None" "sr_prescription rs = None"
  shows "engine_apply_resolved en xq rq rs sn res w
    = (Returned (res, Some (Gerror Stale_prescription
        [Lit ''STALE_PRESCRIPTION '', Quoted (pr_id (xq_prescription xq)), Lit '': '',
         Lit ''authority or capability context changed'', Lit ''; re-resolve before apply''])), w)"
  using assms unchanged_freshness [OF assms(1)]
  by (auto simp: engine_apply_resolved_def give_def act_return_def stale_prescription_error_def)


end
