(* ===== verification/Delivery_Ledger.thy ===== *)
theory Delivery_Ledger
  imports Delivery_Journal
begin

text \<open>
  \<open>effects/receipts.go\<close>: the committed records of the journal read as a ledger of receipts. Which
  invocations descend from an approved one, the committed output of a producer, the latest flow of
  an objective, the next sequence number, and the projection of a receipt to its two log files.
  Everything but the projection reads; the bindings of flows are the only state of the store.
\<close>

section \<open>Reading the committed records\<close>

text \<open>A committed record with its fact: reading refuses a record without one.\<close>

type_synonym committed = "journal_record \<times> transition_receipt"

definition committed_name :: "string \<Rightarrow> string" where
  "committed_name i = i @ ''.committed''"

definition committed_admissions :: "journal_state \<Rightarrow> string list" where
  "committed_admissions s =
     sort_key committed_name (remdups (map (fst \<circ> fst) (filter (\<lambda>((_, x), _). x = Committed) (jl_files s))))"

fun scan_committed ::
    "(committed \<Rightarrow> 'a \<Rightarrow> gerror + 'a) \<Rightarrow> string list \<Rightarrow> 'a \<Rightarrow> journal_state \<Rightarrow> (gerror + 'a) \<times> journal_state" where
  "scan_committed visit [] acc s = (Inr acc, s)"
| "scan_committed visit (i # is) acc s =
     (case read_journal i Committed s of (Inl e, s') \<Rightarrow> (Inl e, s')
      | (Inr j, s') \<Rightarrow>
          (case jr_receipt j of
             None \<Rightarrow> (Inl (errorf [Lit ''committed transaction '', Lit (committed_name i), Lit '' lacks a transition fact'']), s')
           | Some r \<Rightarrow>
               (case visit (j, r) acc of Inl e \<Rightarrow> (Inl e, s') | Inr acc' \<Rightarrow> scan_committed visit is acc' s')))"

text \<open>The directory is read first; one that does not exist holds no record.\<close>

definition scan_committed_receipts ::
    "(committed \<Rightarrow> 'a \<Rightarrow> gerror + 'a) \<Rightarrow> 'a \<Rightarrow> journal_state \<Rightarrow> (gerror + 'a) \<times> journal_state" where
  "scan_committed_receipts visit acc s =
     (case journal_try s of (Some e, s') \<Rightarrow> (Inl e, s')
      | (None, s') \<Rightarrow> scan_committed visit (committed_admissions s') acc s')"

definition committed_records :: "journal_state \<Rightarrow> (gerror + committed list) \<times> journal_state" where
  "committed_records s = scan_committed_receipts (\<lambda>c acc. Inr (acc @ [c])) [] s"

section \<open>Invocations that descend from an approved one\<close>

definition context_key :: "invocation \<Rightarrow> string" where
  "context_key i = iv_worktree_id i @ [CHR 0x00] @ iv_ref i"

definition same_state_lineage :: "invocation \<Rightarrow> invocation \<Rightarrow> bool" where
  "same_state_lineage l r \<longleftrightarrow> iv_repository_id l = iv_repository_id r \<and> iv_git_common_id l = iv_git_common_id r
     \<and> iv_worktree_id l = iv_worktree_id r \<and> iv_controller_id l = iv_controller_id r"

definition same_repository :: "invocation \<Rightarrow> invocation \<Rightarrow> bool" where
  "same_repository l r \<longleftrightarrow> iv_repository_id l = iv_repository_id r \<and> iv_git_common_id l = iv_git_common_id r"

text \<open>
  \<open>sort.Slice\<close> is not stable; the order is determined because the receipts of one flow have distinct
  sequence numbers (\<open>ledger_sequences_distinct\<close>).
\<close>

definition flow_receipts :: "committed list \<Rightarrow> string \<Rightarrow> transition_receipt list" where
  "flow_receipts records flow = sort_key tr_sequence (filter (\<lambda>r. tr_flow r = flow) (map snd records))"

definition advances :: "transition_receipt \<Rightarrow> bool" where
  "advances r \<longleftrightarrow> tr_context r = ''advance''"

definition advance_into :: "invocation \<Rightarrow> transition_receipt \<Rightarrow> bool" where
  "advance_into initial r \<longleftrightarrow> advances r
     \<and> (case tr_resulting_invocation r of None \<Rightarrow> False
        | Some q \<Rightarrow> same_repository q initial \<and> context_key q = context_key initial)"

fun anchor_sequence :: "invocation \<Rightarrow> u64 \<Rightarrow> transition_receipt list \<Rightarrow> u64" where
  "anchor_sequence initial a [] = a"
| "anchor_sequence initial a (r # rs) =
     anchor_sequence initial (if advance_into initial r \<and> a < tr_sequence r then tr_sequence r else a) rs"

fun replay_lineage :: "invocation \<Rightarrow> u64 \<Rightarrow> string list \<Rightarrow> transition_receipt list \<Rightarrow> gerror + string list" where
  "replay_lineage initial anchor ks [] = Inr ks"
| "replay_lineage initial anchor ks (r # rs) =
     (if \<not> advances r \<or> tr_sequence r \<le> anchor then replay_lineage initial anchor ks rs
      else let broken = Inl (errorf [Lit ''delegation receipt lineage is invalid at '', Lit (tr_id r)]) in
        case (tr_prior_invocation r, tr_resulting_invocation r) of
          (Some p, Some q) \<Rightarrow>
            if same_repository p initial \<and> same_repository q initial \<and> context_key p \<in> set ks
            then replay_lineage initial anchor (context_key q # ks) rs
            else broken
        | _ \<Rightarrow> broken)"

definition invocation_authorized_by_records ::
    "committed list \<Rightarrow> string \<Rightarrow> invocation \<Rightarrow> invocation \<Rightarrow> gerror + bool" where
  "invocation_authorized_by_records records flow initial current =
     (let receipts = flow_receipts records flow in
      case replay_lineage initial (anchor_sequence initial 0 receipts) [context_key initial] receipts of
        Inl e \<Rightarrow> Inl e
      | Inr ks \<Rightarrow> Inr (same_repository current initial \<and> context_key current \<in> set ks))"

definition invocation_authorized_by_flow ::
    "string \<Rightarrow> invocation \<Rightarrow> invocation \<Rightarrow> journal_state \<Rightarrow> (gerror + bool) \<times> journal_state" where
  "invocation_authorized_by_flow flow initial current s =
     (case committed_records s of (Inl e, s') \<Rightarrow> (Inl e, s')
      | (Inr records, s') \<Rightarrow> (invocation_authorized_by_records records flow initial current, s'))"

text \<open>The check every query below makes of a record: the same state, or a context advanced from it.\<close>

definition record_authorized :: "committed list \<Rightarrow> string \<Rightarrow> invocation \<Rightarrow> invocation \<Rightarrow> gerror + bool" where
  "record_authorized records flow bound current =
     (if same_state_lineage bound current then Inr True
      else if iv_controller_id bound = iv_controller_id current
      then invocation_authorized_by_records records flow bound current
      else Inr False)"

section \<open>The committed output of a producer\<close>

record work_selector =
  sel_flow :: string
  sel_program :: string
  sel_program_fingerprint :: string
  sel_entry :: string
  sel_objective :: sd_objective
  sel_invocation :: invocation
  sel_transition :: string
  sel_work :: work_contract
  sel_output :: string
  sel_maximum :: u64

definition selector_incomplete :: "work_selector \<Rightarrow> bool" where
  "selector_incomplete q \<longleftrightarrow> sel_flow q = [] \<or> sel_program q = [] \<or> length (sel_program_fingerprint q) \<noteq> 64
     \<or> sel_entry q = [] \<or> sd_objective_validate (sel_objective q) \<noteq> None
     \<or> invocation_validate (sel_invocation q) True \<noteq> None \<or> sel_transition q = [] \<or> wc_id (sel_work q) = []
     \<or> length (wc_fingerprint (sel_work q)) \<noteq> 64 \<or> sel_output q = [] \<or> sel_maximum q = 0"

definition producer_of :: "work_selector \<Rightarrow> transition_receipt \<Rightarrow> bool" where
  "producer_of q r \<longleftrightarrow> tr_flow r = sel_flow q \<and> tr_transition r = sel_transition q
     \<and> tr_resulting_revision r \<le> sel_maximum q"

text \<open>The occurrence with the highest sequence among the authorized ones; a tie is an error.\<close>

fun select_producer ::
    "committed list \<Rightarrow> work_selector \<Rightarrow> committed option \<Rightarrow> committed list \<Rightarrow> gerror + committed option" where
  "select_producer records q selected [] = Inr selected"
| "select_producer records q selected (c # cs) =
     (let (j, r) = c in
      if \<not> producer_of q r then select_producer records q selected cs
      else case record_authorized records (sel_flow q) (ad_invocation (jr_admission j)) (sel_invocation q) of
          Inl e \<Rightarrow> Inl e
        | Inr False \<Rightarrow> select_producer records q selected cs
        | Inr True \<Rightarrow>
            (case selected of
               None \<Rightarrow> select_producer records q (Some c) cs
             | Some (j', r') \<Rightarrow>
                 if tr_sequence r' < tr_sequence r then select_producer records q (Some c) cs
                 else if tr_sequence r = tr_sequence r' \<and> tr_id r \<noteq> tr_id r'
                 then Inl (errorf [Lit ''committed work-output producer occurrence is ambiguous at sequence '',
                                   Number (uint (tr_sequence r))])
                 else select_producer records q selected cs))"

definition same_objective_identity :: "sd_objective \<Rightarrow> sd_objective \<Rightarrow> bool" where
  "same_objective_identity l r \<longleftrightarrow> so_id l = so_id r \<and> so_target l = so_target r \<and> so_trusted l = so_trusted r
     \<and> so_delivery l = so_delivery r \<and> so_frontier l = so_frontier r"

definition producer_stale :: "work_selector \<Rightarrow> committed \<Rightarrow> work_evidence \<Rightarrow> bool" where
  "producer_stale q c w \<longleftrightarrow> (let (j, r) = c; a = jr_admission j in
     pf_fingerprint (tr_program r) \<noteq> sel_program_fingerprint q \<or> ad_expected_program a \<noteq> sel_program_fingerprint q
     \<or> \<not> same_objective_identity (ad_objective a) (sel_objective q) \<or> wk_run w \<noteq> sel_flow q
     \<or> wk_program w \<noteq> sel_program q \<or> wk_entry w \<noteq> sel_entry q \<or> wk_transition w \<noteq> sel_transition q
     \<or> wk_program_fingerprint w \<noteq> sel_program_fingerprint q \<or> wk_state_revision w \<noteq> tr_prior_revision r
     \<or> wk_state_revision w \<noteq> ad_expected_revision a \<or> wk_repository w \<noteq> iv_repository_id (ad_invocation a)
     \<or> wk_worktree w \<noteq> iv_worktree_id (ad_invocation a) \<or> wk_contract w \<noteq> wc_id (sel_work q)
     \<or> wk_contract_fingerprint w \<noteq> wc_fingerprint (sel_work q) \<or> tr_work r \<noteq> wk_result_fingerprint w)"

definition output_mismatch :: "work_output \<Rightarrow> work_output_evidence \<Rightarrow> bool" where
  "output_mismatch d x \<longleftrightarrow> wx_path x \<noteq> wo_path d \<or> wx_media_type x \<noteq> wo_media_type d \<or> wo_max_bytes d < wx_size x
     \<or> wx_size x \<noteq> int (length (wx_content x)) \<or> wx_sha256 x \<noteq> sha256_hex (wx_content x)"

record committed_output =
  co_receipt :: transition_receipt
  co_work :: work_evidence
  co_output :: work_output_evidence

definition selected_output :: "work_selector \<Rightarrow> committed \<Rightarrow> gerror + committed_output" where
  "selected_output q c =
     (let (j, r) = c; stale = Inl (errorf [Lit ''committed work-output producer occurrence is stale or incompatible'']) in
      case ad_work (jr_admission j) of None \<Rightarrow> stale
      | Some w \<Rightarrow>
        if producer_stale q c w then stale
        else (case filter (\<lambda>d. wo_id d = sel_output q) (wc_outputs (sel_work q)) of
            [] \<Rightarrow> Inl (errorf [Lit ''committed work-output selector references an optional or unknown output''])
          | d # _ \<Rightarrow>
              if \<not> wo_required d
              then Inl (errorf [Lit ''committed work-output selector references an optional or unknown output''])
              else (case filter (\<lambda>x. wx_id x = sel_output q) (wk_outputs w) of
                  [] \<Rightarrow> Inl (errorf [Lit ''committed work-output producer result lacks output '', Quoted (sel_output q)])
                | x # _ \<Rightarrow>
                    if output_mismatch d x
                    then Inl (errorf [Lit ''committed work-output does not match its current contract''])
                    else Inr \<lparr>co_receipt = r, co_work = w, co_output = x\<rparr>)))"

definition find_committed_output :: "committed list \<Rightarrow> work_selector \<Rightarrow> gerror + committed_output option" where
  "find_committed_output records q =
     (if selector_incomplete q then Inl (errorf [Lit ''committed work-output selector is incomplete''])
      else case select_producer records q None records of Inl e \<Rightarrow> Inl e
        | Inr None \<Rightarrow> Inr None
        | Inr (Some c) \<Rightarrow> (case selected_output q c of Inl e \<Rightarrow> Inl e | Inr out \<Rightarrow> Inr (Some out)))"

section \<open>Flows, outputs and reprojections\<close>

definition matches_objective_binding :: "transition_receipt \<Rightarrow> sd_objective \<Rightarrow> u64 \<Rightarrow> bool" where
  "matches_objective_binding r ob maximum \<longleftrightarrow> tr_transition r = ''objective.bind'' \<and> has_prefix ''run-'' (tr_flow r)
     \<and> tr_objective r = so_id ob \<and> tr_target_id r = so_target ob \<and> tr_trusted r = so_trusted ob
     \<and> tr_delivery r = so_delivery ob \<and> tr_resulting_revision r \<le> maximum"

text \<open>No receipt found yet is the receipt without an identity in the code, \<open>None\<close> here: committed receipts have one.\<close>

fun select_flow ::
    "committed list \<Rightarrow> invocation \<Rightarrow> sd_objective \<Rightarrow> u64 \<Rightarrow> transition_receipt option \<Rightarrow> committed list
       \<Rightarrow> gerror + transition_receipt option" where
  "select_flow records i ob maximum found [] = Inr found"
| "select_flow records i ob maximum found (c # cs) =
     (let (j, r) = c in
      if \<not> matches_objective_binding r ob maximum then select_flow records i ob maximum found cs
      else case record_authorized records (tr_flow r) (ad_invocation (jr_admission j)) i of
          Inl e \<Rightarrow> Inl e
        | Inr ok \<Rightarrow> select_flow records i ob maximum
            (if ok \<and> (case found of None \<Rightarrow> True | Some f \<Rightarrow> tr_resulting_revision f < tr_resulting_revision r)
             then Some r else found) cs)"

definition find_latest_flow ::
    "committed list \<Rightarrow> invocation \<Rightarrow> sd_objective \<Rightarrow> u64 \<Rightarrow> gerror + transition_receipt option" where
  "find_latest_flow records i ob maximum = select_flow records i ob maximum None records"

text \<open>The output of a receipt, and the one historical adapter for a publication of the previous schemas.\<close>

definition branch_prefix :: string where
  "branch_prefix = ''refs/heads/''"

definition committed_transition_output :: "committed \<Rightarrow> string \<Rightarrow> string \<Rightarrow> string option" where
  "committed_transition_output c transition field =
     (let (j, r) = c; ref = iv_ref (ad_invocation (jr_admission j)) in
      case parameters_get (tr_outputs r) field of Some v \<Rightarrow> Some v
      | None \<Rightarrow>
          if ad_schema_version (jr_admission j) \<noteq> previous_admission_schema_version
             \<or> tr_schema_version r \<noteq> previous_receipt_schema_version
             \<or> transition \<noteq> ''publication.execute'' \<or> field \<noteq> ''publication_id'' \<or> tr_transition r \<noteq> transition
             \<or> \<not> has_prefix branch_prefix ref
          then None
          else let branch = drop (length branch_prefix) ref in
            if validate_git_branch branch \<noteq> None then None else Some branch)"

fun select_output ::
    "committed list \<Rightarrow> string \<Rightarrow> invocation \<Rightarrow> string \<Rightarrow> string \<Rightarrow> u64 \<Rightarrow> (string \<times> transition_receipt) option
       \<Rightarrow> committed list \<Rightarrow> gerror + (string \<times> transition_receipt) option" where
  "select_output records flow i transition field maximum found [] = Inr found"
| "select_output records flow i transition field maximum found (c # cs) =
     (let (j, r) = c in
      if tr_flow r \<noteq> flow \<or> tr_transition r \<noteq> transition \<or> maximum < tr_resulting_revision r
      then select_output records flow i transition field maximum found cs
      else case committed_transition_output c transition field of
          None \<Rightarrow> select_output records flow i transition field maximum found cs
        | Some v \<Rightarrow>
            (case record_authorized records flow (ad_invocation (jr_admission j)) i of
               Inl e \<Rightarrow> Inl e
             | Inr ok \<Rightarrow> select_output records flow i transition field maximum
                 (if ok \<and> (case found of None \<Rightarrow> True | Some (_, f) \<Rightarrow> tr_sequence f < tr_sequence r)
                  then Some (v, r) else found) cs))"

definition find_latest_output ::
    "committed list \<Rightarrow> string \<Rightarrow> invocation \<Rightarrow> string \<Rightarrow> string \<Rightarrow> u64 \<Rightarrow> gerror + (string \<times> string) option" where
  "find_latest_output records flow i transition field maximum =
     (case select_output records flow i transition field maximum None records of Inl e \<Rightarrow> Inl e
      | Inr None \<Rightarrow> Inr None | Inr (Some (v, r)) \<Rightarrow> Inr (Some (v, tr_id r)))"

text \<open>Both reprojections look for an authorized record of the flow that satisfies a condition.\<close>

fun first_authorized ::
    "(committed \<Rightarrow> bool) \<Rightarrow> committed list \<Rightarrow> string \<Rightarrow> invocation \<Rightarrow> committed list \<Rightarrow> gerror + bool" where
  "first_authorized good records flow i [] = Inr False"
| "first_authorized good records flow i (c # cs) =
     (if \<not> good c then first_authorized good records flow i cs
      else case record_authorized records flow (ad_invocation (jr_admission (fst c))) i of
          Inl e \<Rightarrow> Inl e
        | Inr True \<Rightarrow> Inr True
        | Inr False \<Rightarrow> first_authorized good records flow i cs)"

definition installation_record :: "string \<Rightarrow> string \<Rightarrow> committed \<Rightarrow> bool" where
  "installation_record flow bundle_fp c \<longleftrightarrow> (let r = snd c in
     (tr_transition r = ''installation.update'' \<or> tr_transition r = ''installation.reconcile-update'' \<and> tr_program_accepted r)
     \<and> tr_flow r = flow \<and> tr_bundle_target r = bundle_fp)"

definition installation_reprojection_admits ::
    "committed list \<Rightarrow> string \<Rightarrow> invocation \<Rightarrow> string \<Rightarrow> gerror + bool" where
  "installation_reprojection_admits records flow i bundle_fp =
     first_authorized (installation_record flow bundle_fp) records flow i records"

definition configuration_record :: "string \<Rightarrow> string \<Rightarrow> string \<Rightarrow> u64 \<Rightarrow> committed \<Rightarrow> bool" where
  "configuration_record flow config_fp bundle_fp maximum c \<longleftrightarrow> (let r = snd c in
     tr_transition r = ''configuration.mutate'' \<and> tr_flow r = flow \<and> tr_resulting_revision r \<le> maximum
     \<and> tr_bundle_target r = bundle_fp
     \<and> parameters_get (ad_parameters (jr_admission (fst c))) ''config_sha256'' = Some config_fp)"

definition configuration_reprojection_admits ::
    "committed list \<Rightarrow> string \<Rightarrow> invocation \<Rightarrow> string \<Rightarrow> string \<Rightarrow> u64 \<Rightarrow> gerror + bool" where
  "configuration_reprojection_admits records flow i config_fp bundle_fp maximum =
     first_authorized (configuration_record flow config_fp bundle_fp maximum) records flow i records"

section \<open>The store\<close>

text \<open>
  Its bindings: per flow the admission and the layout, of which only the two log files matter here.
  The journal directory of the layout is the journal state.
\<close>

record receipt_layout =
  ly_receipt_path :: string
  ly_event_path :: string

record receipt_store =
  rs_bound :: "(string \<times> (sd_admission \<times> receipt_layout)) list"

definition receipt_bind ::
    "string \<Rightarrow> sd_admission \<Rightarrow> gerror + receipt_layout \<Rightarrow> receipt_store \<Rightarrow> gerror option \<times> receipt_store" where
  "receipt_bind flow a resolved s =
     (case resolved of Inl e \<Rightarrow> (Some e, s)
      | Inr layout \<Rightarrow>
          (let bind = (None, s\<lparr>rs_bound := AList.update flow (a, layout) (rs_bound s)\<rparr>) in
           case map_of (rs_bound s) flow of
             None \<Rightarrow> bind
           | Some (current, _) \<Rightarrow>
               if ad_id current \<noteq> ad_id a
               then (Some (errorf [Lit ''receipt flow '', Quoted flow, Lit '' is already bound to a different admission'']), s)
               else bind))"

definition receipt_unbind :: "string \<Rightarrow> receipt_store \<Rightarrow> receipt_store" where
  "receipt_unbind flow s = s\<lparr>rs_bound := AList.delete flow (rs_bound s)\<rparr>"

definition layout_for_flow :: "string \<Rightarrow> receipt_store \<Rightarrow> gerror + receipt_layout" where
  "layout_for_flow flow s =
     (case map_of (rs_bound s) flow of Some (_, layout) \<Rightarrow> Inr layout
      | None \<Rightarrow> Inl (errorf [Lit ''receipt flow '', Quoted flow, Lit '' is not bound to an admission'']))"

text \<open>The number returned beside an error is read by no caller.\<close>

definition raise_maximum :: "string \<Rightarrow> committed \<Rightarrow> u64 \<Rightarrow> gerror + u64" where
  "raise_maximum flow c maximum =
     (let r = snd c in Inr (if tr_flow r = flow \<and> maximum < tr_sequence r then tr_sequence r else maximum))"

definition next_sequence :: "string \<Rightarrow> receipt_store \<Rightarrow> journal_state \<Rightarrow> (gerror + u64) \<times> journal_state" where
  "next_sequence flow s js =
     (case layout_for_flow flow s of Inl e \<Rightarrow> (Inl e, js)
      | Inr _ \<Rightarrow> (case scan_committed_receipts (raise_maximum flow) 0 js of
            (Inl e, js') \<Rightarrow> (Inl e, js') | (Inr m, js') \<Rightarrow> (Inr (m + 1), js')))"

definition match_key :: "string \<Rightarrow> committed \<Rightarrow> transition_receipt option \<Rightarrow> gerror + transition_receipt option" where
  "match_key key c found =
     (let r = snd c in
      if tr_idempotency r \<noteq> key then Inr found
      else case found of
          Some f \<Rightarrow> if tr_id f \<noteq> tr_id r
            then Inl (errorf [Lit ''idempotency key '', Quoted key, Lit '' identifies multiple committed transition facts''])
            else Inr (Some r)
        | None \<Rightarrow> Inr (Some r))"

definition find_by_idempotency ::
    "gerror option \<Rightarrow> string \<Rightarrow> journal_state \<Rightarrow> (gerror + transition_receipt option) \<times> journal_state" where
  "find_by_idempotency layout key js =
     (if key = [] then (Inr None, js)
      else case layout of Some e \<Rightarrow> (Inl e, js)
        | None \<Rightarrow> scan_committed_receipts (match_key key) None js)"

section \<open>Projecting a receipt\<close>

text \<open>
  \<open>appendLine\<close>: a write that fails may have appended some bytes. A symbolic link in place of the log
  shows as a call that fails.
\<close>

definition append_bytes :: "string \<Rightarrow> 32 word \<Rightarrow> string \<Rightarrow> file_store \<Rightarrow> file_store" where
  "append_bytes path mode bs w =
     (let entry = (case file_at w path of Some (Regular old m) \<Rightarrow> Regular (old @ bs) m | _ \<Rightarrow> Regular bs mode)
      in w\<lparr>fs_entries := AList.update path entry (fs_entries w)\<rparr>)"

definition append_line :: "string \<Rightarrow> json \<Rightarrow> 32 word \<Rightarrow> file_store \<Rightarrow> gerror option \<times> file_store" where
  "append_line path j mode w =
     (case attempts 1 w of (Some e, w1) \<Rightarrow> (Some e, w1)
      | (None, w1) \<Rightarrow>
        (case encode j of None \<Rightarrow> (Some marshal_error, w1)
         | Some line \<Rightarrow>
           (case attempts 1 w1 of (Some e, w2) \<Rightarrow> (Some e, w2)
            | (None, w2) \<Rightarrow>
              (case next_call (append_bytes path mode [] w2) of
                 (Fine, w3) \<Rightarrow> attempts 2 (append_bytes path mode (line @ [CHR 0x0A]) w3)
               | (Fault, w3) \<Rightarrow> (Some os_error, w3)
               | (Partly ps, w3) \<Rightarrow> (Some os_error, append_bytes path mode (concat ps) w3)))))"

text \<open>The event is the receipt seen by telemetry, in the order of the struct's fields.\<close>

definition event_schema_version :: int where
  "event_schema_version = 5"

definition process_event_json :: "transition_receipt \<Rightarrow> gtime \<Rightarrow> json" where
  "process_event_json r now =
     (let opt = (\<lambda>key v. omit_empty (v = []) key (JStr v)) in
      JObj ([(''schema_version'', JInt event_schema_version), (''flow_id'', JStr (tr_flow r)),
          (''sequence'', JInt (uint (tr_sequence r))), (''timestamp'', time_json (time_utc now)),
          (''objective_id'', JStr (tr_objective r))]
        @ opt ''objective_scope'' (tr_scope r) @ opt ''objective_status'' (tr_objective_status r)
        @ [(''transition_id'', JStr (tr_transition r)), (''program_id'', JStr (pf_id (tr_program r))),
           (''program_version'', JStr (pf_version (tr_program r))),
           (''program_fingerprint'', JStr (pf_fingerprint (tr_program r))),
           (''prescription_id'', JStr (tr_prescription r)),
           (''prior_state_revision'', JInt (uint (tr_prior_revision r))),
           (''resulting_state_revision'', JInt (uint (tr_resulting_revision r))),
           (''source_fingerprint'', JStr (tr_source r)), (''target_fingerprint'', JStr (tr_target r)),
           (''fact_kind'', JStr (tr_kind r)), (''duration_nanoseconds'', JInt (tr_duration r))]
        @ omit_empty (tr_authority_sources r = []) ''authority_classes'' (json_strings (map au_class (tr_authority_sources r)))
        @ [(''authority_fingerprint'', JStr (tr_authority r)),
           (''required_capabilities'', json_nil_strings (tr_required r)),
           (''granted_capabilities'', json_nil_strings (tr_granted r)),
           (''committed_effects'', nil_array sd_effect_fact_json (tr_effects r))]
        @ omit_empty (tr_outputs r = []) ''effect_outputs'' (JArr (map parameter_json (tr_outputs r)))
        @ [(''changed_state_facets'', json_nil_strings (tr_facets r)),
           (''verification'', verification_fact_json (tr_verification r))]
        @ opt ''recovery'' (tr_recovery r) @ [(''terminal'', JStr (tr_terminal r))]))"

definition log_mode :: "32 word" where
  "log_mode = 0x180"

text \<open>What happens to the event does not matter; the flow is unbound once its receipt is in the log.\<close>

definition receipt_project ::
    "transition_receipt \<Rightarrow> gtime \<Rightarrow> receipt_store \<Rightarrow> file_store \<Rightarrow> gerror option \<times> receipt_store \<times> file_store" where
  "receipt_project r now s w =
     (case transition_receipt_validate r of Some e \<Rightarrow> (Some e, s, w)
      | None \<Rightarrow>
        (case layout_for_flow (tr_flow r) s of Inl e \<Rightarrow> (Some e, s, w)
         | Inr layout \<Rightarrow>
           (case append_line (ly_receipt_path layout) (transition_receipt_json r) log_mode w of
              (Some e, w1) \<Rightarrow> (Some e, s, w1)
            | (None, w1) \<Rightarrow>
                (case append_line (ly_event_path layout) (process_event_json r now) log_mode w1 of
                   (_, w2) \<Rightarrow> (None, receipt_unbind (tr_flow r) s, w2)))))"

end
