(* ===== verification/Delivery_Prepared_Laws.thy ===== *)
theory Delivery_Prepared_Laws
  imports Delivery_Prepared "HOL-Library.Sublist"
begin

text \<open>
  Executing and rolling back a prepared effect: an execution that fails leaves a store that its
  rollback takes back to where it started, and one that succeeds has applied its whole manifest.
\<close>

section \<open>Paths below a root\<close>

lemma has_prefix_iff: "has_prefix p s \<longleftrightarrow> prefix p s"
  unfolding has_prefix_def prefix_def by (metis append_eq_conv_conj append_take_drop_id)

lemma under_refl [simp]: "under r r"
  by (simp add: under_def)

lemma under_comparable: "under r q \<Longrightarrow> under s q \<Longrightarrow> under r s \<or> under s r"
proof -
  assume "under r q" "under s q"
  then consider "q = r" | "q = s" | "prefix (r @ ''/'') q" "prefix (s @ ''/'') q"
    by (auto simp: under_def has_prefix_iff)
  then show ?thesis
  proof cases
    case 3
    then have "prefix (r @ ''/'') (s @ ''/'') \<or> prefix (s @ ''/'') (r @ ''/'')"
      by (rule prefix_same_cases)
    then show ?thesis
      by (auto simp: under_def has_prefix_iff)
  qed (use \<open>under r q\<close> \<open>under s q\<close> in auto)
qed

section \<open>What the calls of the store do\<close>

text \<open>
  A store is steady when no directory fails to be synchronised and no removal stops half-way; it is
  calm when every call to come succeeds.
\<close>

definition steady :: "file_store \<Rightarrow> bool" where
  "steady w \<longleftrightarrow> fs_syncs w = [] \<and> list_all (\<lambda>x. x = Fine \<or> x = Fault) (fs_calls w)"

definition calm :: "file_store \<Rightarrow> bool" where
  "calm w \<longleftrightarrow> fs_syncs w = [] \<and> fs_calls w = []"

lemma next_call_steady: "next_call w = (x, w') \<Longrightarrow> steady w \<Longrightarrow> steady w' \<and> (x = Fine \<or> x = Fault)"
  by (auto simp: next_call_def steady_def split: list.splits)

lemma next_call_calm [simp]: "calm w \<Longrightarrow> next_call w = (Fine, w)"
  by (simp add: next_call_def calm_def)

lemma file_at_entries: "fs_entries w' = fs_entries w \<Longrightarrow> file_at w' = file_at w"
  by (simp add: file_at_def fun_eq_iff)

lemma steady_entries [simp]: "steady (w\<lparr>fs_entries := es\<rparr>) = steady w"
  by (simp add: steady_def)

lemma calm_entries [simp]: "calm (w\<lparr>fs_entries := es\<rparr>) = calm w"
  by (simp add: calm_def)

lemma attempts_steady: "attempts n w = (e, w') \<Longrightarrow> steady w \<Longrightarrow> steady w'"
  by (induction n w rule: attempts.induct)
    (auto split: prod.splits os_outcome.splits dest: next_call_steady)

lemma attempts_calm [simp]: "calm w \<Longrightarrow> attempts n w = (None, w)"
  by (induction n) simp_all

lemma sync_steady [simp]: "steady w \<Longrightarrow> sync_directory w = (None, w)"
  by (simp add: sync_directory_def steady_def)

lemma calm_steady: "calm w \<Longrightarrow> steady w"
  by (simp add: calm_def steady_def)

lemma install_entry_steady:
  assumes "install_entry path x w = (e, w')" "steady w"
  shows "steady w' \<and> file_at w' = (if e = None then (file_at w)(path \<mapsto> x) else file_at w)"
proof -
  obtain c w1 where c: "next_call w = (c, w1)"
    by (cases "next_call w")
  have s: "steady w1" "c = Fine \<or> c = Fault" "fs_entries w1 = fs_entries w"
    using next_call_steady [OF c assms(2)] next_call_entries [OF c] by auto
  show ?thesis
    using assms(1) s by (auto simp: install_entry_def c file_at_def fun_eq_iff update_conv')
qed

lemma install_entry_calm [simp]:
  "calm w \<Longrightarrow> install_entry path x w = (None, w\<lparr>fs_entries := AList.update path x (fs_entries w)\<rparr>)"
  by (simp add: install_entry_def calm_steady)

definition target_entry :: "resource_mutation \<Rightarrow> file_entry option" where
  "target_entry m = (if mu_delete m then None else if mu_target_link m \<noteq> [] then Some (Symlink (mu_target_link m))
     else Some (Regular (mu_target m) (mu_mode m)))"

lemma apply_mutation_steady:
  assumes "apply_mutation m w = (e, w')" "steady w"
  shows "steady w' \<and> file_at w' = (if e = None then (file_at w)(mu_path m := target_entry m) else file_at w)"
proof -
  have remove: "steady w' \<and> file_at w' = (if e = None then (file_at w)(mu_path m := None) else file_at w)"
    if "remove_file (mu_path m) w = (e, w')"
  proof (cases "file_at w (mu_path m)")
    case None
    then show ?thesis
      using that assms(2) by (auto simp: remove_file_def fun_eq_iff)
  next
    case (Some x)
    obtain c w1 where c: "next_call w = (c, w1)"
      by (cases "next_call w")
    show ?thesis
      using that Some next_call_steady [OF c assms(2)] next_call_entries [OF c]
      by (auto simp: remove_file_def c file_at_def fun_eq_iff delete_conv')
  qed
  have put: "steady w' \<and> file_at w' = (if e = None then (file_at w)(mu_path m \<mapsto> x) else file_at w)"
    if "attempts n w = (a, w1)" "(e, w') = (if a = None then install_entry (mu_path m) x w1 else (a, w1))" for n a w1 x
    using that(2) install_entry_steady [of "mu_path m" x w1 e w'] attempts_steady [OF that(1) assms(2)]
      file_at_entries [OF attempts_entries [OF that(1)]]
    by (auto split: if_splits)
  show ?thesis
  proof (cases "mu_delete m")
    case True
    then show ?thesis
      using remove assms(1) by (simp add: apply_mutation_def target_entry_def)
  next
    case False
    show ?thesis
    proof (cases "mu_target_link m = []")
      case True
      obtain a w1 where a: "attempts 6 w = (a, w1)"
        by (cases "attempts 6 w")
      show ?thesis
        using assms False True put [OF a, of "Regular (mu_target m) (mu_mode m)"]
        by (auto simp: apply_mutation_def atomic_write_def a target_entry_def split: if_splits option.splits)
    next
      case link: False
      obtain a w1 where a: "attempts 5 w = (a, w1)"
        by (cases "attempts 5 w")
      show ?thesis
        using assms False link put [OF a, of "Symlink (mu_target_link m)"]
        by (auto simp: apply_mutation_def atomic_symlink_def a target_entry_def split: if_splits option.splits)
    qed
  qed
qed

lemma map_of_filter_keys: "map_of (filter (\<lambda>(p, _). P p) xs) q = (if P q then map_of xs q else None)"
  by (induction xs) auto

lemma remove_all_steady:
  assumes "remove_all root w = (e, w')" "steady w"
  shows "steady w' \<and> file_at w' = (if e = None then (\<lambda>q. if under root q then None else file_at w q) else file_at w)"
proof -
  obtain c w1 where c: "next_call w = (c, w1)"
    by (cases "next_call w")
  have s: "steady w1" "c = Fine \<or> c = Fault" "fs_entries w1 = fs_entries w"
    using next_call_steady [OF c assms(2)] next_call_entries [OF c] by auto
  show ?thesis
    using assms(1) s by (auto simp: remove_all_def c Let_def file_at_def fun_eq_iff map_of_filter_keys)
qed

lemma remove_all_calm: "calm w \<Longrightarrow> \<exists>w'. remove_all root w = (None, w') \<and> calm w'"
  by (simp add: remove_all_def Let_def)

lemma stage_members_steady:
  "stage_members root ms w = (e, w') \<Longrightarrow> steady w \<Longrightarrow>
     steady w' \<and> fs_entries w' = fs_entries w
     \<and> (e = None \<longrightarrow> (\<forall>m\<in>set ms. tree_member root (mu_path m) \<and> clean_path (mu_path m) \<noteq> clean_path root))"
proof (induction ms arbitrary: w)
  case (Cons m ms)
  obtain a w1 where a: "attempts 8 w = (a, w1)"
    by (cases "attempts 8 w")
  show ?case
    using Cons.prems Cons.IH [of w1] attempts_steady [OF a] attempts_entries [OF a]
    by (auto simp: a split: if_splits option.splits)
qed simp

lemma stage_members_calm:
  "calm w \<Longrightarrow> \<forall>m\<in>set ms. tree_member root (mu_path m) \<and> clean_path (mu_path m) \<noteq> clean_path root
     \<Longrightarrow> stage_members root ms w = (None, w)"
  by (induction ms) auto

lemma install_members_state [simp]:
  "fs_calls (fold install_member ms w) = fs_calls w" "fs_syncs (fold install_member ms w) = fs_syncs w"
  by (induction ms arbitrary: w) (simp_all add: install_member_def)

lemma install_members_outside:
  "q \<notin> (\<lambda>m. clean_path (mu_path m)) ` set ms \<Longrightarrow> file_at (fold install_member ms w) q = file_at w q"
  by (induction ms arbitrary: w) (simp_all add: install_member_def file_at_def update_conv')

lemma install_members_at:
  assumes "\<forall>m\<in>set ms. clean_path (mu_path m) = mu_path m \<and> \<sigma> (mu_path m) = Some (Regular (mu_target m) (mu_mode m))"
  shows "file_at (fold install_member ms w) q = (if q \<in> mu_path ` set ms then \<sigma> q else file_at w q)"
  using assms
proof (induction ms arbitrary: w)
  case (Cons m ms)
  then show ?case
    using Cons.IH [of "install_member m w"] by (auto simp: install_member_def file_at_def update_conv')
qed simp

lemma atomic_install_tree_steady:
  assumes "atomic_install_tree root ms w = (e, w')" "steady w"
  shows "steady w' \<and> (e \<noteq> None \<longrightarrow> file_at w' = file_at w)
    \<and> (e = None \<longrightarrow> \<not> present root w \<and> (\<forall>q. \<not> under (clean_path root) q \<longrightarrow> file_at w' q = file_at w q))"
proof (cases "\<not> is_abs root \<or> ms = [] \<or> present root w")
  case True
  then have "w' = w" "e \<noteq> None"
    using assms(1) unfolding atomic_install_tree_def by (auto split: if_split_asm)
  then show ?thesis
    using assms(2) by auto
next
  case False
  obtain a w1 where a: "attempts 3 w = (a, w1)"
    by (cases "attempts 3 w")
  obtain b w2 where b: "stage_members root ms w1 = (b, w2)"
    by (cases "stage_members root ms w1")
  obtain c w3 where c: "attempts 2 w2 = (c, w3)"
    by (cases "attempts 2 w2")
  have s1: "steady w1" "fs_entries w1 = fs_entries w"
    using attempts_steady [OF a assms(2)] attempts_entries [OF a] by auto
  have s2: "steady w2" "fs_entries w2 = fs_entries w"
    "b = None \<longrightarrow> (\<forall>m\<in>set ms. tree_member root (mu_path m))"
    using stage_members_steady [OF b s1(1)] s1(2) by auto
  have s3: "steady w3" "fs_entries w3 = fs_entries w"
    using attempts_steady [OF c s2(1)] attempts_entries [OF c] s2(2) by auto
  have result: "(e, w') = (if a \<noteq> None then (a, w1) else if b \<noteq> None then (b, w2) else if c \<noteq> None then (c, w3)
      else (None, fold install_member ms w3))"
    using assms(1) False by (auto simp: atomic_install_tree_def a b c split: option.splits)
  show ?thesis
  proof (cases "e = None")
    case True
    then have fin: "b = None" "w' = fold install_member ms w3"
      using result by (auto split: if_splits)
    have "file_at w' q = file_at w q" if "\<not> under (clean_path root) q" for q
    proof -
      have "q \<notin> (\<lambda>m. clean_path (mu_path m)) ` set ms"
        using that s2(3) fin(1) by (auto simp: tree_member_def)
      then show ?thesis
        using file_at_entries [OF s3(2)] by (simp add: fin(2) install_members_outside)
    qed
    moreover have "steady w'"
      using s3(1) by (simp add: fin(2) steady_def)
    ultimately show ?thesis
      using True False by simp
  next
    case False
    then have "steady w' \<and> fs_entries w' = fs_entries w"
      using result s1 s2 s3 by (auto split: if_splits)
    then show ?thesis
      using False file_at_entries [of w' w] by auto
  qed
qed

lemma atomic_install_tree_calm:
  assumes "calm w" "is_abs root" "ms \<noteq> []" "\<not> present root w"
    and "\<forall>m\<in>set ms. tree_member root (mu_path m) \<and> clean_path (mu_path m) \<noteq> clean_path root"
  shows "atomic_install_tree root ms w = (None, fold install_member ms w)"
  using assms by (simp add: atomic_install_tree_def stage_members_calm)

lemma present_iff: "present root w \<longleftrightarrow> (\<exists>q. under root q \<and> file_at w q \<noteq> None)"
  by (force simp: present_def list_ex_iff file_at_def map_of_eq_None_iff)

section \<open>A manifest that describes the store\<close>

definition prior_entry :: "resource_mutation \<Rightarrow> file_entry option" where
  "prior_entry m = (if mu_prior_link m \<noteq> [] then Some (Symlink (mu_prior_link m))
     else if mu_prior_exists m then Some (Regular (mu_prior m) (mu_mode m)) else None)"

text \<open>
  One mutation: a clean absolute path with exactly the recorded entry, inside its tree if it has
  one. A member of a tree must not be a symbolic link: the rollback of a removed tree passes the
  recorded link target on (\<open>prepared.go\<close> 268), but \<open>atomicInstallTree\<close> (311) writes a regular
  file of the empty content.
\<close>

definition exact_mutation :: "file_store \<Rightarrow> resource_mutation \<Rightarrow> bool" where
  "exact_mutation w m \<longleftrightarrow>
     is_abs (mu_path m) \<and> clean_path (mu_path m) = mu_path m \<and> file_at w (mu_path m) = prior_entry m
     \<and> (mu_tree m = [] \<or> is_abs (mu_tree m) \<and> clean_path (mu_tree m) = mu_tree m
          \<and> under (mu_tree m) (mu_path m) \<and> mu_path m \<noteq> mu_tree m
          \<and> mu_prior_link m = [])"

text \<open>Trees do not overlap, hold no other mutation, and hold no file that the manifest does not name.\<close>

definition apart :: "resource_mutation \<Rightarrow> resource_mutation \<Rightarrow> bool" where
  "apart m m' \<longleftrightarrow> mu_tree m = [] \<or> mu_tree m' = mu_tree m
     \<or> \<not> under (mu_tree m) (if mu_tree m' = [] then mu_path m' else mu_tree m')"

definition tree_complete :: "file_store \<Rightarrow> resource_mutation list \<Rightarrow> resource_mutation \<Rightarrow> bool" where
  "tree_complete w ms m \<longleftrightarrow> mu_tree m = []
     \<or> list_all (\<lambda>(q, _). under (mu_tree m) q \<longrightarrow> list_ex (\<lambda>m'. mu_tree m' = mu_tree m \<and> mu_path m' = q) ms) (fs_entries w)"

definition exact_manifest :: "resource_mutation list \<Rightarrow> file_store \<Rightarrow> bool" where
  "exact_manifest ms w \<longleftrightarrow> list_all (exact_mutation w) ms \<and> list_all (\<lambda>m. list_all (apart m) ms) ms
     \<and> list_all (tree_complete w ms) ms"

lemma exact_manifest_member:
  assumes "exact_manifest ms w" "m \<in> set ms"
  shows "is_abs (mu_path m)" "clean_path (mu_path m) = mu_path m" "file_at w (mu_path m) = prior_entry m"
    "mu_tree m \<noteq> [] \<Longrightarrow> is_abs (mu_tree m) \<and> clean_path (mu_tree m) = mu_tree m \<and> under (mu_tree m) (mu_path m)
        \<and> mu_path m \<noteq> mu_tree m \<and> mu_prior_link m = []"
    "m' \<in> set ms \<Longrightarrow> apart m m'"
  using assms by (auto simp: exact_manifest_def exact_mutation_def list_all_iff)

lemma exact_manifest_tree:
  assumes "exact_manifest ms w" "m \<in> set ms" "mu_tree m \<noteq> []" "under (mu_tree m) q" "file_at w q \<noteq> None"
  shows "\<exists>m'\<in>set ms. mu_tree m' = mu_tree m \<and> mu_path m' = q"
proof -
  obtain x where "(q, x) \<in> set (fs_entries w)"
    using assms(5) by (auto simp: file_at_def dest: map_of_SomeD)
  then show ?thesis
    using assms by (force simp: exact_manifest_def tree_complete_def list_all_iff list_ex_iff)
qed

lemma regions_apart:
  assumes "exact_manifest ms w" "m \<in> set ms" "m' \<in> set ms" "mu_tree m \<noteq> []" "under (mu_tree m) q"
  shows "mu_tree m' \<noteq> [] \<Longrightarrow> under (mu_tree m') q \<Longrightarrow> mu_tree m' = mu_tree m"
    "mu_tree m' = [] \<Longrightarrow> mu_path m' \<noteq> q"
  using exact_manifest_member(5) [OF assms(1,2,3)] exact_manifest_member(5) [OF assms(1,3,2)]
    under_comparable [of "mu_tree m" q "mu_tree m'"] assms(4,5)
  by (auto simp: apart_def)

section \<open>What an execution leaves\<close>

text \<open>
  The invariant of an execution that started in \<open>w0\<close>: what it recorded comes from the manifest,
  installed trees were empty before, removed trees are empty now, and everything else is either as
  before or the path of an applied regular mutation.
\<close>

definition kept :: "resource_mutation list \<Rightarrow> file_store \<Rightarrow> prepared_effect \<Rightarrow> file_store \<Rightarrow> bool" where
  "kept ms w0 p w \<longleftrightarrow> set (pe_applied p) \<subseteq> set ms
     \<and> (\<forall>r\<in>set (pe_tree_roots p). r \<noteq> [] \<and> r \<in> mu_tree ` set ms \<and> (\<forall>q. under r q \<longrightarrow> file_at w0 q = None))
     \<and> (\<forall>(r, g)\<in>set (pe_removed p). r \<noteq> [] \<and> r \<in> mu_tree ` set ms \<and> set g = {m \<in> set ms. mu_tree m = r}
          \<and> (\<forall>q. under r q \<longrightarrow> file_at w q = None))
     \<and> distinct (map fst (pe_removed p))
     \<and> (\<forall>q. (\<forall>r\<in>set (pe_tree_roots p) \<union> fst ` set (pe_removed p). \<not> under r q)
            \<and> (\<forall>m\<in>set (pe_applied p). mu_tree m = [] \<longrightarrow> mu_path m \<noteq> q) \<longrightarrow> file_at w q = file_at w0 q)"

lemma kept_same: "kept ms w0 p w \<Longrightarrow> file_at w' = file_at w \<Longrightarrow> kept ms w0 p w'"
  by (simp add: kept_def)

definition touched :: "prepared_effect \<Rightarrow> string set" where
  "touched p = set (pe_tree_roots p) \<union> fst ` set (pe_removed p)"

lemma kept_touched:
  assumes "kept ms w0 p w" "s \<in> touched p"
  shows "\<exists>m\<in>set ms. mu_tree m = s \<and> s \<noteq> []"
proof -
  have "s \<noteq> [] \<and> s \<in> mu_tree ` set ms"
  proof (cases "s \<in> set (pe_tree_roots p)")
    case True
    then show ?thesis
      using assms(1) by (simp add: kept_def)
  next
    case False
    then obtain g where "(s, g) \<in> set (pe_removed p)"
      using assms(2) by (auto simp: touched_def)
    then show ?thesis
      using assms(1) unfolding kept_def by blast
  qed
  then show ?thesis
    by auto
qed

lemma kept_applied_tree:
  assumes "kept ms w0 p w" "set g \<subseteq> set ms" "\<forall>m\<in>set g. mu_tree m \<noteq> []"
  shows "kept ms w0 (p\<lparr>pe_applied := pe_applied p @ g\<rparr>) w"
  using assms unfolding kept_def by (simp add: ball_Un)

lemma kept_removed:
  assumes "kept ms w0 p w" "r \<noteq> []" "r \<in> mu_tree ` set ms" "set g = {m \<in> set ms. mu_tree m = r}" "r \<notin> touched p"
    and "file_at w' = (\<lambda>q. if under r q then None else file_at w q)"
  shows "kept ms w0 (p\<lparr>pe_removed := pe_removed p @ [(r, g)]\<rparr>) w'"
  using assms unfolding kept_def touched_def by (auto split: prod.splits)

lemma kept_installed:
  assumes ms: "exact_manifest ms w0" and k: "kept ms w0 p w" and r: "r \<noteq> []" "r \<in> mu_tree ` set ms" "r \<notin> touched p"
    and w': "\<not> present r w" "\<forall>q. \<not> under r q \<longrightarrow> file_at w' q = file_at w q"
  shows "kept ms w0 (p\<lparr>pe_tree_roots := pe_tree_roots p @ [r]\<rparr>) w'"
proof -
  obtain m where m: "m \<in> set ms" "mu_tree m = r"
    using r(2) by auto
  have other: "\<not> under s q" if "s \<in> touched p" "under r q" for s q
  proof -
    from kept_touched [OF k that(1)] obtain m' where "m' \<in> set ms" "mu_tree m' = s" "s \<noteq> []"
      by blast
    then show ?thesis
      using regions_apart(1) [OF ms m(1), of m' q] m(2) r(1,3) that by auto
  qed
  have regular: "mu_path m' \<noteq> q" if "m' \<in> set (pe_applied p)" "mu_tree m' = []" "under r q" for m' q
  proof -
    have "m' \<in> set ms"
      using k that(1) by (auto simp: kept_def)
    then show ?thesis
      using regions_apart(2) [OF ms m(1), of m' q] m(2) r(1) that(2,3) by simp
  qed
  have "file_at w0 q = None" if "under r q" for q
  proof -
    have "file_at w q = file_at w0 q"
      using k other [OF _ that] regular [OF _ _ that] unfolding kept_def touched_def by blast
    then show ?thesis
      using w'(1) that by (auto simp: present_iff)
  qed
  moreover have "file_at w' q = None" if "(s, g) \<in> set (pe_removed p)" "under s q" for s g q
  proof -
    have "s \<in> touched p"
      using that(1) by (force simp: touched_def)
    then have "\<not> under r q"
      using other [of s q] that(2) by blast
    then show ?thesis
      using k w'(2) that unfolding kept_def by fastforce
  qed
  ultimately show ?thesis
    using k r(1,2) w'(2) unfolding kept_def by (auto split: prod.splits)
qed

lemma execute_tree_kept:
  assumes ms: "exact_manifest ms w0" and k: "kept ms w0 p w" and w: "steady w"
    and r: "r \<noteq> []" "r \<in> mu_tree ` set ms" "r \<notin> touched p" and g: "set g = {m \<in> set ms. mu_tree m = r}"
    and run: "execute_tree r g p w = (e, p', w')"
  shows "kept ms w0 p' w' \<and> steady w' \<and> touched p' \<subseteq> insert r (touched p)"
proof -
  let ?applied = "p\<lparr>pe_applied := pe_applied p @ g\<rparr>"
  have applied: "kept ms w0 ?applied w"
    using g r(1) by (intro kept_applied_tree [OF k]) auto
  have untouched: "r \<notin> touched ?applied"
    using r(3) by (simp add: touched_def)
  have clean: "clean_path r = r"
    using r(1,2) exact_manifest_member(4) [OF ms] by auto
  show ?thesis
  proof (cases "deletes_all g")
    case True
    show ?thesis
    proof (cases "list_all (\<lambda>m. tree_member r (mu_path m) \<and> clean_path (mu_path m) \<noteq> clean_path r) g")
      case False
      then show ?thesis
        using run True k w by (auto simp: execute_tree_def Let_def)
    next
      case inside: True
      obtain x w1 where x: "remove_all r w = (x, w1)"
        by (cases "remove_all r w")
      note s = remove_all_steady [OF x w]
      show ?thesis
      proof (cases x)
        case None
        then have "p' = ?applied\<lparr>pe_removed := pe_removed p @ [(r, g)]\<rparr>" "w' = w1"
          using run True inside x s by (simp_all add: execute_tree_def Let_def)
        then show ?thesis
          using kept_removed [OF applied r(1,2) g untouched, of w1] s None by (auto simp: touched_def)
      next
        case (Some y)
        then have "p' = p" "w' = w1"
          using run True inside x by (auto simp: execute_tree_def Let_def)
        then show ?thesis
          using kept_same [OF k] s Some by auto
      qed
    qed
  next
    case no_delete: False
    show ?thesis
    proof (cases "list_all mu_prior_exists g")
      case True
      then show ?thesis
        using run no_delete applied w by (auto simp: execute_tree_def Let_def touched_def)
    next
      case False
      obtain x w1 where x: "atomic_install_tree r g w = (x, w1)"
        by (cases "atomic_install_tree r g w")
      note s = atomic_install_tree_steady [OF x w, unfolded clean]
      show ?thesis
      proof (cases x)
        case None
        then have "p' = ?applied\<lparr>pe_tree_roots := pe_tree_roots p @ [r]\<rparr>" "w' = w1"
          using run no_delete False x s by (simp_all add: execute_tree_def Let_def)
        then show ?thesis
          using kept_installed [OF ms applied r(1,2) untouched, of w1] s None by (auto simp: touched_def)
      next
        case (Some y)
        then have "p' = p" "w' = w1"
          using run no_delete False x by (auto simp: execute_tree_def Let_def)
        then show ?thesis
          using kept_same [OF k] s Some by auto
      qed
    qed
  qed
qed

lemma execute_trees_kept:
  assumes ms: "exact_manifest ms w0" and L: "set L = set ms"
  shows "kept ms w0 p w \<Longrightarrow> steady w \<Longrightarrow> distinct roots \<Longrightarrow> set roots \<inter> touched p = {} \<Longrightarrow>
     set roots \<subseteq> mu_tree ` set ms - {[]} \<Longrightarrow> execute_trees L roots p w = (e, p', w') \<Longrightarrow> kept ms w0 p' w' \<and> steady w'"
proof (induction roots arbitrary: p w)
  case (Cons r roots)
  obtain x p1 w1 where x: "execute_tree r (filter (\<lambda>m. mu_tree m = r) L) p w = (x, p1, w1)"
    by (cases "execute_tree r (filter (\<lambda>m. mu_tree m = r) L) p w")
  have "kept ms w0 p1 w1 \<and> steady w1 \<and> touched p1 \<subseteq> insert r (touched p)"
    using Cons.prems L by (intro execute_tree_kept [OF ms _ _ _ _ _ _ x]) auto
  then show ?case
    using Cons.IH [of p1 w1] Cons.prems x by (cases x) auto
qed simp

lemma kept_regular:
  assumes ms: "exact_manifest ms w0" and k: "kept ms w0 p w" and m: "m \<in> set ms" "mu_tree m = []"
    and w': "\<forall>q. q \<noteq> mu_path m \<longrightarrow> file_at w' q = file_at w q"
  shows "kept ms w0 (p\<lparr>pe_applied := pe_applied p @ [m]\<rparr>) w'"
proof -
  have "mu_path m \<noteq> q" if "r \<in> touched p" "under r q" for r q
  proof -
    from kept_touched [OF k that(1)] obtain m' where "m' \<in> set ms" "mu_tree m' = r" "r \<noteq> []"
      by blast
    then show ?thesis
      using regions_apart(2) [OF ms _ m(1)] m(2) that(2) by auto
  qed
  then have same: "file_at w' q = file_at w q" if "r \<in> touched p" "under r q" for r q
    using that w' by metis
  note parts = k [unfolded kept_def]
  have removed: "file_at w' q = None" if "(r, g) \<in> set (pe_removed p)" "under r q" for r g q
  proof -
    have "r \<in> touched p"
      using that(1) by (force simp: touched_def)
    then have "file_at w' q = file_at w q"
      using same that(2) by blast
    also have "\<dots> = None"
      using parts that by blast
    finally show ?thesis .
  qed
  have rest: "file_at w' q = file_at w0 q" if "\<forall>r\<in>touched p. \<not> under r q"
      "\<forall>m\<in>set (pe_applied p @ [m]). mu_tree m = [] \<longrightarrow> mu_path m \<noteq> q" for q
  proof -
    have "file_at w q = file_at w0 q"
      using parts that unfolding touched_def by auto
    then show ?thesis
      using w' m(2) that(2) by auto
  qed
  show ?thesis
    unfolding kept_def
    using parts m(1) removed rest [unfolded touched_def] by (simp split: prod.splits) blast
qed

lemma execute_regular_kept:
  assumes ms: "exact_manifest ms w0"
  shows "kept ms w0 p w \<Longrightarrow> steady w \<Longrightarrow> \<forall>m\<in>set L. m \<in> set ms \<and> mu_tree m = [] \<Longrightarrow>
     execute_regular L p w = (e, p', w') \<Longrightarrow> kept ms w0 p' w' \<and> steady w'"
proof (induction L arbitrary: p w)
  case (Cons m L)
  obtain x w1 where x: "apply_mutation m w = (x, w1)"
    by (cases "apply_mutation m w")
  note s = apply_mutation_steady [OF x Cons.prems(2)]
  show ?case
  proof (cases x)
    case None
    have "kept ms w0 (p\<lparr>pe_applied := pe_applied p @ [m]\<rparr>) w1"
      using Cons.prems s None by (intro kept_regular [OF ms]) auto
    then show ?thesis
      using Cons.IH [of "p\<lparr>pe_applied := pe_applied p @ [m]\<rparr>" w1] Cons.prems s None x by auto
  next
    case (Some y)
    then show ?thesis
      using Cons.prems x s kept_same [OF Cons.prems(1), of w1] by auto
  qed
qed simp

section \<open>Rolling back\<close>

lemma remove_all_calm_at:
  assumes "calm w"
  obtains w' where "remove_all root w = (None, w')" "calm w'"
    "file_at w' = (\<lambda>q. if under root q then None else file_at w q)"
  using remove_all_calm [OF assms] remove_all_steady calm_steady [OF assms] by (metis (full_types))

lemma rollback_roots_calm:
  "calm w \<Longrightarrow> \<exists>w'. rollback_roots roots w = ([], w') \<and> calm w'
     \<and> (\<forall>q. file_at w' q = (if \<exists>r\<in>set roots. under r q then None else file_at w q))"
proof (induction roots arbitrary: w)
  case (Cons r roots)
  obtain w1 where w1: "remove_all r w = (None, w1)" "calm w1"
    "file_at w1 = (\<lambda>q. if under r q then None else file_at w q)"
    using remove_all_calm_at [OF Cons.prems] by blast
  then show ?case
    using Cons.IH [OF w1(2)] by (auto simp: calm_steady)
qed simp

lemma undo_mutation_calm:
  assumes "calm w" "is_abs (mu_path m)"
  shows "\<exists>w'. undo_mutation m w = (None, w') \<and> calm w'
    \<and> file_at w' = (if mu_tree m = [] then (file_at w)(mu_path m := prior_entry m) else file_at w)"
proof (cases "mu_tree m = [] \<and> prior_entry m = None")
  case True
  then show ?thesis
    using assms by (auto simp: undo_mutation_def prior_entry_def remove_file_def file_at_def fun_eq_iff delete_conv'
        split: if_splits)
next
  case False
  then show ?thesis
    using assms by (auto simp: undo_mutation_def prior_entry_def atomic_symlink_def atomic_write_def file_at_def
        fun_eq_iff update_conv' split: if_splits)
qed

lemma rollback_applied_calm:
  "calm w \<Longrightarrow> \<forall>m\<in>set ms. is_abs (mu_path m) \<and> \<sigma> (mu_path m) = prior_entry m \<Longrightarrow>
     \<exists>w'. rollback_applied ms w = ([], w') \<and> calm w'
     \<and> (\<forall>q. file_at w' q = (if \<exists>m\<in>set ms. mu_tree m = [] \<and> mu_path m = q then \<sigma> q else file_at w q))"
proof (induction ms arbitrary: w)
  case (Cons m ms)
  obtain w1 where w1: "undo_mutation m w = (None, w1)" "calm w1"
    "file_at w1 = (if mu_tree m = [] then (file_at w)(mu_path m := prior_entry m) else file_at w)"
    using undo_mutation_calm [of w m] Cons.prems by auto
  then show ?case
    using Cons.IH [OF w1(2)] Cons.prems(2) by auto
qed simp

lemma restored_paths: "mu_path ` set (restore_members r g) = mu_path ` {m \<in> set g. mu_prior_exists m}"
  by (auto simp: restore_members_def image_image)

lemma restore_tree_calm:
  assumes ms: "exact_manifest ms w0" and w: "calm w" and r: "r \<noteq> []" "r \<in> mu_tree ` set ms"
    and g: "set g = {m \<in> set ms. mu_tree m = r}" and empty: "\<forall>q. under r q \<longrightarrow> file_at w q = None"
    and restore: "restore_members r g \<noteq> []"
  shows "\<exists>w'. atomic_install_tree r (restore_members r g) w = (None, w') \<and> calm w'
    \<and> (\<forall>q. file_at w' q = (if under r q then file_at w0 q else file_at w q))"
proof -
  let ?rs = "restore_members r g"
  obtain m where "m \<in> set ms" "mu_tree m = r"
    using r(2) by auto
  then have root: "is_abs r" "clean_path r = r"
    using exact_manifest_member(4) [OF ms] r(1) by auto
  have inside: "\<forall>m\<in>set ?rs. tree_member r (mu_path m) \<and> clean_path (mu_path m) \<noteq> clean_path r"
    using exact_manifest_member(1,2,4) [OF ms] g r(1) root
    by (auto simp: restore_members_def tree_member_def)
  have "\<not> present r w"
    using empty by (auto simp: present_iff)
  then have run: "atomic_install_tree r ?rs w = (None, fold install_member ?rs w)"
    using atomic_install_tree_calm [OF w root(1) restore] inside by blast
  have entries: "\<forall>m\<in>set ?rs. clean_path (mu_path m) = mu_path m
      \<and> file_at w0 (mu_path m) = Some (Regular (mu_target m) (mu_mode m))"
    using exact_manifest_member(2,3,4) [OF ms] g r(1) by (auto simp: restore_members_def prior_entry_def)
  have "file_at w0 q \<noteq> None \<longleftrightarrow> q \<in> mu_path ` set ?rs" if "under r q" for q
  proof
    assume "file_at w0 q \<noteq> None"
    then obtain m' where m': "m' \<in> set ms" "mu_tree m' = r" "mu_path m' = q"
      using exact_manifest_tree [OF ms, of m q] \<open>m \<in> set ms\<close> \<open>mu_tree m = r\<close> r(1) \<open>under r q\<close> by auto
    then have "mu_prior_exists m'"
      using exact_manifest_member(3,4) [OF ms m'(1)] \<open>file_at w0 q \<noteq> None\<close> r(1)
      by (auto simp: prior_entry_def split: if_splits)
    then show "q \<in> mu_path ` set ?rs"
      using m' g by (auto simp: restored_paths)
  qed (use entries in auto)
  moreover have "under r q" if "q \<in> mu_path ` set ?rs" for q
    using that exact_manifest_member(4) [OF ms] g r(1) by (auto simp: restore_members_def)
  ultimately have "file_at (fold install_member ?rs w) q = (if under r q then file_at w0 q else file_at w q)" for q
    using install_members_at [OF entries, of w q] empty by (cases "file_at w0 q") auto
  moreover have "calm (fold install_member ?rs w)"
    using w by (simp add: calm_def)
  ultimately show ?thesis
    using run by blast
qed

lemma rollback_removed_calm:
  assumes ms: "exact_manifest ms w0"
  shows "calm w \<Longrightarrow> distinct (map fst rs) \<Longrightarrow>
     \<forall>(r, g)\<in>set rs. r \<noteq> [] \<and> r \<in> mu_tree ` set ms \<and> set g = {m \<in> set ms. mu_tree m = r}
        \<and> (\<forall>q. under r q \<longrightarrow> file_at w q = None) \<Longrightarrow>
     \<exists>w'. rollback_removed rs w = ([], w') \<and> calm w'
     \<and> (\<forall>q. file_at w' q = (if \<exists>r\<in>fst ` set rs. under r q then file_at w0 q else file_at w q))"
proof (induction rs arbitrary: w)
  case (Cons x rs)
  obtain r g where x: "x = (r, g)"
    by (cases x)
  have r: "r \<noteq> []" "r \<in> mu_tree ` set ms" "set g = {m \<in> set ms. mu_tree m = r}"
    "\<forall>q. under r q \<longrightarrow> file_at w q = None"
    using Cons.prems(3) x by auto
  let ?rs = "restore_members r g"
  have "\<exists>w1. rollback_removed (x # rs) w = (let (es, w'') = rollback_removed rs w1 in (es, w'')) \<and> calm w1
      \<and> (\<forall>q. file_at w1 q = (if under r q then file_at w0 q else file_at w q))"
  proof (cases "?rs = []")
    case True
    have "file_at w0 q = None" if below: "under r q" for q
    proof (rule ccontr)
      assume present: "file_at w0 q \<noteq> None"
      obtain m where m: "m \<in> set ms" "mu_tree m = r"
        using r(2) by auto
      then obtain m' where "m' \<in> set ms" "mu_tree m' = r" "mu_path m' = q"
        using exact_manifest_tree [OF ms m(1) _ _ present] r(1) below by auto
      then have "mu_prior_exists m'" "m' \<in> set g"
        using exact_manifest_member(3,4) [OF ms, of m'] present r(1,3) by (auto simp: prior_entry_def split: if_splits)
      then show False
        using True by (auto simp: restore_members_def filter_empty_conv)
    qed
    then show ?thesis
      using True r(4) Cons.prems(1) by (intro exI [of _ w]) (simp add: x)
  next
    case False
    then show ?thesis
      using restore_tree_calm [OF ms Cons.prems(1) r False] by (auto simp: x Let_def calm_steady)
  qed
  then obtain w1 where w1: "rollback_removed (x # rs) w = (let (es, w'') = rollback_removed rs w1 in (es, w''))"
    "calm w1" "\<forall>q. file_at w1 q = (if under r q then file_at w0 q else file_at w q)"
    by blast
  have "file_at w1 q = None" if "(s, h) \<in> set rs" "under s q" for s h q
  proof -
    have "(s, h) \<in> set (x # rs)"
      using that(1) by simp
    then have s: "s \<noteq> []" "s \<in> mu_tree ` set ms" "file_at w q = None"
      using Cons.prems(3) that(2) by blast+
    have "s \<in> fst ` set rs"
      using that(1) by force
    then have "s \<noteq> r"
      using Cons.prems(2) x by auto
    then have "\<not> under r q"
      using regions_apart(1) [OF ms] r(1,2) s(1,2) that(2) by blast
    then show ?thesis
      using w1(3) s(3) by simp
  qed
  then have "\<exists>w'. rollback_removed rs w1 = ([], w') \<and> calm w'
      \<and> (\<forall>q. file_at w' q = (if \<exists>r\<in>fst ` set rs. under r q then file_at w0 q else file_at w1 q))"
    using Cons.prems(2,3) x by (intro Cons.IH [OF w1(2)]) auto
  then show ?case
    using w1(1,3) x by auto
qed simp

text \<open>Executing changes only what a prepared effect records of its progress.\<close>

definition same_effect :: "prepared_effect \<Rightarrow> prepared_effect \<Rightarrow> bool" where
  "same_effect p q \<longleftrightarrow> pe_mutations q = pe_mutations p \<and> pe_post_verify q = pe_post_verify p
     \<and> pe_settled q = pe_settled p \<and> pe_result q = pe_result p \<and> pe_transition q = pe_transition p
     \<and> pe_facets q = pe_facets p"

lemma execute_tree_same: "execute_tree r g p w = (e, p', w') \<Longrightarrow> same_effect p p'"
  by (auto simp: execute_tree_def Let_def same_effect_def split: if_splits prod.splits option.splits)

lemma execute_trees_same: "execute_trees L roots p w = (e, p', w') \<Longrightarrow> same_effect p p'"
proof (induction roots arbitrary: p w)
  case (Cons r roots)
  then show ?case
    using execute_tree_same [of r "filter (\<lambda>m. mu_tree m = r) L" p w]
    by (auto simp: same_effect_def split: prod.splits option.splits)
qed (simp add: same_effect_def)

lemma execute_regular_same: "execute_regular L p w = (e, p', w') \<Longrightarrow> same_effect p p'"
proof (induction L arbitrary: p w)
  case (Cons m L)
  then show ?case
    by (auto simp: same_effect_def split: prod.splits option.splits)
qed (simp add: same_effect_def)

text \<open>The final verification reads the store and leaves it as it is.\<close>

definition verify_reads :: "prepared_effect \<Rightarrow> bool" where
  "verify_reads p \<longleftrightarrow> (case pe_post_verify p of None \<Rightarrow> True | Some f \<Rightarrow> \<forall>w. snd (f w) = w)"

definition fresh_effect :: "prepared_effect \<Rightarrow> bool" where
  "fresh_effect p \<longleftrightarrow> pe_applied p = [] \<and> pe_tree_roots p = [] \<and> pe_removed p = [] \<and> \<not> pe_settled p"

lemma execute_mutations_kept:
  assumes ms: "exact_manifest (pe_mutations p) w" and w: "steady w" and p: "fresh_effect p" "verify_reads p"
    and run: "execute_mutations p w = (e, p', w')"
  shows "kept (pe_mutations p) w p' w' \<and> same_effect p p'"
proof -
  let ?ms = "ordered_mutations p"
  have set: "set ?ms = set (pe_mutations p)"
    by (simp add: ordered_mutations_def)
  have k: "kept (pe_mutations p) w p w"
    using p(1) by (simp add: kept_def fresh_effect_def)
  obtain x p1 w1 where x: "execute_trees ?ms (tree_roots ?ms) p w = (x, p1, w1)"
    by (cases "execute_trees ?ms (tree_roots ?ms) p w")
  have k1: "kept (pe_mutations p) w p1 w1 \<and> steady w1"
    using p(1) set by (intro execute_trees_kept [OF ms set k w _ _ _ x]) (auto simp: tree_roots_def touched_def fresh_effect_def)
  obtain y p2 w2 where y: "execute_regular (filter (\<lambda>m. mu_tree m = []) ?ms) p1 w1 = (y, p2, w2)"
    by (cases "execute_regular (filter (\<lambda>m. mu_tree m = []) ?ms) p1 w1")
  have k2: "kept (pe_mutations p) w p2 w2"
    using k1 set execute_regular_kept [OF ms _ _ _ y] by auto
  have same: "same_effect p p1" "same_effect p p2"
    using execute_trees_same [OF x] execute_regular_same [OF y] by (auto simp: same_effect_def)
  have "(e, p', w') = (if x \<noteq> None then (x, p1, w1) else if y \<noteq> None then (y, p2, w2)
      else case pe_post_verify p of None \<Rightarrow> (None, p2, w2) | Some f \<Rightarrow> (fst (f w2), p2, snd (f w2)))"
    using run same by (auto simp: execute_mutations_def x y Let_def same_effect_def split: option.splits prod.splits)
  then have "(p', w') = (p1, w1) \<or> (p', w') = (p2, w2)"
    using p(2) by (auto simp: verify_reads_def split: if_splits option.splits)
  then show ?thesis
    using k1 k2 same by auto
qed

lemma rollback_kept:
  assumes ms: "exact_manifest ms w0" and k: "kept ms w0 p w" and w: "calm w" and p: "\<not> pe_settled p"
  shows "\<exists>p' w'. rollback p w = ([], p', w') \<and> (\<forall>q. file_at w' q = file_at w0 q)"
proof -
  note parts = k [unfolded kept_def]
  obtain w1 where w1: "rollback_roots (rev (pe_tree_roots p)) w = ([], w1)" "calm w1"
    "\<forall>q. file_at w1 q = (if \<exists>r\<in>set (pe_tree_roots p). under r q then None else file_at w q)"
    using rollback_roots_calm [OF w, of "rev (pe_tree_roots p)"] by auto
  have "\<forall>m\<in>set (rev (pe_applied p)). is_abs (mu_path m) \<and> file_at w0 (mu_path m) = prior_entry m"
    using parts exact_manifest_member(1,3) [OF ms] by auto
  then obtain w2 where w2: "rollback_applied (rev (pe_applied p)) w1 = ([], w2)" "calm w2"
    "\<forall>q. file_at w2 q = (if \<exists>m\<in>set (pe_applied p). mu_tree m = [] \<and> mu_path m = q then file_at w0 q else file_at w1 q)"
    using rollback_applied_calm [OF w1(2), of "rev (pe_applied p)" "file_at w0"] by auto
  have regular: "\<not> (\<exists>m\<in>set (pe_applied p). mu_tree m = [] \<and> mu_path m = q)" if "r \<in> touched p" "under r q" for r q
  proof -
    from kept_touched [OF k that(1)] obtain m' where "m' \<in> set ms" "mu_tree m' = r" "r \<noteq> []"
      by blast
    then show ?thesis
      using regions_apart(2) [OF ms, of m' _ q] parts that(2) by blast
  qed
  have removed: "file_at w2 q = None" if "(r, g) \<in> set (pe_removed p)" "under r q" for r g q
  proof -
    have "r \<in> touched p"
      using that(1) by (force simp: touched_def)
    moreover have "file_at w q = None"
      using parts that by blast
    moreover from calculation have "file_at w2 q = file_at w1 q"
      using w2(3) regular [OF _ that(2)] by metis
    ultimately show ?thesis
      using w1(3) by simp
  qed
  have groups: "\<forall>(r, g)\<in>set (rev (pe_removed p)). r \<noteq> [] \<and> r \<in> mu_tree ` set ms \<and> set g = {m \<in> set ms. mu_tree m = r}
      \<and> (\<forall>q. under r q \<longrightarrow> file_at w2 q = None)"
    using parts removed by auto
  have roots: "distinct (map fst (rev (pe_removed p)))"
    using parts by (simp add: rev_map [symmetric])
  obtain w3 where w3: "rollback_removed (rev (pe_removed p)) w2 = ([], w3)"
    "\<forall>q. file_at w3 q = (if \<exists>r\<in>fst ` set (pe_removed p). under r q then file_at w0 q else file_at w2 q)"
    using rollback_removed_calm [OF ms w2(2) roots groups] by auto
  have "file_at w3 q = file_at w0 q" for q
  proof (cases "\<exists>r\<in>touched p. under r q")
    case True
    then obtain r where r: "r \<in> touched p" "under r q"
      by blast
    show ?thesis
    proof (cases "\<exists>r\<in>fst ` set (pe_removed p). under r q")
      case False
      then have "\<exists>r\<in>set (pe_tree_roots p). under r q"
        using r by (auto simp: touched_def)
      moreover from this have "file_at w0 q = None"
        using parts by blast
      ultimately show ?thesis
        using False w3(2) w2(3) w1(3) by auto
    qed (use w3(2) in auto)
  next
    case False
    then have none: "\<not> (\<exists>r\<in>fst ` set (pe_removed p). under r q)" "\<not> (\<exists>r\<in>set (pe_tree_roots p). under r q)"
      by (auto simp: touched_def)
    have "file_at w q = file_at w0 q" if "\<not> (\<exists>m\<in>set (pe_applied p). mu_tree m = [] \<and> mu_path m = q)"
      using parts none that by blast
    then show ?thesis
      using none w3(2) w2(3) w1(3) by simp
  qed
  then show ?thesis
    using w1(1) w2(1) w3(1) p by (simp add: rollback_def)
qed

text \<open>
  C7. A failed effect is undone, under these conditions. The effect makes no external call, has
  not run before, and its verification only reads. Its manifest is exact: every mutation records
  the very entry its path has, trees do not overlap and name all their members, and no member of
  a tree is a symbolic link (such a member would come back as an empty regular file). The calls
  of the operating system that fail during the execution fail before they have an effect: no
  synchronisation of a directory fails after its entry was replaced, and no removal of a tree
  stops half way (after either, the rollback does not know what happened). The calls of the
  rollback itself succeed. Then whatever calls fail, and wherever the execution stops, rolling
  back reports no error and every path has the file or link it had before. Directories are not
  entries: that an emptied or a new directory stays behind is not excluded.
\<close>

theorem failed_effect_undone:
  assumes "exact_manifest (pe_mutations p) w" "steady w" "fresh_effect p" "verify_reads p" "pe_boundary p = None"
    and "execute p w = ((r, Some e), p', w')"
  shows "\<exists>p'' w''. rollback p' (w'\<lparr>fs_calls := [], fs_syncs := []\<rparr>) = ([], p'', w'') \<and> pe_applied p'' = []
    \<and> (\<forall>q. file_at w'' q = file_at w q)"
proof -
  let ?calm = "w'\<lparr>fs_calls := [], fs_syncs := []\<rparr>"
  have k: "kept (pe_mutations p) w p' w' \<and> \<not> pe_settled p'"
  proof (cases "p' = p \<and> w' = w")
    case True
    then show ?thesis
      using assms(3) by (simp add: kept_def fresh_effect_def)
  next
    case False
    then have "execute_mutations p w = (Some e, p', w')"
      using assms(5,6) by (auto simp: execute_def Let_def split: if_splits prod.splits)
    then show ?thesis
      using execute_mutations_kept [OF assms(1-4)] assms(3) by (auto simp: same_effect_def fresh_effect_def)
  qed
  then have "kept (pe_mutations p) w p' ?calm"
    using kept_same [of "pe_mutations p" w p' w' ?calm] by (simp add: file_at_def fun_eq_iff)
  then obtain p'' w'' where "rollback p' ?calm = ([], p'', w'')" "\<forall>q. file_at w'' q = file_at w q"
    using rollback_kept [OF assms(1)] k by (fastforce simp: calm_def)
  then show ?thesis
    by (auto simp: rollback_def Let_def split: prod.splits)
qed


section \<open>An execution that succeeds\<close>

lemma execute_tree_applied:
  "execute_tree r g p w = (None, p', w') \<Longrightarrow> pe_applied p' = pe_applied p @ g"
  by (auto simp: execute_tree_def Let_def split: if_splits prod.splits option.splits)

lemma execute_trees_applied:
  "execute_trees L roots p w = (None, p', w') \<Longrightarrow>
     pe_applied p' = pe_applied p @ concat (map (\<lambda>r. filter (\<lambda>m. mu_tree m = r) L) roots)"
proof (induction roots arbitrary: p w)
  case (Cons r roots)
  then obtain p1 w1 where "execute_tree r (filter (\<lambda>m. mu_tree m = r) L) p w = (None, p1, w1)"
    "execute_trees L roots p1 w1 = (None, p', w')"
    by (auto split: prod.splits option.splits)
  then show ?case
    using Cons.IH [of p1 w1] execute_tree_applied by fastforce
qed simp

lemma execute_regular_applied:
  "execute_regular L p w = (None, p', w') \<Longrightarrow> pe_applied p' = pe_applied p @ L"
proof (induction L arbitrary: p w)
  case (Cons m L)
  then show ?case
    by (auto split: prod.splits option.splits)
qed simp

lemma groups_mset:
  "distinct roots \<Longrightarrow> mset (concat (map (\<lambda>r. filter (\<lambda>m. mu_tree m = r) L) roots)) = mset (filter (\<lambda>m. mu_tree m \<in> set roots) L)"
proof (induction roots)
  case (Cons r roots)
  have "mset (filter (\<lambda>m. mu_tree m = r) L) + mset (filter (\<lambda>m. mu_tree m \<in> set roots) L)
      = mset (filter (\<lambda>m. mu_tree m = r \<or> mu_tree m \<in> set roots) L)"
    using Cons.prems by (induction L) auto
  then show ?case
    using Cons by simp
qed simp

lemma execute_mutations_applied:
  assumes "execute_mutations p w = (None, p', w')" "pe_applied p = []"
  shows "mset (pe_applied p') = mset (pe_mutations p) \<and> same_effect p p'"
proof -
  let ?ms = "ordered_mutations p"
  obtain p1 w1 where x: "execute_trees ?ms (tree_roots ?ms) p w = (None, p1, w1)"
    using assms(1) by (auto simp: execute_mutations_def Let_def split: prod.splits option.splits)
  obtain p2 w2 where y: "execute_regular (filter (\<lambda>m. mu_tree m = []) ?ms) p1 w1 = (None, p2, w2)"
    using assms(1) by (auto simp: execute_mutations_def Let_def x split: prod.splits option.splits)
  have p': "p' = p2"
    using assms(1) by (auto simp: execute_mutations_def Let_def x y split: prod.splits option.splits)
  have "set (tree_roots ?ms) = mu_tree ` set ?ms - {[]}"
    by (auto simp: tree_roots_def)
  then have "filter (\<lambda>m. mu_tree m \<in> set (tree_roots ?ms)) ?ms = filter (\<lambda>m. \<not> mu_tree m = []) ?ms"
    by (intro filter_cong) auto
  then have "mset (pe_applied p') = mset (filter (\<lambda>m. \<not> mu_tree m = []) ?ms) + mset (filter (\<lambda>m. mu_tree m = []) ?ms)"
    using execute_trees_applied [OF x] execute_regular_applied [OF y] groups_mset [of "tree_roots ?ms" ?ms] assms(2)
    by (simp add: p' tree_roots_def)
  also have "\<dots> = mset ?ms"
    by (metis add.commute mset_filter multiset_partition)
  finally show ?thesis
    using execute_trees_same [OF x] execute_regular_same [OF y]
    by (auto simp: p' same_effect_def ordered_mutations_def)
qed

text \<open>A mutation and a fact are compared by path, operation and the two fingerprints.\<close>

definition fact_id :: "sd_effect_fact \<Rightarrow> string list" where
  "fact_id f = [xf_target f, xf_operation f, xf_prior f, xf_result f]"

definition mutation_id :: "resource_mutation \<Rightarrow> string list" where
  "mutation_id m = [mu_path m, mutation_operation m, prior_fingerprint m, result_fingerprint m]"

lemma fact_matches_id: "fact_matches m f \<longleftrightarrow> fact_id f = mutation_id m"
  by (auto simp: fact_matches_def fact_id_def mutation_id_def)

lemma mutation_fact_id [simp]: "fact_id (mutation_fact t m) = mutation_id m"
  by (simp add: fact_id_def mutation_id_def mutation_fact_def)

lemma take_fact_Some:
  "mutation_id m \<in> fact_id ` set fs \<Longrightarrow>
     \<exists>rest. take_fact m fs = Some rest \<and> image_mset fact_id (mset fs) = add_mset (mutation_id m) (image_mset fact_id (mset rest))"
  by (induction fs) (auto simp: fact_matches_id)

lemma match_facts_ok:
  "image_mset fact_id (mset fs) = image_mset mutation_id (mset ms) \<Longrightarrow> match_facts ms fs = None"
proof (induction ms arbitrary: fs)
  case (Cons m ms)
  have "mutation_id m \<in># image_mset fact_id (mset fs)"
    using Cons.prems by simp
  then obtain rest where "take_fact m fs = Some rest"
    "image_mset fact_id (mset fs) = add_mset (mutation_id m) (image_mset fact_id (mset rest))"
    using take_fact_Some [of m fs] by auto
  then show ?case
    using Cons by simp
qed simp

lemma committed_facts_match:
  assumes applied: "mset (pe_applied p) = mset ms" and facets: "union_state_facets (map mu_facets ms) = facets"
    and settled: "event = Event_owned_external \<Longrightarrow> pe_settled p"
  shows "committed_mutation_facts event ms facets (sort_facts (committed_effects p)) = None"
proof -
  let ?facts = "committed_effects p"
  let ?resource = "filter (\<lambda>f. xf_kind f = Effect_resource_mutation) (sort_facts ?facts)"
  have "mset ?resource = filter_mset (\<lambda>f. xf_kind f = Effect_resource_mutation) (mset ?facts)"
    by (simp add: sort_facts_def)
  also have "\<dots> = image_mset (mutation_fact (pe_transition p)) (mset (pe_applied p))"
    by (auto simp: committed_effects_def mutation_fact_def settled_fact_def filter_mset_eq_conv)
  finally have r: "mset ?resource = image_mset (mutation_fact (pe_transition p)) (mset ms)"
    by (simp add: applied)
  then have "image_mset fact_id (mset ?resource) = image_mset mutation_id (mset ms)"
    by (simp add: image_mset.compositionality comp_def)
  then have "match_facts ms ?resource = None"
    by (rule match_facts_ok)
  moreover have "length ?resource = length ms"
    by (metis r size_image_mset size_mset)
  moreover have "list_ex (\<lambda>f. xf_kind f = Effect_boundary_settled) (sort_facts ?facts)" if "event = Event_owned_external"
    using settled [OF that] by (simp add: sort_facts_def list_ex_iff committed_effects_def settled_fact_def)
  ultimately show ?thesis
    using facets by (simp add: committed_mutation_facts_def Let_def)
qed

lemma execute_success:
  assumes "fresh_effect p" "execute p w = ((r, None), p', w')" "er_settlement r \<noteq> ''unknown''"
  shows "mset (pe_applied p') = mset (pe_mutations p) \<and> pe_transition p' = pe_transition p \<and> pe_facets p' = pe_facets p
    \<and> pe_mutations p' = pe_mutations p \<and> (pe_boundary p \<noteq> None \<longrightarrow> pe_settled p')"
proof (cases "pe_boundary p")
  case None
  then have "execute_mutations p w = (None, p', w')"
    using assms(2) by (auto simp: execute_def Let_def split: if_splits prod.splits)
  then show ?thesis
    using execute_mutations_applied [of p w p' w'] assms(1) None by (auto simp: fresh_effect_def same_effect_def)
next
  case (Some call)
  then obtain w1 where "execute_mutations (p\<lparr>pe_settled := True, pe_result := r\<rparr>) w1 = (None, p', w')"
    using assms(2,3) by (auto simp: execute_def Let_def split: if_splits prod.splits)
  then show ?thesis
    using execute_mutations_applied [of "p\<lparr>pe_settled := True, pe_result := r\<rparr>" w1 p' w'] assms(1)
    by (auto simp: fresh_effect_def same_effect_def)
qed

text \<open>
  An effect that succeeds has applied its manifest, each mutation once, and the facts it reports
  pass the check that the journal makes of a committed record: they are, up to order, the staged
  mutations, and an external effect has settled.
\<close>

theorem executed_manifest_recorded:
  assumes "fresh_effect p" "execute p w = ((r, None), p', w')" "er_settlement r \<noteq> ''unknown''"
    and "event = Event_owned_external \<longrightarrow> pe_boundary p \<noteq> None"
    and "facets = union_state_facets (map mu_facets (pe_mutations p))"
  shows "mset (pe_applied p') = mset (pe_mutations p)
    \<and> committed_mutation_facts event (pe_mutations p) facets (sort_facts (committed_effects p')) = None"
  using execute_success [OF assms(1-3)] committed_facts_match [of p' "pe_mutations p" facets event] assms(4,5) by auto

end
