(* ===== verification/Delivery_Journal_Laws.thy ===== *)
theory Delivery_Journal_Laws
  imports Delivery_Journal Delivery_Prepared_Laws Delivery_Receipt_Laws
begin

text \<open>
  What the journal promises: a transaction is pending, committed or aborted and never two of them,
  and a committed record is one that recovery can read.
\<close>

section \<open>The files of a journal\<close>

lemma journal_call_same: "journal_call s = (ok, s') \<Longrightarrow> jl_files s' = jl_files s \<and> jl_active s' = jl_active s"
  by (auto simp: journal_call_def split: list.splits)

lemma journal_attempts_same:
  "journal_attempts n s = (e, s') \<Longrightarrow> jl_files s' = jl_files s \<and> jl_active s' = jl_active s"
  by (induction n s rule: journal_attempts.induct) (auto split: prod.splits bool.splits dest: journal_call_same)

lemma journal_try_same: "journal_try s = (e, s') \<Longrightarrow> jl_files s' = jl_files s \<and> jl_active s' = jl_active s"
  unfolding journal_try_def by (rule journal_attempts_same)

lemma journal_sync_same: "journal_sync s = (e, s') \<Longrightarrow> jl_files s' = jl_files s \<and> jl_active s' = jl_active s"
  by (auto simp: journal_sync_def split: list.splits)

lemma journal_at_files: "jl_files s' = jl_files s \<Longrightarrow> journal_at s' = journal_at s"
  by (simp add: journal_at_def fun_eq_iff)

lemma journal_at_put [simp]:
  "journal_at (put_journal i x j s) k y = (if k = i \<and> y = x then Some j else journal_at s k y)"
  by (simp add: journal_at_def put_journal_def update_conv')

lemma journal_at_drop [simp]:
  "journal_at (drop_journal i x s) k y = (if k = i \<and> y = x then None else journal_at s k y)"
  by (simp add: journal_at_def drop_journal_def delete_conv')

lemma put_active [simp]: "jl_active (put_journal i x j s) = jl_active s" "jl_active (drop_journal i x s) = jl_active s"
  by (simp_all add: put_journal_def drop_journal_def)

lemma journal_at_active [simp]: "journal_at (s\<lparr>jl_active := xs\<rparr>) = journal_at s"
  by (simp add: journal_at_def fun_eq_iff)

text \<open>A write that fails leaves the file as it was or already replaced.\<close>

lemma write_journal_at:
  assumes "write_journal i x j s = (e, s')"
  shows "jl_active s' = jl_active s \<and> (\<forall>k y. (k, y) \<noteq> (i, x) \<longrightarrow> journal_at s' k y = journal_at s k y)
    \<and> journal_at s' i x \<in> {journal_at s i x, Some j} \<and> (e = None \<longrightarrow> journal_at s' i x = Some j)"
proof -
  obtain a s1 where a: "journal_attempts 8 s = (a, s1)"
    by (cases "journal_attempts 8 s")
  note same = journal_attempts_same [OF a] journal_at_files [of s1 s]
  show ?thesis
  proof (cases a)
    case None
    then have sync: "journal_sync (put_journal i x j s1) = (e, s')"
      using assms by (simp add: write_journal_def a)
    have "journal_at s' = journal_at (put_journal i x j s1)" "jl_active s' = jl_active s1"
      using journal_sync_same [OF sync] journal_at_files [of s' "put_journal i x j s1"] by simp_all
    then show ?thesis
      using same by auto
  next
    case (Some b)
    then show ?thesis
      using assms same by (auto simp: write_journal_def a)
  qed
qed

lemma read_journal_at:
  assumes "read_journal i x s = (r, s')"
  shows "jl_active s' = jl_active s \<and> journal_at s' = journal_at s
    \<and> (\<forall>j. r = Inr j \<longrightarrow> journal_at s i x = Some j \<and> read_journal_check (x = Committed) j = None)"
proof -
  obtain a s1 where a: "journal_try s = (a, s1)"
    by (cases "journal_try s")
  have same: "jl_active s1 = jl_active s" "journal_at s1 = journal_at s"
    using journal_try_same [OF a] journal_at_files [of s1 s] by auto
  have "s' = s1"
    using assms by (auto simp: read_journal_def a split: option.splits)
  then show ?thesis
    using assms same unfolding read_journal_def a by (auto split: option.splits)
qed

lemma journal_update_at:
  assumes "journal_update i change now s = (None, s')"
  shows "\<exists>j. journal_at s i Pending = Some j \<and> read_journal_check False j = None
    \<and> journal_at s' i Pending = Some ((change j)\<lparr>jr_updated := time_utc now\<rparr>)
    \<and> (\<forall>k y. (k, y) \<noteq> (i, Pending) \<longrightarrow> journal_at s' k y = journal_at s k y)"
proof -
  obtain j s1 where j: "read_journal i Pending s = (Inr j, s1)"
    "write_journal i Pending ((change j)\<lparr>jr_updated := time_utc now\<rparr>) s1 = (None, s')"
    using assms by (auto simp: journal_update_def split: option.splits prod.splits sum.splits)
  then show ?thesis
    using read_journal_at [OF j(1)] write_journal_at [OF j(2)] by auto
qed

section \<open>Committing\<close>

text \<open>What \<open>journal_install\<close> leaves when the pending record is in place and nothing is committed.\<close>

lemma journal_install_at:
  assumes run: "journal_install i j s = (e, s')" and s: "journal_at s i Pending = Some j" "journal_at s i Committed = None"
  shows "(e = None \<longrightarrow> journal_at s' i Committed = Some j \<and> journal_at s' i Pending = None \<and> i \<notin> set (jl_active s'))
    \<and> (e \<noteq> None \<longrightarrow> (journal_at s' i Pending = Some j \<and> journal_at s' i Committed = None)
         \<or> (journal_at s' i Pending = None \<and> journal_at s' i Committed = Some j))"
proof -
  obtain a s1 where a: "journal_try s = (a, s1)"
    by (cases "journal_try s")
  obtain b s2 where b: "journal_try s1 = (b, s2)"
    by (cases "journal_try s1")
  obtain c s3 where c: "journal_sync (move_journal i Pending Committed j s2) = (c, s3)"
    by (cases "journal_sync (move_journal i Pending Committed j s2)")
  obtain d s4 where d: "journal_try s3 = (d, s4)"
    by (cases "journal_try s3")
  have at: "journal_at s1 = journal_at s" "journal_at s2 = journal_at s"
    "journal_at s3 = journal_at (move_journal i Pending Committed j s2)" "journal_at s4 = journal_at s3"
    using journal_try_same [OF a] journal_try_same [OF b] journal_sync_same [OF c] journal_try_same [OF d]
    by (auto intro: journal_at_files)
  have "(e, s') = (if a \<noteq> None then (a, s1) else if b \<noteq> None then (b, s2)
      else if c = None then (None, s3\<lparr>jl_active := removeAll i (jl_active s3)\<rparr>)
      else if d = None then (c, move_journal i Committed Pending j s4)
      else (Some (wrapf [Lit ''restore pending journal after directory sync failure: ''] (the d)), s4))"
    using run s(2) by (auto simp: journal_install_def a b c d at split: option.splits)
  then show ?thesis
    using s by (auto simp: at move_journal_def split: if_splits)
qed

text \<open>
  C8. Committing never loses a transaction and never duplicates it: from a pending record without a
  committed one, whatever fails, exactly one of the two files exists afterwards, success leaves the
  committed one with the admission and the mutations of the pending one, and a committed one always
  carries the receipt.
\<close>

theorem commit_is_atomic:
  assumes "journal_commit r now s = (e, s')" "journal_at s (tr_admission r) Pending = Some j"
    and "journal_at s (tr_admission r) Committed = None"
  shows "(journal_at s' (tr_admission r) Pending = None) \<noteq> (journal_at s' (tr_admission r) Committed = None)
    \<and> (e = None \<longrightarrow> tr_admission r \<notin> set (jl_active s') \<and> (\<exists>j'. journal_at s' (tr_admission r) Committed = Some j'
         \<and> jr_receipt j' = Some r \<and> jr_status j' = ''committed'' \<and> jr_admission j' = jr_admission j
         \<and> jr_mutations j' = jr_mutations j))
    \<and> (\<forall>j'. journal_at s' (tr_admission r) Committed = Some j' \<longrightarrow> jr_receipt j' = Some r)"
proof -
  let ?i = "tr_admission r"
  let ?j = "j\<lparr>jr_status := ''committed'', jr_reason := [], jr_receipt_id := tr_id r, jr_receipt := Some r,
      jr_updated := time_utc now\<rparr>"
  obtain x s1 where x: "read_journal ?i Pending s = (x, s1)"
    by (cases "read_journal ?i Pending s")
  note s1 = read_journal_at [OF x]
  obtain a s2 where a: "write_journal ?i Pending ?j s1 = (a, s2)"
    by (cases "write_journal ?i Pending ?j s1")
  note s2 = write_journal_at [OF a]
  have "(\<exists>f. (e, s') = (Some f, s)) \<or> (\<exists>f. (e, s') = (Some f, s1)) \<or> (a \<noteq> None \<and> (e, s') = (a, s2))
      \<or> (a = None \<and> journal_install ?i ?j s2 = (e, s'))"
    using assms(1,2) s1 a
    by (cases x) (auto simp: journal_commit_def x Let_def split: option.splits if_splits)
  then consider (early) "e \<noteq> None" "journal_at s' = journal_at s" | (wrote) "e \<noteq> None" "s' = s2"
    | (install) "a = None" "journal_install ?i ?j s2 = (e, s')"
    using s1 by auto
  then show ?thesis
  proof cases
    case install
    have "journal_at s2 ?i Pending = Some ?j" "journal_at s2 ?i Committed = None"
      using s1 s2 assms(3) install(1) by auto
    from journal_install_at [OF install(2) this] show ?thesis
      by auto
  next
    case wrote
    then show ?thesis
      using s1 s2 assms(2,3) by auto
  qed (use assms in auto)
qed

section \<open>A committed record can be read\<close>

text \<open>A receipt agrees with its admission in everything the journal compares.\<close>

lemma new_sd_receipt_agrees:
  assumes "new_sd_receipt flow seq program a t target changed effects outputs exercised started committed = Inr r"
    and "ad_transition_version a = tn_version t"
  shows "\<not> receipt_differs a r" "receipt_work_relation a r = None" "committed_bundle_error a r = None"
    "tr_admission r = ad_id a" "tr_transition r = tn_id t" "tr_effects r = sort_facts effects"
    "canonical_facets changed = Inr (tr_facets r)"
proof -
  obtain binding facets r0 h where x:
    "\<forall>e\<in>set (new_receipt_errors flow seq program a target effects started committed). e = None"
    "canonical_facets changed = Inr facets"
    "with_lineage t a target (receipt_draft flow seq program a t target binding facets effects outputs exercised
        started committed) = Inr r0"
    "r = (receipt_runtime t a r0)\<lparr>tr_id := h\<rparr>"
    using new_sd_receipt_Inr [OF assms(1)] by blast
  obtain c p q where r0: "r0 = (receipt_draft flow seq program a t target binding facets effects outputs exercised
      started committed)\<lparr>tr_context := c, tr_prior_invocation := p, tr_resulting_invocation := q\<rparr>"
    using with_lineage_Inr [OF x(3)] by (auto simp: receipt_draft_def Let_def)
  have program: "pf_fingerprint program = ad_expected_program a"
    using x(1) by (simp add: new_receipt_errors_def)
  show "\<not> receipt_differs a r"
    using assms(2) program by (simp add: receipt_differs_def x(4) r0 receipt_draft_def Let_def)
  show "receipt_work_relation a r = None"
    by (simp add: receipt_work_relation_def x(4) r0 receipt_draft_def Let_def)
  show "committed_bundle_error a r = None"
    by (cases "ad_bundle a") (simp_all add: committed_bundle_error_def x(4) r0 receipt_draft_def Let_def)
  show "tr_admission r = ad_id a" "tr_transition r = tn_id t" "tr_effects r = sort_facts effects"
    "canonical_facets changed = Inr (tr_facets r)"
    using x(2) by (simp_all add: x(4) r0 receipt_draft_def Let_def)
qed

text \<open>A pending record that was read, with a receipt that agrees and facts that match, is a readable committed one.\<close>

lemma committed_readable:
  assumes j: "read_journal_check False j = None" "jr_receipt j = None" "jr_admission j = a" "jr_transition j = tn_id t"
    and r: "transition_receipt_validate r = None" "\<not> receipt_differs a r" "receipt_work_relation a r = None"
      "committed_bundle_error a r = None" "tr_admission r = ad_id a" "tr_transition r = tn_id t"
    and facts: "committed_mutation_facts (jr_class j) (jr_mutations j) (tr_facets r) (tr_effects r) = None"
    and j': "j' = j\<lparr>jr_status := ''committed'', jr_reason := [], jr_receipt_id := tr_id r, jr_receipt := Some r,
      jr_updated := now\<rparr>"
  shows "read_journal_check True j' = None"
proof -
  have "ad_schema_version a = admission_schema_version"
    using j by (auto simp: read_journal_check_def read_journal_errors_def legacy_committed_def
        admission_validate_identity_def validate_identity_of_def admission_identity_errors_def admission_fields_bad_def)
  then have legacy: "\<not> legacy_committed True j'" "\<not> legacy_committed False j"
    using j(3) j' by (simp_all add: legacy_committed_def admission_schema_version_def previous_admission_schema_version_def)
  show ?thesis
    using j r facts legacy
    by (auto simp: read_journal_check_def read_journal_errors_def journal_receipt_errors_def j' Let_def)
qed

lemma journal_begin_at:
  assumes "journal_begin layout a t now s = (None, s')"
  shows "\<exists>j. journal_at s' (ad_id a) Pending = Some j \<and> jr_admission j = a \<and> jr_transition j = tn_id t
    \<and> jr_class j = tn_class t \<and> jr_receipt j = None
    \<and> journal_at s' (ad_id a) Committed = journal_at s (ad_id a) Committed"
proof -
  obtain s1 j s2 where x: "journal_try s = (None, s1)" "write_journal (ad_id a) Pending j s1 = (None, s2)"
    "s' = s2\<lparr>jl_active := List.insert (ad_id a) (jl_active s2)\<rparr>"
    "jr_admission j = a" "jr_transition j = tn_id t" "jr_class j = tn_class t" "jr_receipt j = None"
    using assms by (auto simp: journal_begin_def split: option.splits sum.splits prod.splits if_splits)
  have "journal_at s1 = journal_at s"
    using journal_try_same [OF x(1)] by (auto intro: journal_at_files)
  then show ?thesis
    using write_journal_at [OF x(2)] x(3-7) by auto
qed

lemma journal_mark_update:
  "journal_mark i status now s = (None, s') \<Longrightarrow> journal_update i (\<lambda>j. j\<lparr>jr_status := status\<rparr>) now s = (None, s')"
  by (simp add: journal_mark_def split: if_splits)

text \<open>
  C9. What is committed satisfies what readers check. When a transaction is begun, marked, staged
  with the manifest of an effect that then succeeds, marked again, and committed with the receipt
  built from the facts of that effect, the record \<open>Commit\<close> hands to the encoder carries the receipt
  and passes every check that \<open>readJournal\<close> makes of a decoded committed record, and no pending
  record is left. Encoding and decoding are not part of it: a file holds the record that was
  written, which is what decoding gives when every text of it is valid UTF-8.
\<close>

theorem committed_record_checked:
  assumes start: "journal_begin None a t now0 s0 = (None, s1)"
    and executing: "journal_mark (ad_id a) ''executing'' now1 s1 = (None, s2)"
    and stage: "journal_stage (ad_id a) (pe_mutations p) now2 s2 = (None, s3)"
    and effect: "fresh_effect p" "execute p w = ((res, None), p', w')" "er_settlement res \<noteq> ''unknown''"
      "tn_class t = Event_owned_external \<longrightarrow> pe_boundary p \<noteq> None"
    and verifying: "journal_mark (ad_id a) ''verifying'' now3 s3 = (None, s4)"
    and receipt: "new_sd_receipt flow seq program a t target (pe_facets p') (committed_effects p') outputs [] started committed
      = Inr r"
    and commit: "journal_commit r now4 s4 = (None, s5)"
    and bound: "ad_transition_version a = tn_version t" "journal_at s0 (ad_id a) Committed = None"
      "pe_facets p = union_state_facets (map mu_facets (pe_mutations p))"
  shows "\<exists>j. journal_at s5 (ad_id a) Committed = Some j \<and> jr_receipt j = Some r \<and> read_journal_check True j = None
    \<and> journal_at s5 (ad_id a) Pending = None"
proof -
  note agrees = new_sd_receipt_agrees [OF receipt bound(1)]
  obtain j1 where j1: "journal_at s1 (ad_id a) Pending = Some j1" "jr_admission j1 = a" "jr_transition j1 = tn_id t"
    "jr_class j1 = tn_class t" "jr_receipt j1 = None" "journal_at s1 (ad_id a) Committed = None"
    using journal_begin_at [OF start] bound(2) by auto
  have s2: "journal_at s2 (ad_id a) Pending = Some (j1\<lparr>jr_status := ''executing'', jr_updated := time_utc now1\<rparr>)"
    "journal_at s2 (ad_id a) Committed = None"
    using journal_update_at [OF journal_mark_update [OF executing]] j1(1,6) by auto
  have s3: "journal_at s3 (ad_id a) Pending = Some (j1\<lparr>jr_status := ''staged'', jr_mutations := pe_mutations p,
      jr_updated := time_utc now2\<rparr>)" "journal_at s3 (ad_id a) Committed = None"
    using journal_update_at [OF stage [unfolded journal_stage_def]] s2 by auto
  let ?j = "j1\<lparr>jr_status := ''verifying'', jr_mutations := pe_mutations p, jr_updated := time_utc now3\<rparr>"
  have s4: "journal_at s4 (ad_id a) Pending = Some ?j" "journal_at s4 (ad_id a) Committed = None"
    using journal_update_at [OF journal_mark_update [OF verifying]] s3 by auto
  let ?j' = "?j\<lparr>jr_status := ''committed'', jr_reason := [], jr_receipt_id := tr_id r, jr_receipt := Some r,
      jr_updated := time_utc now4\<rparr>"
  obtain x z where x: "read_journal (ad_id a) Pending s4 = (x, z)"
    by (cases "read_journal (ad_id a) Pending s4")
  note read = read_journal_at [OF x]
  have valid: "transition_receipt_validate r = None"
    using commit by (cases "transition_receipt_validate r") (simp_all add: journal_commit_def Let_def)
  then obtain j where "x = Inr j"
    using commit agrees(4) x by (cases x) (auto simp: journal_commit_def Let_def split: option.splits)
  then have j: "x = Inr ?j" "read_journal_check False ?j = None"
    using read s4(1) by auto
  obtain b s' where b: "write_journal (ad_id a) Pending ?j' z = (b, s')"
    by (cases "write_journal (ad_id a) Pending ?j' z")
  have "b = None \<and> journal_install (ad_id a) ?j' s' = (None, s5)"
    using commit agrees(4,5) valid x j j1(2,3) b
    by (auto simp: journal_commit_def Let_def split: option.splits)
  then have install: "journal_install (ad_id a) ?j' s' = (None, s5)" "journal_at s' (ad_id a) Pending = Some ?j'"
    "journal_at s' (ad_id a) Committed = None"
    using write_journal_at [OF b] read s4(2) by auto
  have "committed_mutation_facts (tn_class t) (pe_mutations p) (tr_facets r) (sort_facts (committed_effects p')) = None"
  proof -
    note success = execute_success [OF effect(1-3)]
    have "tr_facets r = union_state_facets (map mu_facets (pe_mutations p))"
      using canonical_facets_Inr [OF agrees(7), of "''facets''"] success bound(3) union_is_normal [of "''facets''"]
      by auto
    then show ?thesis
      using committed_facts_match [of p' "pe_mutations p" "tr_facets r" "tn_class t"] success effect(4) by auto
  qed
  then have "read_journal_check True ?j' = None"
    using j1 agrees valid by (intro committed_readable [OF j(2)]) simp_all
  then show ?thesis
    using journal_install_at [OF install] by auto
qed

end
