(* ===== verification/Delivery_Ledger_Laws.thy ===== *)
theory Delivery_Ledger_Laws
  imports Delivery_Ledger Delivery_Journal_Laws
begin

text \<open>
  The committed records as a ledger: what the queries of \<open>effects/receipts.go\<close> find is exactly what the
  ledger holds, the lineage of a context is reachability along committed advances, and every history
  of the journal only appends to the ledger, with distinct sequence numbers per flow.
\<close>

section \<open>Scans\<close>

text \<open>The records a scan visits, and the fold of its visitor over them.\<close>

definition ledger_record :: "journal_state \<Rightarrow> string \<Rightarrow> committed \<Rightarrow> bool" where
  "ledger_record s i c \<longleftrightarrow> journal_at s i Committed = Some (fst c) \<and> jr_receipt (fst c) = Some (snd c)"

definition ledger :: "journal_state \<Rightarrow> committed set" where
  "ledger s = {c. \<exists>i. ledger_record s i c}"

fun visit_all :: "(committed \<Rightarrow> 'a \<Rightarrow> gerror + 'a) \<Rightarrow> committed list \<Rightarrow> 'a \<Rightarrow> gerror + 'a" where
  "visit_all visit [] acc = Inr acc"
| "visit_all visit (c # cs) acc = (case visit c acc of Inl e \<Rightarrow> Inl e | Inr acc' \<Rightarrow> visit_all visit cs acc')"

lemma ledger_record_unique: "ledger_record s i c \<Longrightarrow> ledger_record s i c' \<Longrightarrow> c = c'"
  by (auto simp: ledger_record_def prod_eq_iff)

lemma ledger_record_same: "journal_at s' = journal_at s \<Longrightarrow> ledger_record s' = ledger_record s"
  by (simp add: ledger_record_def fun_eq_iff)

lemma list_all2_left: "list_all2 P xs ys \<Longrightarrow> x \<in> set xs \<Longrightarrow> \<exists>y\<in>set ys. P x y"
  by (induction rule: list_all2_induct) auto

lemma list_all2_right: "list_all2 P xs ys \<Longrightarrow> y \<in> set ys \<Longrightarrow> \<exists>x\<in>set xs. P x y"
  by (induction rule: list_all2_induct) auto

lemma scan_committed_Inr:
  assumes "scan_committed visit is acc s = (Inr acc', s')"
  shows "journal_at s' = journal_at s \<and> jl_active s' = jl_active s
    \<and> (\<exists>cs. list_all2 (ledger_record s) is cs \<and> visit_all visit cs acc = Inr acc')"
  using assms
proof (induction "is" arbitrary: acc s)
  case (Cons i "is")
  obtain j s1 r acc1 where x: "read_journal i Committed s = (Inr j, s1)" "jr_receipt j = Some r"
    "visit (j, r) acc = Inr acc1" "scan_committed visit is acc1 s1 = (Inr acc', s')"
    using Cons.prems by (auto split: prod.splits sum.splits option.splits)
  have j: "jl_active s1 = jl_active s" "journal_at s1 = journal_at s" "ledger_record s i (j, r)"
    using read_journal_at [OF x(1)] x(2) by (auto simp: ledger_record_def)
  obtain cs where cs: "list_all2 (ledger_record s1) is cs" "visit_all visit cs acc1 = Inr acc'"
    and same: "journal_at s' = journal_at s1" "jl_active s' = jl_active s1"
    using Cons.IH [OF x(4)] by blast
  have "list_all2 (ledger_record s) is cs"
    using cs(1) ledger_record_same [OF j(2)] by simp
  then show ?case
    using j cs(2) same x(3) by (intro conjI exI [of _ "(j, r) # cs"]) simp_all
qed simp

lemma committed_admissions_set: "set (committed_admissions s) = {i. \<exists>j. journal_at s i Committed = Some j}"
proof -
  have "i \<in> set (committed_admissions s) \<longleftrightarrow> (i, Committed) \<in> fst ` set (jl_files s)" for i
    by (force simp: committed_admissions_def)
  then show ?thesis
    by (auto simp: journal_at_def map_of_eq_None_iff simp flip: not_None_eq)
qed

lemma committed_admissions_distinct: "distinct (committed_admissions s)"
  by (simp add: committed_admissions_def)

text \<open>A scan that succeeds has folded its visitor over exactly the ledger, each record once.\<close>

definition lists_ledger :: "journal_state \<Rightarrow> committed list \<Rightarrow> bool" where
  "lists_ledger s cs \<longleftrightarrow> (\<exists>is. distinct is \<and> list_all2 (ledger_record s) is cs) \<and> set cs = ledger s"

lemma scan_ledger:
  assumes "scan_committed_receipts visit acc s = (Inr acc', s')"
  shows "journal_at s' = journal_at s \<and> jl_active s' = jl_active s
    \<and> (\<exists>cs. lists_ledger s cs \<and> visit_all visit cs acc = Inr acc')"
proof -
  obtain s1 where s1: "journal_try s = (None, s1)" "scan_committed visit (committed_admissions s1) acc s1 = (Inr acc', s')"
    using assms by (auto simp: scan_committed_receipts_def split: prod.splits option.splits)
  have same: "journal_at s1 = journal_at s" "jl_active s1 = jl_active s"
    using journal_try_same [OF s1(1)] by (auto intro: journal_at_files)
  obtain cs where cs: "list_all2 (ledger_record s) (committed_admissions s1) cs" "visit_all visit cs acc = Inr acc'"
    and s': "journal_at s' = journal_at s1" "jl_active s' = jl_active s1"
    using scan_committed_Inr [OF s1(2)] ledger_record_same [OF same(1)] by auto
  have "c \<in> set cs" if c: "ledger_record s i c" for i c
  proof -
    have "i \<in> set (committed_admissions s1)"
      using c same by (auto simp: committed_admissions_set ledger_record_def)
    then obtain c' where "c' \<in> set cs" "ledger_record s i c'"
      using list_all2_left [OF cs(1)] by blast
    then show ?thesis
      using ledger_record_unique [OF c] by simp
  qed
  moreover have "\<exists>i. ledger_record s i c" if "c \<in> set cs" for c
    using list_all2_right [OF cs(1) that] by blast
  moreover have "\<exists>is. distinct is \<and> list_all2 (ledger_record s) is cs"
    using cs(1) committed_admissions_distinct by blast
  ultimately have "lists_ledger s cs"
    by (auto simp: ledger_def lists_ledger_def)
  then show ?thesis
    using cs(2) same s' by auto
qed

lemma visit_all_append_one: "visit_all (\<lambda>c acc. Inr (acc @ [c])) cs acc = Inr (acc @ cs)"
  by (induction cs arbitrary: acc) simp_all

lemma committed_records_ledger: "committed_records s = (Inr records, s') \<Longrightarrow> lists_ledger s records"
  by (auto simp: committed_records_def visit_all_append_one dest!: scan_ledger)

section \<open>The lineage of a context\<close>

text \<open>The contexts reached from one by a set of committed advances, in any order.\<close>

inductive descends :: "transition_receipt set \<Rightarrow> string \<Rightarrow> string \<Rightarrow> bool" for R k0 where
  descends_start: "descends R k0 k0"
| descends_advance: "descends R k0 (context_key q)"
    if "descends R k0 (context_key p)" "r \<in> R" "tr_prior_invocation r = Some p" "tr_resulting_invocation r = Some q"

text \<open>The advances that count: those after the last return to the approved context.\<close>

definition later_advances :: "committed list \<Rightarrow> string \<Rightarrow> invocation \<Rightarrow> transition_receipt set" where
  "later_advances records flow initial = {r \<in> set (flow_receipts records flow). advances r \<and> 0 < tr_sequence r
     \<and> (\<forall>x \<in> set (flow_receipts records flow). advance_into initial x \<longrightarrow> tr_sequence x < tr_sequence r)}"

text \<open>An advance continues the lineage when it leaves a context that earlier advances reach.\<close>

definition continues :: "invocation \<Rightarrow> transition_receipt set \<Rightarrow> transition_receipt \<Rightarrow> bool" where
  "continues initial R r \<longleftrightarrow> (\<exists>p q. tr_prior_invocation r = Some p \<and> tr_resulting_invocation r = Some q
     \<and> same_repository p initial \<and> same_repository q initial
     \<and> descends {x \<in> R. tr_sequence x < tr_sequence r} (context_key initial) (context_key p))"

lemma descends_mono: "descends R k0 k \<Longrightarrow> R \<subseteq> R' \<Longrightarrow> descends R' k0 k"
  by (induction rule: descends.induct) (auto intro: descends.intros)

text \<open>Contexts that contain the start and every result of their advances are not left by one more advance.\<close>

lemma descends_insert:
  assumes ks: "\<And>k. k \<in> ks \<longleftrightarrow> descends R k0 k"
    and results: "\<forall>x\<in>R. \<forall>b. tr_resulting_invocation x = Some b \<longrightarrow> context_key b \<in> ks"
    and r: "tr_prior_invocation r = Some p" "tr_resulting_invocation r = Some q" "context_key p \<in> ks"
  shows "k \<in> insert (context_key q) ks \<longleftrightarrow> descends (insert r R) k0 k"
proof
  assume "k \<in> insert (context_key q) ks"
  moreover have "descends (insert r R) k0 x" if "x \<in> ks" for x
    using that ks descends_mono by blast
  ultimately show "descends (insert r R) k0 k"
    using r descends_advance [of "insert r R" k0 p r q] by auto
next
  assume "descends (insert r R) k0 k"
  then show "k \<in> insert (context_key q) ks"
    by (induction rule: descends.induct) (use ks results r in \<open>auto intro: descends_start\<close>)
qed

lemma anchor_sequence_less:
  "anchor_sequence initial a rs < n \<longleftrightarrow> a < n \<and> (\<forall>x\<in>set rs. advance_into initial x \<longrightarrow> tr_sequence x < n)"
  by (induction rs arbitrary: a) auto

lemma replay_exact:
  assumes "sorted_wrt (\<lambda>x y. tr_sequence x < tr_sequence y) rs" "\<forall>x\<in>P. \<forall>y\<in>set rs. tr_sequence x < tr_sequence y"
    and "\<And>k. k \<in> set ks \<longleftrightarrow> descends P (context_key initial) k"
    and "\<forall>x\<in>P. \<forall>b. tr_resulting_invocation x = Some b \<longrightarrow> context_key b \<in> set ks"
    and "L = P \<union> {r \<in> set rs. advances r \<and> anchor < tr_sequence r}"
  shows "(\<forall>r \<in> L - P. continues initial L r) \<longleftrightarrow> (\<exists>ks'. replay_lineage initial anchor ks rs = Inr ks')"
    and "replay_lineage initial anchor ks rs = Inr ks' \<Longrightarrow> k \<in> set ks' \<longleftrightarrow> descends L (context_key initial) k"
proof -
  have "((\<forall>r \<in> L - P. continues initial L r) \<longleftrightarrow> (\<exists>ks'. replay_lineage initial anchor ks rs = Inr ks'))
    \<and> (\<forall>ks'. replay_lineage initial anchor ks rs = Inr ks' \<longrightarrow> (\<forall>k. k \<in> set ks' \<longleftrightarrow> descends L (context_key initial) k))"
    using assms
  proof (induction rs arbitrary: P ks)
    case (Cons r rs)
    show ?case
    proof (cases "advances r \<and> anchor < tr_sequence r")
      case False
      then have "L = P \<union> {r \<in> set rs. advances r \<and> anchor < tr_sequence r}"
        using Cons.prems(5) by auto
      from Cons.IH [OF _ _ Cons.prems(3,4) this] show ?thesis
        using Cons.prems(1,2) False by (auto simp: not_less)
    next
      case True
      then have P: "{x \<in> L. tr_sequence x < tr_sequence r} = P" "r \<notin> P"
        and L: "L = insert r P \<union> {r \<in> set rs. advances r \<and> anchor < tr_sequence r}" "L - P = insert r (L - insert r P)"
        using Cons.prems(1,2,5) by auto
      have continues: "continues initial L r \<longleftrightarrow> (\<exists>p q. tr_prior_invocation r = Some p \<and> tr_resulting_invocation r = Some q
          \<and> same_repository p initial \<and> same_repository q initial \<and> context_key p \<in> set ks)"
        by (simp add: continues_def P(1) Cons.prems(3))
      show ?thesis
      proof (cases "continues initial L r")
        case bad: False
        then have "replay_lineage initial anchor ks (r # rs) = Inl (errorf [Lit ''delegation receipt lineage is invalid at '', Lit (tr_id r)])"
          using True continues by (auto simp: Let_def not_le split: option.splits)
        then show ?thesis
          using bad L(2) by auto
      next
        case good: True
        then obtain p q where pq: "tr_prior_invocation r = Some p" "tr_resulting_invocation r = Some q"
          "same_repository p initial" "same_repository q initial" "context_key p \<in> set ks"
          using continues by auto
        then have "replay_lineage initial anchor ks (r # rs) = replay_lineage initial anchor (context_key q # ks) rs"
          using True by (auto dest: leD)
        moreover have "k \<in> set (context_key q # ks) \<longleftrightarrow> descends (insert r P) (context_key initial) k" for k
          using descends_insert [OF Cons.prems(3,4) pq(1,2,5)] by simp
        moreover have "\<forall>x\<in>insert r P. \<forall>b. tr_resulting_invocation x = Some b \<longrightarrow> context_key b \<in> set (context_key q # ks)"
          using Cons.prems(4) pq(2) by auto
        ultimately show ?thesis
          using Cons.IH [of "insert r P" "context_key q # ks", OF _ _ _ _ L(1)] Cons.prems(1,2) good L(2) by auto
      qed
    qed
  qed auto
  then show "(\<forall>r \<in> L - P. continues initial L r) \<longleftrightarrow> (\<exists>ks'. replay_lineage initial anchor ks rs = Inr ks')"
    and "replay_lineage initial anchor ks rs = Inr ks' \<Longrightarrow> k \<in> set ks' \<longleftrightarrow> descends L (context_key initial) k"
    by blast+
qed

text \<open>
  C19. An invocation is authorized exactly when it descends from the approved one. Over a ledger with
  distinct sequence numbers, the check returns an answer exactly when every advance since the last
  return to the approved context leaves a context that earlier advances reach, inside the approved
  repository; the answer is then whether those advances reach the current context.
\<close>

theorem lineage_exact:
  assumes "distinct (map tr_sequence (flow_receipts records flow))"
  shows "invocation_authorized_by_records records flow initial current = Inr b
    \<longleftrightarrow> (\<forall>r \<in> later_advances records flow initial. continues initial (later_advances records flow initial) r)
      \<and> b = (same_repository current initial
             \<and> descends (later_advances records flow initial) (context_key initial) (context_key current))"
proof -
  let ?rs = "flow_receipts records flow"
  let ?a = "anchor_sequence initial 0 ?rs"
  have order: "sorted_wrt (\<lambda>x y. tr_sequence x < tr_sequence y) ?rs"
    using assms by (simp add: flow_receipts_def strict_sorted_iff flip: sorted_wrt_map)
  have L: "later_advances records flow initial = {} \<union> {r \<in> set ?rs. advances r \<and> ?a < tr_sequence r}"
    by (auto simp: later_advances_def anchor_sequence_less)
  have start: "k \<in> set [context_key initial] \<longleftrightarrow> descends {} (context_key initial) k" for k
    by (auto elim: descends.cases intro: descends_start)
  note replay = replay_exact [OF order _ start _ L]
  show ?thesis
    using replay(1) replay(2)
    by (auto simp: invocation_authorized_by_records_def Let_def split: sum.splits)
qed

section \<open>The ledger only grows\<close>

text \<open>What no operation but committing does: change a committed record.\<close>

definition keeps_committed :: "journal_state \<Rightarrow> journal_state \<Rightarrow> bool" where
  "keeps_committed s s' \<longleftrightarrow> (\<forall>i. journal_at s' i Committed = journal_at s i Committed)"

lemma keeps_committed_trans [trans]: "keeps_committed s s1 \<Longrightarrow> keeps_committed s1 s2 \<Longrightarrow> keeps_committed s s2"
  by (simp add: keeps_committed_def)

lemma keeps_committed_same: "journal_at s' = journal_at s \<Longrightarrow> keeps_committed s s'"
  by (simp add: keeps_committed_def)

lemma keeps_committed_try: "journal_try s = (e, s') \<Longrightarrow> keeps_committed s s'"
  by (blast intro: keeps_committed_same journal_at_files dest: journal_try_same)

lemma keeps_committed_read: "read_journal i x s = (r, s') \<Longrightarrow> keeps_committed s s'"
  by (blast intro: keeps_committed_same dest: read_journal_at)

lemma keeps_committed_write: "write_journal i x j s = (e, s') \<Longrightarrow> x \<noteq> Committed \<Longrightarrow> keeps_committed s s'"
  using write_journal_at [of i x j s e s'] by (auto simp: keeps_committed_def)

lemmas keeps_committed_calls = keeps_committed_try keeps_committed_read keeps_committed_write

lemma keeps_committed_begin:
  assumes "journal_begin layout a t now s = (e, s')"
  shows "keeps_committed s s'"
proof -
  have "s' = s \<or> (\<exists>s1 e1. journal_try s = (e1, s1) \<and> (s' = s1 \<or> (\<exists>j s2 e2. write_journal (ad_id a) Pending j s1 = (e2, s2)
      \<and> (s' = s2 \<or> s' = s2\<lparr>jl_active := List.insert (ad_id a) (jl_active s2)\<rparr>))))"
    using assms by (auto simp: journal_begin_def split: option.splits sum.splits prod.splits if_splits)
  then show ?thesis
    by (auto simp: keeps_committed_def dest!: keeps_committed_try keeps_committed_write)
qed

lemma keeps_committed_update:
  assumes "journal_update i change now s = (e, s')"
  shows "keeps_committed s s'"
proof -
  have "s' = s \<or> (\<exists>s1 r. read_journal i Pending s = (r, s1) \<and> (s' = s1 \<or> (\<exists>j. write_journal i Pending j s1 = (e, s'))))"
    using assms by (auto simp: journal_update_def split: option.splits sum.splits prod.splits)
  then show ?thesis
    by (auto simp: keeps_committed_def dest!: keeps_committed_read keeps_committed_write)
qed

lemma keeps_committed_mark: "journal_mark i status now s = (e, s') \<Longrightarrow> keeps_committed s s'"
  by (auto simp: journal_mark_def keeps_committed_same split: if_splits dest: keeps_committed_update)

lemma keeps_committed_abort:
  assumes "journal_abort i reason now s = (e, s')"
  shows "keeps_committed s s'"
proof -
  have "s' = s \<or> (\<exists>s1 r. read_journal i Pending s = (r, s1) \<and> (s' = s1 \<or> (\<exists>j s2 e2. write_journal i Aborted j s1 = (e2, s2)
      \<and> (s' = s2 \<or> (\<exists>s3 e3. journal_try s2 = (e3, s3)
          \<and> (s' = s3 \<or> s' = (drop_journal i Pending s3)\<lparr>jl_active := removeAll i (jl_active s3)\<rparr>))))))"
    using assms by (auto simp: journal_abort_def split: option.splits sum.splits prod.splits)
  then show ?thesis
    by (auto simp: keeps_committed_def dest!: keeps_committed_read keeps_committed_write keeps_committed_try)
qed

text \<open>Committing adds at most the record of its receipt.\<close>

definition adds_only :: "string \<Rightarrow> journal_record \<Rightarrow> journal_state \<Rightarrow> journal_state \<Rightarrow> bool" where
  "adds_only i j s s' \<longleftrightarrow> (\<forall>k. journal_at s' k Committed = journal_at s k Committed
     \<or> (k = i \<and> journal_at s k Committed = None \<and> journal_at s' k Committed = Some j))"

lemma adds_only_keeps: "keeps_committed s s' \<Longrightarrow> adds_only i j s s'"
  by (simp add: keeps_committed_def adds_only_def)

lemma adds_only_after: "keeps_committed s s1 \<Longrightarrow> adds_only i j s1 s' \<Longrightarrow> adds_only i j s s'"
  by (simp add: keeps_committed_def adds_only_def)

lemma journal_install_adds:
  assumes "journal_install i j s = (e, s')"
  shows "adds_only i j s s'"
proof -
  obtain a s1 where a: "journal_try s = (a, s1)"
    by (cases "journal_try s")
  obtain b s2 where b: "journal_try s1 = (b, s2)"
    by (cases "journal_try s1")
  obtain c s3 where c: "journal_sync (move_journal i Pending Committed j s2) = (c, s3)"
    by (cases "journal_sync (move_journal i Pending Committed j s2)")
  obtain d s4 where d: "journal_try s3 = (d, s4)"
    by (cases "journal_try s3")
  have at: "journal_at s1 = journal_at s" "journal_at s2 = journal_at s"
    "journal_at s3 = journal_at (move_journal i Pending Committed j s2)" "journal_at s4 = journal_at s3"
    using journal_try_same [OF a] journal_try_same [OF b] journal_sync_same [OF c] journal_try_same [OF d]
    by (auto intro: journal_at_files)
  have "s' = s1 \<or> s' = s2 \<or> (journal_at s i Committed = None \<and> (s' = s3\<lparr>jl_active := removeAll i (jl_active s3)\<rparr>
      \<or> s' = move_journal i Committed Pending j s4 \<or> s' = s4))"
    using assms by (auto simp: journal_install_def a b c d at split: option.splits if_splits)
  then show ?thesis
    by (auto simp: adds_only_def at move_journal_def split: if_splits)
qed

lemma journal_commit_adds:
  assumes "journal_commit r now s = (e, s')"
  shows "\<exists>j. jr_receipt j = Some r \<and> adds_only (tr_admission r) j s s'"
    and "keeps_committed s s' \<or> transition_receipt_validate r = None"
proof -
  let ?i = "tr_admission r"
  let ?commit = "\<lambda>j. j\<lparr>jr_status := ''committed'', jr_reason := [], jr_receipt_id := tr_id r, jr_receipt := Some r,
      jr_updated := time_utc now\<rparr>"
  have "s' = s \<or> (\<exists>x s1. read_journal ?i Pending s = (x, s1)
      \<and> (s' = s1 \<or> (\<exists>j a s2. write_journal ?i Pending (?commit j) s1 = (a, s2)
           \<and> (s' = s2 \<or> journal_install ?i (?commit j) s2 = (e, s')))))"
    using assms by (auto simp: journal_commit_def Let_def split: option.splits sum.splits prod.splits if_splits)
  then show "\<exists>j. jr_receipt j = Some r \<and> adds_only ?i j s s'"
  proof (elim disjE exE conjE)
    fix x s1 j a s2
    assume "read_journal ?i Pending s = (x, s1)" "write_journal ?i Pending (?commit j) s1 = (a, s2)"
      "journal_install ?i (?commit j) s2 = (e, s')"
    then have "adds_only ?i (?commit j) s s'"
      by (blast intro: adds_only_after keeps_committed_read keeps_committed_write journal_install_adds)
    then show ?thesis
      by (intro exI [of _ "?commit j"]) simp
  qed (auto intro!: exI [of _ "?commit undefined"] adds_only_keeps
      intro: keeps_committed_same keeps_committed_trans keeps_committed_read keeps_committed_write)
  show "keeps_committed s s' \<or> transition_receipt_validate r = None"
    using assms by (auto simp: journal_commit_def keeps_committed_same split: option.splits)
qed

text \<open>The next sequence number is above every committed one of the flow, unless it has wrapped around to zero.\<close>

lemma raise_maximum_all:
  "visit_all (raise_maximum flow) cs m = Inr m' \<Longrightarrow> m \<le> m' \<and> (\<forall>c\<in>set cs. tr_flow (snd c) = flow \<longrightarrow> tr_sequence (snd c) \<le> m')"
proof (induction cs arbitrary: m)
  case (Cons c cs)
  let ?m = "if tr_flow (snd c) = flow \<and> m < tr_sequence (snd c) then tr_sequence (snd c) else m"
  have "?m \<le> m' \<and> (\<forall>c\<in>set cs. tr_flow (snd c) = flow \<longrightarrow> tr_sequence (snd c) \<le> m')"
    using Cons.prems by (intro Cons.IH) (simp add: raise_maximum_def Let_def)
  then show ?case
    by (auto split: if_splits intro: order_trans less_imp_le)
qed simp

lemma next_sequence_above:
  assumes "next_sequence flow store s = (Inr n, s')" "n \<noteq> 0" "c \<in> ledger s" "tr_flow (snd c) = flow"
  shows "tr_sequence (snd c) < n"
proof -
  obtain m where m: "scan_committed_receipts (raise_maximum flow) 0 s = (Inr m, s')" "n = m + 1"
    using assms(1) by (auto simp: next_sequence_def split: sum.splits prod.splits)
  then have "tr_sequence (snd c) \<le> m"
    using scan_ledger [OF m(1)] assms(3,4) raise_maximum_all by (fastforce simp: lists_ledger_def)
  also have "m < n"
    using assms(2) unatSuc [of m] by (simp add: m(2) word_less_nat_alt add.commute)
  finally show ?thesis .
qed

lemma next_sequence_keeps:
  assumes "next_sequence flow store s = (Inr n, s')"
  shows "journal_at s' = journal_at s"
proof -
  obtain m where "scan_committed_receipts (raise_maximum flow) 0 s = (Inr m, s')"
    using assms by (auto simp: next_sequence_def split: sum.splits prod.splits)
  from scan_ledger [OF this] show ?thesis
    by blast
qed

section \<open>Histories of the journal\<close>

text \<open>
  What the engine does with the journal, whatever the calls answer. A receipt is numbered and then
  committed in one serialized run.
\<close>

inductive journal_step :: "journal_state \<Rightarrow> journal_state \<Rightarrow> bool" where
  step_begin: "journal_begin layout a t now s = (e, s') \<Longrightarrow> journal_step s s'"
| step_stage: "journal_stage i ms now s = (e, s') \<Longrightarrow> journal_step s s'"
| step_mark: "journal_mark i status now s = (e, s') \<Longrightarrow> journal_step s s'"
| step_abort: "journal_abort i reason now s = (e, s') \<Longrightarrow> journal_step s s'"
| step_recovery: "journal_require_recovery i reason now s = (e, s') \<Longrightarrow> journal_step s s'"
| step_commit: "next_sequence (tr_flow r) store s = (Inr (tr_sequence r), s1) \<Longrightarrow> journal_commit r now s1 = (e, s')
    \<Longrightarrow> journal_step s s'"

definition ledger_numbered :: "journal_state \<Rightarrow> bool" where
  "ledger_numbered s \<longleftrightarrow> (\<forall>i k c d. ledger_record s i c \<longrightarrow> ledger_record s k d \<longrightarrow> i \<noteq> k
     \<longrightarrow> tr_flow (snd c) = tr_flow (snd d) \<longrightarrow> tr_sequence (snd c) \<noteq> tr_sequence (snd d))"

text \<open>A step keeps the ledger, or adds one record numbered above every one of its flow.\<close>

lemma journal_step_ledger:
  assumes "journal_step s s'"
  shows "keeps_committed s s' \<or> (\<exists>i r j. adds_only i j s s' \<and> jr_receipt j = Some r
    \<and> (\<forall>c \<in> ledger s. tr_flow (snd c) = tr_flow r \<longrightarrow> tr_sequence (snd c) < tr_sequence r))"
  using assms
proof cases
  case (step_commit r store s1 now e)
  have same: "journal_at s1 = journal_at s"
    using next_sequence_keeps [OF step_commit(1)] .
  obtain j where j: "jr_receipt j = Some r" "adds_only (tr_admission r) j s s'"
    using journal_commit_adds(1) [OF step_commit(2)] by (auto simp: adds_only_def same)
  consider "keeps_committed s s'" | "tr_sequence r \<noteq> 0"
    using journal_commit_adds(2) [OF step_commit(2)]
    by (auto simp: keeps_committed_def same transition_receipt_validate_def receipt_validate_schema_def
        receipt_errors_def sd_receipt_incomplete_def)
  then show ?thesis
    using j next_sequence_above [OF step_commit(1)] by cases blast+
qed (auto simp: journal_stage_def journal_require_recovery_def
    dest: keeps_committed_begin keeps_committed_update keeps_committed_mark keeps_committed_abort)

text \<open>
  C10. The ledger of committed receipts is append-only and numbered: along every history of the
  journal, whatever fails in it, a committed record stays what it is, the receipts of one flow keep
  distinct sequence numbers, and a receipt committed later has a number above those committed before.
\<close>

theorem ledger_grows:
  assumes "journal_step\<^sup>*\<^sup>* s s'" "ledger_numbered s"
  shows "ledger_numbered s' \<and> (\<forall>i c. ledger_record s i c \<longrightarrow> ledger_record s' i c)
    \<and> (\<forall>c \<in> ledger s' - ledger s. \<forall>d \<in> ledger s. tr_flow (snd c) = tr_flow (snd d) \<longrightarrow> tr_sequence (snd d) < tr_sequence (snd c))"
  using assms(1)
proof (induction rule: rtranclp_induct)
  case base
  then show ?case
    using assms(2) by simp
next
  case (step s1 s2)
  have kept: "\<forall>d \<in> ledger s. d \<in> ledger s1"
    using step.IH by (auto simp: ledger_def)
  consider "keeps_committed s1 s2" | i r j where "adds_only i j s1 s2" "jr_receipt j = Some r"
    "\<forall>c \<in> ledger s1. tr_flow (snd c) = tr_flow r \<longrightarrow> tr_sequence (snd c) < tr_sequence r"
    using journal_step_ledger [OF step.hyps(2)] by blast
  then show ?case
  proof cases
    case 1
    then have "ledger_record s2 = ledger_record s1"
      by (simp add: keeps_committed_def ledger_record_def fun_eq_iff)
    then show ?thesis
      using step.IH by (simp add: ledger_numbered_def ledger_def)
  next
    case (2 i r j)
    have old: "ledger_record s1 k c \<Longrightarrow> ledger_record s2 k c" for k c
      using 2(1) unfolding ledger_record_def adds_only_def by (metis option.distinct(1))
    have grown: "ledger_record s1 k c \<or> (k = i \<and> c = (j, r))" if "ledger_record s2 k c" for k c
    proof -
      have "journal_at s2 k Committed = journal_at s1 k Committed \<or> (k = i \<and> journal_at s2 k Committed = Some j)"
        using 2(1) unfolding adds_only_def by blast
      then show ?thesis
        using that 2(2) by (auto simp: ledger_record_def prod_eq_iff)
    qed
    have above: "tr_sequence (snd c) < tr_sequence r" if "ledger_record s1 k c" "tr_flow (snd c) = tr_flow r" for k c
      using that 2(3) unfolding ledger_def by blast
    have numbered: "ledger_numbered s2"
      unfolding ledger_numbered_def using step.IH grown above
      by (metis ledger_numbered_def less_irrefl snd_conv)
    have "ledger s2 \<subseteq> insert (j, r) (ledger s1)"
      using grown by (auto simp: ledger_def)
    then have later: "tr_sequence (snd d) < tr_sequence (snd c)"
      if "c \<in> ledger s2 - ledger s" "d \<in> ledger s" "tr_flow (snd c) = tr_flow (snd d)" for c d
      using that step.IH 2(3) kept by (cases "c = (j, r)") (auto simp del: split_paired_All split_paired_Ex)
    then show ?thesis
      using step.IH numbered old by blast
  qed
qed

text \<open>The receipts of a flow read from a numbered ledger have distinct sequence numbers.\<close>

lemma ledger_sequences_distinct:
  assumes "ledger_numbered s" "lists_ledger s records"
  shows "distinct (map tr_sequence (flow_receipts records flow))"
proof -
  obtain "is" where "is": "distinct is" "list_all2 (ledger_record s) is records"
    using assms(2) by (auto simp: lists_ledger_def)
  have "distinct (map tr_sequence (filter (\<lambda>r. tr_flow r = flow) (map snd records)))"
    using "is"(2,1)
  proof (induction rule: list_all2_induct)
    case (Cons i "is" c cs)
    have fresh: "tr_sequence (snd c) \<noteq> tr_sequence (snd d)" if d: "d \<in> set cs" "tr_flow (snd c) = tr_flow (snd d)" for d
    proof -
      obtain k where "k \<in> set is" "ledger_record s k d"
        using list_all2_right [OF Cons.hyps(2) d(1)] by blast
      moreover from this have "i \<noteq> k"
        using Cons.prems by auto
      ultimately show ?thesis
        using Cons.hyps(1) assms(1) d(2) unfolding ledger_numbered_def by blast
    qed
    have "distinct (map tr_sequence (filter (\<lambda>r. tr_flow r = flow) (map snd cs)))"
      using Cons.IH Cons.prems by simp
    then show ?case
      using fresh by force
  qed simp
  then show ?thesis
    by (simp add: flow_receipts_def distinct_map)
qed

section \<open>What the queries find\<close>

lemma match_key_all:
  "visit_all (match_key key) cs found = Inr found' \<Longrightarrow> (\<forall>f. found = Some f \<longrightarrow> tr_idempotency f = key) \<Longrightarrow>
    (case found' of None \<Rightarrow> found = None \<and> (\<forall>c\<in>set cs. tr_idempotency (snd c) \<noteq> key)
     | Some r \<Rightarrow> (found = Some r \<or> r \<in> snd ` set cs) \<and> tr_idempotency r = key
         \<and> (\<forall>f. found = Some f \<longrightarrow> tr_id f = tr_id r)
         \<and> (\<forall>c\<in>set cs. tr_idempotency (snd c) = key \<longrightarrow> tr_id (snd c) = tr_id r))"
proof (induction cs arbitrary: found)
  case (Cons c cs)
  obtain f where f: "match_key key c found = Inr f" "visit_all (match_key key) cs f = Inr found'"
    using Cons.prems(1) by (auto split: sum.splits)
  have step: "f = (if tr_idempotency (snd c) = key then Some (snd c) else found)
    \<and> (tr_idempotency (snd c) = key \<longrightarrow> (\<forall>g. found = Some g \<longrightarrow> tr_id g = tr_id (snd c)))"
    using f(1) by (auto simp: match_key_def Let_def split: if_splits option.splits)
  then show ?case
    using Cons.IH [OF f(2)] Cons.prems(2) by (auto split: option.splits if_splits)
qed (auto split: option.splits)

text \<open>
  C23. A repeated request is recognised by its idempotency key. A lookup that returns has either found
  a committed receipt with the key, and then it is the only committed fact with it, or there is none.
\<close>

theorem idempotency_exact:
  assumes "find_by_idempotency layout key s = (Inr found, s')" "key \<noteq> []"
  shows "case found of None \<Rightarrow> \<forall>c \<in> ledger s. tr_idempotency (snd c) \<noteq> key
    | Some r \<Rightarrow> r \<in> snd ` ledger s \<and> tr_idempotency r = key
        \<and> (\<forall>c \<in> ledger s. tr_idempotency (snd c) = key \<longrightarrow> tr_id (snd c) = tr_id r)"
proof -
  have "scan_committed_receipts (match_key key) None s = (Inr found, s')"
    using assms by (auto simp: find_by_idempotency_def split: option.splits)
  from scan_ledger [OF this] obtain cs where "set cs = ledger s" "visit_all (match_key key) cs None = Inr found"
    by (auto simp: lists_ledger_def)
  then show ?thesis
    using match_key_all [of key cs None found] by (auto split: option.splits)
qed

text \<open>An occurrence that the selector may choose: a producer whose state descends to the current one.\<close>

definition eligible :: "committed list \<Rightarrow> work_selector \<Rightarrow> committed \<Rightarrow> bool" where
  "eligible records q c \<longleftrightarrow> producer_of q (snd c)
     \<and> record_authorized records (sel_flow q) (ad_invocation (jr_admission (fst c))) (sel_invocation q) = Inr True"

definition latest_of :: "(committed \<Rightarrow> bool) \<Rightarrow> committed \<Rightarrow> committed set \<Rightarrow> bool" where
  "latest_of P c cs \<longleftrightarrow> c \<in> cs \<and> P c \<and> (\<forall>d \<in> cs. P d \<longrightarrow> tr_sequence (snd d) < tr_sequence (snd c) \<or> tr_id (snd d) = tr_id (snd c)
      \<and> tr_sequence (snd d) = tr_sequence (snd c))"

lemma select_producer_latest:
  assumes "select_producer records q selected cs = Inr found" "\<forall>c. selected = Some c \<longrightarrow> eligible records q c"
  shows "case found of None \<Rightarrow> selected = None \<and> (\<forall>c\<in>set cs. \<not> eligible records q c)
    | Some c \<Rightarrow> latest_of (eligible records q) c (set_option selected \<union> set cs)"
  using assms
proof (induction cs arbitrary: selected)
  case (Cons c cs)
  show ?case
  proof (cases "eligible records q c")
    case False
    then have "select_producer records q selected cs = Inr found"
      using Cons.prems(1) by (cases c) (auto simp: eligible_def split: if_splits sum.splits bool.splits)
    from Cons.IH [OF this Cons.prems(2)] show ?thesis
      using False by (auto simp: latest_of_def split: option.splits)
  next
    case True
    consider "selected = None" "select_producer records q (Some c) cs = Inr found"
      | d where "selected = Some d" "tr_sequence (snd d) < tr_sequence (snd c)" "select_producer records q (Some c) cs = Inr found"
      | d where "selected = Some d" "select_producer records q (Some d) cs = Inr found" "tr_sequence (snd c) \<le> tr_sequence (snd d)"
        "tr_sequence (snd c) = tr_sequence (snd d) \<longrightarrow> tr_id (snd c) = tr_id (snd d)"
      using Cons.prems(1) True
      by (cases c) (auto simp: eligible_def Let_def not_less split: option.splits if_splits)
    then show ?thesis
    proof cases
      case 1
      then show ?thesis
        using Cons.IH [of "Some c"] True by (auto split: option.splits)
    next
      case 2
      then show ?thesis
        using Cons.IH [of "Some c"] True by (fastforce simp: latest_of_def split: option.splits)
    next
      case 3
      then show ?thesis
        using Cons.IH [of "Some d"] Cons.prems(2) by (fastforce simp: latest_of_def split: option.splits)
    qed
  qed
qed (auto simp: latest_of_def split: option.splits)

text \<open>The output chosen from an occurrence is fresh, of the selected work and as its contract declares it.\<close>

lemma selected_output_exact:
  assumes "selected_output q c = Inr out"
  shows "co_receipt out = snd c \<and> ad_work (jr_admission (fst c)) = Some (co_work out)
    \<and> \<not> producer_stale q c (co_work out) \<and> co_output out \<in> set (wk_outputs (co_work out))
    \<and> wx_id (co_output out) = sel_output q
    \<and> (\<exists>d \<in> set (wc_outputs (sel_work q)). wo_id d = sel_output q \<and> wo_required d \<and> \<not> output_mismatch d (co_output out))"
proof -
  obtain w d ds x xs where out: "ad_work (jr_admission (fst c)) = Some w" "\<not> producer_stale q c w"
    "filter (\<lambda>d. wo_id d = sel_output q) (wc_outputs (sel_work q)) = d # ds" "wo_required d"
    "filter (\<lambda>x. wx_id x = sel_output q) (wk_outputs w) = x # xs" "\<not> output_mismatch d x"
    "out = \<lparr>co_receipt = snd c, co_work = w, co_output = x\<rparr>"
    using assms by (cases c) (auto simp: selected_output_def Let_def split: option.splits if_splits list.splits)
  have "d \<in> set (wc_outputs (sel_work q)) \<and> wo_id d = sel_output q" "x \<in> set (wk_outputs w) \<and> wx_id x = sel_output q"
    using arg_cong [OF out(3), of set] arg_cong [OF out(5), of set] by auto
  then show ?thesis
    using out by auto
qed

text \<open>
  C24. The committed output of a producer is the current one. When the lookup answers, an answer is
  the selected output of the latest committed occurrence of the producer whose state descends to the
  current one, with the bytes that its digest names and within the bound of its declared contract;
  no answer means that no occurrence is eligible.
\<close>

theorem committed_output_exact:
  assumes "find_committed_output records q = Inr found"
  shows "case found of None \<Rightarrow> \<forall>c \<in> set records. \<not> eligible records q c
    | Some out \<Rightarrow> \<exists>c. latest_of (eligible records q) c (set records) \<and> co_receipt out = snd c
        \<and> ad_work (jr_admission (fst c)) = Some (co_work out) \<and> tr_work (snd c) = wk_result_fingerprint (co_work out)
        \<and> wx_id (co_output out) = sel_output q \<and> wx_sha256 (co_output out) = sha256_hex (wx_content (co_output out))
        \<and> (\<exists>d \<in> set (wc_outputs (sel_work q)). wo_id d = sel_output q \<and> wo_required d
             \<and> int (length (wx_content (co_output out))) \<le> wo_max_bytes d)"
proof -
  obtain chosen where chosen: "select_producer records q None records = Inr chosen"
    "(case chosen of None \<Rightarrow> Inr None | Some c \<Rightarrow> (case selected_output q c of Inl e \<Rightarrow> Inl e | Inr out \<Rightarrow> Inr (Some out))) = Inr found"
    using assms by (auto simp: find_committed_output_def split: if_splits sum.splits option.splits)
  note latest = select_producer_latest [OF chosen(1)]
  show ?thesis
  proof (cases chosen)
    case None
    then show ?thesis
      using chosen(2) latest by auto
  next
    case (Some c)
    then obtain out where out: "selected_output q c = Inr out" "found = Some out"
      using chosen(2) by (auto split: sum.splits)
    then show ?thesis
      using selected_output_exact [OF out(1)] latest Some
      by (cases c) (fastforce simp: producer_stale_def output_mismatch_def Let_def)
  qed
qed

end
