(* ===== verification/Delivery_Transitions.thy ===== *)
theory Delivery_Transitions
  imports Delivery_Ownership
begin

text \<open>
  What a reduced transition establishes: the frame around every effect, the exact effect of
  declared assignments and that they cannot fail, validity of the controlling values, gates and
  completion, and the commit of the state revision.
\<close>

section \<open>The frame of a transition\<close>

text \<open>The fields no effect writes: identity, revision, time and the last transition.\<close>

definition envelope where
  "envelope s = (ds_schema_version s, ds_repository_id s, ds_git_common_id s, ds_worktree_id s,
     ds_revision s, ds_updated_at s, ds_last_transition s)"

lemma assign_frame:
  "assign_state_facet s f v = Inr s' \<Longrightarrow> envelope s' = envelope s \<and> ds_objective s' = ds_objective s"
  unfolding assign_state_facet_def
  by (simp split: if_split_asm) (auto simp: envelope_def)

lemma apply_assignments_frame:
  "apply_assignments t a s asgs = Inr s' \<Longrightarrow> envelope s' = envelope s \<and> ds_objective s' = ds_objective s"
  by (induction asgs arbitrary: s) (auto split: sum.splits dest: assign_frame)

lemma handlers_frame:
  "list_all (\<lambda>nh. \<forall>s'. snd nh s a = Inr s' \<longrightarrow> envelope s' = envelope s
      \<and> (fst nh \<noteq> ''objective-bind'' \<longrightarrow> ds_objective s' = ds_objective s)) native_state_handlers"
  unfolding native_state_handlers_def list.pred_inject fst_conv snd_conv
  by (intro conjI TrueI allI impI;
      clarsimp simp: envelope_def handler_defs helper_defs Let_def split: if_split_asm)

lemma handler_frame:
  assumes "map_of native_state_handlers name = Some h" "h s a = Inr s'"
  shows "envelope s' = envelope s \<and> (name \<noteq> ''objective-bind'' \<longrightarrow> ds_objective s' = ds_objective s)"
  using handlers_frame [of s a] map_of_SomeD [OF assms(1)] assms(2) by (fastforce simp: list_all_iff)

lemma bind_handler:
  "map_of native_state_handlers ''objective-bind'' = Some apply_objective_bind"
  by (simp add: native_state_handlers_def)

lemma objective_bind_objective:
  "apply_objective_bind s a = Inr s' \<Longrightarrow> ds_objective s' = ad_objective a
     \<and> ds_terminal s' = Terminal_nonterminal
     \<and> (so_delivery (ds_objective s) \<noteq> [] \<and> so_delivery (ds_objective s) \<noteq> so_delivery (ad_objective a)
        \<longrightarrow> ds_terminal s = Terminal_established \<and> ds_gates s' = [] \<and> ds_workspace s' = Workspace_absent)"
  unfolding apply_objective_bind_def
  by (auto simp: Let_def bind_delivery_def reset_delivery_state_def split: if_split_asm)

lemma reducer_cases:
  assumes "apply_declared_state_effect s a t = Inr s'"
  obtains (assign) "se_kind (tn_state_effect t) = Effect_assignments"
      "apply_assignments t a s (se_assignments (tn_state_effect t)) = Inr s'"
    | (native) h where "se_kind (tn_state_effect t) = Effect_native"
      "map_of native_state_handlers (se_native_handler (tn_state_effect t)) = Some h" "h s a = Inr s'"
  using assms by (auto simp: apply_declared_state_effect_def Let_def split: if_split_asm option.splits)

lemma apply_state_transition_Inr:
  assumes "apply_state_transition s a t = Inr s'"
  shows "objective_guard s a t = None"
    "apply_declared_state_effect (s\<lparr>ds_last_transition := tn_id t\<rparr>) a t = Inr s'"
    "ds_phase s' \<in> set (tn_target_phases t)"
  using assms by (auto simp: apply_state_transition_def declares_target_phase_def
      split: option.splits sum.splits if_split_asm)

lemma transition_reduced:
  assumes "apply_state_transition s a t = Inr s'"
  shows "ds_phase s' \<in> set (tn_target_phases t)" "ds_last_transition s' = tn_id t" "ds_revision s' = ds_revision s"
proof -
  let ?s = "s\<lparr>ds_last_transition := tn_id t\<rparr>"
  show "ds_phase s' \<in> set (tn_target_phases t)"
    using apply_state_transition_Inr(3) [OF assms] .
  from apply_state_transition_Inr(2) [OF assms] have "envelope s' = envelope ?s"
    by (cases rule: reducer_cases) (use apply_assignments_frame handler_frame in blast)+
  then show "ds_last_transition s' = tn_id t" "ds_revision s' = ds_revision s"
    by (simp_all add: envelope_def)
qed

text \<open>
  C27. A reduced transition lands in a declared target phase and is recorded as the last one;
  it leaves identity, revision and time to the commit; and it replaces the objective only
  through \<open>objective-bind\<close>, which stores exactly the admitted objective and accepts a different
  delivery only after the prior one was terminal.
\<close>

theorem transition_frame:
  assumes "apply_state_transition s a t = Inr s'"
  shows "ds_phase s' \<in> set (tn_target_phases t) \<and> ds_last_transition s' = tn_id t
    \<and> ds_revision s' = ds_revision s \<and> ds_repository_id s' = ds_repository_id s
    \<and> (ds_objective s' = ds_objective s
       \<or> se_native_handler (tn_state_effect t) = ''objective-bind'' \<and> ds_objective s' = ad_objective a
         \<and> (so_delivery (ds_objective s) \<in> {[], so_delivery (ad_objective a)}
            \<or> ds_terminal s = Terminal_established))"
proof -
  let ?s = "s\<lparr>ds_last_transition := tn_id t\<rparr>"
  have phase: "ds_phase s' \<in> set (tn_target_phases t)"
    using apply_state_transition_Inr(3) [OF assms] .
  from apply_state_transition_Inr(2) [OF assms] show ?thesis
  proof (cases rule: reducer_cases)
    case assign
    then have "envelope s' = envelope ?s \<and> ds_objective s' = ds_objective ?s"
      using apply_assignments_frame by blast
    then show ?thesis
      using phase by (simp add: envelope_def)
  next
    case (native h)
    let ?n = "se_native_handler (tn_state_effect t)"
    have frame: "envelope s' = envelope ?s \<and> (?n \<noteq> ''objective-bind'' \<longrightarrow> ds_objective s' = ds_objective ?s)"
      using native(2,3) by (rule handler_frame)
    have "ds_objective s' = ad_objective a
        \<and> (so_delivery (ds_objective s) \<in> {[], so_delivery (ad_objective a)} \<or> ds_terminal s = Terminal_established)"
      if "?n = ''objective-bind''"
      using native(2,3) that bind_handler objective_bind_objective [of ?s a s'] by auto
    then show ?thesis
      using phase frame by (cases "?n = ''objective-bind''") (auto simp: envelope_def)
  qed
qed

section \<open>Declared assignments\<close>

text \<open>The switch of \<open>stateFacetValue\<close> as a table.\<close>

definition readers :: "(string \<times> (durable_state \<Rightarrow> string)) list" where
  "readers =
     [(''program_fingerprint'', ds_program_fingerprint), (''phase'', ds_phase),
      (''engagement'', ds_engagement), (''delivery'', ds_delivery),
      (''workspace'', ds_workspace), (''plan'', ds_plan), (''configuration'', ds_configuration),
      (''runtime'', ds_runtime), (''publication'', ds_publication),
      (''verification'', ds_verification), (''recovery'', ds_recovery),
      (''transaction'', ds_transaction), (''terminal'', ds_terminal),
      (''source_revision'', ds_source_revision),
      (''worktree_fingerprint'', ds_worktree_fingerprint),
      (''config_fingerprint'', ds_config_fingerprint),
      (''runtime_version'', ds_runtime_version),
      (''runtime_fingerprint'', ds_runtime_fingerprint),
      (''runtime_source'', ds_runtime_source), (''workspace_branch'', ds_workspace_branch),
      (''workspace_path'', ds_workspace_path), (''workspace_base_ref'', ds_workspace_base_ref),
      (''workspace_source_path'', ds_workspace_source_path),
      (''workspace_source_id'', ds_workspace_source_id),
      (''workspace_source_ref'', ds_workspace_source_ref),
      (''transaction_id'', ds_transaction_id),
      (''transaction_transition'', ds_transaction_transition),
      (''recovery_cause'', ds_recovery_cause),
      (''recovery_source_phase'', ds_recovery_source_phase),
      (''recovery_resumption'', ds_recovery_resumption),
      (''recovery_budget'', decimal_int \<circ> ds_recovery_budget)]"

lemma state_facet_value_reader:
  "state_facet_value s f = (case map_of readers f of Some r \<Rightarrow> Inr (r s)
     | None \<Rightarrow> Inl (errorf [Lit ''durable state facet '', Quoted f, Lit '' is unknown'']))"
  unfolding state_facet_value_def readers_def by simp

lemma map_fst_readers: "map fst readers = map fst declared_state_field_facets"
  unfolding readers_def declared_state_field_facets_def by simp

text \<open>Assigning one field: it reads back, and every other field reads as before.\<close>

lemma decimal_nat_zero: "decimal_nat 0 = ''0''"
  by code_simp

lemma assignments_exact:
  "list_all (\<lambda>f. case assign_state_facet s f v of Inl e \<Rightarrow> True
      | Inr s' \<Rightarrow> list_all (\<lambda>gr. snd gr s' = (if fst gr = f then v else snd gr s)) readers)
     (map fst declared_state_field_facets)"
  unfolding declared_state_field_facets_def list.pred_inject list.map fst_conv
  by (intro conjI TrueI; simp add: assign_state_facet_def readers_def decimal_int_def decimal_nat_zero)

lemma assign_exact:
  assumes "assign_state_facet s f v = Inr s'"
  shows "state_facet_value s' f = Inr v" "g \<noteq> f \<Longrightarrow> state_facet_value s' g = state_facet_value s g"
proof -
  have declared: "f \<in> set (map fst declared_state_field_facets)"
    using assignment_declared [OF assms] by (auto simp: declared_state_field_facet_def map_of_eq_None_iff)
  then have all: "\<forall>gr\<in>set readers. snd gr s' = (if fst gr = f then v else snd gr s)"
    using assignments_exact [where s = s and v = v] assms by (force simp: list_all_iff)
  have f: "map_of readers f \<noteq> None"
    using declared unfolding map_fst_readers [symmetric] by (simp add: map_of_eq_None_iff)
  have read: "r s' = (if g = f then v else r s)" if "map_of readers g = Some r" for g r
    using all map_of_SomeD [OF that] by fastforce
  show "state_facet_value s' f = Inr v"
    using f read [of f] by (auto simp: state_facet_value_reader)
  show "state_facet_value s' g = state_facet_value s g" if "g \<noteq> f"
    using that read [of g] by (simp add: state_facet_value_reader split: option.splits)
qed

lemma apply_assignments_exact:
  assumes "apply_assignments t a s asgs = Inr s'" "distinct (map as_facet asgs)"
  shows "(\<forall>asg\<in>set asgs. state_facet_value s' (as_facet asg) = assignment_value a asg)
    \<and> (\<forall>g. g \<notin> set (map as_facet asgs) \<longrightarrow> state_facet_value s' g = state_facet_value s g)"
  using assms
proof (induction asgs arbitrary: s)
  case Nil
  then show ?case by simp
next
  case (Cons x xs)
  then obtain v s1 where v: "assignment_value a x = Inr v" "assign_state_facet s (as_facet x) v = Inr s1"
    "apply_assignments t a s1 xs = Inr s'"
    by (auto split: sum.splits)
  have IH: "\<forall>asg\<in>set xs. state_facet_value s' (as_facet asg) = assignment_value a asg"
    "\<And>g. g \<notin> set (map as_facet xs) \<Longrightarrow> state_facet_value s' g = state_facet_value s1 g"
    using Cons.IH [OF v(3)] Cons.prems(2) by simp_all
  have "state_facet_value s' (as_facet x) = assignment_value a x"
    using IH(2) [of "as_facet x"] Cons.prems(2) v(1) assign_exact(1) [OF v(2)] by simp
  then show ?case
    using IH assign_exact(2) [OF v(2)] by simp
qed

lemma assignment_errors_distinct:
  "assignment_errors t seen asgs = None \<Longrightarrow>
     distinct (map as_facet asgs) \<and> set (map as_facet asgs) \<inter> set seen = {}"
proof (induction asgs arbitrary: seen)
  case Nil
  then show ?case by simp
next
  case (Cons x xs)
  then have "assignment_error t seen x = None" "assignment_errors t (as_facet x # seen) xs = None"
    by (simp_all split: option.splits)
  then show ?case
    using Cons.IH [of "as_facet x # seen"] by (auto simp: assignment_error_def Let_def)
qed

lemma valid_assignments:
  assumes "validate_transition t = None" "se_kind (tn_state_effect t) = Effect_assignments"
  shows "assignment_errors t [] (se_assignments (tn_state_effect t)) = None"
    "closure_error t (map as_facet (se_assignments (tn_state_effect t))) = None" "tn_controllable t"
  using valid_state_effect [OF assms(1)] assms(2)
  by (auto simp: validate_state_effect_def split: if_split_asm)

text \<open>
  C28. A declarative effect does exactly what it declares: after a validated transition with
  assignments every assigned field reads the value of its source (literal, parameter,
  admission or invocation), and every other field a declaration can name reads as before.
\<close>

theorem declarative_effect_exact:
  assumes "validate_transition t = None" and "se_kind (tn_state_effect t) = Effect_assignments"
    and "apply_state_transition s a t = Inr s'"
  shows "(\<forall>asg\<in>set (se_assignments (tn_state_effect t)).
       state_facet_value s' (as_facet asg) = assignment_value a asg)
    \<and> (\<forall>g. g \<notin> set (map as_facet (se_assignments (tn_state_effect t)))
         \<longrightarrow> state_facet_value s' g = state_facet_value s g)"
proof -
  let ?s = "s\<lparr>ds_last_transition := tn_id t\<rparr>"
  from apply_state_transition_Inr(2) [OF assms(3)]
  have r: "apply_assignments t a ?s (se_assignments (tn_state_effect t)) = Inr s'"
    by (cases rule: reducer_cases) (use assms(2) in auto)
  have d: "distinct (map as_facet (se_assignments (tn_state_effect t)))"
    using assignment_errors_distinct [OF valid_assignments(1) [OF assms(1,2)]] by simp
  have "state_facet_value ?s g = state_facet_value s g" for g
    by (simp add: state_facet_value_def)
  then show ?thesis
    using apply_assignments_exact [OF r d] by simp
qed

section \<open>Declared effects cannot fail\<close>

lemma assignment_value_total:
  assumes "assignment_error t seen asg = None" "parameters_validate (ad_parameters a) t = None"
  shows "\<exists>v. assignment_value a asg = Inr v"
proof -
  let ?f = "as_from asg"
  have src: "value_sources asg = 1"
    and par: "vr_parameter ?f \<noteq> [] \<longrightarrow> (\<exists>p. parameter_named t (vr_parameter ?f) = Some p \<and> ps_required p)"
    and adm: "vr_admission ?f \<in> {[], ''source_revision'', ''worktree_fingerprint'', ''expected_program_fingerprint''}"
    and ivo: "vr_invocation ?f \<in> {[], ''invoking_path'', ''worktree_id'', ''ref''}"
    using assms(1) by (auto simp: assignment_error_def Let_def split: option.splits)
  have named: "vr_parameter ?f \<noteq> [] \<longrightarrow> (\<exists>v. parameters_get (ad_parameters a) (vr_parameter ?f) = Some v)"
  proof
    assume ne: "vr_parameter ?f \<noteq> []"
    obtain p where p: "map_of (rev (map (\<lambda>p. (ps_name p, p)) (tn_parameters t))) (vr_parameter ?f) = Some p" "ps_required p"
      using par ne by (auto simp: parameter_named_def)
    then have "p \<in> set (tn_parameters t)" "ps_name p = vr_parameter ?f"
      using map_of_SomeD [OF p(1)] by auto
    then show "\<exists>v. parameters_get (ad_parameters a) (vr_parameter ?f) = Some v"
      using required_parameter_read [OF assms(2)] p(2) by metis
  qed
  show ?thesis
  proof (cases "as_value asg \<noteq> None \<or> vr_parameter ?f \<noteq> [] \<or> vr_admission ?f \<noteq> []")
    case True
    then show ?thesis
      using named adm by (auto simp: assignment_value_def Let_def split: option.splits)
  next
    case False
    then have "vr_invocation ?f \<noteq> []"
      using src by (auto simp: value_sources_def split: if_split_asm)
    then show ?thesis
      using False ivo by (auto simp: assignment_value_def invocation_value_def Let_def)
  qed
qed

lemma assign_totals:
  "list_all (\<lambda>f. (f = ''recovery_budget'' \<longrightarrow> v = ''0'') \<longrightarrow> (\<exists>s'. assign_state_facet s f v = Inr s'))
     (map fst declared_state_field_facets)"
  unfolding declared_state_field_facets_def list.pred_inject list.map fst_conv
  by (intro conjI TrueI; simp add: assign_state_facet_def)

lemma assign_total:
  assumes "assignment_error t seen asg = None" "assignment_value a asg = Inr v"
  shows "\<exists>s'. assign_state_facet s (as_facet asg) v = Inr s'"
proof -
  have lit: "deterministic_assignment_error t asg = None"
    "\<forall>w. as_value asg = Some w \<longrightarrow> valid_declared_literal (as_facet asg) w"
    and declared: "declared_state_field_facet (as_facet asg) \<noteq> None"
    using assms(1) by (auto simp: assignment_error_def Let_def split: option.splits)
  have f: "as_facet asg \<in> set (map fst declared_state_field_facets)"
    using declared by (auto simp: declared_state_field_facet_def map_of_eq_None_iff)
  have "v = ''0''" if budget: "as_facet asg = ''recovery_budget''"
  proof -
    obtain w where w: "as_value asg = Some w"
      using lit(1) budget by (auto simp: deterministic_assignment_error_def)
    then have "valid_declared_literal ''recovery_budget'' w"
      using lit(2) budget by simp
    then show ?thesis
      using w assms(2) by (simp add: valid_declared_literal_def assignment_value_def Let_def)
  qed
  then show ?thesis
    using f assign_totals [where s = s and v = v] unfolding list_all_iff by blast
qed

lemma apply_assignments_total:
  assumes "assignment_errors t seen asgs = None" "parameters_validate (ad_parameters a) t = None"
  shows "\<exists>s'. apply_assignments t a s asgs = Inr s'"
  using assms(1)
proof (induction asgs arbitrary: s seen)
  case Nil
  then show ?case by simp
next
  case (Cons x xs)
  then have e: "assignment_error t seen x = None" "assignment_errors t (as_facet x # seen) xs = None"
    by (simp_all split: option.splits)
  obtain v where v: "assignment_value a x = Inr v"
    using assignment_value_total [OF e(1) assms(2)] by blast
  obtain s1 where "assign_state_facet s (as_facet x) v = Inr s1"
    using assign_total [OF e(1) v] by blast
  then show ?case
    using Cons.IH [OF e(2)] v by auto
qed

lemma literal_assigned:
  assumes "assignment_literal t f = Some v"
  obtains asg where "asg \<in> set (se_assignments (tn_state_effect t))" "as_facet asg = f" "as_value asg = Some v"
proof -
  obtain x xs where "filter (\<lambda>a. as_facet a = f \<and> as_value a \<noteq> None) (se_assignments (tn_state_effect t)) = x # xs"
    "as_value x = Some v"
    using assms by (auto simp: assignment_literal_def split: list.splits)
  moreover have "x \<in> set (x # xs)"
    by simp
  ultimately show thesis
    using that [of x] by (metis (mono_tags, lifting) filter_is_subset mem_Collect_eq set_filter subsetD)
qed

lemma assignment_target_phase:
  assumes "assignment_errors t seen asgs = None" "asg \<in> set asgs" "as_facet asg = ''phase''"
  shows "\<exists>v. as_value asg = Some v \<and> v \<in> set (tn_target_phases t)"
  using assms
proof (induction asgs arbitrary: seen)
  case (Cons x xs)
  then have e: "assignment_error t seen x = None" "assignment_errors t (as_facet x # seen) xs = None"
    by (simp_all split: option.splits)
  have "\<exists>v. as_value x = Some v \<and> v \<in> set (tn_target_phases t)" if "as_facet x = ''phase''"
    using e(1) that
    by (auto simp: assignment_error_def Let_def assignment_matches_target_def declares_target_phase_def
        split: option.splits)
  then show ?case
    using Cons.IH [OF e(2)] Cons.prems by auto
qed simp

text \<open>
  C29. An effect of assignments does not fail: when the catalog accepted the transition, its effect
  is given by assignments (not by a native handler), it is not a recovery replayed from the
  journal, the admitted parameters are valid, the state is in a source phase, every precondition
  holds and the objective guard passes, then the reducer succeeds. Native handlers are not
  covered: they have refusals of their own.
\<close>

theorem declarative_effect_total:
  assumes "validate_transition t = None" and "se_kind (tn_state_effect t) = Effect_assignments"
    and "\<not> journal_derived_recovery t" and "parameters_validate (ad_parameters a) t = None"
    and "ds_phase s \<in> set (tn_source_phases t)" and "objective_guard s a t = None"
    and "\<forall>c\<in>set (se_preconditions (tn_state_effect t)). reducer_precondition_error s t c = None"
  shows "\<exists>s'. apply_state_transition s a t = Inr s'"
proof -
  let ?s = "s\<lparr>ds_last_transition := tn_id t\<rparr>"
  let ?asgs = "se_assignments (tn_state_effect t)"
  note va = valid_assignments [OF assms(1,2)]
  obtain s' where s': "apply_assignments t a ?s ?asgs = Inr s'"
    using apply_assignments_total [OF va(1) assms(4)] by blast
  have exact: "\<forall>asg\<in>set ?asgs. state_facet_value s' (as_facet asg) = assignment_value a asg"
    "\<forall>g. g \<notin> set (map as_facet ?asgs) \<longrightarrow> state_facet_value s' g = state_facet_value ?s g"
    using apply_assignments_exact [OF s'] assignment_errors_distinct [OF va(1)] by auto
  have phase: "ds_phase s' \<in> set (tn_target_phases t)"
  proof (cases "\<exists>asg\<in>set ?asgs. as_facet asg = ''phase''")
    case True
    then obtain asg v where asg: "asg \<in> set ?asgs" "as_facet asg = ''phase''" "as_value asg = Some v"
      "v \<in> set (tn_target_phases t)"
      using assignment_target_phase [OF va(1)] by blast
    then have "state_facet_value s' ''phase'' = Inr v"
      using exact(1) by (force simp: assignment_value_def)
    then show ?thesis
      using asg(4) by (simp add: state_facet_value_def)
  next
    case False
    then have "''phase'' \<notin> set (map as_facet ?asgs)"
      by auto
    then have "state_facet_value s' ''phase'' = state_facet_value ?s ''phase''"
      using exact(2) by blast
    then have "ds_phase s' = ds_phase s"
      by (simp add: state_facet_value_def)
    moreover have "preserved_phase_declared t"
      using va(2) assms(2,3) by (auto simp: closure_error_def Let_def)
    moreover have "assignment_literal t ''phase'' = None"
      using False literal_assigned by (metis option.exhaust)
    ultimately show ?thesis
      using assms(5) by (auto simp: preserved_phase_declared_def list_all_iff declares_target_phase_def)
  qed
  have "reducer_precondition_error ?s t c = reducer_precondition_error s t c" for c
    by (simp add: reducer_precondition_error_def state_facet_value_def)
  then have "first_error (reducer_precondition_error ?s t) (se_preconditions (tn_state_effect t)) = None"
    using assms(7) by simp
  then show ?thesis
    using s' phase assms(2,6)
    by (simp add: apply_state_transition_def apply_declared_state_effect_def Let_def declares_target_phase_def
        del: first_error_None_iff)
qed

end
