(* ===== verification/Delivery_Commit.thy ===== *)
theory Delivery_Commit
  imports Delivery_Transitions
begin

text \<open>
  The commit of a reduced transition (\<open>bind_state_revision\<close>, from \<open>effects/revision.go\<close>): what
  holds of the state it stores and of the facets it reports.
\<close>

section \<open>The reported facets\<close>

lemma reported_facets:
  assumes "changed_state_facets [] [(before, after)] = Inr cs"
  shows "\<forall>f. f \<in> set cs \<longleftrightarrow> domain_changed before after f"
proof -
  obtain ds where ds: "changed_facets before after = Inr ds"
    "\<forall>f. f \<in> set ds \<longleftrightarrow> domain_changed before after f"
    using changed_facets_domains by blast
  then have "cs = union_state_facets [[], ds]"
    using assms by simp
  then show ?thesis
    using ds(2) by (auto simp: domain_changed_def state_facet_valid_def)
qed

lemma allowed_facets_Inr:
  assumes "validate_allowed_facets i changed allowed = Inr cs"
  shows "set cs = set changed \<and> set cs \<subseteq> set allowed"
proof -
  have n: "normalize_state_facets ''changed state facets'' changed = Inr cs"
    and "filter (\<lambda>f. \<not> contains allowed f) cs = []"
    using assms by (auto simp: validate_allowed_facets_def split: sum.splits list.splits)
  then show ?thesis
    by (auto simp: normalize_state_facets_Inr filter_empty_conv)
qed

lemma transition_facets_Inr:
  assumes "validate_transition_facets t changed = Inr cs"
  shows "\<exists>p. durable_state_facet_policy t = Inr p \<and> set cs = set changed \<and> set cs \<subseteq> set (fp_writes p)"
proof -
  obtain p where "durable_state_facet_policy t = Inr p"
    "validate_allowed_facets (tn_id t) changed (fp_writes p) = Inr cs"
    using assms by (auto simp: validate_transition_facets_def split: sum.splits)
  then show ?thesis
    using allowed_facets_Inr by blast
qed

text \<open>The aliased copy hides nothing but a gate, and invents nothing.\<close>

lemma gates_parts:
  "installation_part (s\<lparr>ds_gates := g\<rparr>) = installation_part s"
  "program_part (s\<lparr>ds_gates := g\<rparr>) = program_part s"
  "control_part (s\<lparr>ds_gates := g\<rparr>) = control_part s"
  by (simp_all add: part_defs)

lemma shared_before_fields:
  "installation_part (shared_before s s') = installation_part s"
  "program_part (shared_before s s') = program_part s"
  "control_part (shared_before s s') = control_part s"
  by (simp_all add: shared_before_def gates_parts)

lemma product_part_gates: "product_part s = product_part s' \<Longrightarrow> ds_gates s = ds_gates s'"
  by (simp only: product_part_def prod.inject)

lemma shared_before_same: "ds_gates s = ds_gates s' \<Longrightarrow> shared_before s s' = s"
  by (simp add: shared_before_def)

lemma shared_before_changed:
  "domain_changed (shared_before s s') s' f \<Longrightarrow> domain_changed s s' f"
  "domain_changed s s' f \<Longrightarrow> f \<noteq> Facet_product \<Longrightarrow> domain_changed (shared_before s s') s' f"
proof -
  have same: "domain_changed (shared_before s s') s' f = domain_changed s s' f" if "f \<noteq> Facet_product"
    using that by (simp only: domain_changed_def shared_before_fields simp_thms)
  show "domain_changed s s' f" if changed: "domain_changed (shared_before s s') s' f"
  proof (cases "product_part s = product_part s'")
    case True
    then show ?thesis
      using changed shared_before_same [OF product_part_gates [OF True]] by simp
  next
    case False
    then show ?thesis
      using changed same by (cases "f = Facet_product") (simp_all only: domain_changed_def simp_thms)
  qed
  show "domain_changed (shared_before s s') s' f" if "domain_changed s s' f" "f \<noteq> Facet_product"
    using that same by blast
qed

section \<open>The commit\<close>

lemma next_revision_Inr: "next_revision r = Inr r' \<longleftrightarrow> r \<noteq> 0 \<and> r \<noteq> NOT 0 \<and> r' = r + 1"
  by (auto simp: next_revision_def)

lemma revision_step: "r \<noteq> NOT 0 \<Longrightarrow> uint (r + 1) = uint (r :: u64) + 1"
proof -
  assume "r \<noteq> NOT 0"
  then have "r \<noteq> - 1"
    by simp
  then have "1 + r \<noteq> 0"
    by (metis add.commute eq_neg_iff_add_eq_0)
  then have "unat (1 + r) = Suc (unat r)"
    by (rule unatSuc)
  moreover have "uint (1 + r) = int (unat (1 + r))" "uint r = int (unat r)"
    by (rule uint_nat)+
  ultimately show "uint (r + 1) = uint r + 1"
    by (simp only: add.commute [of r 1] of_nat_Suc)
qed

lemma bind_state_revision_Inr:
  assumes "bind_state_revision s a t now = Inr (s', facets)"
  shows "ds_revision s = ad_expected_revision a"
    "ds_program_fingerprint s \<in> {[], ad_expected_program a}"
    "\<exists>after. apply_state_transition (bind_program s a) a t = Inr after
       \<and> commit_state s after t now = Inr (s', facets)"
proof -
  show r: "ds_revision s = ad_expected_revision a"
    using assms by (rule contrapos_pp) (simp add: bind_state_revision_def)
  have p: "\<not> (ds_program_fingerprint s \<noteq> [] \<and> ds_program_fingerprint s \<noteq> ad_expected_program a)"
    using assms r by (auto simp: bind_state_revision_def split: if_split_asm)
  then show "ds_program_fingerprint s \<in> {[], ad_expected_program a}"
    by blast
  have "bind_state_revision s a t now = (case apply_state_transition (bind_program s a) a t of
      Inl e \<Rightarrow> Inl e | Inr after \<Rightarrow> commit_state s after t now)"
    using r p by (auto simp: bind_state_revision_def)
  then show "\<exists>after. apply_state_transition (bind_program s a) a t = Inr after
       \<and> commit_state s after t now = Inr (s', facets)"
    using assms by (cases "apply_state_transition (bind_program s a) a t") simp_all
qed

lemma commit_state_Inr:
  assumes "commit_state s after t now = Inr (s', facets)"
  shows "ds_revision after \<noteq> 0 \<and> ds_revision after \<noteq> NOT 0"
    "s' = after\<lparr>ds_revision := ds_revision after + 1, ds_updated_at := time_utc now\<rparr>"
    "encode_state_error s' = None"
    "\<exists>changed. changed_state_facets [] [(shared_before s s', s')] = Inr changed
       \<and> validate_transition_facets t changed = Inr facets"
proof -
  obtain r where r: "next_revision (ds_revision after) = Inr r"
    using assms by (cases "next_revision (ds_revision after)") (simp_all add: commit_state_def)
  define final where "final = after\<lparr>ds_revision := r, ds_updated_at := time_utc now\<rparr>"
  have e: "encode_state_error final = None"
    using assms r by (cases "encode_state_error final") (simp_all add: commit_state_def final_def)
  obtain changed where c: "changed_state_facets [] [(shared_before s final, final)] = Inr changed"
    using assms r e
    by (cases "changed_state_facets [] [(shared_before s final, final)]")
      (simp_all add: commit_state_def flip: final_def del: changed_state_facets.simps)
  obtain canonical where v: "validate_transition_facets t changed = Inr canonical"
    using assms r e c
    by (cases "validate_transition_facets t changed")
      (simp_all add: commit_state_def flip: final_def del: changed_state_facets.simps)
  have "final = s'" "canonical = facets"
    using assms r e c v by (simp_all add: commit_state_def flip: final_def del: changed_state_facets.simps)
  moreover have "r = ds_revision after + 1" "ds_revision after \<noteq> 0 \<and> ds_revision after \<noteq> NOT 0"
    using r by (simp_all add: next_revision_Inr)
  ultimately show "ds_revision after \<noteq> 0 \<and> ds_revision after \<noteq> NOT 0"
    "s' = after\<lparr>ds_revision := ds_revision after + 1, ds_updated_at := time_utc now\<rparr>"
    "encode_state_error s' = None"
    "\<exists>changed. changed_state_facets [] [(shared_before s s', s')] = Inr changed
       \<and> validate_transition_facets t changed = Inr facets"
    using e c v by (auto simp: final_def)
qed

text \<open>
  C6. A committed transition is a compare-and-swap on the revision: the state was at the admitted
  revision and program (or unbound), the stored state is one revision on without wrap-around,
  valid, in a target phase, and stamped. The reported facets are domains the transition owns;
  they name every domain that changed except that product can be missing (see
  \<open>regate_unreported\<close>), and none that did not change.
\<close>

theorem commit_exact:
  assumes "bind_state_revision s a t now = Inr (s', facets)" and "tn_controllable t"
  shows "ds_revision s = ad_expected_revision a \<and> ds_program_fingerprint s \<in> {[], ad_expected_program a}
    \<and> uint (ds_revision s') = uint (ds_revision s) + 1 \<and> ds_updated_at s' = time_utc now
    \<and> durable_validate (durable_canonical s') = None \<and> ds_phase s' \<in> set (tn_target_phases t)
    \<and> ds_last_transition s' = tn_id t \<and> set facets \<subseteq> set (tn_owned_facets t)
    \<and> (\<forall>f\<in>set facets. domain_changed s s' f)
    \<and> (\<forall>f. domain_changed s s' f \<longrightarrow> f \<noteq> Facet_product \<longrightarrow> f \<in> set facets)"
proof -
  note b = bind_state_revision_Inr [OF assms(1)]
  obtain after where after: "apply_state_transition (bind_program s a) a t = Inr after"
    "commit_state s after t now = Inr (s', facets)"
    using b(3) by blast
  note c = commit_state_Inr [OF after(2)]
  have frame: "ds_phase after \<in> set (tn_target_phases t)" "ds_last_transition after = tn_id t"
    "ds_revision after = ds_revision s"
    using transition_reduced [OF after(1)] by (simp_all add: bind_program_def)
  obtain changed p where v: "changed_state_facets [] [(shared_before s s', s')] = Inr changed"
    "durable_state_facet_policy t = Inr p" "set facets = set changed" "set facets \<subseteq> set (fp_writes p)"
    using c(4) transition_facets_Inr by blast
  have own: "set facets \<subseteq> set (tn_owned_facets t)"
    using v(2,4) facet_policy_writes assms(2) by fastforce
  have f: "f \<in> set facets \<longleftrightarrow> domain_changed (shared_before s s') s' f" for f
    using reported_facets [OF v(1)] v(3) by simp
  have "encode_state_error s' = None"
    by (rule c(3))
  then have valid: "durable_validate (durable_canonical s') = None"
    by (simp add: encode_state_error_def split: option.splits)
  have "uint (ds_revision s') = uint (ds_revision s) + 1"
    using c(1,2) frame(3) revision_step [of "ds_revision s"] by simp
  moreover have "ds_updated_at s' = time_utc now" "ds_phase s' = ds_phase after"
    "ds_last_transition s' = ds_last_transition after"
    unfolding c(2) by simp_all
  moreover have "\<forall>f\<in>set facets. domain_changed s s' f"
    "\<forall>f. domain_changed s s' f \<longrightarrow> f \<noteq> Facet_product \<longrightarrow> f \<in> set facets"
    using f shared_before_changed by blast+
  ultimately show ?thesis
    using b(1,2) frame(1,2) own valid by simp
qed

section \<open>A gate recorded again\<close>

text \<open>
  Where the only product change is a gate replaced in place, the aliased copy equals the new
  state on the product domain: the commit changes product state and does not report it.
\<close>

theorem regate_unreported:
  assumes "bind_state_revision s a t now = Inr (s', facets)"
    and "length (ds_gates s') = length (ds_gates s)"
    and "product_part (s\<lparr>ds_gates := ds_gates s'\<rparr>) = product_part s'"
  shows "Facet_product \<notin> set facets"
proof -
  obtain after where "commit_state s after t now = Inr (s', facets)"
    using bind_state_revision_Inr(3) [OF assms(1)] by blast
  then obtain changed where "changed_state_facets [] [(shared_before s s', s')] = Inr changed"
    "set facets = set changed"
    using commit_state_Inr(4) transition_facets_Inr by blast
  then have "Facet_product \<in> set facets \<longleftrightarrow> domain_changed (shared_before s s') s' Facet_product"
    using reported_facets by blast
  moreover have "shared_before s s' = s\<lparr>ds_gates := ds_gates s'\<rparr>"
    using assms(2) by (simp add: shared_before_def)
  ultimately show ?thesis
    using assms(3) by (simp add: domain_changed_def)
qed

end
