(* ===== verification/Delivery_Supervisor_Laws.thy ===== *)
theory Delivery_Supervisor_Laws
  imports Delivery_Supervisor Delivery_Registry_Laws
begin

text \<open>
  What the supervisor decides: exactly which transition it prescribes, that what it prescribes is
  applicable under the law of admission, and the law of the command hook.
\<close>

section \<open>Candidates\<close>

definition admissible_candidate :: "sd_observation \<Rightarrow> sd_objective \<Rightarrow> sd_transition \<Rightarrow> bool" where
  "admissible_candidate s ob t \<longleftrightarrow> tn_controllable t \<and> source_matches t s
     \<and> (f_value (ob_phase s) = Phase_recovery \<longrightarrow> tn_class t = Event_recovery)
     \<and> supports_objective t ob
     \<and> (is_known (ob_objective s) \<and> f_value (ob_objective s) \<noteq> ob \<longrightarrow> pl_binds_objective (tn_policy t))
     \<and> fst (policy_allows s t)"

definition progresses :: "sd_observation \<Rightarrow> sd_objective \<Rightarrow> sd_transition \<Rightarrow> bool" where
  "progresses s ob t \<longleftrightarrow> implicitly_selectable t \<and> \<not> target_already_satisfied s ob t"

definition candidate_for :: "sd_observation \<Rightarrow> sd_objective \<Rightarrow> sd_transition \<Rightarrow> relation_candidate" where
  "candidate_for s ob t =
     \<lparr>rc_id = tn_id t, rc_rank = selection_rank (tn_selection t), rc_priority = tn_priority t,
      rc_selectable = progresses s ob t, rc_required_all = fst (relation_authority s t),
      rc_required_any = snd (relation_authority s t)\<rparr>"

definition sufficient_authority :: "sd_observation \<Rightarrow> sd_transition \<Rightarrow> authority_set \<Rightarrow> bool" where
  "sufficient_authority s t authority \<longleftrightarrow>
     authority_satisfies authority (tn_authority t) (tn_authority_all t)
     \<and> set (policy_required s t) \<subseteq> set (available_authority authority)"

definition selection_key :: "sd_transition \<Rightarrow> int \<times> int" where
  "selection_key t = (selection_rank (tn_selection t), tn_priority t)"

lemma candidate_simps [simp]:
  "preference (candidate_for s ob t) = selection_key t" "rc_id (candidate_for s ob t) = tn_id t"
  "rc_selectable (candidate_for s ob t) = progresses s ob t"
  by (simp_all add: preference_def candidate_for_def selection_key_def)

lemma screen_objective_snd:
  "snd (screen_objective s ob t trace) =
     (if supports_objective t ob
         \<and> (is_known (ob_objective s) \<and> f_value (ob_objective s) \<noteq> ob \<longrightarrow> pl_binds_objective (tn_policy t))
         \<and> fst (policy_allows s t)
      then Some (candidate_for s ob t) else None)"
  by (auto simp: screen_objective_def Let_def supports_objective_def admit_candidate_def candidate_for_def
      progresses_def split: prod.splits)

lemma screen_transition_snd:
  "snd (screen_transition s ob rq t) =
     (if (rq = [] \<or> tn_id t = rq) \<and> admissible_candidate s ob t then Some (candidate_for s ob t) else None)"
  by (auto simp: screen_transition_def Let_def screen_objective_snd admissible_candidate_def
      source_matches_def split: prod.splits)

lemma authority_capability_inject [simp]: "authority_capability a = authority_capability b \<longleftrightarrow> a = b"
  by (simp add: authority_capability_def)

lemma set_available [simp]:
  "authority_capability c \<in> set (available_authority authority) \<longleftrightarrow> c \<in> set authority \<and> c \<noteq> Authority_none"
  by (auto simp: available_authority_def)

lemma authorized_candidate:
  "authorized (candidate_for s ob t) (set (available_authority authority)) \<longleftrightarrow> sufficient_authority s t authority"
proof -
  have all: "set (fst (relation_authority s t)) \<subseteq> set (available_authority authority)
      \<longleftrightarrow> (\<forall>a\<in>set (tn_authority_all t). a = Authority_none \<or> a \<in> set authority)
          \<and> set (policy_required s t) \<subseteq> set (available_authority authority)"
    by (auto simp: relation_authority_def)
  have some: "(snd (relation_authority s t) \<noteq> [] \<longrightarrow>
        set (snd (relation_authority s t)) \<inter> set (available_authority authority) \<noteq> {})
      \<longleftrightarrow> tn_authority t = [] \<or> (\<exists>a\<in>set (tn_authority t). a = Authority_none \<or> a \<in> set authority)"
    by (auto simp: relation_authority_def disjoint_iff)
  show ?thesis
    unfolding authorized_def candidate_for_def sufficient_authority_def authority_satisfies_def
    using all some by (auto simp: list_all_iff list_ex_iff)
qed

section \<open>What is prescribed\<close>

lemma map_filter_if: "List.map_filter (\<lambda>t. if P t then Some (f t) else None) ts = map f (filter P ts)"
  by (induction ts) (simp_all add: List.map_filter_simps)

lemma eligible_candidates:
  "eligible (relation_input_of sv sn ob authority rq) =
     map (candidate_for (sn_observation sn) ob)
       (filter (\<lambda>t. admissible_candidate (sn_observation sn) ob t
            \<and> (if rq = [] then progresses (sn_observation sn) ob t else tn_id t = rq))
         (rg_ordered (sv_registry sv)))"
proof -
  have "List.map_filter (\<lambda>t. snd (screen_transition s ob rq t)) ts =
      map (candidate_for s ob) (filter (\<lambda>t. (rq = [] \<or> tn_id t = rq) \<and> admissible_candidate s ob t) ts)" for s ts
    unfolding screen_transition_snd by (rule map_filter_if)
  then show ?thesis
    by (auto simp: relation_input_of_def Let_def eligible_def filter_map comp_def
        intro!: arg_cong [where f = "map _"] filter_cong)
qed

lemma strictly_preferred_map:
  assumes "distinct (map tn_id ts)"
  shows "strictly_preferred (map (candidate_for s ob) ts) c \<longleftrightarrow>
    (\<exists>t\<in>set ts. c = candidate_for s ob t \<and> (\<forall>u\<in>set ts. u \<noteq> t \<longrightarrow> selection_key t < selection_key u))"
proof
  assume "strictly_preferred (map (candidate_for s ob) ts) c"
  then obtain pre t post where ts: "ts = pre @ t # post" "c = candidate_for s ob t"
    "\<forall>c'\<in>set (map (candidate_for s ob) (pre @ post)). preference c < preference c'"
    unfolding strictly_preferred_def by (auto simp: map_eq_append_conv map_eq_Cons_conv)
  then have "\<forall>u\<in>set (pre @ post). selection_key t < selection_key u"
    by (simp add: ball_Un)
  then show "\<exists>t\<in>set ts. c = candidate_for s ob t \<and> (\<forall>u\<in>set ts. u \<noteq> t \<longrightarrow> selection_key t < selection_key u)"
    using ts by (intro bexI [of _ t]) auto
next
  assume "\<exists>t\<in>set ts. c = candidate_for s ob t \<and> (\<forall>u\<in>set ts. u \<noteq> t \<longrightarrow> selection_key t < selection_key u)"
  then obtain t where t: "t \<in> set ts" "c = candidate_for s ob t"
    "\<forall>u\<in>set ts. u \<noteq> t \<longrightarrow> selection_key t < selection_key u"
    by blast
  obtain pre post where ts: "ts = pre @ t # post"
    using split_list [OF t(1)] by blast
  then have "t \<notin> set (pre @ post)"
    using assms by (auto simp: distinct_map)
  then have "\<forall>c'\<in>set (map (candidate_for s ob) (pre @ post)). preference c < preference c'"
    using t(2,3) ts by auto
  then show "strictly_preferred (map (candidate_for s ob) ts) c"
    unfolding strictly_preferred_def ts t(2)
    by (intro exI [of _ "map (candidate_for s ob) pre"] exI [of _ "map (candidate_for s ob) post"]) (simp add: t(2))
qed

lemma no_candidate_kind: "ri_no_candidate (relation_input_of sv sn ob authority rq) \<noteq> Some Prescribed"
  by (simp add: relation_input_of_def Let_def)

lemma input_simps [simp]:
  "ri_requested (relation_input_of sv sn ob authority rq) = rq"
  "ri_marked (relation_input_of sv sn ob authority rq) = contracts_match (sv_contracts sv) (sn_observation sn) ob"
  "ri_available (relation_input_of sv sn ob authority rq) = available_authority authority"
  by (simp_all add: relation_input_of_def Let_def)

definition preferred_transition ::
    "sd_observation \<Rightarrow> sd_objective \<Rightarrow> string \<Rightarrow> sd_transition list \<Rightarrow> sd_transition \<Rightarrow> bool" where
  "preferred_transition s ob rq ts t \<longleftrightarrow> t \<in> set ts \<and> admissible_candidate s ob t
     \<and> (if rq = [] then progresses s ob t
          \<and> (\<forall>u\<in>set ts. admissible_candidate s ob u \<and> progresses s ob u \<and> u \<noteq> t
                \<longrightarrow> selection_key t < selection_key u)
        else tn_id t = rq)"

lemma eligible_preferred:
  assumes "distinct (map tn_id (rg_ordered (sv_registry sv)))"
  shows "(\<exists>c. strictly_preferred (eligible (relation_input_of sv sn ob authority rq)) c \<and> rc_id c = i
        \<and> authorized c (set (available_authority authority)))
    \<longleftrightarrow> (\<exists>t. preferred_transition (sn_observation sn) ob rq (rg_ordered (sv_registry sv)) t \<and> tn_id t = i
        \<and> sufficient_authority (sn_observation sn) t authority)"
proof -
  let ?s = "sn_observation sn" and ?all = "rg_ordered (sv_registry sv)"
  let ?P = "\<lambda>t. admissible_candidate ?s ob t \<and> (if rq = [] then progresses ?s ob t else tn_id t = rq)"
  have unique: "u = t" if "u \<in> set ?all" "t \<in> set ?all" "tn_id u = tn_id t" for u t
    using assms that by (auto simp: distinct_map inj_on_def)
  define F where "F = filter ?P ?all"
  have "distinct (map tn_id F)"
    using assms by (simp add: F_def distinct_map_filter)
  note pref = strictly_preferred_map [OF this, of ?s ob]
  have "preferred_transition ?s ob rq ?all t \<longleftrightarrow>
      t \<in> set F \<and> (\<forall>u\<in>set F. u \<noteq> t \<longrightarrow> selection_key t < selection_key u)" for t
    using unique by (auto simp: F_def preferred_transition_def)
  then show ?thesis
    unfolding eligible_candidates F_def [symmetric] pref by (metis authorized_candidate candidate_simps(2))
qed

lemma supervise_kind:
  assumes "supervise_early sv sn ob rq = None"
  shows "de_kind (supervise sv sn ob authority rq)
      = map_decision_kind (d_kind (relate (relation_input_of sv sn ob authority rq)))"
    "de_transition (supervise sv sn ob authority rq) =
       (let d = relate (relation_input_of sv sn ob authority rq) in
        if d_kind d = Prescribed
        then map_of (rev (map (\<lambda>t. (tn_id t, t))
          (filter (\<lambda>t. (rq = [] \<or> tn_id t = rq) \<and> admissible_candidate (sn_observation sn) ob t)
             (rg_ordered (sv_registry sv))))) (d_transition d)
        else None)"
  using assms
  by (simp_all add: supervise_def supervise_with_trace_def Let_def relate_with_trace_def screen_transition_snd)

lemma map_decision_prescribed [simp]: "map_decision_kind k = Decision_prescribed \<longleftrightarrow> k = Prescribed"
  by (cases k) (simp_all add: map_decision_kind_def)

lemma early_not_prescribed: "supervise_early sv sn ob rq = Some (k, m) \<Longrightarrow> k \<noteq> Decision_prescribed"
  by (auto simp: supervise_early_def Let_def split: if_split_asm)

lemma preferred_cong: "set us = set ts \<Longrightarrow> preferred_transition s ob rq us t = preferred_transition s ob rq ts t"
  by (simp add: preferred_transition_def)

lemma prescribed_candidate:
  assumes "distinct (map tn_id ts)" "preferred_transition s ob rq ts t"
  shows "map_of (rev (map (\<lambda>t. (tn_id t, t))
      (filter (\<lambda>t. (rq = [] \<or> tn_id t = rq) \<and> admissible_candidate s ob t) ts))) (tn_id t) = Some t"
  using assms by (subst map_of_indexed) (auto simp: distinct_map_filter preferred_transition_def split: if_splits)

lemma supervisor_prescribes:
  assumes "new_registry ts = Inr (sv_registry sv)"
  shows "(de_kind (supervise sv sn ob authority rq) = Decision_prescribed
      \<and> de_transition (supervise sv sn ob authority rq) = Some t)
    \<longleftrightarrow> supervise_early sv sn ob rq = None
      \<and> \<not> (contracts_match (sv_contracts sv) (sn_observation sn) ob \<and> rq = [])
      \<and> preferred_transition (sn_observation sn) ob rq ts t
      \<and> sufficient_authority (sn_observation sn) t authority"
proof (cases "supervise_early sv sn ob rq")
  case (Some km)
  then show ?thesis
    using early_not_prescribed [of sv sn ob rq "fst km" "snd km"]
    by (auto simp: supervise_def supervise_with_trace_def split: prod.splits)
next
  case None
  let ?inp = "relation_input_of sv sn ob authority rq" and ?all = "rg_ordered (sv_registry sv)"
    and ?s = "sn_observation sn"
  have all: "distinct (map tn_id ?all)" "set ?all = set ts"
    by (rule registry_ordered [OF assms])+
  note pref = preferred_cong [OF all(2), of ?s ob rq]
  have relate: "d_kind (relate ?inp) = Prescribed \<and> d_transition (relate ?inp) = i
      \<longleftrightarrow> \<not> (contracts_match (sv_contracts sv) ?s ob \<and> rq = [])
        \<and> (\<exists>u. preferred_transition ?s ob rq ts u \<and> tn_id u = i \<and> sufficient_authority ?s u authority)" for i
    using relate_prescribed_iff [OF no_candidate_kind, of sv sn ob authority rq i]
      eligible_preferred [OF all(1), of sn ob authority rq i] by (simp add: pref)
  have found: "de_transition (supervise sv sn ob authority rq) = Some u"
    if "d_kind (relate ?inp) = Prescribed" "d_transition (relate ?inp) = tn_id u" "preferred_transition ?s ob rq ts u" for u
    using supervise_kind(2) [OF None, of authority] prescribed_candidate [OF all(1), of ?s ob rq u] that pref
    by (simp add: Let_def)
  show ?thesis
  proof
    assume p: "de_kind (supervise sv sn ob authority rq) = Decision_prescribed
        \<and> de_transition (supervise sv sn ob authority rq) = Some t"
    then have k: "d_kind (relate ?inp) = Prescribed"
      using supervise_kind(1) [OF None, of authority] by simp
    then obtain u where u: "\<not> (contracts_match (sv_contracts sv) ?s ob \<and> rq = [])"
      "preferred_transition ?s ob rq ts u" "tn_id u = d_transition (relate ?inp)" "sufficient_authority ?s u authority"
      using relate [of "d_transition (relate ?inp)"] by blast
    then have "u = t"
      using found [OF k _ u(2)] p by simp
    then show "supervise_early sv sn ob rq = None
        \<and> \<not> (contracts_match (sv_contracts sv) ?s ob \<and> rq = [])
        \<and> preferred_transition ?s ob rq ts t \<and> sufficient_authority ?s t authority"
      using None u by blast
  next
    assume c: "supervise_early sv sn ob rq = None
        \<and> \<not> (contracts_match (sv_contracts sv) ?s ob \<and> rq = [])
        \<and> preferred_transition ?s ob rq ts t \<and> sufficient_authority ?s t authority"
    then have "d_kind (relate ?inp) = Prescribed \<and> d_transition (relate ?inp) = tn_id t"
      using relate [of "tn_id t"] by blast
    then show "de_kind (supervise sv sn ob authority rq) = Decision_prescribed
        \<and> de_transition (supervise sv sn ob authority rq) = Some t"
      using found [of t] c supervise_kind(1) [OF None, of authority] by simp
  qed
qed

text \<open>
  C5. The supervisor prescribes a transition exactly when no early check decides, the objective is
  not already met (or the transition was requested), the transition is declared, admissible from
  the snapshot under the objective, the recovery phase and the repository policy, strictly first
  by selection class and priority among all that make progress (or the one requested), and the
  available authority satisfies its declaration and what the policy adds.
\<close>

theorem supervise_exact:
  assumes "new_registry ts = Inr (sv_registry sv)"
  shows "(de_kind (supervise sv sn ob authority rq) = Decision_prescribed
      \<and> de_transition (supervise sv sn ob authority rq) = Some t)
    \<longleftrightarrow> supervise_early sv sn ob rq = None
      \<and> \<not> (contracts_match (sv_contracts sv) (sn_observation sn) ob \<and> rq = [])
      \<and> preferred_transition (sn_observation sn) ob rq ts t
      \<and> sufficient_authority (sn_observation sn) t authority"
  using assms by (rule supervisor_prescribes)

section \<open>Resolution and admission agree\<close>

lemma early_None:
  assumes "supervise_early sv sn ob rq = None"
  shows "sn_fingerprint sn \<noteq> []"
    "is_known (ob_configuration_policy (sn_observation sn)) \<Longrightarrow>
       iv_host (ob_invocation (sn_observation sn)) \<in> set (cp_hosts (f_value (ob_configuration_policy (sn_observation sn))))"
  using assms by (auto simp: supervise_early_def Let_def host_enabled_def split: if_split_asm)

lemma policy_authority_sufficient:
  assumes "is_known (ob_configuration_policy s)" "sufficient_authority s t authority" "fst (policy_allows s t)"
    and "iv_host (ob_invocation s) \<in> set (cp_hosts (f_value (ob_configuration_policy s)))"
  shows "policy_authority_error s t authority = None"
proof -
  have "set (policy_required s t) \<subseteq> set (available_authority authority)"
    using assms(2) by (simp add: sufficient_authority_def)
  then have "pl_authority_rule (tn_policy t) = ''plan-approval''
      \<and> cp_plan_approval (f_value (ob_configuration_policy s)) = ''human'' \<longrightarrow> Authority_human \<in> set authority"
    "pl_authority_rule (tn_policy t) = ''independent-high-risk-review''
      \<and> cp_independent_review (f_value (ob_configuration_policy s))
      \<and> cp_high_risk_change (f_value (ob_configuration_policy s)) \<longrightarrow> Authority_human \<in> set authority"
    using assms(1) by (auto simp: policy_required_def Let_def)
  then show ?thesis
    using assms(1,3,4) by (auto simp: policy_authority_error_def policy_allows_def Let_def split: if_split_asm)
qed

text \<open>
  C16. What resolution prescribes, admission accepts, on these assumptions. Of the snapshot: the
  configuration policy is known, the recovery context is known when the transition is a recovery,
  the program fingerprint is a digest, and a known objective is valid. Of the request: its
  objective is valid, its receipts are valid and evidenced, its parameters and provider binding
  hold, its source revision is the one observed when the transition binds it, and its invocation
  is effectful. Then a prescribed transition passes every clause of \<open>ValidateApplicability\<close>.
  The policy matters: with an unknown policy the supervisor can prescribe a requested transition
  that a policy requires, and \<open>validatePolicyAuthority\<close> refuses it.
\<close>

theorem prescription_applicable:
  fixes sv sn ob b ps now
  defines "s \<equiv> sn_observation sn"
  assumes "new_registry ts = Inr (sv_registry sv)"
    and "de_kind (supervise sv sn ob (bundle_set b now) rq) = Decision_prescribed"
    and "de_transition (supervise sv sn ob (bundle_set b now) rq) = Some t"
    and "bundle_validate b now = None" and "authority_evidence_error s b = None"
    and "parameters_validate ps t = None" and "provider_binding_error b t ps = None"
    and "invocation_validate (ob_invocation s) True = None" and "length (ob_program_fingerprint s) = 64"
    and "tn_binds_source_revision t \<longrightarrow> fst (git_binding s) \<noteq> [] \<and> snd (git_binding s) \<noteq> []
           \<and> parameter_text ps ''source_revision'' = fst (git_binding s)"
    and "is_known (ob_configuration_policy s)"
    and "tn_class t = Event_recovery \<longrightarrow> is_known (ob_recovery_info s)"
    and "sd_objective_validate ob = None"
    and "is_known (ob_objective s) \<longrightarrow> sd_objective_validate (f_value (ob_objective s)) = None"
  shows "validate_applicability sn ob t b ps now = None"
proof -
  have x: "supervise_early sv sn ob rq = None" "preferred_transition s ob rq ts t"
    "sufficient_authority s t (bundle_set b now)"
    using supervisor_prescribes [OF assms(2), of sn ob "bundle_set b now" rq t] assms(3,4) by (simp_all add: s_def)
  have a: "tn_controllable t" "source_matches t s" "supports_objective t ob" "fst (policy_allows s t)"
    "is_known (ob_objective s) \<and> f_value (ob_objective s) \<noteq> ob \<longrightarrow> pl_binds_objective (tn_policy t)"
    using x(2) by (auto simp: preferred_transition_def admissible_candidate_def)
  note early = early_None [OF x(1), folded s_def]
  have policy: "policy_authority_error s t (bundle_set b now) = None"
    using policy_authority_sufficient assms(12) x(3) a(4) early(2) by blast
  have recovery: "recovery_permission_error s t = None"
    using a(4) assms(13) by (auto simp: recovery_permission_error_def policy_allows_def split: if_split_asm)
  have authority: "authority_satisfies (bundle_set b now) (tn_authority t) (tn_authority_all t)"
    using x(3) by (simp add: sufficient_authority_def)
  obtain ob' where ob': "objective_for_transition s ob t = Inr ob'" "supports_objective t ob'"
    "\<not> (is_known (ob_objective s) \<and> f_value (ob_objective s) \<noteq> ob' \<and> \<not> pl_binds_objective (tn_policy t))"
  proof (cases "tn_scope t = Objective_optional_preserve")
    case True
    then have "is_known (ob_objective s) \<or> f_status (ob_objective s) = Fact_absent"
      using a(2) by (simp add: source_matches_iff)
    moreover have "supports_objective t g" for g
      using True by (simp add: supports_objective_def objective_evaluation_def)
    ultimately show ?thesis
      using that True assms(15) by (cases "is_known (ob_objective s)") (auto simp: objective_for_transition_def)
  next
    case False
    then show ?thesis
      using that [of ob] a(3,5) assms(14) by (auto simp: objective_for_transition_def)
  qed
  obtain revision worktree where git: "git_binding s = (revision, worktree)"
    by fastforce
  have "first_failure (applicability_errors sn ob' t b ps now) = None"
    using early(1) a(1,2) ob'(2,3) assms(5-8,10,11) policy recovery authority git
    by (simp add: applicability_errors_def Let_def flip: s_def)
  then show ?thesis
    using a(1) assms(9) ob'(1) by (simp add: validate_applicability_def s_def)
qed

section \<open>The command hook\<close>

text \<open>
  C18. The guard lets a command pass exactly when its intent is well formed, the snapshot carries
  a fingerprint, and either the command is ordinary, or it is a managed bypass and no transition
  manages its operation, or it is a managed bypass, the phase is not recovery and the engagement
  is known and neither command nor active (dormant, but also stale, conflicting or invalid). In
  particular a destructive command never passes, managed or not. For a well-formed managed bypass
  on such a snapshot the verdict names the transition that manages the operation, whether the
  command passes or not, and every name it gives is that of the only such transition.
\<close>

theorem guard_exact:
  fixes sv sn i
  defines "s \<equiv> sn_observation sn"
  assumes "new_registry ts = Inr (sv_registry sv)"
  shows "(gd_allowed (guard sv sn i) \<longleftrightarrow> intent_validate i = None \<and> sn_fingerprint sn \<noteq> []
      \<and> (ci_class i = Intent_ordinary
         \<or> ci_class i = Intent_managed_bypass
           \<and> ((\<forall>t\<in>set ts. ci_operation i \<notin> set (managed_operations t))
              \<or> is_known (ob_engagement s) \<and> f_value (ob_phase s) \<noteq> Phase_recovery
                \<and> f_value (ob_engagement s) \<notin> {Engagement_command, Engagement_active})))
    \<and> (gd_required (guard sv sn i) \<noteq> [] \<longrightarrow>
        (\<exists>t\<in>set ts. gd_required (guard sv sn i) = tn_id t
          \<and> {u \<in> set ts. ci_operation i \<in> set (managed_operations u)} = {t}))
    \<and> (\<forall>t\<in>set ts. ci_operation i \<in> set (managed_operations t) \<longrightarrow> ci_class i = Intent_managed_bypass
        \<longrightarrow> intent_validate i = None \<longrightarrow> sn_fingerprint sn \<noteq> [] \<longrightarrow> gd_required (guard sv sn i) = tn_id t)"
proof -
  note owner = managed_transition_iff [OF assms(2), of "ci_operation i"]
  have classes: "ci_class i \<in> {Intent_ordinary, Intent_destructive, Intent_managed_bypass}"
    if "intent_validate i = None"
    using that by (auto simp: intent_validate_def split: if_split_asm)
  show ?thesis
  proof (cases "managed_transition (sv_registry sv) (ci_operation i)")
    case None
    then have "\<forall>t\<in>set ts. ci_operation i \<notin> set (managed_operations t)"
      using owner by auto
    then show ?thesis
      using None classes by (auto simp: guard_def Let_def)
  next
    case (Some t)
    then have "t \<in> set ts"
      using owner by blast
    have only: "u = t" if "u \<in> set ts" "ci_operation i \<in> set (managed_operations u)" for u
      using owner [of u] that Some by simp
    then have "{u \<in> set ts. ci_operation i \<in> set (managed_operations u)} = {t}" "t \<in> set ts"
      using \<open>t \<in> set ts\<close> owner [of t] Some by blast+
    moreover have "gd_required (guard sv sn i) \<in> {[], tn_id t}"
      using Some by (simp add: guard_def Let_def)
    moreover have "gd_allowed (guard sv sn i) \<longleftrightarrow> intent_validate i = None \<and> sn_fingerprint sn \<noteq> []
        \<and> (ci_class i = Intent_ordinary \<or> ci_class i = Intent_managed_bypass
             \<and> is_known (ob_engagement s) \<and> f_value (ob_phase s) \<noteq> Phase_recovery
             \<and> f_value (ob_engagement s) \<notin> {Engagement_command, Engagement_active})"
      using Some classes by (auto simp: guard_def Let_def s_def)
    moreover have "\<not> (\<forall>t\<in>set ts. ci_operation i \<notin> set (managed_operations t))"
      using \<open>t \<in> set ts\<close> owner [of t] Some by blast
    moreover have "gd_required (guard sv sn i) = tn_id u"
      if "u \<in> set ts" "ci_operation i \<in> set (managed_operations u)"
        "ci_class i = Intent_managed_bypass" "intent_validate i = None" "sn_fingerprint sn \<noteq> []" for u
      unfolding only [OF that(1,2)] using Some that(3-5) by (simp add: guard_def Let_def)
    ultimately show ?thesis
      by blast
  qed
qed

end
