(* ===== verification/Delivery_Examples.thy ===== *)
theory Delivery_Examples
  imports Delivery_Commit Delivery_Supervisor_Laws
begin

text \<open>
  The theorems on software delivery at work on a small program: one declared step with its
  recovery, and one native gate, applied to concrete states, admissions and snapshots.
\<close>

section \<open>A program\<close>

definition example_origin :: transition_origin where
  "example_origin = \<lparr>og_kind = Origin_program, og_id = ''boatstack.standard'', og_version = ''1'', og_manifest = ''manifest''\<rparr>"

definition example_interruption :: interruption_contract where
  "example_interruption = \<lparr>ic_points = [''before''], ic_partial_state = [''none''], ic_detection = ''journal'',
     ic_resume = ''resume'', ic_rollback = ''rollback'', ic_compensation = ''none'',
     ic_recovery = ''recovery.resume'', ic_recovery_authority = ''human'', ic_resumption_predicate = ''resumable''\<rparr>"

definition example_policy :: policy_contract where
  "example_policy = \<lparr>pl_required_when = [], pl_authority_rule = [], pl_availability_rule = [],
     pl_evidence_prefix = [], pl_managed_operations = [], pl_binds_objective = False,
     pl_reconciles_program = False, pl_rechecks_external = False, pl_objective_scope = Objective_bound_exact\<rparr>"

definition known_facet :: "string \<Rightarrow> string list \<Rightarrow> facet_condition" where
  "known_facet f vs = \<lparr>fc_facet = f, fc_statuses = [Fact_known], fc_values = vs\<rparr>"

text \<open>The step: from \<open>OBSERVED\<close> to \<open>ACTIVE\<close>, with a literal, a parameter and an admission value.\<close>

definition no_reference :: value_reference where
  "no_reference = \<lparr>vr_parameter = [], vr_admission = [], vr_invocation = []\<rparr>"

definition example_step :: sd_transition where
  "example_step = \<lparr>tn_id = ''delivery.start'', tn_version = 1, tn_origin = example_origin, tn_owner = ''standard'',
     tn_selection = Selection_program_progress, tn_class = Event_owned_local,
     tn_source_phases = [Phase_observed], tn_target_phases = [Phase_active], tn_target_ids = [],
     tn_required_identity = [''repository''], tn_authority = [Authority_repository], tn_authority_all = [],
     tn_required_capabilities = [], tn_declared_capabilities = [Capability_product_mutate, Capability_repository_write],
     tn_runtime_execution = False, tn_required_evidence = [''delivery''], tn_owned_resources = [''state''],
     tn_owned_facets = [Facet_control, Facet_product],
     tn_state_effect = \<lparr>se_kind = Effect_assignments,
       se_preconditions = [\<lparr>pc_facet = ''phase'', pc_values = [Phase_observed]\<rparr>],
       se_assignments =
         [\<lparr>as_facet = ''phase'', as_value = Some Phase_active, as_from = no_reference\<rparr>,
          \<lparr>as_facet = ''delivery'', as_value = Some Delivery_active, as_from = no_reference\<rparr>,
          \<lparr>as_facet = ''workspace_branch'', as_value = None, as_from = no_reference\<lparr>vr_parameter := ''branch''\<rparr>\<rparr>,
          \<lparr>as_facet = ''source_revision'', as_value = None, as_from = no_reference\<lparr>vr_admission := ''source_revision''\<rparr>\<rparr>],
       se_native_handler = []\<rparr>,
     tn_effect = ''delivery.start'', tn_local_effects = [''delivery.start''], tn_external_effects = [],
     tn_idempotent = True, tn_parameters = [\<lparr>ps_name = ''branch'', ps_required = True, ps_secret = False\<rparr>],
     tn_prescription = \<lparr>sp_operation = ''start'', sp_arguments = [], sp_authority_prompt = [], sp_postcondition = ''active''\<rparr>,
     tn_source_predicate = ''observed'', tn_source_conditions = [known_facet ''delivery'' [Delivery_approved]],
     tn_admission_predicate = ''admitted'', tn_target_predicate = ''active'',
     tn_target_conditions = [known_facet ''delivery'' [Delivery_active]], tn_verifier = ''state'',
     tn_interruption = example_interruption, tn_reversibility = ''reversible'', tn_terminal_effect = ''none'',
     tn_privacy = ''local'', tn_telemetry = ''local'', tn_cost_class = ''low'',
     tn_policy = example_policy\<lparr>pl_managed_operations := [''workspace.start'']\<rparr>, tn_priority = 10,
     tn_identity_rebind = False, tn_worktree_transfer = False, tn_execution_context = [],
     tn_binds_source_revision = False, tn_authority_parameter = [], tn_work = None\<rparr>"

definition example_recovery :: sd_transition where
  "example_recovery = example_step
     \<lparr>tn_id := ''recovery.resume'', tn_selection := Selection_program_recovery, tn_class := Event_recovery,
      tn_source_phases := [Phase_recovery], tn_effect := ''recovery.resume'',
      tn_local_effects := [''recovery.resume''], tn_owned_resources := [''recovery-journal''],
      tn_state_effect := \<lparr>se_kind = Effect_assignments, se_preconditions = [], se_assignments = [], se_native_handler = []\<rparr>,
      tn_parameters := [], tn_policy := example_policy\<rparr>"

text \<open>A native gate of the standard component.\<close>

definition example_gate :: sd_transition where
  "example_gate = example_step
     \<lparr>tn_id := ''gate.build.record'', tn_effect := ''gate.build.record'', tn_local_effects := [''gate.build.record''],
      tn_selection := Selection_explicit_only, tn_source_phases := [Phase_active],
      tn_target_phases := [Phase_active, Phase_terminal],
      tn_declared_capabilities := [Capability_command_execute, Capability_product_mutate, Capability_repository_write],
      tn_state_effect := \<lparr>se_kind = Effect_native, se_preconditions = [], se_assignments = [],
        se_native_handler = ''gate-build-record''\<rparr>,
      tn_parameters := [\<lparr>ps_name = ''source_revision'', ps_required = True, ps_secret = False\<rparr>,
        \<lparr>ps_name = ''evidence_fingerprint'', ps_required = True, ps_secret = False\<rparr>],
      tn_source_conditions := [known_facet ''delivery'' [Delivery_active]],
      tn_policy := example_policy\<rparr>"

lemma example_step_valid: "validate_transition example_step = None"
  by code_simp

lemma example_recovery_valid: "validate_transition example_recovery = None"
  by code_simp

lemma example_gate_valid: "validate_transition example_gate = None"
  by code_simp

definition example_program :: "sd_transition list" where
  "example_program = [example_step, example_gate, example_recovery]"

lemma example_program_valid: "registrable example_program" "recoverable example_program"
proof -
  have "distinct (map tn_id example_program) \<and> distinct (claimed example_program)"
    unfolding example_program_def claimed_def by code_simp
  then show "registrable example_program"
    using example_step_valid example_recovery_valid example_gate_valid
    by (simp add: registrable_def example_program_def)
  show "recoverable example_program"
    unfolding recoverable_def example_program_def
    by (simp add: example_step_def example_gate_def example_recovery_def example_interruption_def)
qed

definition example_registry :: registry where
  "example_registry = \<lparr>rg_ordered = sort_key selection_order example_program,
     rg_by_id = rev (map (\<lambda>t. (tn_id t, t)) example_program), rg_managed = rev (claims example_program)\<rparr>"

lemma example_registry_built: "new_registry example_program = Inr example_registry"
  using example_program_valid by (simp add: new_registry_iff example_registry_def)

theorem registry_exact_witness:
  "registry_lookup example_registry ''recovery.resume'' = Some example_recovery
    \<and> managed_transition example_registry ''workspace.start'' = Some example_step
    \<and> map tn_id (rg_ordered example_registry) = [''recovery.resume'', ''delivery.start'', ''gate.build.record'']"
proof -
  have "map tn_id (rg_ordered example_registry) = [''recovery.resume'', ''delivery.start'', ''gate.build.record'']"
    by code_simp
  then show ?thesis
    using registry_exact [OF example_registry_built]
    by (simp add: example_program_def example_recovery_def) (simp add: example_step_def)
qed

section \<open>States and admissions\<close>

definition example_time :: gtime where
  "example_time = \<lparr>t_nanos = 63900000000000000000, t_offset = 0\<rparr>"

definition example_invocation :: invocation where
  "example_invocation = \<lparr>iv_repository_id = ''repo'', iv_git_common_id = ''common'', iv_worktree_id = ''tree'',
     iv_ref = ''refs/heads/main'', iv_controller_id = ''controller'', iv_invoking_path = ''/work'',
     iv_runtime_version = ''1'', iv_runtime_path = ''/bin/boatstack'', iv_runtime_fingerprint = ''rt'',
     iv_topology = ''embedded'', iv_host = ''cli'', iv_correlation = ''c1''\<rparr>"

definition example_objective :: sd_objective where
  "example_objective = \<lparr>so_id = ''o1'', so_target = Objective_verified, so_trusted = [], so_delivery = ''d1'',
     so_evidence = [], so_frontier = False\<rparr>"

definition example_fingerprint :: string where
  "example_fingerprint = replicate 64 (CHR ''a'')"

definition example_state :: durable_state where
  "example_state = (default_state example_invocation example_time)
     \<lparr>ds_phase := Phase_observed, ds_delivery := Delivery_approved, ds_objective := example_objective,
      ds_program_fingerprint := example_fingerprint\<rparr>"

definition example_admission :: sd_admission where
  "example_admission = \<lparr>ad_schema_version = admission_schema_version, ad_id = ''adm-1'', ad_prescription = ''prx-1'',
     ad_transition_id = ''delivery.start'', ad_transition_version = 1, ad_expected_revision = 1,
     ad_expected_program = example_fingerprint, ad_prior_program = [], ad_program_delta = [],
     ad_expected_snapshot = replicate 64 (CHR ''d''), ad_expected_binding = replicate 64 (CHR ''e''),
     ad_source_revision = ''r1'', ad_worktree_fingerprint = ''w1'', ad_source_phase = Phase_observed,
     ad_invocation = example_invocation, ad_objective = example_objective, ad_scope = Objective_bound_exact,
     ad_objective_status = [], ad_authority = [], ad_authority_fingerprint = ''auth-1'',
     ad_required_capabilities = [Capability_product_mutate, Capability_repository_write],
     ad_granted_capabilities = [Capability_product_mutate, Capability_repository_write],
     ad_effective_capabilities = [Capability_product_mutate, Capability_repository_write],
     ad_parameters = [\<lparr>pm_name = ''branch'', pm_value = ''feature''\<rparr>], ad_evidence = [''delivery''],
     ad_idempotency_key = ''idem-1'', ad_issued_at = example_time, ad_expires_at = example_time,
     ad_work = None, ad_bundle = None, ad_bundle_revision = [], ad_invocation_fingerprint = []\<rparr>"

definition started_state :: durable_state where
  "started_state = example_state\<lparr>ds_phase := Phase_active, ds_delivery := Delivery_active,
     ds_workspace_branch := ''feature'', ds_source_revision := ''r1'', ds_last_transition := ''delivery.start''\<rparr>"

lemma example_reduced: "apply_state_transition example_state example_admission example_step = Inr started_state"
  by code_simp

lemma example_parameters: "parameters_validate (ad_parameters example_admission) example_step = None"
  by code_simp

theorem parameters_readable_witness:
  "parameters_get (ad_parameters example_admission) ''branch'' = Some ''feature''
    \<and> parameters_get (ad_parameters example_admission) ''base_ref'' = None"
  using parameters_readable [OF example_parameters]
  by (simp add: example_admission_def example_step_def)

theorem transition_frame_witness:
  "ds_phase started_state \<in> set (tn_target_phases example_step) \<and> ds_objective started_state = example_objective"
  using transition_frame [OF example_reduced] by (simp add: example_state_def example_step_def)

theorem ownership_sound_witness:
  "\<exists>cs. changed_facets example_state started_state = Inr cs \<and> set cs \<subseteq> {Facet_control, Facet_product}"
  using ownership_sound [OF example_step_valid example_reduced] by (auto simp: example_step_def)

theorem declarative_effect_exact_witness:
  "state_facet_value started_state ''workspace_branch'' = Inr ''feature''
    \<and> state_facet_value started_state ''workspace'' = state_facet_value example_state ''workspace''"
  using declarative_effect_exact [OF example_step_valid _ example_reduced]
  by (simp add: example_step_def no_reference_def assignment_value_def example_admission_def)

theorem declarative_effect_total_witness:
  "\<exists>s'. apply_state_transition example_state example_admission example_step = Inr s' \<and> ds_phase s' = Phase_active"
proof -
  have "\<exists>s'. apply_state_transition example_state example_admission example_step = Inr s'"
    by (rule declarative_effect_total [OF example_step_valid]) code_simp+
  then show ?thesis
    using example_reduced by (simp add: started_state_def)
qed

section \<open>Commits\<close>

definition committed_state :: durable_state where
  "committed_state = started_state
     \<lparr>ds_program_fingerprint := example_fingerprint, ds_revision := 2, ds_updated_at := example_time\<rparr>"

lemma example_committed:
  "bind_state_revision example_state example_admission example_step example_time
     = Inr (committed_state, [Facet_control, Facet_product])"
  by code_simp

theorem commit_exact_witness:
  "durable_validate (durable_canonical committed_state) = None
    \<and> domain_changed example_state committed_state Facet_product
    \<and> \<not> domain_changed example_state committed_state Facet_program"
proof -
  have "tn_controllable example_step"
    by code_simp
  then show ?thesis
    using commit_exact [OF example_committed] by (auto simp: example_step_def)
qed

text \<open>A gate recorded for a revision, then recorded again for the same revision.\<close>

definition build_evidence :: "char \<Rightarrow> gate_evidence" where
  "build_evidence c = \<lparr>ge_gate = ''build'', ge_revision = ''r1'', ge_fingerprint = replicate 64 c\<rparr>"

definition gated_state :: durable_state where
  "gated_state = committed_state
     \<lparr>ds_gates := [build_evidence (CHR ''b'')], ds_verification := Verification_stale,
      ds_worktree_fingerprint := ''w1''\<rparr>"

definition gate_admission :: sd_admission where
  "gate_admission = example_admission
     \<lparr>ad_transition_id := ''gate.build.record'', ad_expected_revision := 2,
      ad_parameters := [\<lparr>pm_name = ''source_revision'', pm_value = ''r1''\<rparr>,
        \<lparr>pm_name = ''evidence_fingerprint'', pm_value = replicate 64 (CHR ''c'')\<rparr>]\<rparr>"

definition regated_state :: durable_state where
  "regated_state = gated_state
     \<lparr>ds_gates := [build_evidence (CHR ''c'')], ds_last_transition := ''gate.build.record'', ds_revision := 3\<rparr>"

lemma example_regated:
  "bind_state_revision gated_state gate_admission example_gate example_time = Inr (regated_state, [Facet_control])"
  by code_simp

theorem regate_unreported_witness:
  "domain_changed gated_state regated_state Facet_product \<and> Facet_product \<notin> set [Facet_control]"
proof -
  have "domain_changed gated_state regated_state Facet_product"
    by (simp add: domain_changed_def part_defs regated_state_def gated_state_def build_evidence_def)
  moreover have "product_part (gated_state\<lparr>ds_gates := ds_gates regated_state\<rparr>) = product_part regated_state"
    by (simp add: part_defs regated_state_def gated_state_def)
  moreover have "length (ds_gates regated_state) = length (ds_gates gated_state)"
    by (simp add: regated_state_def gated_state_def)
  ultimately show ?thesis
    using regate_unreported [OF example_regated] by blast
qed

section \<open>Observations\<close>

definition example_evidence :: evidence where
  "example_evidence = \<lparr>ev_source = ''git:delivery'', ev_fingerprint = ''w1'', ev_revision = ''r1'',
     ev_observed_at = example_time\<rparr>"

abbreviation seen :: "'a \<Rightarrow> 'a fact" where
  "seen v \<equiv> known v example_evidence"

definition example_policies :: configuration_policy where
  "example_policies = \<lparr>cp_plan_approval = ''human'', cp_independent_review = False, cp_high_risk_change = False,
     cp_visual_evidence = ''off'', cp_external_effect = ''human-or-autonomy-plus-provider'',
     cp_hosts = [''codex'', ''cli'']\<rparr>"

definition example_binding_evidence :: evidence where
  "example_binding_evidence = \<lparr>ev_source = ''compiled-control-program'', ev_fingerprint = example_fingerprint,
     ev_revision = [], ev_observed_at = example_time\<rparr>"

definition missing :: "'a \<Rightarrow> 'a fact" where
  "missing v = \<lparr>f_status = Fact_absent, f_value = v, f_evidence = [], f_detail = []\<rparr>"

definition example_observation :: sd_observation where
  "example_observation = \<lparr>ob_schema_version = snapshot_schema_version, ob_state_revision = 1,
     ob_program_fingerprint = example_fingerprint, ob_recorded_fingerprint = example_fingerprint,
     ob_invocation = example_invocation, ob_program = known Program_current example_binding_evidence, ob_phase = seen Phase_observed,
     ob_engagement = seen Engagement_active, ob_delivery = seen Delivery_approved,
     ob_workspace = seen Workspace_absent, ob_work_package = seen Work_package_absent,
     ob_plan = seen Plan_approved,
     ob_configuration = known Configuration_verified (example_evidence\<lparr>ev_source := ''configuration:repo''\<rparr>),
     ob_configuration_policy = seen example_policies, ob_runtime = seen Runtime_verified,
     ob_publication = seen Publication_none, ob_verification = seen Verification_unverified,
     ob_recovery = seen Recovery_none, ob_transaction = seen Transaction_none,
     ob_recovery_info = missing \<lparr>rx_transaction = [], rx_cause = [], rx_source_phase = [], rx_permitted = [],
       rx_budget = 0, rx_resumption = []\<rparr>,
     ob_transaction_info = missing \<lparr>tx_id = [], tx_transition = [], tx_status = [], tx_resources = [],
       tx_external = False\<rparr>,
     ob_terminal = seen Terminal_nonterminal, ob_objective = seen example_objective,
     ob_program_facts = [(''acme.check.result'', seen ''passed'')], ob_extension_facts = [], ob_observed_at = example_time\<rparr>"

lemma example_acceptable: "acceptable example_observation \<and> \<not> time_is_zero (ob_observed_at example_observation)"
  by code_simp

lemma example_defaulted: "observation_defaults example_observation = example_observation"
  by code_simp

lemma example_canonical:
  "\<exists>sn. canonicalize example_observation = Inr sn
     \<and> sn_observation sn = zero_fact_maps (canonical_policy example_observation)"
proof -
  let ?c = "canonical_policy example_observation"
  obtain h where "observation_fingerprint ?c = (Inr h, zero_fact_maps ?c)"
    using observation_fingerprint_total by metis
  moreover have "ob_schema_version example_observation = snapshot_schema_version"
    "ob_state_revision example_observation = 1"
    by (simp_all add: example_observation_def)
  ultimately have "canonicalize example_observation
      = Inr \<lparr>sn_observation = zero_fact_maps ?c, sn_fingerprint = h\<rparr>"
    using example_acceptable by (simp add: canonicalize_Inr example_defaulted observation_errors_None)
  then show ?thesis
    by simp
qed

theorem canonicalize_fixpoint_witness:
  "\<exists>sn. canonicalize example_observation = Inr sn \<and> canonicalize (sn_observation sn) = Inr sn"
  using example_canonical canonicalize_fixpoint by blast

theorem canonical_snapshot_consistent_witness:
  "\<exists>sn. canonicalize example_observation = Inr sn \<and> snapshot_consistent (sn_observation sn)
    \<and> length (sn_fingerprint sn) = 64"
  using example_canonical canonical_snapshot_consistent by blast

text \<open>
  The same state of affairs seen later: every fact, those of the maps included, is observed at
  another time, the hosts are listed in another order.
\<close>

definition later_time :: gtime where
  "later_time = example_time\<lparr>t_nanos := 63900000000000000001\<rparr>"

abbreviation seen_later :: "'a \<Rightarrow> 'a fact" where
  "seen_later v \<equiv> known v (example_evidence\<lparr>ev_observed_at := later_time\<rparr>)"

definition later_observation :: sd_observation where
  "later_observation = example_observation
     \<lparr>ob_observed_at := later_time,
      ob_program := known Program_current (example_binding_evidence\<lparr>ev_observed_at := later_time\<rparr>),
      ob_phase := seen_later Phase_observed, ob_engagement := seen_later Engagement_active,
      ob_delivery := seen_later Delivery_approved, ob_workspace := seen_later Workspace_absent,
      ob_work_package := seen_later Work_package_absent, ob_plan := seen_later Plan_approved,
      ob_configuration := known Configuration_verified
        (example_evidence\<lparr>ev_source := ''configuration:repo'', ev_observed_at := later_time\<rparr>),
      ob_configuration_policy := seen_later (example_policies\<lparr>cp_hosts := [''cli'', ''codex'']\<rparr>),
      ob_runtime := seen_later Runtime_verified, ob_publication := seen_later Publication_none,
      ob_verification := seen_later Verification_unverified, ob_recovery := seen_later Recovery_none,
      ob_transaction := seen_later Transaction_none, ob_terminal := seen_later Terminal_nonterminal,
      ob_objective := seen_later example_objective,
      ob_program_facts := [(''acme.check.result'', seen_later ''passed'')]\<rparr>"

lemma example_reobserved: "reobserved example_observation later_observation"
  unfolding reobserved_def by code_simp

theorem fingerprint_reproducible_witness:
  "(\<exists>sn sn'. canonicalize example_observation = Inr sn \<and> canonicalize later_observation = Inr sn'
      \<and> sn_fingerprint sn' = sn_fingerprint sn)
    \<and> ob_plan later_observation \<noteq> ob_plan example_observation
    \<and> ob_objective later_observation \<noteq> ob_objective example_observation
    \<and> ob_program_facts later_observation \<noteq> ob_program_facts example_observation"
proof (intro conjI)
  have "\<not> time_is_zero (ob_observed_at later_observation)"
    by code_simp
  then show "\<exists>sn sn'. canonicalize example_observation = Inr sn \<and> canonicalize later_observation = Inr sn'
      \<and> sn_fingerprint sn' = sn_fingerprint sn"
    using example_canonical fingerprint_reproducible [OF _ example_reobserved] by blast
  show "ob_plan later_observation \<noteq> ob_plan example_observation"
    "ob_objective later_observation \<noteq> ob_objective example_observation"
    "ob_program_facts later_observation \<noteq> ob_program_facts example_observation"
    by code_simp+
qed

theorem snapshot_loses_map_times_witness:
  "\<exists>sn. canonicalize example_observation = Inr sn
    \<and> (''acme.check.result'', known ''passed'' (example_evidence\<lparr>ev_observed_at := zero_time\<rparr>))
        \<in> set (ob_program_facts (sn_observation sn))
    \<and> ev_observed_at example_evidence \<noteq> zero_time
    \<and> ob_phase (sn_observation sn) = seen Phase_observed"
proof -
  obtain sn where sn: "canonicalize example_observation = Inr sn"
    "sn_observation sn = zero_fact_maps (canonical_policy example_observation)"
    using example_canonical by blast
  have facts: "(''acme.check.result'', known ''passed'' (example_evidence\<lparr>ev_observed_at := zero_time\<rparr>))
      \<in> set (ob_program_facts (sn_observation sn))"
    unfolding sn(2) by code_simp
  have "ev_observed_at example_evidence \<noteq> zero_time"
    by code_simp
  moreover have "ob_phase (sn_observation sn) = seen Phase_observed"
    using snapshot_loses_map_times [OF sn(1) facts] by (simp add: known_def example_observation_def)
  ultimately show ?thesis
    using sn(1) facts by blast
qed

section \<open>Resolution\<close>

definition example_contracts :: objective_contracts where
  "example_contracts = [(Objective_verified,
     \<lparr>oc_target = Objective_verified, oc_trusted = Objective_verified,
      oc_conditions = [known_facet ''delivery'' [Delivery_gates_passed]]\<rparr>)]"

definition example_supervisor :: supervisor where
  "example_supervisor = \<lparr>sv_registry = example_registry, sv_contracts = example_contracts\<rparr>"

definition settled_observation :: sd_observation where
  "settled_observation = zero_fact_maps (canonical_policy example_observation)"

text \<open>The fingerprint is left as a term.\<close>

definition digest_seen :: "sd_observation \<Rightarrow> string" where
  "digest_seen s = (case fst (observation_fingerprint s) of Inl e \<Rightarrow> [] | Inr h \<Rightarrow> h)"

definition example_digest :: string where
  "example_digest = digest_seen (canonical_policy example_observation)"

declare example_digest_def [code del]

definition example_snapshot :: sd_snapshot where
  "example_snapshot = \<lparr>sn_observation = settled_observation, sn_fingerprint = example_digest\<rparr>"

lemma digest_seen:
  "observation_fingerprint s = (Inr (digest_seen s), zero_fact_maps s)" "length (digest_seen s) = 64"
  using observation_fingerprint_total [of s] by (auto simp: digest_seen_def)

lemma example_digest [simp]: "length example_digest = 64" "example_digest \<noteq> []"
  using digest_seen(2) [of "canonical_policy example_observation"] by (auto simp: example_digest_def)

lemma example_snapshot_canonical: "canonicalize example_observation = Inr example_snapshot"
  using example_canonical digest_seen(1) [of "canonical_policy example_observation"]
  by (auto simp: example_snapshot_def settled_observation_def example_digest_def canonicalize_Inr example_defaulted)

lemma supervisor_registry: "new_registry example_program = Inr (sv_registry example_supervisor)"
  using example_registry_built by (simp add: example_supervisor_def)

lemma example_early: "supervise_early example_supervisor example_snapshot example_objective [] = None"
proof -
  have "supervise_early example_supervisor (example_snapshot\<lparr>sn_fingerprint := ''digest''\<rparr>) example_objective [] = None"
    unfolding supervise_early_def Let_def drift_refuses_def by code_simp
  moreover have "sn_fingerprint example_snapshot \<noteq> []"
    by (simp add: example_snapshot_def)
  ultimately show ?thesis
    by (simp add: supervise_early_def Let_def)
qed

lemma example_unmet: "\<not> contracts_match (sv_contracts example_supervisor)
     (sn_observation example_snapshot) example_objective"
  by code_simp

lemma example_preferred:
  "preferred_transition (sn_observation example_snapshot) example_objective [] example_program example_step"
  unfolding preferred_transition_def by code_simp

lemma example_sufficient:
  "sufficient_authority (sn_observation example_snapshot) example_step [Authority_repository]"
  unfolding sufficient_authority_def by code_simp

theorem supervise_exact_witness:
  "de_transition (supervise example_supervisor example_snapshot example_objective [Authority_repository] [])
     = Some example_step"
  using supervise_exact [OF supervisor_registry, of example_snapshot example_objective "[Authority_repository]" "[]"
      example_step] example_early example_unmet example_preferred example_sufficient by blast

definition example_bundle :: authority_bundle where
  "example_bundle = [\<lparr>rp_id = ''repo-1'', rp_class = Authority_repository, rp_subject = ''repo'',
     rp_fingerprint = ''w1'', rp_role = [], rp_provider = [], rp_issued_at = example_time,
     rp_expires_at = zero_time\<rparr>]"

lemma example_bundle_set: "bundle_set example_bundle example_time = [Authority_repository]"
  by code_simp

text \<open>The clauses about the request: receipts, parameters, provider, source revision, invocation.\<close>

lemma example_request:
  "bundle_validate example_bundle example_time = None"
  "authority_evidence_error (sn_observation example_snapshot) example_bundle = None"
  "parameters_validate (ad_parameters example_admission) example_step = None"
  "provider_binding_error example_bundle example_step (ad_parameters example_admission) = None"
  "invocation_validate (ob_invocation (sn_observation example_snapshot)) True = None"
  "length (ob_program_fingerprint (sn_observation example_snapshot)) = 64"
  "\<not> tn_binds_source_revision example_step"
  by code_simp+

lemma example_context:
  "is_known (ob_configuration_policy (sn_observation example_snapshot))"
  "tn_class example_step \<noteq> Event_recovery"
  "sd_objective_validate example_objective = None"
  "sd_objective_validate (f_value (ob_objective (sn_observation example_snapshot))) = None"
  by code_simp+

theorem prescription_applicable_witness:
  "validate_applicability example_snapshot example_objective example_step example_bundle
     (ad_parameters example_admission) example_time = None"
proof -
  let ?d = "supervise example_supervisor example_snapshot example_objective
      (bundle_set example_bundle example_time) []"
  have d: "de_kind ?d = Decision_prescribed" "de_transition ?d = Some example_step"
    using supervisor_prescribes [OF supervisor_registry, of example_snapshot example_objective
        "[Authority_repository]" "[]" example_step]
      example_early example_unmet example_preferred example_sufficient
    by (auto simp: example_bundle_set)
  show ?thesis
    by (rule prescription_applicable [OF supervisor_registry d])
      (use example_request example_context in blast)+
qed

definition start_command :: command_intent where
  "start_command = \<lparr>ci_class = Intent_managed_bypass, ci_operation = ''workspace.start'',
     ci_fingerprint = ''f'', ci_transition = []\<rparr>"

theorem guard_exact_witness:
  "\<not> gd_allowed (guard example_supervisor example_snapshot start_command)
    \<and> gd_allowed (guard example_supervisor example_snapshot (start_command\<lparr>ci_operation := ''ls''\<rparr>))"
proof -
  have "ci_operation start_command \<in> set (managed_operations example_step)"
    "f_value (ob_engagement (sn_observation example_snapshot)) = Engagement_active"
    "\<forall>t\<in>set example_program. ''ls'' \<notin> set (managed_operations t)"
    by code_simp+
  moreover have "sn_fingerprint example_snapshot \<noteq> []"
    by (simp add: example_snapshot_def)
  moreover have "example_step \<in> set example_program"
    "intent_validate (start_command\<lparr>ci_operation := ''ls''\<rparr>) = None"
    by code_simp+
  ultimately show ?thesis
    using guard_exact [OF supervisor_registry, of example_snapshot start_command]
      guard_exact [OF supervisor_registry, of example_snapshot "start_command\<lparr>ci_operation := ''ls''\<rparr>"]
    by (auto simp: start_command_def)
qed

end
