(* ===== verification/Delivery_Commit_Examples.thy ===== *)
theory Delivery_Commit_Examples
  imports Delivery_Examples Delivery_Journal_Laws Go_Decode
begin

text \<open>
  The small program of the examples carried through one transaction: the prescription of its step,
  the admission, an effect on two files, the receipt and the journal. Content digests are left as
  terms: no proof depends on their bits.
\<close>

section \<open>Digests\<close>

definition digest_of :: "json \<Rightarrow> string" where
  "digest_of j = sha256_hex (case encode j of None \<Rightarrow> [] | Some s \<Rightarrow> s)"

lemma hash_json_digest_of: "raw_free j \<Longrightarrow> hash_json j = Inr (digest_of j)"
  using encode_total(1) [of j] by (auto simp: hash_json_def digest_of_def)

lemma content_id_digest_of: "raw_free j \<Longrightarrow> content_id pre j = Inr (pre @ digest_of j)"
  by (simp add: content_id_def hash_json_digest_of)

lemma length_digest_of [simp]: "length (digest_of j) = 64"
  by (simp add: digest_of_def)

lemma digest_of_nonempty [simp]: "digest_of j \<noteq> []"
  using length_digest_of [of j] by (metis length_0_conv zero_neq_numeral)

lemma digest_of_valid [simp]: "valid_control_digest (digest_of j)"
  by (simp add: digest_of_def)

lemma raw_free_documents [simp]:
  "raw_free (invocation_json i)" "raw_free (sd_objective_json ob)" "raw_free (authority_source_json x)"
  "raw_free (parameter_json p)"
  by (simp_all add: invocation_json_def sd_objective_json_def authority_source_json_def parameter_json_def Let_def
      flag_def)

lemma raw_free_arrays [simp]:
  "(\<And>x. x \<in> set xs \<Longrightarrow> raw_free (f x)) \<Longrightarrow> list_all raw_free (map f xs)"
  "(\<And>x. x \<in> set xs \<Longrightarrow> raw_free (f x)) \<Longrightarrow> raw_free (nil_array f xs)"
  by (simp_all add: nil_array_def list_all_iff)

lemma example_time_text [simp]: "time_text example_time \<noteq> None" "time_utc example_time = example_time"
  "time_text zero_time \<noteq> None" "\<not> time_is_zero example_time" "\<not> time_before example_time example_time"
  by code_simp+

section \<open>A prescription\<close>

definition example_required :: "string list" where
  "example_required = [Capability_product_mutate, Capability_repository_write]"

definition example_caps :: capability_projection where
  "example_caps = \<lparr>cj_authority_fingerprint = ''auth-'' @ digest_of (JArr (map authority_source_json (bundle_canonical example_bundle))),
     cj_required = example_required, cj_granted = sorted_capabilities (authority_capabilities [Authority_repository]),
     cj_effective = example_required\<rparr>"

lemma example_projected: "project_capabilities settled_observation example_step example_bundle example_time = Inr example_caps"
proof -
  have "effect_required_capabilities example_step = example_required"
    "\<not> requires_human_approval settled_observation example_step"
    "missing_capability example_required (new_capability_set (tn_declared_capabilities example_step)) = []"
    "missing_capability example_required (authority_capabilities [Authority_repository]) = []"
    "bundle_validate example_bundle example_time = None"
    by code_simp+
  moreover have "bundle_fingerprint example_bundle
      = Inr (''auth-'' @ digest_of (JArr (map authority_source_json (bundle_canonical example_bundle))))"
    by (simp add: bundle_fingerprint_def content_id_digest_of list_all_iff)
  ultimately show ?thesis
    by (simp add: project_capabilities_def example_caps_def example_bundle_set)
qed

definition example_binding :: string where
  "example_binding = digest_of (JObj [(''status'', JStr Fact_known), (''objective'', sd_objective_json example_objective)])"

lemma settled_objective:
  "ob_objective settled_observation = seen example_objective" "is_known (seen example_objective)"
  "f_status (seen example_objective) = Fact_known" "f_value (seen example_objective) = example_objective"
  by code_simp+

lemma example_bound: "objective_binding_fingerprint settled_observation = Inr example_binding"
  by (simp add: objective_binding_fingerprint_def example_binding_def hash_json_digest_of settled_objective)

definition example_freshness :: freshness where
  "example_freshness = \<lparr>fr_instance = ''repo'', fr_revision = 1, fr_program = example_fingerprint,
     fr_snapshot = example_digest, fr_binding = example_binding,
     fr_authority = cj_authority_fingerprint example_caps\<rparr>"

lemma settled_identity:
  "ob_invocation settled_observation = example_invocation" "ob_state_revision settled_observation = 1"
  "ob_program_fingerprint settled_observation = example_fingerprint" "iv_repository_id example_invocation = ''repo''"
  "length example_fingerprint = 64"
  by code_simp+

lemma example_fresh: "snapshot_freshness example_snapshot (cj_authority_fingerprint example_caps) = Inr example_freshness"
  unfolding snapshot_freshness_Inr
  by (intro exI [of _ example_binding])
    (simp add: example_freshness_def example_snapshot_def example_bound freshness_validate_def example_caps_def
      example_fingerprint_def example_binding_def,
     simp add: settled_identity, simp add: example_fingerprint_def)

definition example_draft :: sd_prescription where
  "example_draft = \<lparr>pr_schema_version = sd_prescription_schema_version, pr_id = [], pr_transition = ''delivery.start'',
     pr_freshness = example_freshness, pr_required = example_required, pr_effective = example_required,
     pr_work_fingerprint = [], pr_bundle_fingerprint = [], pr_invocation_fingerprint = []\<rparr>"

definition example_prescription :: sd_prescription where
  "example_prescription = example_draft\<lparr>pr_id := ''prx-'' @ digest_of (sd_prescription_json example_draft)\<rparr>"

lemma raw_free_prescription_json [simp]: "raw_free (sd_prescription_json p)"
  by (simp add: sd_prescription_json_def sd_freshness_fields_def Let_def)

lemma example_prescribed:
  "new_sd_prescription example_snapshot example_step example_caps None None [] = Inr example_prescription"
proof -
  have unbundled: "bundle_for_transition None example_step = None"
    by code_simp
  have "freshness_validate example_freshness = None"
    using example_fresh by (auto simp: snapshot_freshness_Inr)
  then have "prescription_fields_validate example_draft = None"
    by (simp add: prescription_fields_validate_def fails_def example_draft_def example_required_def)
  moreover have "example_draft\<lparr>pr_id := []\<rparr> = example_draft"
    by (simp add: example_draft_def)
  ultimately have "seal_prescription example_draft = Inr example_prescription"
    by (simp add: seal_prescription_def sd_prescription_identity_def content_id_digest_of example_prescription_def)
  moreover have "tn_id example_step = ''delivery.start''"
    by (simp add: example_step_def)
  ultimately show ?thesis
    using unbundled
    by (simp add: new_sd_prescription_def example_fresh)
      (simp add: example_draft_def example_caps_def)
qed

lemma stale_digest: "example_digest \<noteq> ''stale''"
  by (rule notI, drule arg_cong [where f = length]) simp

theorem prescription_binds_witness:
  "prescription_current example_prescription example_snapshot example_step example_caps = None
    \<and> prescription_current example_prescription
        (example_snapshot\<lparr>sn_fingerprint := ''stale''\<rparr>) example_step example_caps \<noteq> None"
proof -
  have "sn_fingerprint (example_snapshot\<lparr>sn_fingerprint := ''stale''\<rparr>) \<noteq> sn_fingerprint example_snapshot"
    using stale_digest by (auto simp: example_snapshot_def)
  then show ?thesis
    using prescription_binds [OF example_prescribed] by blast
qed

section \<open>An admission\<close>

definition example_lifetime :: int where
  "example_lifetime = 120000000000"

definition transaction_parameters :: "parameter list" where
  "transaction_parameters = [\<lparr>pm_name = ''branch'', pm_value = ''feature''\<rparr>]"

definition transaction_draft :: sd_admission where
  "transaction_draft = admission_draft example_snapshot example_objective example_step example_prescription
     example_bundle transaction_parameters example_caps None None [] example_time example_lifetime"

definition transaction_key :: string where
  "transaction_key = ''idem-'' @ digest_of (idempotency_json example_step example_snapshot example_objective
     transaction_parameters example_prescription)"

definition transaction :: sd_admission where
  "transaction = transaction_draft\<lparr>ad_idempotency_key := transaction_key,
     ad_id := ''adm-'' @ digest_of (sd_admission_json (transaction_draft\<lparr>ad_idempotency_key := transaction_key\<rparr>))\<rparr>"

lemma example_admissible:
  "validate_applicability example_snapshot example_objective example_step example_bundle transaction_parameters example_time
     = None"
proof -
  have "tn_controllable example_step" "invocation_validate (ob_invocation (sn_observation example_snapshot)) True = None"
    "objective_for_transition (sn_observation example_snapshot) example_objective example_step = Inr example_objective"
    by code_simp+
  moreover have "\<forall>e\<in>set (applicability_errors example_snapshot example_objective example_step example_bundle
      transaction_parameters example_time). e = None"
    unfolding applicability_errors_None by (intro conjI; code_simp; simp)
  ultimately show ?thesis
    by (simp add: validate_applicability_def first_failure_None)
qed

lemma example_checked:
  "\<forall>e\<in>set (admission_errors example_snapshot example_step example_prescription example_caps None None
      example_lifetime). e = None"
proof -
  have "admission_work_error None example_snapshot example_step = None" "bundle_for_transition None example_step = None"
    by code_simp+
  moreover have "tn_id example_step = ''delivery.start''"
    by (simp add: example_step_def)
  moreover have "sd_prescription_validate example_prescription = None"
  proof -
    have "example_prescription\<lparr>pr_id := []\<rparr> = example_draft"
      by (simp add: example_prescription_def example_draft_def)
    moreover have "freshness_validate example_freshness = None"
      using example_fresh by (auto simp: snapshot_freshness_Inr)
    ultimately show ?thesis
      by (simp add: sd_prescription_validate_def sd_prescription_identity_def content_id_digest_of
          prescription_fields_validate_def fails_def)
        (simp add: example_prescription_def example_draft_def example_required_def)
  qed
  ultimately show ?thesis
    by (simp add: admission_errors_def example_lifetime_def fails_def prescription_current_None prescription_work_error_def
        prescription_bundle_error_def example_fresh)
      (simp add: example_prescription_def example_draft_def example_caps_def)
qed

lemma transaction_sealed:
  "seal_admission transaction_draft (idempotency_json example_step example_snapshot example_objective
     transaction_parameters example_prescription) = Inr transaction"
proof -
  have unsealed: "transaction_draft\<lparr>ad_idempotency_key := k, ad_id := []\<rparr> = transaction_draft\<lparr>ad_idempotency_key := k\<rparr>" for k
    by (simp add: transaction_draft_def admission_draft_def Let_def split_def)
  have "time_text (time_utc (time_add example_time example_lifetime)) \<noteq> None"
    by code_simp
  moreover have "raw_free (sd_authority_receipt_json x)" if "x \<in> set (bundle_canonical example_bundle)" for x
    using that by (simp add: bundle_canonical_def example_bundle_def sd_authority_receipt_json_def)
  ultimately have "raw_free (sd_admission_json (transaction_draft\<lparr>ad_idempotency_key := k\<rparr>))" for k
    by (simp add: transaction_draft_def sd_admission_json_def Let_def omit_none_def)
  moreover have "raw_free (idempotency_json example_step example_snapshot example_objective
     transaction_parameters example_prescription)"
    by (simp add: idempotency_json_def)
  ultimately show ?thesis
    by (simp add: seal_admission_def unsealed content_id_digest_of sd_admission_identity_def transaction_def transaction_key_def)
qed

lemma example_admitted:
  "new_admission example_snapshot example_objective example_step example_prescription example_bundle
     transaction_parameters None None [] example_time example_lifetime = Inr transaction"
proof -
  have "objective_for_transition (sn_observation example_snapshot) example_objective example_step = Inr example_objective"
    "prior_program (sn_observation example_snapshot) = []" "prior_program settled_observation = []"
    by code_simp+
  moreover have "project_capabilities (sn_observation example_snapshot) example_step example_bundle example_time
      = Inr example_caps"
    using example_projected by (simp add: example_snapshot_def)
  moreover have "bundle_revision_error transaction_draft = None"
    by (simp add: bundle_revision_error_def transaction_draft_def fails_def)
  moreover have "first_failure (admission_errors example_snapshot example_step example_prescription example_caps None None
      example_lifetime) = None"
    using example_checked by (simp add: first_failure_None)
  ultimately show ?thesis
    using transaction_sealed
    by (simp add: new_admission_def example_admissible with_program_delta_def transaction_draft_def Let_def
        del: first_failure_None)
qed

lemma example_requested: "admissible_request example_snapshot example_step transaction_parameters [] example_time"
  by (simp add: admissible_request_def example_step_def)

theorem admission_admits_witness:
  "\<exists>ob. admission_current transaction example_snapshot ob example_step example_time = None
    \<and> admission_validate_history transaction = None"
  using admission_admits [OF example_admitted example_step_valid example_requested] by blast

section \<open>An effect on two files\<close>

definition plan_update :: resource_mutation where
  "plan_update = \<lparr>mu_resource = ''state'', mu_owner = [], mu_path = ''/repo/plan'', mu_prior = ''old'', mu_target = ''new'',
     mu_prior_link = [], mu_target_link = [], mu_prior_exists = True, mu_mode = 420, mu_install_last = False,
     mu_tree = [], mu_delete = False, mu_facets = [Facet_product]\<rparr>"

definition state_creation :: resource_mutation where
  "state_creation = plan_update\<lparr>mu_path := ''/repo/state'', mu_prior := [], mu_target := ''active'',
     mu_prior_exists := False, mu_install_last := True, mu_facets := [Facet_control]\<rparr>"

definition example_effect :: prepared_effect where
  "example_effect = \<lparr>pe_mutations = [state_creation, plan_update], pe_boundary = None, pe_post_verify = None,
     pe_verify_invocation = None, pe_applied = [], pe_tree_roots = [], pe_removed = [], pe_settled = False,
     pe_result = settled_result, pe_transition = example_step, pe_required = example_required,
     pe_effective = example_required, pe_facets = [Facet_control, Facet_product]\<rparr>"

definition example_files :: file_store where
  "example_files = \<lparr>fs_entries = [(''/repo/plan'', Regular ''old'' 420)], fs_calls = [], fs_syncs = []\<rparr>"

lemma example_order:
  "ordered_mutations example_effect = [plan_update, state_creation]" "tree_roots [plan_update, state_creation] = []"
  by code_simp+

lemma example_capable [simp]:
  "missing_capability example_required (new_capability_set example_required) = []" "example_required \<noteq> []"
  by code_simp+

text \<open>Both files are written, the plan first; with a fault at its eighth call, only the plan is.\<close>

definition done_effect :: prepared_effect where
  "done_effect = example_effect\<lparr>pe_applied := [plan_update, state_creation]\<rparr>"

definition done_files :: file_store where
  "done_files = \<lparr>fs_entries = [(''/repo/plan'', Regular ''new'' 420), (''/repo/state'', Regular ''active'' 420)],
     fs_calls = [], fs_syncs = []\<rparr>"

definition half_files :: file_store where
  "half_files = example_files\<lparr>fs_entries := [(''/repo/plan'', Regular ''new'' 420)]\<rparr>"

definition failing_files :: file_store where
  "failing_files = example_files\<lparr>fs_calls := [Fine, Fine, Fine, Fine, Fine, Fine, Fine, Fault]\<rparr>"

lemma example_writes:
  "apply_mutation plan_update example_files = (None, half_files)"
  "apply_mutation state_creation half_files = (None, done_files)"
  "apply_mutation plan_update failing_files = (None, half_files\<lparr>fs_calls := [Fault]\<rparr>)"
  "apply_mutation state_creation (half_files\<lparr>fs_calls := [Fault]\<rparr>) = (Some os_error, half_files)"
  by code_simp+

lemma example_effect_fields:
  "pe_required example_effect = example_required" "pe_effective example_effect = example_required"
  "pe_boundary example_effect = None" "pe_post_verify example_effect = None" "pe_applied example_effect = []"
  "pe_mutations example_effect = [state_creation, plan_update]"
  by (simp_all add: example_effect_def)

lemma no_tree [simp]: "mu_tree plan_update = []" "mu_tree state_creation = []"
  by (simp_all add: plan_update_def state_creation_def)

lemma example_executed: "execute example_effect example_files = ((settled_result, None), done_effect, done_files)"
  by (simp add: execute_def execute_mutations_def example_order example_writes example_effect_fields Let_def done_effect_def)

lemma example_interrupted:
  "\<exists>e. execute example_effect failing_files
     = ((settled_result, Some e), example_effect\<lparr>pe_applied := [plan_update]\<rparr>, half_files)"
  by (simp add: execute_def execute_mutations_def example_order example_writes example_effect_fields Let_def)

lemma example_fresh_effect: "fresh_effect example_effect" "verify_reads example_effect"
  by (simp_all add: fresh_effect_def verify_reads_def example_effect_def)

lemma example_facets: "union_state_facets (map mu_facets (pe_mutations example_effect)) = [Facet_control, Facet_product]"
  by code_simp

theorem executed_manifest_recorded_witness:
  "mset (pe_applied done_effect) = {#state_creation, plan_update#}
    \<and> committed_mutation_facts Event_owned_local [state_creation, plan_update] [Facet_control, Facet_product]
        (sort_facts (committed_effects done_effect)) = None"
proof -
  have "pe_mutations example_effect = [state_creation, plan_update]"
    by (simp add: example_effect_def)
  then show ?thesis
    using executed_manifest_recorded [OF example_fresh_effect(1) example_executed, of Event_owned_local
        "[Facet_control, Facet_product]"] example_facets
    by (simp add: settled_result_def)
qed

theorem failed_effect_undone_witness:
  "\<exists>e p' w' p'' w''. execute example_effect failing_files = ((settled_result, Some e), p', w')
    \<and> file_at w' ''/repo/plan'' = Some (Regular ''new'' 420) \<and> file_at w' ''/repo/state'' = None
    \<and> rollback p' (w'\<lparr>fs_calls := [], fs_syncs := []\<rparr>) = ([], p'', w'')
    \<and> file_at w'' ''/repo/plan'' = Some (Regular ''old'' 420) \<and> file_at w'' ''/repo/state'' = None"
proof -
  have "exact_manifest (pe_mutations example_effect) failing_files" "steady failing_files"
    "file_at failing_files ''/repo/plan'' = Some (Regular ''old'' 420)" "file_at failing_files ''/repo/state'' = None"
    "file_at half_files ''/repo/plan'' = Some (Regular ''new'' 420)" "file_at half_files ''/repo/state'' = None"
    unfolding example_effect_fields by code_simp+
  then show ?thesis
    using example_interrupted failed_effect_undone [OF _ _ example_fresh_effect example_effect_fields(3)] by metis
qed

text \<open>The plan alone, when its directory cannot be synchronised.\<close>

definition plan_effect :: prepared_effect where
  "plan_effect = example_effect\<lparr>pe_mutations := [plan_update]\<rparr>"


section \<open>Its receipt\<close>

definition target_observation :: sd_observation where
  "target_observation = example_observation
     \<lparr>ob_state_revision := 2, ob_phase := seen Phase_active, ob_delivery := seen Delivery_active\<rparr>"

definition target_digest :: string where
  "target_digest = digest_seen (canonical_policy target_observation)"

declare target_digest_def [code del]

definition target_snapshot :: sd_snapshot where
  "target_snapshot = \<lparr>sn_observation = zero_fact_maps (canonical_policy target_observation), sn_fingerprint = target_digest\<rparr>"

lemma digest_seen_valid [simp]: "valid_control_digest (digest_seen s)"
proof -
  obtain v where v: "sha256_hex v = digest_seen s"
    using observation_fingerprint_total [of s] digest_seen(1) [of s] by (auto simp: hash_json_def split: option.splits)
  then show ?thesis
    using sha_digest_valid [of v] unfolding v by simp
qed

lemma example_digests: "valid_sha256 example_digest" "valid_sha256 target_digest" "length target_digest = 64"
  by (simp_all add: example_digest_def target_digest_def digest_seen)

lemma target_seen: "ob_state_revision (sn_observation target_snapshot) = 2" "sn_fingerprint target_snapshot = target_digest"
  "target_digest \<noteq> []"
  using example_digests(3) by (auto simp: target_snapshot_def target_observation_def)

lemma target_canonical: "canonicalize target_observation = Inr target_snapshot"
proof -
  have "acceptable target_observation" "\<not> time_is_zero (ob_observed_at target_observation)"
    "ob_schema_version target_observation = snapshot_schema_version" "ob_state_revision target_observation \<noteq> 0"
    "observation_defaults target_observation = target_observation"
    by code_simp+
  then show ?thesis
    by (simp add: canonicalize_Inr observation_errors_None digest_seen(1) target_snapshot_def target_digest_def)
qed

definition example_reference :: program_ref where
  "example_reference = \<lparr>pf_id = ''boatstack.standard'', pf_version = ''1'', pf_fingerprint = example_fingerprint\<rparr>"

definition example_effects :: "sd_effect_fact list" where
  "example_effects = map (mutation_fact example_step) [plan_update, state_creation]"

definition receipt_of :: "sd_transition \<Rightarrow> transition_receipt" where
  "receipt_of t =
     (let r = receipt_runtime t transaction (receipt_draft ''flow-1'' 1 example_reference transaction t target_snapshot
            example_binding [Facet_control, Facet_product] example_effects [] [] example_time example_time)
      in r\<lparr>tr_id := ''trc-'' @ digest_of (transition_receipt_json (r\<lparr>tr_id := []\<rparr>))\<rparr>)"

lemma transaction_fields [simp]:
  "ad_id transaction = ''adm-'' @ digest_of (sd_admission_json (transaction_draft\<lparr>ad_idempotency_key := transaction_key\<rparr>))"
  "ad_expected_program transaction = example_fingerprint" "ad_expected_revision transaction = 1"
  "ad_parameters transaction = transaction_parameters" "ad_expected_snapshot transaction = example_digest"
  "ad_invocation_fingerprint transaction = []" "ad_authority transaction = example_bundle"
  "ad_transition_version transaction = 1" "ad_required_capabilities transaction = example_required"
  "ad_work transaction = None" "ad_bundle transaction = None" "ad_transition_id transaction = ''delivery.start''"
  by (simp_all add: transaction_def transaction_draft_def example_prescription_def example_draft_def
      example_freshness_def example_caps_def example_step_def transaction_parameters_def parameters_canonical_def
      bundle_canonical_def example_bundle_def)

lemma target_bound: "objective_binding_fingerprint (sn_observation target_snapshot) = Inr example_binding"
proof -
  have "ob_objective (sn_observation target_snapshot) = ob_objective settled_observation"
    by code_simp
  then show ?thesis
    using example_bound by (simp add: objective_binding_fingerprint_def)
qed

lemma example_facts_valid: "\<forall>f\<in>set example_effects. effect_fact_check f = None"
  by (simp add: example_effects_def effect_fact_check_def mutation_fact_def prior_fingerprint_def result_fingerprint_def
      mutation_state_fingerprint_def fails_def example_step_def plan_update_def state_creation_def mutation_operation_def Let_def)

lemma raw_free_receipt_documents [simp]:
  "raw_free (sd_effect_fact_json f)" "raw_free (program_ref_json p)" "raw_free (source_json u)"
  "time_text (vy_verified_at v) \<noteq> None \<Longrightarrow> raw_free (verification_fact_json v)"
  by (simp_all add: sd_effect_fact_json_def program_ref_json_def source_json_def verification_fact_json_def)

lemma example_receipt:
  assumes "tn_execution_context t = []"
  shows "new_sd_receipt ''flow-1'' 1 example_reference transaction t target_snapshot [Facet_control, Facet_product]
     example_effects [] [] example_time example_time = Inr (receipt_of t)"
proof -
  let ?r = "receipt_runtime t transaction (receipt_draft ''flow-1'' 1 example_reference transaction t target_snapshot
      example_binding [Facet_control, Facet_product] example_effects [] [] example_time example_time)"
  have facets: "canonical_facets [Facet_control, Facet_product] = Inr [Facet_control, Facet_product]"
    by code_simp
  have "program_ref_validate example_reference = None"
    by code_simp
  then have checks: "first_failure (new_receipt_errors ''flow-1'' 1 example_reference transaction target_snapshot
      example_effects example_time example_time) = None"
    by (simp add: new_receipt_errors_def target_bound fails_def)
      (simp add: example_reference_def target_seen example_effects_def)
  obtain v where "time_text example_time = Some v"
    using example_time_text(1) by blast
  then have "raw_free (transition_receipt_json (?r\<lparr>tr_id := []\<rparr>))"
    by (simp add: transition_receipt_json_def receipt_identity_fields_def receipt_evidence_fields_def
        receipt_outcome_fields_def Let_def receipt_draft_def receipt_runtime_def omit_none_def)
  then have "seal_receipt ?r = Inr (receipt_of t)"
    by (simp add: seal_receipt_def sd_receipt_identity_def content_id_digest_of receipt_of_def Let_def)
  then show ?thesis
    using checks assms by (simp add: new_sd_receipt_def target_bound facets with_lineage_def del: first_failure_None)
qed

lemma example_ready:
  "receipt_ready example_step transaction target_snapshot example_effects [] [] example_time example_time"
proof -
  have fields: "sn_fingerprint target_snapshot = target_digest"
    "tn_id example_step = ''delivery.start''" "\<not> pl_reconciles_program (tn_policy example_step)"
    "parameter_text transaction_parameters ''runtime_version'' = []"
    "parameter_text transaction_parameters ''accept_obligation_change'' = []"
    "\<forall>x\<in>set example_bundle. rp_role x = []" "distinct example_effects"
  proof -
    show "\<forall>x\<in>set example_bundle. rp_role x = []"
      by (simp add: example_bundle_def)
    show "distinct example_effects"
      by (simp add: example_effects_def mutation_fact_def plan_update_def state_creation_def)
  qed (simp add: target_snapshot_def, code_simp+)
  then show ?thesis
    using example_facts_valid example_digests by (simp add: receipt_ready_def Let_def)
qed

lemma step_context: "tn_execution_context example_step = []"
  by (simp add: example_step_def)

theorem receipt_commits_witness:
  "transition_receipt_validate (receipt_of example_step) = None
    \<and> tr_resulting_revision (receipt_of example_step) = 2"
  using receipt_commits [OF example_admitted example_step_valid example_requested
      example_receipt [OF step_context] example_ready]
  by simp

text \<open>The same commit under a step that reconciles the program.\<close>

definition reconciling_step :: sd_transition where
  "reconciling_step = example_step\<lparr>tn_policy := example_policy\<lparr>pl_reconciles_program := True\<rparr>\<rparr>"

lemma transaction_valid: "admission_validate_identity transaction = None"
  by (rule new_admission_identity [OF example_admitted example_step_valid example_requested])

theorem reconciled_receipt_rejected_witness:
  "transition_receipt_validate (receipt_of reconciling_step) \<noteq> None"
proof -
  have "tn_execution_context reconciling_step = []" "pl_reconciles_program (tn_policy reconciling_step)"
    "parameter_text transaction_parameters ''runtime_version'' = []"
    by code_simp+
  then show ?thesis
    using reconciled_receipt_rejected [OF example_receipt, of reconciling_step] transaction_valid by simp
qed

section \<open>Its journal\<close>

definition idle_journal :: journal_state where
  "idle_journal = \<lparr>jl_files = [], jl_active = [], jl_calls = [], jl_syncs = []\<rparr>"

definition journal_entry :: "string \<Rightarrow> resource_mutation list \<Rightarrow> journal_record" where
  "journal_entry status ms = \<lparr>jr_schema_version = journal_schema_version, jr_admission = transaction,
     jr_transition = ''delivery.start'', jr_class = Event_owned_local, jr_allowed = [Facet_control, Facet_product],
     jr_reconciles = False, jr_status = status, jr_mutations = ms, jr_reason = [], jr_receipt_id = [], jr_receipt = None,
     jr_created = example_time, jr_updated = example_time\<rparr>"

definition pending_journal :: "string \<Rightarrow> resource_mutation list \<Rightarrow> journal_state" where
  "pending_journal status ms = \<lparr>jl_files = [((ad_id transaction, Pending), journal_entry status ms)],
     jl_active = [ad_id transaction], jl_calls = [], jl_syncs = []\<rparr>"

lemma quiet_attempts [simp]: "jl_calls s = [] \<Longrightarrow> journal_attempts n s = (None, s)"
  by (induction n) (simp_all add: journal_call_def)

lemma quiet_try [simp]: "jl_calls s = [] \<Longrightarrow> journal_try s = (None, s)"
  unfolding journal_try_def by (rule quiet_attempts)

lemma quiet_write: "jl_calls s = [] \<Longrightarrow> jl_syncs s = [] \<Longrightarrow> write_journal i x j s = (None, put_journal i x j s)"
  by (simp add: write_journal_def journal_sync_def put_journal_def)

lemma digest_no_separator: "valid_control_digest v \<Longrightarrow> c \<in> set v \<Longrightarrow> c \<noteq> CHR ''/'' \<and> c \<noteq> backslash"
proof -
  have "\<not> lower_hex (CHR ''/'')" "\<not> lower_hex backslash"
    by code_simp+
  then show "valid_control_digest v \<Longrightarrow> c \<in> set v \<Longrightarrow> c \<noteq> CHR ''/'' \<and> c \<noteq> backslash"
    by (auto simp: valid_control_digest_def list_all_iff)
qed

lemma example_journal_name: "journal_name (ad_id transaction) ext = Inr (ad_id transaction @ ext)"
proof -
  have "\<not> list_ex (\<lambda>c. c = CHR ''/'' \<or> c = backslash) (digest_of j)" for j
    using digest_no_separator [OF digest_of_valid] by (auto simp: list_ex_iff)
  moreover have "\<not> list_ex (\<lambda>c. c = CHR ''/'' \<or> c = backslash) ''adm-''" "has_prefix ''adm-'' (''adm-'' @ v)" for v
    by (simp_all add: backslash_def has_prefix_def)
  ultimately show ?thesis
    unfolding journal_name_def transaction_fields list_ex_append by simp
qed

lemma example_policy_writes:
  "\<exists>p. durable_state_facet_policy example_step = Inr p \<and> fp_writes p = [Facet_control, Facet_product]"
proof -
  have "case durable_state_facet_policy example_step of Inr p \<Rightarrow> fp_writes p = [Facet_control, Facet_product] | Inl e \<Rightarrow> False"
    by code_simp
  then show ?thesis
    by (cases "durable_state_facet_policy example_step") simp_all
qed

lemma example_entry_readable:
  assumes "list_all (\<lambda>m. normalize_state_facets ''journal mutation state facets'' (mu_facets m) = Inr (mu_facets m)) ms"
    "status \<noteq> []"
  shows "read_journal_check False (journal_entry status ms) = None"
proof -
  have "normalize_state_facets ''journal allowed state facets'' [Facet_control, Facet_product]
      = Inr [Facet_control, Facet_product]" "event_valid Event_owned_local" "event_controllable Event_owned_local"
    by code_simp+
  then show ?thesis
    using transaction_valid assms
    by (simp add: read_journal_check_def read_journal_errors_def first_failure_None journal_entry_def legacy_committed_def
        facets_error_def fails_def list_all_iff)
qed

lemma example_begun:
  "journal_begin None transaction example_step example_time idle_journal = (None, pending_journal ''begun'' [])"
proof -
  obtain p where p: "durable_state_facet_policy example_step = Inr p" "fp_writes p = [Facet_control, Facet_product]"
    using example_policy_writes by blast
  have step: "tn_id example_step = ''delivery.start''" "tn_class example_step = Event_owned_local"
    "\<not> pl_reconciles_program (tn_policy example_step)"
    by (simp_all add: example_step_def example_policy_def)
  have idle: "jl_calls idle_journal = []" "jl_syncs idle_journal = []" "jl_active idle_journal = []" "jl_files idle_journal = []"
    "journal_at idle_journal i x = None" for i x
    by (simp_all add: idle_journal_def journal_at_def)
  show ?thesis
    unfolding journal_begin_def
    by (simp add: example_journal_name idle quiet_write p step del: transaction_fields)
      (simp add: put_journal_def pending_journal_def journal_entry_def idle_journal_def del: transaction_fields)
qed

lemma example_updated:
  assumes "list_all (\<lambda>m. normalize_state_facets ''journal mutation state facets'' (mu_facets m) = Inr (mu_facets m)) ms"
    "status \<noteq> []"
    and change: "(change (journal_entry status ms))\<lparr>jr_updated := example_time\<rparr> = journal_entry status' ms'"
  shows "journal_update (ad_id transaction) change example_time (pending_journal status ms)
    = (None, pending_journal status' ms')"
proof -
  let ?s = "pending_journal status ms"
  have s: "jl_calls ?s = []" "jl_syncs ?s = []" "jl_active ?s = [ad_id transaction]"
    "journal_at ?s (ad_id transaction) Pending = Some (journal_entry status ms)"
    by (simp_all add: pending_journal_def journal_at_def)
  then have "read_journal (ad_id transaction) Pending ?s = (Inr (journal_entry status ms), ?s)"
    using example_entry_readable [OF assms(1,2)] by (simp add: read_journal_def del: transaction_fields)
  then show ?thesis
    using s change
    by (simp add: journal_update_def bound_journal_def example_journal_name fails_def quiet_write del: transaction_fields)
      (simp add: put_journal_def pending_journal_def)
qed

lemma example_staged_facets:
  "list_all (\<lambda>m. normalize_state_facets ''journal mutation state facets'' (mu_facets m) = Inr (mu_facets m))
     [state_creation, plan_update]"
  by code_simp

lemma example_marked:
  "journal_mark (ad_id transaction) ''executing'' example_time (pending_journal ''begun'' [])
     = (None, pending_journal ''executing'' [])"
  "journal_stage (ad_id transaction) [state_creation, plan_update] example_time (pending_journal ''executing'' [])
     = (None, pending_journal ''staged'' [state_creation, plan_update])"
  "journal_mark (ad_id transaction) ''verifying'' example_time (pending_journal ''staged'' [state_creation, plan_update])
     = (None, pending_journal ''verifying'' [state_creation, plan_update])"
proof -
  have "\<not> blank_text ''executing''" "\<not> blank_text ''verifying''"
    by code_simp+
  then show "journal_mark (ad_id transaction) ''executing'' example_time (pending_journal ''begun'' [])
     = (None, pending_journal ''executing'' [])"
    "journal_mark (ad_id transaction) ''verifying'' example_time (pending_journal ''staged'' [state_creation, plan_update])
     = (None, pending_journal ''verifying'' [state_creation, plan_update])"
    unfolding journal_mark_def
    by (simp_all del: transaction_fields add: example_updated [OF example_staged_facets] example_updated [of "[]"]
        journal_entry_def)
  show "journal_stage (ad_id transaction) [state_creation, plan_update] example_time (pending_journal ''executing'' [])
     = (None, pending_journal ''staged'' [state_creation, plan_update])"
    unfolding journal_stage_def by (rule example_updated) (simp_all add: journal_entry_def)
qed

definition committed_journal :: journal_state where
  "committed_journal = \<lparr>jl_files = [((ad_id transaction, Committed), (journal_entry ''committed'' [state_creation, plan_update])
        \<lparr>jr_receipt_id := tr_id (receipt_of example_step), jr_receipt := Some (receipt_of example_step)\<rparr>)],
     jl_active = [], jl_calls = [], jl_syncs = []\<rparr>"

lemma example_journaled:
  "journal_commit (receipt_of example_step) example_time (pending_journal ''verifying'' [state_creation, plan_update])
     = (None, committed_journal)"
proof -
  let ?r = "receipt_of example_step" and ?s = "pending_journal ''verifying'' [state_creation, plan_update]"
  let ?j = "journal_entry ''verifying'' [state_creation, plan_update]"
  have r: "transition_receipt_validate ?r = None"
    by (rule new_sd_receipt_valid [OF example_admitted example_step_valid example_requested
          example_receipt [OF step_context] example_ready])
  have f: "tr_admission ?r = ad_id transaction" "tr_transition ?r = ''delivery.start''"
    using new_sd_receipt_fields [OF example_receipt [OF step_context]] by (simp_all add: example_step_def)
  have s: "jl_calls ?s = []" "jl_syncs ?s = []" "jl_active ?s = [ad_id transaction]" "jr_transition ?j = ''delivery.start''"
    "journal_at ?s (ad_id transaction) Pending = Some ?j" "journal_at ?s (ad_id transaction) Committed = None"
    "jr_admission ?j = transaction"
    by (simp_all add: pending_journal_def journal_at_def journal_entry_def)
  have "read_journal (ad_id transaction) Pending ?s = (Inr ?j, ?s)"
    using s example_entry_readable [OF example_staged_facets] by (simp add: read_journal_def del: transaction_fields)
  then show ?thesis
    using r f s
    by (simp add: journal_commit_def bound_journal_def example_journal_name fails_def quiet_write journal_install_def Let_def
        del: transaction_fields)
      (simp add: put_journal_def drop_journal_def move_journal_def journal_sync_def pending_journal_def committed_journal_def
        journal_entry_def journal_at_def del: transaction_fields)
qed

theorem commit_is_atomic_witness:
  "journal_at committed_journal (ad_id transaction) Pending = None
    \<and> journal_at committed_journal (ad_id transaction) Committed \<noteq> None"
proof -
  let ?s = "pending_journal ''verifying'' [state_creation, plan_update]"
  have f: "tr_admission (receipt_of example_step) = ad_id transaction"
    using new_sd_receipt_fields [OF example_receipt [OF step_context]] by simp
  have "journal_at ?s (ad_id transaction) Pending = Some (journal_entry ''verifying'' [state_creation, plan_update])"
    "journal_at ?s (ad_id transaction) Committed = None"
    by (simp_all add: pending_journal_def journal_at_def)
  note atomic = commit_is_atomic [OF example_journaled, unfolded f, OF this]
  then have "\<exists>j. journal_at committed_journal (ad_id transaction) Committed = Some j"
    by (elim conjE) (drule mp [OF _ refl], elim conjE exE, rule exI)
  then show ?thesis
    using atomic [THEN conjunct1] by (auto simp del: transaction_fields)
qed

theorem committed_record_checked_witness:
  "\<exists>j. journal_at committed_journal (ad_id transaction) Committed = Some j \<and> jr_receipt j = Some (receipt_of example_step)
    \<and> read_journal_check True j = None"
proof -
  have effects: "committed_effects done_effect = example_effects" "pe_facets done_effect = [Facet_control, Facet_product]"
    by (simp_all add: committed_effects_def done_effect_def example_effect_def example_effects_def)
  have manifest: "pe_mutations example_effect = [state_creation, plan_update]"
    "pe_facets example_effect = union_state_facets (map mu_facets (pe_mutations example_effect))"
    using example_facets by (simp_all add: example_effect_def)
  have step: "ad_transition_version transaction = tn_version example_step" "tn_class example_step \<noteq> Event_owned_external"
    "journal_at idle_journal (ad_id transaction) Committed = None" "er_settlement settled_result \<noteq> ''unknown''"
    by (simp_all add: example_step_def idle_journal_def journal_at_def settled_result_def)
  show ?thesis
    using committed_record_checked [OF example_begun example_marked(1) example_marked(2) [folded manifest(1)]
        example_fresh_effect(1) example_executed step(4) _ example_marked(3) [folded manifest(1)]
        example_receipt [OF step_context, folded effects] example_journaled [folded manifest(1)] step(1,3) manifest(2)]
      step(2) by blast
qed

section \<open>What the conditions exclude\<close>

text \<open>
  A tree with a symbolic link in it is removed; rolling back reports no error, but the link has
  become an empty regular file. \<open>exact_mutation\<close> excludes such members.
\<close>

definition link_removal :: resource_mutation where
  "link_removal = plan_update\<lparr>mu_path := ''/repo/tree/link'', mu_prior := [], mu_target := [], mu_prior_link := ''../plan'',
     mu_tree := ''/repo/tree'', mu_delete := True\<rparr>"

definition linked_files :: file_store where
  "linked_files = \<lparr>fs_entries = [(''/repo/tree/link'', Symlink ''../plan'')], fs_calls = [], fs_syncs = []\<rparr>"

lemma removed_link_becomes_file:
  "(case execute_mutations (example_effect\<lparr>pe_mutations := [link_removal]\<rparr>) linked_files of (e, p, w) \<Rightarrow>
     e = None \<and> file_at w ''/repo/tree/link'' = None
     \<and> (case rollback p w of (es, p', w') \<Rightarrow>
          es = [] \<and> file_at w' ''/repo/tree/link'' = Some (Regular [] 420)))"
  by code_simp

text \<open>
  A text that is not UTF-8 is hashed with the escape of U+FFFD, decoded to that character, and
  hashed as its bytes from then on: the identity of a record that holds one is not reproduced from
  its file. The journal of the model holds records of valid UTF-8 only.
\<close>

lemma invalid_text_escaped: "escape_string [CHR 0xFF] = [backslash] @ ''ufffd''"
  by (simp add: byte_in_def code_def)

lemma invalid_text_decoded: "unquote ([backslash] @ ''ufffd'') = [CHR 0xEF, CHR 0xBF, CHR 0xBD]"
proof -
  have "hex4 ''fffd'' = Some 65533"
    by (simp add: hex4_def hex_char_def hex_value_def code_def byte_in_def digit_char_def upper_char_def)
  moreover have "utf8_encode 65533 = [CHR 0xEF, CHR 0xBF, CHR 0xBD]"
    by (simp add: utf8_encode_def char_of_def bit_iff_odd)
  ultimately show ?thesis
    by (simp add: Let_def)
qed

lemma invalid_text_lost:
  "escape_string (unquote (escape_string [CHR 0xFF])) \<noteq> escape_string [CHR 0xFF]"
  unfolding invalid_text_escaped invalid_text_decoded
  by (simp add: line_separator_def byte_in_def code_def Let_def)

end
