(* ===== verification/Delivery_Ledger_Examples.thy ===== *)
theory Delivery_Ledger_Examples
  imports Delivery_Ledger_Laws Delivery_Commit_Examples
begin

text \<open>
  The transaction of \<open>Delivery_Commit_Examples\<close> as a history of the journal and as a ledger with one
  record, and small ledgers for the queries that compare several records.
\<close>

section \<open>The transaction as a history\<close>

definition example_store :: receipt_store where
  "example_store = \<lparr>rs_bound = [(''flow-1'', (transaction, \<lparr>ly_receipt_path = ''/repo/receipts'', ly_event_path = ''/repo/events''\<rparr>))]\<rparr>"

lemma example_receipt_fields:
  "tr_flow (receipt_of example_step) = ''flow-1''" "tr_sequence (receipt_of example_step) = 1"
  "tr_admission (receipt_of example_step) = ad_id transaction"
  "tr_idempotency (receipt_of example_step) = transaction_key"
  by (simp_all add: receipt_of_def receipt_runtime_def receipt_draft_def Let_def transaction_def transaction_draft_def
      del: transaction_fields)

lemma example_numbered:
  "next_sequence ''flow-1'' example_store (pending_journal ''verifying'' ms) = (Inr 1, pending_journal ''verifying'' ms)"
  by (simp add: next_sequence_def layout_for_flow_def example_store_def scan_committed_receipts_def
      committed_admissions_def pending_journal_def del: transaction_fields)

lemma example_history: "journal_step\<^sup>*\<^sup>* idle_journal committed_journal"
proof -
  let ?ms = "[state_creation, plan_update]"
  have "journal_step\<^sup>*\<^sup>* idle_journal (pending_journal ''begun'' [])"
    by (rule r_into_rtranclp [of journal_step, OF step_begin [OF example_begun]])
  also have "journal_step (pending_journal ''begun'' []) (pending_journal ''executing'' [])"
    by (rule step_mark [OF example_marked(1)])
  also have "journal_step (pending_journal ''executing'' []) (pending_journal ''staged'' ?ms)"
    by (rule step_stage [OF example_marked(2)])
  also have "journal_step (pending_journal ''staged'' ?ms) (pending_journal ''verifying'' ?ms)"
    by (rule step_mark [OF example_marked(3)])
  also have "journal_step (pending_journal ''verifying'' ?ms) committed_journal"
    by (rule step_commit [OF _ example_journaled, of example_store]) (simp add: example_receipt_fields example_numbered)
  finally show ?thesis .
qed

definition example_committed :: journal_record where
  "example_committed = (journal_entry ''committed'' [state_creation, plan_update])
     \<lparr>jr_receipt_id := tr_id (receipt_of example_step), jr_receipt := Some (receipt_of example_step)\<rparr>"

lemma example_ledger:
  "journal_at committed_journal i Committed = (if i = ad_id transaction then Some example_committed else None)"
  "jr_receipt example_committed = Some (receipt_of example_step)"
  by (simp_all add: committed_journal_def journal_at_def example_committed_def del: transaction_fields)

theorem ledger_grows_witness:
  "ledger_numbered committed_journal
    \<and> ledger_record committed_journal (ad_id transaction) (example_committed, receipt_of example_step)"
proof -
  have "ledger_numbered idle_journal"
    by (simp add: ledger_numbered_def ledger_record_def idle_journal_def journal_at_def)
  from ledger_grows [OF example_history this] show ?thesis
    by (simp add: ledger_record_def example_ledger del: transaction_fields)
qed

lemma example_committed_readable: "read_journal_check True example_committed = None"
proof -
  let ?j = "journal_entry ''verifying'' [state_creation, plan_update]"
  note agrees = new_sd_receipt_agrees [OF example_receipt [OF step_context]]
  have version: "ad_transition_version transaction = tn_version example_step"
    by (simp add: example_step_def)
  have facets: "canonical_facets [Facet_control, Facet_product] = Inr [Facet_control, Facet_product]"
    by code_simp
  have facts: "committed_mutation_facts Event_owned_local [state_creation, plan_update] [Facet_control, Facet_product]
      (sort_facts example_effects) = None"
    using committed_facts_match [of done_effect "[state_creation, plan_update]" "[Facet_control, Facet_product]" Event_owned_local]
      execute_success [OF example_fresh_effect(1) example_executed] example_facets
    by (simp add: settled_result_def example_effects_def done_effect_def committed_effects_def example_effect_def)
  have "transition_receipt_validate (receipt_of example_step) = None"
    by (rule new_sd_receipt_valid [OF example_admitted example_step_valid example_requested
          example_receipt [OF step_context] example_ready])
  then show ?thesis
    using example_entry_readable [OF example_staged_facets, of "''verifying''"] agrees [OF version] facets facts
    by (intro committed_readable [of ?j transaction example_step "receipt_of example_step" _ example_time])
      (simp_all add: journal_entry_def example_committed_def example_step_def)
qed

theorem idempotency_exact_witness:
  "find_by_idempotency None transaction_key committed_journal = (Inr (Some (receipt_of example_step)), committed_journal)
    \<and> receipt_of example_step \<in> snd ` ledger committed_journal"
proof -
  have quiet: "jl_calls committed_journal = []" "transaction_key \<noteq> []"
    by (simp_all add: committed_journal_def transaction_key_def)
  have "committed_admissions committed_journal = [ad_id transaction]"
    by (simp add: committed_admissions_def committed_journal_def del: transaction_fields)
  then have "find_by_idempotency None transaction_key committed_journal = (Inr (Some (receipt_of example_step)), committed_journal)"
    using quiet example_committed_readable
    by (simp add: find_by_idempotency_def scan_committed_receipts_def read_journal_def example_ledger match_key_def
        example_receipt_fields del: transaction_fields)
  then show ?thesis
    using idempotency_exact [OF _ quiet(2)] by fastforce
qed

section \<open>A context that was advanced\<close>

definition branch_invocation :: invocation where
  "branch_invocation = example_invocation\<lparr>iv_ref := ''refs/heads/feature''\<rparr>"

definition other_invocation :: invocation where
  "other_invocation = example_invocation\<lparr>iv_ref := ''refs/heads/other''\<rparr>"

definition advance_receipt :: transition_receipt where
  "advance_receipt = (receipt_of example_step)\<lparr>tr_context := ''advance'', tr_prior_invocation := Some example_invocation,
     tr_resulting_invocation := Some branch_invocation\<rparr>"

definition advanced_records :: "committed list" where
  "advanced_records = [(example_committed, advance_receipt)]"

lemma context_keys:
  "context_key example_invocation \<noteq> context_key branch_invocation"
  "context_key other_invocation \<notin> {context_key example_invocation, context_key branch_invocation}"
  "same_repository example_invocation example_invocation" "same_repository branch_invocation example_invocation"
  "same_repository other_invocation example_invocation"
  by code_simp+

lemma advance_fields:
  "tr_flow advance_receipt = ''flow-1''" "tr_sequence advance_receipt = 1" "tr_context advance_receipt = ''advance''"
  "tr_prior_invocation advance_receipt = Some example_invocation"
  "tr_resulting_invocation advance_receipt = Some branch_invocation"
  by (simp_all add: advance_receipt_def example_receipt_fields)

theorem lineage_exact_witness:
  "invocation_authorized_by_records advanced_records ''flow-1'' example_invocation branch_invocation = Inr True
    \<and> descends (later_advances advanced_records ''flow-1'' example_invocation) (context_key example_invocation)
        (context_key branch_invocation)
    \<and> \<not> descends (later_advances advanced_records ''flow-1'' example_invocation) (context_key example_invocation)
        (context_key other_invocation)"
proof -
  have receipts: "flow_receipts advanced_records ''flow-1'' = [advance_receipt]"
    by (simp add: flow_receipts_def advanced_records_def advance_fields)
  then have distinct: "distinct (map tr_sequence (flow_receipts advanced_records ''flow-1''))"
    by simp
  have "invocation_authorized_by_records advanced_records ''flow-1'' example_invocation i
    = Inr (same_repository i example_invocation \<and> context_key i \<in> {context_key example_invocation, context_key branch_invocation})" for i
    using context_keys
    by (simp add: invocation_authorized_by_records_def receipts advance_into_def advances_def advance_fields
        context_keys(1) [symmetric] insert_commute)
  then have "invocation_authorized_by_records advanced_records ''flow-1'' example_invocation branch_invocation = Inr True"
    "invocation_authorized_by_records advanced_records ''flow-1'' example_invocation other_invocation = Inr False"
    using context_keys by simp_all
  then show ?thesis
    using lineage_exact [OF distinct, of example_invocation] context_keys by simp
qed

section \<open>A committed output\<close>

definition report_output :: work_output where
  "report_output = \<lparr>wo_id = ''report'', wo_path = ''report.md'', wo_media_type = ''text/markdown'', wo_required = True,
     wo_max_bytes = 100, wo_guidance_path = [], wo_guidance_sha = [], wo_guidance_content = [], wo_schema_path = [],
     wo_schema_sha = [], wo_schema_content = []\<rparr>"

definition report_contract :: work_contract where
  "report_contract = \<lparr>wc_id = ''review'', wc_fingerprint = example_fingerprint, wc_instruction_path = [],
     wc_instruction_sha = [], wc_instruction_content = [], wc_inputs = [], wc_outputs = [report_output]\<rparr>"

definition report_evidence :: work_output_evidence where
  "report_evidence = \<lparr>wx_id = ''report'', wx_path = ''report.md'', wx_media_type = ''text/markdown'',
     wx_sha256 = sha256_hex ''fine'', wx_size = 4, wx_content = ''fine''\<rparr>"

definition report_work :: work_evidence where
  "report_work = \<lparr>wk_schema_version = work_evidence_schema_version, wk_request = ''req'', wk_request_fingerprint = ''rf'',
     wk_result_fingerprint = ''result'', wk_run = ''flow-1'', wk_program = ''boatstack.standard'', wk_entry = ''main'',
     wk_contract = ''review'', wk_contract_fingerprint = example_fingerprint, wk_transition = ''delivery.start'',
     wk_program_fingerprint = example_fingerprint, wk_context_fingerprint = ''cf'', wk_state_revision = 1,
     wk_repository = ''repo'', wk_worktree = ''tree'', wk_inputs = [], wk_outputs = [report_evidence]\<rparr>"

definition report_selector :: work_selector where
  "report_selector = \<lparr>sel_flow = ''flow-1'', sel_program = ''boatstack.standard'',
     sel_program_fingerprint = example_fingerprint, sel_entry = ''main'', sel_objective = example_objective,
     sel_invocation = example_invocation, sel_transition = ''delivery.start'', sel_work = report_contract,
     sel_output = ''report'', sel_maximum = 5\<rparr>"

definition report_receipt :: "u64 \<Rightarrow> string \<Rightarrow> transition_receipt" where
  "report_receipt n i = (receipt_of example_step)\<lparr>tr_id := i, tr_sequence := n, tr_work := ''result''\<rparr>"

definition report_journal :: journal_record where
  "report_journal = example_committed\<lparr>jr_admission := transaction\<lparr>ad_work := Some report_work\<rparr>\<rparr>"

definition report_records :: "committed list" where
  "report_records = [(report_journal, report_receipt 2 ''later''), (report_journal, report_receipt 1 ''first'')]"

lemma report_receipt_fields:
  "tr_flow (report_receipt n i) = ''flow-1''" "tr_transition (report_receipt n i) = ''delivery.start''"
  "tr_resulting_revision (report_receipt n i) = 2" "tr_sequence (report_receipt n i) = n" "tr_id (report_receipt n i) = i"
  "tr_program (report_receipt n i) = example_reference" "tr_prior_revision (report_receipt n i) = 1"
  "tr_work (report_receipt n i) = ''result''"
  by (simp_all add: report_receipt_def receipt_of_def receipt_runtime_def receipt_draft_def Let_def example_step_def
      target_seen)

lemma report_admission:
  "ad_invocation (jr_admission report_journal) = example_invocation"
  "ad_objective (jr_admission report_journal) = example_objective"
  "ad_work (jr_admission report_journal) = Some report_work"
  "ad_expected_program (jr_admission report_journal) = example_fingerprint"
  "ad_expected_revision (jr_admission report_journal) = 1"
proof -
  have "ad_invocation transaction = example_invocation" "ad_objective transaction = example_objective"
    by (simp_all add: transaction_def transaction_draft_def admission_draft_def Let_def split_def example_snapshot_def
        settled_identity)
  then show "ad_invocation (jr_admission report_journal) = example_invocation"
    "ad_objective (jr_admission report_journal) = example_objective"
    "ad_work (jr_admission report_journal) = Some report_work"
    "ad_expected_program (jr_admission report_journal) = example_fingerprint"
    "ad_expected_revision (jr_admission report_journal) = 1"
    by (simp_all add: report_journal_def)
qed

lemma report_found:
  "find_committed_output report_records report_selector
     = Inr (Some \<lparr>co_receipt = report_receipt 2 ''later'', co_work = report_work, co_output = report_evidence\<rparr>)"
proof -
  have "sd_objective_validate example_objective = None" "invocation_validate example_invocation True = None"
    by code_simp+
  then have complete: "\<not> selector_incomplete report_selector"
    by (simp add: selector_incomplete_def) (simp add: report_selector_def report_contract_def example_fingerprint_def)
  have "record_authorized report_records ''flow-1'' example_invocation example_invocation = Inr True"
    by (simp add: record_authorized_def same_state_lineage_def)
  then have chosen: "select_producer report_records report_selector None report_records
      = Inr (Some (report_journal, report_receipt 2 ''later''))"
    by (simp add: report_records_def producer_of_def report_receipt_fields report_admission report_selector_def)
  have "\<not> producer_stale report_selector (report_journal, report_receipt 2 ''later'') report_work"
    by (simp add: producer_stale_def report_receipt_fields report_admission)
      (simp add: report_selector_def report_work_def report_contract_def example_reference_def same_objective_identity_def
        example_invocation_def)
  moreover have "\<not> output_mismatch report_output report_evidence"
    by (simp add: output_mismatch_def report_output_def report_evidence_def)
  moreover have "wc_outputs (sel_work report_selector) = [report_output]" "sel_output report_selector = ''report''"
    "wo_id report_output = ''report''" "wo_required report_output" "wk_outputs report_work = [report_evidence]"
    "wx_id report_evidence = ''report''"
    by (simp_all add: report_selector_def report_contract_def report_output_def report_work_def report_evidence_def)
  ultimately have "selected_output report_selector (report_journal, report_receipt 2 ''later'')
    = Inr \<lparr>co_receipt = report_receipt 2 ''later'', co_work = report_work, co_output = report_evidence\<rparr>"
    by (simp add: selected_output_def report_admission)
  then show ?thesis
    by (simp add: find_committed_output_def complete chosen)
qed

theorem committed_output_exact_witness:
  "\<exists>c. latest_of (eligible report_records report_selector) c (set report_records) \<and> report_receipt 2 ''later'' = snd c
    \<and> tr_work (snd c) = wk_result_fingerprint report_work"
  using committed_output_exact [OF report_found] by auto

end
