(* ===== verification/Delivery_Engine_Examples.thy ===== *)
theory Delivery_Engine_Examples
  imports Delivery_Engine_Laws Delivery_Apply_Laws Delivery_Ledger_Examples
begin

text \<open>
  The engine on the small program of the examples, over ports made of the model's own journal, effect
  and files: the step is prescribed, admitted and applied, and its receipt committed.
\<close>

section \<open>Ports over the journal and the files\<close>

record delivery_world =
  dw_journal :: journal_state
  dw_files :: file_store
  dw_effect :: prepared_effect

definition on_journal :: "(journal_state \<Rightarrow> gerror option \<times> journal_state) \<Rightarrow> (delivery_world, unit) act" where
  "on_journal f w = (case f (dw_journal w) of (None, j) \<Rightarrow> (Returned (), w\<lparr>dw_journal := j\<rparr>)
     | (Some e, j) \<Rightarrow> (Failed e, w\<lparr>dw_journal := j\<rparr>))"

definition run_effect :: "(delivery_world, effect_result) act" where
  "run_effect w = (let ((r, e), p, fs) = execute (dw_effect w) (dw_files w); w' = w\<lparr>dw_effect := p, dw_files := fs\<rparr> in
     case e of None \<Rightarrow> (Returned r, w') | Some e \<Rightarrow> (Failed e, w'))"

definition undo_effect :: "(delivery_world, unit) act" where
  "undo_effect w = (let (es, p, fs) = rollback (dw_effect w) (dw_files w); w' = w\<lparr>dw_effect := p, dw_files := fs\<rparr> in
     case es of [] \<Rightarrow> (Returned (), w') | e # _ \<Rightarrow> (Failed e, w'))"

definition observe_files :: "(delivery_world, sd_observation) act" where
  "observe_files w = (Returned (if file_at (dw_files w) ''/repo/state'' = None then example_observation
     else target_observation), w)"

definition delivery_ports :: "(delivery_world, unit, unit) engine_ports" where
  "delivery_ports = \<lparr>
     ep_observe = (\<lambda>q. observe_files),
     ep_now = (\<lambda>w. (example_time, w)),
     ep_acquire = (\<lambda>i rs. act_return ()),
     ep_release = (\<lambda>l. act_return ()),
     ep_begin = (\<lambda>a t. on_journal (journal_begin None a t example_time)),
     ep_stage = (\<lambda>i ms. on_journal (journal_stage i ms example_time)),
     ep_mark = (\<lambda>i status. on_journal (journal_mark i status example_time)),
     ep_commit = (\<lambda>r. on_journal (journal_commit r example_time)),
     ep_abort = (\<lambda>i reason. on_journal (journal_abort i reason example_time)),
     ep_recovery = (\<lambda>i reason. on_journal (journal_require_recovery i reason example_time)),
     ep_prepare = (\<lambda>a t. act_return ()),
     ep_manifest = (\<lambda>p w. pe_mutations (dw_effect w)),
     ep_effects = (\<lambda>p w. committed_effects (dw_effect w)),
     ep_facets = (\<lambda>p w. pe_facets (dw_effect w)),
     ep_transferred = (\<lambda>p w. None),
     ep_execute = (\<lambda>p. run_effect),
     ep_rollback = (\<lambda>p. undo_effect),
     ep_bind = (\<lambda>f a. act_return ()),
     ep_unbind = (\<lambda>f. act_return ()),
     ep_sequence = (\<lambda>f. act_return 1),
     ep_find = (\<lambda>i k. act_return None),
     ep_project = (\<lambda>r. act_return ())\<rparr>"

definition example_engine :: "(delivery_world, unit, unit) engine" where
  "example_engine = \<lparr>en_control = example_supervisor, en_program = example_reference, en_ports = delivery_ports\<rparr>"

definition example_resolve_request :: sd_resolve_request where
  "example_resolve_request = \<lparr>sq_invocation = example_invocation, sq_objective = example_objective,
     sq_authority = example_bundle, sq_parameters = transaction_parameters, sq_requested = ''delivery.start'',
     sq_trace = False, sq_work = None, sq_bundle = None, sq_bundle_revision = [], sq_evidence = None\<rparr>"

definition example_apply_request :: sd_apply_request where
  "example_apply_request = \<lparr>xq_resolve = example_resolve_request, xq_flow = ''flow-1'',
     xq_prescription = example_prescription, xq_parameters = transaction_parameters, xq_idempotency = [], xq_lifetime = 0\<rparr>"

definition world_before :: "journal_state \<Rightarrow> delivery_world" where
  "world_before j = \<lparr>dw_journal = j, dw_files = example_files, dw_effect = example_effect\<rparr>"

definition world_after :: "journal_state \<Rightarrow> delivery_world" where
  "world_after j = \<lparr>dw_journal = j, dw_files = done_files, dw_effect = done_effect\<rparr>"

lemma example_engine_simps [simp]:
  "en_control example_engine = example_supervisor" "en_program example_engine = example_reference"
  "en_ports example_engine = delivery_ports"
  by (simp_all add: example_engine_def)

lemma example_requests [simp]:
  "sq_invocation example_resolve_request = example_invocation" "sq_objective example_resolve_request = example_objective"
  "sq_authority example_resolve_request = example_bundle" "sq_parameters example_resolve_request = transaction_parameters"
  "sq_requested example_resolve_request = ''delivery.start''" "\<not> sq_trace example_resolve_request"
  "sq_work example_resolve_request = None" "sq_bundle example_resolve_request = None"
  "sq_bundle_revision example_resolve_request = []" "sq_evidence example_resolve_request = None"
  "xq_resolve example_apply_request = example_resolve_request" "xq_flow example_apply_request = ''flow-1''"
  "xq_prescription example_apply_request = example_prescription" "xq_parameters example_apply_request = transaction_parameters"
  "xq_idempotency example_apply_request = []" "xq_lifetime example_apply_request = 0"
  by (simp_all add: example_resolve_request_def example_apply_request_def)

section \<open>The port calls of the run\<close>

lemma quiet_ports [simp]:
  "ep_now delivery_ports w = (example_time, w)" "ep_acquire delivery_ports i rs w = (Returned (), w)"
  "ep_release delivery_ports l w = (Returned (), w)" "ep_prepare delivery_ports a t w = (Returned (), w)"
  "ep_bind delivery_ports f a w = (Returned (), w)" "ep_unbind delivery_ports f w = (Returned (), w)"
  "ep_sequence delivery_ports f w = (Returned 1, w)" "ep_project delivery_ports r w = (Returned (), w)"
  "ep_transferred delivery_ports p w = None"
  by (simp_all add: delivery_ports_def act_return_def)

lemma effect_ports [simp]:
  "ep_manifest delivery_ports p (world_before j) = [state_creation, plan_update]"
  "ep_facets delivery_ports p (world_after j) = [Facet_control, Facet_product]"
  "ep_effects delivery_ports p (world_after j) = example_effects"
  "ep_execute delivery_ports p (world_before j) = (Returned settled_result, world_after j)"
  by (simp_all add: delivery_ports_def world_before_def world_after_def example_effect_fields run_effect_def example_executed)
    (simp_all add: done_effect_def example_effect_def committed_effects_def example_effects_def)

lemma observe_ports [simp]:
  "ep_observe delivery_ports q (world_before j) = (Returned example_observation, world_before j)"
  "ep_observe delivery_ports q (world_after j) = (Returned target_observation, world_after j)"
proof -
  have "file_at example_files ''/repo/state'' = None" "file_at done_files ''/repo/state'' = Some (Regular ''active'' 420)"
    by code_simp+
  then show "ep_observe delivery_ports q (world_before j) = (Returned example_observation, world_before j)"
    "ep_observe delivery_ports q (world_after j) = (Returned target_observation, world_after j)"
    by (simp_all add: delivery_ports_def observe_files_def world_before_def world_after_def)
qed

lemma journal_ports [simp]:
  "ep_begin delivery_ports transaction example_step (world_before idle_journal)
     = (Returned (), world_before (pending_journal ''begun'' []))"
  "ep_mark delivery_ports (ad_id transaction) ''executing'' (world_before (pending_journal ''begun'' []))
     = (Returned (), world_before (pending_journal ''executing'' []))"
  "ep_stage delivery_ports (ad_id transaction) [state_creation, plan_update] (world_before (pending_journal ''executing'' []))
     = (Returned (), world_before (pending_journal ''staged'' [state_creation, plan_update]))"
  "ep_mark delivery_ports (ad_id transaction) ''verifying'' (world_after (pending_journal ''staged'' [state_creation, plan_update]))
     = (Returned (), world_after (pending_journal ''verifying'' [state_creation, plan_update]))"
  "ep_commit delivery_ports (receipt_of example_step) (world_after (pending_journal ''verifying'' [state_creation, plan_update]))
     = (Returned (), world_after committed_journal)"
  by (simp_all add: delivery_ports_def on_journal_def world_before_def world_after_def example_begun example_marked
      example_journaled del: transaction_fields)

lemma canonical_observed [simp]:
  "engine_canonicalize example_engine example_observation = Inr example_snapshot"
  "engine_canonicalize example_engine target_observation = Inr target_snapshot"
proof -
  have "pf_fingerprint example_reference = example_fingerprint" "length example_fingerprint = 64"
    by code_simp+
  moreover have "example_observation\<lparr>ob_program_fingerprint := example_fingerprint,
      ob_program := known (program_binding example_observation example_fingerprint)
        \<lparr>ev_source = ''compiled-control-program'', ev_fingerprint = example_fingerprint, ev_revision = [],
         ev_observed_at = ob_observed_at example_observation\<rparr>\<rparr> = example_observation"
    "target_observation\<lparr>ob_program_fingerprint := example_fingerprint,
      ob_program := known (program_binding target_observation example_fingerprint)
        \<lparr>ev_source = ''compiled-control-program'', ev_fingerprint = example_fingerprint, ev_revision = [],
         ev_observed_at = ob_observed_at target_observation\<rparr>\<rparr> = target_observation"
    by code_simp+
  ultimately show "engine_canonicalize example_engine example_observation = Inr example_snapshot"
    "engine_canonicalize example_engine target_observation = Inr target_snapshot"
    using example_snapshot_canonical target_canonical
    by (simp_all add: engine_canonicalize_def canonicalize_for_program_def)
qed

section \<open>The resolution\<close>

lemma requested_early: "supervise_early example_supervisor example_snapshot example_objective ''delivery.start'' = None"
proof -
  have "supervise_early example_supervisor (example_snapshot\<lparr>sn_fingerprint := ''digest''\<rparr>) example_objective ''delivery.start''
      = None"
    unfolding supervise_early_def Let_def drift_refuses_def by code_simp
  moreover have "sn_fingerprint example_snapshot \<noteq> []"
    by (simp add: example_snapshot_def)
  ultimately show ?thesis
    by (simp add: supervise_early_def Let_def)
qed

lemma requested_preferred:
  "preferred_transition (sn_observation example_snapshot) example_objective ''delivery.start'' example_program example_step"
  unfolding preferred_transition_def by code_simp

lemma requested_decision:
  "de_kind (supervise example_supervisor example_snapshot example_objective [Authority_repository] ''delivery.start'')
     = Decision_prescribed"
  "de_transition (supervise example_supervisor example_snapshot example_objective [Authority_repository] ''delivery.start'')
     = Some example_step"
  using supervisor_prescribes [OF supervisor_registry, of example_snapshot example_objective "[Authority_repository]"
      "''delivery.start''" example_step] requested_early requested_preferred example_sufficient by simp_all

definition example_decision :: sd_decision where
  "example_decision = supervise example_supervisor example_snapshot example_objective [Authority_repository] ''delivery.start''"

definition example_resolution :: sd_resolution where
  "example_resolution = resolved example_snapshot example_objective example_decision None
     (Some (example_prescription, transaction))"

lemma example_fields [simp]:
  "sn_observation example_snapshot = settled_observation" "sn_fingerprint example_snapshot = example_digest"
  "tn_id example_step = ''delivery.start''" "tn_work example_step = None" "evidence_fingerprint example_resolve_request = []"
  "invocation_drift en example_resolve_request sn t = None"
  "work_verdict example_resolve_request sn example_step d = None"
  by (simp_all add: example_snapshot_def example_step_def evidence_fingerprint_def invocation_drift_def work_verdict_def)

lemma example_issued:
  "prescribe example_engine example_resolve_request example_snapshot example_objective example_decision example_step example_time
     = Inr (example_objective, example_decision, Some (example_prescription, transaction))"
proof -
  have "objective_for_transition settled_observation example_objective example_step = Inr example_objective"
    "project_control_bundle settled_observation example_step transaction_parameters None = Inr None"
    by code_simp+
  moreover have "resolution_lifetime = example_lifetime"
    by (simp add: resolution_lifetime_def example_lifetime_def)
  ultimately show ?thesis
    by (simp add: prescribe_def example_admissible example_projected example_prescribed example_admitted)
qed

lemma example_resolved:
  "sd_resolve example_engine example_resolve_request (world_before j) = (Returned (example_resolution, None), world_before j)"
proof -
  obtain cts where trace: "supervise_with_trace example_supervisor example_snapshot example_objective [Authority_repository]
      ''delivery.start'' = (example_decision, cts)"
    by (cases "supervise_with_trace example_supervisor example_snapshot example_objective [Authority_repository]
      ''delivery.start''") (simp add: example_decision_def supervise_def)
  have "invocation_validate example_invocation False = None" "bundle_validate example_bundle example_time = None"
    "ob_invocation settled_observation = example_invocation"
    "registry_lookup (sv_registry example_supervisor) ''delivery.start'' = Some example_step"
    "tn_scope example_step \<noteq> Objective_optional_preserve"
    "sd_objective_validate example_objective = None"
    by code_simp+
  moreover have "de_kind example_decision = Decision_prescribed" "de_transition example_decision = Some example_step"
    using requested_decision by (simp_all add: example_decision_def)
  ultimately show ?thesis
    by (simp add: sd_resolve_def sd_resolve_snapshot_def act_bind_def act_get_def act_else_def act_return_def
        engine_objective_def trace resolution_trace_of_def example_issued example_bundle_set example_resolution_def Let_def)
qed

section \<open>The application\<close>

definition example_running :: apply_result where
  "example_running = no_result\<lparr>xr_source := Some example_snapshot, xr_objective := example_objective,
     xr_decision := example_decision, xr_admission := Some transaction\<rparr>"

definition example_applied :: apply_result where
  "example_applied = example_running\<lparr>xr_target := Some target_snapshot, xr_receipt := Some (receipt_of example_step)\<rparr>"

definition example_transaction :: "unit transaction" where
  "example_transaction = \<lparr>ta_flow = ''flow-1'', ta_transition = example_step, ta_admission = transaction, ta_sequence = 1,
     ta_effect = ()\<rparr>"

lemma example_transaction_fields [simp]:
  "ta_flow example_transaction = ''flow-1''" "ta_transition example_transaction = example_step"
  "ta_admission example_transaction = transaction" "ta_sequence example_transaction = 1"
  by (simp_all add: example_transaction_def)

lemmas act_defs = act_bind_def act_get_def act_else_def act_return_def Let_def

lemma run_verified:
  "apply_verified example_engine example_transaction settled_result example_time target_snapshot
     (example_running\<lparr>xr_target := Some target_snapshot\<rparr>)
     (world_after (pending_journal ''verifying'' [state_creation, plan_update]))
   = (Returned (example_applied, None), world_after committed_journal)"
proof -
  have "ad_invocation transaction = example_invocation"
    by (simp add: transaction_def transaction_draft_def admission_draft_def Let_def split_def settled_identity)
  moreover have "ob_invocation (sn_observation target_snapshot) = example_invocation"
    "target_matches example_step (sn_observation target_snapshot)" "er_outputs settled_result = []"
    by code_simp+
  ultimately show ?thesis
    by (simp add: apply_verified_def apply_receipt_def act_defs same_invocation_def
        example_receipt [OF step_context] example_applied_def example_running_def)
qed

lemma run_executed:
  "apply_executed example_engine example_transaction example_invocation settled_result example_time example_running
     (world_after (pending_journal ''staged'' [state_creation, plan_update]))
   = (Returned (example_applied, None), world_after committed_journal)"
  by (simp add: apply_executed_def act_defs run_verified del: transaction_fields)

lemma transaction_capable: "validate_effect_capabilities transaction example_step = None"
proof -
  have "effect_required_capabilities example_step = example_required"
    by code_simp
  moreover have "ad_effective_capabilities transaction = example_required"
    by (simp add: transaction_def transaction_draft_def admission_draft_def Let_def split_def example_caps_def)
  ultimately show ?thesis
    by (simp add: validate_effect_capabilities_def fails_def)
qed

lemma run_bound:
  "apply_bound example_engine ''flow-1'' example_step transaction () example_invocation example_running
     (world_before idle_journal) = (Returned (example_applied, None), world_after committed_journal)"
  by (simp add: apply_bound_def apply_begun_def act_defs transaction_capable example_transaction_def [symmetric] run_executed
      del: transaction_fields)

lemma run_prepared:
  "apply_prepared example_engine (example_apply_request\<lparr>xq_lifetime := resolution_lifetime\<rparr>) example_step transaction
     example_objective example_snapshot example_running (world_before idle_journal)
   = (Returned (example_applied, None), world_after committed_journal)"
proof -
  obtain ob where ob: "objective_for_transition settled_observation example_objective example_step = Inr ob"
    "admission_current transaction example_snapshot ob example_step example_time = None"
    using new_admission_current [OF example_admitted example_step_valid example_requested] by auto
  have "objective_for_transition settled_observation example_objective example_step = Inr example_objective"
    by code_simp
  then have "admission_current transaction example_snapshot example_objective example_step example_time = None"
    using ob by simp
  then show ?thesis
    by (simp add: apply_prepared_def act_defs act_defer_def transaction_capable run_bound)
qed

lemma prescription_fields:
  "pr_freshness example_prescription = example_freshness" "pr_transition example_prescription = ''delivery.start''"
  "fr_authority example_freshness = cj_authority_fingerprint example_caps"
  "prescription_invocation_error example_prescription [] = None"
  by (simp_all add: example_prescription_def example_draft_def example_freshness_def prescription_invocation_error_def
      fails_def)

lemma prescription_still_current: "validate_prescription_current example_prescription example_snapshot = None"
proof -
  have "prescription_current example_prescription example_snapshot example_step example_caps = None"
    using example_checked by (simp add: admission_errors_def)
  then have "sd_prescription_validate example_prescription = None"
    by (simp add: prescription_current_None)
  moreover have "freshness_validate example_freshness = None"
    using example_fresh by (auto simp: snapshot_freshness_Inr)
  ultimately show ?thesis
    using example_fresh example_bound
    by (simp add: validate_prescription_current_def prescription_fields freshness_check_def)
qed

lemma example_requests_kept:
  "example_resolve_request\<lparr>sq_parameters := transaction_parameters\<rparr> = example_resolve_request"
  "example_resolve_request\<lparr>sq_objective := example_objective\<rparr> = example_resolve_request"
  "example_apply_request\<lparr>xq_resolve := example_resolve_request, xq_lifetime := n\<rparr> = example_apply_request\<lparr>xq_lifetime := n\<rparr>"
  "example_apply_request\<lparr>xq_lifetime := n, xq_resolve := example_resolve_request\<rparr> = example_apply_request\<lparr>xq_lifetime := n\<rparr>"
  by (simp_all add: example_resolve_request_def example_apply_request_def)

lemma applied_example:
  "sd_apply example_engine example_apply_request (world_before idle_journal)
     = (Returned (example_applied, None), world_after committed_journal)"
proof -
  have "sd_prescription_validate example_prescription = None"
    using prescription_still_current by (simp add: validate_prescription_current_def split: option.splits)
  moreover have "project_control_bundle settled_observation example_step transaction_parameters None = Inr None"
    by code_simp
  moreover have "sr_snapshot example_resolution = Some example_snapshot" "sr_objective example_resolution = example_objective"
    "sr_decision example_resolution = example_decision" "sr_prescription example_resolution = Some example_prescription"
    by (simp_all add: example_resolution_def resolved_def)
  moreover have "de_kind example_decision = Decision_prescribed" "de_transition example_decision = Some example_step"
    using requested_decision by (simp_all add: example_decision_def)
  moreover have "resolution_lifetime = example_lifetime"
    by (simp add: resolution_lifetime_def example_lifetime_def)
  ultimately show ?thesis
    using run_prepared
    by (simp add: sd_apply_def engine_apply_fresh_def resolution_snapshot_def engine_apply_resolved_def engine_apply_admitted_def
        engine_apply_locked_def act_defs act_release_def example_resolved prescription_fields prescription_still_current
        example_admitted example_running_def example_requests_kept del: transaction_fields)
qed

section \<open>What the run shows\<close>

theorem resolve_prescribes_admissible_witness:
  "sr_prescription example_resolution = Some example_prescription
    \<and> validate_prescription_current example_prescription example_snapshot = None
    \<and> ad_prescription transaction = pr_id example_prescription"
proof -
  have issued: "sr_prescription example_resolution = Some example_prescription"
    "sr_snapshot example_resolution = Some example_snapshot" "sr_admission example_resolution = Some transaction"
    by (simp_all add: example_resolution_def resolved_def)
  then show ?thesis
    using resolve_prescribes_admissible [OF example_resolved issued(1)] by auto
qed

theorem applied_as_prescribed_witness:
  "fst (sd_apply example_engine example_apply_request (world_before idle_journal)) = Returned (example_applied, None)
    \<and> tr_prescription (receipt_of example_step) = pr_id example_prescription
    \<and> target_matches example_step (sn_observation target_snapshot)"
proof -
  have fields: "\<not> xr_replayed example_applied" "xr_receipt example_applied = Some (receipt_of example_step)"
    "xr_target example_applied = Some target_snapshot" "xr_decision example_applied = example_decision"
    "de_transition example_decision = Some example_step"
    using requested_decision by (simp_all add: example_applied_def example_running_def no_result_def example_decision_def)
  show ?thesis
    using applied_as_prescribed [OF applied_example fields(1)] fields by (auto simp: applied_example)
qed

theorem apply_follows_protocol_witness:
  "\<exists>es. sd_apply (logged_engine example_engine) example_apply_request (world_before idle_journal, [])
      = (Returned (example_applied, None), world_after committed_journal, es)
    \<and> stage_after Idle es = Some (Closed True)"
proof -
  obtain r w es where run: "sd_apply (logged_engine example_engine) example_apply_request (world_before idle_journal, [])
      = (r, w, es)"
    by (metis prod.exhaust)
  note follows = apply_follows_protocol [OF run]
  then have "r = Returned (example_applied, None)" "w = world_after committed_journal"
    by (simp_all add: applied_example)
  moreover from this have "stage_after Idle es = Some (Closed True)"
    using follows by (auto simp: example_applied_def example_running_def no_result_def)
  ultimately show ?thesis
    using run by blast
qed

definition refused_resolution :: sd_resolution where
  "refused_resolution = resolved example_snapshot example_objective
     (refuse Decision_refused [Lit ''authority is insufficient''] example_decision) None None"

theorem refusal_reported_stale_witness:
  "\<exists>m. engine_apply_resolved example_engine example_apply_request example_resolve_request refused_resolution
      example_snapshot no_result (world_before idle_journal)
    = (Returned (no_result, Some (Gerror Stale_prescription m)), world_before idle_journal)"
proof -
  have "validate_prescription_current (xq_prescription example_apply_request) example_snapshot = None"
    using prescription_still_current by simp
  moreover have "sr_prescription refused_resolution = None"
    by (simp add: refused_resolution_def resolved_def)
  ultimately show ?thesis
    by (intro exI) (rule refusal_reported_stale)
qed

end
